(* ===== verification/Prelude.thy ===== *)
theory Prelude
  imports Main "HOL-Library.AList" "HOL-Library.Char_ord" "HOL-Library.List_Lexorder"
    "HOL-Library.Product_Lexorder" "HOL-Library.Multiset"
begin

text \<open>
  The vocabulary every other theory uses.

  A Python exception is a value of \<open>exc\<close>, one constructor per class the modelled code
  raises or catches; a function that may raise has the result type \<open>exc + 'a\<close>, \<open>Inl\<close>
  being the exception. \<open>rbind\<close> sequences two such computations, \<open>rmap\<close> is a
  comprehension whose element expression may raise (it stops at the first exception, as the
  comprehension does), \<open>rfold\<close> a loop over a list whose body may raise.

  A Python \<open>dict\<close> is an association list in insertion order: \<open>AList.update\<close>
  overwrites a key in place and appends a new one, which is what \<open>d[k] = v\<close> does.
  A Python \<open>set\<close> that is only iterated over is a list without repetitions, and the
  theorems hold for every order of it.
\<close>

section \<open>Exceptions and fallible computations\<close>

datatype exc =
    ValueError string | KeyError string | IndexError | TypeError | AttributeError
  | AssertionError | NotImplementedError | OverflowError | ZeroDivisionError
  | RetriableError string | HistoryUnavailableError string | NoBatchModeError string
  | RPCNotReachable string | FastShutdownError string | ErrorRollupError
  | ConnectionError | HTTPError | RequestsTimeout | TooManyRedirects | Web3Timeout | OSError
  | OtherException string

type_synonym 'a res = "exc + 'a"

named_theorems res_simps \<open>unfolding and splitting facts of fallible computations\<close>

definition rbind :: "'e + 'a \<Rightarrow> ('a \<Rightarrow> 'e + 'b) \<Rightarrow> 'e + 'b" where
  "rbind m f = (case m of Inl e \<Rightarrow> Inl e | Inr x \<Rightarrow> f x)"

lemma rbind_simps [simp, res_simps]:
  "rbind (Inl e) f = Inl e" "rbind (Inr x) f = f x"
  by (simp_all add: rbind_def)

lemma rbind_cong [fundef_cong]:
  "m = m' \<Longrightarrow> (\<And>x. m' = Inr x \<Longrightarrow> f x = f' x) \<Longrightarrow> rbind m f = rbind m' f'"
  by (auto simp: rbind_def split: sum.splits)

lemma rbind_Inr_iff [res_simps]:
  "rbind m f = Inr y \<longleftrightarrow> (\<exists>x. m = Inr x \<and> f x = Inr y)"
  by (cases m) auto

lemma rbind_Inl_iff [res_simps]:
  "rbind m f = Inl e \<longleftrightarrow> m = Inl e \<or> (\<exists>x. m = Inr x \<and> f x = Inl e)"
  by (cases m) auto

fun rmap :: "('a \<Rightarrow> 'e + 'b) \<Rightarrow> 'a list \<Rightarrow> 'e + 'b list" where
  "rmap f [] = Inr []"
| "rmap f (x # xs) = rbind (f x) (\<lambda>y. rbind (rmap f xs) (\<lambda>ys. Inr (y # ys)))"

fun rfold :: "('s \<Rightarrow> 'a \<Rightarrow> 'e + 's) \<Rightarrow> 's \<Rightarrow> 'a list \<Rightarrow> 'e + 's" where
  "rfold f s [] = Inr s"
| "rfold f s (x # xs) = rbind (f s x) (\<lambda>s'. rfold f s' xs)"

lemma rmap_cong [fundef_cong]:
  "xs = ys \<Longrightarrow> (\<And>x. x \<in> set ys \<Longrightarrow> f x = g x) \<Longrightarrow> rmap f xs = rmap g ys"
  by (induction ys arbitrary: xs) auto

lemma rmap_Inr_iff:
  "rmap f xs = Inr ys \<longleftrightarrow> list_all2 (\<lambda>x y. f x = Inr y) xs ys"
proof (induction xs arbitrary: ys)
  case Nil
  then show ?case by auto
next
  case (Cons x xs)
  then show ?case by (cases ys) (auto simp: rbind_Inr_iff)
qed

lemma rbind_rmapI: "list_all2 (\<lambda>x y. f x = Inr y) xs ys \<Longrightarrow> g ys = r \<Longrightarrow> rbind (rmap f xs) g = r"
  by (simp flip: rmap_Inr_iff)

lemma rmap_length: "rmap f xs = Inr ys \<Longrightarrow> length ys = length xs"
  by (auto simp: rmap_Inr_iff dest: list_all2_lengthD)

lemma rmap_Inr_map: "(\<And>x. x \<in> set xs \<Longrightarrow> f x = Inr (g x)) \<Longrightarrow> rmap f xs = Inr (map g xs)"
  by (induction xs) auto

lemma rmap_Inl_ex: "rmap f xs = Inl e \<Longrightarrow> \<exists>x \<in> set xs. f x = Inl e"
  by (induction xs) (auto simp: rbind_Inl_iff)

lemma rfold_append: "rfold f s (xs @ ys) = rbind (rfold f s xs) (\<lambda>s'. rfold f s' ys)"
  by (induction xs arbitrary: s) (auto simp: rbind_def split: sum.splits)

lemma rfold_invariant:
  assumes "rfold f s xs = Inr s'" and "P s"
    and "\<And>s x t. P s \<Longrightarrow> x \<in> set xs \<Longrightarrow> f s x = Inr t \<Longrightarrow> P t"
  shows "P s'"
  using assms
proof (induction xs arbitrary: s)
  case Nil
  then show ?case by simp
next
  case (Cons x xs)
  from Cons.prems(1) obtain t where t: "f s x = Inr t" and rest: "rfold f t xs = Inr s'"
    by (auto simp: rbind_Inr_iff)
  have pt: "P t" using Cons.prems(3) [OF Cons.prems(2) _ t] by simp
  have "\<And>s y u. P s \<Longrightarrow> y \<in> set xs \<Longrightarrow> f s y = Inr u \<Longrightarrow> P u"
    using Cons.prems(3) by (metis list.set_intros(2))
  then show ?case by (rule Cons.IH [OF rest pt])
qed

section \<open>Python dictionaries\<close>

definition dict_get :: "(string \<times> 'v) list \<Rightarrow> string \<Rightarrow> 'v res" where
  "dict_get d k = (case map_of d k of None \<Rightarrow> Inl (KeyError k) | Some v \<Rightarrow> Inr v)"

lemma dict_get_Inr [simp]: "dict_get d k = Inr v \<longleftrightarrow> map_of d k = Some v"
  by (auto simp: dict_get_def split: option.splits)

lemma map_of_upd: "map_of (AList.update k v d) = (map_of d)(k \<mapsto> v)"
  by (rule AList.update_conv')

lemma keys_upd: "map fst (AList.update k v d) =
    (if k \<in> set (map fst d) then map fst d else map fst d @ [k])"
  by (simp add: AList.update_keys)

lemma distinct_upd: "distinct (map fst d) \<Longrightarrow> distinct (map fst (AList.update k v d))"
  by (rule AList.distinct_update)

lemma map_of_entries_nth:
  "distinct (map fst d) \<Longrightarrow> (k, v) \<in> set d \<longleftrightarrow> map_of d k = Some v"
  by simp

text \<open>\<open>defaultdict(list)\<close>: \<open>d[k].append(x)\<close>.\<close>

definition dict_append :: "'k \<Rightarrow> 'v \<Rightarrow> ('k \<times> 'v list) list \<Rightarrow> ('k \<times> 'v list) list" where
  "dict_append k x d =
     AList.update k ((case map_of d k of None \<Rightarrow> [] | Some xs \<Rightarrow> xs) @ [x]) d"

text \<open>Grouping the items of a list by a key, in order of first occurrence.\<close>

definition group_on :: "('a \<Rightarrow> 'k) \<Rightarrow> 'a list \<Rightarrow> ('k \<times> 'a list) list" where
  "group_on f xs = fold (\<lambda>x. dict_append (f x) x) xs []"

lemma map_of_dict_append:
  "map_of (dict_append k x d) j =
     (if j = k then Some ((case map_of d k of None \<Rightarrow> [] | Some xs \<Rightarrow> xs) @ [x]) else map_of d j)"
  by (simp add: dict_append_def map_of_upd)

lemma keys_dict_append: "set (map fst (dict_append k x d)) = insert k (set (map fst d))"
  by (auto simp: dict_append_def keys_upd)

lemma distinct_dict_append: "distinct (map fst d) \<Longrightarrow> distinct (map fst (dict_append k x d))"
  unfolding dict_append_def by (rule distinct_upd)

lemma fold_dict_append_distinct:
  "distinct (map fst d) \<Longrightarrow> distinct (map fst (fold (\<lambda>x. dict_append (f x) x) xs d))"
  by (induction xs arbitrary: d) (auto simp: distinct_dict_append)

lemma fold_dict_append_lookup:
  "map_of (fold (\<lambda>x. dict_append (f x) x) xs d) j =
     (if map_of d j = None \<and> j \<notin> f ` set xs then None
      else Some ((case map_of d j of None \<Rightarrow> [] | Some ys \<Rightarrow> ys) @ filter (\<lambda>x. f x = j) xs))"
proof (induction xs arbitrary: d)
  case Nil
  then show ?case by (auto split: option.splits)
next
  case (Cons x xs)
  show ?case
    by (auto simp: Cons.IH map_of_dict_append split: option.splits)
qed

lemma group_on_distinct: "distinct (map fst (group_on f xs))"
  by (simp add: group_on_def fold_dict_append_distinct)

lemma group_on_lookup:
  "map_of (group_on f xs) j = (if j \<in> f ` set xs then Some (filter (\<lambda>x. f x = j) xs) else None)"
  by (simp add: group_on_def fold_dict_append_lookup)

lemma group_on_keys: "set (map fst (group_on f xs)) = f ` set xs"
  using dom_map_of_conv_image_fst [of "group_on f xs"]
  by (auto simp: group_on_lookup dom_def split: if_splits)

lemma group_on_member:
  "(j, g) \<in> set (group_on f xs) \<longleftrightarrow> j \<in> f ` set xs \<and> g = filter (\<lambda>x. f x = j) xs"
  using map_of_entries_nth [OF group_on_distinct, of j g f xs] by (auto simp: group_on_lookup)

section \<open>Sorting\<close>

text \<open>\<open>list.sort(key = f)\<close> is stable, and so is \<open>sort_key f\<close>.\<close>

lemma sort_key_stable_filter: "filter (\<lambda>y. f y = k) (sort_key f xs) = filter (\<lambda>y. f y = k) xs"
  by (rule sort_key_stable)

lemma mset_sort_key: "mset (sort_key f xs) = mset xs"
  by simp

text \<open>\<open>itertools.groupby\<close> groups neighbours.\<close>

function groupby :: "('a \<Rightarrow> 'k) \<Rightarrow> 'a list \<Rightarrow> ('k \<times> 'a list) list" where
  "groupby f [] = []"
| "groupby f (y # ys) =
     (f y, y # takeWhile (\<lambda>z. f z = f y) ys) # groupby f (dropWhile (\<lambda>z. f z = f y) ys)"
  by pat_completeness auto
termination
  by (relation "measure (\<lambda>(_, ys). length ys)") (auto intro: le_imp_less_Suc length_dropWhile_le)

lemma groupby_first:
  assumes "sorted (map n (y # ys))" and "\<forall>z \<in> set (y # ys). \<forall>w \<in> set (y # ys). f z = f w \<longleftrightarrow> n z = n w"
  shows "takeWhile (\<lambda>z. f z = f y) ys = filter (\<lambda>z. f z = f y) ys \<and>
    dropWhile (\<lambda>z. f z = f y) ys = filter (\<lambda>z. f z \<noteq> f y) ys"
  using assms
proof (induction ys)
  case (Cons z zs)
  have eq: "f w = f y \<longleftrightarrow> n w = n y" if "w \<in> set (z # zs)" for w
    using Cons.prems(2) that by auto
  show ?case
  proof (cases "f z = f y")
    case True
    have "sorted (map n (y # zs))" using Cons.prems(1) by simp
    moreover have "\<forall>z \<in> set (y # zs). \<forall>w \<in> set (y # zs). f z = f w \<longleftrightarrow> n z = n w"
      using Cons.prems(2) by simp
    ultimately have "takeWhile (\<lambda>z. f z = f y) zs = filter (\<lambda>z. f z = f y) zs \<and>
      dropWhile (\<lambda>z. f z = f y) zs = filter (\<lambda>z. f z \<noteq> f y) zs" by (rule Cons.IH)
    with True show ?thesis by simp
  next
    case False
    have "n y < n z" using False eq [of z] Cons.prems(1) by auto
    moreover have "n z \<le> n w" if "w \<in> set zs" for w using that Cons.prems(1) by auto
    ultimately have "f w \<noteq> f y" if "w \<in> set zs" for w
      using that eq [of w] by fastforce
    with False show ?thesis by (simp add: filter_empty_conv filter_id_conv)
  qed
qed simp

lemma groupby_groups:
  fixes n :: "'a \<Rightarrow> 'k::linorder"
  assumes "sorted (map n xs)" and "\<forall>z \<in> set xs. \<forall>w \<in> set xs. f z = f w \<longleftrightarrow> n z = n w"
  shows "distinct (map fst (groupby f xs)) \<and> fst ` set (groupby f xs) = f ` set xs \<and>
    (\<forall>(k, g) \<in> set (groupby f xs). g = filter (\<lambda>z. f z = k) xs)"
  using assms
proof (induction f xs rule: groupby.induct)
  case (2 f y ys)
  note first = groupby_first [OF "2.prems"]
  let ?rest = "filter (\<lambda>z. f z \<noteq> f y) ys"
  have rest: "dropWhile (\<lambda>z. f z = f y) ys = ?rest" and head: "takeWhile (\<lambda>z. f z = f y) ys = filter (\<lambda>z. f z = f y) ys"
    using first by simp_all
  have "sorted (map n ?rest)" using "2.prems"(1) by (simp add: sorted_filter)
  moreover have "\<forall>z \<in> set ?rest. \<forall>w \<in> set ?rest. f z = f w \<longleftrightarrow> n z = n w" using "2.prems"(2) by simp
  ultimately have ih: "distinct (map fst (groupby f ?rest)) \<and> fst ` set (groupby f ?rest) = f ` set ?rest \<and>
    (\<forall>(k, g) \<in> set (groupby f ?rest). g = filter (\<lambda>z. f z = k) ?rest)"
    using "2.IH" unfolding rest by blast
  have group: "groupby f (y # ys) = (f y, filter (\<lambda>z. f z = f y) (y # ys)) # groupby f ?rest"
    by (simp add: rest head)
  have "g = filter (\<lambda>z. f z = k) (y # ys)" if "(k, g) \<in> set (groupby f ?rest)" for k g
  proof -
    from ih that have g: "g = filter (\<lambda>z. f z = k) ?rest" by blast
    from that have "k \<in> fst ` set (groupby f ?rest)" by force
    with ih have "k \<noteq> f y" by auto
    then show ?thesis unfolding g by (auto intro!: filter_cong)
  qed
  moreover have "f ` set (y # ys) = insert (f y) (f ` set ?rest)" by auto
  moreover have "f y \<notin> f ` set ?rest" by auto
  ultimately show ?case using ih unfolding group by auto
qed simp

lemma fst_le_pair: "p \<le> q \<Longrightarrow> fst p \<le> fst (q :: 'a::linorder \<times> 'b::linorder)"
  by (cases p; cases q) auto

lemma sorted_last: "sorted (map f xs) \<Longrightarrow> x \<in> set xs \<Longrightarrow> f x \<le> f (last xs)"
  by (induction xs rule: rev_induct) (auto simp: sorted_append)

section \<open>Python strings, ranges and slices\<close>

text \<open>Strings are ASCII; \<open>lower\<close> and \<open>strip\<close> act on ASCII letters and blanks.\<close>

definition lower_char :: "char \<Rightarrow> char" where
  "lower_char c = (let n = (of_char c :: nat) in if 65 \<le> n \<and> n \<le> 90 then char_of (n + 32) else c)"

definition str_lower :: "string \<Rightarrow> string" where
  "str_lower s = map lower_char s"

definition startswith :: "'a list \<Rightarrow> 'a list \<Rightarrow> bool" where
  "startswith s p \<longleftrightarrow> take (length p) s = p"

fun str_contains :: "string \<Rightarrow> string \<Rightarrow> bool" where
  "str_contains [] p = (p = [])"
| "str_contains (c # s) p = (startswith (c # s) p \<or> str_contains s p)"

fun str_split :: "char \<Rightarrow> string \<Rightarrow> string list" where
  "str_split sep [] = [[]]"
| "str_split sep (c # s) =
     (if c = sep then [] # str_split sep s
      else case str_split sep s of [] \<Rightarrow> [[c]] | w # ws \<Rightarrow> (c # w) # ws)"

definition is_space :: "char \<Rightarrow> bool" where
  "is_space c \<longleftrightarrow> c \<in> {CHR '' '', CHR 0x09, CHR 0x0A, CHR 0x0B, CHR 0x0C, CHR 0x0D}"

definition str_strip :: "string \<Rightarrow> string" where
  "str_strip s = rev (dropWhile is_space (rev (dropWhile is_space s)))"

lemma lower_char_idem [simp]: "lower_char (lower_char c) = lower_char c"
proof (cases "65 \<le> (of_char c :: nat) \<and> (of_char c :: nat) \<le> 90")
  case True
  then have "(of_char (char_of ((of_char c :: nat) + 32) :: char) :: nat) = of_char c + 32"
    by simp
  with True show ?thesis by (simp add: lower_char_def Let_def)
next
  case False
  then show ?thesis by (auto simp: lower_char_def Let_def)
qed

lemma str_lower_idem [simp]: "str_lower (str_lower s) = str_lower s"
  by (simp add: str_lower_def)

text \<open>\<open>range(a, b, s)\<close>; a zero step is a \<open>ValueError\<close>.\<close>

function up_range :: "int \<Rightarrow> int \<Rightarrow> int \<Rightarrow> int list" where
  "up_range a b s = (if 0 < s \<and> a < b then a # up_range (a + s) b s else [])"
  by pat_completeness auto
termination
  by (relation "measure (\<lambda>(a, b, s). nat (b - a))") auto

declare up_range.simps [simp del]

definition py_range :: "int \<Rightarrow> int \<Rightarrow> int \<Rightarrow> int list res" where
  "py_range a b s =
     (if s = 0 then Inl (ValueError ''range() arg 3 must not be zero'')
      else if 0 < s then Inr (up_range a b s)
      else Inr (map uminus (up_range (- a) (- b) (- s))))"

text \<open>\<open>xs[i:j]\<close> for non-negative \<open>i\<close>, \<open>j\<close>.\<close>

definition slice :: "nat \<Rightarrow> nat \<Rightarrow> 'a list \<Rightarrow> 'a list" where
  "slice i j xs = take (j - i) (drop i xs)"

lemma length_slice [simp]: "length (slice i j xs) = min (j - i) (length xs - i)"
  by (simp add: slice_def)

lemma slice_Nil [simp]: "slice i j [] = []"
  by (simp add: slice_def)

section \<open>Stateful computations that may raise\<close>

text \<open>
  An action takes a state and returns the state it leaves, with a value or an exception: an
  exception does not undo what was done before it. \<open>sfinally m f\<close> is
  \<open>try: m finally: f\<close>, where an exception of \<open>f\<close> replaces the outcome of \<open>m\<close>;
  \<open>sfor f xs\<close> is a loop.
\<close>

type_synonym ('s, 'a) act = "'s \<Rightarrow> 's \<times> 'a res"

definition sret :: "'a \<Rightarrow> ('s, 'a) act" where
  "sret x s = (s, Inr x)"

definition sraise :: "exc \<Rightarrow> ('s, 'a) act" where
  "sraise e s = (s, Inl e)"

definition sbind :: "('s, 'a) act \<Rightarrow> ('a \<Rightarrow> ('s, 'b) act) \<Rightarrow> ('s, 'b) act" where
  "sbind m f s = (case m s of (s', Inl e) \<Rightarrow> (s', Inl e) | (s', Inr x) \<Rightarrow> f x s')"

definition sthen :: "('s, 'a) act \<Rightarrow> ('s, 'b) act \<Rightarrow> ('s, 'b) act" where
  "sthen m n = sbind m (\<lambda>_. n)"

definition sfinally :: "('s, 'a) act \<Rightarrow> ('s, unit) act \<Rightarrow> ('s, 'a) act" where
  "sfinally m f s =
     (case m s of (s', r) \<Rightarrow> (case f s' of (s'', Inl e) \<Rightarrow> (s'', Inl e) | (s'', Inr _) \<Rightarrow> (s'', r)))"

fun sfor :: "('a \<Rightarrow> ('s, unit) act) \<Rightarrow> 'a list \<Rightarrow> ('s, unit) act" where
  "sfor f [] s = (s, Inr ())"
| "sfor f (x # xs) s = (case f x s of (s', Inl e) \<Rightarrow> (s', Inl e) | (s', Inr _) \<Rightarrow> sfor f xs s')"

text \<open>A computation without state among stateful ones.\<close>

definition lift_res :: "'a res \<Rightarrow> ('s, 'a) act" where
  "lift_res r s = (s, r)"

named_theorems act_simps \<open>unfolding facts of stateful computations\<close>

lemma sret_simp [simp, act_simps]: "sret x s = (s, Inr x)"
  by (simp add: sret_def)

lemma sraise_simp [simp, act_simps]: "sraise e s = (s, Inl e)"
  by (simp add: sraise_def)

lemma sbind_Inr [act_simps]: "m s = (s', Inr x) \<Longrightarrow> sbind m f s = f x s'"
  by (simp add: sbind_def)

lemma sbind_Inl [act_simps]: "m s = (s', Inl e) \<Longrightarrow> sbind m f s = (s', Inl e)"
  by (simp add: sbind_def)

lemma sbind_returns:
  "sbind m f s = (t, Inr y) \<longleftrightarrow> (\<exists>s' x. m s = (s', Inr x) \<and> f x s' = (t, Inr y))"
  by (auto simp: sbind_def split: prod.splits sum.splits)

lemma sthen_returns:
  "sthen m n s = (t, Inr y) \<longleftrightarrow> (\<exists>s' x. m s = (s', Inr x) \<and> n s' = (t, Inr y))"
  by (simp add: sthen_def sbind_returns)

lemma sbind_keeps:
  assumes "sbind m f s = (t, r)" and "P s"
    and "\<And>s' q. m s = (s', q) \<Longrightarrow> P s'"
    and "\<And>x s' t' q. P s' \<Longrightarrow> f x s' = (t', q) \<Longrightarrow> P t'"
  shows "P t"
  using assms by (auto simp: sbind_def split: prod.splits sum.splits)

lemma sfor_keeps:
  assumes "sfor f xs s = (t, r)" and "P s"
    and "\<And>x s' t' q. x \<in> set xs \<Longrightarrow> P s' \<Longrightarrow> f x s' = (t', q) \<Longrightarrow> P t'"
  shows "P t"
  using assms
proof (induction xs arbitrary: s)
  case Nil
  then show ?case by simp
next
  case (Cons x xs)
  obtain s1 r1 where f: "f x s = (s1, r1)" by (cases "f x s")
  have p: "P s1" using Cons.prems(3) [OF _ Cons.prems(2) f] by simp
  show ?case
  proof (cases r1)
    case (Inl e)
    with Cons.prems(1) f p show ?thesis by auto
  next
    case (Inr u)
    with Cons.prems(1) f have "sfor f xs s1 = (t, r)" by simp
    then show ?thesis using p
      by (rule Cons.IH) (use Cons.prems(3) in \<open>meson list.set_intros(2)\<close>)
  qed
qed

lemma sfor_append:
  "sfor f (xs @ ys) s = (case sfor f xs s of (s', Inl e) \<Rightarrow> (s', Inl e) | (s', Inr _) \<Rightarrow> sfor f ys s')"
  by (induction xs arbitrary: s) (auto split: prod.splits sum.splits)

section \<open>Integers as text\<close>

text \<open>\<open>str(n)\<close> in base ten, and \<open>int(s)\<close>: blanks around, a sign, digits with single
  underscores between them.\<close>

definition digit_char :: "nat \<Rightarrow> char" where
  "digit_char d = char_of (48 + d)"

definition is_digit :: "char \<Rightarrow> bool" where
  "is_digit c \<longleftrightarrow> (let n = (of_char c :: nat) in 48 \<le> n \<and> n \<le> 57)"

fun nat_str :: "nat \<Rightarrow> string" where
  "nat_str n = (if n < 10 then [digit_char n] else nat_str (n div 10) @ [digit_char (n mod 10)])"

declare nat_str.simps [simp del]

definition int_str :: "int \<Rightarrow> string" where
  "int_str n = (if n < 0 then CHR ''-'' # nat_str (nat (- n)) else nat_str (nat n))"

definition digits_value :: "string \<Rightarrow> nat" where
  "digits_value s = fold (\<lambda>c n. 10 * n + (of_char c - 48)) s 0"

definition parse_digits :: "string \<Rightarrow> int res" where
  "parse_digits s =
     (let parts = str_split CHR ''_'' s
      in if list_all (\<lambda>p. p \<noteq> [] \<and> list_all is_digit p) parts
         then Inr (int (digits_value (concat parts)))
         else Inl (ValueError ''invalid literal for int()''))"

definition parse_int :: "string \<Rightarrow> int res" where
  "parse_int s =
     (case str_strip s of
        [] \<Rightarrow> Inl (ValueError ''invalid literal for int()'')
      | c # cs \<Rightarrow>
          if c = CHR ''-'' then rbind (parse_digits cs) (\<lambda>n. Inr (- n))
          else if c = CHR ''+'' then parse_digits cs
          else parse_digits (c # cs))"

lemma of_char_digit: "d < 10 \<Longrightarrow> of_char (digit_char d) = (48 + d :: nat)"
  by (simp add: digit_char_def)

lemma nat_str_digits: "nat_str n \<noteq> [] \<and> list_all is_digit (nat_str n)"
proof (induction n rule: nat_str.induct)
  case (1 n)
  have "d < 10 \<Longrightarrow> is_digit (digit_char d)" for d
    by (simp add: is_digit_def of_char_digit Let_def)
  with 1 show ?case by (subst (1 2) nat_str.simps) auto
qed

lemma digits_value_snoc: "digits_value (s @ [c]) = 10 * digits_value s + (of_char c - 48)"
  by (simp add: digits_value_def)

lemma digits_value_nat_str: "digits_value (nat_str n) = n"
proof (induction n rule: nat_str.induct)
  case (1 n)
  show ?case
  proof (cases "n < 10")
    case True
    then show ?thesis
      by (subst nat_str.simps) (simp add: digits_value_def of_char_digit)
  next
    case False
    then show ?thesis
      using 1 by (subst nat_str.simps) (simp add: digits_value_snoc of_char_digit)
  qed
qed

lemma str_split_none: "sep \<notin> set s \<Longrightarrow> str_split sep s = [s]"
  by (induction s) auto

lemma is_digit_not: "is_digit c \<Longrightarrow> c \<noteq> CHR ''_'' \<and> c \<noteq> CHR ''-'' \<and> c \<noteq> CHR ''+'' \<and> \<not> is_space c"
  by (auto simp: is_digit_def is_space_def Let_def)

lemma parse_digits_nat_str: "parse_digits (nat_str n) = Inr (int n)"
proof -
  have "CHR ''_'' \<notin> set (nat_str n)"
    using nat_str_digits [of n] is_digit_not by (auto simp: list_all_iff)
  then show ?thesis
    using nat_str_digits [of n] by (simp add: parse_digits_def str_split_none digits_value_nat_str)
qed

lemma str_strip_no_space:
  assumes "s \<noteq> []" and "\<not> is_space (hd s)" and "\<not> is_space (last s)" and "list_all is_space t"
  shows "str_strip (s @ t) = s"
proof -
  have "dropWhile is_space (s @ t) = s @ t" using assms(1,2) by (cases s) auto
  moreover have "dropWhile is_space (rev t @ rev s) = rev s"
    using assms(1,3,4) by (cases "rev s") (auto simp: list_all_iff hd_rev [symmetric] dropWhile_append)
  ultimately show ?thesis by (simp add: str_strip_def)
qed

lemma parse_int_str: "list_all is_space t \<Longrightarrow> parse_int (int_str n @ t) = Inr n"
proof -
  assume t: "list_all is_space t"
  have nd: "nat_str m \<noteq> []" "\<not> is_space (hd (nat_str m))" "\<not> is_space (last (nat_str m))"
    "hd (nat_str m) \<noteq> CHR ''-''" "hd (nat_str m) \<noteq> CHR ''+''" for m
    using nat_str_digits [of m] is_digit_not by (auto simp: list_all_iff)
  have "str_strip (int_str n @ t) = int_str n"
    using nd t by (intro str_strip_no_space) (auto simp: int_str_def is_space_def)
  then show ?thesis
    using nd [of "nat n"] parse_digits_nat_str [of "nat n"] by (cases "nat_str (nat n)")
      (auto simp: parse_int_def int_str_def parse_digits_nat_str split: list.splits)
qed

end
