(* ===== verification/Utils.thy ===== *)
theory Utils
  imports Prelude
begin

text \<open>
  \<open>indexer/utils/utils.py\<close> and the RPC error classification of
  \<open>common/utils/exception_control.py\<close>: batching of block ranges and of item iterators,
  the join of JSON-RPC requests with their responses, the choice of one row per group.
\<close>

section \<open>Exceptions of the RPC layer\<close>

text \<open>The two flags of a \<open>HemeraBaseException\<close>; \<open>None\<close> for every other exception.\<close>

fun hemera_flags :: "exc \<Rightarrow> (bool \<times> bool) option" where
  "hemera_flags (RetriableError m) = Some (False, True)"
| "hemera_flags (HistoryUnavailableError m) = Some (False, False)"
| "hemera_flags (NoBatchModeError m) = Some (False, True)"
| "hemera_flags (RPCNotReachable m) = Some (True, False)"
| "hemera_flags (FastShutdownError m) = Some (True, False)"
| "hemera_flags _ = None"

definition crashable :: "exc \<Rightarrow> bool" where
  "crashable e \<longleftrightarrow> (case hemera_flags e of Some (c, _) \<Rightarrow> c | None \<Rightarrow> False)"

definition retriable :: "exc \<Rightarrow> bool" where
  "retriable e \<longleftrightarrow> (case hemera_flags e of Some (_, r) \<Rightarrow> r | None \<Rightarrow> False)"

record rpc_error =
  err_code :: "int option"
  err_message :: "string option"

definition decode_response_error :: "rpc_error \<Rightarrow> 'r option res" where
  "decode_response_error error =
     (let code = (case err_code error of Some c \<Rightarrow> c | None \<Rightarrow> 0);
          message = (case err_message error of Some m \<Rightarrow> m | None \<Rightarrow> [])
      in if str_contains (str_lower message) ''invalid'' \<and> str_contains (str_lower message) ''opcode''
         then Inr None
         else if code = -32000 then
           (if message = ''execution reverted'' \<or> message = ''out of gas''
               \<or> message = ''invalid jump destination'' then Inr None
            else if str_contains message ''required historical state unavailable''
            then Inl (HistoryUnavailableError message)
            else Inl (RPCNotReachable message))
         else if code = -32700 \<or> code = -32600 \<or> code = -32602 then Inl (FastShutdownError message)
         else if (-32000 > code \<and> code \<ge> -32099) \<or> code = -32603 then Inl (RetriableError message)
         else Inr None)"

record ('i, 'r) rpc_response =
  resp_id :: "'i option"
  resp_result :: "'r option"
  resp_error :: "rpc_error option"

definition rpc_response_to_result :: "('i, 'r) rpc_response \<Rightarrow> 'r option res" where
  "rpc_response_to_result response =
     (case resp_result response of
        Some r \<Rightarrow> Inr (Some r)
      | None \<Rightarrow>
          (case resp_error response of
             None \<Rightarrow> Inl (RetriableError
               ''result is None in response. Make sure Ethereum node is synced.'')
           | Some e \<Rightarrow> decode_response_error e))"

definition rpc_response_batch_to_results :: "('i, 'r) rpc_response list \<Rightarrow> 'r option list res" where
  "rpc_response_batch_to_results response = rmap rpc_response_to_result response"

definition zip_rpc_response ::
  "('q \<Rightarrow> 'i) \<Rightarrow> 'q list \<Rightarrow> ('i, 'r) rpc_response list \<Rightarrow> ('q \<times> ('i, 'r) rpc_response) list res" where
  "zip_rpc_response index requests responses =
     rbind (rfold (\<lambda>d r. case resp_id r of
                     None \<Rightarrow> Inl (KeyError ''id'')
                   | Some i \<Rightarrow> Inr (AList.update i r d)) [] responses)
       (\<lambda>response_dict.
          Inr (concat (map (\<lambda>q. case map_of response_dict (index q) of
                              None \<Rightarrow> [] | Some r \<Rightarrow> [(q, r)]) requests)))"

datatype error_code = NoCode | IntCode int | OtherCode

definition is_retriable_error :: "error_code \<Rightarrow> bool" where
  "is_retriable_error c =
     (case c of NoCode \<Rightarrow> False | OtherCode \<Rightarrow> False
      | IntCode e \<Rightarrow> e = -32603 \<or> (-32000 \<ge> e \<and> e \<ge> -32099))"

section \<open>Batching\<close>

definition chunk_string :: "string \<Rightarrow> int \<Rightarrow> string list res" where
  "chunk_string s n =
     rbind (py_range 0 (int (length s)) n)
       (\<lambda>is. Inr (map (\<lambda>i. slice (nat i) (nat (n + i)) s) is))"

definition validate_range :: "int \<Rightarrow> int \<Rightarrow> unit res" where
  "validate_range range_start_incl range_end_incl =
     (if range_start_incl < 0 \<or> range_end_incl < 0
      then Inl (ValueError ''range_start and range_end must be greater or equal to 0'')
      else if range_end_incl < range_start_incl
      then Inl (ValueError ''range_end must be greater or equal to range_start'')
      else Inr ())"

definition split_to_batches :: "int \<Rightarrow> int \<Rightarrow> int \<Rightarrow> (int \<times> int) list res" where
  "split_to_batches start_incl end_incl batch_size =
     rbind (py_range start_incl (end_incl + 1) batch_size)
       (\<lambda>is. Inr (map (\<lambda>batch_start. (batch_start, min (batch_start + batch_size - 1) end_incl)) is))"

text \<open>
  \<open>dynamic_batch_iterator\<close>: \<open>sizes i\<close> is what the \<open>i\<close>-th call of
  \<open>batch_size_getter\<close> returns. The getter is called once before the loop and once after
  each batch that is yielded from within the loop.
\<close>

fun dyn_batches :: "(nat \<Rightarrow> int) \<Rightarrow> nat \<Rightarrow> 'a list \<Rightarrow> 'a list \<Rightarrow> 'a list list" where
  "dyn_batches sizes i batch [] = (if length batch > 0 then [batch] else [])"
| "dyn_batches sizes i batch (item # items) =
     (let batch = batch @ [item]
      in if int (length batch) \<ge> sizes i
         then batch # dyn_batches sizes (Suc i) [] items
         else dyn_batches sizes i batch items)"

definition dynamic_batch_iterator :: "'a list \<Rightarrow> (nat \<Rightarrow> int) \<Rightarrow> 'a list list" where
  "dynamic_batch_iterator items batch_size_getter = dyn_batches batch_size_getter 0 [] items"

definition pairwise :: "'a list \<Rightarrow> ('a \<times> 'a) list" where
  "pairwise xs = zip xs (tl xs)"

section \<open>Providers and outputs\<close>

definition check_classic_provider_uri :: "string \<Rightarrow> string \<Rightarrow> string" where
  "check_classic_provider_uri chain provider_uri =
     (if chain = ''classic'' \<and> provider_uri = ''https://mainnet.infura.io''
      then ''https://ethereumclassic.network'' else provider_uri)"

definition extract_pg_url_from_output :: "string \<Rightarrow> string option" where
  "extract_pg_url_from_output outputs =
     List.find (\<lambda>output. startswith (str_strip output) ''postgresql'') (str_split (CHR '','') outputs)"

section \<open>Merging and grouping\<close>

fun merge_sort :: "('a \<Rightarrow> 'k::linorder) \<Rightarrow> 'a list \<Rightarrow> 'a list \<Rightarrow> 'a list" where
  "merge_sort ident (a # as) (b # bs) =
     (if ident a < ident b then a # merge_sort ident as (b # bs)
      else b # merge_sort ident (a # as) bs)"
| "merge_sort ident as [] = as"
| "merge_sort ident [] bs = bs"

definition distinct_step ::
  "('a \<Rightarrow> 'k) \<Rightarrow> ('a \<Rightarrow> 'm::linorder) option \<Rightarrow> 'a \<Rightarrow> ('k \<times> 'a) list \<Rightarrow> ('k \<times> 'a) list" where
  "distinct_step group_by max_key item d =
     (case map_of d (group_by item) of
        None \<Rightarrow> AList.update (group_by item) item d
      | Some kept \<Rightarrow>
          (case max_key of
             Some m \<Rightarrow> if m kept < m item then AList.update (group_by item) item d else d
           | None \<Rightarrow> d))"

definition distinct_collections_by_group ::
  "('a \<Rightarrow> 'k) \<Rightarrow> ('a \<Rightarrow> 'm::linorder) option \<Rightarrow> 'a list \<Rightarrow> 'a list" where
  "distinct_collections_by_group group_by max_key collections =
     map snd (fold (distinct_step group_by max_key) collections [])"

section \<open>Lemmas: ranges and batches\<close>

lemma up_range_empty: "b \<le> a \<Longrightarrow> up_range a b s = []"
  by (subst up_range.simps) simp

lemma up_range_1: "up_range a b 1 = [a..b - 1]"
proof (induction "nat (b - a)" arbitrary: a)
  case 0
  then show ?case by (subst up_range.simps) simp
next
  case (Suc n)
  then have "a < b" and "n = nat (b - (a + 1))" by simp_all
  then show ?case
    using Suc.hyps(1) [of "a + 1"] by (subst up_range.simps) (simp add: upto_rec1)
qed

definition batch_pairs :: "int \<Rightarrow> int \<Rightarrow> int \<Rightarrow> (int \<times> int) list" where
  "batch_pairs a e k = map (\<lambda>s. (s, min (s + k - 1) e)) (up_range a (e + 1) k)"

lemma split_to_batches_pos: "0 < k \<Longrightarrow> split_to_batches a e k = Inr (batch_pairs a e k)"
  by (simp add: split_to_batches_def py_range_def batch_pairs_def)

lemma upto_split: "a \<le> m + 1 \<Longrightarrow> m \<le> e \<Longrightarrow> [a..m] @ [m + 1..e] = [a..e]"
  by (metis add.commute add_diff_cancel_right' le_add_same_cancel2 upto_split1 upto_split2
      zero_le_one not_le upto_empty append_Nil zle_add1_eq_le le_less)

lemma batch_pairs_concat:
  "0 < k \<Longrightarrow> concat (map (\<lambda>(s, t). [s..t]) (batch_pairs a e k)) = [a..e]"
proof (induction "nat (e + 1 - a)" arbitrary: a rule: less_induct)
  case less
  show ?case
  proof (cases "a < e + 1")
    case False
    then show ?thesis by (simp add: batch_pairs_def up_range_empty)
  next
    case True
    have unf: "batch_pairs a e k = (a, min (a + k - 1) e) # batch_pairs (a + k) e k"
      using True less.prems by (simp add: batch_pairs_def up_range.simps [of a "e + 1" k])
    have IH: "concat (map (\<lambda>(s, t). [s..t]) (batch_pairs (a + k) e k)) = [a + k..e]"
      using less True by simp
    show ?thesis
    proof (cases "a + k - 1 \<le> e")
      case True
      then show ?thesis using upto_split [of a "a + k - 1" e] less.prems by (simp add: unf IH)
    next
      case False
      then show ?thesis by (simp add: unf IH)
    qed
  qed
qed

lemma batch_pairs_bounds:
  "0 < k \<Longrightarrow> (s, t) \<in> set (batch_pairs a e k) \<Longrightarrow> a \<le> s \<and> s \<le> t \<and> t \<le> e \<and> t - s < k"
proof (induction "nat (e + 1 - a)" arbitrary: a rule: less_induct)
  case less
  show ?case
  proof (cases "a < e + 1")
    case False
    then show ?thesis using less.prems by (simp add: batch_pairs_def up_range_empty)
  next
    case True
    have "batch_pairs a e k = (a, min (a + k - 1) e) # batch_pairs (a + k) e k"
      using True less.prems by (simp add: batch_pairs_def up_range.simps [of a "e + 1" k])
    with less.prems consider "s = a" "t = min (a + k - 1) e" | "(s, t) \<in> set (batch_pairs (a + k) e k)"
      by auto
    then show ?thesis
    proof cases
      case 1
      then show ?thesis using True less.prems by auto
    next
      case 2
      then show ?thesis using less.hyps [of "a + k"] less.prems(1) True by fastforce
    qed
  qed
qed

lemma dyn_batches_concat: "concat (dyn_batches sizes i batch items) = batch @ items"
  by (induction items arbitrary: i batch) (auto simp: Let_def)

lemma dyn_batches_nonempty: "[] \<notin> set (dyn_batches sizes i batch items)"
  by (induction items arbitrary: i batch) (auto simp: Let_def)

lemma dyn_batches_bound:
  "(\<And>j. 1 \<le> sizes j \<and> sizes j \<le> m) \<Longrightarrow> int (length batch) < sizes i \<Longrightarrow>
     b \<in> set (dyn_batches sizes i batch items) \<Longrightarrow> int (length b) \<le> m"
proof (induction items arbitrary: i batch)
  case Nil
  then have "b = batch" by (simp split: if_splits)
  moreover have "sizes i \<le> m" using Nil.prems(1) by blast
  ultimately show ?case using Nil.prems(2) by simp
next
  case (Cons x xs)
  have s1: "sizes i \<le> m" "1 \<le> sizes (Suc i)" using Cons.prems(1) by blast+
  show ?case
  proof (cases "int (length (batch @ [x])) \<ge> sizes i")
    case True
    with Cons.prems(3) consider "b = batch @ [x]" | "b \<in> set (dyn_batches sizes (Suc i) [] xs)"
      by (auto simp: Let_def)
    then show ?thesis
    proof cases
      case 1
      then show ?thesis using Cons.prems(2) s1 by simp
    next
      case 2
      show ?thesis by (rule Cons.IH [OF Cons.prems(1) _ 2]) (use s1 in simp)
    qed
  next
    case False
    then have b: "b \<in> set (dyn_batches sizes i (batch @ [x]) xs)" using Cons.prems(3) by simp
    show ?thesis by (rule Cons.IH [OF Cons.prems(1) _ b]) (use False in simp)
  qed
qed

section \<open>Lemmas: one row per group\<close>

text \<open>What is kept for one group: the first of the rows with the greatest \<open>max_key\<close>.\<close>

fun keep :: "('a \<Rightarrow> 'm::linorder) option \<Rightarrow> 'a \<Rightarrow> 'a list \<Rightarrow> 'a" where
  "keep m kept [] = kept"
| "keep m kept (x # xs) =
     keep m (case m of Some f \<Rightarrow> if f kept < f x then x else kept | None \<Rightarrow> kept) xs"

lemma filter_Cons_set: "filter P xs = z # zs \<Longrightarrow> insert z (set zs) = {x \<in> set xs. P x}"
  by (metis list.set(2) set_filter)

lemma filter_nonempty_ex: "x \<in> set xs \<Longrightarrow> P x \<Longrightarrow> \<exists>z zs. filter P xs = z # zs"
  by (cases "filter P xs") (auto simp: filter_empty_conv)

lemma map_of_distinct_step:
  "map_of (distinct_step g m x d) k =
     (if k = g x then Some (case map_of d k of None \<Rightarrow> x
        | Some y \<Rightarrow> (case m of Some f \<Rightarrow> if f y < f x then x else y | None \<Rightarrow> y))
      else map_of d k)"
  by (auto simp: distinct_step_def map_of_upd split: option.splits)

lemma distinct_step_distinct: "distinct (map fst d) \<Longrightarrow> distinct (map fst (distinct_step g m x d))"
  by (auto simp: distinct_step_def distinct_upd split: option.splits)

lemma fold_distinct_step_distinct:
  "distinct (map fst d) \<Longrightarrow> distinct (map fst (fold (distinct_step g m) xs d))"
  by (induction xs arbitrary: d) (auto simp: distinct_step_distinct)

lemma fold_distinct_step_lookup:
  "map_of (fold (distinct_step g m) xs d) k =
     (case map_of d k of
        Some y \<Rightarrow> Some (keep m y (filter (\<lambda>x. g x = k) xs))
      | None \<Rightarrow> (case filter (\<lambda>x. g x = k) xs of [] \<Rightarrow> None | y # ys \<Rightarrow> Some (keep m y ys)))"
  by (induction xs arbitrary: d) (auto simp: map_of_distinct_step split: option.splits list.splits)

lemma keep_in: "keep m y ys \<in> insert y (set ys)"
proof (induction ys arbitrary: y)
  case (Cons x xs)
  have "keep m y (x # xs) \<in> insert (case m of Some f \<Rightarrow> if f y < f x then x else y | None \<Rightarrow> y) (set xs)"
    using Cons.IH by simp
  then show ?case by (auto split: option.splits if_splits)
qed simp

lemma keep_max: "z \<in> insert y (set ys) \<Longrightarrow> f z \<le> f (keep (Some f) y ys)"
proof (induction ys arbitrary: y z)
  case (Cons x xs)
  let ?y = "if f y < f x then x else y"
  have le: "f ?y \<le> f (keep (Some f) ?y xs)" by (rule Cons.IH) simp
  show ?case
  proof (cases "z \<in> set xs")
    case True
    then show ?thesis using Cons.IH [of z ?y] by simp
  next
    case False
    with Cons.prems have "f z \<le> f ?y" by auto
    with le show ?thesis by simp
  qed
qed simp

lemma distinct_collections_values:
  "set (distinct_collections_by_group g m xs) =
     {keep m y ys | k y ys. filter (\<lambda>x. g x = k) xs = y # ys}"
proof -
  let ?d = "fold (distinct_step g m) xs []"
  have "set (distinct_collections_by_group g m xs) = {v. \<exists>k. map_of ?d k = Some v}"
    using map_of_entries_nth [OF fold_distinct_step_distinct, of "[]"]
    by (force simp: distinct_collections_by_group_def image_iff)
  also have "\<dots> = {keep m y ys | k y ys. filter (\<lambda>x. g x = k) xs = y # ys}"
  proof -
    have "map_of ?d k = Some v \<longleftrightarrow> (\<exists>y ys. filter (\<lambda>x. g x = k) xs = y # ys \<and> v = keep m y ys)" for k v
      by (cases "filter (\<lambda>x. g x = k) xs") (auto simp: fold_distinct_step_lookup)
    then show ?thesis by blast
  qed
  finally show ?thesis .
qed

lemma distinct_step_group:
  assumes "\<forall>(k, v) \<in> set d. g v = k"
  shows "\<forall>(k, v) \<in> set (distinct_step g m x d). g v = k"
proof -
  have "set (AList.update (g x) x d) \<subseteq> insert (g x, x) (set d)"
    by (induction d) auto
  with assms show ?thesis by (auto simp: distinct_step_def split: option.splits)
qed

lemma fold_distinct_step_group:
  "\<forall>(k, v) \<in> set d. g v = k \<Longrightarrow> \<forall>(k, v) \<in> set (fold (distinct_step g m) xs d). g v = k"
proof (induction xs arbitrary: d)
  case (Cons x xs)
  then show ?case using Cons.IH [OF distinct_step_group [OF Cons.prems]] by simp
qed simp

lemma distinct_collections_keys: "distinct (map g (distinct_collections_by_group g m xs))"
proof -
  let ?d = "fold (distinct_step g m) xs []"
  have "map g (map snd ?d) = map fst ?d"
    using fold_distinct_step_group [of "[]" g m xs] by (auto simp: case_prod_beta)
  then have eq: "map g (distinct_collections_by_group g m xs) = map fst ?d"
    by (simp only: distinct_collections_by_group_def)
  show ?thesis unfolding eq by (rule fold_distinct_step_distinct) simp
qed

section \<open>Properties\<close>

text \<open>Splitting the inclusive block range \<open>start..end\<close> into batches of a positive size covers
  every block exactly once and in order, and every batch is a non-empty sub-range of at most
  \<open>batch_size\<close> blocks.\<close>

lemma split_to_batches_partition:
  assumes "0 < k"
  shows "\<exists>bs. split_to_batches a e k = Inr bs
    \<and> concat (map (\<lambda>(s, t). [s..t]) bs) = [a..e]
    \<and> (\<forall>(s, t) \<in> set bs. a \<le> s \<and> s \<le> t \<and> t \<le> e \<and> t - s + 1 \<le> k)"
  using assms batch_pairs_bounds [OF assms, of _ _ a e]
  by (force simp: split_to_batches_pos batch_pairs_concat)

theorem split_to_batches_partition_witness:
  "\<exists>bs. split_to_batches 3 12 4 = Inr bs \<and> concat (map (\<lambda>(s, t). [s..t]) bs) = [3..12]
    \<and> (\<forall>(s, t) \<in> set bs. 3 \<le> s \<and> s \<le> t \<and> t \<le> 12 \<and> t - s + 1 \<le> 4)"
  by (rule split_to_batches_partition) simp

text \<open>Whatever sizes \<open>batch_size_getter\<close> answers over time (each between 1 and \<open>m\<close>),
  the dynamic batches are non-empty, hold at most \<open>m\<close> items and, one after the other, are
  exactly the items of the iterable.\<close>

lemma dynamic_batches_cover:
  assumes "\<And>j. 1 \<le> sizes j \<and> sizes j \<le> m"
  shows "concat (dynamic_batch_iterator items sizes) = items
    \<and> (\<forall>b \<in> set (dynamic_batch_iterator items sizes). b \<noteq> [] \<and> int (length b) \<le> m)"
proof -
  have "int (length b) \<le> m" if "b \<in> set (dynamic_batch_iterator items sizes)" for b
    using dyn_batches_bound [OF assms] assms [of 0] that
    by (force simp: dynamic_batch_iterator_def)
  moreover have "[] \<notin> set (dynamic_batch_iterator items sizes)"
    by (simp add: dynamic_batch_iterator_def dyn_batches_nonempty)
  ultimately show ?thesis
    by (auto simp: dynamic_batch_iterator_def dyn_batches_concat)
qed

theorem dynamic_batches_cover_witness:
  "concat (dynamic_batch_iterator [1..7] (\<lambda>j. if j = 0 then 2 else 3)) = [1..7]
    \<and> list_all (\<lambda>b. b \<noteq> [] \<and> int (length b) \<le> 3)
         (dynamic_batch_iterator [1..7] (\<lambda>j. if j = 0 then 2 else 3))"
  using dynamic_batches_cover [of "\<lambda>j. if j = 0 then 2 else 3" 3 "[1..7]"] by (simp add: list_all_iff)

lemma distinct_collections_correct:
  fixes m :: "'a \<Rightarrow> 'm::linorder"
  shows "distinct (map g (distinct_collections_by_group g (Some m) xs))
    \<and> g ` set (distinct_collections_by_group g (Some m) xs) = g ` set xs
    \<and> (\<forall>y \<in> set (distinct_collections_by_group g (Some m) xs).
          y \<in> set xs \<and> (\<forall>x \<in> set xs. g x = g y \<longrightarrow> m x \<le> m y))"
proof -
  let ?out = "distinct_collections_by_group g (Some m) xs"
  have kept: "y \<in> set xs \<and> (\<forall>x \<in> set xs. g x = g y \<longrightarrow> m x \<le> m y)"
    if y: "y \<in> set ?out" for y
  proof -
    obtain k z zs where f: "filter (\<lambda>x. g x = k) xs = z # zs" and y': "y = keep (Some m) z zs"
      using y by (auto simp: distinct_collections_values)
    have "insert z (set zs) = {x \<in> set xs. g x = k}"
      by (rule filter_Cons_set [OF f])
    then show ?thesis
      using keep_in [of "Some m" z zs] keep_max [of _ z zs m] y' by auto
  qed
  have occurs: "g x \<in> g ` set ?out" if x: "x \<in> set xs" for x
  proof -
    obtain z zs where f: "filter (\<lambda>y. g y = g x) xs = z # zs"
      using filter_nonempty_ex [OF x, of "\<lambda>y. g y = g x"] by auto
    have "keep (Some m) z zs \<in> set ?out"
      unfolding distinct_collections_values
      by (intro CollectI exI conjI, rule refl, rule f)
    moreover have "insert z (set zs) = {y \<in> set xs. g y = g x}"
      by (rule filter_Cons_set [OF f])
    ultimately have "keep (Some m) z zs \<in> set ?out" "g (keep (Some m) z zs) = g x"
      using keep_in [of "Some m" z zs] by simp_all
    then show ?thesis by (metis imageI)
  qed
  have "distinct (map g ?out)" by (rule distinct_collections_keys)
  moreover have "g ` set ?out = g ` set xs" using kept occurs by blast
  ultimately show ?thesis using kept by blast
qed

text \<open>\<open>distinct_collections_by_group\<close> with a \<open>max_key\<close> keeps exactly one row per group that
  occurs, and that row has the greatest \<open>max_key\<close> of its group.\<close>

lemma distinct_collections_spec:
  fixes m :: "'a \<Rightarrow> 'm::linorder"
  shows "distinct (map g (distinct_collections_by_group g (Some m) xs))
    \<and> g ` set (distinct_collections_by_group g (Some m) xs) = g ` set xs
    \<and> (\<forall>y \<in> set (distinct_collections_by_group g (Some m) xs).
          y \<in> set xs \<and> (\<forall>x \<in> set xs. g x = g y \<longrightarrow> m x \<le> m y))"
  by (rule distinct_collections_correct)

theorem distinct_collections_spec_witness:
  "distinct (map fst (distinct_collections_by_group fst (Some snd) [(1 :: nat, 5 :: nat), (2, 3), (1, 9)]))
    \<and> fst ` set (distinct_collections_by_group fst (Some snd) [(1 :: nat, 5 :: nat), (2, 3), (1, 9)])
        = {1, 2}
    \<and> list_all (\<lambda>y. y \<in> {(1, 5), (2, 3), (1, 9)})
        (distinct_collections_by_group fst (Some snd) [(1 :: nat, 5 :: nat), (2, 3), (1, 9)])"
  using distinct_collections_spec [of fst snd "[(1 :: nat, 5 :: nat), (2, 3), (1, 9)]"]
  by (auto simp: list_all_iff)

lemma response_dict_lookup:
  "rfold (\<lambda>d r. case resp_id r of None \<Rightarrow> Inl (KeyError ''id'') | Some i \<Rightarrow> Inr (AList.update i r d)) d rs
     = Inr d' \<Longrightarrow>
   map_of d' k = (case filter (\<lambda>r. resp_id r = Some k) rs of [] \<Rightarrow> map_of d k | qs \<Rightarrow> Some (last qs))"
proof (induction rs arbitrary: d)
  case (Cons r rs)
  then obtain i where i: "resp_id r = Some i"
    and rest: "rfold (\<lambda>d r. case resp_id r of None \<Rightarrow> Inl (KeyError ''id'')
        | Some i \<Rightarrow> Inr (AList.update i r d)) (AList.update i r d) rs = Inr d'"
    by (auto split: option.splits)
  show ?case using Cons.IH [OF rest] i by (auto simp: map_of_upd split: list.splits)
qed simp

lemma response_dict_ok:
  "\<forall>r \<in> set rs. resp_id r \<noteq> None \<Longrightarrow>
   \<exists>d'. rfold (\<lambda>d r. case resp_id r of None \<Rightarrow> Inl (KeyError ''id'')
        | Some i \<Rightarrow> Inr (AList.update i r d)) d rs = Inr d'"
  by (induction rs arbitrary: d) auto

text \<open>Joining JSON-RPC requests with their responses keeps the order of the requests, drops a
  request no response answers, and pairs every other request with the last response that carries
  its id.\<close>

lemma zip_rpc_response_spec:
  assumes "\<forall>r \<in> set responses. resp_id r \<noteq> None"
  shows "zip_rpc_response index requests responses =
    Inr [(q, last rs). q \<leftarrow> requests,
                        rs \<leftarrow> [filter (\<lambda>r. resp_id r = Some (index q)) responses], rs \<noteq> []]"
proof -
  obtain d where d: "rfold (\<lambda>d r. case resp_id r of None \<Rightarrow> Inl (KeyError ''id'')
      | Some i \<Rightarrow> Inr (AList.update i r d)) [] responses = Inr d"
    using response_dict_ok [OF assms] by blast
  have "(case map_of d (index q) of None \<Rightarrow> [] | Some r \<Rightarrow> [(q, r)]) =
      concat (map (\<lambda>rs. if rs \<noteq> [] then [(q, last rs)] else [])
        [filter (\<lambda>r. resp_id r = Some (index q)) responses])" for q
    using response_dict_lookup [OF d, of "index q"] by (auto split: list.splits)
  then show ?thesis unfolding zip_rpc_response_def d by simp
qed

theorem zip_rpc_response_spec_witness:
  "zip_rpc_response (\<lambda>q. q) [7, 8, 9 :: nat]
     [\<lparr>resp_id = Some 9, resp_result = Some ''a'', resp_error = None\<rparr>,
      \<lparr>resp_id = Some 7, resp_result = Some ''b'', resp_error = None\<rparr>]
   = Inr [(7, \<lparr>resp_id = Some 7, resp_result = Some ''b'', resp_error = None\<rparr>),
          (9, \<lparr>resp_id = Some 9, resp_result = Some ''a'', resp_error = None\<rparr>)]"
  by (subst zip_rpc_response_spec) simp_all

definition code_of :: "rpc_error \<Rightarrow> int" where
  "code_of error = (case err_code error of Some c \<Rightarrow> c | None \<Rightarrow> 0)"

definition message_of :: "rpc_error \<Rightarrow> string" where
  "message_of error = (case err_message error of Some m \<Rightarrow> m | None \<Rightarrow> [])"

definition opcode_message :: "string \<Rightarrow> bool" where
  "opcode_message m \<longleftrightarrow> str_contains (str_lower m) ''invalid'' \<and> str_contains (str_lower m) ''opcode''"

definition reverted_message :: "string \<Rightarrow> bool" where
  "reverted_message m \<longleftrightarrow>
     m = ''execution reverted'' \<or> m = ''out of gas'' \<or> m = ''invalid jump destination''"

text \<open>An RPC error object never yields a value: it is swallowed (the call's result is \<open>None\<close>)
  or raised. It is raised as a retriable exception exactly when the message is not an
  invalid-opcode message and the code is one \<open>is_retriable_error\<close> accepts, -32000 excepted, and
  as a crashing one exactly for the three malformed-request codes and for a -32000 whose message
  is neither a revert, nor out of gas, nor a missing history.\<close>

lemma decode_response_error_classification:
  "(decode_response_error error :: 'r option res) \<in> insert (Inr None) (range Inl)
    \<and> ((\<exists>e. (decode_response_error error :: 'r option res) = Inl e \<and> retriable e)
        \<longleftrightarrow> \<not> opcode_message (message_of error) \<and> is_retriable_error (IntCode (code_of error))
           \<and> code_of error \<noteq> -32000)
    \<and> ((\<exists>e. (decode_response_error error :: 'r option res) = Inl e \<and> crashable e)
        \<longleftrightarrow> \<not> opcode_message (message_of error)
           \<and> (code_of error \<in> {-32700, -32600, -32602}
              \<or> code_of error = -32000 \<and> \<not> reverted_message (message_of error)
                \<and> \<not> str_contains (message_of error) ''required historical state unavailable''))"
  unfolding decode_response_error_def Let_def code_of_def [symmetric] message_of_def [symmetric]
    opcode_message_def reverted_message_def
  by (auto simp: is_retriable_error_def retriable_def crashable_def)

section \<open>Merging two sorted lists\<close>

lemma mset_merge_sort: "mset (merge_sort f as bs) = mset as + mset bs"
  by (induction f as bs rule: merge_sort.induct) auto

lemma set_merge_sort: "set (merge_sort f as bs) = set as \<union> set bs"
  by (metis mset_merge_sort set_mset_mset set_mset_union)

lemma sorted_merge_sort:
  "sorted (map f as) \<Longrightarrow> sorted (map f bs) \<Longrightarrow> sorted (map f (merge_sort f as bs))"
proof (induction f as bs rule: merge_sort.induct)
  case (1 f a as b bs)
  then show ?case by (auto simp: set_merge_sort less_imp_le order_trans intro: order_trans less_imp_le)
qed auto

end
