(* ===== verification/Executor.thy ===== *)
theory Executor
  imports Utils
begin

text \<open>
  \<open>indexer/executors\<close> and \<open>indexer/utils/progress_logger.py\<close>: the batch executor every job
  runs its work through. \<open>fail_safe_execute\<close> is the body of one future, with the retries and
  the adaptive batch size; \<open>exec_step\<close> is the executor as a transition system, in which the
  submitting thread (\<open>execute\<close>, then \<open>wait\<close>) and the worker threads interleave in any
  order, one future running to its end in one step. A work handler is a function of the world it
  reads and changes; the locale \<open>batch_handler\<close> is the contract the executor's correctness
  needs of it. Times are whole microseconds; sleeping between retries has no effect here.
\<close>

section \<open>Progress logger\<close>

record progress =
  total_items :: "int option"
  counter :: "int option"

definition counter_increment :: "int \<Rightarrow> int \<Rightarrow> int res" where
  "counter_increment c increment = (if increment > 0 then Inr (c + increment) else Inl AssertionError)"

definition new_progress :: progress where
  "new_progress = \<lparr>total_items = None, counter = Some 0\<rparr>"

definition progress_start :: "int option \<Rightarrow> progress \<Rightarrow> progress" where
  "progress_start n_items p =
     (let p = (if counter p = None then p\<lparr>counter := Some 0\<rparr> else p)
      in p\<lparr>total_items := n_items\<rparr>)"

definition progress_track :: "int \<Rightarrow> progress \<Rightarrow> progress res" where
  "progress_track item_count p =
     (case counter p of
        None \<Rightarrow> Inl AttributeError
      | Some c \<Rightarrow> rbind (counter_increment c item_count)
                   (\<lambda>processed_items. Inr (p\<lparr>counter := Some processed_items\<rparr>)))"

text \<open>\<open>finish\<close> returns the number of processed items it reports.\<close>

definition progress_finish :: "progress \<Rightarrow> (progress \<times> int) res" where
  "progress_finish p =
     (case counter p of
        None \<Rightarrow> Inl AttributeError
      | Some c \<Rightarrow> rbind (counter_increment c 1) (\<lambda>n. Inr (p\<lparr>counter := None\<rparr>, n - 1)))"

section \<open>The adaptive batch size\<close>

record executor =
  batch_size :: int
  max_batch_size :: int
  latest_change :: "int option"
  progress_of :: progress

definition BATCH_CHANGE_COOLDOWN_PERIOD :: int where
  "BATCH_CHANGE_COOLDOWN_PERIOD = 2 * 60 * 1000000"

definition new_executor :: "int \<Rightarrow> executor" where
  "new_executor starting_batch_size =
     \<lparr>batch_size = starting_batch_size, max_batch_size = starting_batch_size,
      latest_change = None, progress_of = new_progress\<rparr>"

definition try_decrease_batch_size :: "int \<Rightarrow> int \<Rightarrow> executor \<Rightarrow> executor" where
  "try_decrease_batch_size now current_batch_size ex =
     (if batch_size ex = current_batch_size \<and> batch_size ex > 1
      then ex\<lparr>batch_size := current_batch_size div 2, latest_change := Some now\<rparr>
      else ex)"

definition try_increase_batch_size :: "int \<Rightarrow> int \<Rightarrow> executor \<Rightarrow> executor" where
  "try_increase_batch_size now current_batch_size ex =
     (if current_batch_size * 2 \<le> max_batch_size ex
      then let seconds_since_last_change =
                 (case latest_change ex of Some t \<Rightarrow> now - t | None \<Rightarrow> 0)
           in if seconds_since_last_change > BATCH_CHANGE_COOLDOWN_PERIOD
              then ex\<lparr>batch_size := current_batch_size * 2, latest_change := Some now\<rparr>
              else ex
      else ex)"

section \<open>Retries\<close>

definition RETRY_EXCEPTIONS :: "exc \<Rightarrow> bool" where
  "RETRY_EXCEPTIONS e \<longleftrightarrow>
     e \<in> {ConnectionError, HTTPError, RequestsTimeout, TooManyRedirects, Web3Timeout, OSError}"

text \<open>\<open>n\<close> attempts remain; a loop of no attempt at all returns \<open>None\<close>, as a success does.\<close>

fun execute_with_retries ::
  "('w \<Rightarrow> 'b \<Rightarrow> 'w \<times> unit res) \<Rightarrow> nat \<Rightarrow> 'w \<Rightarrow> 'b \<Rightarrow> 'w \<times> unit res" where
  "execute_with_retries func 0 w arg = (w, Inr ())"
| "execute_with_retries func (Suc n) w arg =
     (case func w arg of
        (w', Inr u) \<Rightarrow> (w', Inr u)
      | (w', Inl e) \<Rightarrow>
          if RETRY_EXCEPTIONS e
          then (if n > 0 then execute_with_retries func n w' arg else (w', Inl e))
          else (w', Inl e))"

fun retry_items ::
  "('w \<Rightarrow> 'a list \<Rightarrow> 'w \<times> unit res) \<Rightarrow> nat \<Rightarrow> 'w \<Rightarrow> 'a list \<Rightarrow> 'w \<times> unit res" where
  "retry_items work_handler n w [] = (w, Inr ())"
| "retry_items work_handler n w (item # items) =
     (case execute_with_retries work_handler n w [item] of
        (w', Inr _) \<Rightarrow> retry_items work_handler n w' items
      | (w', Inl e) \<Rightarrow> (w', Inl e))"

definition fail_safe_execute ::
  "('w \<Rightarrow> 'a list \<Rightarrow> 'w \<times> unit res) \<Rightarrow> nat \<Rightarrow> int \<Rightarrow> 'a list \<Rightarrow> bool
     \<Rightarrow> executor \<Rightarrow> 'w \<Rightarrow> executor \<times> 'w \<times> unit res" where
  "fail_safe_execute work_handler max_retries now batch custom_splitting ex w =
     (let (ex1, w1, r) =
        (case work_handler w batch of
           (w1, Inr _) \<Rightarrow>
             (if custom_splitting then ex else try_increase_batch_size now (int (length batch)) ex,
              w1, Inr ())
         | (w1, Inl e) \<Rightarrow>
             if RETRY_EXCEPTIONS e
             then (if \<not> custom_splitting
                   then (try_decrease_batch_size now (int (length batch)) ex,
                         retry_items work_handler max_retries w1 batch)
                   else (ex, execute_with_retries work_handler max_retries w1 batch))
             else (ex, w1, Inl e))
      in case r of
           Inl e \<Rightarrow> (ex1, w1, Inl e)
         | Inr _ \<Rightarrow>
             (case progress_track (int (length batch)) (progress_of ex1) of
                Inl e \<Rightarrow> (ex1, w1, Inl e)
              | Inr p \<Rightarrow> (ex1\<lparr>progress_of := p\<rparr>, w1, Inr ())))"

section \<open>The executor as a transition system\<close>

text \<open>
  \<open>Dynamic items\<close>: \<open>dynamic_batch_iterator\<close> with what is left of the iterable, which
  reads the batch size when the next batch is asked for; \<open>Custom batches\<close>: what a
  \<open>split_method\<close> has left to yield.
\<close>

datatype 'a source = Dynamic "'a list" | Custom "'a list list"

datatype 'a phase = NextBatch | Submit "'a list" | Waiting | Finished | Crashed exc

text \<open>A future is its batch and, once it is done, its outcome.\<close>

type_synonym 'a future = "'a list \<times> unit res option"

record ('a, 'w) run =
  run_ex :: executor
  run_world :: 'w
  run_source :: "'a source"
  run_phase :: "'a phase"
  run_futures :: "'a future list"

text \<open>\<open>execute\<close> on an executor without futures: a new one, or one whose last call returned, since \<open>wait\<close> asserts
  that none is left (\<open>exec_again_after_return\<close>).\<close>

definition exec_start :: "executor \<Rightarrow> 'w \<Rightarrow> 'a source \<Rightarrow> int option \<Rightarrow> ('a, 'w) run" where
  "exec_start ex w src n_items =
     \<lparr>run_ex = ex\<lparr>progress_of := progress_start n_items (progress_of ex)\<rparr>, run_world = w,
      run_source = src, run_phase = NextBatch, run_futures = []\<rparr>"

text \<open>\<open>execute\<close> on the executor that a run leaves behind, in whatever state: \<open>_futures\<close> outlives the call, and so
  do the workers that are still running (with the same work handler, as jobs that use their executor for one kind of
  work have).\<close>

definition exec_again :: "('a, 'w) run \<Rightarrow> 'w \<Rightarrow> 'a source \<Rightarrow> int option \<Rightarrow> ('a, 'w) run" where
  "exec_again s w src n_items =
     \<lparr>run_ex = (run_ex s)\<lparr>progress_of := progress_start n_items (progress_of (run_ex s))\<rparr>, run_world = w,
      run_source = src, run_phase = NextBatch, run_futures = run_futures s\<rparr>"

fun next_batch :: "int \<Rightarrow> 'a source \<Rightarrow> ('a list \<times> 'a source) option" where
  "next_batch bsize (Dynamic []) = None"
| "next_batch bsize (Dynamic (x # xs)) =
     (let n = nat (max 1 bsize)
      in Some (take n (x # xs), Dynamic (drop n (x # xs))))"
| "next_batch bsize (Custom []) = None"
| "next_batch bsize (Custom (b # bs)) = Some (b, Custom bs)"

fun is_custom :: "'a source \<Rightarrow> bool" where
  "is_custom (Dynamic _) = False"
| "is_custom (Custom _) = True"

text \<open>\<open>_check_completed_futures\<close>: raise the first failure among the done futures, else
  forget them.\<close>

fun check_completed_futures :: "'a future list \<Rightarrow> 'a future list res" where
  "check_completed_futures [] = Inr []"
| "check_completed_futures ((b, None) # fs) =
     rbind (check_completed_futures fs) (\<lambda>fs'. Inr ((b, None) # fs'))"
| "check_completed_futures ((b, Some (Inl e)) # fs) = Inl e"
| "check_completed_futures ((b, Some (Inr _)) # fs) = check_completed_futures fs"

definition unfinished :: "'a future list \<Rightarrow> 'a future list" where
  "unfinished fs = filter (\<lambda>(b, r). r = None) fs"

text \<open>\<open>limit\<close> is the initial value of the bounded semaphore, \<open>1 + max_workers\<close>: a permit is
  taken by \<open>submit\<close> and given back when the future is done.\<close>

inductive exec_step ::
  "('w \<Rightarrow> 'a list \<Rightarrow> 'w \<times> unit res) \<Rightarrow> nat \<Rightarrow> nat \<Rightarrow> ('a, 'w) run \<Rightarrow> ('a, 'w) run \<Rightarrow> bool"
  for handler :: "'w \<Rightarrow> 'a list \<Rightarrow> 'w \<times> unit res" and max_retries limit :: nat where
  next_ok:
    "run_phase s = NextBatch \<Longrightarrow>
     next_batch (batch_size (run_ex s)) (run_source s) = Some (b, src) \<Longrightarrow>
     check_completed_futures (run_futures s) = Inr fs \<Longrightarrow>
     exec_step handler max_retries limit s
       (s\<lparr>run_source := src, run_futures := fs, run_phase := Submit b\<rparr>)"
| next_crash:
    "run_phase s = NextBatch \<Longrightarrow>
     next_batch (batch_size (run_ex s)) (run_source s) = Some (b, src) \<Longrightarrow>
     check_completed_futures (run_futures s) = Inl e \<Longrightarrow>
     exec_step handler max_retries limit s (s\<lparr>run_source := src, run_phase := Crashed e\<rparr>)"
| next_end:
    "run_phase s = NextBatch \<Longrightarrow>
     next_batch (batch_size (run_ex s)) (run_source s) = None \<Longrightarrow>
     exec_step handler max_retries limit s (s\<lparr>run_phase := Waiting\<rparr>)"
| submit:
    "run_phase s = Submit b \<Longrightarrow> length (unfinished (run_futures s)) < limit \<Longrightarrow>
     exec_step handler max_retries limit s
       (s\<lparr>run_futures := run_futures s @ [(b, None)], run_phase := NextBatch\<rparr>)"
| complete:
    "i < length (run_futures s) \<Longrightarrow> run_futures s ! i = (b, None) \<Longrightarrow>
     fail_safe_execute handler max_retries now b (is_custom (run_source s)) (run_ex s) (run_world s)
       = (ex, w, r) \<Longrightarrow>
     exec_step handler max_retries limit s
       (s\<lparr>run_ex := ex, run_world := w, run_futures := (run_futures s)[i := (b, Some r)]\<rparr>)"
| wait_ok:
    "run_phase s = Waiting \<Longrightarrow> unfinished (run_futures s) = [] \<Longrightarrow>
     check_completed_futures (run_futures s) = Inr fs \<Longrightarrow>
     progress_finish (progress_of (run_ex s)) = Inr (p, n) \<Longrightarrow>
     exec_step handler max_retries limit s
       (s\<lparr>run_ex := (run_ex s)\<lparr>progress_of := p\<rparr>, run_futures := fs, run_phase := Finished\<rparr>)"
| wait_crash:
    "run_phase s = Waiting \<Longrightarrow> unfinished (run_futures s) = [] \<Longrightarrow>
     rbind (check_completed_futures (run_futures s))
       (\<lambda>_. progress_finish (progress_of (run_ex s))) = Inl e \<Longrightarrow>
     exec_step handler max_retries limit s (s\<lparr>run_phase := Crashed e\<rparr>)"

inductive exec_reach ::
  "('w \<Rightarrow> 'a list \<Rightarrow> 'w \<times> unit res) \<Rightarrow> nat \<Rightarrow> nat \<Rightarrow> ('a, 'w) run \<Rightarrow> ('a, 'w) run \<Rightarrow> bool"
  for handler :: "'w \<Rightarrow> 'a list \<Rightarrow> 'w \<times> unit res" and max_retries limit :: nat
    and s0 :: "('a, 'w) run" where
  reach_refl: "exec_reach handler max_retries limit s0 s0"
| reach_step: "exec_reach handler max_retries limit s0 s \<Longrightarrow>
     exec_step handler max_retries limit s t \<Longrightarrow> exec_reach handler max_retries limit s0 t"


inductive_cases exec_stepE: "exec_step handler max_retries limit s t"

lemma exec_reach_invariant:
  assumes "exec_reach h n l s0 s" and "P s0"
    and "\<And>s t. P s \<Longrightarrow> exec_step h n l s t \<Longrightarrow> P t"
  shows "P s"
  using assms by (induction rule: exec_reach.induct) auto

section \<open>Futures\<close>

lemma unfinished_simps [simp]:
  "unfinished [] = []"
  "unfinished (fs @ gs) = unfinished fs @ unfinished gs"
  "unfinished ((b, None) # fs) = (b, None) # unfinished fs"
  "unfinished ((b, Some r) # fs) = unfinished fs"
  by (simp_all add: unfinished_def)

lemma check_completed_Inr:
  "check_completed_futures fs = Inr fs' \<Longrightarrow> fs' = unfinished fs"
proof (induction fs arbitrary: fs' rule: check_completed_futures.induct)
  case (2 b fs)
  then show ?case by (cases "check_completed_futures fs") auto
qed simp_all

lemma check_completed_Cons:
  "check_completed_futures (f # fs) =
     (case snd f of
        None \<Rightarrow> rbind (check_completed_futures fs) (\<lambda>fs'. Inr (f # fs'))
      | Some (Inl e) \<Rightarrow> Inl e
      | Some (Inr _) \<Rightarrow> check_completed_futures fs)"
  by (cases "f # fs" rule: check_completed_futures.cases) auto

lemma check_completed_no_failure:
  assumes "check_completed_futures fs = Inr fs'" and "(b, r) \<in> set fs"
  shows "r \<noteq> Some (Inl e)"
  using assms
proof (induction fs arbitrary: fs')
  case (Cons f fs)
  show ?case
  proof (cases "check_completed_futures fs")
    case (Inl e')
    with Cons.prems(1) show ?thesis
      by (cases "snd f") (simp_all add: check_completed_Cons split: sum.splits)
  next
    case (Inr fs'')
    show ?thesis
    proof (cases "f = (b, r)")
      case True
      with Cons.prems(1) show ?thesis by (cases r) (simp_all add: check_completed_Cons split: sum.splits)
    next
      case False
      with Cons.prems(2) have "(b, r) \<in> set fs" by simp
      then show ?thesis by (rule Cons.IH [OF Inr])
    qed
  qed
qed simp

lemma check_completed_Inl:
  "check_completed_futures fs = Inl e \<Longrightarrow> \<exists>b. (b, Some (Inl e)) \<in> set fs"
proof (induction fs)
  case (Cons f fs)
  show ?case
  proof (cases "f = (fst f, Some (Inl e))")
    case True
    then have "(fst f, Some (Inl e)) \<in> set (f # fs)" by (metis list.set_intros(1))
    then show ?thesis by blast
  next
    case False
    then have "check_completed_futures fs = Inl e"
      using Cons.prems
      by (cases f; cases "snd f") (simp_all add: check_completed_Cons rbind_Inl_iff split: sum.splits)
    with Cons.IH obtain b where "(b, Some (Inl e)) \<in> set fs" by blast
    then have "(b, Some (Inl e)) \<in> set (f # fs)" by simp
    then show ?thesis by blast
  qed
qed simp

lemma unfinished_idem [simp]: "unfinished (unfinished fs) = unfinished fs"
  by (simp add: unfinished_def)

lemma unfinished_split:
  assumes "i < length fs" and "fs ! i = (b, None)"
  shows "fs = take i fs @ (b, None) # drop (Suc i) fs"
    and "fs[i := (b, Some r)] = take i fs @ (b, Some r) # drop (Suc i) fs"
  using assms id_take_nth_drop [of i fs] upd_conv_take_nth_drop [of i fs] by auto

lemma unfinished_complete:
  assumes "i < length fs" and "fs ! i = (b, None)"
  shows "length (unfinished fs) = Suc (length (unfinished (fs[i := (b, Some r)])))"
proof -
  have "length (unfinished fs)
          = length (unfinished (take i fs @ (b, None) # drop (Suc i) fs))"
    using unfinished_split(1) [OF assms] by simp
  then show ?thesis by (simp add: unfinished_split(2) [OF assms])
qed

lemma unfinished_nonempty:
  assumes "unfinished fs \<noteq> []"
  obtains i b where "i < length fs" and "fs ! i = (b, None)"
proof -
  from assms obtain x where "x \<in> set fs" and "snd x = None"
    by (auto simp: unfinished_def filter_empty_conv)
  then show ?thesis by (metis in_set_conv_nth prod.collapse that)
qed

section \<open>Bounds of the batch size and of the queue\<close>

definition batch_ok :: "executor \<Rightarrow> bool" where
  "batch_ok ex \<longleftrightarrow> 1 \<le> batch_size ex \<and> batch_size ex \<le> max_batch_size ex"

lemma try_decrease_ok: "batch_ok ex \<Longrightarrow> batch_ok (try_decrease_batch_size now c ex)"
  by (auto simp: batch_ok_def try_decrease_batch_size_def)

lemma try_increase_ok: "batch_ok ex \<Longrightarrow> 1 \<le> c \<Longrightarrow> batch_ok (try_increase_batch_size now c ex)"
  by (auto simp: batch_ok_def try_increase_batch_size_def Let_def split: option.splits)

lemma batch_ok_progress [simp]:
  "batch_ok (ex\<lparr>progress_of := p\<rparr>) = batch_ok ex"
  by (simp add: batch_ok_def)

lemma fail_safe_execute_batch_ok:
  assumes "batch_ok ex" and "custom \<or> b \<noteq> []"
    and "fail_safe_execute h n now b custom ex w = (ex', w', r)"
  shows "batch_ok ex'"
proof -
  have "custom \<or> 1 \<le> int (length b)" using assms(2) by (cases b) auto
  then show ?thesis
    using assms(1,3)
    by (auto simp: fail_safe_execute_def Let_def try_decrease_ok try_increase_ok
        split: prod.splits sum.splits if_splits)
qed

fun source_size :: "'a source \<Rightarrow> nat" where
  "source_size (Dynamic xs) = length xs"
| "source_size (Custom bs) = length bs"

lemma next_batch_custom:
  "next_batch k src = Some (b, src') \<Longrightarrow> is_custom src' = is_custom src"
  by (cases "(k, src)" rule: next_batch.cases) (auto simp: Let_def)

lemma next_batch_nonempty:
  "next_batch k src = Some (b, src') \<Longrightarrow> is_custom src \<or> b \<noteq> []"
  by (cases "(k, src)" rule: next_batch.cases) (auto simp: Let_def)

lemma next_batch_size:
  "next_batch k src = Some (b, src') \<Longrightarrow> source_size src' < source_size src"
  by (cases "(k, src)" rule: next_batch.cases) (auto simp: Let_def)

lemma next_batch_length:
  "next_batch k (Dynamic xs) = Some (b, src') \<Longrightarrow> int (length b) \<le> max 1 k"
  by (cases xs) (auto simp: Let_def)

definition run_inv :: "nat \<Rightarrow> ('a, 'w) run \<Rightarrow> bool" where
  "run_inv limit s \<longleftrightarrow>
     batch_ok (run_ex s) \<and> length (unfinished (run_futures s)) \<le> limit \<and>
     (is_custom (run_source s) \<or>
      ((\<forall>f \<in> set (run_futures s). fst f \<noteq> []) \<and>
       (\<forall>b. run_phase s = Submit b \<longrightarrow> b \<noteq> [])))"

lemma exec_step_run_inv:
  assumes "run_inv limit s" and "exec_step h n limit s t"
  shows "run_inv limit t"
  using assms(2)
proof (cases rule: exec_step.cases)
  case (next_ok b src fs)
  with assms(1) show ?thesis
    using next_batch_custom [OF next_ok(3)] next_batch_nonempty [OF next_ok(3)]
    by (auto simp: run_inv_def check_completed_Inr [OF next_ok(4)] unfinished_def)
next
  case (next_crash b src e)
  with assms(1) show ?thesis
    using next_batch_custom [OF next_crash(3)] by (auto simp: run_inv_def)
next
  case next_end
  with assms(1) show ?thesis by (auto simp: run_inv_def)
next
  case (submit b)
  with assms(1) show ?thesis by (auto simp: run_inv_def)
next
  case (complete i b now ex w r)
  have "is_custom (run_source s) \<or> b \<noteq> []"
    using assms(1) complete(2,3) by (force simp: run_inv_def dest: nth_mem)
  then have "batch_ok ex"
    using fail_safe_execute_batch_ok [OF _ _ complete(4)] assms(1) by (auto simp: run_inv_def)
  moreover have "length (unfinished ((run_futures s)[i := (b, Some r)])) \<le> limit"
    using unfinished_complete [OF complete(2,3), of r] assms(1) by (simp add: run_inv_def)
  ultimately show ?thesis
    using assms(1) \<open>is_custom (run_source s) \<or> b \<noteq> []\<close> complete(1)
    by (auto simp: run_inv_def dest: subsetD [OF set_update_subset_insert])
next
  case (wait_ok fs p k)
  with assms(1) show ?thesis
    by (auto simp: run_inv_def check_completed_Inr [OF wait_ok(4)])
next
  case (wait_crash e)
  with assms(1) show ?thesis by (auto simp: run_inv_def)
qed

lemma exec_start_run_inv: "batch_ok ex \<Longrightarrow> run_inv limit (exec_start ex w src n_items)"
  by (auto simp: run_inv_def exec_start_def)

lemma fail_safe_execute_max:
  "fail_safe_execute h n now b custom ex w = (ex', w', r) \<Longrightarrow> max_batch_size ex' = max_batch_size ex"
  by (auto simp: fail_safe_execute_def Let_def try_decrease_batch_size_def
      try_increase_batch_size_def split: prod.splits sum.splits if_splits option.splits)

lemma exec_step_keeps:
  assumes "exec_step h n limit s t"
  shows "max_batch_size (run_ex t) = max_batch_size (run_ex s)"
    and "is_custom (run_source t) = is_custom (run_source s)"
  using assms
  by (cases rule: exec_step.cases; auto simp: fail_safe_execute_max next_batch_custom)+

lemma exec_reach_run_inv:
  assumes "exec_reach h n limit (exec_start ex w src n_items) s" and "batch_ok ex"
  shows "run_inv limit s"
  using assms(1)
  by (rule exec_reach_invariant) (auto intro: exec_start_run_inv exec_step_run_inv assms(2))

section \<open>Every run ends\<close>

definition phase_weight :: "'a phase \<Rightarrow> nat" where
  "phase_weight ph = (case ph of Submit _ \<Rightarrow> 4 | NextBatch \<Rightarrow> 2 | Waiting \<Rightarrow> 1 | _ \<Rightarrow> 0)"

definition run_weight :: "('a, 'w) run \<Rightarrow> nat" where
  "run_weight s =
     3 * source_size (run_source s) + phase_weight (run_phase s) + length (unfinished (run_futures s))"

definition run_over :: "('a, 'w) run \<Rightarrow> bool" where
  "run_over s \<longleftrightarrow> (case run_phase s of Finished \<Rightarrow> True | Crashed _ \<Rightarrow> True | _ \<Rightarrow> False)"

lemma exec_step_weight:
  assumes "exec_step h n limit s t"
  shows "run_weight t < run_weight s"
  using assms
proof (cases rule: exec_step.cases)
  case (next_ok b src fs)
  then show ?thesis
    using next_batch_size [OF next_ok(3)] check_completed_Inr [OF next_ok(4)]
    by (simp add: run_weight_def phase_weight_def)
next
  case (next_crash b src e)
  then show ?thesis
    using next_batch_size [OF next_crash(3)] by (simp add: run_weight_def phase_weight_def)
next
  case (complete i b now ex w r)
  then show ?thesis
    using unfinished_complete [OF complete(2,3), of r] by (simp add: run_weight_def)
next
  case (wait_ok fs p k)
  then show ?thesis
    using check_completed_Inr [OF wait_ok(4)] by (simp add: run_weight_def phase_weight_def)
qed (simp_all add: run_weight_def phase_weight_def)

lemma exec_step_complete_enabled:
  assumes "unfinished (run_futures s) \<noteq> []"
  shows "\<exists>t. exec_step h n limit s t"
proof -
  from assms obtain i b where i: "i < length (run_futures s)" "run_futures s ! i = (b, None)"
    by (rule unfinished_nonempty)
  obtain ex w r where "fail_safe_execute h n 0 b (is_custom (run_source s)) (run_ex s) (run_world s)
      = (ex, w, r)" by (cases "fail_safe_execute h n 0 b (is_custom (run_source s)) (run_ex s)
        (run_world s)") auto
  from exec_step.complete [OF i this] show ?thesis by blast
qed

lemma exec_step_enabled:
  assumes "\<not> run_over s" and "0 < limit"
  shows "\<exists>t. exec_step h n limit s t"
proof (cases "run_phase s")
  case NextBatch
  then show ?thesis
    by (cases "next_batch (batch_size (run_ex s)) (run_source s)";
        cases "check_completed_futures (run_futures s)")
       (auto intro: exec_step.next_ok exec_step.next_crash exec_step.next_end)
next
  case (Submit b)
  show ?thesis
  proof (cases "unfinished (run_futures s) = []")
    case True
    with assms(2) have "length (unfinished (run_futures s)) < limit" by simp
    from exec_step.submit [OF Submit this] show ?thesis by blast
  qed (rule exec_step_complete_enabled)
next
  case Waiting
  show ?thesis
  proof (cases "unfinished (run_futures s) = []")
    case True
    show ?thesis
    proof (cases "rbind (check_completed_futures (run_futures s))
                    (\<lambda>_. progress_finish (progress_of (run_ex s)))")
      case (Inl e)
      from exec_step.wait_crash [OF Waiting True Inl] show ?thesis by blast
    next
      case (Inr pn)
      then obtain fs where fs: "check_completed_futures (run_futures s) = Inr fs"
        and fin: "progress_finish (progress_of (run_ex s)) = Inr (fst pn, snd pn)"
        by (auto simp: rbind_Inr_iff)
      from exec_step.wait_ok [OF Waiting True fs fin] show ?thesis by blast
    qed
  qed (rule exec_step_complete_enabled)
qed (use assms(1) in \<open>simp_all add: run_over_def\<close>)

text \<open>\<open>exec_steps k\<close>: the run takes exactly \<open>k\<close> steps.\<close>

inductive exec_steps ::
  "('w \<Rightarrow> 'a list \<Rightarrow> 'w \<times> unit res) \<Rightarrow> nat \<Rightarrow> nat \<Rightarrow> nat \<Rightarrow> ('a, 'w) run \<Rightarrow> ('a, 'w) run \<Rightarrow> bool"
  for handler :: "'w \<Rightarrow> 'a list \<Rightarrow> 'w \<times> unit res" and max_retries limit :: nat where
  steps_0: "exec_steps handler max_retries limit 0 s s"
| steps_Suc: "exec_step handler max_retries limit s t \<Longrightarrow>
     exec_steps handler max_retries limit k t u \<Longrightarrow>
     exec_steps handler max_retries limit (Suc k) s u"

lemma exec_steps_bound:
  "exec_steps h n limit k s t \<Longrightarrow> k + run_weight t \<le> run_weight s"
  by (induction rule: exec_steps.induct) (auto dest: exec_step_weight)

lemma exec_run_completes:
  assumes "0 < limit"
  shows "\<exists>k t. exec_steps h n limit k s t \<and> run_over t"
proof (induction s rule: measure_induct_rule [of run_weight])
  case (less s)
  show ?case
  proof (cases "run_over s")
    case True
    then show ?thesis by (blast intro: exec_steps.steps_0)
  next
    case False
    then obtain t where t: "exec_step h n limit s t"
      using exec_step_enabled [OF _ assms] by blast
    from less [OF exec_step_weight [OF t]] t show ?thesis by (blast intro: exec_steps.steps_Suc)
  qed
qed

section \<open>An executor that has raised\<close>

text \<open>Outside of a run that returned, the counter is there; a run that returned has left no future, one that raised has
  the future whose exception it raised.\<close>

definition settled :: "('a, 'w) run \<Rightarrow> bool" where
  "settled s \<longleftrightarrow> (case run_phase s of
     Finished \<Rightarrow> run_futures s = []
   | Crashed e \<Rightarrow> counter (progress_of (run_ex s)) \<noteq> None \<and> (\<exists>b. (b, Some (Inl e)) \<in> set (run_futures s))
   | _ \<Rightarrow> counter (progress_of (run_ex s)) \<noteq> None)"

lemma fail_safe_execute_counter:
  assumes "fail_safe_execute h n now b custom ex w = (ex', w', r)" and "counter (progress_of ex) \<noteq> None"
  shows "counter (progress_of ex') \<noteq> None"
  using assms
  by (auto simp: fail_safe_execute_def Let_def progress_track_def try_decrease_batch_size_def try_increase_batch_size_def
      rbind_Inr_iff split: prod.splits sum.splits if_splits option.splits)

lemma failure_stays:
  assumes "(b, Some (Inl e)) \<in> set fs" and "fs ! i = (c, None)"
  shows "(b, Some (Inl e)) \<in> set (fs[i := x])"
proof -
  from assms(1) obtain j where j: "j < length fs" "fs ! j = (b, Some (Inl e))" by (auto simp: in_set_conv_nth)
  with assms(2) have "j \<noteq> i" by auto
  with j have "fs[i := x] ! j = (b, Some (Inl e))" "j < length (fs[i := x])" by simp_all
  then show ?thesis by (metis nth_mem)
qed

lemma progress_finish_there: "counter p \<noteq> None \<Longrightarrow> progress_finish p \<noteq> Inl e"
  by (auto simp: progress_finish_def counter_increment_def)

lemma exec_step_settled:
  assumes "settled s" and "exec_step h n limit s t"
  shows "settled t"
  using assms(2)
proof (cases rule: exec_step.cases)
  case (next_crash b src e)
  with assms(1) check_completed_Inl [OF next_crash(4)] show ?thesis by (auto simp: settled_def)
next
  case (complete i b now ex w r)
  have "run_phase s \<noteq> Finished" using assms(1) complete(2) by (auto simp: settled_def)
  with assms(1) have "counter (progress_of (run_ex s)) \<noteq> None" by (auto simp: settled_def split: phase.splits)
  from fail_safe_execute_counter [OF complete(4) this] have c: "counter (progress_of ex) \<noteq> None" .
  have "\<exists>c. (c, Some (Inl e)) \<in> set (run_futures t)" if "run_phase s = Crashed e" for e
  proof -
    from assms(1) that obtain c where "(c, Some (Inl e)) \<in> set (run_futures s)" by (auto simp: settled_def)
    from failure_stays [OF this complete(3), of "(b, Some r)"] show ?thesis unfolding complete(1) by auto
  qed
  with c \<open>run_phase s \<noteq> Finished\<close> show ?thesis by (cases "run_phase s") (auto simp: settled_def complete(1))
next
  case (wait_ok fs p k)
  with check_completed_Inr [OF wait_ok(4)] show ?thesis by (simp add: settled_def)
next
  case (wait_crash e)
  have "counter (progress_of (run_ex s)) \<noteq> None" using assms(1) wait_crash(2) by (simp add: settled_def)
  with wait_crash(4) progress_finish_there have "check_completed_futures (run_futures s) = Inl e"
    by (auto simp: rbind_Inl_iff)
  from check_completed_Inl [OF this] assms(1) wait_crash show ?thesis by (auto simp: settled_def)
qed (use assms(1) in \<open>auto simp: settled_def\<close>)

lemma exec_reach_settled: "exec_reach h n limit s0 s \<Longrightarrow> settled s0 \<Longrightarrow> settled s"
  by (erule exec_reach_invariant) (auto intro: exec_step_settled)

lemma settled_start: "settled (exec_start ex w src m)" "settled (exec_again s w src m)"
  by (simp_all add: settled_def exec_start_def exec_again_def progress_start_def)

lemma exec_again_after_return:
  assumes "exec_reach h n limit (exec_start ex w src m) s" and "run_phase s = Finished"
  shows "exec_again s w' src' m' = exec_start (run_ex s) w' src' m'"
  using exec_reach_settled [OF assms(1) settled_start(1)] assms(2)
  by (simp add: settled_def exec_again_def exec_start_def)

text \<open>Any number of further calls on an executor, with any handlers, worlds and work.\<close>

inductive used_again :: "('a, 'w) run \<Rightarrow> ('a, 'w) run \<Rightarrow> bool" for s0 :: "('a, 'w) run" where
  used_once: "exec_reach h n limit (exec_again s0 w src m) s \<Longrightarrow> used_again s0 s"
| used_more: "used_again s0 s \<Longrightarrow> exec_reach h n limit (exec_again s w src m) t \<Longrightarrow> used_again s0 t"

definition failed_future :: "('a, 'w) run \<Rightarrow> bool" where
  "failed_future s \<longleftrightarrow> (\<exists>b e. (b, Some (Inl e)) \<in> set (run_futures s))"

lemma exec_step_failed:
  assumes "failed_future s" and "exec_step h n limit s t"
  shows "failed_future t"
  using assms(2)
proof (cases rule: exec_step.cases)
  case (next_ok b src fs)
  from assms(1) check_completed_no_failure [OF next_ok(4)] show ?thesis unfolding failed_future_def by blast
next
  case (complete i b now ex w r)
  from assms(1) obtain c e where "(c, Some (Inl e)) \<in> set (run_futures s)" by (auto simp: failed_future_def)
  from failure_stays [OF this complete(3), of "(b, Some r)"] show ?thesis by (auto simp: failed_future_def complete(1))
next
  case (wait_ok fs p k)
  from assms(1) check_completed_no_failure [OF wait_ok(4)] show ?thesis unfolding failed_future_def by blast
qed (use assms(1) in \<open>auto simp: failed_future_def\<close>)

lemma exec_reach_failed: "exec_reach h n limit s0 s \<Longrightarrow> failed_future s0 \<Longrightarrow> failed_future s"
  by (erule exec_reach_invariant) (auto intro: exec_step_failed)

lemma used_again_failed:
  assumes "used_again s0 s" and "failed_future s0"
  shows "failed_future s \<and> settled s"
proof -
  have again: "failed_future (exec_again u w src m) = failed_future u" for u :: "('a, 'b) run" and w src m
    by (simp add: failed_future_def exec_again_def)
  show ?thesis
    using assms(1)
  proof (induction rule: used_again.induct)
    case (used_once h n limit w src m s)
    from exec_reach_failed [OF used_once(1)] exec_reach_settled [OF used_once(1) settled_start(2)] show ?case
      using assms(2) by (simp add: again)
  next
    case (used_more s h n limit w src m t)
    from exec_reach_failed [OF used_more(2)] exec_reach_settled [OF used_more(2) settled_start(2)] show ?case
      using used_more.IH by (simp add: again)
  qed
qed

section \<open>What the work handlers are called on\<close>

fun source_items :: "'a source \<Rightarrow> 'a list" where
  "source_items (Dynamic xs) = xs"
| "source_items (Custom bs) = concat bs"

lemma next_batch_items:
  "next_batch k src = Some (b, src') \<Longrightarrow> source_items src = b @ source_items src'"
proof (cases "(k, src)" rule: next_batch.cases)
  case (2 kk x xs)
  assume "next_batch k src = Some (b, src')"
  with 2 have "b = take (nat (max 1 k)) (x # xs)" "src' = Dynamic (drop (nat (max 1 k)) (x # xs))"
    by (simp_all add: Let_def)
  with 2 show ?thesis by (simp only: source_items.simps append_take_drop_id prod.inject)
qed auto

lemma next_batch_end: "next_batch k src = None \<Longrightarrow> source_items src = []"
  by (cases "(k, src)" rule: next_batch.cases) (auto simp: Let_def)

text \<open>With a handler that never raises on the items of \<open>A\<close>, a run over such items does not crash.\<close>

definition never_raises :: "'a set \<Rightarrow> ('w \<Rightarrow> 'a list \<Rightarrow> 'w \<times> unit res) \<Rightarrow> bool" where
  "never_raises A h \<longleftrightarrow> (\<forall>w b. set b \<subseteq> A \<longrightarrow> snd (h w b) = Inr ())"

definition smooth :: "'a set \<Rightarrow> ('a, 'w) run \<Rightarrow> bool" where
  "smooth A s \<longleftrightarrow> set (source_items (run_source s)) \<subseteq> A \<and> \<not> is_custom (run_source s) \<and> (\<forall>e. run_phase s \<noteq> Crashed e) \<and>
     (\<forall>b r. (b, r) \<in> set (run_futures s) \<longrightarrow> b \<noteq> [] \<and> set b \<subseteq> A \<and> (r = None \<or> r = Some (Inr ()))) \<and>
     (\<forall>b. run_phase s = Submit b \<longrightarrow> b \<noteq> [] \<and> set b \<subseteq> A) \<and>
     (run_phase s \<noteq> Finished \<longrightarrow> counter (progress_of (run_ex s)) \<noteq> None) \<and>
     (run_phase s = Finished \<longrightarrow> run_futures s = [])"

lemma smooth_no_failure: "smooth A s \<Longrightarrow> check_completed_futures (run_futures s) \<noteq> Inl e"
  using check_completed_Inl by (fastforce simp: smooth_def)

lemma progress_finish_returns: "counter p \<noteq> None \<Longrightarrow> progress_finish p \<noteq> Inl e"
  by (auto simp: progress_finish_def counter_increment_def)

lemma fail_safe_execute_never_raises:
  assumes "never_raises A h" and "b \<noteq> []" and "set b \<subseteq> A" and "counter (progress_of ex) \<noteq> None"
    and "fail_safe_execute h n now b custom ex w = (ex', w', r)"
  shows "r = Inr () \<and> counter (progress_of ex') \<noteq> None"
proof -
  obtain w1 where h: "h w b = (w1, Inr ())"
    using assms(1,3) by (metis never_raises_def prod.collapse)
  have c: "progress_of (try_increase_batch_size now m ex) = progress_of ex" for m
    by (simp add: try_increase_batch_size_def Let_def split: option.splits)
  show ?thesis
    using assms(2,4,5) h c
    by (cases custom) (auto simp: fail_safe_execute_def Let_def progress_track_def counter_increment_def)
qed

lemma exec_step_smooth:
  assumes "never_raises A h" and "smooth A s" and "exec_step h n limit s t"
  shows "smooth A t"
  using assms(3)
proof (cases rule: exec_step.cases)
  case (next_ok b src fs)
  with assms(2) show ?thesis
    using next_batch_custom [OF next_ok(3)] next_batch_nonempty [OF next_ok(3)]
      next_batch_items [OF next_ok(3)]
    by (auto simp: smooth_def check_completed_Inr [OF next_ok(4)] unfinished_def)
next
  case (next_crash b src e)
  with smooth_no_failure [OF assms(2), of e] show ?thesis by simp
next
  case next_end
  with assms(2) show ?thesis by (auto simp: smooth_def)
next
  case (submit b)
  with assms(2) show ?thesis by (auto simp: smooth_def)
next
  case (complete i b now ex w r)
  have i: "(b, None) \<in> set (run_futures s)" using complete(2,3) by (metis nth_mem)
  then have b: "b \<noteq> []" "set b \<subseteq> A" and f: "run_phase s \<noteq> Finished" using assms(2) by (auto simp: smooth_def)
  have "counter (progress_of (run_ex s)) \<noteq> None" using assms(2) f by (simp add: smooth_def)
  from fail_safe_execute_never_raises [OF assms(1) b this complete(4)]
  have r: "r = Inr ()" "counter (progress_of ex) \<noteq> None" by simp_all
  have new: "c \<noteq> [] \<and> set c \<subseteq> A \<and> (q = None \<or> q = Some (Inr ()))"
    if "(c, q) \<in> set ((run_futures s)[i := (b, Some r)])" for c q
  proof (cases "(c, q) = (b, Some r)")
    case True
    with b r show ?thesis by simp
  next
    case False
    moreover have "(c, q) \<in> insert (b, Some r) (set (run_futures s))"
      by (rule subsetD [OF set_update_subset_insert that])
    ultimately have "(c, q) \<in> set (run_futures s)" by blast
    with assms(2) show ?thesis by (auto simp: smooth_def)
  qed
  have old: "set (source_items (run_source s)) \<subseteq> A" "\<not> is_custom (run_source s)"
    "\<forall>e. run_phase s \<noteq> Crashed e" "\<forall>b. run_phase s = Submit b \<longrightarrow> b \<noteq> [] \<and> set b \<subseteq> A"
    using assms(2) by (simp_all add: smooth_def)
  show ?thesis unfolding complete(1) smooth_def using old r(2) f new by simp
next
  case (wait_ok fs p k)
  with assms(2) check_completed_Inr [OF wait_ok(4)] show ?thesis by (auto simp: smooth_def)
next
  case (wait_crash e)
  with assms(2) smooth_no_failure [OF assms(2)] progress_finish_returns show ?thesis
    by (auto simp: rbind_Inl_iff smooth_def)
qed

lemma exec_steps_reach:
  assumes "exec_steps h n limit k s t" and "exec_reach h n limit s0 s"
  shows "exec_reach h n limit s0 t"
  using assms by (induction rule: exec_steps.induct) (auto intro: exec_reach.reach_step)

lemma exec_finishes:
  assumes "never_raises (set xs) h" and "0 < limit"
  shows "\<exists>s. exec_reach h n limit (exec_start (new_executor size0) w (Dynamic xs) m) s \<and>
    run_phase s = Finished"
proof -
  let ?s = "exec_start (new_executor size0) w (Dynamic xs) m"
  obtain k t where t: "exec_steps h n limit k ?s t" "run_over t"
    using exec_run_completes [OF assms(2)] by blast
  have r: "exec_reach h n limit ?s t" by (rule exec_steps_reach [OF t(1) exec_reach.reach_refl])
  have s: "smooth (set xs) ?s"
    by (simp add: smooth_def exec_start_def new_executor_def new_progress_def progress_start_def)
  have "smooth (set xs) t"
    using r s by (rule exec_reach_invariant) (rule exec_step_smooth [OF assms(1)])
  with t(2) r show ?thesis
    by (cases "run_phase t") (auto simp: run_over_def smooth_def)
qed

text \<open>
  The contract of a work handler, over a measure \<open>processed\<close> of what has been done in a
  world: a call that returns has done exactly its batch, one that raises an exception that is retried has
  done nothing.
\<close>

locale batch_handler =
  fixes handler :: "'w \<Rightarrow> 'a list \<Rightarrow> 'w \<times> unit res"
    and processed :: "'w \<Rightarrow> 'm multiset"
    and yields :: "'a \<Rightarrow> 'm multiset"
  assumes returns: "handler w b = (w', Inr u) \<Longrightarrow>
      processed w' = processed w + sum_list (map yields b)"
    and raises: "handler w b = (w', Inl e) \<Longrightarrow> RETRY_EXCEPTIONS e \<Longrightarrow> processed w' = processed w"
begin

definition work :: "'a list \<Rightarrow> 'm multiset" where
  "work b = sum_list (map yields b)"

lemma work_simps [simp]:
  "work [] = {#}" "work (b @ c) = work b + work c" "work (x # b) = yields x + work b"
  by (simp_all add: work_def)

lemma execute_with_retries_processed:
  assumes "execute_with_retries handler (Suc n) w b = (w', Inr u)"
  shows "processed w' = processed w + work b"
  using assms
proof (induction n arbitrary: w)
  case 0
  then show ?case
    using returns [of w b] by (auto simp: work_def split: prod.splits sum.splits if_splits)
next
  case (Suc n)
  obtain w1 r1 where h: "handler w b = (w1, r1)" by (cases "handler w b") auto
  show ?case
  proof (cases r1)
    case (Inr u)
    with Suc.prems h returns [of w b w1 u] show ?thesis by (auto simp: work_def)
  next
    case (Inl e)
    with Suc.prems h have retry: "RETRY_EXCEPTIONS e"
      and "execute_with_retries handler (Suc n) w1 b = (w', Inr u)" by (auto split: if_splits)
    from Suc.IH [OF this(2)] raises [OF h [unfolded Inl] retry] show ?thesis by simp
  qed
qed

lemma retry_items_processed:
  assumes "retry_items handler n w b = (w', Inr u)" and "0 < n"
  shows "processed w' = processed w + work b"
  using assms(1)
proof (induction b arbitrary: w)
  case (Cons x b)
  obtain w1 r1 where h: "execute_with_retries handler n w [x] = (w1, r1)"
    by (cases "execute_with_retries handler n w [x]") auto
  with Cons.prems obtain v where r1: "r1 = Inr v" by (cases r1) auto
  have "processed w1 = processed w + yields x"
    using execute_with_retries_processed [of "n - 1" w "[x]" w1 v] h r1 assms(2) by simp
  moreover have "processed w' = processed w1 + work b"
    using Cons.IH [of w1] Cons.prems h r1 by simp
  ultimately show ?case by simp
qed simp

lemma fail_safe_execute_processed:
  assumes "fail_safe_execute handler n now b custom ex w = (ex', w', Inr u)" and "0 < n"
  shows "processed w' = processed w + work b"
proof -
  obtain w1 r1 where h: "handler w b = (w1, r1)" by (cases "handler w b") auto
  show ?thesis
  proof (cases r1)
    case (Inr v)
    then have "w' = w1" using assms(1) h
      by (auto simp: fail_safe_execute_def Let_def split: sum.splits if_splits)
    with returns h Inr show ?thesis by (auto simp: work_def)
  next
    case (Inl e)
    have retry: "RETRY_EXCEPTIONS e"
      using assms(1) h Inl by (auto simp: fail_safe_execute_def split: sum.splits if_splits)
    have p: "processed w1 = processed w" using raises h Inl retry by blast
    show ?thesis
    proof (cases custom)
      case True
      with assms(1) h Inl retry obtain v
        where "execute_with_retries handler n w1 b = (w', Inr v)"
        by (auto simp: fail_safe_execute_def split: prod.splits sum.splits)
      then show ?thesis
        using execute_with_retries_processed [of "n - 1" w1 b w' v] assms(2) p by simp
    next
      case False
      with assms(1) h Inl retry obtain v where "retry_items handler n w1 b = (w', Inr v)"
        by (auto simp: fail_safe_execute_def split: prod.splits sum.splits)
      then show ?thesis using retry_items_processed [OF _ assms(2)] p by simp
    qed
  qed
qed

definition pending :: "('a, 'w) run \<Rightarrow> 'm multiset" where
  "pending s = work (concat (map fst (unfinished (run_futures s))))
     + (case run_phase s of Submit b \<Rightarrow> work b | _ \<Rightarrow> {#}) + work (source_items (run_source s))"

definition some_failed :: "('a, 'w) run \<Rightarrow> bool" where
  "some_failed s \<longleftrightarrow> (\<exists>b e. (b, Some (Inl e)) \<in> set (run_futures s)) \<or> (\<exists>e. run_phase s = Crashed e)"

definition accounted :: "'m multiset \<Rightarrow> ('a, 'w) run \<Rightarrow> bool" where
  "accounted m s \<longleftrightarrow> some_failed s \<or>
     (processed (run_world s) + pending s = m \<and>
      (run_phase s = Waiting \<or> run_phase s = Finished \<longrightarrow> source_items (run_source s) = []) \<and>
      (run_phase s = Finished \<longrightarrow> unfinished (run_futures s) = []))"

lemma unfinished_complete_work:
  assumes "i < length fs" and "fs ! i = (b, None)"
  shows "work (concat (map fst (unfinished fs)))
     = work b + work (concat (map fst (unfinished (fs[i := (b, Some r)]))))"
proof -
  have "work (concat (map fst (unfinished fs)))
     = work (concat (map fst (unfinished (take i fs @ (b, None) # drop (Suc i) fs))))"
    using unfinished_split(1) [OF assms] by simp
  then show ?thesis by (simp add: unfinished_split(2) [OF assms] add_ac)
qed

lemma exec_step_accounted:
  assumes "accounted m s" and "exec_step handler n limit s t" and "0 < n"
  shows "accounted m t"
  using assms(2)
proof (cases rule: exec_step.cases)
  case (next_ok b src fs)
  have nf: "\<not> some_failed s"
    using check_completed_no_failure [OF next_ok(4)] next_ok(2) by (auto simp: some_failed_def)
  with assms(1) next_ok show ?thesis
    using next_batch_items [OF next_ok(3)] check_completed_Inr [OF next_ok(4)]
    by (auto simp: accounted_def pending_def)
next
  case (next_crash b src e)
  then show ?thesis by (simp add: accounted_def some_failed_def)
next
  case next_end
  with assms(1) show ?thesis
    using next_batch_end [OF next_end(3)] by (auto simp: accounted_def pending_def some_failed_def)
next
  case (submit b)
  with assms(1) show ?thesis by (auto simp: accounted_def pending_def some_failed_def add_ac)
next
  case (complete i b now ex w r)
  show ?thesis
  proof (cases r)
    case (Inl e)
    with complete show ?thesis
      by (force simp: accounted_def some_failed_def in_set_conv_nth)
  next
    case (Inr u)
    have w: "processed w = processed (run_world s) + work b"
      using fail_safe_execute_processed complete(4) Inr assms(3) by blast
    have f: "some_failed s \<Longrightarrow> some_failed t"
      using complete(1,3) by (auto simp: some_failed_def in_set_conv_nth) (metis nth_list_update_neq option.simps(3) prod.inject)+
    have "unfinished (run_futures s) \<noteq> []" using unfinished_complete [OF complete(2,3)] by auto
    with f assms(1) w show ?thesis
      using unfinished_complete_work [OF complete(2,3), of r] complete(1)
      by (auto simp: accounted_def pending_def add_ac)
  qed
next
  case (wait_ok fs p k)
  have nf: "\<not> some_failed s"
    using check_completed_no_failure [OF wait_ok(4)] wait_ok(2) by (auto simp: some_failed_def)
  with assms(1) wait_ok show ?thesis
    using check_completed_Inr [OF wait_ok(4)] by (auto simp: accounted_def pending_def)
next
  case (wait_crash e)
  then show ?thesis by (simp add: accounted_def some_failed_def)
qed

text \<open>No step follows \<open>Finished\<close> with a failed future.\<close>

definition finished_clean :: "('a, 'w) run \<Rightarrow> bool" where
  "finished_clean s \<longleftrightarrow> (run_phase s = Finished \<longrightarrow> run_futures s = [])"

lemma exec_step_finished_clean:
  assumes "finished_clean s" and "exec_step handler n limit s t"
  shows "finished_clean t"
  using assms(2)
proof (cases rule: exec_step.cases)
  case (complete i b now ex w r)
  with assms(1) show ?thesis by (auto simp: finished_clean_def)
next
  case (wait_ok fs p k)
  with check_completed_Inr [OF wait_ok(4)] show ?thesis by (simp add: finished_clean_def)
qed (simp_all add: finished_clean_def)

lemma accounted_start:
  "accounted (processed w + work (source_items src)) (exec_start ex w src n_items)"
  by (simp add: accounted_def pending_def exec_start_def)

lemma finished_clean_start: "finished_clean (exec_start ex w src n_items)"
  by (simp add: finished_clean_def exec_start_def)

lemma finished_processed:
  assumes "exec_reach handler n limit (exec_start ex w src n_items) s"
    and "run_phase s = Finished" and "0 < n"
  shows "processed (run_world s) = processed w + work (source_items src)"
proof -
  have "accounted (processed w + work (source_items src)) s"
    using assms(1) accounted_start
    by (rule exec_reach_invariant) (rule exec_step_accounted [OF _ _ assms(3)])
  moreover have "finished_clean s"
    using assms(1) finished_clean_start
    by (rule exec_reach_invariant) (rule exec_step_finished_clean)
  ultimately show ?thesis
    using assms(2) by (auto simp: accounted_def finished_clean_def some_failed_def pending_def)
qed

end

section \<open>Properties\<close>

text \<open>C7: whatever the work handler does, a run of the executor ends. With a semaphore of at
  least one permit no state that is not over is stuck, so from every state there is a complete
  run, and no run from \<open>s\<close> takes more than \<open>run_weight s\<close> steps: three per batch left,
  one per unfinished future, and at most four to get out of the current phase.\<close>

theorem executor_terminates:
  assumes "0 < limit"
  shows "(\<exists>k t. exec_steps h n limit k s t \<and> run_over t) \<and>
    (\<forall>k t. exec_steps h n limit k s t \<longrightarrow> k \<le> run_weight s) \<and>
    (\<not> run_over s \<longrightarrow> (\<exists>t. exec_step h n limit s t))"
  using exec_run_completes [OF assms] exec_step_enabled [OF _ assms]
  by (meson add_leD1 exec_steps_bound)

theorem executor_terminates_witness:
  "\<exists>k t. exec_steps (\<lambda>w b. (w + length b, Inr ())) 5 3 k
     (exec_start (new_executor 2) (0 :: nat) (Dynamic [10 :: int, 11, 12]) None) t \<and> run_over t"
  by (rule executor_terminates [of 3, THEN conjunct1]) simp

text \<open>C9: as long as the executor is started with a positive batch size, at every moment of a run
  the adaptive batch size stays between 1 and the size it was started with, no more than
  \<open>limit\<close> (\<open>1 + max_workers\<close>) futures are queued or running, and the batches of
  \<open>dynamic_batch_iterator\<close> are not empty.\<close>

theorem executor_bounds:
  assumes "1 \<le> starting_batch_size"
    and "exec_reach h n limit (exec_start (new_executor starting_batch_size) w (Dynamic xs) k) s"
  shows "1 \<le> batch_size (run_ex s) \<and> batch_size (run_ex s) \<le> starting_batch_size \<and>
    length (unfinished (run_futures s)) \<le> limit \<and>
    (\<forall>f \<in> set (run_futures s). fst f \<noteq> [])"
proof -
  have "run_inv limit s"
    by (rule exec_reach_run_inv [OF assms(2)]) (simp add: batch_ok_def new_executor_def assms(1))
  moreover have "max_batch_size (run_ex s) = starting_batch_size \<and> \<not> is_custom (run_source s)"
    using assms(2) by (rule exec_reach_invariant)
      (auto simp: exec_start_def new_executor_def exec_step_keeps)
  ultimately show ?thesis by (auto simp: run_inv_def batch_ok_def)
qed

theorem executor_bounds_witness:
  "exec_reach (\<lambda>w b. (w + length b, Inr ())) 5 3
     (exec_start (new_executor 2) 0 (Dynamic [10 :: int, 11, 12]) None)
     ((exec_start (new_executor 2) 0 (Dynamic [10 :: int, 11, 12]) None)
        \<lparr>run_source := Dynamic [12], run_phase := Submit [10, 11]\<rparr>) \<and>
   batch_size (run_ex ((exec_start (new_executor 2) (0 :: nat) (Dynamic [10 :: int, 11, 12]) None)
        \<lparr>run_source := Dynamic [12], run_phase := Submit [10, 11]\<rparr>)) \<le> 2"
proof -
  let ?h = "\<lambda>w b. (w + length (b :: int list), Inr () :: unit res)"
  let ?s = "exec_start (new_executor 2) (0 :: nat) (Dynamic [10 :: int, 11, 12]) None"
  have "exec_step ?h 5 3 ?s (?s\<lparr>run_source := Dynamic [12], run_futures := [],
      run_phase := Submit [10, 11]\<rparr>)"
    by (rule exec_step.next_ok) (simp_all add: exec_start_def new_executor_def)
  then have r: "exec_reach ?h 5 3 ?s (?s\<lparr>run_source := Dynamic [12], run_phase := Submit [10, 11]\<rparr>)"
    by (intro exec_reach.reach_step [OF exec_reach.reach_refl]) (simp add: exec_start_def)
  with executor_bounds [OF _ r] show ?thesis by simp
qed

text \<open>C20: an executor that has raised once never returns again. A future that failed stays in its list, so whatever
  work it is given afterwards, with whatever handler, how many times ever, no call reaches its regular end: each one
  that is over has raised, and the exception is the one of a future that failed.\<close>

theorem executor_stays_failed:
  assumes "exec_reach h n limit (exec_start ex w src m) s" and "run_phase s = Crashed e" and "used_again s t"
  shows "run_phase t \<noteq> Finished \<and>
    (run_over t \<longrightarrow> (\<exists>b e'. run_phase t = Crashed e' \<and> (b, Some (Inl e')) \<in> set (run_futures t)))"
proof -
  have "failed_future s"
    using exec_reach_settled [OF assms(1) settled_start(1)] assms(2) by (auto simp: settled_def failed_future_def)
  from used_again_failed [OF assms(3) this] show ?thesis
    by (auto simp: settled_def failed_future_def run_over_def split: phase.splits)
qed

text \<open>One item on which the work raises a \<open>ValueError\<close>; the next call has no work at all and raises it again.\<close>

theorem executor_stays_failed_witness:
  "\<exists>s t. exec_reach (\<lambda>w b. (w, Inl (ValueError ''bad''))) 5 3 (exec_start (new_executor 2) () (Dynamic [7 :: int]) None) s \<and>
     run_phase s = Crashed (ValueError ''bad'') \<and> used_again s t \<and> run_source t = Dynamic [] \<and>
     (\<exists>e. run_phase t = Crashed e)"
proof -
  let ?h = "\<lambda>(w :: unit) (b :: int list). (w, Inl (ValueError ''bad'') :: unit res)"
  let ?s0 = "exec_start (new_executor 2) () (Dynamic [7 :: int]) None"
  let ?f = "([7 :: int], Some (Inl (ValueError ''bad'') :: unit res))"
  let ?s1 = "?s0\<lparr>run_source := Dynamic [], run_futures := [], run_phase := Submit [7]\<rparr>"
  let ?s2 = "?s1\<lparr>run_futures := run_futures ?s1 @ [([7], None)], run_phase := NextBatch\<rparr>"
  let ?s3 = "?s2\<lparr>run_ex := run_ex ?s0, run_world := (), run_futures := (run_futures ?s2)[0 := ?f]\<rparr>"
  let ?s4 = "?s3\<lparr>run_phase := Waiting\<rparr>"
  let ?s5 = "?s4\<lparr>run_phase := Crashed (ValueError ''bad'')\<rparr>"
  have 1: "exec_step ?h 5 3 ?s0 ?s1" by (rule exec_step.next_ok) (simp_all add: exec_start_def new_executor_def)
  have 2: "exec_step ?h 5 3 ?s1 ?s2" by (rule exec_step.submit) simp_all
  have 3: "exec_step ?h 5 3 ?s2 ?s3"
    by (rule exec_step.complete [where now = 0])
      (simp_all add: fail_safe_execute_def RETRY_EXCEPTIONS_def exec_start_def)
  have 4: "exec_step ?h 5 3 ?s3 ?s4" by (rule exec_step.next_end) (simp_all add: exec_start_def)
  have 5: "exec_step ?h 5 3 ?s4 ?s5" by (rule exec_step.wait_crash) simp_all
  from 1 2 3 4 5 have s: "exec_reach ?h 5 3 ?s0 ?s5" by (meson exec_reach.intros)
  obtain k t where t: "exec_steps ?h 5 3 k (exec_again ?s5 () (Dynamic []) None) t" "run_over t"
    using exec_run_completes [of 3 ?h 5] by (metis zero_less_numeral)
  have r: "exec_reach ?h 5 3 (exec_again ?s5 () (Dynamic []) None) t" by (rule exec_steps_reach [OF t(1) exec_reach.reach_refl])
  then have u: "used_again ?s5 t" by (rule used_again.used_once)
  have "run_source t = Dynamic []"
    using r by (rule exec_reach_invariant) (auto simp: exec_again_def elim!: exec_stepE)
  moreover have "\<exists>e. run_phase t = Crashed e"
    using executor_stays_failed [OF s _ u] t(2) by auto
  ultimately show ?thesis using s u by (intro exI [of _ ?s5] exI [of _ t]) simp
qed

end
