(* ===== verification/Scheduler.thy ===== *)
theory Scheduler
  imports Utils
begin

text \<open>
  \<open>indexer/jobs/job_scheduler.py\<close>: the registry of the job classes, the closure of the job
  classes a set of output types needs, and their order. A job class is its name with the
  \<open>type()\<close> strings of its dependencies and outputs. \<open>required_job_classes\<close> is a Python set,
  iterated in an order the code does not fix: \<open>resolve_dependencies\<close> takes it as a list and its
  theorems hold for every order. Reading a missing key of a \<open>defaultdict\<close> is reading the
  default; the key it leaves behind is never looked at.
\<close>

section \<open>Registry\<close>

record job_class =
  jc_name :: string
  dependency_types :: "string list"
  output_types :: "string list"

type_synonym job_map = "(string \<times> job_class list) list"

definition jobs_of :: "job_map \<Rightarrow> string \<Rightarrow> job_class list" where
  "jobs_of jm t = (case map_of jm t of None \<Rightarrow> [] | Some cs \<Rightarrow> cs)"

definition register_outputs :: "job_class \<Rightarrow> job_map \<Rightarrow> job_map" where
  "register_outputs c jm = fold (\<lambda>t. dict_append t c) (output_types c) jm"

definition discover_and_register_job_classes :: "job_class list \<Rightarrow> job_map" where
  "discover_and_register_job_classes classes = fold register_outputs classes []"

lemma jobs_of_append:
  "jobs_of (dict_append k c jm) t = (if t = k then jobs_of jm t @ [c] else jobs_of jm t)"
  by (auto simp: jobs_of_def map_of_dict_append)

lemma jobs_of_register_outputs:
  "set (jobs_of (register_outputs c jm) t) =
     set (jobs_of jm t) \<union> (if t \<in> set (output_types c) then {c} else {})"
proof -
  have "set (jobs_of (fold (\<lambda>t. dict_append t c) ts jm) t) =
     set (jobs_of jm t) \<union> (if t \<in> set ts then {c} else {})" for ts
    by (induction ts arbitrary: jm) (auto simp: jobs_of_append)
  then show ?thesis by (simp add: register_outputs_def)
qed

lemma jobs_of_discover:
  "set (jobs_of (discover_and_register_job_classes classes) t)
     = {c \<in> set classes. t \<in> set (output_types c)}"
proof -
  have "set (jobs_of (fold register_outputs classes jm) t)
     = set (jobs_of jm t) \<union> {c \<in> set classes. t \<in> set (output_types c)}" for jm
    by (induction classes arbitrary: jm) (auto simp: jobs_of_register_outputs)
  then show ?thesis by (simp add: discover_and_register_job_classes_def jobs_of_def)
qed

section \<open>The required job classes\<close>

text \<open>One output type of the queue: its job classes not seen before are added, and their
  dependencies queued.\<close>

fun add_job_classes :: "job_class list \<Rightarrow> job_class list \<times> string list \<Rightarrow> job_class list \<times> string list"
  where
  "add_job_classes [] (required, queue) = (required, queue)"
| "add_job_classes (c # cs) (required, queue) =
     (if c \<in> set required then add_job_classes cs (required, queue)
      else add_job_classes cs (required @ [c], queue @ dependency_types c))"

definition known_jobs :: "job_map \<Rightarrow> job_class set" where
  "known_jobs jm = set (concat (map snd jm))"

lemma add_job_classes_required:
  "set (fst (add_job_classes cs (req, q))) = set req \<union> set cs"
  "set (snd (add_job_classes cs (req, q))) =
     set q \<union> (\<Union>c \<in> set cs - set req. set (dependency_types c))"
  by (induction cs arbitrary: req q) (auto split: if_splits)

lemma add_job_classes_distinct:
  "distinct req \<Longrightarrow> distinct (fst (add_job_classes cs (req, q)))"
  by (induction cs arbitrary: req q) auto

lemma add_job_classes_same:
  "set cs \<subseteq> set req \<Longrightarrow> add_job_classes cs (req, q) = (req, q)"
  by (induction cs) auto

lemma jobs_of_known: "set (jobs_of jm t) \<subseteq> known_jobs jm"
proof (cases "map_of jm t")
  case (Some cs)
  then have "cs \<in> set (map snd jm)" by (force dest: map_of_SomeD)
  with Some show ?thesis by (auto simp: jobs_of_def known_jobs_def)
qed (simp add: jobs_of_def)

function collect_required :: "job_map \<Rightarrow> string list \<Rightarrow> job_class list \<Rightarrow> job_class list" where
  "collect_required jm [] required = required"
| "collect_required jm (t # queue) required =
     (case add_job_classes (jobs_of jm t) (required, queue) of
        (required', queue') \<Rightarrow> collect_required jm queue' required')"
  by pat_completeness auto
termination
proof (relation "measures [\<lambda>(jm, q, req). card (known_jobs jm - set req), \<lambda>(jm, q, req). length q]")
  fix jm :: job_map and t queue required required' queue'
  assume p: "(required', queue') = add_job_classes (jobs_of jm t) (required, queue)"
  show "((jm, queue', required'), jm, t # queue, required)
      \<in> measures [\<lambda>(jm, q, req). card (known_jobs jm - set req), \<lambda>(jm, q, req). length q]"
  proof (cases "set (jobs_of jm t) \<subseteq> set required")
    case True
    with p show ?thesis by (simp add: add_job_classes_same)
  next
    case False
    have req: "set required' = set required \<union> set (jobs_of jm t)"
      using add_job_classes_required(1) [of "jobs_of jm t" required queue] p by (metis fst_conv)
    have "known_jobs jm - set required' \<subset> known_jobs jm - set required"
      using False req jobs_of_known [of jm t] by blast
    moreover have "finite (known_jobs jm - set required)" by (simp add: known_jobs_def)
    ultimately have "card (known_jobs jm - set required') < card (known_jobs jm - set required)"
      by (rule psubset_card_mono [rotated])
    then show ?thesis by simp
  qed
qed simp

definition get_required_job_classes :: "job_map \<Rightarrow> string list \<Rightarrow> job_class list" where
  "get_required_job_classes jm ts = collect_required jm ts []"

text \<open>The specification: the least set of classes that produces the requested types and the
  dependencies of its members.\<close>

inductive_set needed :: "job_map \<Rightarrow> string list \<Rightarrow> job_class set"
  for jm :: job_map and ts :: "string list" where
  requested: "t \<in> set ts \<Longrightarrow> c \<in> set (jobs_of jm t) \<Longrightarrow> c \<in> needed jm ts"
| dependency: "d \<in> needed jm ts \<Longrightarrow> t \<in> set (dependency_types d) \<Longrightarrow> c \<in> set (jobs_of jm t) \<Longrightarrow>
    c \<in> needed jm ts"

text \<open>The invariant of the loop: what is collected is needed, and whatever a requested type or a
  member of the collection calls for is collected or still queued.\<close>

definition covered :: "job_map \<Rightarrow> string list \<Rightarrow> job_class list \<Rightarrow> string \<Rightarrow> bool" where
  "covered jm queue required t \<longleftrightarrow> t \<in> set queue \<or> set (jobs_of jm t) \<subseteq> set required"

lemma collect_required_inv:
  assumes "distinct required" and "set required \<subseteq> needed jm ts"
    and "\<And>t. t \<in> set queue \<Longrightarrow> set (jobs_of jm t) \<subseteq> needed jm ts"
    and "\<And>t. t \<in> set ts \<Longrightarrow> covered jm queue required t"
    and "\<And>c t. c \<in> set required \<Longrightarrow> t \<in> set (dependency_types c) \<Longrightarrow> covered jm queue required t"
  shows "distinct (collect_required jm queue required)
    \<and> set (collect_required jm queue required) = needed jm ts"
  using assms
proof (induction jm queue required rule: collect_required.induct)
  case (1 jm required)
  have "needed jm ts \<subseteq> set required"
  proof
    fix c assume "c \<in> needed jm ts"
    then show "c \<in> set required"
      by (induction rule: needed.induct) (use 1(4,5) in \<open>auto simp: covered_def\<close>)
  qed
  with 1 show ?case by auto
next
  case (2 jm t queue required)
  obtain required' queue' where a: "add_job_classes (jobs_of jm t) (required, queue) = (required', queue')"
    by (cases "add_job_classes (jobs_of jm t) (required, queue)")
  have req: "set required' = set required \<union> set (jobs_of jm t)"
    using add_job_classes_required(1) [of "jobs_of jm t" required queue] a by simp
  have que: "set queue' = set queue \<union>
      (\<Union>c \<in> set (jobs_of jm t) - set required. set (dependency_types c))"
    using add_job_classes_required(2) [of "jobs_of jm t" required queue] a by simp
  have new: "set (jobs_of jm t) \<subseteq> needed jm ts" using 2(4) by simp
  have mono: "covered jm queue' required' u" if "covered jm (t # queue) required u" for u
    using that req que by (auto simp: covered_def)
  have "distinct (collect_required jm queue' required')
    \<and> set (collect_required jm queue' required') = needed jm ts"
  proof (rule 2(1) [OF a [symmetric]])
    show "distinct required'"
      using add_job_classes_distinct [OF 2(2)] a by (metis fst_conv)
    show "set required' \<subseteq> needed jm ts" using 2(3) new req by simp
    show "set (jobs_of jm u) \<subseteq> needed jm ts" if "u \<in> set queue'" for u
      using that que 2(4) new by (auto intro: needed.dependency)
    show "covered jm queue' required' u" if "u \<in> set ts" for u
      using mono 2(5) that by blast
    show "covered jm queue' required' u"
      if c: "c \<in> set required'" and u: "u \<in> set (dependency_types c)" for c u
    proof (cases "c \<in> set required")
      case True
      with mono 2(6) u show ?thesis by blast
    next
      case False
      with c req que u show ?thesis by (auto simp: covered_def)
    qed
  qed
  with a show ?case by simp
qed

lemma get_required_needed:
  "distinct (get_required_job_classes jm ts) \<and> set (get_required_job_classes jm ts) = needed jm ts"
  unfolding get_required_job_classes_def
  by (rule collect_required_inv) (auto simp: covered_def intro: needed.requested)

section \<open>The order of the jobs\<close>

definition children :: "(job_class \<times> job_class list) list \<Rightarrow> job_class \<Rightarrow> job_class list" where
  "children g j = (case map_of g j of None \<Rightarrow> [] | Some cs \<Rightarrow> cs)"

definition degree :: "(job_class \<times> int) list \<Rightarrow> job_class \<Rightarrow> int" where
  "degree d j = (case map_of d j of None \<Rightarrow> 0 | Some n \<Rightarrow> n)"

text \<open>The pairs (producer, job) in the order the loops meet them, with repetitions.\<close>

definition dependency_edges :: "job_map \<Rightarrow> job_class list \<Rightarrow> (job_class \<times> job_class) list" where
  "dependency_edges jm required =
     concat (map (\<lambda>c. concat (map (\<lambda>t. map (\<lambda>p. (p, c)) (filter (\<lambda>p. p \<in> set required) (jobs_of jm t)))
       (dependency_types c))) required)"

definition add_edge ::
  "job_class \<times> job_class \<Rightarrow> (job_class \<times> job_class list) list \<times> (job_class \<times> int) list
    \<Rightarrow> (job_class \<times> job_class list) list \<times> (job_class \<times> int) list" where
  "add_edge e gd = (dict_append (fst e) (snd e) (fst gd),
     AList.update (snd e) (degree (snd gd) (snd e) + 1) (snd gd))"

fun release :: "job_class list \<Rightarrow> job_class list \<times> (job_class \<times> int) list
    \<Rightarrow> job_class list \<times> (job_class \<times> int) list" where
  "release [] (sources, d) = (sources, d)"
| "release (c # cs) (sources, d) =
     (let d' = AList.update c (degree d c - 1) d
      in release cs (if degree d' c = 0 then sources @ [c] else sources, d'))"

definition positive_degrees :: "(job_class \<times> int) list \<Rightarrow> nat" where
  "positive_degrees d = sum_list (map (nat \<circ> snd) d)"

lemma positive_degrees_update:
  "positive_degrees (AList.update c n d) + nat (degree d c) = positive_degrees d + nat n"
  by (induction d) (auto simp: positive_degrees_def degree_def)

lemma degree_update: "degree (AList.update c n d) j = (if j = c then n else degree d j)"
  by (simp add: degree_def map_of_upd)

lemma release_measure:
  assumes "release cs (sources, d) = (sources', d')"
  shows "length sources' + positive_degrees d' \<le> length sources + positive_degrees d"
  using assms
proof (induction cs arbitrary: sources d)
  case (Cons c cs)
  let ?d = "AList.update c (degree d c - 1) d"
  let ?s = "if degree d c = 1 then sources @ [c] else sources"
  have "length sources' + positive_degrees d' \<le> length ?s + positive_degrees ?d"
    using Cons.prems by (intro Cons.IH) (simp add: Let_def degree_update)
  also have "\<dots> \<le> length sources + positive_degrees d"
    using positive_degrees_update [of c "degree d c - 1" d] by (auto split: if_splits)
  finally show ?case .
qed simp

function kahn :: "(job_class \<times> job_class list) list \<Rightarrow> job_class list \<Rightarrow> job_class list
    \<Rightarrow> (job_class \<times> int) list \<Rightarrow> job_class list" where
  "kahn g [] order d = order"
| "kahn g (j # sources) order d =
     (case release (children g j) (sources, d) of
        (sources', d') \<Rightarrow> kahn g sources' (order @ [j]) d')"
  by pat_completeness auto
termination
  by (relation "measure (\<lambda>(g, sources, order, d). length sources + positive_degrees d)")
     (auto dest: release_measure [OF sym])

definition resolve_dependencies :: "job_map \<Rightarrow> job_class list \<Rightarrow> job_class list res" where
  "resolve_dependencies jm required =
     (let (g, d) = fold add_edge (dependency_edges jm required) ([], []);
          order = kahn g (filter (\<lambda>c. degree d c = 0) required) [] d
      in if length order \<noteq> length required
         then Inl (OtherException ''Dependency cycle detected'') else Inr order)"

subsection \<open>The graph\<close>

definition depends :: "job_map \<Rightarrow> job_class list \<Rightarrow> job_class \<Rightarrow> job_class \<Rightarrow> bool" where
  "depends jm required p c \<longleftrightarrow>
     p \<in> set required \<and> c \<in> set required \<and> (\<exists>t \<in> set (dependency_types c). p \<in> set (jobs_of jm t))"

lemma set_dependency_edges: "(p, c) \<in> set (dependency_edges jm required) \<longleftrightarrow> depends jm required p c"
  by (auto simp: dependency_edges_def depends_def)

lemma fold_add_edge:
  "children (fst (fold add_edge es (g, d))) p = children g p @ map snd (filter (\<lambda>e. fst e = p) es)"
  "degree (snd (fold add_edge es (g, d))) c = degree d c + int (length (filter (\<lambda>e. snd e = c) es))"
  by (induction es arbitrary: g d)
     (auto simp: add_edge_def children_def map_of_dict_append degree_update)

lemma children_Nil [simp]: "children [] p = []"
  by (simp add: children_def)

lemma degree_Nil [simp]: "degree [] c = 0"
  by (simp add: degree_def)

lemma count_children:
  "count_list (map snd (filter (\<lambda>e. fst e = p) es)) c = count_list es (p, c)"
  by (induction es) auto

lemma in_degree_sum:
  assumes "distinct ps" and "\<And>e. e \<in> set es \<Longrightarrow> fst e \<in> set ps"
  shows "length (filter (\<lambda>e. snd e = c) es) = sum_list (map (\<lambda>p. count_list es (p, c)) ps)"
  using assms(2)
proof (induction es)
  case (Cons e es)
  have "sum_list (map (\<lambda>p. count_list (e # es) (p, c)) ps)
    = sum_list (map (\<lambda>p. count_list es (p, c)) ps)
      + sum_list (map (\<lambda>p. if e = (p, c) then 1 else 0) ps)"
    by (simp flip: sum_list_addf, rule arg_cong [of _ _ sum_list]) auto
  moreover have "sum_list (map (\<lambda>p. if e = (p, c) then 1 else 0) ps) = (if snd e = c then 1 else 0 :: nat)"
  proof (cases "snd e = c")
    case True
    have "sum_list (map (\<lambda>p. if e = (p, c) then 1 else 0) ps)
      = (\<Sum>p \<in> set ps. if p = fst e then 1 else 0 :: nat)"
      using True assms(1) by (auto simp: sum_list_distinct_conv_sum_set prod_eq_iff intro!: sum.cong)
    with True Cons.prems show ?thesis by simp
  next
    case False
    then show ?thesis by (auto simp: sum_list_eq_0_iff)
  qed
  ultimately show ?case using Cons by simp
qed simp

subsection \<open>The worklist\<close>

lemma release_spec:
  assumes "release cs (src, d) = (src', d')" and "\<And>c. int (count_list cs c) \<le> degree d c"
  shows "degree d' c = degree d c - int (count_list cs c)"
    and "\<exists>new. src' = src @ new \<and> distinct new
      \<and> set new = {c \<in> set cs. degree d c = int (count_list cs c)}"
proof -
  have "(\<forall>c. degree d' c = degree d c - int (count_list cs c)) \<and>
    (\<exists>new. src' = src @ new \<and> distinct new \<and> set new = {c \<in> set cs. degree d c = int (count_list cs c)})"
    using assms
  proof (induction cs arbitrary: src d)
    case (Cons x cs)
    let ?d = "AList.update x (degree d x - 1) d"
    let ?s = "if degree d x = 1 then src @ [x] else src"
    have r: "release cs (?s, ?d) = (src', d')" using Cons.prems(1) by (simp add: Let_def degree_update)
    have le: "int (count_list cs c) \<le> degree ?d c" for c
      using Cons.prems(2) [of c] by (auto simp: degree_update split: if_splits)
    from Cons.IH [OF r le] obtain new where deg: "\<forall>c. degree d' c = degree ?d c - int (count_list cs c)"
      and new: "src' = ?s @ new" "distinct new" "set new = {c \<in> set cs. degree ?d c = int (count_list cs c)}"
      by blast
    have deg': "\<forall>c. degree d' c = degree d c - int (count_list (x # cs) c)"
      using deg by (auto simp: degree_update)
    show ?case
    proof (cases "degree d x = 1")
      case True
      with le [of x] have x: "x \<notin> set cs" by (auto simp: degree_update count_list_0_iff)
      have "c \<in> set (x # new) \<longleftrightarrow> c \<in> set (x # cs) \<and> degree d c = int (count_list (x # cs) c)" for c
      proof (cases "c = x")
        case eq: True
        with True x show ?thesis by simp
      next
        case False
        with new(3) show ?thesis by (simp add: degree_update)
      qed
      then have "set (x # new) = {c \<in> set (x # cs). degree d c = int (count_list (x # cs) c)}"
        by blast
      moreover have "src' = src @ (x # new)" "distinct (x # new)" using True x new by simp_all
      ultimately show ?thesis using deg' by blast
    next
      case False
      have "c \<in> set new \<longleftrightarrow> c \<in> set (x # cs) \<and> degree d c = int (count_list (x # cs) c)" for c
      proof (cases "c = x")
        case True
        have "x \<notin> set cs \<Longrightarrow> degree d x \<noteq> int (count_list (x # cs) x)"
          using False by (simp add: count_list_0_iff)
        with True new(3) show ?thesis by (auto simp: degree_update)
      next
        case neq: False
        with new(3) show ?thesis by (simp add: degree_update)
      qed
      then have "set new = {c \<in> set (x # cs). degree d c = int (count_list (x # cs) c)}" by blast
      moreover from False new(1) have "src' = src @ new" by simp
      ultimately show ?thesis using deg' new(2) by blast
    qed
  qed simp
  then show "degree d' c = degree d c - int (count_list cs c)"
    and "\<exists>new. src' = src @ new \<and> distinct new
      \<and> set new = {c \<in> set cs. degree d c = int (count_list cs c)}" by blast+
qed

definition kahn_inv :: "(job_class \<times> job_class list) list \<Rightarrow> job_class set \<Rightarrow> job_class list
    \<Rightarrow> job_class list \<Rightarrow> (job_class \<times> int) list \<Rightarrow> bool" where
  "kahn_inv g R sources order d \<longleftrightarrow>
     distinct (order @ sources) \<and> set (order @ sources) \<subseteq> R \<and>
     (\<forall>c. degree d c = int (\<Sum>p \<in> R - set order. count_list (children g p) c)) \<and>
     (\<forall>c \<in> R. degree d c = 0 \<longleftrightarrow> c \<in> set (order @ sources)) \<and>
     (\<forall>i < length order. \<forall>p \<in> R. order ! i \<in> set (children g p) \<longrightarrow> p \<in> set (take i order))"

lemma kahn_inv_step:
  assumes inv: "kahn_inv g R (j # sources) order d" and "finite R"
    and closed: "\<And>p. set (children g p) \<subseteq> R"
    and rel: "release (children g j) (sources, d) = (sources', d')"
  shows "kahn_inv g R sources' (order @ [j]) d'"
proof -
  let ?cnt = "\<lambda>p c. count_list (children g p) c"
  have j: "j \<in> R" "j \<notin> set order" "j \<notin> set sources" and dis: "distinct (order @ sources)"
    and sub: "set (order @ sources) \<subseteq> R"
    using inv by (auto simp: kahn_inv_def)
  have deg: "degree d c = int (\<Sum>p \<in> R - set order. ?cnt p c)" for c
    using inv by (simp add: kahn_inv_def)
  have zero: "c \<in> R \<Longrightarrow> degree d c = 0 \<longleftrightarrow> c \<in> set order \<or> c = j \<or> c \<in> set sources" for c
    using inv by (auto simp: kahn_inv_def)
  have split: "(\<Sum>p \<in> R - set order. ?cnt p c) = ?cnt j c + (\<Sum>p \<in> R - set (order @ [j]). ?cnt p c)" for c
  proof -
    have "R - set (order @ [j]) = (R - set order) - {j}" by auto
    then show ?thesis
      using sum.remove [of "R - set order" j "\<lambda>p. ?cnt p c"] j assms(2) by simp
  qed
  have le: "int (?cnt j c) \<le> degree d c" for c
    using deg [of c] split [of c] by (simp add: sum_nonneg)
  have deg': "degree d' c = int (\<Sum>p \<in> R - set (order @ [j]). ?cnt p c)" for c
    using release_spec(1) [OF rel le, of c] deg [of c] split [of c] by simp
  obtain new where new: "sources' = sources @ new" "distinct new"
    "set new = {c \<in> set (children g j). degree d c = int (?cnt j c)}"
    using release_spec(2) [OF rel le] by blast
  have fresh: "c \<notin> set order \<and> c \<noteq> j \<and> c \<notin> set sources" if "c \<in> set new" for c
  proof -
    have "c \<in> set (children g j)" and "degree d c = int (?cnt j c)" using that new(3) by auto
    then have "degree d c \<noteq> 0" by (simp add: count_list_0_iff)
    moreover have "c \<in> R" using \<open>c \<in> set (children g j)\<close> closed by blast
    ultimately show ?thesis using zero by blast
  qed
  have zero': "degree d' c = 0 \<longleftrightarrow> c \<in> set (order @ [j] @ sources')" if "c \<in> R" for c
  proof -
    have "degree d' c = degree d c - int (?cnt j c)" by (rule release_spec(1) [OF rel le])
    moreover have "c \<in> set new \<longleftrightarrow> degree d c = int (?cnt j c) \<and> degree d c \<noteq> 0"
      using new(3) by (auto simp: count_list_0_iff)
    ultimately show ?thesis using zero [OF that] new(1) le [of c] by auto
  qed
  have parents: "p \<in> set order" if "p \<in> R" "j \<in> set (children g p)" for p
  proof (rule ccontr)
    assume "p \<notin> set order"
    moreover have "0 < ?cnt p j"
      using that(2) by (metis count_list_0_iff neq0_conv)
    ultimately have "0 < (\<Sum>p \<in> R - set order. ?cnt p j)"
      using assms(2) that(1) by (intro sum_pos2 [of _ p]) auto
    with deg [of j] have "degree d j \<noteq> 0" by (simp del: of_nat_sum)
    with zero [OF j(1)] show False by simp
  qed
  have "\<forall>i < length (order @ [j]). \<forall>p \<in> R. (order @ [j]) ! i \<in> set (children g p)
      \<longrightarrow> p \<in> set (take i (order @ [j]))"
  proof (intro allI impI ballI)
    fix i p
    assume i: "i < length (order @ [j])" and p: "p \<in> R" "(order @ [j]) ! i \<in> set (children g p)"
    show "p \<in> set (take i (order @ [j]))"
    proof (cases "i < length order")
      case True
      with p inv show ?thesis by (auto simp: kahn_inv_def nth_append)
    next
      case False
      with i have "i = length order" by simp
      with parents p show ?thesis by simp
    qed
  qed
  moreover have "set new \<subseteq> R" using new(3) closed by blast
  moreover have "j \<notin> set new" "set new \<inter> set order = {}" "set new \<inter> set sources = {}"
    using fresh by blast+
  then have "distinct ((order @ [j]) @ sources')" using new(1,2) j dis by auto
  moreover have "set ((order @ [j]) @ sources') \<subseteq> R"
    using new(1) \<open>set new \<subseteq> R\<close> sub j(1) by auto
  ultimately show ?thesis
    using deg' zero' unfolding kahn_inv_def by (simp del: of_nat_sum)
qed

lemma kahn_inv_result:
  assumes "kahn_inv g R sources order d" and "finite R" and "\<And>p. set (children g p) \<subseteq> R"
  shows "\<exists>d'. kahn_inv g R [] (kahn g sources order d) d'"
  using assms
proof (induction g sources order d rule: kahn.induct)
  case (1 g order d)
  then show ?case by auto
next
  case (2 g j sources order d)
  obtain s' d' where r: "release (children g j) (sources, d) = (s', d')"
    by (cases "release (children g j) (sources, d)")
  from 2(1) [OF r [symmetric] kahn_inv_step [OF 2(2,3,4) r] 2(3,4)] r show ?case by simp
qed

subsection \<open>Correctness of the order\<close>

definition built :: "job_map \<Rightarrow> job_class list
    \<Rightarrow> (job_class \<times> job_class list) list \<times> (job_class \<times> int) list" where
  "built jm required = fold add_edge (dependency_edges jm required) ([], [])"

lemma built_children: "c \<in> set (children (fst (built jm required)) p) \<longleftrightarrow> depends jm required p c"
proof -
  have "children (fst (built jm required)) p
      = map snd (filter (\<lambda>e. fst e = p) (dependency_edges jm required))"
    by (simp add: built_def fold_add_edge)
  then show ?thesis by (force simp flip: set_dependency_edges)
qed

lemma built_degree:
  assumes "distinct required"
  shows "degree (snd (built jm required)) c
    = int (\<Sum>p \<in> set required. count_list (children (fst (built jm required)) p) c)"
proof -
  let ?es = "dependency_edges jm required"
  have "degree (snd (built jm required)) c = int (length (filter (\<lambda>e. snd e = c) ?es))"
    by (simp add: built_def fold_add_edge)
  moreover have "fst e \<in> set required" if "e \<in> set ?es" for e
    using that set_dependency_edges [of "fst e" "snd e" jm required] by (simp add: depends_def)
  ultimately show ?thesis
    using in_degree_sum [OF assms, of ?es c] assms
    by (simp add: built_def fold_add_edge count_children
        sum_list_distinct_conv_sum_set del: of_nat_sum)
qed

lemma built_inv:
  assumes "distinct required"
  shows "kahn_inv (fst (built jm required)) (set required)
    (filter (\<lambda>c. degree (snd (built jm required)) c = 0) required) [] (snd (built jm required))"
  using built_degree [OF assms] assms by (auto simp: kahn_inv_def simp del: of_nat_sum)

text \<open>What the loop leaves when its queue is empty: an order in which every producer comes first,
  and outside of it only jobs that wait for another job outside of it.\<close>

lemma kahn_built:
  fixes jm :: job_map
  assumes "distinct required"
  defines "order \<equiv> kahn (fst (built jm required))
    (filter (\<lambda>c. degree (snd (built jm required)) c = 0) required) [] (snd (built jm required))"
  shows "distinct order" and "set order \<subseteq> set required"
    and "i < length order \<Longrightarrow> depends jm required p (order ! i) \<Longrightarrow> p \<in> set (take i order)"
    and "c \<in> set required - set order \<Longrightarrow> \<exists>p \<in> set required - set order. depends jm required p c"
proof -
  have "set (children (fst (built jm required)) p) \<subseteq> set required" for p
    by (auto simp: built_children depends_def)
  from kahn_inv_result [OF built_inv [OF assms(1)] _ this] obtain d'
    where inv: "kahn_inv (fst (built jm required)) (set required) [] order d'"
    by (auto simp: order_def)
  show "distinct order" and "set order \<subseteq> set required" using inv by (auto simp: kahn_inv_def)
  show "p \<in> set (take i order)" if "i < length order" "depends jm required p (order ! i)"
    using inv that by (auto simp: kahn_inv_def built_children depends_def)
  show "\<exists>p \<in> set required - set order. depends jm required p c"
    if c: "c \<in> set required - set order"
  proof (rule ccontr)
    assume no: "\<not> ?thesis"
    have "degree d' c = int (\<Sum>p \<in> set required - set order. count_list (children (fst (built jm required)) p) c)"
      using inv by (simp add: kahn_inv_def)
    also have "(\<Sum>p \<in> set required - set order. count_list (children (fst (built jm required)) p) c) = 0"
      using no by (intro sum.neutral) (auto simp: count_list_0_iff built_children)
    finally show False using inv c by (auto simp: kahn_inv_def)
  qed
qed

lemma resolve_dependencies_alt:
  "resolve_dependencies jm required =
     (let order = kahn (fst (built jm required))
            (filter (\<lambda>c. degree (snd (built jm required)) c = 0) required) [] (snd (built jm required))
      in if length order \<noteq> length required
         then Inl (OtherException ''Dependency cycle detected'') else Inr order)"
  by (simp add: resolve_dependencies_def built_def Let_def case_prod_beta)

definition dependency_relation :: "job_map \<Rightarrow> job_class list \<Rightarrow> (job_class \<times> job_class) set" where
  "dependency_relation jm required = {(p, c). depends jm required p c}"

definition runs_after_producers :: "job_map \<Rightarrow> job_class list \<Rightarrow> job_class list \<Rightarrow> bool" where
  "runs_after_producers jm required order \<longleftrightarrow>
     (\<forall>i < length order. \<forall>p. depends jm required p (order ! i) \<longrightarrow> p \<in> set (take i order))"

lemma topological_acyclic:
  assumes "runs_after_producers jm required order" and "set order = set required"
  shows "acyclic (dependency_relation jm required)"
proof (rule acyclicI, rule allI, rule notI)
  define pos where "pos c = (LEAST i. i < length order \<and> order ! i = c)" for c
  have pos: "pos c < length order \<and> order ! pos c = c" if "c \<in> set order" for c
    using that unfolding pos_def in_set_conv_nth by (rule LeastI_ex) 
  have less: "pos p < pos c" if "(p, c) \<in> dependency_relation jm required" for p c
  proof -
    from that have d: "depends jm required p c" by (simp add: dependency_relation_def)
    then have "c \<in> set order" using assms(2) by (simp add: depends_def)
    with pos d assms(1) have "p \<in> set (take (pos c) order)"
      by (auto simp: runs_after_producers_def)
    then obtain k where "k < pos c" "k < length order" "order ! k = p"
      by (auto simp: in_set_conv_nth)
    moreover from this have "pos p \<le> k" unfolding pos_def by (intro Least_le) simp
    ultimately show ?thesis by simp
  qed
  have "pos p < pos c" if "(p, c) \<in> (dependency_relation jm required)\<^sup>+" for p c
    using that by (induction rule: trancl_induct) (use less in \<open>force dest: less_trans\<close>)+
  then show False if "(x, x) \<in> (dependency_relation jm required)\<^sup>+" for x using that by blast
qed

definition kahn_order :: "job_map \<Rightarrow> job_class list \<Rightarrow> job_class list" where
  "kahn_order jm required = kahn (fst (built jm required))
     (filter (\<lambda>c. degree (snd (built jm required)) c = 0) required) [] (snd (built jm required))"

lemma kahn_order_complete:
  assumes "distinct required" and "acyclic (dependency_relation jm required)"
  shows "set (kahn_order jm required) = set required"
proof (rule ccontr)
  let ?U = "set required - set (kahn_order jm required)"
  assume "set (kahn_order jm required) \<noteq> set required"
  then obtain u where u: "u \<in> ?U"
    using kahn_built(2) [OF assms(1), of jm] by (auto simp: kahn_order_def)
  have "dependency_relation jm required \<subseteq> set required \<times> set required"
    by (auto simp: dependency_relation_def depends_def)
  then have "wf (dependency_relation jm required)"
    using assms(2) by (intro finite_acyclic_wf) (auto dest: finite_subset)
  from wfE_min [OF this u] obtain z
    where z: "z \<in> ?U" "\<And>y. (y, z) \<in> dependency_relation jm required \<Longrightarrow> y \<notin> ?U" by blast
  from kahn_built(4) [OF assms(1), of z jm] z show False
    by (auto simp: kahn_order_def dependency_relation_def)
qed

lemma resolve_dependencies_kahn_order:
  "resolve_dependencies jm required =
     (if length (kahn_order jm required) \<noteq> length required
      then Inl (OtherException ''Dependency cycle detected'') else Inr (kahn_order jm required))"
  by (simp add: resolve_dependencies_alt kahn_order_def Let_def)

lemma kahn_order_runs_after_producers:
  "distinct required \<Longrightarrow> runs_after_producers jm required (kahn_order jm required)"
  using kahn_built(3) [of required] by (auto simp: runs_after_producers_def kahn_order_def)

lemma kahn_order_length:
  assumes "distinct required"
  shows "length (kahn_order jm required) = length required
    \<longleftrightarrow> acyclic (dependency_relation jm required)"
proof
  assume l: "length (kahn_order jm required) = length required"
  have "set (kahn_order jm required) = set required"
    using l assms kahn_built(1,2) [OF assms, of jm]
    by (intro card_subset_eq) (auto simp: kahn_order_def distinct_card [symmetric])
  then show "acyclic (dependency_relation jm required)"
    using topological_acyclic kahn_order_runs_after_producers [OF assms] by blast
next
  assume "acyclic (dependency_relation jm required)"
  from kahn_order_complete [OF assms this] show "length (kahn_order jm required) = length required"
    using assms kahn_built(1) [OF assms, of jm] by (metis distinct_card kahn_order_def)
qed

section \<open>The jobs that run\<close>

text \<open>\<open>instantiate_jobs\<close>: \<open>ExportBlocksJob\<close> is put in front whether it is required or not,
  and gets the filters of the jobs that filter transactions.\<close>

definition instantiate_jobs ::
  "job_class \<Rightarrow> (job_class \<Rightarrow> bool) \<Rightarrow> (job_class \<Rightarrow> 'f res) \<Rightarrow> job_class list \<Rightarrow> (job_class list \<times> 'f list) res"
  where
  "instantiate_jobs export_blocks is_filter_job get_filter resolved =
     (let others = filter (\<lambda>c. c \<noteq> export_blocks) resolved
      in rbind (rmap get_filter (filter is_filter_job others))
           (\<lambda>filters. Inr (export_blocks # others, filters)))"

text \<open>\<open>run_jobs\<close> instantiates the jobs on its first run. \<open>construct\<close> makes a job and, for one that filters
  transactions, its filter; if it raises, the jobs made before stay in the list.\<close>

fun construct_jobs :: "(job_class \<Rightarrow> 'f option res) \<Rightarrow> job_class list \<Rightarrow> job_class list \<times> 'f list
    \<Rightarrow> (job_class list \<times> 'f list) \<times> unit res" where
  "construct_jobs construct [] made = (made, Inr ())"
| "construct_jobs construct (c # cs) (jobs, filters) =
     (case construct c of
        Inl e \<Rightarrow> ((jobs, filters), Inl e)
      | Inr None \<Rightarrow> construct_jobs construct cs (jobs @ [c], filters)
      | Inr (Some f) \<Rightarrow> construct_jobs construct cs (jobs @ [c], filters @ [f]))"

definition jobs_for_run :: "job_class \<Rightarrow> (job_class \<Rightarrow> 'f option res) \<Rightarrow> job_class list \<Rightarrow> job_class list
    \<Rightarrow> job_class list \<times> unit res" where
  "jobs_for_run export_blocks construct resolved jobs =
     (if jobs \<noteq> [] then (jobs, Inr ())
      else case construct_jobs construct (filter (\<lambda>c. c \<noteq> export_blocks) resolved) ([], []) of
             ((made, _), Inl e) \<Rightarrow> (made, Inl e)
           | ((made, _), Inr _) \<Rightarrow> (export_blocks # made, Inr ()))"

lemma construct_jobs_instantiates:
  assumes "\<And>c. construct c = (if is_filter_job c then rbind (get_filter c) (\<lambda>f. Inr (Some f)) else Inr None)"
  shows "construct_jobs construct cs (jobs, filters) = ((jobs', filters'), Inr ()) \<longleftrightarrow>
    (\<exists>fs. rmap get_filter (filter is_filter_job cs) = Inr fs \<and> jobs' = jobs @ cs \<and> filters' = filters @ fs)"
  by (induction cs arbitrary: jobs filters)
    (auto simp: assms rbind_Inr_iff rbind_def split: sum.splits)

text \<open>When all jobs can be made, a first run has those of \<open>instantiate_jobs\<close>.\<close>

lemma jobs_for_first_run:
  assumes "\<And>c. construct c = (if is_filter_job c then rbind (get_filter c) (\<lambda>f. Inr (Some f)) else Inr None)"
    and "instantiate_jobs export_blocks is_filter_job get_filter resolved = Inr (jobs, filters)"
  shows "jobs_for_run export_blocks construct resolved [] = (jobs, Inr ())"
proof -
  let ?others = "filter (\<lambda>c. c \<noteq> export_blocks) resolved"
  from assms(2) have j: "jobs = export_blocks # ?others" and f: "rmap get_filter (filter is_filter_job ?others) = Inr filters"
    by (auto simp: instantiate_jobs_def Let_def rbind_Inr_iff)
  have "construct_jobs construct ?others ([], []) = ((?others, filters), Inr ())"
    using construct_jobs_instantiates [of construct is_filter_job get_filter, OF assms(1)] f by simp
  then show ?thesis by (simp add: jobs_for_run_def j)
qed

lemma construct_jobs_stops:
  assumes "list_all (\<lambda>c. \<not> isl (construct c)) made" and "construct c = Inl e"
  shows "\<exists>filters'. construct_jobs construct (made @ c # rest) (jobs, filters) = ((jobs @ made, filters'), Inl e)"
  using assms
proof (induction made arbitrary: jobs filters)
  case (Cons d ds)
  then obtain x where x: "construct d = Inr x" by (cases "construct d") auto
  have "\<exists>filters'. construct_jobs construct (ds @ c # rest) (jobs @ [d], fs) = (((jobs @ [d]) @ ds, filters'), Inl e)" for fs
    using Cons.prems by (intro Cons.IH) simp_all
  with x show ?case by (cases x) simp_all
qed simp

text \<open>When a job cannot be made, the next run goes on with the jobs made before it: without the block job.\<close>

lemma partial_jobs_run_without_blocks:
  assumes "filter (\<lambda>c. c \<noteq> export_blocks) resolved = made @ c # rest" and "made \<noteq> []"
    and "list_all (\<lambda>c. \<not> isl (construct c)) made" and "construct c = Inl e"
  shows "jobs_for_run export_blocks construct resolved [] = (made, Inl e) \<and>
    jobs_for_run export_blocks construct resolved made = (made, Inr ()) \<and> export_blocks \<notin> set made"
proof -
  have "export_blocks \<notin> set (filter (\<lambda>c. c \<noteq> export_blocks) resolved)" by simp
  then have "export_blocks \<notin> set made" unfolding assms(1) by simp
  then show ?thesis
    using construct_jobs_stops [OF assms(3,4), of rest "[]" "[]"] assms(1,2) by (auto simp: jobs_for_run_def)
qed

lemma runs_after_producers_filter_front:
  assumes "runs_after_producers jm required order" and "distinct order"
    and "dependency_types e = []"
  shows "runs_after_producers jm required (e # filter (\<lambda>c. c \<noteq> e) order)"
proof -
  have "p = e \<or> p \<in> set (take i (filter (\<lambda>c. c \<noteq> e) xs))"
    if "i < length (filter (\<lambda>c. c \<noteq> e) xs)" and "depends jm required p (filter (\<lambda>c. c \<noteq> e) xs ! i)"
      and "\<forall>i < length xs. \<forall>p. depends jm required p (xs ! i) \<longrightarrow> p \<in> set (take i xs)" for i p xs
    using that
  proof (induction xs arbitrary: i rule: rev_induct)
    case (snoc x xs)
    let ?ys = "filter (\<lambda>c. c \<noteq> e) xs"
    have rest: "\<forall>i < length xs. \<forall>p. depends jm required p (xs ! i) \<longrightarrow> p \<in> set (take i xs)"
      using snoc.prems(3) by (fastforce simp: nth_append)
    show ?case
    proof (cases "i < length ?ys")
      case True
      with snoc.IH [of i] snoc.prems(2) rest show ?thesis by (auto simp: nth_append split: if_splits)
    next
      case False
      with snoc.prems(1) have x: "x \<noteq> e" "i = length ?ys" by (auto split: if_splits)
      with snoc.prems(2) have "depends jm required p x" by simp
      with snoc.prems(3) have "p \<in> set xs" by (metis append_eq_conv_conj length_append_singleton
            lessI nth_append_length)
      with x show ?thesis by auto
    qed
  qed simp
  note filtered = this
  show ?thesis
    unfolding runs_after_producers_def
  proof (intro allI impI)
    fix i p
    assume i: "i < length (e # filter (\<lambda>c. c \<noteq> e) order)"
      and d: "depends jm required p ((e # filter (\<lambda>c. c \<noteq> e) order) ! i)"
    show "p \<in> set (take i (e # filter (\<lambda>c. c \<noteq> e) order))"
    proof (cases i)
      case 0
      with d assms(3) show ?thesis by (simp add: depends_def)
    next
      case (Suc k)
      with filtered [of k order p] i d assms(1) show ?thesis by (auto simp: runs_after_producers_def)
    qed
  qed
qed

section \<open>Properties\<close>

text \<open>C2: the required job classes are, each once, the least set that holds every class which
  outputs a requested type and, with each class, every class which outputs one of its
  dependencies.\<close>

theorem get_required_job_classes_least:
  "distinct (get_required_job_classes (discover_and_register_job_classes classes) ts) \<and>
   set (get_required_job_classes (discover_and_register_job_classes classes) ts) =
     \<Inter> {S. {c \<in> set classes. \<exists>t. (t \<in> set ts \<or> (\<exists>d \<in> S. t \<in> set (dependency_types d))) \<and>
              t \<in> set (output_types c)} \<subseteq> S}"
    (is "_ \<and> ?req = \<Inter> {S. ?F S \<subseteq> S}")
proof -
  let ?jm = "discover_and_register_job_classes classes"
  have "?F (needed ?jm ts) \<subseteq> needed ?jm ts"
    by (auto intro: needed.intros simp: jobs_of_discover)
  moreover have "needed ?jm ts \<subseteq> S" if "?F S \<subseteq> S" for S
  proof
    fix c assume "c \<in> needed ?jm ts"
    then show "c \<in> S"
      by (induction rule: needed.induct) (use that in \<open>auto simp: jobs_of_discover\<close>)
  qed
  ultimately have "needed ?jm ts = \<Inter> {S. ?F S \<subseteq> S}" by blast
  with get_required_needed [of ?jm ts] show ?thesis by simp
qed

text \<open>C1: for the required classes in any order, \<open>resolve_dependencies\<close> raises the cycle error
  exactly when the dependencies between them have a cycle; otherwise it returns all of them, each
  once, each after every required class that outputs one of its dependencies.\<close>

theorem resolve_dependencies_correct:
  assumes "distinct required"
  shows "(resolve_dependencies jm required = Inl (OtherException ''Dependency cycle detected'')
      \<longleftrightarrow> \<not> acyclic (dependency_relation jm required)) \<and>
    (acyclic (dependency_relation jm required) \<longrightarrow>
      (\<exists>order. resolve_dependencies jm required = Inr order \<and> distinct order \<and>
        set order = set required \<and> runs_after_producers jm required order))"
  using kahn_order_length [OF assms, of jm] kahn_order_complete [OF assms, of jm]
    kahn_order_runs_after_producers [OF assms, of jm] kahn_built(1) [OF assms, of jm]
  by (auto simp: resolve_dependencies_kahn_order kahn_order_def [symmetric])

theorem resolve_dependencies_correct_witness:
  "\<exists>order. resolve_dependencies
      (discover_and_register_job_classes
        [\<lparr>jc_name = ''L'', dependency_types = [''t''], output_types = [''l'']\<rparr>,
         \<lparr>jc_name = ''T'', dependency_types = [], output_types = [''t'']\<rparr>])
      [\<lparr>jc_name = ''L'', dependency_types = [''t''], output_types = [''l'']\<rparr>,
       \<lparr>jc_name = ''T'', dependency_types = [], output_types = [''t'']\<rparr>] = Inr order \<and>
    set order = {\<lparr>jc_name = ''L'', dependency_types = [''t''], output_types = [''l'']\<rparr>,
       \<lparr>jc_name = ''T'', dependency_types = [], output_types = [''t'']\<rparr>}"
proof -
  let ?l = "\<lparr>jc_name = ''L'', dependency_types = [''t''], output_types = [''l'']\<rparr>"
  let ?t = "\<lparr>jc_name = ''T'', dependency_types = [], output_types = [''t'']\<rparr>"
  let ?jm = "discover_and_register_job_classes [?l, ?t]"
  have "dependency_relation ?jm [?l, ?t] \<subseteq> {(?t, ?l)}"
    by (auto simp: dependency_relation_def depends_def jobs_of_discover)
  moreover have "acyclic {(?t, ?l)}" 
    by (rule acyclicI_order [of _ "\<lambda>c. 1 - length (dependency_types c)"]) auto
  ultimately have "acyclic (dependency_relation ?jm [?l, ?t])" by (rule acyclic_subset [rotated])
  with resolve_dependencies_correct [of "[?l, ?t]" ?jm] show ?thesis by auto
qed

text \<open>C3: with the block job in front, which depends on nothing, the jobs that run are the
  required classes and the block job, each once, and every class still comes after its
  producers.\<close>

theorem instantiated_order:
  assumes "distinct required" and "resolve_dependencies jm required = Inr order"
    and "dependency_types export_blocks = []"
    and "instantiate_jobs export_blocks is_filter_job get_filter order = Inr (jobs, filters)"
  shows "distinct jobs \<and> set jobs = insert export_blocks (set required) \<and>
    hd jobs = export_blocks \<and> runs_after_producers jm required jobs"
proof -
  have jobs: "jobs = export_blocks # filter (\<lambda>c. c \<noteq> export_blocks) order"
    using assms(4) by (auto simp: instantiate_jobs_def Let_def rbind_Inr_iff)
  have order: "order = kahn_order jm required" "length (kahn_order jm required) = length required"
    using assms(2) by (auto simp: resolve_dependencies_kahn_order split: if_splits)
  have d: "distinct order" using kahn_built(1) [OF assms(1), of jm] order by (simp add: kahn_order_def)
  have s: "set order = set required"
    using kahn_order_length [OF assms(1), of jm] kahn_order_complete [OF assms(1), of jm] order by simp
  have "runs_after_producers jm required jobs"
    unfolding jobs using kahn_order_runs_after_producers [OF assms(1), of jm] order d assms(3)
    by (intro runs_after_producers_filter_front) auto
  with d s show ?thesis by (auto simp: jobs)
qed

theorem instantiated_order_witness:
  "let b = \<lparr>jc_name = ''B'', dependency_types = [], output_types = [''b'']\<rparr>;
       t = \<lparr>jc_name = ''T'', dependency_types = [''b''], output_types = [''t'']\<rparr>;
       l = \<lparr>jc_name = ''L'', dependency_types = [''t''], output_types = [''l'']\<rparr>;
       jm = discover_and_register_job_classes [l, t, b]
   in resolve_dependencies jm [l, t, b] = Inr [b, t, l] \<and>
      instantiate_jobs b (\<lambda>_. False) (\<lambda>_. Inr ()) [b, t, l] = Inr ([b, t, l], []) \<and>
      runs_after_producers jm [l, t, b] [b, t, l] \<and> \<not> runs_after_producers jm [l, t, b] [b, l, t]"
proof -
  let ?b = "\<lparr>jc_name = ''B'', dependency_types = [], output_types = [''b'']\<rparr>"
  let ?t = "\<lparr>jc_name = ''T'', dependency_types = [''b''], output_types = [''t'']\<rparr>"
  let ?l = "\<lparr>jc_name = ''L'', dependency_types = [''t''], output_types = [''l'']\<rparr>"
  let ?jm = "discover_and_register_job_classes [?l, ?t, ?b]"
  have r: "resolve_dependencies ?jm [?l, ?t, ?b] = Inr [?b, ?t, ?l]" by code_simp
  have i: "instantiate_jobs ?b (\<lambda>_. False) (\<lambda>_. Inr ()) [?b, ?t, ?l] = Inr ([?b, ?t, ?l], [])"
    by (simp add: instantiate_jobs_def)
  have "runs_after_producers ?jm [?l, ?t, ?b] [?b, ?t, ?l]"
    using instantiated_order [OF _ r _ i] by simp
  moreover have "\<not> runs_after_producers ?jm [?l, ?t, ?b] [?b, ?l, ?t]"
  proof
    assume "runs_after_producers ?jm [?l, ?t, ?b] [?b, ?l, ?t]"
    moreover have "depends ?jm [?l, ?t, ?b] ?t ?l" by (simp add: depends_def jobs_of_discover)
    ultimately have "?t \<in> set (take 1 [?b, ?l, ?t])" unfolding runs_after_producers_def by fastforce
    then show False by simp
  qed
  ultimately show ?thesis using r i by (simp add: Let_def)
qed

end
