(* ===== verification/Recorders.thy ===== *)
theory Recorders
  imports Utils
begin

text \<open>
  \<open>indexer/utils/exception_recorder.py\<close> and \<open>indexer/utils/sync_recorder.py\<close> with the file
  helpers of \<open>common/utils/file_utils.py\<close> they use. The outside world that can fail (a
  database session, a file system) carries a list of faults: each access takes one off the
  list and raises it, no fault left means the access succeeds. A database statement and a file
  write either happen whole or raise. The locale \<open>sync_recorder\<close> is what the stream
  controller relies on, interpreted on both recorders.
\<close>

section \<open>Faults\<close>

definition next_fault :: "exc option list \<Rightarrow> exc option \<times> exc option list" where
  "next_fault fs = (case fs of [] \<Rightarrow> (None, []) | f # fs' \<Rightarrow> (f, fs'))"

section \<open>Exception recorder\<close>

text \<open>A block number is logged as a number or, by the traces job, as a hexadecimal string.\<close>

datatype log_number = NumberInt int | NumberHex string

record log_entry =
  log_block_number :: log_number
  log_dataclass :: string
  log_message_type :: string
  log_message :: string
  log_level :: string

text \<open>\<open>str(e)\<close>, as far as an exception of the model carries it.\<close>

definition exc_text :: "exc \<Rightarrow> string" where
  "exc_text e =
     (case e of ValueError s \<Rightarrow> s | KeyError s \<Rightarrow> s | RetriableError s \<Rightarrow> s | HistoryUnavailableError s \<Rightarrow> s
      | NoBatchModeError s \<Rightarrow> s | RPCNotReachable s \<Rightarrow> s | FastShutdownError s \<Rightarrow> s | OtherException s \<Rightarrow> s
      | _ \<Rightarrow> [])"

record exception_recorder =
  xr_has_service :: bool
  xr_buffer :: "log_entry list"
  xr_table :: "log_entry list"
  xr_faults :: "exc option list"

definition LOG_BUFFER_SIZE :: nat where
  "LOG_BUFFER_SIZE = 5000"

definition init_pg_service :: "bool \<Rightarrow> exception_recorder \<Rightarrow> exception_recorder" where
  "init_pg_service service x = x\<lparr>xr_has_service := service\<rparr>"

definition flush_logs_to_db :: "log_entry list \<Rightarrow> (exception_recorder, unit) act" where
  "flush_logs_to_db logs x =
     (case next_fault (xr_faults x) of
        (Some e, fs) \<Rightarrow> (x\<lparr>xr_faults := fs\<rparr>, Inl e)
      | (None, fs) \<Rightarrow> (x\<lparr>xr_faults := fs, xr_table := xr_table x @ logs\<rparr>, Inr ()))"

text \<open>Both ways to flush empty the queue before they write.\<close>

definition drain_and_flush :: "(exception_recorder, unit) act" where
  "drain_and_flush x = flush_logs_to_db (xr_buffer x) (x\<lparr>xr_buffer := []\<rparr>)"

definition force_to_flush :: "(exception_recorder, unit) act" where
  "force_to_flush x = (if xr_has_service x then drain_and_flush x else (x, Inr ()))"

definition check_and_flush :: "(exception_recorder, unit) act" where
  "check_and_flush x =
     (if length (xr_buffer x) \<ge> LOG_BUFFER_SIZE then drain_and_flush x else (x, Inr ()))"

definition log_exception :: "log_entry \<Rightarrow> (exception_recorder, unit) act" where
  "log_exception l x =
     (if xr_has_service x then check_and_flush (x\<lparr>xr_buffer := xr_buffer x @ [l]\<rparr>)
      else (x, Inr ()))"

definition recorded_logs :: "exception_recorder \<Rightarrow> log_entry list" where
  "recorded_logs x = xr_table x @ xr_buffer x"

lemma drain_and_flush_keeps:
  "drain_and_flush x = (x', Inr u) \<Longrightarrow>
     recorded_logs x' = recorded_logs x \<and> xr_buffer x' = [] \<and> xr_has_service x' = xr_has_service x"
  by (auto simp: drain_and_flush_def flush_logs_to_db_def recorded_logs_def
      split: prod.splits option.splits)

lemma log_exception_one:
  assumes "log_exception l x = (x', Inr u)" and "xr_has_service x" and "length (xr_buffer x) < LOG_BUFFER_SIZE"
  shows "recorded_logs x' = recorded_logs x @ [l] \<and> xr_has_service x' \<and>
    length (xr_buffer x') < LOG_BUFFER_SIZE"
proof -
  let ?y = "x\<lparr>xr_buffer := xr_buffer x @ [l]\<rparr>"
  have y: "recorded_logs ?y = recorded_logs x @ [l]" by (simp add: recorded_logs_def)
  from assms(1,2) have c: "check_and_flush ?y = (x', Inr u)" by (simp add: log_exception_def)
  show ?thesis
  proof (cases "length (xr_buffer ?y) \<ge> LOG_BUFFER_SIZE")
    case True
    with c have "drain_and_flush ?y = (x', Inr u)" by (simp add: check_and_flush_def)
    from drain_and_flush_keeps [OF this] y assms(2) show ?thesis by (simp add: LOG_BUFFER_SIZE_def)
  next
    case False
    with c y assms(2) show ?thesis by (auto simp: check_and_flush_def)
  qed
qed

lemma log_all:
  assumes "sfor log_exception ls x = (x', Inr u)" and "xr_has_service x"
    and "length (xr_buffer x) < LOG_BUFFER_SIZE"
  shows "recorded_logs x' = recorded_logs x @ ls \<and> xr_has_service x' \<and>
    length (xr_buffer x') < LOG_BUFFER_SIZE"
  using assms
proof (induction ls arbitrary: x)
  case (Cons l ls)
  obtain x1 r1 where l: "log_exception l x = (x1, r1)" by (cases "log_exception l x")
  with Cons.prems(1) obtain v where v: "r1 = Inr v" by (cases r1) auto
  note one = log_exception_one [OF l [unfolded v] Cons.prems(2,3)]
  from Cons.prems(1) l v have "sfor log_exception ls x1 = (x', Inr u)" by simp
  from Cons.IH [OF this] one show ?case by simp
qed simp

text \<open>As long as the database accepts the rows, everything logged is in the table or still
  buffered, in the order it was logged, the buffer never reaches its bound, and a forced flush
  leaves it empty; without a service nothing is kept.\<close>

lemma exception_recorder_keeps_logs:
  assumes "xr_has_service x" and "length (xr_buffer x) < LOG_BUFFER_SIZE"
    and "sfor log_exception ls x = (y, Inr u)" and "force_to_flush y = (z, Inr v)"
  shows "recorded_logs y = recorded_logs x @ ls \<and> length (xr_buffer y) < LOG_BUFFER_SIZE \<and>
    xr_table z = recorded_logs x @ ls \<and> xr_buffer z = []"
proof -
  note all = log_all [OF assms(3,1,2)]
  with assms(4) have "drain_and_flush y = (z, Inr v)" by (simp add: force_to_flush_def)
  then have e: "recorded_logs z = recorded_logs y" "xr_buffer z = []"
    using drain_and_flush_keeps by blast+
  then have "xr_table z = recorded_logs y" by (simp only: recorded_logs_def append_Nil2)
  with e all show ?thesis by simp
qed

theorem exception_recorder_keeps_logs_witness:
  "xr_table (fst (force_to_flush (fst (sfor log_exception
     [\<lparr>log_block_number = NumberInt (-1), log_dataclass = ''log'', log_message_type = ''item_counter'',
       log_message = ''log: 2'', log_level = ''Info''\<rparr>]
     \<lparr>xr_has_service = True, xr_buffer = [], xr_table = [], xr_faults = []\<rparr>))))
   = [\<lparr>log_block_number = NumberInt (-1), log_dataclass = ''log'', log_message_type = ''item_counter'',
       log_message = ''log: 2'', log_level = ''Info''\<rparr>]"
proof -
  let ?l = "\<lparr>log_block_number = NumberInt (-1), log_dataclass = ''log'', log_message_type = ''item_counter'',
    log_message = ''log: 2'', log_level = ''Info''\<rparr>"
  let ?x = "\<lparr>xr_has_service = True, xr_buffer = [], xr_table = [], xr_faults = []\<rparr>"
  have s: "sfor log_exception [?l] ?x = (?x\<lparr>xr_buffer := [?l]\<rparr>, Inr ())"
    by (simp add: log_exception_def check_and_flush_def LOG_BUFFER_SIZE_def)
  have f: "force_to_flush (?x\<lparr>xr_buffer := [?l]\<rparr>) = (?x\<lparr>xr_table := [?l]\<rparr>, Inr ())"
    by (simp add: force_to_flush_def drain_and_flush_def flush_logs_to_db_def next_fault_def)
  from exception_recorder_keeps_logs [OF _ _ s f] s f
  show ?thesis by (simp add: recorded_logs_def LOG_BUFFER_SIZE_def)
qed

text \<open>A flush the database refuses has already emptied the queue, so every entry that was
  buffered is in neither place.\<close>

lemma failed_flush_drops_logs:
  "xr_has_service x \<Longrightarrow> xr_faults x = Some e # fs \<Longrightarrow>
   force_to_flush x = (x\<lparr>xr_buffer := [], xr_faults := fs\<rparr>, Inl e) \<and>
   recorded_logs (fst (force_to_flush x)) = xr_table x"
  by (simp add: force_to_flush_def drain_and_flush_def flush_logs_to_db_def next_fault_def
      recorded_logs_def)

theorem failed_flush_drops_logs_witness:
  "recorded_logs (fst (force_to_flush \<lparr>xr_has_service = True,
     xr_buffer = [\<lparr>log_block_number = NumberInt 7, log_dataclass = ''log'', log_message_type = ''m'',
       log_message = ''lost'', log_level = ''ERROR''\<rparr>], xr_table = [], xr_faults = [Some OSError]\<rparr>)) = []"
  using failed_flush_drops_logs [of "\<lparr>xr_has_service = True,
     xr_buffer = [\<lparr>log_block_number = NumberInt 7, log_dataclass = ''log'', log_message_type = ''m'',
       log_message = ''lost'', log_level = ''ERROR''\<rparr>], xr_table = [], xr_faults = [Some OSError]\<rparr>"
     OSError "[]", THEN conjunct2] by simp

section \<open>Files\<close>

record file_world =
  fs_files :: "(string \<times> string) list"
  fs_stdout :: string
  fs_stdin :: string
  fs_faults :: "exc option list"

text \<open>\<open>get_file_handle\<close>: a name that is neither empty nor \<open>-\<close> is a file, \<open>-\<close> the standard
  streams, the empty name a file that ignores what is written and cannot be read.\<close>

definition is_file :: "string \<Rightarrow> bool" where
  "is_file name \<longleftrightarrow> name \<noteq> [] \<and> name \<noteq> ''-''"

definition write_to_file :: "string \<Rightarrow> string \<Rightarrow> (file_world, unit) act" where
  "write_to_file name content w =
     (case next_fault (fs_faults w) of
        (Some e, fs) \<Rightarrow> (w\<lparr>fs_faults := fs\<rparr>, Inl e)
      | (None, fs) \<Rightarrow>
          if is_file name
          then (w\<lparr>fs_faults := fs, fs_files := AList.update name content (fs_files w)\<rparr>, Inr ())
          else if name = ''-''
          then (w\<lparr>fs_faults := fs, fs_stdout := fs_stdout w @ content\<rparr>, Inr ())
          else (w\<lparr>fs_faults := fs\<rparr>, Inr ()))"

definition read_file :: "string \<Rightarrow> (file_world, string) act" where
  "read_file name w =
     (case next_fault (fs_faults w) of
        (Some e, fs) \<Rightarrow> (w\<lparr>fs_faults := fs\<rparr>, Inl e)
      | (None, fs) \<Rightarrow>
          if is_file name
          then (case map_of (fs_files w) name of
                  None \<Rightarrow> (w\<lparr>fs_faults := fs\<rparr>, Inl OSError)
                | Some s \<Rightarrow> (w\<lparr>fs_faults := fs\<rparr>, Inr s))
          else if name = ''-'' then (w\<lparr>fs_faults := fs\<rparr>, Inr (fs_stdin w))
          else (w\<lparr>fs_faults := fs\<rparr>, Inl AttributeError))"

definition read_last_block :: "string \<Rightarrow> (file_world, int) act" where
  "read_last_block file = sbind (read_file file) (\<lambda>s w. (w, parse_int s))"

definition write_last_block :: "string \<Rightarrow> int \<Rightarrow> (file_world, unit) act" where
  "write_last_block file n = write_to_file file (int_str n @ ''\<newline>'')"

definition init_last_block_file :: "int \<Rightarrow> string \<Rightarrow> (file_world, unit) act" where
  "init_last_block_file start_block last_block_file = write_last_block last_block_file start_block"

section \<open>Sync recorders\<close>

definition file_set_last_synced_block :: "string \<Rightarrow> int \<Rightarrow> (file_world, unit) act" where
  "file_set_last_synced_block file_name n = write_to_file file_name (int_str n @ ''\<newline>'')"

definition file_get_last_synced_block :: "string \<Rightarrow> (file_world, int) act" where
  "file_get_last_synced_block file_name w =
     (if map_of (fs_files w) file_name = None
      then sthen (file_set_last_synced_block file_name 0) (sret 0) w
      else sbind (read_file file_name) (\<lambda>s w. (w, parse_int s)) w)"

record pg_world =
  sync_records :: "(string \<times> int) list"
  pg_faults :: "exc option list"

definition pg_set_last_synced_block :: "string \<Rightarrow> int \<Rightarrow> (pg_world, unit) act" where
  "pg_set_last_synced_block key n w =
     (case next_fault (pg_faults w) of
        (Some e, fs) \<Rightarrow> (w\<lparr>pg_faults := fs\<rparr>, Inl e)
      | (None, fs) \<Rightarrow>
          (w\<lparr>pg_faults := fs, sync_records := AList.update key n (sync_records w)\<rparr>, Inr ()))"

definition pg_get_last_synced_block :: "string \<Rightarrow> (pg_world, int) act" where
  "pg_get_last_synced_block key w =
     (case next_fault (pg_faults w) of
        (Some e, fs) \<Rightarrow> (w\<lparr>pg_faults := fs\<rparr>, Inl e)
      | (None, fs) \<Rightarrow>
          (w\<lparr>pg_faults := fs\<rparr>,
           Inr (case map_of (sync_records w) key of Some n \<Rightarrow> n | None \<Rightarrow> 0)))"

datatype recorder = PGSyncRecorder string | FileSyncRecorder string

fun str_find :: "char \<Rightarrow> string \<Rightarrow> nat option" where
  "str_find c [] = None"
| "str_find c (x # xs) = (if x = c then Some 0 else map_option Suc (str_find c xs))"

definition create_recorder :: "string \<Rightarrow> bool \<Rightarrow> recorder res" where
  "create_recorder sync_recorder has_db_service =
     (case str_find CHR ''_'' sync_recorder of
        None \<Rightarrow> Inl (ValueError ''Invalid sync recorder'')
      | Some cut_begin \<Rightarrow>
          let recorder = drop (cut_begin + 1) sync_recorder
          in if startswith sync_recorder ''pg''
             then (if has_db_service then Inr (PGSyncRecorder recorder)
                   else Inl (ValueError ''postgresql sync record must provide pg config.''))
             else if startswith sync_recorder ''file'' then Inr (FileSyncRecorder recorder)
             else Inl (ValueError ''Unable to determine sync recorder type''))"

text \<open>The contract: the recorder holds a block number; reading gives it, a write that succeeds
  replaces it and one that raises leaves it.\<close>

locale sync_recorder =
  fixes get_last :: "('w, int) act"
    and set_last :: "int \<Rightarrow> ('w, unit) act"
    and recorded :: "'w \<Rightarrow> int"
  assumes get_returns: "get_last w = (w', Inr n) \<Longrightarrow> n = recorded w \<and> recorded w' = recorded w"
    and set_returns: "set_last n w = (w', Inr u) \<Longrightarrow> recorded w' = n"
    and set_raises: "set_last n w = (w', Inl e) \<Longrightarrow> recorded w' = recorded w"
begin

lemma get_after_set:
  assumes "set_last n w = (w1, Inr u)" and "get_last w1 = (w2, Inr m)"
  shows "m = n"
  using get_returns [OF assms(2)] set_returns [OF assms(1)] by simp

end

definition pg_recorded :: "string \<Rightarrow> pg_world \<Rightarrow> int" where
  "pg_recorded key w = (case map_of (sync_records w) key of Some n \<Rightarrow> n | None \<Rightarrow> 0)"

definition file_recorded :: "string \<Rightarrow> file_world \<Rightarrow> int" where
  "file_recorded name w =
     (case map_of (fs_files w) name of
        None \<Rightarrow> 0 | Some s \<Rightarrow> (case parse_int s of Inr n \<Rightarrow> n | Inl _ \<Rightarrow> 0))"

lemma parse_int_line: "parse_int (int_str n @ ''\<newline>'') = Inr n"
  by (rule parse_int_str) (simp add: is_space_def)

interpretation pg_store: sync_recorder "pg_get_last_synced_block key" "pg_set_last_synced_block key"
    "pg_recorded key" for key
  by unfold_locales
     (auto simp: pg_get_last_synced_block_def pg_set_last_synced_block_def pg_recorded_def map_of_upd
       split: prod.splits option.splits)

lemma file_recorder:
  assumes "is_file name"
  shows "sync_recorder (file_get_last_synced_block name) (file_set_last_synced_block name)
    (file_recorded name)"
proof
  show "file_recorded name w' = n" if "file_set_last_synced_block name n w = (w', Inr u)"
    for n w w' u
    using that assms
    by (auto simp: file_set_last_synced_block_def write_to_file_def file_recorded_def map_of_upd
        parse_int_line split: prod.splits option.splits)
next
  show "file_recorded name w' = file_recorded name w"
    if "file_set_last_synced_block name n w = (w', Inl e)" for n w w' e
    using that assms
    by (auto simp: file_set_last_synced_block_def write_to_file_def file_recorded_def
        split: prod.splits option.splits)
next
  show "n = file_recorded name w \<and> file_recorded name w' = file_recorded name w"
    if "file_get_last_synced_block name w = (w', Inr n)" for w w' n
    using that assms
    by (auto simp: file_get_last_synced_block_def sthen_returns sbind_returns read_file_def
        file_set_last_synced_block_def write_to_file_def file_recorded_def map_of_upd parse_int_line
        parse_int_line [of 0, simplified] split: prod.splits option.splits if_splits)
qed

text \<open>Every file name of at least two characters is a file.\<close>

interpretation file_store: sync_recorder "file_get_last_synced_block (a # b # name)"
    "file_set_last_synced_block (a # b # name)" "file_recorded (a # b # name)" for a b name
  by (rule file_recorder) (simp add: is_file_def)

text \<open>The block number a recorder of either kind was told last is the one it gives back, also
  through the text of the file.\<close>

lemma sync_recorders_roundtrip:
  assumes "is_file name"
  shows "(pg_set_last_synced_block key n pw = (pw1, Inr u) \<and>
      pg_get_last_synced_block key pw1 = (pw2, Inr m) \<longrightarrow> m = n) \<and>
    (file_set_last_synced_block name n fw = (fw1, Inr u) \<and>
      file_get_last_synced_block name fw1 = (fw2, Inr k) \<longrightarrow> k = n)"
  using pg_store.get_after_set sync_recorder.get_after_set [OF file_recorder [OF assms]] by blast

theorem sync_recorders_roundtrip_witness:
  "snd (file_get_last_synced_block ''blocks.txt''
     \<lparr>fs_files = [(''blocks.txt'', int_str 17 @ ''\<newline>'')], fs_stdout = [], fs_stdin = [], fs_faults = []\<rparr>) = Inr 17"
proof -
  let ?w = "\<lparr>fs_files = [], fs_stdout = [], fs_stdin = [], fs_faults = []\<rparr>"
  let ?w1 = "?w\<lparr>fs_files := [(''blocks.txt'', int_str 17 @ ''\<newline>'')]\<rparr>"
  have s: "file_set_last_synced_block ''blocks.txt'' 17 ?w = (?w1, Inr ())"
    by (simp add: file_set_last_synced_block_def write_to_file_def next_fault_def is_file_def)
  have g: "file_get_last_synced_block ''blocks.txt'' ?w1
      = (?w1, parse_int (int_str 17 @ ''\<newline>''))"
    by (simp add: file_get_last_synced_block_def sbind_def read_file_def next_fault_def is_file_def)
  obtain k where k: "parse_int (int_str 17 @ ''\<newline>'') = Inr k" using parse_int_line by blast
  from sync_recorders_roundtrip [of "''blocks.txt''"] s g k have "k = 17"
    by (fastforce simp: is_file_def)
  with g k show ?thesis by simp
qed

end
