(* ===== verification/Jobs.thy ===== *)
theory Jobs
  imports Scheduler Recorders
begin

text \<open>
  \<open>indexer/jobs/base_job.py\<close>, \<open>JobScheduler.run_jobs\<close> and
  \<open>indexer/controller/dispatcher/stream_dispatcher.py\<close>: the life cycle of a job over the shared
  data buffer, and the dispatcher that runs all of them on a block range. What a job does in
  \<open>_start\<close>, \<open>_collect\<close>, \<open>_process\<close> and \<open>_end\<close> is a field of its record, what an exporter does
  are the fields of its; \<open>outside\<close> is the state they have outside of the buffer. The threads of
  one job append to the buffer under a lock per key, so each append is one step. \<open>_collect\<close> is one step as
  well: this is so when its executors return. An executor that raises leaves its other workers running (its step
  \<open>complete\<close> in \<open>Executor\<close> needs no phase), and what these append later, also after the buffer has been
  cleared, is not part of this model; the job they belong to exports nothing more (\<open>executor_stays_failed\<close>).
\<close>

section \<open>The data buffer\<close>

record ('d, 'x) world =
  data_buff :: "(string \<times> 'd list) list"
  outside :: 'x
  recorder_of :: exception_recorder

definition buffered :: "(string \<times> 'd list) list \<Rightarrow> string \<Rightarrow> 'd list" where
  "buffered buff key = (case map_of buff key of None \<Rightarrow> [] | Some ds \<Rightarrow> ds)"

definition collect_item :: "string \<Rightarrow> 'd \<Rightarrow> (('d, 'x) world, unit) act" where
  "collect_item key d w = (w\<lparr>data_buff := dict_append key d (data_buff w)\<rparr>, Inr ())"

definition collect_domain :: "('d \<Rightarrow> string) \<Rightarrow> 'd \<Rightarrow> (('d, 'x) world, unit) act" where
  "collect_domain type_of d = collect_item (type_of d) d"

text \<open>\<open>self._data_buff[key]\<close> of a \<open>defaultdict\<close> leaves an empty list at a missing key.\<close>

definition buff_touch :: "string \<Rightarrow> (string \<times> 'd list) list \<Rightarrow> (string \<times> 'd list) list" where
  "buff_touch key buff = (case map_of buff key of None \<Rightarrow> AList.update key [] buff | Some _ \<Rightarrow> buff)"

fun extract_from_buff :: "string list \<Rightarrow> (('d, 'x) world, 'd list) act" where
  "extract_from_buff [] w = (w, Inr [])"
| "extract_from_buff (key # keys) w =
     sbind (extract_from_buff keys)
       (\<lambda>items. sret (buffered (data_buff w) key @ items))
       (w\<lparr>data_buff := buff_touch key (data_buff w)\<rparr>)"

lemma buffered_append:
  "buffered (dict_append k d buff) j = (if j = k then buffered buff k @ [d] else buffered buff j)"
  by (auto simp: buffered_def map_of_dict_append)

lemma buffered_touch [simp]: "buffered (buff_touch k buff) = buffered buff"
  by (auto simp: buffered_def buff_touch_def map_of_upd fun_eq_iff split: option.splits)

text \<open>Collecting a list of items appends them, each at its type, and never raises.\<close>

lemma sfor_collect_domain:
  "\<exists>w'. sfor (collect_domain type_of) ds w = (w', Inr ()) \<and> outside w' = outside w \<and>
     recorder_of w' = recorder_of w \<and>
     (\<forall>k. buffered (data_buff w') k = buffered (data_buff w) k @ filter (\<lambda>d. type_of d = k) ds)"
proof (induction ds arbitrary: w)
  case (Cons d ds)
  let ?w = "w\<lparr>data_buff := dict_append (type_of d) d (data_buff w)\<rparr>"
  have "collect_domain type_of d w = (?w, Inr ())" by (simp add: collect_domain_def collect_item_def)
  moreover from Cons.IH [of ?w] obtain w' where "sfor (collect_domain type_of) ds ?w = (w', Inr ())"
    and "outside w' = outside w" and "recorder_of w' = recorder_of w"
    and "\<forall>k. buffered (data_buff w') k = buffered (data_buff ?w) k @ filter (\<lambda>d. type_of d = k) ds" by auto
  ultimately show ?case by (intro exI [of _ w']) (auto simp: buffered_append)
qed simp

text \<open>Collecting what a computation results in, if it returns.\<close>

definition collect_all :: "('d \<Rightarrow> string) \<Rightarrow> 'd list res \<Rightarrow> (('d, 'x) world, unit) act" where
  "collect_all type_of result = sbind (lift_res result) (sfor (collect_domain type_of))"

lemma collect_all_Inl [simp]: "collect_all type_of (Inl e) w = (w, Inl e)"
  by (simp add: collect_all_def lift_res_def sbind_def)

lemma collect_all_Inr:
  "\<exists>w'. collect_all type_of (Inr ds) w = (w', Inr ()) \<and> outside w' = outside w \<and>
     (\<forall>k. buffered (data_buff w') k = buffered (data_buff w) k @ filter (\<lambda>d. type_of d = k) ds)"
  using sfor_collect_domain [of type_of ds w] by (auto simp: collect_all_def lift_res_def sbind_def)

lemma collect_all_raises: "collect_all type_of result w = (w', Inl e) \<longleftrightarrow> result = Inl e \<and> w' = w"
proof (cases result)
  case (Inr ds)
  with collect_all_Inr [of type_of ds w] show ?thesis by auto
qed auto

lemma extract_from_buff_items:
  "\<exists>buff. extract_from_buff keys w = (w\<lparr>data_buff := buff\<rparr>, Inr (concat (map (buffered (data_buff w)) keys)))
    \<and> buffered buff = buffered (data_buff w)"
proof (induction keys arbitrary: w)
  case Nil
  have "w = w\<lparr>data_buff := data_buff w\<rparr>" by simp
  then show ?case by (metis concat.simps(1) extract_from_buff.simps(1) list.simps(8))
next
  case (Cons k ks)
  let ?w = "w\<lparr>data_buff := buff_touch k (data_buff w)\<rparr>"
  from Cons [of ?w] obtain buff where
    "extract_from_buff ks ?w
       = (?w\<lparr>data_buff := buff\<rparr>, Inr (concat (map (buffered (data_buff ?w)) ks)))"
    and b: "buffered buff = buffered (data_buff ?w)" by blast
  then have "extract_from_buff (k # ks) w
      = (w\<lparr>data_buff := buff\<rparr>, Inr (concat (map (buffered (data_buff w)) (k # ks))))"
    by (simp add: sbind_def)
  with b show ?case by auto
qed

section \<open>A job\<close>

record ('d, 'x) exporter =
  exporter_open :: "('x, unit) act"
  exporter_export_items :: "'d list \<Rightarrow> ('x, unit) act"
  exporter_close :: "('x, unit) act"

record ('d, 'x) job =
  job_class_of :: job_class
  job_start :: "(('d, 'x) world, unit) act"
  job_collect :: "int \<Rightarrow> int \<Rightarrow> (('d, 'x) world, unit) act"
  job_process :: "(('d, 'x) world, unit) act"
  job_end :: "(('d, 'x) world, unit) act"

definition on_outside :: "('x, 'a) act \<Rightarrow> (('d, 'x) world, 'a) act" where
  "on_outside m w = (case m (outside w) of (x, r) \<Rightarrow> (w\<lparr>outside := x\<rparr>, r))"

definition export_with :: "'d list \<Rightarrow> ('d, 'x) exporter \<Rightarrow> ('x, unit) act" where
  "export_with items ex =
     sthen (exporter_open ex) (sthen (exporter_export_items ex items) (exporter_close ex))"

definition job_export :: "string list \<Rightarrow> ('d, 'x) exporter list \<Rightarrow> ('d, 'x) job \<Rightarrow> (('d, 'x) world, unit) act"
  where
  "job_export required_output_types item_exporters job =
     sbind (extract_from_buff
             (filter (\<lambda>t. t \<in> set required_output_types) (output_types (job_class_of job))))
       (\<lambda>items. on_outside (sfor (export_with items) item_exporters))"

definition job_run :: "string list \<Rightarrow> ('d, 'x) exporter list \<Rightarrow> int \<Rightarrow> int \<Rightarrow> ('d, 'x) job
    \<Rightarrow> (('d, 'x) world, unit) act" where
  "job_run required_output_types item_exporters start_block end_block job =
     sfinally
       (sthen (job_start job)
         (sthen (job_collect job start_block end_block)
           (sthen (job_process job) (job_export required_output_types item_exporters job))))
       (job_end job)"

definition run_jobs :: "string list \<Rightarrow> ('d, 'x) exporter list \<Rightarrow> ('d, 'x) job list \<Rightarrow> int \<Rightarrow> int
    \<Rightarrow> (('d, 'x) world, unit) act" where
  "run_jobs required_output_types item_exporters jobs start_block end_block =
     sfor (job_run required_output_types item_exporters start_block end_block) jobs"

text \<open>\<open>run_jobs\<close> with the instantiation in front of it: the jobs afterwards, the world and the outcome.\<close>

definition scheduler_run_jobs :: "string list \<Rightarrow> ('d, 'x) exporter list \<Rightarrow> job_class \<Rightarrow> (job_class \<Rightarrow> 'f option res)
    \<Rightarrow> job_class list \<Rightarrow> (job_class \<Rightarrow> ('d, 'x) job) \<Rightarrow> int \<Rightarrow> int \<Rightarrow> job_class list \<times> ('d, 'x) world
    \<Rightarrow> (job_class list \<times> ('d, 'x) world) \<times> unit res" where
  "scheduler_run_jobs required_output_types item_exporters export_blocks construct resolved job_of start_block end_block =
     (\<lambda>(jobs, w). case jobs_for_run export_blocks construct resolved jobs of
        (jobs, Inl e) \<Rightarrow> ((jobs, w), Inl e)
      | (jobs, Inr _) \<Rightarrow>
          (case run_jobs required_output_types item_exporters (map job_of jobs) start_block end_block w of
             (w, r) \<Rightarrow> ((jobs, w), r)))"

lemma scheduler_first_run:
  assumes "\<And>c. construct c = (if is_filter_job c then rbind (get_filter c) (\<lambda>f. Inr (Some f)) else Inr None)"
    and "instantiate_jobs export_blocks is_filter_job get_filter resolved = Inr (jobs, filters)"
  shows "scheduler_run_jobs ros exs export_blocks construct resolved job_of a b ([], w) =
    (case run_jobs ros exs (map job_of jobs) a b w of (w, r) \<Rightarrow> ((jobs, w), r))"
  by (simp add: scheduler_run_jobs_def jobs_for_first_run [of construct, OF assms])

definition clear_data_buff :: "(('d, 'x) world, unit) act" where
  "clear_data_buff w = (w\<lparr>data_buff := []\<rparr>, Inr ())"

section \<open>The dispatcher\<close>

definition on_recorder :: "(exception_recorder, 'a) act \<Rightarrow> (('d, 'x) world, 'a) act" where
  "on_recorder m w = (case m (recorder_of w) of (x, r) \<Rightarrow> (w\<lparr>recorder_of := x\<rparr>, r))"

definition item_count_entry :: "string \<times> 'd list \<Rightarrow> log_entry" where
  "item_count_entry kv =
     \<lparr>log_block_number = NumberInt (-1), log_dataclass = fst kv, log_message_type = ''item_counter'',
      log_message = fst kv @ '': '' @ int_str (int (length (snd kv))), log_level = ''Info''\<rparr>"

definition log_item_counts :: "(('d, 'x) world, unit) act" where
  "log_item_counts w =
     on_recorder (sfor (\<lambda>kv. log_exception (item_count_entry kv)) (data_buff w)) w"

definition dispatcher_run :: "string list \<Rightarrow> ('d, 'x) exporter list \<Rightarrow> ('d, 'x) job list \<Rightarrow> int \<Rightarrow> int
    \<Rightarrow> (('d, 'x) world, unit) act" where
  "dispatcher_run required_output_types item_exporters jobs start_block end_block =
     sfinally
       (sthen (run_jobs required_output_types item_exporters jobs start_block end_block)
         (sthen log_item_counts (on_recorder force_to_flush)))
       clear_data_buff"

section \<open>Lemmas\<close>

lemma sfinally_pure:
  assumes "\<And>s. snd (f s) = Inr ()"
  shows "sfinally m f s = (fst (f (fst (m s))), snd (m s))"
  using assms [of "fst (m s)"] by (auto simp: sfinally_def split: prod.splits sum.splits)

lemma sfor_export_trace:
  assumes "\<And>ex items x. ex \<in> set exs \<Longrightarrow> export_with items ex x = (x @ [(name ex, items)], Inr ())"
  shows "sfor (export_with items) exs x = (x @ map (\<lambda>ex. (name ex, items)) exs, Inr ())"
  using assms by (induction exs arbitrary: x) auto

lemma job_run_returns:
  "job_run ros exs a b job w = (w', Inr u) \<longleftrightarrow>
     (\<exists>w1 w2 w3 w4 u1 u2 u3 u4 u5. job_start job w = (w1, Inr u1) \<and> job_collect job a b w1 = (w2, Inr u2) \<and>
        job_process job w2 = (w3, Inr u3) \<and> job_export ros exs job w3 = (w4, Inr u4) \<and>
        job_end job w4 = (w', Inr u5))"
  by (auto simp: job_run_def sfinally_def sthen_returns split: prod.splits sum.splits)
     (auto simp: sthen_def sbind_def split: prod.splits sum.splits)

section \<open>Properties\<close>

text \<open>The export of a job hands to every exporter, in order and to each once, the buffered
  items of exactly its output types that are required, in the order of its output types; what the
  buffer holds for any type is not changed by it. The exporters here append what they are given
  to a journal.\<close>

lemma job_export_hands_over:
  assumes "\<And>ex items x. ex \<in> set exs \<Longrightarrow> export_with items ex x = (x @ [(name ex, items)], Inr ())"
  shows "\<exists>buff. buffered buff = buffered (data_buff w) \<and>
    job_export ros exs job w =
      (w\<lparr>data_buff := buff,
         outside := outside w @
           map (\<lambda>ex. (name ex, concat (map (buffered (data_buff w))
             (filter (\<lambda>t. t \<in> set ros) (output_types (job_class_of job)))))) exs\<rparr>, Inr ())"
proof -
  let ?ts = "filter (\<lambda>t. t \<in> set ros) (output_types (job_class_of job))"
  obtain buff where e: "extract_from_buff ?ts w
      = (w\<lparr>data_buff := buff\<rparr>, Inr (concat (map (buffered (data_buff w)) ?ts)))"
    and b: "buffered buff = buffered (data_buff w)"
    using extract_from_buff_items by blast
  show ?thesis
    using b by (intro exI [of _ buff])
      (simp add: job_export_def sbind_def e on_outside_def sfor_export_trace [OF assms])
qed

theorem job_export_hands_over_witness:
  "outside (fst (job_export [''block'']
      [\<lparr>exporter_open = sret (), exporter_export_items = (\<lambda>is x. (x @ [((), is)], Inr ())),
        exporter_close = sret ()\<rparr>]
      \<lparr>job_class_of = \<lparr>jc_name = ''B'', dependency_types = [], output_types = [''block'', ''ts'']\<rparr>,
       job_start = sret (), job_collect = (\<lambda>_ _. sret ()), job_process = sret (), job_end = sret ()\<rparr>
      \<lparr>data_buff = [(''ts'', [1 :: nat]), (''block'', [2])], outside = [],
        recorder_of = \<lparr>xr_has_service = False, xr_buffer = [], xr_table = [], xr_faults = []\<rparr>\<rparr>)) = [((), [2])]"
proof -
  let ?ex = "\<lparr>exporter_open = sret (), exporter_export_items = (\<lambda>is x. (x @ [((), is)], Inr ())),
    exporter_close = sret ()\<rparr> :: (nat, (unit \<times> nat list) list) exporter"
  let ?j = "\<lparr>job_class_of = \<lparr>jc_name = ''B'', dependency_types = [], output_types = [''block'', ''ts'']\<rparr>,
     job_start = sret (), job_collect = (\<lambda>_ _. sret ()), job_process = sret (), job_end = sret ()\<rparr>"
  let ?w = "\<lparr>data_buff = [(''ts'', [1 :: nat]), (''block'', [2])], outside = [],
        recorder_of = \<lparr>xr_has_service = False, xr_buffer = [], xr_table = [], xr_faults = []\<rparr>\<rparr>"
  have journal: "export_with items ex x = (x @ [((), items)], Inr ())"
    if "ex \<in> set [?ex]" for ex items x
    using that by (simp add: export_with_def sthen_def sbind_def)
  obtain buff where "job_export [''block''] [?ex] ?j ?w =
      (?w\<lparr>data_buff := buff, outside := [((), [2])]\<rparr>, Inr ())"
    using job_export_hands_over [where exs = "[?ex]" and ros = "[''block'']" and job = ?j and w = ?w
        and name = "\<lambda>_. ()", OF journal]
    by (auto simp: buffered_def)
  then show ?thesis by simp
qed

text \<open>A batch that returns has run every job, in order, to the end of its export; a job that
  raises is the last one to run. The buffer is cleared at the end, and the outcome is that of the jobs and of the
  log.\<close>

lemma dispatcher_run_clears:
  "data_buff (fst (dispatcher_run ros exs jobs a b w)) = [] \<and>
   snd (dispatcher_run ros exs jobs a b w) =
     snd (sthen (run_jobs ros exs jobs a b) (sthen log_item_counts (on_recorder force_to_flush)) w) \<and>
   (case snd (run_jobs ros exs jobs a b w) of
      Inr _ \<Rightarrow> run_jobs ros exs jobs a b w = fold (\<lambda>j s. job_run ros exs a b j (fst s)) jobs (w, Inr ())
    | Inl e \<Rightarrow> (\<exists>ran j rest w1. jobs = ran @ j # rest \<and> run_jobs ros exs ran a b w = (w1, Inr ()) \<and>
        run_jobs ros exs jobs a b w = job_run ros exs a b j w1))"
proof (intro conjI)
  have pure: "snd (clear_data_buff s) = Inr ()" for s :: "('a, 'b) world"
    by (simp add: clear_data_buff_def)
  show "data_buff (fst (dispatcher_run ros exs jobs a b w)) = []"
    "snd (dispatcher_run ros exs jobs a b w) =
     snd (sthen (run_jobs ros exs jobs a b) (sthen log_item_counts (on_recorder force_to_flush)) w)"
    by (simp_all add: dispatcher_run_def sfinally_pure [OF pure] clear_data_buff_def)
  show "case snd (run_jobs ros exs jobs a b w) of
      Inr _ \<Rightarrow> run_jobs ros exs jobs a b w = fold (\<lambda>j s. job_run ros exs a b j (fst s)) jobs (w, Inr ())
    | Inl e \<Rightarrow> (\<exists>ran j rest w1. jobs = ran @ j # rest \<and> run_jobs ros exs ran a b w = (w1, Inr ()) \<and>
        run_jobs ros exs jobs a b w = job_run ros exs a b j w1)"
  proof (induction jobs arbitrary: w)
    case Nil
    then show ?case by (simp add: run_jobs_def)
  next
    case (Cons j js)
    obtain w1 r1 where j: "job_run ros exs a b j w = (w1, r1)" by (cases "job_run ros exs a b j w")
    show ?case
    proof (cases r1)
      case (Inl e)
      have "run_jobs ros exs [] a b w = (w, Inr ())" by (simp add: run_jobs_def)
      with j Inl show ?thesis
        by (auto simp: run_jobs_def intro!: exI [of _ "[]"])
    next
      case (Inr u)
      have r: "run_jobs ros exs (j # js) a b w = run_jobs ros exs js a b w1"
        using j Inr by (simp add: run_jobs_def)
      have f: "fold (\<lambda>j s. job_run ros exs a b j (fst s)) (j # js) (w, Inr ())
        = fold (\<lambda>j s. job_run ros exs a b j (fst s)) js (w1, Inr ())"
        using j Inr by simp
      show ?thesis
      proof (cases "snd (run_jobs ros exs js a b w1)")
        case (Inr v)
        with Cons [of w1] r f show ?thesis by simp
      next
        case (Inl e)
        with Cons [of w1] obtain ran k rest w2 where d: "js = ran @ k # rest"
          "run_jobs ros exs ran a b w1 = (w2, Inr ())"
          "run_jobs ros exs js a b w1 = job_run ros exs a b k w2" by auto
        have "run_jobs ros exs (j # ran) a b w = (w2, Inr ())"
          using j Inr d(2) \<open>r1 = Inr u\<close> by (simp add: run_jobs_def)
        moreover have "j # js = (j # ran) @ k # rest" using d(1) by simp
        ultimately have "\<exists>ran j' rest w1. j # js = ran @ j' # rest \<and>
            run_jobs ros exs ran a b w = (w1, Inr ()) \<and>
            run_jobs ros exs (j # js) a b w = job_run ros exs a b j' w1"
          using r d(3) by metis
        with Inl r show ?thesis by simp
      qed
    qed
  qed
qed

end
