(* ===== verification/Stream.thy ===== *)
theory Stream
  imports Jobs
begin

text \<open>
  \<open>indexer/controller/stream_controller.py\<close>: the loop that follows the head of the chain.
  \<open>stream_iter\<close> is one turn of the loop, \<open>stream_loop\<close> the loop for a number of turns (it may
  never end), with a journal of the calls it makes on the dispatcher and the recorder. What the
  loop calls is the record \<open>env\<close>; the last section puts the dispatcher, the PostgreSQL
  recorder and a node together in one. Sleeping and the pid file are not modelled.
\<close>

section \<open>The loop\<close>

record 'w env =
  env_get_last :: "('w, int) act"
  env_set_last :: "int \<Rightarrow> ('w, unit) act"
  env_block_number :: "('w, int) act"
  env_dispatch :: "int \<Rightarrow> int \<Rightarrow> ('w, unit) act"
  env_force_to_flush :: "('w, unit) act"

record params =
  start_block :: "int option"
  end_block :: "int option"
  steps :: int
  retry_errors :: bool
  max_retries :: int

text \<open>\<open>Dispatched current a b ok\<close>: the dispatcher was run on the blocks \<open>a\<close> to \<open>b\<close> when the
  head of the chain was \<open>current\<close>.\<close>

datatype event = Dispatched int int int bool | Recorded int | RecordFailed int

record 'w stream =
  last_synced_block :: int
  tries :: int
  stream_world :: 'w
  journal :: "event list"

datatype outcome = Running | Returned | Raised exc

definition calculate_target_block :: "int \<Rightarrow> int \<Rightarrow> int option \<Rightarrow> int \<Rightarrow> int" where
  "calculate_target_block current_block last_synced end_incl n_steps =
     (let target_block = min current_block (last_synced + n_steps)
      in case end_incl of Some e \<Rightarrow> min target_block e | None \<Rightarrow> target_block)"

definition stream_body :: "'w env \<Rightarrow> params \<Rightarrow> 'w stream \<Rightarrow> 'w stream \<times> unit res" where
  "stream_body env p st =
     (case env_block_number env (stream_world st) of
        (w1, Inl e) \<Rightarrow> (st\<lparr>stream_world := w1\<rparr>, Inl e)
      | (w1, Inr current_block) \<Rightarrow>
          let l = last_synced_block st;
              target_block = calculate_target_block current_block l (end_block p) (steps p);
              synced_blocks = max (target_block - l) 0
          in if synced_blocks \<noteq> 0
             then (case env_dispatch env (l + 1) target_block w1 of
                     (w2, Inl e) \<Rightarrow>
                       (st\<lparr>stream_world := w2,
                           journal := journal st @ [Dispatched current_block (l + 1) target_block False]\<rparr>,
                        Inl e)
                   | (w2, Inr _) \<Rightarrow>
                       (case env_set_last env target_block w2 of
                          (w3, Inl e) \<Rightarrow>
                            (st\<lparr>stream_world := w3, journal := journal st @
                               [Dispatched current_block (l + 1) target_block True,
                                RecordFailed target_block]\<rparr>, Inl e)
                        | (w3, Inr _) \<Rightarrow>
                            (st\<lparr>stream_world := w3, last_synced_block := target_block,
                                journal := journal st @
                                  [Dispatched current_block (l + 1) target_block True,
                                   Recorded target_block]\<rparr>, Inr ())))
             else (st\<lparr>stream_world := w1\<rparr>, Inr ()))"

text \<open>The two handlers: the state the loop goes on with, or the exception it ends with.\<close>

definition stream_handle :: "'w env \<Rightarrow> params \<Rightarrow> exc \<Rightarrow> 'w stream \<Rightarrow> 'w stream \<times> exc option" where
  "stream_handle env p e st =
     (case hemera_flags e of
        Some (is_crashable, is_retriable) \<Rightarrow>
          if is_crashable then (st, Some e)
          else if is_retriable
          then (let t = tries st + 1
                in if t \<ge> max_retries p then (st\<lparr>tries := t\<rparr>, Some e) else (st\<lparr>tries := t\<rparr>, None))
          else (st, Some e)
      | None \<Rightarrow>
          let t = tries st + 1
          in if \<not> retry_errors p \<or> t \<ge> max_retries p
             then (case env_force_to_flush env (stream_world st) of
                     (w, Inl e') \<Rightarrow> (st\<lparr>tries := t, stream_world := w\<rparr>, Some e')
                   | (w, Inr _) \<Rightarrow> (st\<lparr>tries := t, stream_world := w\<rparr>, Some e))
             else (st\<lparr>tries := t\<rparr>, None))"

definition stream_iter :: "'w env \<Rightarrow> params \<Rightarrow> 'w stream \<Rightarrow> 'w stream \<times> exc option" where
  "stream_iter env p st =
     (case stream_body env p st of
        (st', Inr _) \<Rightarrow> (st'\<lparr>tries := 0\<rparr>, None)
      | (st', Inl e) \<Rightarrow> stream_handle env p e st')"

definition below_end :: "params \<Rightarrow> int \<Rightarrow> bool" where
  "below_end p l = (case end_block p of None \<Rightarrow> True | Some e \<Rightarrow> l < e)"

fun stream_loop :: "'w env \<Rightarrow> params \<Rightarrow> nat \<Rightarrow> 'w stream \<Rightarrow> 'w stream \<times> outcome" where
  "stream_loop env p 0 st = (st, Running)"
| "stream_loop env p (Suc n) st =
     (if below_end p (last_synced_block st)
      then (case stream_iter env p st of
              (st', Some e) \<Rightarrow> (st', Raised e)
            | (st', None) \<Rightarrow> stream_loop env p n st')
      else (st, Returned))"

definition do_stream :: "'w env \<Rightarrow> params \<Rightarrow> nat \<Rightarrow> 'w \<Rightarrow> 'w stream \<times> outcome" where
  "do_stream env p n w =
     (case env_get_last env w of
        (w', Inl e) \<Rightarrow>
          (\<lparr>last_synced_block = 0, tries = 0, stream_world = w', journal = []\<rparr>, Raised e)
      | (w', Inr l) \<Rightarrow>
          stream_loop env p n
            \<lparr>last_synced_block = (case start_block p of Some s \<Rightarrow> s - 1 | None \<Rightarrow> l),
             tries = 0, stream_world = w', journal = []\<rparr>)"

section \<open>Legal journals\<close>

text \<open>The range of a run on top of \<open>l\<close> when the head is \<open>h\<close>.\<close>

definition range_ok :: "params \<Rightarrow> int \<Rightarrow> int \<Rightarrow> int \<Rightarrow> int \<Rightarrow> bool" where
  "range_ok p l h a b \<longleftrightarrow> a = l + 1 \<and> a \<le> b \<and> b \<le> h \<and> b \<le> l + steps p \<and>
     (case end_block p of None \<Rightarrow> True | Some e \<Rightarrow> b \<le> e)"

text \<open>What a journal may be from the last synced block \<open>l\<close> on, and the one it leads to.\<close>

fun legal :: "params \<Rightarrow> int \<Rightarrow> event list \<Rightarrow> int option" where
  "legal p l [] = Some l"
| "legal p l (Dispatched h a b False # es) = (if range_ok p l h a b then legal p l es else None)"
| "legal p l (Dispatched h a b True # Recorded n # es) =
     (if range_ok p l h a b \<and> n = b then legal p b es else None)"
| "legal p l (Dispatched h a b True # RecordFailed n # es) =
     (if range_ok p l h a b \<and> n = b then legal p l es else None)"
| "legal p l _ = None"

lemma legal_append: "legal p l es = Some l' \<Longrightarrow> legal p l (es @ fs) = legal p l' fs"
  by (induction p l es rule: legal.induct) (auto split: if_splits)

lemma legal_covers:
  "legal p l es = Some l' \<Longrightarrow> l \<le> l' \<and>
     (\<forall>n. l < n \<and> n \<le> l' \<longrightarrow> (\<exists>h a b. Dispatched h a b True \<in> set es \<and> a \<le> n \<and> n \<le> b))"
proof (induction p l es rule: legal.induct)
  case (2 p l h a b es)
  then show ?case by (auto split: if_splits)
next
  case (3 p l h a b n es)
  then have r: "range_ok p l h a b" "n = b" and l: "legal p b es = Some l'" by (auto split: if_splits)
  have "\<exists>h' a' b'. Dispatched h' a' b' True \<in> set (Dispatched h a b True # Recorded n # es) \<and>
      a' \<le> m \<and> m \<le> b'" if m: "l < m" "m \<le> l'" for m
  proof (cases "m \<le> b")
    case True
    with r m have "a \<le> m \<and> m \<le> b" by (auto simp: range_ok_def)
    then show ?thesis by (meson list.set_intros(1))
  next
    case False
    with 3(1) r l m show ?thesis by (meson list.set_intros(2) not_le)
  qed
  with 3(1) r l show ?case by (auto simp: range_ok_def)
next
  case (4 p l h a b n es)
  then have "legal p l es = Some l'" and r: "range_ok p l h a b" "n = b" by (auto split: if_splits)
  with 4(1) show ?case by (meson list.set_intros(2))
qed auto

lemma legal_within_end:
  "legal p l es = Some l' \<Longrightarrow> end_block p = Some e \<Longrightarrow> l' \<le> max l e"
  by (induction p l es rule: legal.induct) (auto simp: range_ok_def split: if_splits)

text \<open>One turn adds a legal piece of journal.\<close>

lemma calculate_target_range:
  assumes "t = calculate_target_block h l (end_block p) (steps p)" and "max (t - l) 0 \<noteq> 0"
  shows "range_ok p l h (l + 1) t"
  using assms by (auto simp: calculate_target_block_def range_ok_def Let_def split: option.splits)

lemma stream_body_legal:
  assumes "stream_body env p st = (st', r)"
  shows "\<exists>es. journal st' = journal st @ es \<and> legal p (last_synced_block st) es = Some (last_synced_block st')"
proof -
  let ?l = "last_synced_block st"
  obtain w1 hr where h: "env_block_number env (stream_world st) = (w1, hr)" by fastforce
  show ?thesis
  proof (cases hr)
    case (Inl e)
    with assms h show ?thesis by (auto simp: stream_body_def)
  next
    case (Inr c)
    define t where "t = calculate_target_block c ?l (end_block p) (steps p)"
    show ?thesis
    proof (cases "max (t - ?l) 0 = 0")
      case True
      with assms h Inr show ?thesis by (auto simp: stream_body_def t_def [symmetric] Let_def)
    next
      case False
      have ok: "range_ok p ?l c (?l + 1) t" using False t_def by (intro calculate_target_range)
      obtain w2 dr where d: "env_dispatch env (?l + 1) t w1 = (w2, dr)" by fastforce
      obtain w3 sr where s: "env_set_last env t w2 = (w3, sr)" by fastforce
      from assms False h Inr d s ok show ?thesis
        by (cases dr; cases sr)
           (auto simp: stream_body_def t_def [symmetric] Let_def)
    qed
  qed
qed

lemma stream_handle_keeps:
  assumes "stream_handle env p e st = (st', x)"
  shows "journal st' = journal st" and "last_synced_block st' = last_synced_block st"
  using assms by (auto simp: stream_handle_def Let_def split: option.splits prod.splits if_splits sum.splits)

lemma stream_iter_legal:
  assumes "stream_iter env p st = (st', x)"
  shows "\<exists>es. journal st' = journal st @ es \<and> legal p (last_synced_block st) es = Some (last_synced_block st')"
proof -
  obtain st1 r where b: "stream_body env p st = (st1, r)" by fastforce
  from assms b have "journal st' = journal st1 \<and> last_synced_block st' = last_synced_block st1"
    by (auto simp: stream_iter_def stream_handle_keeps split: sum.splits)
  with stream_body_legal [OF b] show ?thesis by simp
qed

lemma stream_loop_legal:
  assumes "stream_loop env p n st = (st', out)"
  shows "\<exists>es. journal st' = journal st @ es \<and> legal p (last_synced_block st) es = Some (last_synced_block st')"
  using assms
proof (induction n arbitrary: st)
  case (Suc n)
  show ?case
  proof (cases "below_end p (last_synced_block st)")
    case True
    obtain st1 x where i: "stream_iter env p st = (st1, x)" by fastforce
    obtain es where es: "journal st1 = journal st @ es"
      "legal p (last_synced_block st) es = Some (last_synced_block st1)"
      using stream_iter_legal [OF i] by blast
    show ?thesis
    proof (cases x)
      case (Some e)
      with Suc.prems True i es show ?thesis by auto
    next
      case None
      with Suc.prems True i have "stream_loop env p n st1 = (st', out)" by simp
      from Suc.IH [OF this] obtain fs where "journal st' = journal st1 @ fs"
        "legal p (last_synced_block st1) fs = Some (last_synced_block st')" by blast
      with es legal_append [OF es(2), of fs] show ?thesis by auto
    qed
  next
    case False
    with Suc.prems show ?thesis by auto
  qed
qed auto

section \<open>Giving up\<close>

text \<open>What the turns of the loop come to when nothing but the end block stops it: the results of their bodies. No
  handler and no counter is run.\<close>

fun turn_results :: "'w env \<Rightarrow> params \<Rightarrow> nat \<Rightarrow> 'w stream \<Rightarrow> unit res list" where
  "turn_results env p 0 st = []"
| "turn_results env p (Suc n) st =
     (if below_end p (last_synced_block st)
      then snd (stream_body env p st) # turn_results env p n (fst (stream_body env p st)) else [])"

text \<open>A failure that is not retried: one of the program's own exceptions that is crashable or not retriable, or any
  other one when errors are not retried.\<close>

definition fatal :: "params \<Rightarrow> exc \<Rightarrow> bool" where
  "fatal p e \<longleftrightarrow> (case hemera_flags e of Some (c, r) \<Rightarrow> c \<or> \<not> r | None \<Rightarrow> \<not> retry_errors p)"

definition failures_up_to :: "unit res list \<Rightarrow> nat \<Rightarrow> nat \<Rightarrow> bool" where
  "failures_up_to rs m k \<longleftrightarrow> m \<le> Suc k \<and> (\<forall>j. Suc k - m \<le> j \<and> j \<le> k \<longrightarrow> isl (rs ! j))"

text \<open>The turn \<open>k\<close> fails for good, or is the last of \<open>max_retries\<close> failures in a row.\<close>

definition gives_up :: "params \<Rightarrow> unit res list \<Rightarrow> nat \<Rightarrow> bool" where
  "gives_up p rs k \<longleftrightarrow> k < length rs \<and> isl (rs ! k) \<and>
     ((\<exists>e. rs ! k = Inl e \<and> fatal p e) \<or> failures_up_to rs (nat (max_retries p)) k)"

text \<open>The same decided along the list, with the number of failures before it.\<close>

fun counted_up :: "params \<Rightarrow> nat \<Rightarrow> unit res list \<Rightarrow> exc option" where
  "counted_up p c [] = None"
| "counted_up p c (Inr _ # rs) = counted_up p 0 rs"
| "counted_up p c (Inl e # rs) = (if fatal p e \<or> max_retries p \<le> int (Suc c) then Some e else counted_up p (Suc c) rs)"

text \<open>A prefix that ends in exactly \<open>c\<close> failures.\<close>

definition ends_in :: "nat \<Rightarrow> unit res list \<Rightarrow> bool" where
  "ends_in c qs \<longleftrightarrow> c \<le> length qs \<and> (\<forall>j. length qs - c \<le> j \<and> j < length qs \<longrightarrow> isl (qs ! j)) \<and>
     (c < length qs \<longrightarrow> \<not> isl (qs ! (length qs - Suc c)))"

lemma ends_in_failure: "ends_in c qs \<Longrightarrow> ends_in (Suc c) (qs @ [Inl e])"
  by (auto simp: ends_in_def nth_append)

lemma ends_in_success: "ends_in 0 (qs @ [Inr u])"
  by (auto simp: ends_in_def)

lemma gives_up_at:
  assumes "ends_in c qs"
  shows "gives_up p (qs @ Inl e # rs) (length qs) \<longleftrightarrow> fatal p e \<or> max_retries p \<le> int (Suc c)"
proof -
  let ?m = "nat (max_retries p)" and ?rs = "qs @ Inl e # rs"
  have "failures_up_to ?rs ?m (length qs) \<longleftrightarrow> ?m \<le> Suc c"
  proof
    assume f: "failures_up_to ?rs ?m (length qs)"
    show "?m \<le> Suc c"
    proof (rule ccontr)
      assume n: "\<not> ?m \<le> Suc c"
      with f have l: "c < length qs" by (simp add: failures_up_to_def)
      from l n f have "isl (?rs ! (length qs - Suc c))" unfolding failures_up_to_def by auto
      moreover have "length qs - Suc c < length qs" using l by simp
      ultimately show False using l assms by (simp add: ends_in_def nth_append)
    qed
  next
    assume "?m \<le> Suc c"
    with assms show "failures_up_to ?rs ?m (length qs)"
      by (auto simp: failures_up_to_def ends_in_def nth_append)
  qed
  then show ?thesis by (auto simp: gives_up_def)
qed

lemma gives_up_append: "k < length qs \<Longrightarrow> gives_up p (qs @ rs) k \<longleftrightarrow> gives_up p qs k"
  by (simp add: gives_up_def failures_up_to_def nth_append)

text \<open>Counting finds the first turn at which to give up.\<close>

lemma counted_up_first:
  assumes "ends_in c qs" and "\<forall>k. \<not> gives_up p qs k"
  shows "case counted_up p c rs of
      None \<Rightarrow> (\<forall>k. \<not> gives_up p (qs @ rs) k)
    | Some e \<Rightarrow> (\<exists>k. gives_up p (qs @ rs) k \<and> (qs @ rs) ! k = Inl e \<and> (\<forall>j < k. \<not> gives_up p (qs @ rs) j))"
  using assms
proof (induction p c rs arbitrary: qs rule: counted_up.induct)
  case (2 p c u rs)
  have "\<not> gives_up p (qs @ [Inr u]) k" for k
  proof (cases "k < length qs")
    case True
    with 2(3) show ?thesis by (simp add: gives_up_append)
  next
    case False
    then show ?thesis by (cases "k = length qs") (simp_all add: gives_up_def)
  qed
  with "2.IH" [OF ends_in_success, of qs u] show ?case by (cases "counted_up p 0 rs") simp_all
next
  case (3 p c e rs)
  show ?case
  proof (cases "fatal p e \<or> max_retries p \<le> int (Suc c)")
    case True
    with gives_up_at [OF 3(2), of p e rs] 3(3) show ?thesis
      by (auto simp: gives_up_append intro!: exI [of _ "length qs"])
  next
    case False
    have "\<not> gives_up p (qs @ [Inl e]) k" for k
    proof (cases "k < length qs")
      case True
      with 3(3) show ?thesis by (simp add: gives_up_append)
    next
      case f: False
      with gives_up_at [OF 3(2), of p e "[]"] False show ?thesis by (cases "k = length qs") (auto simp: gives_up_def)
    qed
    with "3.IH" [OF False ends_in_failure [OF 3(2)], of e] False show ?thesis
      by (cases "counted_up p (Suc c) rs") simp_all
  qed
qed simp

text \<open>The body of a turn does not look at the counter.\<close>

lemma stream_body_tries:
  "stream_body env p (st\<lparr>tries := c\<rparr>) = map_prod (tries_update (\<lambda>_. c)) id (stream_body env p st)"
  by (auto simp: stream_body_def Let_def split: prod.split sum.split)

lemma turn_results_tries: "turn_results env p n (st\<lparr>tries := c\<rparr>) = turn_results env p n st"
  by (induction n arbitrary: st) (simp_all add: stream_body_tries)

lemma stream_body_keeps_tries: "tries (fst (stream_body env p st)) = tries st"
  by (auto simp: stream_body_def Let_def split: prod.splits sum.splits)

lemma stream_handle_cases:
  assumes "tries st = int c"
  shows "if fatal p e \<or> max_retries p \<le> int (Suc c)
    then \<exists>st' e'. stream_handle env p e st = (st', Some e') \<and>
      ((\<forall>w. \<exists>w'. env_force_to_flush env w = (w', Inr ())) \<longrightarrow> e' = e)
    else stream_handle env p e st = (st\<lparr>tries := int (Suc c)\<rparr>, None)"
proof (cases "hemera_flags e")
  case None
  obtain w r where f: "env_force_to_flush env (stream_world st) = (w, r)" by (cases "env_force_to_flush env (stream_world st)")
  have "r = Inr ()" if "\<forall>w. \<exists>w'. env_force_to_flush env w = (w', Inr ())" using that f by (metis prod.inject)
  with None f assms show ?thesis
    by (cases r) (auto simp: stream_handle_def fatal_def Let_def)
next
  case (Some fl)
  with assms show ?thesis by (cases fl) (auto simp: stream_handle_def fatal_def Let_def)
qed

lemma stream_loop_outcome:
  assumes "tries st = int c"
  shows "case counted_up p c (turn_results env p n st) of
      None \<Rightarrow> (\<exists>st'. stream_loop env p n st =
        (st', if length (turn_results env p n st) = n then Running else Returned))
    | Some e \<Rightarrow> (\<exists>st' e'. stream_loop env p n st = (st', Raised e') \<and>
        ((\<forall>w. \<exists>w'. env_force_to_flush env w = (w', Inr ())) \<longrightarrow> e' = e))"
  using assms
proof (induction n arbitrary: st c)
  case (Suc n)
  show ?case
  proof (cases "below_end p (last_synced_block st)")
    case below: True
    obtain st1 r where b: "stream_body env p st = (st1, r)" by fastforce
    have t: "tries st1 = int c" using stream_body_keeps_tries [of env p st] b Suc.prems by simp
    show ?thesis
    proof (cases r)
      case (Inr u)
      with Suc.IH [of "st1\<lparr>tries := 0\<rparr>" 0] below b show ?thesis
        by (auto simp: stream_iter_def turn_results_tries split: option.splits if_splits)
    next
      case (Inl e)
      show ?thesis
      proof (cases "fatal p e \<or> max_retries p \<le> int (Suc c)")
        case True
        with stream_handle_cases [OF t, of p e env] below b Inl show ?thesis by (auto simp: stream_iter_def)
      next
        case False
        with stream_handle_cases [OF t, of p e env] have "stream_handle env p e st1 = (st1\<lparr>tries := int (Suc c)\<rparr>, None)"
          by simp
        with Suc.IH [of "st1\<lparr>tries := int (Suc c)\<rparr>" "Suc c"] False below b Inl show ?thesis
          by (auto simp: stream_iter_def turn_results_tries split: option.splits if_splits)
      qed
    qed
  qed simp
qed simp

section \<open>Reaching the end block\<close>

lemma stream_iter_progress:
  assumes "below_end p (last_synced_block st)" and "end_block p = Some e" and "1 \<le> steps p"
    and head: "\<And>w. \<exists>w' h. env_block_number env w = (w', Inr h) \<and> e \<le> h"
    and dispatch: "\<And>w a b. \<exists>w'. env_dispatch env a b w = (w', Inr ())"
    and set: "\<And>w n. \<exists>w'. env_set_last env n w = (w', Inr ())"
  shows "\<exists>st'. stream_iter env p st = (st', None) \<and>
    last_synced_block st' = min e (last_synced_block st + steps p)"
proof -
  let ?l = "last_synced_block st"
  obtain w1 h where h: "env_block_number env (stream_world st) = (w1, Inr h)" "e \<le> h"
    using head by blast
  define t where "t = calculate_target_block h ?l (end_block p) (steps p)"
  have t: "t = min e (?l + steps p)" "?l < t"
    using assms(1-3) h(2) by (auto simp: t_def calculate_target_block_def below_end_def Let_def)
  obtain w2 where d: "env_dispatch env (?l + 1) t w1 = (w2, Inr ())" using dispatch by blast
  obtain w3 where s: "env_set_last env t w2 = (w3, Inr ())" using set by blast
  from h(1) t d s show ?thesis
    by (simp add: stream_iter_def stream_body_def t_def [symmetric] Let_def)
qed

lemma stream_loop_reaches_end:
  assumes "end_block p = Some e" and "1 \<le> steps p"
    and head: "\<And>w. \<exists>w' h. env_block_number env w = (w', Inr h) \<and> e \<le> h"
    and dispatch: "\<And>w a b. \<exists>w'. env_dispatch env a b w = (w', Inr ())"
    and set: "\<And>w n. \<exists>w'. env_set_last env n w = (w', Inr ())"
    and "e - last_synced_block st < int n" and "0 < n"
  shows "\<exists>st'. stream_loop env p n st = (st', Returned) \<and>
    last_synced_block st' = max e (last_synced_block st)"
  using assms(6,7)
proof (induction n arbitrary: st)
  case 0
  then show ?case by simp
next
  case (Suc n)
  let ?l = "last_synced_block st"
  show ?case
  proof (cases "below_end p ?l")
    case True
    obtain st1 where i: "stream_iter env p st = (st1, None)"
      and l: "last_synced_block st1 = min e (?l + steps p)"
      using stream_iter_progress [OF True assms(1,2) head dispatch set] by blast
    have "?l < e" using True assms(1) by (simp add: below_end_def)
    then have r: "e - last_synced_block st1 < int n" "0 < n"
      and m: "max e (last_synced_block st1) = max e ?l"
      using l Suc.prems assms(2) by auto
    from Suc.IH [OF r] m i True show ?thesis by simp
  next
    case False
    with assms(1) show ?thesis by (simp add: below_end_def)
  qed
qed

section \<open>The recorder agrees with the loop\<close>

locale stream_env = sync_recorder get_last set_last recorded
  for get_last :: "('w, int) act" and set_last :: "int \<Rightarrow> ('w, unit) act" and recorded :: "'w \<Rightarrow> int" +
  fixes env :: "'w env"
  assumes env_get [simp]: "env_get_last env = get_last"
    and env_set [simp]: "env_set_last env = set_last"
    and head_keeps: "env_block_number env w = (w', hr) \<Longrightarrow> recorded w' = recorded w"
    and dispatch_keeps: "env_dispatch env a b w = (w', dr) \<Longrightarrow> recorded w' = recorded w"
    and flush_keeps: "env_force_to_flush env w = (w', fr) \<Longrightarrow> recorded w' = recorded w"
begin

definition agrees :: "'w stream \<Rightarrow> bool" where
  "agrees st \<longleftrightarrow> ((\<exists>n. Recorded n \<in> set (journal st)) \<longrightarrow>
     recorded (stream_world st) = last_synced_block st)"

lemma stream_body_agrees:
  assumes "agrees st" and "stream_body env p st = (st', r)"
  shows "agrees st'"
proof -
  let ?l = "last_synced_block st"
  obtain w1 hr where h: "env_block_number env (stream_world st) = (w1, hr)" by fastforce
  have w1: "recorded w1 = recorded (stream_world st)" by (rule head_keeps [OF h])
  show ?thesis
  proof (cases hr)
    case (Inl e)
    with assms h w1 show ?thesis by (auto simp: stream_body_def agrees_def)
  next
    case (Inr c)
    define t where "t = calculate_target_block c ?l (end_block p) (steps p)"
    obtain w2 dr where d: "env_dispatch env (?l + 1) t w1 = (w2, dr)" by fastforce
    obtain w3 sr where s: "set_last t w2 = (w3, sr)" by fastforce
    have w2: "recorded w2 = recorded w1" by (rule dispatch_keeps [OF d])
    have w3: "recorded w3 = (case sr of Inr _ \<Rightarrow> t | Inl _ \<Rightarrow> recorded w2)"
      using s set_returns set_raises by (cases sr) auto
    from assms h Inr d s w1 w2 w3 show ?thesis
      by (cases dr; cases sr)
         (auto simp: stream_body_def t_def [symmetric] Let_def agrees_def split: if_splits)
  qed
qed

lemma stream_iter_agrees:
  assumes "agrees st" and "stream_iter env p st = (st', x)"
  shows "agrees st'"
proof -
  obtain st1 r where b: "stream_body env p st = (st1, r)" by fastforce
  have a: "agrees st1" by (rule stream_body_agrees [OF assms(1) b])
  from assms(2) b a show ?thesis
    by (auto simp: stream_iter_def stream_handle_def agrees_def Let_def dest: flush_keeps
        split: sum.splits option.splits prod.splits if_splits)
qed

lemma stream_loop_agrees:
  "agrees st \<Longrightarrow> stream_loop env p n st = (st', out) \<Longrightarrow> agrees st'"
proof (induction n arbitrary: st)
  case (Suc n)
  obtain st1 x where i: "stream_iter env p st = (st1, x)" by fastforce
  have "agrees st1" by (rule stream_iter_agrees [OF Suc.prems(1) i])
  with Suc.prems i Suc.IH [of st1] show ?case by (auto split: if_splits option.splits)
qed simp

lemma do_stream_agrees:
  assumes "do_stream env p n w = (st, out)"
  shows "agrees st"
proof -
  obtain w' g where g: "get_last w = (w', g)" by fastforce
  show ?thesis
  proof (cases g)
    case (Inl e)
    with assms g show ?thesis by (auto simp: do_stream_def agrees_def)
  next
    case (Inr l)
    from assms g Inr have "stream_loop env p n
        \<lparr>last_synced_block = (case start_block p of Some s \<Rightarrow> s - 1 | None \<Rightarrow> l),
         tries = 0, stream_world = w', journal = []\<rparr> = (st, out)" by (simp add: do_stream_def)
    then show ?thesis by (rule stream_loop_agrees [rotated]) (simp add: agrees_def)
  qed
qed

end

section \<open>A node, the dispatcher and the PostgreSQL recorder\<close>

text \<open>\<open>heads k\<close> is what the node answers to the \<open>k\<close>-th request for its block number.\<close>

record ('d, 'x) node =
  node_world :: "('d, 'x) world"
  node_pg :: pg_world
  node_clock :: nat

definition on_pg :: "(pg_world, 'a) act \<Rightarrow> (('d, 'x) node, 'a) act" where
  "on_pg m w = (case m (node_pg w) of (x, r) \<Rightarrow> (w\<lparr>node_pg := x\<rparr>, r))"

definition on_world :: "(('d, 'x) world, 'a) act \<Rightarrow> (('d, 'x) node, 'a) act" where
  "on_world m w = (case m (node_world w) of (x, r) \<Rightarrow> (w\<lparr>node_world := x\<rparr>, r))"

definition node_block_number :: "(nat \<Rightarrow> int res) \<Rightarrow> (('d, 'x) node, int) act" where
  "node_block_number heads w = (w\<lparr>node_clock := Suc (node_clock w)\<rparr>, heads (node_clock w))"

definition node_env :: "string \<Rightarrow> (nat \<Rightarrow> int res) \<Rightarrow> string list \<Rightarrow> ('d, 'x) exporter list
    \<Rightarrow> ('d, 'x) job list \<Rightarrow> ('d, 'x) node env" where
  "node_env key heads required_output_types item_exporters jobs =
     \<lparr>env_get_last = on_pg (pg_get_last_synced_block key),
      env_set_last = (\<lambda>n. on_pg (pg_set_last_synced_block key n)),
      env_block_number = node_block_number heads,
      env_dispatch = (\<lambda>a b. on_world (dispatcher_run required_output_types item_exporters jobs a b)),
      env_force_to_flush = on_world (on_recorder force_to_flush)\<rparr>"

definition node_recorded :: "string \<Rightarrow> ('d, 'x) node \<Rightarrow> int" where
  "node_recorded key w = pg_recorded key (node_pg w)"

interpretation node_stream: stream_env
    "on_pg (pg_get_last_synced_block key)" "\<lambda>n. on_pg (pg_set_last_synced_block key n)"
    "node_recorded key" "node_env key heads ros exs jobs"
  for key heads ros exs jobs
proof
  show "n = node_recorded key w \<and> node_recorded key w' = node_recorded key w"
    if "on_pg (pg_get_last_synced_block key) w = (w', Inr n)" for w w' n
    using that pg_store.get_returns
    by (auto simp: on_pg_def node_recorded_def split: prod.splits)
  show "node_recorded key w' = n" if "on_pg (pg_set_last_synced_block key n) w = (w', Inr u)" for n w w' u
    using that pg_store.set_returns by (auto simp: on_pg_def node_recorded_def split: prod.splits)
  show "node_recorded key w' = node_recorded key w"
    if "on_pg (pg_set_last_synced_block key n) w = (w', Inl e)" for n w w' e
    using that pg_store.set_raises by (auto simp: on_pg_def node_recorded_def split: prod.splits)
qed (auto simp: node_env_def node_block_number_def on_world_def node_recorded_def split: prod.splits)

section \<open>An example\<close>

text \<open>Two turns of five and three blocks on a chain whose head is block 8.\<close>

definition example_params :: params where
  "example_params = \<lparr>start_block = Some 1, end_block = Some 8, steps = 5, retry_errors = True, max_retries = 5\<rparr>"

definition example_node :: "(nat, unit) node" where
  "example_node = \<lparr>node_world = \<lparr>data_buff = [], outside = (),
       recorder_of = \<lparr>xr_has_service = False, xr_buffer = [], xr_table = [], xr_faults = []\<rparr>\<rparr>,
     node_pg = \<lparr>sync_records = [], pg_faults = []\<rparr>, node_clock = 0\<rparr>"

abbreviation example_env :: "(nat, unit) node env" where
  "example_env \<equiv> node_env ''main'' (\<lambda>_. Inr 8) [] [] []"

lemma example_run:
  "do_stream example_env example_params 3 example_node =
     (\<lparr>last_synced_block = 8, tries = 0,
       stream_world = example_node\<lparr>node_pg := \<lparr>sync_records = [(''main'', 8)], pg_faults = []\<rparr>, node_clock := 2\<rparr>,
       journal = [Dispatched 8 1 5 True, Recorded 5, Dispatched 8 6 8 True, Recorded 8]\<rparr>, Returned)"
  by (simp add: do_stream_def node_env_def on_pg_def pg_get_last_synced_block_def next_fault_def
      example_params_def example_node_def eval_nat_numeral below_end_def stream_iter_def stream_body_def
      node_block_number_def calculate_target_block_def on_world_def pg_set_last_synced_block_def
      dispatcher_run_def sfinally_def sthen_def sbind_def run_jobs_def log_item_counts_def
      on_recorder_def force_to_flush_def clear_data_buff_def)

section \<open>Properties\<close>

text \<open>C5: whatever fails, at any moment of the loop every block from the start block to the last
  synced one lies in a range on which the dispatcher ran to its end; the ranges follow each other
  without a gap, none goes beyond the head of the chain it was computed from, the end block or
  the step size, and a block is recorded only after its range has been dispatched.\<close>

theorem stream_covers_blocks:
  assumes "do_stream env p n w = (st, out)" and "start_block p = Some s"
    and "env_get_last env w = (w', Inr l)"
  shows "legal p (s - 1) (journal st) = Some (last_synced_block st) \<and> s - 1 \<le> last_synced_block st \<and>
    (\<forall>k. s \<le> k \<and> k \<le> last_synced_block st \<longrightarrow>
      (\<exists>h a b. Dispatched h a b True \<in> set (journal st) \<and> a \<le> k \<and> k \<le> b))"
proof -
  from assms have "stream_loop env p n
      \<lparr>last_synced_block = s - 1, tries = 0, stream_world = w', journal = []\<rparr> = (st, out)"
    by (simp add: do_stream_def)
  from stream_loop_legal [OF this] have "legal p (s - 1) (journal st) = Some (last_synced_block st)"
    by simp
  with legal_covers [OF this] show ?thesis by (auto simp: zle_diff1_eq)
qed

theorem stream_covers_blocks_witness:
  "\<exists>h a b. Dispatched h a b True \<in>
      set (journal (fst (do_stream example_env example_params 3 example_node))) \<and> a \<le> 7 \<and> 7 \<le> b"
proof -
  have "env_get_last example_env example_node = (example_node, Inr 0)"
    by (simp add: node_env_def on_pg_def pg_get_last_synced_block_def next_fault_def example_node_def)
  from stream_covers_blocks [OF example_run _ this, of 1] show ?thesis
    unfolding example_run by (simp add: example_params_def)
qed

text \<open>C10: with a head at or beyond the end block, a positive step and calls that succeed, the loop
  returns, within one turn per missing block, having synced exactly up to the end block.\<close>

theorem stream_reaches_end:
  assumes "env_get_last env w = (w0, Inr l)" and "end_block p = Some e" and "1 \<le> steps p"
    and "\<And>w. \<exists>w' h. env_block_number env w = (w', Inr h) \<and> e \<le> h"
    and "\<And>w a b. \<exists>w'. env_dispatch env a b w = (w', Inr ())"
    and "\<And>w n. \<exists>w'. env_set_last env n w = (w', Inr ())"
    and "s = (case start_block p of Some b \<Rightarrow> b - 1 | None \<Rightarrow> l)" and "e - s < int n" and "0 < n"
  shows "\<exists>st. do_stream env p n w = (st, Returned) \<and> last_synced_block st = max e s"
proof -
  let ?st = "\<lparr>last_synced_block = s, tries = 0, stream_world = w0, journal = []\<rparr>"
  have d: "do_stream env p n w = stream_loop env p n ?st"
    using assms(1,7) by (simp add: do_stream_def)
  have "e - last_synced_block ?st < int n" using assms(8) by simp
  from stream_loop_reaches_end [OF assms(2,3,4,5,6) this assms(9)] d show ?thesis by simp
qed

theorem stream_reaches_end_witness:
  "\<exists>st. do_stream
      \<lparr>env_get_last = (\<lambda>w. (w, Inr w)), env_set_last = (\<lambda>n w. (n, Inr ())),
       env_block_number = (\<lambda>w. (w, Inr 100)), env_dispatch = (\<lambda>a b w. (w, Inr ())),
       env_force_to_flush = (\<lambda>w. (w, Inr ()))\<rparr>
      \<lparr>start_block = None, end_block = Some 90, steps = 10, retry_errors = True, max_retries = 5\<rparr>
      50 (42 :: int) = (st, Returned) \<and> last_synced_block st = 90"
  using stream_reaches_end [of "\<lparr>env_get_last = (\<lambda>w. (w, Inr w)), env_set_last = (\<lambda>n w. (n, Inr ())),
       env_block_number = (\<lambda>w. (w, Inr 100)), env_dispatch = (\<lambda>a b w. (w, Inr ())),
       env_force_to_flush = (\<lambda>w. (w, Inr ()))\<rparr>" 42 42 42
     "\<lparr>start_block = None, end_block = Some 90, steps = 10, retry_errors = True, max_retries = 5\<rparr>" 90 42 50]
  by simp

text \<open>C11: on the composed system, after any turn, once a block has been recorded the row of the
  PostgreSQL recorder holds the last synced block of the loop.\<close>

theorem recorder_agrees:
  assumes "do_stream (node_env key heads ros exs jobs) p n w = (st, out)"
    and "Recorded k \<in> set (journal st)"
  shows "node_recorded key (stream_world st) = last_synced_block st"
  using node_stream.do_stream_agrees [OF assms(1)] assms(2) by (auto simp: node_stream.agrees_def)

theorem recorder_agrees_witness:
  "node_recorded ''main'' (stream_world (fst (do_stream example_env example_params 3 example_node))) = 8"
  using recorder_agrees [OF example_run, of 8] unfolding example_run by simp

text \<open>C12: the loop raises within \<open>n\<close> turns exactly if one of them fails with an exception that is not to be retried
  or is the last of \<open>max_retries\<close> failures in a row (at least one), whatever the turns do; and then, unless
  flushing the exception recorder raises itself, with the exception of the first such turn. The turns are those the
  bodies of the loop make without any handler or counter.\<close>

theorem stream_gives_up_iff:
  assumes "do_stream env p n w = (st, out)" and "env_get_last env w = (w', Inr l)"
    and "rs = turn_results env p n \<lparr>last_synced_block = (case start_block p of Some s \<Rightarrow> s - 1 | None \<Rightarrow> l),
      tries = 0, stream_world = w', journal = []\<rparr>"
  shows "((\<exists>e. out = Raised e) \<longleftrightarrow> (\<exists>k. gives_up p rs k)) \<and>
    (\<forall>e. out = Raised e \<and> (\<forall>w. \<exists>w'. env_force_to_flush env w = (w', Inr ())) \<longrightarrow>
      (\<exists>k. gives_up p rs k \<and> rs ! k = Inl e \<and> (\<forall>j < k. \<not> gives_up p rs j)))"
proof -
  let ?st = "\<lparr>last_synced_block = (case start_block p of Some s \<Rightarrow> s - 1 | None \<Rightarrow> l), tries = 0, stream_world = w', journal = []\<rparr>"
  have run: "stream_loop env p n ?st = (st, out)" using assms(1,2) by (simp add: do_stream_def)
  have "ends_in 0 []" "\<forall>k. \<not> gives_up p [] k" by (simp_all add: ends_in_def gives_up_def)
  note first = counted_up_first [OF this, of rs, simplified]
  have loop: "case counted_up p 0 rs of
      None \<Rightarrow> (\<exists>st'. stream_loop env p n ?st = (st', if length rs = n then Running else Returned))
    | Some e \<Rightarrow> (\<exists>st' e'. stream_loop env p n ?st = (st', Raised e') \<and>
        ((\<forall>w. \<exists>w'. env_force_to_flush env w = (w', Inr ())) \<longrightarrow> e' = e))"
    unfolding assms(3) by (rule stream_loop_outcome) simp
  show ?thesis
  proof (cases "counted_up p 0 rs")
    case None
    with first loop run show ?thesis by (auto split: if_splits)
  next
    case (Some e)
    with first loop run show ?thesis by auto
  qed
qed

text \<open>A node that answers every other time: with \<open>max_retries = 2\<close> the loop is still running after ten turns,
  with \<open>max_retries = 1\<close> it has given up.\<close>

definition flaky_env :: "int env" where
  "flaky_env = \<lparr>env_get_last = (\<lambda>w. (w, Inr 0)), env_set_last = (\<lambda>n w. (w, Inr ())),
     env_block_number = (\<lambda>w. (w + 1, if even w then Inl ConnectionError else Inr w)),
     env_dispatch = (\<lambda>a b w. (w, Inr ())), env_force_to_flush = (\<lambda>w. (w, Inr ()))\<rparr>"

definition flaky_params :: "int \<Rightarrow> params" where
  "flaky_params m = \<lparr>start_block = None, end_block = None, steps = 5, retry_errors = True, max_retries = m\<rparr>"

theorem stream_gives_up_iff_witness:
  "(\<nexists>e. snd (do_stream flaky_env (flaky_params 2) 10 0) = Raised e) \<and>
   snd (do_stream flaky_env (flaky_params 1) 10 0) = Raised ConnectionError"
proof -
  let ?st = "\<lparr>last_synced_block = 0, tries = 0, stream_world = 0, journal = []\<rparr> :: int stream"
  have get: "env_get_last flaky_env 0 = (0, Inr 0)" by (simp add: flaky_env_def)
  have rs: "turn_results flaky_env (flaky_params m) 10 ?st = concat (replicate 5 [Inl ConnectionError, Inr ()])" for m
    by (simp add: eval_nat_numeral flaky_env_def flaky_params_def below_end_def stream_body_def
        calculate_target_block_def Let_def)
  note first = counted_up_first [of 0 "[]" _ "concat (replicate 5 [Inl ConnectionError, Inr ()])", simplified]
  have up: "\<not> (\<exists>k. gives_up (flaky_params 2) (concat (replicate 5 [Inl ConnectionError, Inr ()])) k)"
    "\<exists>k. gives_up (flaky_params 1) (concat (replicate 5 [Inl ConnectionError, Inr ()])) k"
    using first [of "flaky_params 2"] first [of "flaky_params 1"]
    by (auto simp: ends_in_def gives_up_def [of _ "[]"] eval_nat_numeral fatal_def flaky_params_def)
  obtain st out where two: "do_stream flaky_env (flaky_params 2) 10 0 = (st, out)" by fastforce
  obtain st' out' where one: "do_stream flaky_env (flaky_params 1) 10 0 = (st', out')" by fastforce
  have "flaky_params m = flaky_params m\<lparr>start_block := None\<rparr>" for m by (simp add: flaky_params_def)
  then have start: "(case start_block (flaky_params m) of Some s \<Rightarrow> s - 1 | None \<Rightarrow> 0) = (0 :: int)" for m
    by (simp add: flaky_params_def)
  have "\<nexists>e. out = Raised e"
    using stream_gives_up_iff [OF two get refl] up(1) unfolding start rs by blast
  moreover obtain e where e: "out' = Raised e"
    using stream_gives_up_iff [OF one get refl] up(2) unfolding start rs by blast
  moreover have "\<forall>w. \<exists>w'. env_force_to_flush flaky_env w = (w', Inr ())" by (simp add: flaky_env_def)
  ultimately obtain k where "gives_up (flaky_params 1) (concat (replicate 5 [Inl ConnectionError, Inr ()])) k"
    "concat (replicate 5 [Inl ConnectionError, Inr ()]) ! k = Inl e"
    using stream_gives_up_iff [OF one get refl] unfolding start rs by blast
  then have "Inl e \<in> set (concat (replicate 5 [Inl ConnectionError, Inr ()]))"
    unfolding gives_up_def by (metis nth_mem)
  then have "e = ConnectionError" by auto
  with two one e \<open>\<nexists>e. out = Raised e\<close> show ?thesis by simp
qed

end
