(* ===== verification/Wire.thy ===== *)
theory Wire
  imports Utils "HOL-Library.Word"
begin

text \<open>
  What comes over the wire: JSON values with the readers the domain classes use, and byte
  strings with their hexadecimal text.

  A field is read at the type the JSON-RPC schema gives it: another type raises \<open>TypeError\<close>
  here, at the latest where Python would. Functions of third-party packages are fields of the
  record \<open>ext\<close>: \<open>to_int(hexstr=...)\<close>, \<open>to_normalized_address\<close> and
  \<open>to_checksum_address\<close> of eth_utils, the decoder and encoder of eth_abi, the Keccak hash, the
  event topic and function selector made with it, and \<open>float\<close>'s acceptance of a text (a float is kept as the text it was read from).
\<close>

section \<open>Bytes and hexadecimal text\<close>

type_synonym byte = "8 word"

definition hex_digit :: "nat \<Rightarrow> char" where
  "hex_digit n = (if n < 10 then char_of (48 + n) else char_of (87 + n))"

definition hex_value :: "char \<Rightarrow> nat option" where
  "hex_value c = (let n = (of_char c :: nat) in
     if 48 \<le> n \<and> n \<le> 57 then Some (n - 48)
     else if 97 \<le> n \<and> n \<le> 102 then Some (n - 87)
     else if 65 \<le> n \<and> n \<le> 70 then Some (n - 55)
     else None)"

definition byte_hex :: "byte \<Rightarrow> string" where
  "byte_hex b = [hex_digit (unat b div 16), hex_digit (unat b mod 16)]"

text \<open>\<open>b.hex()\<close> and \<open>bytes.fromhex(s)\<close>, which skips blanks between bytes.\<close>

definition bytes_hex :: "byte list \<Rightarrow> string" where
  "bytes_hex bs = concat (map byte_hex bs)"

fun bytes_fromhex :: "string \<Rightarrow> byte list res" where
  "bytes_fromhex [] = Inr []"
| "bytes_fromhex (c # s) =
     (if is_space c then bytes_fromhex s
      else case s of
        [] \<Rightarrow> Inl (ValueError ''non-hexadecimal number found in fromhex() arg'')
      | d # s' \<Rightarrow>
          (case (hex_value c, hex_value d) of
             (Some h, Some l) \<Rightarrow> rbind (bytes_fromhex s') (\<lambda>bs. Inr (of_nat (16 * h + l) # bs))
           | _ \<Rightarrow> Inl (ValueError ''non-hexadecimal number found in fromhex() arg'')))"

lemma of_char_hex_digit: "n < 16 \<Longrightarrow> (of_char (hex_digit n) :: nat) = (if n < 10 then 48 + n else 87 + n)"
  by (auto simp: hex_digit_def)

lemma hex_value_digit [simp]: "n < 16 \<Longrightarrow> hex_value (hex_digit n) = Some n"
  by (auto simp: hex_value_def of_char_hex_digit Let_def)

lemma hex_digit_no_space: "n < 16 \<Longrightarrow> \<not> is_space (hex_digit n)"
proof -
  assume n: "n < 16"
  have "of_char c < (48 :: nat)" if "is_space c" for c using that by (auto simp: is_space_def)
  moreover have "\<not> of_char (hex_digit n) < (48 :: nat)" using n by (auto simp: of_char_hex_digit)
  ultimately show ?thesis by blast
qed

lemma unat_byte: "unat (b :: byte) < 256"
  using unsigned_less [of b, where 'a = nat] by simp

lemma bytes_fromhex_hex: "bytes_fromhex (bytes_hex bs) = Inr bs"
proof (induction bs)
  case (Cons b bs)
  have d: "unat b div 16 < 16" "unat b mod 16 < 16" using unat_byte [of b] by simp_all
  have b: "word_of_nat (16 * (unat b div 16) + unat b mod 16) = b" by (simp only: mult_div_mod_eq) simp
  have "bytes_fromhex (byte_hex b @ bytes_hex bs) = Inr (b # bs)"
    using Cons hex_digit_no_space [OF d(1)] by (simp add: byte_hex_def d b del: of_nat_add of_nat_mult)
  then show ?case by (simp add: bytes_hex_def)
qed (simp add: bytes_hex_def)

lemma length_bytes_hex: "length (bytes_hex bs) = 2 * length bs"
  by (induction bs) (simp_all add: bytes_hex_def byte_hex_def)

definition bytes_to_hex_str :: "byte list \<Rightarrow> string" where
  "bytes_to_hex_str b = ''0x'' @ bytes_hex b"

definition strip_0x :: "string \<Rightarrow> string" where
  "strip_0x s = (if startswith s ''0x'' then drop 2 s else s)"

lemma strip_0x_hex: "strip_0x (''0x'' @ s) = s"
  by (simp add: strip_0x_def startswith_def)

text \<open>\<open>int.from_bytes(b, "big")\<close> and \<open>n.to_bytes(k, "big")\<close>.\<close>

definition int_from_bytes :: "byte list \<Rightarrow> int" where
  "int_from_bytes bs = fold (\<lambda>b n. 256 * n + uint b) bs 0"

fun to_bytes_rev :: "nat \<Rightarrow> int \<Rightarrow> byte list" where
  "to_bytes_rev 0 n = []"
| "to_bytes_rev (Suc k) n = word_of_int (n mod 256) # to_bytes_rev k (n div 256)"

definition int_to_bytes :: "nat \<Rightarrow> int \<Rightarrow> byte list res" where
  "int_to_bytes k n =
     (if 0 \<le> n \<and> n < 256 ^ k then Inr (rev (to_bytes_rev k n)) else Inl OverflowError)"

lemma int_from_bytes_snoc: "int_from_bytes (bs @ [b]) = 256 * int_from_bytes bs + uint b"
  by (simp add: int_from_bytes_def)

lemma int_from_bytes_range: "0 \<le> int_from_bytes bs \<and> int_from_bytes bs < 256 ^ length bs"
proof (induction bs rule: rev_induct)
  case (snoc b bs)
  have "0 \<le> uint b \<and> uint b < 256" using uint_lt2p [of b] uint_ge_0 [of b] by simp
  with snoc show ?case by (simp add: int_from_bytes_snoc)
qed (simp add: int_from_bytes_def)

lemma int_from_to_bytes_rev:
  "0 \<le> n \<Longrightarrow> n < 256 ^ k \<Longrightarrow> int_from_bytes (rev (to_bytes_rev k n)) = n"
proof (induction k arbitrary: n)
  case 0
  then show ?case by (simp add: int_from_bytes_def)
next
  case (Suc k)
  have "uint (word_of_int (n mod 256) :: byte) = n mod 256"
    by (simp add: uint_word_of_int)
  moreover have "n div 256 < 256 ^ k" using Suc.prems by (simp add: div_less_iff_less_mult mult.commute)
  ultimately show ?case
    using Suc.IH [of "n div 256"] Suc.prems(1) by (simp add: int_from_bytes_snoc pos_imp_zdiv_nonneg_iff)
qed

lemma int_to_from_bytes: "int_to_bytes k n = Inr bs \<Longrightarrow> int_from_bytes bs = n \<and> length bs = k"
proof -
  assume a: "int_to_bytes k n = Inr bs"
  then have n: "0 \<le> n" "n < 256 ^ k" and bs: "bs = rev (to_bytes_rev k n)"
    by (auto simp: int_to_bytes_def split: if_splits)
  have "length (to_bytes_rev k n) = k" by (induction k n rule: to_bytes_rev.induct) auto
  with int_from_to_bytes_rev [OF n] bs show ?thesis by simp
qed

text \<open>\<open>hex(n)\<close>.\<close>

fun hex_digits :: "nat \<Rightarrow> string" where
  "hex_digits n = (if n < 16 then [hex_digit n] else hex_digits (n div 16) @ [hex_digit (n mod 16)])"

declare hex_digits.simps [simp del]

definition py_hex :: "int \<Rightarrow> string" where
  "py_hex n = (if n < 0 then ''-0x'' @ hex_digits (nat (- n)) else ''0x'' @ hex_digits (nat n))"

section \<open>JSON\<close>

datatype json = JNull | JBool bool | JInt int | JStr string | JList "json list"
  | JDict "(string \<times> json) list"

type_synonym jdict = "(string \<times> json) list"

fun truthy :: "json \<Rightarrow> bool" where
  "truthy JNull = False"
| "truthy (JBool b) = b"
| "truthy (JInt n) = (n \<noteq> 0)"
| "truthy (JStr s) = (s \<noteq> [])"
| "truthy (JList xs) = (xs \<noteq> [])"
| "truthy (JDict d) = (d \<noteq> [])"

text \<open>\<open>d["k"]\<close> is \<open>dict_get d k\<close>; \<open>d.get("k")\<close> is \<open>None\<close> when the key is missing.\<close>

definition jget :: "jdict \<Rightarrow> string \<Rightarrow> json" where
  "jget d k = (case map_of d k of None \<Rightarrow> JNull | Some v \<Rightarrow> v)"

fun as_str :: "json \<Rightarrow> string res" where
  "as_str (JStr s) = Inr s"
| "as_str _ = Inl TypeError"

fun as_opt_str :: "json \<Rightarrow> string option res" where
  "as_opt_str JNull = Inr None"
| "as_opt_str (JStr s) = Inr (Some s)"
| "as_opt_str _ = Inl TypeError"

fun as_int :: "json \<Rightarrow> int res" where
  "as_int (JInt n) = Inr n"
| "as_int _ = Inl TypeError"

fun as_opt_int :: "json \<Rightarrow> int option res" where
  "as_opt_int JNull = Inr None"
| "as_opt_int (JInt n) = Inr (Some n)"
| "as_opt_int _ = Inl TypeError"

fun as_list :: "json \<Rightarrow> json list res" where
  "as_list (JList xs) = Inr xs"
| "as_list _ = Inl TypeError"

fun as_dict :: "json \<Rightarrow> jdict res" where
  "as_dict (JDict d) = Inr d"
| "as_dict _ = Inl TypeError"

definition get_str :: "jdict \<Rightarrow> string \<Rightarrow> string res" where
  "get_str d k = rbind (dict_get d k) as_str"

definition get_opt_str :: "jdict \<Rightarrow> string \<Rightarrow> string option res" where
  "get_opt_str d k = as_opt_str (jget d k)"

definition get_list_default :: "jdict \<Rightarrow> string \<Rightarrow> json list res" where
  "get_list_default d k = (case map_of d k of None \<Rightarrow> Inr [] | Some v \<Rightarrow> as_list v)"

section \<open>Third-party functions\<close>

datatype abi_value = AUint int | AAddress string | ABool bool | ABytes "byte list" | AString string
  | AList "abi_value list"

record ext =
  to_int_hexstr :: "string \<Rightarrow> int res"
  to_normalized_address :: "string \<Rightarrow> string res"
  to_checksum_address :: "string \<Rightarrow> string res"
  is_address :: "string \<Rightarrow> bool"
  abi_decode :: "string list \<Rightarrow> byte list \<Rightarrow> abi_value list res"
  abi_encode :: "string list \<Rightarrow> abi_value list \<Rightarrow> byte list res"
  keccak :: "byte list \<Rightarrow> byte list"
  event_topic :: "string \<Rightarrow> string list \<Rightarrow> byte list"
  function_selector :: "string \<Rightarrow> string list \<Rightarrow> byte list"
  accepts_float :: "string \<Rightarrow> bool"

definition get_hex :: "ext \<Rightarrow> jdict \<Rightarrow> string \<Rightarrow> int res" where
  "get_hex x d k = rbind (get_str d k) (to_int_hexstr x)"

text \<open>\<open>to_int(hexstr=d.get(k, default))\<close>\<close>

definition get_hex_default :: "ext \<Rightarrow> jdict \<Rightarrow> string \<Rightarrow> string \<Rightarrow> int res" where
  "get_hex_default x d k dflt =
     rbind (case map_of d k of None \<Rightarrow> Inr dflt | Some v \<Rightarrow> as_str v) (to_int_hexstr x)"

text \<open>\<open>to_int(hexstr=d.get(k)) if d.get(k) else None\<close>\<close>

definition get_opt_hex :: "ext \<Rightarrow> jdict \<Rightarrow> string \<Rightarrow> int option res" where
  "get_opt_hex x d k =
     (if truthy (jget d k)
      then rbind (as_str (jget d k)) (\<lambda>s. rbind (to_int_hexstr x s) (\<lambda>n. Inr (Some n)))
      else Inr None)"

text \<open>\<open>to_normalized_address(d.get(k)) if d.get(k) else None\<close>\<close>

definition get_opt_address :: "ext \<Rightarrow> jdict \<Rightarrow> string \<Rightarrow> string option res" where
  "get_opt_address x d k =
     (if truthy (jget d k)
      then rbind (as_str (jget d k)) (\<lambda>s. rbind (to_normalized_address x s) (\<lambda>a. Inr (Some a)))
      else Inr None)"

definition get_opt_float :: "ext \<Rightarrow> jdict \<Rightarrow> string \<Rightarrow> string option res" where
  "get_opt_float x d k =
     (if truthy (jget d k)
      then rbind (as_str (jget d k))
        (\<lambda>s. if accepts_float x s then Inr (Some s)
             else Inl (ValueError ''could not convert string to float''))
      else Inr None)"

text \<open>A stand-in for the third-party functions, for examples: hexadecimal numbers and lower-case
  addresses are read as documented, decoding gives nothing.\<close>

fun hex_number :: "string \<Rightarrow> int \<Rightarrow> int res" where
  "hex_number [] n = Inr n"
| "hex_number (c # s) n =
     (case hex_value c of Some d \<Rightarrow> hex_number s (16 * n + int d)
      | None \<Rightarrow> Inl (ValueError ''invalid literal for int() with base 16''))"

definition sample_ext :: ext where
  "sample_ext =
     \<lparr>to_int_hexstr = (\<lambda>s. hex_number (strip_0x s) 0),
      to_normalized_address = (\<lambda>s. Inr (str_lower s)),
      to_checksum_address = Inr,
      is_address = (\<lambda>s. length s = 42 \<and> startswith s ''0x''),
      abi_decode = (\<lambda>_ _. Inl (OtherException ''DecodingError'')),
      abi_encode = (\<lambda>_ _. Inl (OtherException ''EncodingError'')),
      keccak = (\<lambda>b. take 32 (b @ replicate 32 0)),
      event_topic = (\<lambda>n ts. take 32 (map (\<lambda>c. word_of_nat (of_char c)) (n @ concat ts) @ replicate 32 0)),
      function_selector = (\<lambda>n ts. take 4 (map (\<lambda>c. word_of_nat (of_char c)) (n @ concat ts) @ replicate 4 0)),
      accepts_float = (\<lambda>s. s \<noteq> [])\<rparr>"

end
