(* ===== verification/Domain.thy ===== *)
theory Domain
  imports Wire
begin

text \<open>
  \<open>indexer/domain\<close>: the data classes with their \<open>from_rpc\<close> constructors, in the order their
  arguments are evaluated (the first missing or malformed field decides the exception), the log
  accessors, and the conversion of data classes to dictionaries and back. Also
  \<open>indexer/utils/json_rpc_requests.py\<close>.
\<close>

section \<open>Log\<close>

record log =
  lg_log_index :: int
  lg_address :: string
  lg_data :: string
  lg_transaction_hash :: string
  lg_transaction_index :: int
  lg_block_timestamp :: "int option"
  lg_block_number :: "int option"
  lg_block_hash :: "string option"
  lg_topic0 :: "string option"
  lg_topic1 :: "string option"
  lg_topic2 :: "string option"
  lg_topic3 :: "string option"

definition nth_topic :: "string list \<Rightarrow> nat \<Rightarrow> string option" where
  "nth_topic topics i = (if length topics > i then Some (topics ! i) else None)"

definition log_from_rpc :: "ext \<Rightarrow> int option \<Rightarrow> string option \<Rightarrow> int option \<Rightarrow> jdict \<Rightarrow> log res" where
  "log_from_rpc x block_timestamp block_hash block_number d =
     rbind (rbind (get_list_default d ''topics'') (rmap as_str)) (\<lambda>topics.
     rbind (get_hex x d ''logIndex'') (\<lambda>log_index.
     rbind (rbind (get_str d ''address'') (to_normalized_address x)) (\<lambda>address.
     rbind (get_str d ''data'') (\<lambda>data.
     rbind (get_str d ''transactionHash'') (\<lambda>transaction_hash.
     rbind (get_hex x d ''transactionIndex'') (\<lambda>transaction_index.
     Inr \<lparr>lg_log_index = log_index,
        lg_address = address,
        lg_data = data,
        lg_transaction_hash = transaction_hash,
        lg_transaction_index = transaction_index,
        lg_block_timestamp = block_timestamp,
        lg_block_number = block_number,
        lg_block_hash = block_hash,
        lg_topic0 = nth_topic topics 0,
        lg_topic1 = nth_topic topics 1,
        lg_topic2 = nth_topic topics 2,
        lg_topic3 = nth_topic topics 3\<rparr>))))))"

text \<open>The topics after the first, and the data, as bytes.\<close>

definition topic_hex :: "string option \<Rightarrow> string" where
  "topic_hex t = (case t of None \<Rightarrow> [] | Some s \<Rightarrow> strip_0x s)"

definition get_bytes_topics :: "log \<Rightarrow> byte list res" where
  "get_bytes_topics l = bytes_fromhex (topic_hex (lg_topic1 l) @ topic_hex (lg_topic2 l) @ topic_hex (lg_topic3 l))"

definition get_bytes_data :: "log \<Rightarrow> byte list res" where
  "get_bytes_data l = bytes_fromhex (strip_0x (lg_data l))"

definition get_topic_with_data :: "log \<Rightarrow> byte list res" where
  "get_topic_with_data l =
     rbind (get_bytes_topics l) (\<lambda>t. rbind (get_bytes_data l) (\<lambda>b. Inr (t @ b)))"

section \<open>Receipt\<close>

record receipt =
  rc_transaction_hash :: string
  rc_transaction_index :: int
  rc_contract_address :: "string option"
  rc_status :: int
  rc_logs :: "log list"
  rc_root :: "string option"
  rc_cumulative_gas_used :: "int option"
  rc_gas_used :: "int option"
  rc_effective_gas_price :: "int option"
  rc_l1_fee :: "int option"
  rc_l1_fee_scalar :: "string option"
  rc_l1_gas_used :: "int option"
  rc_l1_gas_price :: "int option"
  rc_blob_gas_used :: "int option"
  rc_blob_gas_price :: "int option"

definition receipt_from_rpc :: "ext \<Rightarrow> int option \<Rightarrow> string option \<Rightarrow> int option \<Rightarrow> jdict \<Rightarrow> receipt res" where
  "receipt_from_rpc x block_timestamp block_hash block_number d =
     rbind (rbind (get_list_default d ''logs'') (rmap (\<lambda>j. rbind (as_dict j) (log_from_rpc x block_timestamp block_hash block_number)))) (\<lambda>logs.
     rbind (get_str d ''transactionHash'') (\<lambda>transaction_hash.
     rbind (get_hex x d ''transactionIndex'') (\<lambda>transaction_index.
     rbind (get_opt_address x d ''contractAddress'') (\<lambda>contract_address.
     rbind (get_hex x d ''status'') (\<lambda>status.
     rbind (get_opt_str d ''root'') (\<lambda>root.
     rbind (get_opt_hex x d ''cumulativeGasUsed'') (\<lambda>cumulative_gas_used.
     rbind (get_opt_hex x d ''gasUsed'') (\<lambda>gas_used.
     rbind (get_opt_hex x d ''effectiveGasPrice'') (\<lambda>effective_gas_price.
     rbind (get_opt_hex x d ''l1Fee'') (\<lambda>l1_fee.
     rbind (get_opt_float x d ''l1FeeScalar'') (\<lambda>l1_fee_scalar.
     rbind (get_opt_hex x d ''l1GasUsed'') (\<lambda>l1_gas_used.
     rbind (get_opt_hex x d ''l1GasPrice'') (\<lambda>l1_gas_price.
     rbind (get_opt_hex x d ''blobGasUsed'') (\<lambda>blob_gas_used.
     rbind (get_opt_hex x d ''blobGasPrice'') (\<lambda>blob_gas_price.
     Inr \<lparr>rc_transaction_hash = transaction_hash,
        rc_transaction_index = transaction_index,
        rc_contract_address = contract_address,
        rc_status = status,
        rc_logs = logs,
        rc_root = root,
        rc_cumulative_gas_used = cumulative_gas_used,
        rc_gas_used = gas_used,
        rc_effective_gas_price = effective_gas_price,
        rc_l1_fee = l1_fee,
        rc_l1_fee_scalar = l1_fee_scalar,
        rc_l1_gas_used = l1_gas_used,
        rc_l1_gas_price = l1_gas_price,
        rc_blob_gas_used = blob_gas_used,
        rc_blob_gas_price = blob_gas_price\<rparr>)))))))))))))))"

section \<open>Transaction\<close>

record transaction =
  tx_hash :: string
  tx_nonce :: int
  tx_transaction_index :: int
  tx_from_address :: string
  tx_to_address :: "string option"
  tx_value :: int
  tx_gas_price :: int
  tx_gas :: int
  tx_transaction_type :: int
  tx_input :: string
  tx_block_number :: "int option"
  tx_block_timestamp :: "int option"
  tx_block_hash :: "string option"
  tx_blob_versioned_hashes :: "json list"
  tx_max_fee_per_gas :: "int option"
  tx_max_priority_fee_per_gas :: "int option"
  tx_receipt :: "receipt option"
  tx_exist_error :: bool
  tx_error :: "string option"
  tx_revert_reason :: "string option"

definition transaction_from_rpc :: "ext \<Rightarrow> int option \<Rightarrow> string option \<Rightarrow> int option \<Rightarrow> jdict \<Rightarrow> transaction res" where
  "transaction_from_rpc x block_timestamp block_hash block_number d =
     rbind (get_str d ''hash'') (\<lambda>hash.
     rbind (get_hex x d ''transactionIndex'') (\<lambda>transaction_index.
     rbind (rbind (get_str d ''from'') (to_normalized_address x)) (\<lambda>from_address.
     rbind (get_opt_address x d ''to'') (\<lambda>to_address.
     rbind (get_hex x d ''value'') (\<lambda>value.
     rbind (get_hex_default x d ''type'' ''0'') (\<lambda>transaction_type.
     rbind (get_str d ''input'') (\<lambda>input.
     rbind (get_hex x d ''nonce'') (\<lambda>nonce.
     rbind (get_hex x d ''gas'') (\<lambda>gas.
     rbind (get_hex x d ''gasPrice'') (\<lambda>gas_price.
     rbind (get_opt_hex x d ''maxFeePerGas'') (\<lambda>max_fee_per_gas.
     rbind (get_opt_hex x d ''maxPriorityFeePerGas'') (\<lambda>max_priority_fee_per_gas.
     rbind (get_list_default d ''blobVersionedHashes'') (\<lambda>blob_versioned_hashes.
     rbind (get_opt_str d ''error'') (\<lambda>error_text.
     rbind (get_opt_str d ''revertReason'') (\<lambda>revert_reason.
     Inr \<lparr>tx_hash = hash,
        tx_nonce = nonce,
        tx_transaction_index = transaction_index,
        tx_from_address = from_address,
        tx_to_address = to_address,
        tx_value = value,
        tx_gas_price = gas_price,
        tx_gas = gas,
        tx_transaction_type = transaction_type,
        tx_input = input,
        tx_block_number = block_number,
        tx_block_timestamp = block_timestamp,
        tx_block_hash = block_hash,
        tx_blob_versioned_hashes = blob_versioned_hashes,
        tx_max_fee_per_gas = max_fee_per_gas,
        tx_max_priority_fee_per_gas = max_priority_fee_per_gas,
        tx_receipt = None,
        tx_exist_error = (error_text \<noteq> None),
        tx_error = error_text,
        tx_revert_reason = revert_reason\<rparr>)))))))))))))))"

definition fill_with_receipt :: "receipt \<Rightarrow> transaction \<Rightarrow> transaction" where
  "fill_with_receipt r t =
     (let t = t\<lparr>tx_receipt := Some r\<rparr>
      in if tx_to_address t = None then t\<lparr>tx_to_address := rc_contract_address r\<rparr> else t)"

section \<open>Block\<close>

record block =
  bl_number :: int
  bl_timestamp :: int
  bl_hash :: string
  bl_parent_hash :: string
  bl_nonce :: string
  bl_gas_limit :: int
  bl_gas_used :: int
  bl_base_fee_per_gas :: int
  bl_blob_gas_used :: int
  bl_excess_blob_gas :: int
  bl_difficulty :: int
  bl_size :: int
  bl_miner :: string
  bl_sha3_uncles :: string
  bl_transactions_root :: string
  bl_state_root :: string
  bl_receipts_root :: string
  bl_transactions :: "transaction list"
  bl_total_difficulty :: int
  bl_extra_data :: "string option"
  bl_withdrawals_root :: "string option"

definition block_from_rpc :: "ext \<Rightarrow> jdict \<Rightarrow> block res" where
  "block_from_rpc x d =
     rbind (rbind (get_list_default d ''transactions'') (rmap (\<lambda>j. rbind (as_dict j) (\<lambda>t. rbind (get_hex x d ''timestamp'') (\<lambda>ts. rbind (get_str d ''hash'') (\<lambda>h. rbind (get_hex x d ''number'') (\<lambda>n. transaction_from_rpc x (Some ts) (Some h) (Some n) t))))))) (\<lambda>transactions.
     rbind (get_hex x d ''number'') (\<lambda>number.
     rbind (get_hex x d ''timestamp'') (\<lambda>timestamp.
     rbind (get_str d ''hash'') (\<lambda>hash.
     rbind (get_str d ''parentHash'') (\<lambda>parent_hash.
     rbind (get_str d ''nonce'') (\<lambda>nonce.
     rbind (get_hex x d ''gasLimit'') (\<lambda>gas_limit.
     rbind (get_hex x d ''gasUsed'') (\<lambda>gas_used.
     rbind (get_hex_default x d ''baseFeePerGas'' ''0'') (\<lambda>base_fee_per_gas.
     rbind (get_hex_default x d ''blobGasUsed'' ''0'') (\<lambda>blob_gas_used.
     rbind (get_hex_default x d ''excessBlobGas'' ''0'') (\<lambda>excess_blob_gas.
     rbind (get_hex x d ''difficulty'') (\<lambda>difficulty.
     rbind (get_hex_default x d ''totalDifficulty'' ''0'') (\<lambda>total_difficulty.
     rbind (get_hex x d ''size'') (\<lambda>bsize.
     rbind (rbind (get_str d ''miner'') (to_normalized_address x)) (\<lambda>miner.
     rbind (get_str d ''sha3Uncles'') (\<lambda>sha3_uncles.
     rbind (get_str d ''transactionsRoot'') (\<lambda>transactions_root.
     rbind (get_str d ''stateRoot'') (\<lambda>state_root.
     rbind (get_str d ''receiptsRoot'') (\<lambda>receipts_root.
     rbind (get_opt_str d ''extraData'') (\<lambda>extra_data.
     rbind (get_opt_str d ''withdrawalsRoot'') (\<lambda>withdrawals_root.
     Inr \<lparr>bl_number = number,
        bl_timestamp = timestamp,
        bl_hash = hash,
        bl_parent_hash = parent_hash,
        bl_nonce = nonce,
        bl_gas_limit = gas_limit,
        bl_gas_used = gas_used,
        bl_base_fee_per_gas = base_fee_per_gas,
        bl_blob_gas_used = blob_gas_used,
        bl_excess_blob_gas = excess_blob_gas,
        bl_difficulty = difficulty,
        bl_size = bsize,
        bl_miner = miner,
        bl_sha3_uncles = sha3_uncles,
        bl_transactions_root = transactions_root,
        bl_state_root = state_root,
        bl_receipts_root = receipts_root,
        bl_transactions = transactions,
        bl_total_difficulty = total_difficulty,
        bl_extra_data = extra_data,
        bl_withdrawals_root = withdrawals_root\<rparr>)))))))))))))))))))))"

record update_block_internal_count =
  ub_hash :: string
  ub_traces_count :: int
  ub_internal_transactions_count :: int

record block_ts_mapper =
  tm_block_number :: int
  tm_timestamp :: int

definition new_block_ts_mapper :: "int \<times> int \<Rightarrow> block_ts_mapper" where
  "new_block_ts_mapper mapper = \<lparr>tm_block_number = snd mapper, tm_timestamp = fst mapper\<rparr>"

section \<open>Trace\<close>

record trace =
  tr_trace_id :: string
  tr_from_address :: "string option"
  tr_to_address :: "string option"
  tr_value :: "int option"
  tr_input :: "string option"
  tr_output :: "string option"
  tr_trace_type :: "string option"
  tr_call_type :: "string option"
  tr_gas :: "int option"
  tr_gas_used :: "int option"
  tr_subtraces :: "int option"
  tr_error :: "string option"
  tr_status :: "int option"
  tr_block_number :: int
  tr_block_hash :: string
  tr_block_timestamp :: int
  tr_transaction_index :: int
  tr_transaction_hash :: "string option"
  tr_trace_index :: int
  tr_trace_address :: json

definition get_opt_int :: "jdict \<Rightarrow> string \<Rightarrow> int option res" where
  "get_opt_int d k = as_opt_int (jget d k)"

definition get_int :: "jdict \<Rightarrow> string \<Rightarrow> int res" where
  "get_int d k = rbind (dict_get d k) as_int"

definition trace_from_rpc :: "ext \<Rightarrow> jdict \<Rightarrow> trace res" where
  "trace_from_rpc x d =
     rbind (get_str d ''trace_id'') (\<lambda>trace_id.
     rbind (get_opt_str d ''from_address'') (\<lambda>from_address.
     rbind (get_opt_str d ''to_address'') (\<lambda>to_address.
     rbind (get_opt_str d ''input'') (\<lambda>input.
     rbind (get_opt_str d ''output'') (\<lambda>output.
     rbind (get_opt_hex x d ''value'') (\<lambda>value.
     rbind (get_opt_hex x d ''gas'') (\<lambda>gas.
     rbind (get_opt_hex x d ''gas_used'') (\<lambda>gas_used.
     rbind (get_opt_str d ''trace_type'') (\<lambda>trace_type.
     rbind (get_opt_str d ''call_type'') (\<lambda>call_type.
     rbind (get_opt_int d ''subtraces'') (\<lambda>subtraces.
     rbind (get_opt_str d ''error'') (\<lambda>error_text.
     rbind (get_opt_int d ''status'') (\<lambda>status.
     rbind (get_int d ''block_number'') (\<lambda>block_number.
     rbind (get_str d ''block_hash'') (\<lambda>block_hash.
     rbind (get_int d ''block_timestamp'') (\<lambda>block_timestamp.
     rbind (get_int d ''transaction_index'') (\<lambda>transaction_index.
     rbind (get_opt_str d ''transaction_hash'') (\<lambda>transaction_hash.
     rbind (get_int d ''trace_index'') (\<lambda>trace_index.
     Inr \<lparr>tr_trace_id = trace_id,
        tr_from_address = from_address,
        tr_to_address = to_address,
        tr_value = value,
        tr_input = input,
        tr_output = output,
        tr_trace_type = trace_type,
        tr_call_type = call_type,
        tr_gas = gas,
        tr_gas_used = gas_used,
        tr_subtraces = subtraces,
        tr_error = error_text,
        tr_status = status,
        tr_block_number = block_number,
        tr_block_hash = block_hash,
        tr_block_timestamp = block_timestamp,
        tr_transaction_index = transaction_index,
        tr_transaction_hash = transaction_hash,
        tr_trace_index = trace_index,
        tr_trace_address = jget d ''trace_address''\<rparr>)))))))))))))))))))"

definition is_contract_creation :: "trace \<Rightarrow> bool" where
  "is_contract_creation t \<longleftrightarrow> tr_trace_type t = Some ''create'' \<or> tr_trace_type t = Some ''create2''"

definition is_transfer_value :: "trace \<Rightarrow> bool" where
  "is_transfer_value t \<longleftrightarrow>
     (case tr_value t of None \<Rightarrow> False | Some v \<Rightarrow> v > 0) \<and>
     tr_from_address t \<noteq> tr_to_address t \<and> tr_trace_type t \<noteq> Some ''delegatecall''"

record contract_internal_transaction =
  ci_trace_id :: string
  ci_from_address :: "string option"
  ci_to_address :: "string option"
  ci_value :: "int option"
  ci_trace_type :: "string option"
  ci_call_type :: "string option"
  ci_gas :: "int option"
  ci_gas_used :: "int option"
  ci_error :: "string option"
  ci_status :: "int option"
  ci_block_number :: int
  ci_block_hash :: string
  ci_block_timestamp :: int
  ci_transaction_index :: int
  ci_transaction_hash :: "string option"
  ci_trace_index :: int
  ci_trace_address :: json

text \<open>\<open>d[k]\<close>, which has to be there, with a hexadecimal number or something false.\<close>

definition need :: "jdict \<Rightarrow> string \<Rightarrow> ('a res) \<Rightarrow> 'a res" where
  "need d k r = rbind (dict_get d k) (\<lambda>_. r)"

definition internal_transaction_from_rpc :: "ext \<Rightarrow> jdict \<Rightarrow> contract_internal_transaction res" where
  "internal_transaction_from_rpc x d =
     rbind (get_str d ''trace_id'') (\<lambda>trace_id.
     rbind (need d ''from_address'' (get_opt_str d ''from_address'')) (\<lambda>from_address.
     rbind (need d ''to_address'' (get_opt_str d ''to_address'')) (\<lambda>to_address.
     rbind (need d ''value'' (get_opt_hex x d ''value'')) (\<lambda>value.
     rbind (need d ''gas'' (get_opt_hex x d ''gas'')) (\<lambda>gas.
     rbind (need d ''gas_used'' (get_opt_hex x d ''gas_used'')) (\<lambda>gas_used.
     rbind (need d ''trace_type'' (get_opt_str d ''trace_type'')) (\<lambda>trace_type.
     rbind (need d ''call_type'' (get_opt_str d ''call_type'')) (\<lambda>call_type.
     rbind (dict_get d ''trace_address'') (\<lambda>trace_address.
     rbind (need d ''error'' (get_opt_str d ''error'')) (\<lambda>error_text.
     rbind (need d ''status'' (get_opt_int d ''status'')) (\<lambda>status.
     rbind (get_int d ''block_number'') (\<lambda>block_number.
     rbind (get_str d ''block_hash'') (\<lambda>block_hash.
     rbind (get_int d ''block_timestamp'') (\<lambda>block_timestamp.
     rbind (get_int d ''transaction_index'') (\<lambda>transaction_index.
     rbind (need d ''transaction_hash'' (get_opt_str d ''transaction_hash'')) (\<lambda>transaction_hash.
     rbind (get_int d ''trace_index'') (\<lambda>trace_index.
     Inr \<lparr>ci_trace_id = trace_id,
        ci_from_address = from_address,
        ci_to_address = to_address,
        ci_value = value,
        ci_trace_type = trace_type,
        ci_call_type = call_type,
        ci_gas = gas,
        ci_gas_used = gas_used,
        ci_error = error_text,
        ci_status = status,
        ci_block_number = block_number,
        ci_block_hash = block_hash,
        ci_block_timestamp = block_timestamp,
        ci_transaction_index = transaction_index,
        ci_transaction_hash = transaction_hash,
        ci_trace_index = trace_index,
        ci_trace_address = trace_address\<rparr>)))))))))))))))))"

section \<open>Contract\<close>

text \<open>\<open>Contract\<close> takes whichever of its fields its dictionary has (\<open>dict_to_entity\<close>); the
  dictionaries the program makes for it always have those of \<open>extract_contract_from_trace\<close>.\<close>

record contract =
  ct_address :: "string option"
  ct_name :: "string option"
  ct_contract_creator :: "string option"
  ct_creation_code :: "string option"
  ct_deployed_code :: "string option"
  ct_block_number :: int
  ct_block_hash :: string
  ct_block_timestamp :: int
  ct_transaction_index :: int
  ct_transaction_hash :: "string option"
  ct_transaction_from_address :: "string option"

definition extract_contract_from_trace :: "trace \<Rightarrow> contract" where
  "extract_contract_from_trace t =
     \<lparr>ct_address = tr_to_address t, ct_name = None, ct_contract_creator = tr_from_address t,
      ct_creation_code = tr_input t, ct_deployed_code = tr_output t,
      ct_block_number = tr_block_number t, ct_block_hash = tr_block_hash t,
      ct_block_timestamp = tr_block_timestamp t, ct_transaction_index = tr_transaction_index t,
      ct_transaction_hash = tr_transaction_hash t, ct_transaction_from_address = None\<rparr>"

definition fill_transaction_from_address :: "string option \<Rightarrow> contract \<Rightarrow> contract" where
  "fill_transaction_from_address a c = c\<lparr>ct_transaction_from_address := a\<rparr>"

section \<open>Requests\<close>

definition generate_json_rpc :: "string \<Rightarrow> json list \<Rightarrow> json \<Rightarrow> jdict" where
  "generate_json_rpc rpc_method params request_id =
     [(''jsonrpc'', JStr ''2.0''), (''method'', JStr rpc_method), (''params'', JList params),
      (''id'', request_id)]"

text \<open>A batch of requests, or the first of them alone.\<close>

definition send_requests :: "(jdict list \<Rightarrow> 'r list res) \<Rightarrow> bool \<Rightarrow> jdict list \<Rightarrow> 'r list res" where
  "send_requests make_requests is_batch rpc =
     (if is_batch then make_requests rpc
      else case rpc of [] \<Rightarrow> Inl IndexError | r # _ \<Rightarrow> make_requests [r])"

definition generate_get_block_by_number_json_rpc :: "int list \<Rightarrow> bool \<Rightarrow> jdict list" where
  "generate_get_block_by_number_json_rpc block_numbers include_transactions =
     map (\<lambda>(idx, n). generate_json_rpc ''eth_getBlockByNumber''
       [JStr (py_hex n), JBool include_transactions] (JInt (int idx)))
       (enumerate 0 block_numbers)"

definition generate_trace_block_by_number_json_rpc :: "json list \<Rightarrow> jdict list" where
  "generate_trace_block_by_number_json_rpc block_numbers =
     map (\<lambda>n. generate_json_rpc ''debug_traceBlockByNumber''
       [n, JDict [(''tracer'', JStr ''callTracer'')]] n) block_numbers"

definition generate_get_receipt_json_rpc :: "string list \<Rightarrow> jdict list" where
  "generate_get_receipt_json_rpc transaction_hashes =
     map (\<lambda>(idx, h). generate_json_rpc ''eth_getTransactionReceipt'' [JStr h] (JInt (int idx)))
       (enumerate 0 transaction_hashes)"

definition generate_get_code_json_rpc :: "string list \<Rightarrow> json \<Rightarrow> jdict list" where
  "generate_get_code_json_rpc contract_addresses block =
     map (\<lambda>(idx, a). generate_json_rpc ''eth_getCode''
       [JStr a, (case block of JInt n \<Rightarrow> JStr (py_hex n) | b \<Rightarrow> b)] (JInt (int idx)))
       (enumerate 0 contract_addresses)"

text \<open>The entries of the next two have their fields as the jobs build them.\<close>

definition generate_get_balance_json_rpc :: "(string \<times> int \<times> json) list \<Rightarrow> jdict list" where
  "generate_get_balance_json_rpc coin_addresses =
     map (\<lambda>(address, block_number, request_id).
       generate_json_rpc ''eth_getBalance'' [JStr address, JStr (py_hex block_number)] request_id)
       coin_addresses"

definition generate_eth_call_json_rpc :: "(string \<times> string \<times> json \<times> json) list \<Rightarrow> jdict list" where
  "generate_eth_call_json_rpc params =
     map (\<lambda>(param_to, param_data, param_number, request_id).
       generate_json_rpc ''eth_call''
         [JDict [(''to'', JStr param_to), (''data'', JStr param_data)], param_number] request_id)
       params"

end
