(* ===== verification/Dataclass.thy ===== *)
theory Dataclass
  imports Domain
begin

text \<open>
  \<open>indexer/domain/__init__.py\<close> and \<open>to_snake_case\<close> of \<open>common/utils/format_utils.py\<close>: the
  name a class has in the data buffer, and the generic conversions between data class instances
  and dictionaries, over a table of the field types of the classes.
\<close>

section \<open>Snake case\<close>

definition is_upper :: "char \<Rightarrow> bool" where
  "is_upper c \<longleftrightarrow> (let n = (of_char c :: nat) in 65 \<le> n \<and> n \<le> 90)"

definition is_lower :: "char \<Rightarrow> bool" where
  "is_lower c \<longleftrightarrow> (let n = (of_char c :: nat) in 97 \<le> n \<and> n \<le> 122)"

text \<open>\<open>re.sub("(.)([A-Z][a-z]+)", r"\1_\2", s)\<close>: matches do not overlap and the lower-case run
  is as long as it can be.\<close>

function sub_word_starts :: "string \<Rightarrow> string" where
  "sub_word_starts [] = []"
| "sub_word_starts [c] = [c]"
| "sub_word_starts (c # d # s) =
     (if c \<noteq> CHR 0x0A \<and> is_upper d \<and> takeWhile is_lower s \<noteq> []
      then c # CHR ''_'' # d # takeWhile is_lower s @ sub_word_starts (dropWhile is_lower s)
      else c # sub_word_starts (d # s))"
  by pat_completeness auto
termination
  by (relation "measure length") (auto intro: le_less_trans [OF length_dropWhile_le])

text \<open>\<open>re.sub("([a-z0-9])([A-Z])", r"\1_\2", s)\<close>\<close>

fun sub_case_changes :: "string \<Rightarrow> string" where
  "sub_case_changes [] = []"
| "sub_case_changes [c] = [c]"
| "sub_case_changes (c # d # s) =
     (if (is_lower c \<or> is_digit c) \<and> is_upper d
      then c # CHR ''_'' # d # sub_case_changes s
      else c # sub_case_changes (d # s))"

definition to_snake_case :: "string \<Rightarrow> string" where
  "to_snake_case name = str_lower (sub_case_changes (sub_word_starts name))"

section \<open>Instances and dictionaries\<close>

text \<open>\<open>PObj c fs\<close> is an instance of the data class \<open>c\<close>.\<close>

datatype pval = PAtom json | PList "pval list" | PDict "(string \<times> pval) list"
  | PObj string "(string \<times> pval) list"

text \<open>The annotation of a field: a plain type with what its constructor returns without
  arguments, if it can be called so, a union with \<open>None\<close>, a list with its item class, if it is one, or a class
  with required fields. Atoms are neither lists nor dictionaries.\<close>

datatype ftype = TPlain "pval option" | TOptional | TListOf "string option" | TClass string

type_synonym schema = "string \<Rightarrow> (string \<times> ftype) list"

fun asdict :: "pval \<Rightarrow> pval" where
  "asdict (PAtom a) = PAtom a"
| "asdict (PList xs) = PList (map asdict xs)"
| "asdict (PDict d) = PDict (map (\<lambda>(k, v). (k, asdict v)) d)"
| "asdict (PObj c fs) = PDict (map (\<lambda>(k, v). (k, asdict v)) fs)"

text \<open>The loop after \<open>asdict\<close> finds no instance left to convert.\<close>

definition dataclass_to_dict :: "pval \<Rightarrow> (string \<times> pval) list res" where
  "dataclass_to_dict p =
     (case p of
        PObj c fs \<Rightarrow>
          Inr (AList.update ''item'' (PAtom (JStr (to_snake_case c)))
                (map (\<lambda>(k, v). (k, asdict v)) fs))
      | _ \<Rightarrow> Inl (ValueError ''dataclass_to_dict() should be called on dataclass instances only.''))"

definition field_default :: "ftype \<Rightarrow> pval res" where
  "field_default t = (case t of TPlain (Some v) \<Rightarrow> Inr v | TOptional \<Rightarrow> Inr (PAtom JNull) | _ \<Rightarrow> Inl TypeError)"

definition dict_size :: "(string \<times> pval) list \<Rightarrow> nat" where
  "dict_size d = size_list (\<lambda>kv. size (snd kv)) d"

lemma dict_size_lookup: "map_of d k = Some v \<Longrightarrow> size v < dict_size d"
proof (induction d)
  case (Cons kv d)
  then show ?case by (cases kv) (auto simp: dict_size_def split: if_splits)
qed simp

lemma size_pair: "size_prod (\<lambda>_. 0) size kv = Suc (size (snd kv))"
  by (cases kv) simp

lemma size_PDict: "dict_size d < size (PDict d)"
proof -
  have "size_list (\<lambda>kv. size (snd kv)) d \<le> size_list (size_prod (\<lambda>_. 0) size) d"
    by (rule size_list_pointwise) (simp add: size_pair)
  then show ?thesis by (simp add: dict_size_def)
qed

lemma size_PList_item: "item \<in> set xs \<Longrightarrow> size item < size (PList xs)"
  using size_list_estimation' [of item xs "size item" size] by simp



text \<open>One field of the instance; \<open>convert\<close> is the conversion of a nested dictionary.\<close>

definition convert_item ::
  "(string \<Rightarrow> (string \<times> pval) list \<Rightarrow> pval res) \<Rightarrow> string option \<Rightarrow> pval \<Rightarrow> pval res" where
  "convert_item convert item_type item =
     (case item of
        PDict d \<Rightarrow> (case item_type of Some c \<Rightarrow> convert c d | None \<Rightarrow> Inl AttributeError)
      | _ \<Rightarrow> Inr item)"

text \<open>What a loop over the value of a list field runs over: the keys of a dictionary, the letters of a text.\<close>

definition elements_of :: "pval \<Rightarrow> pval list res" where
  "elements_of v =
     (case v of
        PList xs \<Rightarrow> Inr xs
      | PDict d \<Rightarrow> Inr (map (\<lambda>kv. PAtom (JStr (fst kv))) d)
      | PAtom (JStr s) \<Rightarrow> Inr (map (\<lambda>c. PAtom (JStr [c])) s)
      | _ \<Rightarrow> Inl TypeError)"

text \<open>\<open>field in data\<close> where the data is not a dictionary. If a name is found, \<open>data[field]\<close> raises \<open>TypeError\<close>, as does
  the test itself where the data has no members; otherwise all fields have their defaults.\<close>

definition name_absent :: "pval \<Rightarrow> string \<Rightarrow> bool" where
  "name_absent v name =
     (case v of
        PList xs \<Rightarrow> PAtom (JStr name) \<notin> set xs
      | PAtom (JStr s) \<Rightarrow> \<not> str_contains s name
      | _ \<Rightarrow> False)"

definition convert_nested ::
  "(string \<Rightarrow> string list) \<Rightarrow> (string \<Rightarrow> (string \<times> pval) list \<Rightarrow> pval res) \<Rightarrow> string \<Rightarrow> pval \<Rightarrow> pval res" where
  "convert_nested names convert c v =
     (case v of
        PDict d \<Rightarrow> convert c d
      | _ \<Rightarrow> if list_all (name_absent v) (names c) then convert c [] else Inl TypeError)"

definition convert_field ::
  "(string \<Rightarrow> string list) \<Rightarrow> (string \<Rightarrow> (string \<times> pval) list \<Rightarrow> pval res) \<Rightarrow> (string \<times> pval) list \<Rightarrow> string \<times> ftype
     \<Rightarrow> (string \<times> pval) res" where
  "convert_field names convert data field =
     rbind
       (case map_of data (fst field) of
          None \<Rightarrow> field_default (snd field)
        | Some v \<Rightarrow>
            (case snd field of
               TListOf item_type \<Rightarrow>
                 rbind (elements_of v) (\<lambda>xs. rbind (rmap (convert_item convert item_type) xs) (\<lambda>ys. Inr (PList ys)))
             | TClass c \<Rightarrow> convert_nested names convert c v
             | _ \<Rightarrow> Inr v))
       (\<lambda>v. Inr (fst field, v))"

lemma convert_item_cong:
  assumes "item \<in> set xs" and "\<And>c e. dict_size e < size (PList xs) \<Longrightarrow> f c e = g c e"
  shows "convert_item f it item = convert_item g it item"
proof (cases item)
  case (PDict d)
  have "dict_size d < size (PList xs)"
    using size_PDict [of d] size_PList_item [OF assms(1)] PDict by simp
  with assms(2) PDict show ?thesis by (simp add: convert_item_def split: option.splits)
qed (simp_all add: convert_item_def)

lemma rmap_plain_items: "list_all (\<lambda>x. \<not> (\<exists>d. x = PDict d)) xs \<Longrightarrow> rmap (convert_item f it) xs = Inr xs"
  by (induction xs) (auto simp: convert_item_def split: pval.splits)

lemma convert_field_cong [fundef_cong]:
  assumes "names = names'" and "data = data'" and "field = field'"
    and "\<And>c e. dict_size e < dict_size data' \<Longrightarrow> f c e = g c e"
  shows "convert_field names f data field = convert_field names' g data' field'"
proof (cases "map_of data' (fst field')")
  case (Some v)
  have s: "size v < dict_size data'" by (rule dict_size_lookup [OF Some])
  have "rmap (convert_item f it) xs = rmap (convert_item g it) xs" if xs: "elements_of v = Inr xs" for it xs
  proof (cases "v = PList xs")
    case True
    with s assms(4) show ?thesis by (intro rmap_cong refl convert_item_cong [of _ xs]) (auto intro: less_trans)
  next
    case False
    with xs have "list_all (\<lambda>x. \<not> (\<exists>d. x = PDict d)) xs"
      by (auto simp: elements_of_def list_all_iff split: pval.splits json.splits)
    then show ?thesis by (simp add: rmap_plain_items)
  qed
  then have "rbind (elements_of v) (\<lambda>xs. rbind (rmap (convert_item f it) xs) (\<lambda>ys. Inr (PList ys)))
      = rbind (elements_of v) (\<lambda>xs. rbind (rmap (convert_item g it) xs) (\<lambda>ys. Inr (PList ys)))" for it
    by (cases "elements_of v") simp_all
  moreover have "f c d = g c d" if "v = PDict d" for c d
    using that s size_PDict [of d] assms(4) by simp
  moreover have "f c [] = g c []" for c using s assms(4) by (simp add: dict_size_def)
  ultimately show ?thesis
    using Some assms(1-3) by (simp add: convert_field_def convert_nested_def split: ftype.splits pval.splits)
qed (simp add: convert_field_def assms(1-3))

function dict_to_dataclass :: "schema \<Rightarrow> string \<Rightarrow> (string \<times> pval) list \<Rightarrow> pval res" where
  "dict_to_dataclass sch cls data =
     rbind (rmap (convert_field (\<lambda>c. map fst (sch c)) (dict_to_dataclass sch) data) (sch cls)) (\<lambda>fs. Inr (PObj cls fs))"
  by pat_completeness auto
termination
  by (relation "measure (\<lambda>(sch, cls, d). dict_size d)") auto

declare dict_to_dataclass.simps [simp del]

section \<open>Round trip\<close>









section \<open>Properties\<close>


text \<open>The field types of a block with one transaction field each, as in the source.\<close>

definition sample_schema :: schema where
  "sample_schema c =
     (if c = ''Block'' then [(''hash'', TPlain (Some (PAtom (JStr [])))), (''transactions'', TListOf (Some ''Transaction''))]
      else if c = ''Transaction''
      then [(''hash'', TPlain (Some (PAtom (JStr [])))), (''receipt'', TOptional)]
      else if c = ''Receipt'' then [(''status'', TPlain (Some (PAtom (JInt 0))))]
      else [])"


text \<open>A field annotated \<open>Optional\<close> of a data class is not converted back: the receipt of a
  transaction comes back as a dictionary, not as a receipt.\<close>

lemma optional_instance_not_restored:
  "rbind (dataclass_to_dict (PObj ''Transaction'' [(''hash'', h),
       (''receipt'', PObj ''Receipt'' [(''status'', PAtom (JInt n))])]))
     (dict_to_dataclass sample_schema ''Transaction'') =
   Inr (PObj ''Transaction'' [(''hash'', asdict h),
       (''receipt'', PDict [(''status'', PAtom (JInt n))])])"
  by (simp add: dataclass_to_dict_def dict_to_dataclass.simps [of _ "''Transaction''"] sample_schema_def
      convert_field_def)

end
