(* ===== verification/Abi.thy ===== *)
theory Abi
  imports Domain
begin

text \<open>
  \<open>indexer/utils/abi.py\<close>: events and functions by their ABI, the decoding of logs and the
  encoding of calls. The codec itself is eth_abi's. Arguments of calls are given in the form the
  normalizers of \<open>encode_abi\<close> bring them to.
\<close>

record abi_input =
  in_name :: string
  in_type :: string
  in_indexed :: bool

record event_abi =
  ev_name :: string
  ev_inputs :: "abi_input list"

record function_abi =
  fn_name :: string
  fn_inputs :: "string list"
  fn_outputs :: "string list"

type_synonym decoded = "(string \<times> abi_value) list"

abbreviation indexed_input :: "string \<Rightarrow> string \<Rightarrow> abi_input" where
  "indexed_input n t \<equiv> \<lparr>in_name = n, in_type = t, in_indexed = True\<rparr>"

abbreviation data_input :: "string \<Rightarrow> string \<Rightarrow> abi_input" where
  "data_input n t \<equiv> \<lparr>in_name = n, in_type = t, in_indexed = False\<rparr>"

definition event_log_abi_to_topic :: "ext \<Rightarrow> event_abi \<Rightarrow> string" where
  "event_log_abi_to_topic x e = ''0x'' @ bytes_hex (event_topic x (ev_name e) (map in_type (ev_inputs e)))"

definition function_abi_to_4byte_selector_str :: "ext \<Rightarrow> function_abi \<Rightarrow> string" where
  "function_abi_to_4byte_selector_str x f = ''0x'' @ bytes_hex (function_selector x (fn_name f) (fn_inputs f))"

definition named_tree :: "abi_input list \<Rightarrow> abi_value list \<Rightarrow> decoded" where
  "named_tree ins vs = zip (map in_name ins) vs"

definition indexed_type :: "abi_input \<Rightarrow> string" where
  "indexed_type i = (if in_type i = ''string'' then ''bytes32'' else in_type i)"

text \<open>\<open>decode_log\<close> catches every exception and returns \<open>None\<close>; the data fields come after the
  indexed ones and overwrite those of the same name.\<close>

definition decode_log :: "ext \<Rightarrow> event_abi \<Rightarrow> log \<Rightarrow> decoded option" where
  "decode_log x e l =
     (let indexed_types = filter in_indexed (ev_inputs e);
          data_types = filter (\<lambda>i. \<not> in_indexed i) (ev_inputs e);
          r = rbind (get_bytes_topics l) (\<lambda>topics.
              rbind (abi_decode x (map indexed_type indexed_types) topics) (\<lambda>decode_indexed.
              rbind (get_bytes_data l) (\<lambda>data.
              rbind (abi_decode x (map in_type data_types) data) (\<lambda>decoded_data.
              Inr (fold (\<lambda>(k, v). AList.update k v) (named_tree data_types decoded_data)
                    (named_tree indexed_types decode_indexed))))))
      in case r of Inl _ \<Rightarrow> None | Inr d \<Rightarrow> Some d)"

text \<open>\<open>decode_log_ignore_indexed\<close> reads all the inputs from the topics followed by the data,
  and lets exceptions through.\<close>

definition decode_log_ignore_indexed :: "ext \<Rightarrow> event_abi \<Rightarrow> log \<Rightarrow> decoded res" where
  "decode_log_ignore_indexed x e l =
     (let data_types = filter in_indexed (ev_inputs e) @ filter (\<lambda>i. \<not> in_indexed i) (ev_inputs e)
      in rbind (get_topic_with_data l) (\<lambda>b.
         rbind (abi_decode x (map in_type data_types) b) (\<lambda>vs.
         Inr (named_tree data_types vs))))"

definition encode_abi :: "ext \<Rightarrow> function_abi \<Rightarrow> abi_value list \<Rightarrow> string \<Rightarrow> string res" where
  "encode_abi x f arguments data =
     rbind (abi_encode x (fn_inputs f) arguments) (\<lambda>enc.
       if data = [] then Inr (''0x'' @ bytes_hex enc)
       else rbind (bytes_fromhex (strip_0x data)) (\<lambda>b. Inr (''0x'' @ bytes_hex (b @ enc))))"

text \<open>A selector and the encoded arguments, as text.\<close>

lemma encode_abi_selector:
  "abi_encode x (fn_inputs f) args = Inr enc \<Longrightarrow>
   encode_abi x f args (function_abi_to_4byte_selector_str x f) =
     Inr (''0x'' @ bytes_hex (function_selector x (fn_name f) (fn_inputs f) @ enc))"
  by (simp add: encode_abi_def function_abi_to_4byte_selector_str_def strip_0x_def startswith_def
      bytes_fromhex_hex)

text \<open>\<open>d["k"]\<close>, \<open>d.get("k")\<close> of decoded data, and \<open>.lower()\<close> on an address.\<close>

definition dec_addr :: "abi_value option \<Rightarrow> string res" where
  "dec_addr v = (case v of Some (AAddress s) \<Rightarrow> Inr (str_lower s) | Some (AString s) \<Rightarrow> Inr (str_lower s)
     | _ \<Rightarrow> Inl AttributeError)"

definition dec_uint :: "abi_value option \<Rightarrow> int res" where
  "dec_uint v = (case v of Some (AUint n) \<Rightarrow> Inr n | _ \<Rightarrow> Inl TypeError)"

fun dec_uints :: "abi_value list \<Rightarrow> int list res" where
  "dec_uints [] = Inr []"
| "dec_uints (v # vs) = rbind (dec_uint (Some v)) (\<lambda>n. rbind (dec_uints vs) (\<lambda>ns. Inr (n # ns)))"

definition dec_uint_list :: "abi_value option \<Rightarrow> int list res" where
  "dec_uint_list v = (case v of Some (AList vs) \<Rightarrow> dec_uints vs | _ \<Rightarrow> Inl TypeError)"

text \<open>The topics and the data of a log are read back from their text.\<close>

lemma strip_0x_bytes: "strip_0x (bytes_to_hex_str b) = bytes_hex b"
  by (simp add: bytes_to_hex_str_def strip_0x_def startswith_def)

lemma bytes_hex_append: "bytes_hex (a @ b) = bytes_hex a @ bytes_hex b"
  by (simp add: bytes_hex_def)

text \<open>For a log whose topics and data are the text of bytes, the bytes the decoders are given
  are the topics after the first one after another, followed by the data.\<close>

lemma topic_with_data_bytes:
  assumes "lg_topic1 l = map_option bytes_to_hex_str t1" and "lg_topic2 l = map_option bytes_to_hex_str t2"
    and "lg_topic3 l = map_option bytes_to_hex_str t3" and "lg_data l = bytes_to_hex_str d"
  shows "get_topic_with_data l =
    Inr (concat (map (\<lambda>t. case t of None \<Rightarrow> [] | Some b \<Rightarrow> b) [t1, t2, t3]) @ d)"
proof -
  have h: "topic_hex (map_option bytes_to_hex_str t) = bytes_hex (case t of None \<Rightarrow> [] | Some b \<Rightarrow> b)" for t
    by (cases t) (simp_all add: topic_hex_def strip_0x_bytes bytes_hex_def)
  show ?thesis
    by (simp add: get_topic_with_data_def get_bytes_topics_def get_bytes_data_def assms h
        strip_0x_bytes bytes_fromhex_hex flip: bytes_hex_append)
qed

definition sample_log :: log where
  "sample_log = \<lparr>lg_log_index = 0, lg_address = ''0xa'', lg_data = ''0x0203'', lg_transaction_hash = ''0xt'',
     lg_transaction_index = 0, lg_block_timestamp = Some 5, lg_block_number = Some 1, lg_block_hash = Some ''0xb'',
     lg_topic0 = Some ''0x00'', lg_topic1 = Some ''0x01'', lg_topic2 = None, lg_topic3 = None\<rparr>"

lemma sample_hex: "bytes_to_hex_str [1] = ''0x01''" "bytes_to_hex_str [2, 3] = ''0x0203''"
  by code_simp+

theorem topic_with_data_bytes_witness: "get_topic_with_data sample_log = Inr [1, 2, 3]"
  using topic_with_data_bytes [of sample_log "Some [1]" None None "[2, 3]"]
  by (simp add: sample_log_def sample_hex)

end
