(* ===== verification/TokenTransfers.thy ===== *)
theory TokenTransfers
  imports Abi Jobs Executor
begin

text \<open>
  \<open>indexer/domain/token_transfer.py\<close>, \<open>indexer/domain/token.py\<close> and
  \<open>indexer/jobs/export_tokens_and_transfers_job.py\<close>: the transfers a log stands for, the tokens
  they are of, and the job that collects both. The job runs its steps on the batch executor; the
  extraction step is shown to be a batch handler in the sense of \<open>Executor\<close>.
\<close>

section \<open>Events\<close>

definition deposit_event :: event_abi where
  "deposit_event = \<lparr>ev_name = ''Deposit'', ev_inputs = [indexed_input ''dst'' ''address'', data_input ''wad'' ''uint256'']\<rparr>"

definition withdraw_event :: event_abi where
  "withdraw_event = \<lparr>ev_name = ''Withdrawal'', ev_inputs = [indexed_input ''src'' ''address'', data_input ''wad'' ''uint256'']\<rparr>"

definition transfer_event :: event_abi where
  "transfer_event = \<lparr>ev_name = ''Transfer'', ev_inputs = [indexed_input ''from'' ''address'',
     indexed_input ''to'' ''address'', data_input ''value'' ''uint256'']\<rparr>"

definition single_transfer_event :: event_abi where
  "single_transfer_event = \<lparr>ev_name = ''TransferSingle'', ev_inputs = [indexed_input ''operator'' ''address'',
     indexed_input ''from'' ''address'', indexed_input ''to'' ''address'', data_input ''id'' ''uint256'',
     data_input ''value'' ''uint256'']\<rparr>"

definition batch_transfer_event :: event_abi where
  "batch_transfer_event = \<lparr>ev_name = ''TransferBatch'', ev_inputs = [indexed_input ''operator'' ''address'',
     indexed_input ''from'' ''address'', indexed_input ''to'' ''address'', data_input ''ids'' ''uint256[]'',
     data_input ''values'' ''uint256[]'']\<rparr>"

definition ZERO_ADDRESS :: string where
  "ZERO_ADDRESS = ''0x'' @ replicate 40 (CHR ''0'')"

section \<open>Transfers\<close>

record token_transfer =
  tt_transaction_hash :: string
  tt_log_index :: int
  tt_from_address :: string
  tt_to_address :: string
  tt_token_id :: "int option"
  tt_value :: int
  tt_token_type :: string
  tt_token_address :: string
  tt_block_number :: "int option"
  tt_block_hash :: "string option"
  tt_block_timestamp :: "int option"

text \<open>The fields all the specific transfers have, without the token type.\<close>

record transfer_fields =
  tf_transaction_hash :: string
  tf_log_index :: int
  tf_from_address :: string
  tf_to_address :: string
  tf_token_address :: string
  tf_block_number :: "int option"
  tf_block_hash :: "string option"
  tf_block_timestamp :: "int option"

datatype specific_transfer =
    ERC20TokenTransfer transfer_fields (specific_value: int)
  | ERC721TokenTransfer transfer_fields (specific_token_id: int)
  | ERC1155TokenTransfer transfer_fields int int

definition common_fields :: "token_transfer \<Rightarrow> transfer_fields" where
  "common_fields t =
     \<lparr>tf_transaction_hash = tt_transaction_hash t, tf_log_index = tt_log_index t,
      tf_from_address = tt_from_address t, tf_to_address = tt_to_address t,
      tf_token_address = tt_token_address t, tf_block_number = tt_block_number t,
      tf_block_hash = tt_block_hash t, tf_block_timestamp = tt_block_timestamp t\<rparr>"

definition to_specific_transfer :: "token_transfer \<Rightarrow> specific_transfer res" where
  "to_specific_transfer t =
     (if tt_token_type t = ''ERC20'' then Inr (ERC20TokenTransfer (common_fields t) (tt_value t))
      else if tt_token_type t = ''ERC721'' then Inr (ERC721TokenTransfer (common_fields t) (tt_value t))
      else if tt_token_type t = ''ERC1155''
      then (case tt_token_id t of
              Some i \<Rightarrow> Inr (ERC1155TokenTransfer (common_fields t) i (tt_value t))
            | None \<Rightarrow> Inr (ERC20TokenTransfer (common_fields t) (tt_value t)))
      else Inl (ValueError ''Unsupported token type''))"

definition transfer_of_log :: "log \<Rightarrow> string \<Rightarrow> string \<Rightarrow> int option \<Rightarrow> int \<Rightarrow> string \<Rightarrow> token_transfer" where
  "transfer_of_log l from_address to_address token_id value token_type =
     \<lparr>tt_transaction_hash = lg_transaction_hash l, tt_log_index = lg_log_index l,
      tt_from_address = from_address, tt_to_address = to_address, tt_token_id = token_id,
      tt_value = value, tt_token_type = token_type, tt_token_address = lg_address l,
      tt_block_number = lg_block_number l, tt_block_hash = lg_block_hash l,
      tt_block_timestamp = lg_block_timestamp l\<rparr>"

definition handle_deposit_event :: "ext \<Rightarrow> log \<Rightarrow> token_transfer list res" where
  "handle_deposit_event x l =
     (case decode_log x deposit_event l of
        None \<Rightarrow> Inr []
      | Some d \<Rightarrow>
          rbind (dec_addr (map_of d ''dst'')) (\<lambda>wallet_address.
          rbind (dec_uint (map_of d ''wad'')) (\<lambda>value.
          Inr [transfer_of_log l ZERO_ADDRESS wallet_address None value ''ERC20''])))"

definition handle_withdraw_event :: "ext \<Rightarrow> log \<Rightarrow> token_transfer list res" where
  "handle_withdraw_event x l =
     (case decode_log x withdraw_event l of
        None \<Rightarrow> Inl AttributeError
      | Some d \<Rightarrow>
          rbind (dec_addr (map_of d ''src'')) (\<lambda>wallet_address.
          rbind (dec_uint (map_of d ''wad'')) (\<lambda>value.
          Inr [transfer_of_log l wallet_address ZERO_ADDRESS None value ''ERC20''])))"

definition topic_truthy :: "string option \<Rightarrow> bool" where
  "topic_truthy t = (case t of None \<Rightarrow> False | Some s \<Rightarrow> s \<noteq> [])"

definition transfer_token_type :: "log \<Rightarrow> string" where
  "transfer_token_type l =
     (if topic_truthy (lg_topic3 l) \<or> (lg_topic1 l = None \<and> lg_topic2 l = None \<and> lg_topic3 l = None)
      then ''ERC721'' else ''ERC20'')"

definition handle_transfer_event :: "ext \<Rightarrow> log \<Rightarrow> token_transfer list res" where
  "handle_transfer_event x l =
     rbind (decode_log_ignore_indexed x transfer_event l) (\<lambda>d.
     rbind (dec_addr (map_of d ''from'')) (\<lambda>from_address.
     rbind (dec_addr (map_of d ''to'')) (\<lambda>to_address.
     rbind (dec_uint (map_of d ''value'')) (\<lambda>value.
     Inr [transfer_of_log l from_address to_address None value (transfer_token_type l)]))))"

definition handle_transfer_single_event :: "ext \<Rightarrow> log \<Rightarrow> token_transfer list res" where
  "handle_transfer_single_event x l =
     (case decode_log x single_transfer_event l of
        None \<Rightarrow> Inl AttributeError
      | Some d \<Rightarrow>
          rbind (dec_addr (map_of d ''from'')) (\<lambda>from_address.
          rbind (dec_addr (map_of d ''to'')) (\<lambda>to_address.
          rbind (dec_uint (map_of d ''id'')) (\<lambda>token_id.
          rbind (dec_uint (map_of d ''value'')) (\<lambda>value.
          Inr [transfer_of_log l from_address to_address (Some token_id) value ''ERC1155''])))))"

text \<open>\<open>token_amounts[token_id] += value\<close> on a \<open>defaultdict(int)\<close>.\<close>

definition add_amount :: "int \<times> int \<Rightarrow> (int \<times> int) list \<Rightarrow> (int \<times> int) list" where
  "add_amount iv d =
     AList.update (fst iv) ((case map_of d (fst iv) of None \<Rightarrow> 0 | Some n \<Rightarrow> n) + snd iv) d"

definition handle_transfer_batch_event :: "ext \<Rightarrow> log \<Rightarrow> token_transfer list res" where
  "handle_transfer_batch_event x l =
     (case decode_log x batch_transfer_event l of
        None \<Rightarrow> Inl TypeError
      | Some d \<Rightarrow>
          rbind (dec_addr (map_of d ''from'')) (\<lambda>from_address.
          rbind (dec_addr (map_of d ''to'')) (\<lambda>to_address.
          rbind (dec_uint_list (map_of d ''ids'')) (\<lambda>ids.
          rbind (dec_uint_list (map_of d ''values'')) (\<lambda>vals.
          if length ids \<noteq> length vals then Inr []
          else Inr (map (\<lambda>(token_id, total_value).
                 transfer_of_log l from_address to_address (Some token_id) total_value ''ERC1155'')
                 (fold add_amount (zip ids vals) [])))))))"

definition extract_transfer_from_log :: "ext \<Rightarrow> log \<Rightarrow> token_transfer list res" where
  "extract_transfer_from_log x l =
     (let topic = lg_topic0 l
      in if topic = Some (event_log_abi_to_topic x transfer_event) then handle_transfer_event x l
         else if topic = Some (event_log_abi_to_topic x deposit_event) then handle_deposit_event x l
         else if topic = Some (event_log_abi_to_topic x withdraw_event) then handle_withdraw_event x l
         else if topic = Some (event_log_abi_to_topic x single_transfer_event) then handle_transfer_single_event x l
         else if topic = Some (event_log_abi_to_topic x batch_transfer_event) then handle_transfer_batch_event x l
         else Inr [])"

definition extract_tokens_and_token_transfers :: "ext \<Rightarrow> log list \<Rightarrow> token_transfer list res" where
  "extract_tokens_and_token_transfers x logs =
     rbind (rmap (extract_transfer_from_log x) logs) (\<lambda>tss. Inr (concat tss))"

lemma add_amount_lookup:
  "map_of (add_amount (i, v) d) j =
     (if j = i then Some ((case map_of d i of None \<Rightarrow> 0 | Some n \<Rightarrow> n) + v) else map_of d j)"
  by (simp add: add_amount_def map_of_upd)

lemma add_amount_distinct: "distinct (map fst d) \<Longrightarrow> distinct (map fst (add_amount iv d))"
  by (simp add: add_amount_def distinct_upd)

lemma fold_add_amount_distinct: "distinct (map fst d) \<Longrightarrow> distinct (map fst (fold add_amount ivs d))"
  by (induction ivs arbitrary: d) (auto intro: add_amount_distinct)

lemma fold_add_amount_lookup:
  "map_of (fold add_amount ivs d) j =
     (if map_of d j = None \<and> j \<notin> fst ` set ivs then None
      else Some ((case map_of d j of None \<Rightarrow> 0 | Some n \<Rightarrow> n) +
        sum_list (map snd (filter (\<lambda>iv. fst iv = j) ivs))))"
proof (induction ivs arbitrary: d)
  case Nil
  then show ?case by (auto split: option.splits)
next
  case (Cons iv ivs)
  obtain i v where iv: "iv = (i, v)" by (cases iv)
  show ?case by (auto simp: iv Cons.IH add_amount_lookup split: option.splits)
qed

section \<open>Tokens\<close>

record token =
  tk_address :: string
  tk_token_type :: string
  tk_name :: "string option"
  tk_symbol :: "string option"
  tk_decimals :: "int option"
  tk_block_number :: "int option"
  tk_total_supply :: "int option"

record update_token =
  ut_address :: string
  ut_block_number :: "int option"
  ut_total_supply :: "int option"

definition token_of_transfer :: "token_transfer \<Rightarrow> token" where
  "token_of_transfer t =
     \<lparr>tk_address = tt_token_address t, tk_token_type = tt_token_type t, tk_name = None,
      tk_symbol = None, tk_decimals = None, tk_block_number = tt_block_number t,
      tk_total_supply = None\<rparr>"

definition block_of :: "int option \<Rightarrow> int" where
  "block_of n = (case n of None \<Rightarrow> 0 | Some k \<Rightarrow> k)"

text \<open>\<open>token_dict\<close>: logs of the job carry their block number.\<close>

definition token_dict_step :: "token_transfer \<Rightarrow> (string \<times> token) list \<Rightarrow> (string \<times> token) list" where
  "token_dict_step t d =
     (case map_of d (tt_token_address t) of
        None \<Rightarrow> AList.update (tt_token_address t) (token_of_transfer t) d
      | Some k \<Rightarrow>
          if block_of (tt_block_number t) > block_of (tk_block_number k)
          then AList.update (tt_token_address t) (token_of_transfer t) d else d)"

definition build_token_dict :: "token_transfer list \<Rightarrow> (string \<times> token) list" where
  "build_token_dict ts = fold token_dict_step ts []"

definition new_tokens :: "(string \<times> token) list \<Rightarrow> (string \<times> token) list \<Rightarrow> (string \<times> token) list" where
  "new_tokens known token_dict = filter (\<lambda>(a, _). map_of known a = None) token_dict"

definition total_supply_tokens :: "(string \<times> token) list \<Rightarrow> token list" where
  "total_supply_tokens token_dict = filter (\<lambda>t. tk_token_type t \<noteq> ''ERC1155'') (map snd token_dict)"

lemma token_dict_step_distinct_step:
  "token_dict_step t = distinct_step tk_address (Some (\<lambda>k. block_of (tk_block_number k))) (token_of_transfer t)"
  by (rule ext) (simp add: token_dict_step_def distinct_step_def token_of_transfer_def split: option.splits)

lemma token_dict_values:
  "map snd (build_token_dict ts) = distinct_collections_by_group tk_address
     (Some (\<lambda>k. block_of (tk_block_number k))) (map token_of_transfer ts)"
proof -
  have "token_dict_step =
      distinct_step tk_address (Some (\<lambda>k. block_of (tk_block_number k))) \<circ> token_of_transfer"
    by (rule ext) (simp only: token_dict_step_distinct_step comp_apply)
  then show ?thesis
    by (simp only: build_token_dict_def distinct_collections_by_group_def fold_map)
qed

lemma token_dict_keys:
  assumes "list_all (\<lambda>(a, k). tk_address k = a) d"
  shows "list_all (\<lambda>(a, k). tk_address k = a) (fold token_dict_step ts d)"
  using assms
proof (induction ts arbitrary: d)
  case (Cons t ts)
  have "list_all (\<lambda>(a, k). tk_address k = a) (AList.update (tt_token_address t) (token_of_transfer t) d)"
    using Cons.prems by (induction d) (auto simp: token_of_transfer_def)
  with Cons show ?case by (simp add: token_dict_step_def split: option.splits)
qed simp

section \<open>Requests for token data\<close>

text \<open>A token while its data is collected: \<open>Some v\<close> in a field once its call has been answered.\<close>

record token_info =
  ti_address :: string
  ti_token_type :: string
  ti_block_number :: int
  ti_name :: "string option"
  ti_symbol :: "string option"
  ti_decimals :: "int option"
  ti_total_supply :: "int option"
  ti_owner_of :: "string option"
  ti_token_uri :: "string option"

definition NAME_ABI_FUNCTION :: function_abi where
  "NAME_ABI_FUNCTION = \<lparr>fn_name = ''name'', fn_inputs = [], fn_outputs = [''string'']\<rparr>"

definition SYMBOL_ABI_FUNCTION :: function_abi where
  "SYMBOL_ABI_FUNCTION = \<lparr>fn_name = ''symbol'', fn_inputs = [], fn_outputs = [''string'']\<rparr>"

definition DECIMALS_ABI_FUNCTION :: function_abi where
  "DECIMALS_ABI_FUNCTION = \<lparr>fn_name = ''decimals'', fn_inputs = [], fn_outputs = [''uint8'']\<rparr>"

definition TOTAL_SUPPLY_ABI_FUNCTION :: function_abi where
  "TOTAL_SUPPLY_ABI_FUNCTION = \<lparr>fn_name = ''totalSupply'', fn_inputs = [], fn_outputs = [''uint256'']\<rparr>"

definition OWNER_OF_ABI_FUNCTION :: function_abi where
  "OWNER_OF_ABI_FUNCTION = \<lparr>fn_name = ''ownerOf'', fn_inputs = [''uint256''], fn_outputs = [''address'']\<rparr>"

definition TOKEN_URI_ABI_FUNCTION :: function_abi where
  "TOKEN_URI_ABI_FUNCTION = \<lparr>fn_name = ''tokenURI'', fn_inputs = [''uint256''], fn_outputs = [''address'']\<rparr>"

text \<open>The requests for one function, with the position of the token as id.\<close>

definition build_rpc_method_data :: "ext \<Rightarrow> function_abi \<Rightarrow> abi_value list \<Rightarrow> token_info list
    \<Rightarrow> (string \<times> string \<times> json \<times> json) list res" where
  "build_rpc_method_data x f arguments tokens =
     rmap (\<lambda>(index, t).
       rbind (encode_abi x f arguments (function_abi_to_4byte_selector_str x f)) (\<lambda>data.
       Inr (ti_address t, data, JStr (py_hex (ti_block_number t)), JInt (int index))))
       (enumerate 0 tokens)"

text \<open>One JSON-RPC call per batch, or of the first token alone. \<open>make_requests\<close> is the provider:
  a list of requests gives a list of responses. The answer for a token is the last one of its id.\<close>

definition call_function :: "ext \<Rightarrow> (jdict list \<Rightarrow> (json, string) rpc_response list res) \<Rightarrow> bool
    \<Rightarrow> function_abi \<Rightarrow> abi_value list \<Rightarrow> token_info list
    \<Rightarrow> (nat \<times> (json, string) rpc_response) list res" where
  "call_function x make_requests is_batch f arguments tokens =
     rbind (build_rpc_method_data x f arguments tokens) (\<lambda>params.
     let token_rpc = generate_eth_call_json_rpc params
     in rbind (send_requests make_requests is_batch token_rpc) (\<lambda>response.
        zip_rpc_response (\<lambda>i. JInt (int i)) [0..<length tokens] response))"

text \<open>The first output of a call: any failure to decode gives \<open>None\<close>.\<close>

definition decode_output :: "ext \<Rightarrow> function_abi \<Rightarrow> string option \<Rightarrow> abi_value option" where
  "decode_output x f result =
     (case result of
        None \<Rightarrow> None
      | Some r \<Rightarrow>
          (case rbind (bytes_fromhex (drop 2 r)) (abi_decode x (fn_outputs f)) of
             Inl _ \<Rightarrow> None
           | Inr [] \<Rightarrow> None
           | Inr (v # _) \<Rightarrow> Some v))"

definition uint_output :: "abi_value option \<Rightarrow> int option" where
  "uint_output v = (case v of Some (AUint n) \<Rightarrow> Some n | _ \<Rightarrow> None)"

definition address_output :: "abi_value option \<Rightarrow> string option" where
  "address_output v = (case v of Some (AAddress s) \<Rightarrow> Some s | _ \<Rightarrow> None)"

definition text_output :: "abi_value option \<Rightarrow> string option" where
  "text_output v = (case v of Some (AString s) \<Rightarrow> Some (filter (\<lambda>c. c \<noteq> CHR 0x00) s) | _ \<Rightarrow> None)"

definition answer_tokens :: "ext \<Rightarrow> function_abi \<Rightarrow> (abi_value option \<Rightarrow> token_info \<Rightarrow> token_info)
    \<Rightarrow> (nat \<times> (json, string) rpc_response) list \<Rightarrow> token_info list \<Rightarrow> token_info list res" where
  "answer_tokens x f put answers tokens =
     rfold (\<lambda>ts (i, r). rbind (rpc_response_to_result r) (\<lambda>result.
       Inr (ts[i := put (decode_output x f result) (ts ! i)]))) tokens answers"

definition fetch_field :: "ext \<Rightarrow> (jdict list \<Rightarrow> (json, string) rpc_response list res) \<Rightarrow> bool
    \<Rightarrow> function_abi \<Rightarrow> abi_value list \<Rightarrow> (abi_value option \<Rightarrow> token_info \<Rightarrow> token_info)
    \<Rightarrow> token_info list \<Rightarrow> token_info list res" where
  "fetch_field x make_requests is_batch f arguments put tokens =
     rbind (call_function x make_requests is_batch f arguments tokens)
       (\<lambda>answers. answer_tokens x f put answers tokens)"

definition tokens_total_supply_rpc_requests :: "ext \<Rightarrow> (jdict list \<Rightarrow> (json, string) rpc_response list res)
    \<Rightarrow> token_info list \<Rightarrow> bool \<Rightarrow> token_info list res" where
  "tokens_total_supply_rpc_requests x make_requests tokens is_batch =
     fetch_field x make_requests is_batch TOTAL_SUPPLY_ABI_FUNCTION []
       (\<lambda>v t. t\<lparr>ti_total_supply := uint_output v\<rparr>) tokens"

definition classify_token :: "token_info \<Rightarrow> token_info" where
  "classify_token t =
     (if ti_token_type t \<noteq> ''ERC1155''
      then if ti_token_uri t \<noteq> None \<or> ti_owner_of t \<noteq> None \<or> ti_decimals t = None
           then t\<lparr>ti_token_type := ''ERC721''\<rparr> else t\<lparr>ti_token_type := ''ERC20''\<rparr>
      else t)"

text \<open>The six calls in the order of \<open>function_call\<close>; no token means no request.\<close>

definition tokens_info_rpc_requests :: "ext \<Rightarrow> (jdict list \<Rightarrow> (json, string) rpc_response list res)
    \<Rightarrow> token_info list \<Rightarrow> bool \<Rightarrow> token_info list res" where
  "tokens_info_rpc_requests x make_requests tokens is_batch =
     (if tokens = [] then Inr []
      else
        let fetch = fetch_field x make_requests is_batch
        in rbind (fetch NAME_ABI_FUNCTION [] (\<lambda>v t. t\<lparr>ti_name := text_output v\<rparr>) tokens) (\<lambda>ts.
           rbind (fetch SYMBOL_ABI_FUNCTION [] (\<lambda>v t. t\<lparr>ti_symbol := text_output v\<rparr>) ts) (\<lambda>ts.
           rbind (fetch DECIMALS_ABI_FUNCTION [] (\<lambda>v t. t\<lparr>ti_decimals := uint_output v\<rparr>) ts) (\<lambda>ts.
           rbind (fetch TOTAL_SUPPLY_ABI_FUNCTION [] (\<lambda>v t. t\<lparr>ti_total_supply := uint_output v\<rparr>) ts) (\<lambda>ts.
           rbind (fetch OWNER_OF_ABI_FUNCTION [AUint 1] (\<lambda>v t. t\<lparr>ti_owner_of := address_output v\<rparr>) ts) (\<lambda>ts.
           rbind (fetch TOKEN_URI_ABI_FUNCTION [AUint 1] (\<lambda>v t. t\<lparr>ti_token_uri := address_output v\<rparr>) ts) (\<lambda>ts.
           Inr (map classify_token ts))))))))"

section \<open>The job\<close>

text \<open>What the job puts in the data buffer, by type.\<close>

datatype tok_item = LogItem log | TransferItem token_transfer | SpecificItem specific_transfer
  | TokenItem token_info | UpdateTokenItem token_info

definition specific_type :: "specific_transfer \<Rightarrow> string" where
  "specific_type s =
     (case s of ERC20TokenTransfer _ _ \<Rightarrow> ''erc20_token_transfer''
      | ERC721TokenTransfer _ _ \<Rightarrow> ''erc721_token_transfer''
      | ERC1155TokenTransfer _ _ _ \<Rightarrow> ''erc1155_token_transfer'')"

definition extract_batch :: "ext \<Rightarrow> (tok_item, 'x) world \<Rightarrow> log list \<Rightarrow> (tok_item, 'x) world \<times> unit res" where
  "extract_batch x w logs =
     (case extract_tokens_and_token_transfers x logs of
        Inl e \<Rightarrow> (w, Inl e)
      | Inr ts \<Rightarrow> sfor (\<lambda>t. collect_item ''token_transfer'' (TransferItem t)) ts w)"

text \<open>\<open>token_types\<close>: the type of each known token.\<close>

definition specific_of :: "(string \<times> string) list \<Rightarrow> token_transfer \<Rightarrow> specific_transfer res" where
  "specific_of token_types t =
     (if tt_token_id t = None
      then rbind (dict_get token_types (tt_token_address t))
             (\<lambda>ty. to_specific_transfer (t\<lparr>tt_token_type := ty\<rparr>))
      else to_specific_transfer t)"

fun generate_token_transfers :: "(string \<times> string) list \<Rightarrow> (tok_item, 'x) world \<Rightarrow> token_transfer list
    \<Rightarrow> (tok_item, 'x) world \<times> unit res" where
  "generate_token_transfers token_types w [] = (w, Inr ())"
| "generate_token_transfers token_types w (t # ts) =
     (case specific_of token_types t of
        Inl e \<Rightarrow> (w, Inl e)
      | Inr s \<Rightarrow>
          (case collect_item (specific_type s) (SpecificItem s) w of
             (w', _) \<Rightarrow> generate_token_transfers token_types w' ts))"

definition export_token_info_batch :: "ext \<Rightarrow> (jdict list \<Rightarrow> (json, string) rpc_response list res) \<Rightarrow> bool
    \<Rightarrow> (tok_item, 'x) world \<Rightarrow> token_info list \<Rightarrow> (tok_item, 'x) world \<times> unit res" where
  "export_token_info_batch x make_requests is_batch w tokens =
     (case tokens_info_rpc_requests x make_requests tokens is_batch of
        Inl e \<Rightarrow> (w, Inl e)
      | Inr ts \<Rightarrow> sfor (\<lambda>t. collect_item ''token'' (TokenItem t)) ts w)"

definition export_token_total_supply_batch :: "ext \<Rightarrow> (jdict list \<Rightarrow> (json, string) rpc_response list res)
    \<Rightarrow> bool \<Rightarrow> (tok_item, 'x) world \<Rightarrow> token_info list \<Rightarrow> (tok_item, 'x) world \<times> unit res" where
  "export_token_total_supply_batch x make_requests is_batch w tokens =
     (case tokens_total_supply_rpc_requests x make_requests tokens is_batch of
        Inl e \<Rightarrow> (w, Inl e)
      | Inr ts \<Rightarrow> sfor (\<lambda>t. collect_item ''update_token'' (UpdateTokenItem t))
                    (filter (\<lambda>t. ti_total_supply t \<noteq> None) ts) w)"

text \<open>\<open>_process\<close> asks whether the class is a key of the buffer, and then sorts the list at its type
  string. The keys the jobs make are type strings.\<close>

datatype py_key = StrKey string | ClassKey string

fun transfer_order :: "specific_transfer \<Rightarrow> int \<times> string \<times> int" where
  "transfer_order (ERC20TokenTransfer f _) = (block_of (tf_block_number f), tf_transaction_hash f, tf_log_index f)"
| "transfer_order (ERC721TokenTransfer f _) = (block_of (tf_block_number f), tf_transaction_hash f, tf_log_index f)"
| "transfer_order (ERC1155TokenTransfer f _ _) = (block_of (tf_block_number f), tf_transaction_hash f, tf_log_index f)"

definition output_transfer_types :: "string list" where
  "output_transfer_types = [''erc20_token_transfer'', ''erc721_token_transfer'', ''erc1155_token_transfer'']"

definition process_transfers :: "(py_key \<times> specific_transfer list) list \<Rightarrow> (py_key \<times> specific_transfer list) list" where
  "process_transfers buff =
     fold (\<lambda>ty b. if ClassKey ty \<in> set (map fst b)
                  then AList.update (StrKey ty)
                    (sort_key transfer_order (case map_of b (StrKey ty) of None \<Rightarrow> [] | Some ts \<Rightarrow> ts)) b
                  else b) output_transfer_types buff"

section \<open>The extraction as a batch handler\<close>

definition buffered_items :: "string \<Rightarrow> ('d, 'x) world \<Rightarrow> 'd multiset" where
  "buffered_items key w = mset (buffered (data_buff w) key)"

lemma sfor_collect_item:
  "sfor (\<lambda>t. collect_item key (f t)) ts w =
     (w\<lparr>data_buff := fold (\<lambda>t. dict_append key (f t)) ts (data_buff w)\<rparr>, Inr ())"
  by (induction ts arbitrary: w) (simp_all add: collect_item_def)

lemma buffered_fold_append:
  "buffered (fold (\<lambda>t. dict_append key (f t)) ts buff) key = buffered buff key @ map f ts"
  by (induction ts arbitrary: buff) (simp_all add: buffered_append)

definition log_transfers :: "ext \<Rightarrow> log \<Rightarrow> tok_item multiset" where
  "log_transfers x l =
     (case extract_transfer_from_log x l of Inl _ \<Rightarrow> {#} | Inr ts \<Rightarrow> mset (map TransferItem ts))"

lemma extract_all_transfers:
  assumes "extract_tokens_and_token_transfers x logs = Inr ts"
  shows "mset (map TransferItem ts) = sum_list (map (log_transfers x) logs)"
proof -
  obtain tss where r: "rmap (extract_transfer_from_log x) logs = Inr tss" and ts: "ts = concat tss"
    using assms by (auto simp: extract_tokens_and_token_transfers_def rbind_Inr_iff)
  have "list_all2 (\<lambda>l t. extract_transfer_from_log x l = Inr t) logs tss"
    using r by (simp add: rmap_Inr_iff)
  then show ?thesis
    unfolding ts by (induction rule: list_all2_induct) (simp_all add: log_transfers_def)
qed

interpretation extraction: batch_handler "extract_batch x" "buffered_items ''token_transfer''" "log_transfers x"
  for x
proof
  fix w :: "(tok_item, 'x) world" and b w' u
  assume "extract_batch x w b = (w', Inr u)"
  then obtain ts where ts: "extract_tokens_and_token_transfers x b = Inr ts"
    and "(w', Inr u) = sfor (\<lambda>t. collect_item ''token_transfer'' (TransferItem t)) ts w"
    by (auto simp: extract_batch_def split: sum.splits)
  then show "buffered_items ''token_transfer'' w' = buffered_items ''token_transfer'' w +
      sum_list (map (log_transfers x) b)"
    by (auto simp: sfor_collect_item buffered_items_def buffered_fold_append
        extract_all_transfers [OF ts, symmetric])
next
  fix w :: "(tok_item, 'x) world" and b w' e
  assume "extract_batch x w b = (w', Inl e)"
  then show "buffered_items ''token_transfer'' w' = buffered_items ''token_transfer'' w"
    by (auto simp: extract_batch_def sfor_collect_item split: sum.splits)
qed

section \<open>Properties\<close>

text \<open>C8: whatever the batches, their sizes, the retries and the interleaving of the workers, when
  the executor has finished, the buffer holds the transfers of every log exactly once more than
  before: none lost, none twice.\<close>

theorem all_transfers_extracted:
  assumes "0 < max_retries"
    and "exec_reach (extract_batch x) max_retries limit (exec_start ex w (Dynamic logs) k) s"
    and "run_phase s = Finished"
  shows "buffered_items ''token_transfer'' (run_world s) =
    buffered_items ''token_transfer'' w + sum_list (map (log_transfers x) logs)"
  using extraction.finished_processed [OF assms(2,3,1)] by (simp add: extraction.work_def)

text \<open>A decoder that gives each type a value, and a transfer log for it.\<close>

definition decoding_ext :: ext where
  "decoding_ext = sample_ext\<lparr>abi_decode := (\<lambda>ts _. Inr (map (\<lambda>t.
     if t = ''address'' then AAddress ZERO_ADDRESS else AUint 1) ts))\<rparr>"

definition sample_transfer_log :: log where
  "sample_transfer_log = sample_log\<lparr>lg_topic0 := Some (event_log_abi_to_topic decoding_ext transfer_event)\<rparr>"

lemma sample_transfers:
  "\<exists>t. extract_transfer_from_log decoding_ext sample_transfer_log = Inr [t]"
proof -
  have b: "get_topic_with_data sample_transfer_log = Inr ([1] @ [2, 3])"
    by (simp add: get_topic_with_data_def get_bytes_topics_def get_bytes_data_def topic_hex_def
        sample_transfer_log_def sample_log_def strip_0x_bytes bytes_fromhex_hex
        sample_hex [symmetric])
  have d: "decode_log_ignore_indexed decoding_ext transfer_event sample_transfer_log =
      Inr [(''from'', AAddress ZERO_ADDRESS), (''to'', AAddress ZERO_ADDRESS), (''value'', AUint 1)]"
    by (simp add: decode_log_ignore_indexed_def b transfer_event_def decoding_ext_def named_tree_def)
  have "lg_topic0 sample_transfer_log = Some (event_log_abi_to_topic decoding_ext transfer_event)"
    by (simp add: sample_transfer_log_def)
  then show ?thesis
    by (simp add: extract_transfer_from_log_def handle_transfer_event_def d dec_addr_def dec_uint_def)
qed

theorem all_transfers_extracted_witness:
  "\<exists>s. exec_reach (extract_batch decoding_ext) 5 3 (exec_start (new_executor 2)
      (\<lparr>data_buff = [], outside = (), recorder_of = \<lparr>xr_has_service = False, xr_buffer = [],
         xr_table = [], xr_faults = []\<rparr>\<rparr> :: (tok_item, unit) world)
      (Dynamic (replicate 3 sample_transfer_log)) None) s \<and>
    size (buffered_items ''token_transfer'' (run_world s)) = 3"
proof -
  obtain t where t: "extract_transfer_from_log decoding_ext sample_transfer_log = Inr [t]"
    using sample_transfers by blast
  let ?w = "\<lparr>data_buff = [], outside = (), recorder_of = \<lparr>xr_has_service = False, xr_buffer = [],
     xr_table = [], xr_faults = []\<rparr>\<rparr> :: (tok_item, unit) world"
  have "rmap (extract_transfer_from_log decoding_ext) ls = Inr (map (\<lambda>_. [t]) ls)"
    if "set ls \<subseteq> {sample_transfer_log}" for ls
    using that t by (intro rmap_Inr_map) auto
  then have "never_raises (set (replicate 3 sample_transfer_log)) (extract_batch decoding_ext)"
    by (auto simp: never_raises_def extract_batch_def extract_tokens_and_token_transfers_def
        sfor_collect_item)
  from exec_finishes [OF this, of 3 5 2 ?w None] obtain s where
    s: "exec_reach (extract_batch decoding_ext) 5 3 (exec_start (new_executor 2) ?w
      (Dynamic (replicate 3 sample_transfer_log)) None) s" "run_phase s = Finished" by auto
  have "buffered_items ''token_transfer'' (run_world s) = {#TransferItem t, TransferItem t, TransferItem t#}"
    using all_transfers_extracted [OF _ s]
    by (simp add: buffered_items_def buffered_def log_transfers_def t numeral_3_eq_3)
  with s(1) show ?thesis by (intro exI [of _ s]) simp
qed

text \<open>The transfers of a batch event whose two lists have the same length: one per token id,
  the value of each the sum of all the values given for that id; with lists of different lengths
  there are none.\<close>

lemma batch_event_amounts:
  assumes "decode_log x batch_transfer_event l = Some d"
    and "dec_addr (map_of d ''from'') = Inr from_address" and "dec_addr (map_of d ''to'') = Inr to_address"
    and "dec_uint_list (map_of d ''ids'') = Inr ids" and "dec_uint_list (map_of d ''values'') = Inr vals"
  shows "\<exists>ts. handle_transfer_batch_event x l = Inr ts \<and>
    (length ids \<noteq> length vals \<longrightarrow> ts = []) \<and>
    (length ids = length vals \<longrightarrow>
      distinct (map tt_token_id ts) \<and> tt_token_id ` set ts = Some ` set ids \<and>
      (\<forall>t \<in> set ts. \<exists>i. tt_token_id t = Some i \<and>
        tt_value t = sum_list (map snd (filter (\<lambda>iv. fst iv = i) (zip ids vals))) \<and>
        tt_from_address t = from_address \<and> tt_to_address t = to_address \<and>
        tt_token_address t = lg_address l \<and> tt_token_type t = ''ERC1155''))"
proof -
  let ?sums = "fold add_amount (zip ids vals) []"
  let ?f = "\<lambda>(token_id, total_value). transfer_of_log l from_address to_address (Some token_id) total_value ''ERC1155''"
  have r: "handle_transfer_batch_event x l = Inr (if length ids \<noteq> length vals then [] else map ?f ?sums)"
    using assms by (simp add: handle_transfer_batch_event_def)
  have d: "distinct (map fst ?sums)" by (simp add: fold_add_amount_distinct)
  have ids: "tt_token_id \<circ> ?f = Some \<circ> fst" by (auto simp: fun_eq_iff transfer_of_log_def)
  have keys: "fst ` set ?sums = fst ` set (zip ids vals)"
    by (auto simp: fold_add_amount_lookup dom_def simp flip: dom_map_of_conv_image_fst)
  have "tt_value (?f iv) = sum_list (map snd (filter (\<lambda>jv. fst jv = fst iv) (zip ids vals)))"
    if "iv \<in> set ?sums" for iv
    using map_of_is_SomeI [OF d, of "fst iv" "snd iv"] that
    by (auto simp: fold_add_amount_lookup transfer_of_log_def split: if_splits prod.splits)
  then have "\<forall>t \<in> set (map ?f ?sums). \<exists>i. tt_token_id t = Some i \<and>
        tt_value t = sum_list (map snd (filter (\<lambda>iv. fst iv = i) (zip ids vals))) \<and>
        tt_from_address t = from_address \<and> tt_to_address t = to_address \<and>
        tt_token_address t = lg_address l \<and> tt_token_type t = ''ERC1155''"
    by (fastforce simp: transfer_of_log_def)
  moreover have "distinct (map tt_token_id (map ?f ?sums))"
    using d by (simp add: ids distinct_map inj_on_def)
  moreover have "tt_token_id ` set (map ?f ?sums) = Some ` set ids" if "length ids = length vals"
  proof -
    have "tt_token_id ` set (map ?f ?sums) = (Some \<circ> fst) ` set ?sums"
      by (simp add: image_comp ids)
    also have "\<dots> = Some ` (fst ` set ?sums)" by (simp add: image_comp)
    also have "fst ` set ?sums = set ids"
      unfolding keys using that by (metis list.set_map map_fst_zip)
    finally show ?thesis .
  qed
  ultimately show ?thesis using r by auto
qed

theorem batch_event_amounts_witness:
  "\<exists>ts. handle_transfer_batch_event (sample_ext\<lparr>abi_decode := (\<lambda>ts _. Inr (map (\<lambda>t.
      if t = ''address'' then AAddress ZERO_ADDRESS else AList [AUint 7, AUint 8, AUint 7]) ts))\<rparr>) sample_log = Inr ts \<and>
    tt_token_id ` set ts = {Some 7, Some 8}"
proof -
  let ?x = "sample_ext\<lparr>abi_decode := (\<lambda>ts _. Inr (map (\<lambda>t.
      if t = ''address'' then AAddress ZERO_ADDRESS else AList [AUint 7, AUint 8, AUint 7]) ts))\<rparr>"
  have b: "get_bytes_topics sample_log = Inr [1]" "get_bytes_data sample_log = Inr [2, 3]"
    by (simp_all add: get_bytes_topics_def get_bytes_data_def topic_hex_def sample_log_def
        strip_0x_bytes bytes_fromhex_hex sample_hex [symmetric])
  let ?v = "AList [AUint 7, AUint 8, AUint 7]"
  have "decode_log ?x batch_transfer_event sample_log = Some [(''operator'', AAddress ZERO_ADDRESS),
      (''from'', AAddress ZERO_ADDRESS), (''to'', AAddress ZERO_ADDRESS), (''ids'', ?v), (''values'', ?v)]"
    by (simp add: decode_log_def b batch_transfer_event_def named_tree_def indexed_type_def)
  from batch_event_amounts [OF this, of "str_lower ZERO_ADDRESS" "str_lower ZERO_ADDRESS" "[7, 8, 7]" "[7, 8, 7]"]
  show ?thesis by (auto simp: dec_addr_def dec_uint_list_def dec_uint_def insert_commute)
qed

text \<open>The token table has one token per token address that occurs, and its type and block are
  those of a transfer of that token with the greatest block number.\<close>

lemma token_dict_latest:
  shows "distinct (map tk_address (map snd (build_token_dict ts))) \<and>
    tk_address ` set (map snd (build_token_dict ts)) = tt_token_address ` set ts \<and>
    (\<forall>k \<in> set (map snd (build_token_dict ts)).
      (\<exists>t \<in> set ts. k = token_of_transfer t) \<and>
      (\<forall>t \<in> set ts. tt_token_address t = tk_address k \<longrightarrow>
        block_of (tt_block_number t) \<le> block_of (tk_block_number k)))"
proof -
  let ?m = "\<lambda>k. block_of (tk_block_number k)"
  note c = distinct_collections_correct [of tk_address ?m "map token_of_transfer ts"]
  have a: "tk_address (token_of_transfer t) = tt_token_address t"
    "tk_block_number (token_of_transfer t) = tt_block_number t" for t
    by (simp_all add: token_of_transfer_def)
  have "tk_address ` set (map token_of_transfer ts) = tt_token_address ` set ts"
    by (auto simp: a image_iff)
  with c show ?thesis unfolding token_dict_values by (auto simp: a)
qed

theorem token_dict_latest_witness:
  "tk_address ` set (map snd (build_token_dict
      [transfer_of_log sample_log ZERO_ADDRESS ZERO_ADDRESS None 1 ''ERC20'',
       transfer_of_log (sample_log\<lparr>lg_block_number := Some 9\<rparr>) ZERO_ADDRESS ZERO_ADDRESS None 1 ''ERC721'']))
    = {''0xa''}"
  using token_dict_latest [of "[transfer_of_log sample_log ZERO_ADDRESS ZERO_ADDRESS None 1 ''ERC20'',
       transfer_of_log (sample_log\<lparr>lg_block_number := Some 9\<rparr>) ZERO_ADDRESS ZERO_ADDRESS None 1 ''ERC721'']"]
  by (simp add: transfer_of_log_def sample_log_def)

text \<open>Sorting the transfers never happens: on every buffer whose keys are type strings, the
  step leaves it as it is.\<close>

lemma process_never_sorts:
  assumes "\<And>k. k \<in> set (map fst buff) \<Longrightarrow> \<exists>s. k = StrKey s"
  shows "process_transfers buff = buff"
proof -
  have "ClassKey ty \<notin> set (map fst buff)" for ty using assms by blast
  then have "fold (\<lambda>ty b. if ClassKey ty \<in> set (map fst b)
      then AList.update (StrKey ty)
        (sort_key transfer_order (case map_of b (StrKey ty) of None \<Rightarrow> [] | Some ts \<Rightarrow> ts)) b
      else b) tys buff = buff" for tys
    by (induction tys) auto
  then show ?thesis by (simp add: process_transfers_def)
qed

end
