(* ===== verification/Blocks.thy ===== *)
theory Blocks
  imports Abi Jobs Executor "HOL-Library.Multiset"
begin

text \<open>
  \<open>indexer/specification/specification.py\<close>, \<open>indexer/jobs/export_blocks_job.py\<close> and
  \<open>indexer/jobs/export_transactions_and_logs_job.py\<close>: the filters on transactions, the job that
  collects blocks with the transactions that satisfy them, and the job that adds receipts and logs.
  \<open>get_logs\<close> and \<open>make_request\<close> are the node. A Python set of block numbers or hashes is a
  list without repetitions.
\<close>

section \<open>Specifications\<close>

datatype tx_spec =
    AlwaysTrueSpecification
  | AlwaysFalseSpecification
  | AndSpecification "tx_spec list"
  | OrSpecification "tx_spec list"
  | NotSpecification tx_spec
  | FromAddressSpecification string
  | ToAddressSpecification string
  | FuncSignSpecification string
  | TopicSpecification "string list" "string list"
  | TransactionHashSpecification "string list"

definition spec_and :: "tx_spec \<Rightarrow> tx_spec \<Rightarrow> tx_spec" where
  "spec_and a b = AndSpecification [a, b]"

definition spec_or :: "tx_spec \<Rightarrow> tx_spec \<Rightarrow> tx_spec" where
  "spec_or a b = OrSpecification [a, b]"

definition new_func_sign_specification :: "string \<Rightarrow> tx_spec res" where
  "new_func_sign_specification s =
     (if startswith s ''0x'' \<and> length s = 10 then Inr (FuncSignSpecification s) else Inl AssertionError)"

definition log_matches :: "string list \<Rightarrow> string list \<Rightarrow> log \<Rightarrow> bool" where
  "log_matches topics addresses l \<longleftrightarrow>
     (topics = [] \<or> lg_topic0 l \<in> Some ` set topics) \<and> (addresses = [] \<or> lg_address l \<in> set addresses)"

definition topics_satisfied :: "string list \<Rightarrow> string list \<Rightarrow> transaction \<Rightarrow> bool" where
  "topics_satisfied topics addresses t =
     (case tx_receipt t of None \<Rightarrow> False | Some r \<Rightarrow> list_ex (log_matches topics addresses) (rc_logs r))"

fun is_satisfied_by :: "tx_spec \<Rightarrow> transaction \<Rightarrow> bool" where
  "is_satisfied_by AlwaysTrueSpecification t = True"
| "is_satisfied_by AlwaysFalseSpecification t = False"
| "is_satisfied_by (AndSpecification ss) t = list_all (\<lambda>s. is_satisfied_by s t) ss"
| "is_satisfied_by (OrSpecification ss) t = list_ex (\<lambda>s. is_satisfied_by s t) ss"
| "is_satisfied_by (NotSpecification s) t = (\<not> is_satisfied_by s t)"
| "is_satisfied_by (FromAddressSpecification a) t = (tx_from_address t = a)"
| "is_satisfied_by (ToAddressSpecification a) t = (tx_to_address t = Some a)"
| "is_satisfied_by (FuncSignSpecification f) t = (take 10 (tx_input t) = f)"
| "is_satisfied_by (TopicSpecification topics addresses) t = topics_satisfied topics addresses t"
| "is_satisfied_by (TransactionHashSpecification hashes) t = (tx_hash t \<in> set hashes)"

section \<open>Filters\<close>

text \<open>A topic specification of a filter by logs is its topics and its addresses.\<close>

datatype tx_filter =
    TransactionFilterByLogs "(string list \<times> string list) list"
  | TransactionFilterByTransactionInfo "tx_spec list"
  | UnsupportedFilter

record filter_params =
  fp_topics :: "string list option"
  fp_address :: "string list option"
  fp_from_block :: int
  fp_to_block :: int

definition to_filter_params :: "ext \<Rightarrow> int \<Rightarrow> int \<Rightarrow> string list \<times> string list \<Rightarrow> filter_params res" where
  "to_filter_params x start_block end_block ta =
     rbind (rmap (to_checksum_address x) (snd ta)) (\<lambda>as.
       Inr \<lparr>fp_topics = (if fst ta = [] then None else Some (fst ta)),
            fp_address = (if snd ta = [] then None else Some as),
            fp_from_block = start_block, fp_to_block = end_block\<rparr>)"

definition filter_is_satisfied_by :: "tx_filter \<Rightarrow> transaction \<Rightarrow> bool" where
  "filter_is_satisfied_by f t =
     (case f of
        TransactionFilterByLogs tas \<Rightarrow> list_ex (\<lambda>(ts, as). topics_satisfied ts as t) tas
      | TransactionFilterByTransactionInfo ss \<Rightarrow> list_all (\<lambda>s. is_satisfied_by s t) ss
      | UnsupportedFilter \<Rightarrow> False)"

definition get_or_specification :: "tx_spec list \<Rightarrow> tx_spec" where
  "get_or_specification ss = OrSpecification ss"

section \<open>The block job: what to collect\<close>

record selection =
  sel_specification :: tx_spec
  sel_filter_blocks :: "int list"
  sel_only_log_filter :: bool

text \<open>A log as the node reports it: its block and the hash of its transaction.\<close>

type_synonym node_log = "int \<times> string"

definition select_by_logs :: "ext \<Rightarrow> (filter_params \<Rightarrow> node_log list res) \<Rightarrow> int \<Rightarrow> int \<Rightarrow> selection
    \<Rightarrow> string list \<times> string list \<Rightarrow> selection res" where
  "select_by_logs x get_logs start_block end_block s ta =
     rbind (to_filter_params x start_block end_block ta) (\<lambda>fp.
     rbind (get_logs fp) (\<lambda>logs.
       Inr (s\<lparr>sel_filter_blocks := remdups (sel_filter_blocks s @ map fst logs),
              sel_specification := spec_or (sel_specification s)
                (TransactionHashSpecification (remdups (map snd logs)))\<rparr>)))"

definition select_step :: "ext \<Rightarrow> (filter_params \<Rightarrow> node_log list res) \<Rightarrow> int \<Rightarrow> int \<Rightarrow> selection
    \<Rightarrow> tx_filter \<Rightarrow> selection res" where
  "select_step x get_logs start_block end_block s f =
     (case f of
        TransactionFilterByLogs tas \<Rightarrow> rfold (select_by_logs x get_logs start_block end_block) s tas
      | TransactionFilterByTransactionInfo ss \<Rightarrow>
          Inr (s\<lparr>sel_only_log_filter := False,
                 sel_specification := spec_or (sel_specification s) (get_or_specification ss)\<rparr>)
      | UnsupportedFilter \<Rightarrow> Inl (ValueError ''Unsupported filter type''))"

text \<open>The blocks to ask for and the specification for their transactions.\<close>

definition select_blocks :: "ext \<Rightarrow> (filter_params \<Rightarrow> node_log list res) \<Rightarrow> bool \<Rightarrow> tx_filter list
    \<Rightarrow> int \<Rightarrow> int \<Rightarrow> (int list \<times> tx_spec) res" where
  "select_blocks x get_logs filter_only filters start_block end_block =
     rbind (rfold (select_step x get_logs start_block end_block)
             \<lparr>sel_specification = (if filter_only then AlwaysFalseSpecification else AlwaysTrueSpecification),
              sel_filter_blocks = [], sel_only_log_filter = True\<rparr> filters)
       (\<lambda>s. Inr (if filter_only \<and> sel_only_log_filter s then sel_filter_blocks s
                  else [start_block..end_block], sel_specification s))"

section \<open>The block job: collecting\<close>

datatype chain_item = BlockItem block | TransactionItem transaction | LogItem log
  | TsItem block_ts_mapper

definition blocks_rpc_requests :: "(jdict list \<Rightarrow> (json, jdict) rpc_response list res) \<Rightarrow> int list \<Rightarrow> bool
    \<Rightarrow> (json, jdict) rpc_response list res" where
  "blocks_rpc_requests make_request block_number_batch is_batch =
     (let block_number_rpc = generate_get_block_by_number_json_rpc block_number_batch True
      in send_requests make_request is_batch block_number_rpc)"

definition collect_block :: "tx_spec \<Rightarrow> block \<Rightarrow> (chain_item, 'x) world \<Rightarrow> (chain_item, 'x) world" where
  "collect_block spec b w =
     fst (sfor (\<lambda>t. collect_item ''transaction'' (TransactionItem t))
       (filter (is_satisfied_by spec) (bl_transactions b)) (fst (collect_item ''block'' (BlockItem b) w)))"

text \<open>The responses are looked at one after the other, an exception keeps what has been collected.\<close>

fun collect_responses :: "ext \<Rightarrow> tx_spec \<Rightarrow> (json, jdict) rpc_response list \<Rightarrow> ((chain_item, 'x) world, unit) act"
  where
  "collect_responses x spec [] w = (w, Inr ())"
| "collect_responses x spec (r # rs) w =
     (case rbind (rpc_response_to_result r) (\<lambda>d. case d of None \<Rightarrow> Inl TypeError | Some d \<Rightarrow> block_from_rpc x d) of
        Inl e \<Rightarrow> (w, Inl e)
      | Inr b \<Rightarrow> collect_responses x spec rs (collect_block spec b w))"

definition collect_block_batch :: "ext \<Rightarrow> (jdict list \<Rightarrow> (json, jdict) rpc_response list res) \<Rightarrow> bool
    \<Rightarrow> tx_spec \<Rightarrow> (chain_item, 'x) world \<Rightarrow> int list \<Rightarrow> (chain_item, 'x) world \<times> unit res" where
  "collect_block_batch x make_request is_batch spec w batch =
     (case blocks_rpc_requests make_request batch is_batch of
        Inl e \<Rightarrow> (w, Inl e)
      | Inr rs \<Rightarrow> collect_responses x spec rs w)"

text \<open>The hour of a block, and the table of the first block of each hour.\<close>

definition hour_of :: "block \<Rightarrow> int" where
  "hour_of b = bl_timestamp b div 3600 * 3600"

definition ts_step :: "block \<Rightarrow> (int \<times> int) list \<Rightarrow> (int \<times> int) list" where
  "ts_step b ts_dict =
     (case map_of ts_dict (hour_of b) of
        None \<Rightarrow> AList.update (hour_of b) (bl_number b) ts_dict
      | Some n \<Rightarrow> if bl_number b < n then AList.update (hour_of b) (bl_number b) ts_dict else ts_dict)"

definition ts_mappers :: "block list \<Rightarrow> block_ts_mapper list" where
  "ts_mappers blocks = map new_block_ts_mapper (fold ts_step blocks [])"

definition int_or_0 :: "int option \<Rightarrow> int" where
  "int_or_0 n = (case n of None \<Rightarrow> 0 | Some k \<Rightarrow> k)"

text \<open>\<open>_process\<close> on the blocks and transactions of the buffer.\<close>

definition process_blocks :: "block list \<Rightarrow> transaction list \<Rightarrow> block list \<times> transaction list \<times> block_ts_mapper list"
  where
  "process_blocks blocks txs =
     (let blocks = sort_key bl_number blocks
      in (blocks, sort_key (\<lambda>t. (int_or_0 (tx_block_number t), tx_transaction_index t)) txs, ts_mappers blocks))"

section \<open>Receipts and logs\<close>

definition receipt_rpc_requests :: "(jdict list \<Rightarrow> (json, jdict) rpc_response list res) \<Rightarrow> string list \<Rightarrow> bool
    \<Rightarrow> (json, jdict) rpc_response list res" where
  "receipt_rpc_requests make_request transaction_hashes is_batch =
     (let receipts_rpc = generate_get_receipt_json_rpc transaction_hashes
      in send_requests make_request is_batch receipts_rpc)"

text \<open>Transactions are shared objects: a batch is the positions of its transactions in the buffer, and
  filling in a receipt changes the buffer's transaction. The state is the buffer's transactions and
  logs.\<close>

definition transaction_mapper :: "transaction list \<Rightarrow> nat list \<Rightarrow> (string \<times> nat) list" where
  "transaction_mapper txs batch = fold (\<lambda>i. AList.update (tx_hash (txs ! i)) i) batch []"

definition read_receipt :: "ext \<Rightarrow> (string \<times> nat) list \<Rightarrow> transaction list \<Rightarrow> (json, jdict) rpc_response
    \<Rightarrow> (nat \<times> receipt) res" where
  "read_receipt x mapper txs r =
     rbind (rpc_response_to_result r) (\<lambda>d.
       case d of
         None \<Rightarrow> Inl TypeError
       | Some d \<Rightarrow>
           rbind (get_str d ''transactionHash'') (\<lambda>h.
           rbind (dict_get mapper h) (\<lambda>i.
           rbind (receipt_from_rpc x (tx_block_timestamp (txs ! i)) (tx_block_hash (txs ! i))
                   (tx_block_number (txs ! i)) d) (\<lambda>rc. Inr (i, rc)))))"

definition collect_receipt :: "ext \<Rightarrow> (string \<times> nat) list \<Rightarrow> (json, jdict) rpc_response
    \<Rightarrow> (transaction list \<times> log list, unit) act" where
  "collect_receipt x mapper r st =
     (case read_receipt x mapper (fst st) r of
        Inl e \<Rightarrow> (st, Inl e)
      | Inr (i, rc) \<Rightarrow> (((fst st)[i := fill_with_receipt rc (fst st ! i)], snd st @ rc_logs rc), Inr ()))"

definition collect_receipts :: "ext \<Rightarrow> (jdict list \<Rightarrow> (json, jdict) rpc_response list res) \<Rightarrow> bool
    \<Rightarrow> nat list \<Rightarrow> (transaction list \<times> log list, unit) act" where
  "collect_receipts x make_request is_batch batch st =
     (let mapper = transaction_mapper (fst st) batch
      in case receipt_rpc_requests make_request (map fst mapper) is_batch of
           Inl e \<Rightarrow> (st, Inl e)
         | Inr rs \<Rightarrow> sfor (collect_receipt x mapper) rs st)"

definition process_logs :: "log list \<Rightarrow> log list" where
  "process_logs logs = sort_key (\<lambda>l. (int_or_0 (lg_block_number l), lg_log_index l)) logs"

section \<open>Lemmas\<close>

lemma ts_step_lookup:
  "map_of (ts_step b d) h =
     (if h = hour_of b
      then Some (case map_of d h of None \<Rightarrow> bl_number b | Some n \<Rightarrow> min n (bl_number b)) else map_of d h)"
  by (auto simp: ts_step_def map_of_upd min_def split: option.splits)

lemma ts_fold_distinct: "distinct (map fst d) \<Longrightarrow> distinct (map fst (fold ts_step bs d))"
  by (induction bs arbitrary: d) (auto simp: ts_step_def distinct_upd split: option.splits)

lemma ts_fold_dom: "dom (map_of (fold ts_step bs d)) = dom (map_of d) \<union> hour_of ` set bs"
  by (induction bs arbitrary: d) (auto simp: ts_step_lookup dom_def split: if_splits)

lemma ts_fold_lookup:
  assumes "map_of (fold ts_step bs d) h = Some n"
  shows "(map_of d h = Some n \<or> (\<exists>b \<in> set bs. hour_of b = h \<and> bl_number b = n)) \<and>
    (\<forall>m. map_of d h = Some m \<longrightarrow> n \<le> m) \<and> (\<forall>b \<in> set bs. hour_of b = h \<longrightarrow> n \<le> bl_number b)"
  using assms
proof (induction bs arbitrary: d)
  case (Cons b bs)
  from Cons.prems have "map_of (fold ts_step bs (ts_step b d)) h = Some n" by simp
  note ih = Cons.IH [OF this]
  show ?case
  proof (cases "h = hour_of b")
    case True
    with ih show ?thesis by (auto simp: ts_step_lookup min_def split: option.splits if_splits)
  next
    case False
    with ih show ?thesis by (auto simp: ts_step_lookup)
  qed
qed simp

lemma rfold_select_spec:
  assumes "rfold (select_by_logs x get_logs a b) s tas = Inr s'"
    and "\<And>ta fp logs. ta \<in> set tas \<Longrightarrow> to_filter_params x a b ta = Inr fp \<Longrightarrow> get_logs fp = Inr logs \<Longrightarrow>
      tx_hash t \<in> snd ` set logs \<longleftrightarrow> topics_satisfied (fst ta) (snd ta) t0"
  shows "is_satisfied_by (sel_specification s') t \<longleftrightarrow>
    is_satisfied_by (sel_specification s) t \<or> (\<exists>ta \<in> set tas. topics_satisfied (fst ta) (snd ta) t0)"
  using assms
proof (induction tas arbitrary: s)
  case (Cons ta tas)
  from Cons.prems(1) obtain s1 where s1: "select_by_logs x get_logs a b s ta = Inr s1"
    and rest: "rfold (select_by_logs x get_logs a b) s1 tas = Inr s'" by (auto simp: rbind_Inr_iff)
  from s1 obtain fp logs where fp: "to_filter_params x a b ta = Inr fp" and logs: "get_logs fp = Inr logs"
    and spec: "sel_specification s1 = spec_or (sel_specification s)
      (TransactionHashSpecification (remdups (map snd logs)))"
    by (auto simp: select_by_logs_def rbind_Inr_iff)
  have "tx_hash t \<in> snd ` set logs \<longleftrightarrow> topics_satisfied (fst ta) (snd ta) t0"
    by (rule Cons.prems(2) [OF _ fp logs]) simp
  then have "is_satisfied_by (sel_specification s1) t \<longleftrightarrow>
      is_satisfied_by (sel_specification s) t \<or> topics_satisfied (fst ta) (snd ta) t0"
    by (simp add: spec spec_or_def)
  moreover have "is_satisfied_by (sel_specification s') t \<longleftrightarrow>
      is_satisfied_by (sel_specification s1) t \<or> (\<exists>ta \<in> set tas. topics_satisfied (fst ta) (snd ta) t0)"
    using Cons.prems(2) by (intro Cons.IH [OF rest]) (meson list.set_intros(2))
  ultimately show ?case by auto
qed simp

text \<open>What eth_getLogs is documented to answer on a chain whose transactions carry their receipts:
  the logs of the blocks of the range that match the topics and addresses, checksummed, if any
  are given.\<close>

definition node_log_matches :: "ext \<Rightarrow> filter_params \<Rightarrow> log \<Rightarrow> bool" where
  "node_log_matches x fp l \<longleftrightarrow>
     (case fp_topics fp of None \<Rightarrow> True | Some ts \<Rightarrow> lg_topic0 l \<in> Some ` set ts) \<and>
     (case fp_address fp of None \<Rightarrow> True | Some as \<Rightarrow> \<exists>a \<in> set as. to_checksum_address x (lg_address l) = Inr a)"

definition answers_get_logs :: "ext \<Rightarrow> transaction list \<Rightarrow> (filter_params \<Rightarrow> node_log list res) \<Rightarrow> bool" where
  "answers_get_logs x chain get_logs \<longleftrightarrow>
     (\<forall>fp logs. get_logs fp = Inr logs \<longrightarrow>
        set logs = {(n, h). \<exists>t \<in> set chain. tx_block_number t = Some n \<and> tx_hash t = h \<and>
          fp_from_block fp \<le> n \<and> n \<le> fp_to_block fp \<and>
          (\<exists>r l. tx_receipt t = Some r \<and> l \<in> set (rc_logs r) \<and> node_log_matches x fp l)})"

text \<open>Checksumming keeps the addresses of the filter and of the chain apart.\<close>

definition checksum_faithful :: "ext \<Rightarrow> transaction list \<Rightarrow> string list \<Rightarrow> bool" where
  "checksum_faithful x chain addresses \<longleftrightarrow>
     (\<forall>t \<in> set chain. \<forall>r l a c. tx_receipt t = Some r \<longrightarrow> l \<in> set (rc_logs r) \<longrightarrow> a \<in> set addresses \<longrightarrow>
        to_checksum_address x a = Inr c \<longrightarrow>
        (to_checksum_address x (lg_address l) = Inr c \<longleftrightarrow> lg_address l = a))"

lemma list_all2_setD1: "list_all2 P xs ys \<Longrightarrow> x \<in> set xs \<Longrightarrow> \<exists>y \<in> set ys. P x y"
  by (induction rule: list_all2_induct) auto

lemma list_all2_setD2: "list_all2 P xs ys \<Longrightarrow> y \<in> set ys \<Longrightarrow> \<exists>x \<in> set xs. P x y"
  by (induction rule: list_all2_induct) auto

lemma node_log_matches_iff:
  assumes "to_filter_params x a b ta = Inr fp" and "checksum_faithful x chain (snd ta)"
    and "t \<in> set chain" and "tx_receipt t = Some r" and "l \<in> set (rc_logs r)"
  shows "node_log_matches x fp l \<longleftrightarrow> log_matches (fst ta) (snd ta) l"
proof -
  from assms(1) obtain as where as: "list_all2 (\<lambda>d c. to_checksum_address x d = Inr c) (snd ta) as"
    and fp: "fp_topics fp = (if fst ta = [] then None else Some (fst ta))"
      "fp_address fp = (if snd ta = [] then None else Some as)"
    by (auto simp: to_filter_params_def rbind_Inr_iff rmap_Inr_iff)
  have cf: "to_checksum_address x (lg_address l) = Inr c \<longleftrightarrow> lg_address l = d"
    if "d \<in> set (snd ta)" "to_checksum_address x d = Inr c" for d c
    using assms(2) assms(3-5) that unfolding checksum_faithful_def by blast
  have "(\<exists>c \<in> set as. to_checksum_address x (lg_address l) = Inr c) \<longleftrightarrow> lg_address l \<in> set (snd ta)"
  proof
    assume "\<exists>c \<in> set as. to_checksum_address x (lg_address l) = Inr c"
    then obtain c where c: "c \<in> set as" "to_checksum_address x (lg_address l) = Inr c" by blast
    from list_all2_setD2 [OF as c(1)] obtain d
      where d: "d \<in> set (snd ta)" "to_checksum_address x d = Inr c" by blast
    from cf [OF d] c(2) have "lg_address l = d" by simp
    with d(1) show "lg_address l \<in> set (snd ta)" by simp
  next
    assume l: "lg_address l \<in> set (snd ta)"
    from list_all2_setD1 [OF as l] show "\<exists>c \<in> set as. to_checksum_address x (lg_address l) = Inr c" by blast
  qed
  then show ?thesis by (simp add: node_log_matches_def log_matches_def fp)
qed

lemma log_filter_hashes:
  assumes "answers_get_logs x chain get_logs" and "checksum_faithful x chain (snd ta)"
    and "to_filter_params x a b ta = Inr fp" and "get_logs fp = Inr logs"
    and "t \<in> set chain" and "tx_block_number t = Some n" and "a \<le> n" and "n \<le> b"
    and "\<And>u. u \<in> set chain \<Longrightarrow> tx_hash u = tx_hash t \<Longrightarrow> u = t"
  shows "tx_hash t \<in> snd ` set logs \<longleftrightarrow> topics_satisfied (fst ta) (snd ta) t"
proof -
  have range: "fp_from_block fp = a" "fp_to_block fp = b"
    using assms(3) by (auto simp: to_filter_params_def rbind_Inr_iff)
  have set: "set logs = {(n, h). \<exists>t \<in> set chain. tx_block_number t = Some n \<and> tx_hash t = h \<and>
      a \<le> n \<and> n \<le> b \<and> (\<exists>r l. tx_receipt t = Some r \<and> l \<in> set (rc_logs r) \<and> node_log_matches x fp l)}"
    using assms(1) [unfolded answers_get_logs_def, rule_format, OF assms(4)] by (simp add: range)
  have "tx_hash t \<in> snd ` set logs \<longleftrightarrow>
      (\<exists>r l. tx_receipt t = Some r \<and> l \<in> set (rc_logs r) \<and> node_log_matches x fp l)"
  proof
    assume "tx_hash t \<in> snd ` set logs"
    then obtain n' u r l where u: "u \<in> set chain" "tx_hash u = tx_hash t"
      and l: "tx_receipt u = Some r" "l \<in> set (rc_logs r)" "node_log_matches x fp l"
      unfolding set by force
    from assms(9) [OF u] l show "\<exists>r l. tx_receipt t = Some r \<and> l \<in> set (rc_logs r) \<and> node_log_matches x fp l"
      by blast
  next
    assume "\<exists>r l. tx_receipt t = Some r \<and> l \<in> set (rc_logs r) \<and> node_log_matches x fp l"
    with assms(5-8) have "(n, tx_hash t) \<in> set logs" unfolding set by blast
    then show "tx_hash t \<in> snd ` set logs" by (rule image_eqI [rotated]) simp
  qed
  also have "\<dots> \<longleftrightarrow> (\<exists>r l. tx_receipt t = Some r \<and> l \<in> set (rc_logs r) \<and> log_matches (fst ta) (snd ta) l)"
    using node_log_matches_iff [OF assms(3,2,5)] by blast
  also have "\<dots> \<longleftrightarrow> topics_satisfied (fst ta) (snd ta) t"
    by (auto simp: topics_satisfied_def list_ex_iff split: option.splits)
  finally show ?thesis .
qed

text \<open>Receipts: every position that has been read holds its receipt.\<close>

definition tx_logs :: "transaction \<Rightarrow> log list" where
  "tx_logs t = (case tx_receipt t of None \<Rightarrow> [] | Some r \<Rightarrow> rc_logs r)"

definition own_receipt :: "transaction \<Rightarrow> bool" where
  "own_receipt t \<longleftrightarrow> (case tx_receipt t of None \<Rightarrow> False | Some r \<Rightarrow> rc_transaction_hash r = tx_hash t)"

definition response_hash :: "(json, jdict) rpc_response \<Rightarrow> string res" where
  "response_hash r = rbind (rpc_response_to_result r) (\<lambda>d.
     case d of None \<Rightarrow> Inl TypeError | Some d \<Rightarrow> get_str d ''transactionHash'')"

lemma tx_hash_fill [simp]: "tx_hash (fill_with_receipt r t) = tx_hash t"
  by (simp add: fill_with_receipt_def Let_def)

lemma tx_receipt_fill [simp]: "tx_receipt (fill_with_receipt r t) = Some r"
  by (simp add: fill_with_receipt_def Let_def)

lemma receipt_hash:
  "receipt_from_rpc x ts bh bn d = Inr rc \<Longrightarrow> get_str d ''transactionHash'' = Inr (rc_transaction_hash rc)"
  by (auto simp: receipt_from_rpc_def rbind_Inr_iff)

lemma read_receipt_Inr:
  assumes "read_receipt x mapper txs r = Inr (i, rc)"
  shows "response_hash r = Inr (rc_transaction_hash rc) \<and> map_of mapper (rc_transaction_hash rc) = Some i"
proof -
  from assms obtain d h where d: "rpc_response_to_result r = Inr (Some d)" and h: "get_str d ''transactionHash'' = Inr h"
    and i: "dict_get mapper h = Inr i"
    and rc: "receipt_from_rpc x (tx_block_timestamp (txs ! i)) (tx_block_hash (txs ! i))
                   (tx_block_number (txs ! i)) d = Inr rc"
    by (auto simp: read_receipt_def rbind_Inr_iff split: option.splits)
  from receipt_hash [OF rc] h have "h = rc_transaction_hash rc" by simp
  with d h i show ?thesis by (simp add: response_hash_def dict_get_def split: option.splits)
qed

lemma mset_eq_map: "mset xs = mset (map f ys) \<Longrightarrow> \<exists>zs. mset zs = mset ys \<and> xs = map f zs"
proof (induction xs arbitrary: ys)
  case (Cons x xs)
  from Cons.prems have "x \<in> set (map f ys)" by (metis list.set_intros(1) set_mset_mset)
  then obtain y as bs where ys: "ys = as @ y # bs" "x = f y" by (auto dest: split_list)
  with Cons.prems have "mset xs = mset (map f (as @ bs))" by simp
  from Cons.IH [OF this] obtain zs where "mset zs = mset (as @ bs)" "xs = map f zs" by blast
  then have "mset (y # zs) = mset ys \<and> x # xs = map f (y # zs)" by (simp add: ys)
  then show ?case ..
qed simp

lemma update_fresh: "k \<notin> fst ` set al \<Longrightarrow> AList.update k v al = al @ [(k, v)]"
  by (induction al) auto

text \<open>The loop over the responses, for responses of distinct known positions.\<close>

lemma collect_receipt_loop:
  assumes "sfor (collect_receipt x mapper) rs (txs, logs) = ((txs', logs'), Inr ())"
    and "map response_hash rs = map (\<lambda>i. Inr (tx_hash (txs ! i))) ps"
    and "distinct (map (\<lambda>i. tx_hash (txs ! i)) ps)" and "\<forall>i \<in> set ps. i < length txs \<and> map_of mapper (tx_hash (txs ! i)) = Some i"
  shows "map tx_hash txs' = map tx_hash txs \<and> (\<forall>j. j \<notin> set ps \<longrightarrow> txs' ! j = txs ! j) \<and>
    (\<forall>i \<in> set ps. own_receipt (txs' ! i)) \<and> logs' = logs @ concat (map (\<lambda>i. tx_logs (txs' ! i)) ps)"
  using assms
proof (induction rs arbitrary: txs logs ps)
  case (Cons r rs)
  from Cons.prems(2) obtain p ps' where ps: "ps = p # ps'" and rp: "response_hash r = Inr (tx_hash (txs ! p))"
    and rs: "map response_hash rs = map (\<lambda>i. Inr (tx_hash (txs ! i))) ps'" by (cases ps) auto
  from Cons.prems(1) obtain i rc where r: "read_receipt x mapper txs r = Inr (i, rc)"
    and rest: "sfor (collect_receipt x mapper) rs (txs[i := fill_with_receipt rc (txs ! i)], logs @ rc_logs rc) =
      ((txs', logs'), Inr ())"
    by (cases "read_receipt x mapper txs r")
      (force simp add: collect_receipt_def [of x mapper r "(txs, logs)"] split_beta)+
  from read_receipt_Inr [OF r] rp have h: "rc_transaction_hash rc = tx_hash (txs ! p)" by simp
  with read_receipt_Inr [OF r] Cons.prems(4) ps have i: "i = p" by simp
  let ?t = "txs[p := fill_with_receipt rc (txs ! p)]"
  have p: "p < length txs" "p \<notin> set ps'" using Cons.prems(3,4) ps by auto
  have hash: "tx_hash (?t ! j) = tx_hash (txs ! j)" for j
    by (cases "j = p") (simp_all add: p)
  have ih: "map tx_hash txs' = map tx_hash ?t \<and> (\<forall>j. j \<notin> set ps' \<longrightarrow> txs' ! j = ?t ! j) \<and>
    (\<forall>i \<in> set ps'. own_receipt (txs' ! i)) \<and>
    logs' = (logs @ rc_logs rc) @ concat (map (\<lambda>i. tx_logs (txs' ! i)) ps')"
    using Cons.prems(3,4) by (intro Cons.IH [OF rest [unfolded i]]) (simp_all add: hash rs ps)
  have "txs' ! p = fill_with_receipt rc (txs ! p)" using ih p by simp
  moreover have "map tx_hash ?t = map tx_hash txs" using hash by (simp add: list_eq_iff_nth_eq)
  ultimately show ?case using ih p h by (simp add: ps own_receipt_def tx_logs_def)
qed simp

lemma transaction_mapper_lookup:
  assumes "distinct (map (\<lambda>i. tx_hash (txs ! i)) batch)"
  shows "map fst (transaction_mapper txs batch) = map (\<lambda>i. tx_hash (txs ! i)) batch \<and>
    (\<forall>i \<in> set batch. map_of (transaction_mapper txs batch) (tx_hash (txs ! i)) = Some i)"
proof -
  have "fold (\<lambda>i. AList.update (tx_hash (txs ! i)) i) batch d = d @ map (\<lambda>i. (tx_hash (txs ! i), i)) batch"
    if "distinct (map fst d @ map (\<lambda>i. tx_hash (txs ! i)) batch)" for d
    using that
  proof (induction batch arbitrary: d)
    case (Cons i js)
    then have "AList.update (tx_hash (txs ! i)) i d = d @ [(tx_hash (txs ! i), i)]"
      by (intro update_fresh) auto
    with Cons show ?case by simp
  qed simp
  from this [of "[]"] assms
  have m: "transaction_mapper txs batch = map (\<lambda>i. (tx_hash (txs ! i), i)) batch"
    by (simp add: transaction_mapper_def)
  moreover have "distinct (map fst (map (\<lambda>i. (tx_hash (txs ! i), i)) batch))" using assms by (simp add: comp_def)
  then have "map_of (map (\<lambda>i. (tx_hash (txs ! i), i)) batch) (tx_hash (txs ! i)) = Some i" if "i \<in> set batch" for i
    using that by (intro map_of_is_SomeI) auto
  ultimately show ?thesis by (simp add: comp_def)
qed

section \<open>Properties\<close>

text \<open>C21: with one filter by logs whose addresses are spelled as the chain spells them (no address of a log differs
  from one of the filter only in the case of its letters), and a node that answers eth_getLogs as documented, a transaction
  of the range satisfies the specification the block job collects by, before its receipt has been
  fetched, exactly when with its receipt it satisfies the filter.\<close>

theorem log_filter_selects:
  assumes "select_blocks x get_logs True [TransactionFilterByLogs tas] a b = Inr (blocks, spec)"
    and "answers_get_logs x chain get_logs" and "list_all (\<lambda>ta. checksum_faithful x chain (snd ta)) tas"
    and "t \<in> set chain" and "tx_block_number t = Some n" and "a \<le> n" and "n \<le> b"
    and "distinct (map tx_hash chain)"
  shows "is_satisfied_by spec (t\<lparr>tx_receipt := None\<rparr>) \<longleftrightarrow>
    filter_is_satisfied_by (TransactionFilterByLogs tas) t"
proof -
  let ?s = "\<lparr>sel_specification = AlwaysFalseSpecification, sel_filter_blocks = [], sel_only_log_filter = True\<rparr>"
  from assms(1) obtain s where s: "rfold (select_by_logs x get_logs a b) ?s tas = Inr s"
    and spec: "spec = sel_specification s"
    by (cases "rfold (select_by_logs x get_logs a b) ?s tas") (simp_all add: select_blocks_def select_step_def)
  have t: "u = t" if "u \<in> set chain" "tx_hash u = tx_hash t" for u
    using assms(8) that(1) assms(4) that(2) unfolding distinct_map by (meson inj_onD)
  have h: "tx_hash (t\<lparr>tx_receipt := None\<rparr>) = tx_hash t" by simp
  have "tx_hash (t\<lparr>tx_receipt := None\<rparr>) \<in> snd ` set logs \<longleftrightarrow> topics_satisfied (fst ta) (snd ta) t"
    if "ta \<in> set tas" "to_filter_params x a b ta = Inr fp" "get_logs fp = Inr logs" for ta fp logs
  proof -
    from assms(3) that(1) have "checksum_faithful x chain (snd ta)" by (simp add: list_all_iff)
    from log_filter_hashes [OF assms(2) this that(2,3) assms(4,5,6,7) t]
    show ?thesis unfolding h by this
  qed
  from rfold_select_spec [OF s this]
  have "is_satisfied_by (sel_specification s) (t\<lparr>tx_receipt := None\<rparr>) \<longleftrightarrow>
      (\<exists>ta \<in> set tas. topics_satisfied (fst ta) (snd ta) t)" by simp
  then show ?thesis by (simp add: spec filter_is_satisfied_by_def list_ex_iff split_beta)
qed

text \<open>For an address spelled otherwise the two differ: the node is asked with the checksummed address and answers, but
  the filter compares the address as it was given, so the transaction is collected and then not recognised.\<close>

lemma other_spelling_diverges:
  assumes "select_blocks x get_logs True [TransactionFilterByLogs [([], [addr])]] a b = Inr (blocks, spec)"
    and "answers_get_logs x chain get_logs" and "t \<in> set chain" and "tx_block_number t = Some n" and "a \<le> n" and "n \<le> b"
    and "tx_receipt t = Some r" and "l \<in> set (rc_logs r)" and "to_checksum_address x addr = Inr c"
    and "to_checksum_address x (lg_address l) = Inr c" and "addr \<notin> lg_address ` set (rc_logs r)"
  shows "is_satisfied_by spec (t\<lparr>tx_receipt := None\<rparr>) \<and> \<not> filter_is_satisfied_by (TransactionFilterByLogs [([], [addr])]) t"
proof -
  let ?s = "\<lparr>sel_specification = AlwaysFalseSpecification, sel_filter_blocks = [], sel_only_log_filter = True\<rparr>"
  from assms(1) obtain s where s: "select_by_logs x get_logs a b ?s ([], [addr]) = Inr s"
    and spec: "spec = sel_specification s"
    by (cases "select_by_logs x get_logs a b ?s ([], [addr])") (simp_all add: select_blocks_def select_step_def)
  then obtain fp logs where fp: "to_filter_params x a b ([], [addr]) = Inr fp" and logs: "get_logs fp = Inr logs"
    and s': "sel_specification s = spec_or AlwaysFalseSpecification (TransactionHashSpecification (remdups (map snd logs)))"
    by (auto simp: select_by_logs_def rbind_Inr_iff)
  have range: "fp_topics fp = None" "fp_address fp = Some [c]" "fp_from_block fp = a" "fp_to_block fp = b"
    using fp assms(9) by (auto simp: to_filter_params_def)
  then have "node_log_matches x fp l" using assms(10) by (simp add: node_log_matches_def)
  then have "(n, tx_hash t) \<in> set logs"
    using assms(2) [unfolded answers_get_logs_def, rule_format, OF logs] assms(3-8) range by blast
  then have "is_satisfied_by (sel_specification s) (t\<lparr>tx_receipt := None\<rparr>)"
    by (force simp: s' spec_or_def image_iff)
  moreover have "\<not> filter_is_satisfied_by (TransactionFilterByLogs [([], [addr])]) t"
    using assms(7,11) by (auto simp: filter_is_satisfied_by_def topics_satisfied_def log_matches_def list_ex_iff)
  ultimately show ?thesis by (simp add: spec)
qed

text \<open>For each hour in which a block lies there is exactly one entry of the time table, and it
  names the lowest block of that hour.\<close>

lemma ts_mappers_first_block:
  "distinct (map tm_timestamp (ts_mappers bs)) \<and> tm_timestamp ` set (ts_mappers bs) = hour_of ` set bs \<and>
   (\<forall>m \<in> set (ts_mappers bs).
      (\<exists>b \<in> set bs. hour_of b = tm_timestamp m \<and> bl_number b = tm_block_number m) \<and>
      (\<forall>b \<in> set bs. hour_of b = tm_timestamp m \<longrightarrow> tm_block_number m \<le> bl_number b))"
proof -
  let ?d = "fold ts_step bs []"
  have d: "distinct (map fst ?d)" by (simp add: ts_fold_distinct)
  have m: "tm_timestamp \<circ> new_block_ts_mapper = fst"
    by (simp add: fun_eq_iff new_block_ts_mapper_def)
  have "fst ` set ?d = hour_of ` set bs"
    using ts_fold_dom [of bs "[]"] by (simp add: dom_map_of_conv_image_fst)
  moreover have "(\<exists>b \<in> set bs. hour_of b = fst hn \<and> bl_number b = snd hn) \<and>
      (\<forall>b \<in> set bs. hour_of b = fst hn \<longrightarrow> snd hn \<le> bl_number b)" if "hn \<in> set ?d" for hn
    using ts_fold_lookup [of bs "[]" "fst hn" "snd hn"] map_of_is_SomeI [OF d] that by simp
  ultimately show ?thesis
    using d by (auto simp: ts_mappers_def m image_comp new_block_ts_mapper_def)
qed

text \<open>C25: when a batch of transactions with distinct hashes has been collected from a node that
  answers each hash asked for with one receipt of that hash, in any order, every transaction of the
  batch has its own receipt, no other transaction has changed, and exactly the logs of these
  receipts have been added.\<close>

theorem receipts_filled:
  assumes "collect_receipts x make_request True batch (txs, logs) = ((txs', logs'), Inr ())"
    and "receipt_rpc_requests make_request (map (\<lambda>i. tx_hash (txs ! i)) batch) True = Inr rs"
    and "mset (map response_hash rs) = mset (map (\<lambda>i. Inr (tx_hash (txs ! i))) batch)"
    and "distinct (map (\<lambda>i. tx_hash (txs ! i)) batch)" and "\<forall>i \<in> set batch. i < length txs"
  shows "map tx_hash txs' = map tx_hash txs \<and> (\<forall>j. j \<notin> set batch \<longrightarrow> txs' ! j = txs ! j) \<and>
    (\<forall>i \<in> set batch. own_receipt (txs' ! i)) \<and>
    mset logs' = mset logs + mset (concat (map (\<lambda>i. tx_logs (txs' ! i)) batch))"
proof -
  note mapper = transaction_mapper_lookup [OF assms(4)]
  obtain ps where ps: "mset ps = mset batch" "map response_hash rs = map (\<lambda>i. Inr (tx_hash (txs ! i))) ps"
    using mset_eq_map [OF assms(3)] by blast
  have run: "sfor (collect_receipt x (transaction_mapper txs batch)) rs (txs, logs) = ((txs', logs'), Inr ())"
    using assms(1,2) mapper by (simp add: collect_receipts_def Let_def)
  have set: "set ps = set batch" using ps(1) by (metis set_mset_mset)
  have "distinct (map (\<lambda>i. tx_hash (txs ! i)) ps)"
    using assms(4) ps(1) by (metis mset_map mset_eq_imp_distinct_iff)
  from collect_receipt_loop [OF run ps(2) this] assms(5) mapper
  have "map tx_hash txs' = map tx_hash txs \<and> (\<forall>j. j \<notin> set ps \<longrightarrow> txs' ! j = txs ! j) \<and>
    (\<forall>i \<in> set ps. own_receipt (txs' ! i)) \<and> logs' = logs @ concat (map (\<lambda>i. tx_logs (txs' ! i)) ps)"
    by (simp add: set)
  moreover have "mset (concat (map (\<lambda>i. tx_logs (txs' ! i)) ps)) = mset (concat (map (\<lambda>i. tx_logs (txs' ! i)) batch))"
    using ps(1) by (simp only: mset_concat mset_map flip: sum_mset_sum_list)
  ultimately show ?thesis by (simp add: set)
qed

section \<open>Witnesses\<close>

text \<open>A node that answers from a chain.\<close>

definition node_of :: "ext \<Rightarrow> transaction list \<Rightarrow> filter_params \<Rightarrow> node_log list res" where
  "node_of x chain fp =
     Inr (concat (map (\<lambda>t. case (tx_block_number t, tx_receipt t) of
        (Some n, Some r) \<Rightarrow>
          if fp_from_block fp \<le> n \<and> n \<le> fp_to_block fp \<and> list_ex (node_log_matches x fp) (rc_logs r)
          then [(n, tx_hash t)] else []
      | _ \<Rightarrow> []) chain))"

lemma node_of_answers: "answers_get_logs x chain (node_of x chain)"
  by (force simp: answers_get_logs_def node_of_def list_ex_iff split: option.splits if_splits)

definition sample_receipt :: "log list \<Rightarrow> receipt" where
  "sample_receipt logs = \<lparr>rc_transaction_hash = ''0xt'', rc_transaction_index = 0, rc_contract_address = None,
     rc_status = 1, rc_logs = logs, rc_root = None, rc_cumulative_gas_used = Some 5, rc_gas_used = Some 5,
     rc_effective_gas_price = None, rc_l1_fee = None, rc_l1_fee_scalar = None, rc_l1_gas_used = None,
     rc_l1_gas_price = None, rc_blob_gas_used = None, rc_blob_gas_price = None\<rparr>"

definition sample_transaction :: "int \<Rightarrow> log list \<Rightarrow> transaction" where
  "sample_transaction n logs = \<lparr>tx_hash = ''0xt'', tx_nonce = 0, tx_transaction_index = 0,
     tx_from_address = ''0xa'', tx_to_address = None, tx_value = 0, tx_gas_price = 0, tx_gas = 0,
     tx_transaction_type = 0, tx_input = ''0x'', tx_block_number = Some n, tx_block_timestamp = Some 5,
     tx_block_hash = Some ''0xb'', tx_blob_versioned_hashes = [], tx_max_fee_per_gas = None,
     tx_max_priority_fee_per_gas = None, tx_receipt = Some (sample_receipt logs), tx_exist_error = False,
     tx_error = None, tx_revert_reason = None\<rparr>"

definition sample_block :: "int \<Rightarrow> int \<Rightarrow> block" where
  "sample_block n ts = \<lparr>bl_number = n, bl_timestamp = ts, bl_hash = ''0xb'', bl_parent_hash = ''0xp'',
     bl_nonce = ''0x0'', bl_gas_limit = 0, bl_gas_used = 0, bl_base_fee_per_gas = 0, bl_blob_gas_used = 0,
     bl_excess_blob_gas = 0, bl_difficulty = 0, bl_size = 0, bl_miner = ''0xa'', bl_sha3_uncles = '''',
     bl_transactions_root = '''', bl_state_root = '''', bl_receipts_root = '''', bl_transactions = [],
     bl_total_difficulty = 0, bl_extra_data = None, bl_withdrawals_root = None\<rparr>"

theorem log_filter_selects_witness:
  "\<exists>blocks spec.
     select_blocks sample_ext (node_of sample_ext [sample_transaction 7 [sample_log]]) True
       [TransactionFilterByLogs [([''0x00''], [''0xa''])]] 5 9 = Inr (blocks, spec) \<and>
     is_satisfied_by spec ((sample_transaction 7 [sample_log])\<lparr>tx_receipt := None\<rparr>)"
proof -
  let ?t = "sample_transaction 7 [sample_log]"
  have sel: "select_blocks sample_ext (node_of sample_ext [?t]) True
       [TransactionFilterByLogs [([''0x00''], [''0xa''])]] 5 9 =
     Inr ([7], spec_or AlwaysFalseSpecification (TransactionHashSpecification [''0xt'']))"
    by (simp add: select_blocks_def select_step_def select_by_logs_def to_filter_params_def node_of_def
        node_log_matches_def sample_ext_def sample_log_def sample_receipt_def sample_transaction_def)
  have c: "checksum_faithful sample_ext [?t] [''0xa'']"
    by (simp add: checksum_faithful_def sample_ext_def sample_log_def sample_receipt_def sample_transaction_def)
  have "is_satisfied_by (spec_or AlwaysFalseSpecification (TransactionHashSpecification [''0xt'']))
      (?t\<lparr>tx_receipt := None\<rparr>) \<longleftrightarrow>
    filter_is_satisfied_by (TransactionFilterByLogs [([''0x00''], [''0xa''])]) ?t"
    by (rule log_filter_selects [OF sel node_of_answers, where n = 7])
      (use c in \<open>simp_all add: sample_transaction_def\<close>)
  moreover have "filter_is_satisfied_by (TransactionFilterByLogs [([''0x00''], [''0xa''])]) ?t"
    by (simp add: filter_is_satisfied_by_def topics_satisfied_def log_matches_def sample_log_def
        sample_receipt_def sample_transaction_def)
  ultimately show ?thesis using sel by blast
qed

theorem ts_mappers_first_block_witness:
  "tm_timestamp ` set (ts_mappers [sample_block 7 3700, sample_block 6 3600]) = {3600} \<and>
   distinct (map tm_timestamp (ts_mappers [sample_block 7 3700, sample_block 6 3600]))"
  using ts_mappers_first_block [of "[sample_block 7 3700, sample_block 6 3600]"]
  by (simp add: hour_of_def sample_block_def)

definition sample_receipt_response :: "(json, jdict) rpc_response" where
  "sample_receipt_response = \<lparr>resp_id = Some (JInt 1), resp_result = Some
     [(''transactionHash'', JStr ''0xt''), (''transactionIndex'', JStr ''0x0''), (''status'', JStr ''0x1''),
      (''logs'', JList [])], resp_error = None\<rparr>"

theorem receipts_filled_witness:
  "\<exists>txs' logs'.
     collect_receipts sample_ext (\<lambda>_. Inr [sample_receipt_response]) True [0] ([sample_transaction 7 []], []) =
       ((txs', logs'), Inr ()) \<and> own_receipt (txs' ! 0)"
proof -
  have r: "snd (collect_receipts sample_ext (\<lambda>_. Inr [sample_receipt_response]) True [0]
      ([sample_transaction 7 []], [])) = Inr ()" by code_simp
  obtain txs' logs' where run: "collect_receipts sample_ext (\<lambda>_. Inr [sample_receipt_response]) True [0]
      ([sample_transaction 7 []], []) = ((txs', logs'), Inr ())"
    by (metis r prod.collapse)
  have "response_hash sample_receipt_response = Inr ''0xt''" by code_simp
  then have "own_receipt (txs' ! 0)"
    using receipts_filled [OF run, of "[sample_receipt_response]"]
    by (simp add: receipt_rpc_requests_def send_requests_def Let_def sample_transaction_def)
  with run show ?thesis by blast
qed

end
