(* ===== verification/Balances.thy ===== *)
theory Balances
  imports TokenTransfers Blocks
begin

text \<open>
  \<open>indexer/jobs/export_token_balances_job.py\<close>, \<open>indexer/jobs/export_coin_balances_job.py\<close> and
  \<open>indexer/jobs/export_contracts_job.py\<close> with the data classes \<open>TokenBalance\<close>,
  \<open>CurrentTokenBalance\<close> and \<open>CoinBalance\<close>: which balances and names to ask for, the calls, what
  is made of the answers, and the sorting. A Python set of records is a list without repetitions.
  Failed decodings are logged by the exception recorder, which may fail itself.
\<close>

section \<open>Calls\<close>

text \<open>The answer of the \<open>i\<close>-th entry of a batch is the last one with id \<open>i\<close>.\<close>

definition answers_for :: "'q list \<Rightarrow> (json, 'r) rpc_response list \<Rightarrow> ('q \<times> (json, 'r) rpc_response) list res" where
  "answers_for entries response =
     rbind (zip_rpc_response (\<lambda>iq. JInt (int (fst iq))) (enumerate 0 entries) response)
       (\<lambda>answers. Inr (map (\<lambda>(iq, r). (snd iq, r)) answers))"

definition recorder_entry :: "log_number \<Rightarrow> string \<Rightarrow> string \<Rightarrow> string \<Rightarrow> string \<Rightarrow> log_entry" where
  "recorder_entry number dataclass message_type message level =
     \<lparr>log_block_number = number, log_dataclass = dataclass, log_message_type = message_type,
      log_message = message, log_level = level\<rparr>"

text \<open>A loop over answers that appends one result for each.\<close>

fun smap :: "('a \<Rightarrow> ('s, 'b) act) \<Rightarrow> 'a list \<Rightarrow> ('s, 'b list) act" where
  "smap f [] = sret []"
| "smap f (y # ys) = sbind (f y) (\<lambda>b. sbind (smap f ys) (\<lambda>bs. sret (b # bs)))"

section \<open>Token balances\<close>

definition BALANCE_OF_ABI_FUNCTION :: function_abi where
  "BALANCE_OF_ABI_FUNCTION = \<lparr>fn_name = ''balanceOf'', fn_inputs = [''address''], fn_outputs = [''uint256'']\<rparr>"

definition BALANCE_OF_WITH_TOKEN_ID_ABI_FUNCTION :: function_abi where
  "BALANCE_OF_WITH_TOKEN_ID_ABI_FUNCTION =
     \<lparr>fn_name = ''balanceOf'', fn_inputs = [''address'', ''uint256''], fn_outputs = [''uint256'']\<rparr>"

record token_balance_param =
  bp_address :: string
  bp_token_address :: string
  bp_token_id :: "int option"
  bp_token_type :: string
  bp_block_number :: "int option"
  bp_block_timestamp :: "int option"

record token_parameter =
  tp_param :: token_balance_param
  tp_param_data :: string
  tp_param_number :: string
  tp_block_number :: int

record token_balance =
  tb_address :: string
  tb_token_id :: "int option"
  tb_token_type :: string
  tb_token_address :: string
  tb_balance :: "int option"
  tb_block_number :: int
  tb_block_timestamp :: "int option"

fun fields_of :: "specific_transfer \<Rightarrow> transfer_fields" where
  "fields_of (ERC20TokenTransfer f _) = f"
| "fields_of (ERC721TokenTransfer f _) = f"
| "fields_of (ERC1155TokenTransfer f _ _) = f"

fun param_token_id :: "specific_transfer \<Rightarrow> int option" where
  "param_token_id (ERC1155TokenTransfer _ i _) = Some i"
| "param_token_id _ = None"

fun token_type_of :: "specific_transfer \<Rightarrow> string" where
  "token_type_of (ERC20TokenTransfer _ _) = ''ERC20''"
| "token_type_of (ERC721TokenTransfer _ _) = ''ERC721''"
| "token_type_of (ERC1155TokenTransfer _ _ _) = ''ERC1155''"

definition token_address_param :: "specific_transfer \<Rightarrow> string \<Rightarrow> token_balance_param" where
  "token_address_param t address =
     \<lparr>bp_address = address, bp_token_address = tf_token_address (fields_of t), bp_token_id = param_token_id t,
      bp_token_type = token_type_of t, bp_block_number = tf_block_number (fields_of t),
      bp_block_timestamp = tf_block_timestamp (fields_of t)\<rparr>"

text \<open>A transfer asks for the balances of both its ends, but not of the zero address.\<close>

definition transfer_params :: "specific_transfer \<Rightarrow> token_balance_param list" where
  "transfer_params t =
     (if tf_from_address (fields_of t) \<noteq> ZERO_ADDRESS then [token_address_param t (tf_from_address (fields_of t))] else []) @
     (if tf_to_address (fields_of t) \<noteq> ZERO_ADDRESS then [token_address_param t (tf_to_address (fields_of t))] else [])"

definition origin_parameters :: "specific_transfer list \<Rightarrow> token_balance_param list" where
  "origin_parameters token_transfers = remdups (concat (map transfer_params token_transfers))"

definition encode_balance_abi_parameter :: "ext \<Rightarrow> string \<Rightarrow> string \<Rightarrow> int option \<Rightarrow> string res" where
  "encode_balance_abi_parameter x address token_type token_id =
     (if token_type = ''ERC1155''
      then (case token_id of
              None \<Rightarrow> Inl TypeError
            | Some i \<Rightarrow> encode_abi x BALANCE_OF_WITH_TOKEN_ID_ABI_FUNCTION [AAddress address, AUint i]
                (function_abi_to_4byte_selector_str x BALANCE_OF_WITH_TOKEN_ID_ABI_FUNCTION))
      else encode_abi x BALANCE_OF_ABI_FUNCTION [AAddress address]
             (function_abi_to_4byte_selector_str x BALANCE_OF_ABI_FUNCTION))"

definition token_parameter_of :: "ext \<Rightarrow> token_balance_param \<Rightarrow> token_parameter res" where
  "token_parameter_of x p =
     rbind (encode_balance_abi_parameter x (bp_address p) (bp_token_type p) (bp_token_id p)) (\<lambda>data.
       case bp_block_number p of
         None \<Rightarrow> Inl TypeError
       | Some n \<Rightarrow> Inr \<lparr>tp_param = p, tp_param_data = data, tp_param_number = py_hex n, tp_block_number = n\<rparr>)"

definition extract_token_parameters :: "ext \<Rightarrow> specific_transfer list \<Rightarrow> token_parameter list res" where
  "extract_token_parameters x token_transfers = rmap (token_parameter_of x) (origin_parameters token_transfers)"

text \<open>\<open>if result: abi.decode(...)[0]\<close> on the hexadecimal text of an answer.\<close>

definition decode_first :: "ext \<Rightarrow> string list \<Rightarrow> string \<Rightarrow> abi_value res" where
  "decode_first x types result =
     rbind (bytes_fromhex (drop 2 result)) (\<lambda>b.
     rbind (abi_decode x types b) (\<lambda>vs. case vs of [] \<Rightarrow> Inl IndexError | v # _ \<Rightarrow> Inr v))"

definition decode_balance :: "ext \<Rightarrow> string option \<Rightarrow> int option res" where
  "decode_balance x result =
     (case result of
        None \<Rightarrow> Inr None
      | Some r \<Rightarrow> if r = [] then Inr None
          else rbind (decode_first x [''uint256''] r) (\<lambda>v. rbind (dec_uint (Some v)) (\<lambda>n. Inr (Some n))))"

definition balance_of_answer :: "ext \<Rightarrow> token_parameter \<times> (json, string) rpc_response
    \<Rightarrow> (('d, 'x) world, token_balance) act" where
  "balance_of_answer x pr =
     (let p = tp_param (fst pr);
          new_balance = \<lambda>balance. \<lparr>tb_address = str_lower (bp_address p), tb_token_id = bp_token_id p,
            tb_token_type = bp_token_type p, tb_token_address = str_lower (bp_token_address p),
            tb_balance = balance, tb_block_number = tp_block_number (fst pr),
            tb_block_timestamp = bp_block_timestamp p\<rparr>
      in sbind (lift_res (rpc_response_to_result (snd pr))) (\<lambda>result.
           case decode_balance x result of
             Inr balance \<Rightarrow> sret (new_balance balance)
           | Inl e \<Rightarrow> sthen (on_recorder (log_exception (recorder_entry (NumberInt (tp_block_number (fst pr)))
                 ''token_balance'' ''DecodeTokenBalanceFail'' (exc_text e) ''Warning'')))
               (sret (new_balance None))))"

definition token_balances_rpc_requests :: "ext \<Rightarrow> (jdict list \<Rightarrow> (json, string) rpc_response list res)
    \<Rightarrow> token_parameter list \<Rightarrow> bool \<Rightarrow> (('d, 'x) world, token_balance list) act" where
  "token_balances_rpc_requests x make_requests tokens is_batch =
     sbind (lift_res (rbind (send_requests make_requests is_batch (generate_eth_call_json_rpc
              (map (\<lambda>(idx, t). (bp_token_address (tp_param t), tp_param_data t, JStr (tp_param_number t), JInt (int idx)))
                (enumerate 0 tokens)))) (answers_for tokens)))
       (smap (balance_of_answer x))"

datatype balance_item = TokenBalanceItem token_balance | OtherItem

definition collect_balance_batch :: "ext \<Rightarrow> (jdict list \<Rightarrow> (json, string) rpc_response list res) \<Rightarrow> bool
    \<Rightarrow> token_parameter list \<Rightarrow> ((balance_item, 'x) world, unit) act" where
  "collect_balance_batch x make_requests is_batch parameters =
     sbind (token_balances_rpc_requests x make_requests parameters is_batch)
       (sfor (\<lambda>b. collect_item ''token_balance'' (TokenBalanceItem b)))"

text \<open>\<open>_process\<close>: the balances sorted, and of each address and token the one of the latest block. A
  \<open>CurrentTokenBalance\<close> has the fields of the balance it is made of.\<close>

definition process_token_balances :: "token_balance list \<Rightarrow> token_balance list \<times> token_balance list" where
  "process_token_balances balances =
     (let balances = sort_key (\<lambda>b. (tb_block_number b, tb_address b)) balances
      in (balances, distinct_collections_by_group (\<lambda>b. (tb_token_address b, tb_address b))
            (Some tb_block_number) balances))"

section \<open>Coin balances\<close>

record address_record =
  ar_address :: string
  ar_block_number :: "int option"
  ar_block_timestamp :: "int option"

record coin_balance =
  cb_address :: string
  cb_balance :: "int option"
  cb_block_number :: "int option"
  cb_block_timestamp :: "int option"

definition new_record :: "int option \<Rightarrow> int option \<Rightarrow> string option \<Rightarrow> address_record list" where
  "new_record number timestamp address =
     (case address of None \<Rightarrow> [] | Some a \<Rightarrow> [\<lparr>ar_address = a, ar_block_number = number, ar_block_timestamp = timestamp\<rparr>])"

definition transaction_records :: "transaction \<Rightarrow> address_record list" where
  "transaction_records t =
     new_record (tx_block_number t) (tx_block_timestamp t) (Some (tx_from_address t)) @
     new_record (tx_block_number t) (tx_block_timestamp t) (tx_to_address t)"

definition internal_records :: "contract_internal_transaction \<Rightarrow> address_record list" where
  "internal_records c =
     new_record (Some (ci_block_number c)) (Some (ci_block_timestamp c)) (ci_to_address c) @
     new_record (Some (ci_block_number c)) (Some (ci_block_timestamp c)) (ci_from_address c)"

definition distinct_addresses :: "block list \<Rightarrow> transaction list \<Rightarrow> contract_internal_transaction list
    \<Rightarrow> address_record list" where
  "distinct_addresses blocks transactions traces =
     remdups (concat (map (\<lambda>b. new_record (Some (bl_number b)) (Some (bl_timestamp b)) (Some (bl_miner b))) blocks) @
       concat (map transaction_records transactions) @ concat (map internal_records traces))"

text \<open>The number asked for has to be there: \<open>hex(None)\<close> raises.\<close>

definition balance_request :: "nat \<times> address_record \<Rightarrow> (string \<times> int \<times> json) res" where
  "balance_request ir =
     (case ar_block_number (snd ir) of
        None \<Rightarrow> Inl TypeError
      | Some n \<Rightarrow> Inr (ar_address (snd ir), n, JInt (int (fst ir))))"

definition coin_balance_of_answer :: "ext \<Rightarrow> address_record \<times> (json, string) rpc_response
    \<Rightarrow> (('d, 'x) world, coin_balance) act" where
  "coin_balance_of_answer x ar =
     (let a = fst ar;
          new_balance = \<lambda>balance. \<lparr>cb_address = ar_address a, cb_balance = balance,
            cb_block_number = ar_block_number a, cb_block_timestamp = ar_block_timestamp a\<rparr>;
          number = NumberInt (case ar_block_number a of None \<Rightarrow> 0 | Some n \<Rightarrow> n)
      in case rpc_response_to_result (snd ar) of
           Inl (RPCNotReachable message) \<Rightarrow>
             sthen (on_recorder (log_exception (recorder_entry number ''coin_balance'' ''RPCNotReachable'' message ''Error'')))
               (sret (new_balance None))
         | Inl e \<Rightarrow> sraise e
         | Inr result \<Rightarrow>
             (case result of
                None \<Rightarrow> sret (new_balance None)
              | Some r \<Rightarrow> if r = [] then sret (new_balance None)
                  else sbind (lift_res (to_int_hexstr x r)) (\<lambda>n. sret (new_balance (Some n)))))"

definition coin_balances_rpc_requests :: "ext \<Rightarrow> (jdict list \<Rightarrow> (json, string) rpc_response list res)
    \<Rightarrow> address_record list \<Rightarrow> bool \<Rightarrow> (('d, 'x) world, coin_balance list) act" where
  "coin_balances_rpc_requests x make_requests addresses is_batch =
     sbind (lift_res (rbind (rmap balance_request (enumerate 0 addresses)) (\<lambda>rs.
              rbind (send_requests make_requests is_batch (generate_get_balance_json_rpc rs)) (answers_for addresses))))
       (smap (coin_balance_of_answer x))"

datatype coin_item = CoinBalanceItem coin_balance

definition collect_coin_batch :: "ext \<Rightarrow> (jdict list \<Rightarrow> (json, string) rpc_response list res) \<Rightarrow> bool
    \<Rightarrow> address_record list \<Rightarrow> ((coin_item, 'x) world, unit) act" where
  "collect_coin_batch x make_requests is_batch coin_addresses =
     sbind (coin_balances_rpc_requests x make_requests coin_addresses is_batch)
       (sfor (\<lambda>b. collect_item ''coin_balance'' (CoinBalanceItem b)))"

definition process_coin_balances :: "coin_balance list \<Rightarrow> coin_balance list" where
  "process_coin_balances balances = sort_key (\<lambda>b. (int_or_0 (cb_block_number b), cb_address b)) balances"

section \<open>Contracts\<close>

definition CONTRACT_NAME_ABI :: function_abi where
  "CONTRACT_NAME_ABI = \<lparr>fn_name = ''name'', fn_inputs = [], fn_outputs = [''string'']\<rparr>"

record contract_call =
  cc_contract :: contract
  cc_param_to :: string
  cc_param_data :: string
  cc_param_number :: string

text \<open>A trace that created a contract: its address is there and not empty, and it succeeded.\<close>

definition created_address :: "trace \<Rightarrow> string option" where
  "created_address t =
     (if tr_trace_type t \<in> {Some ''create'', Some ''create2''} \<and> tr_status t = Some 1
      then (case tr_to_address t of None \<Rightarrow> None | Some a \<Rightarrow> if length a > 0 then Some a else None)
      else None)"

definition contract_param_data :: "ext \<Rightarrow> string" where
  "contract_param_data x =
     (case encode_abi x CONTRACT_NAME_ABI [] (function_abi_to_4byte_selector_str x CONTRACT_NAME_ABI) of
        Inl _ \<Rightarrow> ''0x'' | Inr data \<Rightarrow> data)"

definition contract_call_of :: "ext \<Rightarrow> trace \<Rightarrow> contract_call list" where
  "contract_call_of x t =
     (case created_address t of
        None \<Rightarrow> []
      | Some a \<Rightarrow> [\<lparr>cc_contract = extract_contract_from_trace t, cc_param_to = a,
                     cc_param_data = contract_param_data x, cc_param_number = py_hex (tr_block_number t)\<rparr>])"

definition build_contracts :: "ext \<Rightarrow> trace list \<Rightarrow> contract_call list" where
  "build_contracts x traces = concat (map (contract_call_of x) traces)"

definition decode_name :: "ext \<Rightarrow> string option \<Rightarrow> string res" where
  "decode_name x result =
     (case result of
        None \<Rightarrow> Inl TypeError
      | Some r \<Rightarrow> rbind (decode_first x [''string''] r) (\<lambda>v.
          case v of AString s \<Rightarrow> Inr (filter (\<lambda>c. c \<noteq> CHR 0x00) s) | _ \<Rightarrow> Inl AttributeError))"

text \<open>One answer names its contract, in place; a name that cannot be decoded is logged.\<close>

definition name_contract :: "ext \<Rightarrow> nat \<times> (json, string) rpc_response \<Rightarrow> contract list \<Rightarrow> (('d, 'x) world, contract list) act"
  where
  "name_contract x ir contracts =
     (let c = contracts ! fst ir
      in sbind (lift_res (rpc_response_to_result (snd ir))) (\<lambda>result.
           case decode_name x result of
             Inr name \<Rightarrow> sret (contracts[fst ir := c\<lparr>ct_name := Some name\<rparr>])
           | Inl e \<Rightarrow> sthen (on_recorder (log_exception (recorder_entry (NumberInt (ct_block_number c))
                 ''contract'' ''DecodeNameFail'' (exc_text e) ''Warning'')))
               (sret (contracts[fst ir := c\<lparr>ct_name := None\<rparr>]))))"

fun name_contracts :: "ext \<Rightarrow> (nat \<times> (json, string) rpc_response) list \<Rightarrow> contract list
    \<Rightarrow> (('d, 'x) world, contract list) act" where
  "name_contracts x [] contracts = sret contracts"
| "name_contracts x (ir # irs) contracts = sbind (name_contract x ir contracts) (name_contracts x irs)"

definition contract_info_rpc_requests :: "ext \<Rightarrow> (jdict list \<Rightarrow> (json, string) rpc_response list res)
    \<Rightarrow> contract_call list \<Rightarrow> bool \<Rightarrow> (('d, 'x) world, contract list) act" where
  "contract_info_rpc_requests x make_requests calls is_batch =
     sbind (lift_res (rbind (send_requests make_requests is_batch (generate_eth_call_json_rpc
              (map (\<lambda>(idx, c). (cc_param_to c, cc_param_data c, JStr (cc_param_number c), JInt (int idx)))
                (enumerate 0 calls)))) (answers_for [0..<length calls])))
       (\<lambda>answers. name_contracts x answers (map cc_contract calls))"

datatype contract_item = ContractItem contract

definition collect_contract_batch :: "ext \<Rightarrow> (jdict list \<Rightarrow> (json, string) rpc_response list res) \<Rightarrow> bool
    \<Rightarrow> contract_call list \<Rightarrow> ((contract_item, 'x) world, unit) act" where
  "collect_contract_batch x make_requests is_batch calls =
     sbind (contract_info_rpc_requests x make_requests calls is_batch)
       (sfor (\<lambda>c. collect_item ''contract'' (ContractItem c)))"

definition sender_of :: "block list \<Rightarrow> (string \<times> string) list" where
  "sender_of blocks = fold (\<lambda>t. AList.update (tx_hash t) (tx_from_address t))
     (concat (map bl_transactions blocks)) []"

definition fill_sender :: "(string \<times> string) list \<Rightarrow> contract \<Rightarrow> contract res" where
  "fill_sender transaction_mapping c =
     rbind (case ct_transaction_hash c of None \<Rightarrow> Inl (KeyError ''None'') | Some h \<Rightarrow> dict_get transaction_mapping h)
       (\<lambda>a. Inr (fill_transaction_from_address (Some a) c))"

text \<open>Strings with \<open>None\<close> before them all: an address of a contract is never \<open>None\<close>.\<close>

definition text_or_empty :: "string option \<Rightarrow> string" where
  "text_or_empty s = (case s of None \<Rightarrow> [] | Some t \<Rightarrow> t)"

definition process_contracts :: "block list \<Rightarrow> contract list \<Rightarrow> contract list res" where
  "process_contracts blocks contracts =
     rbind (rmap (fill_sender (sender_of blocks)) contracts) (\<lambda>cs.
       Inr (sort_key (\<lambda>c. (ct_block_number c, ct_transaction_index c, text_or_empty (ct_address c))) cs))"

section \<open>Lemmas\<close>

lemma new_record_set: "r \<in> set (new_record n ts a) \<longleftrightarrow> a = Some (ar_address r) \<and> ar_block_number r = n \<and> ar_block_timestamp r = ts"
  by (cases r) (auto simp: new_record_def split: option.splits)

lemma origin_parameters_set:
  "p \<in> set (origin_parameters ts) \<longleftrightarrow>
     (\<exists>t \<in> set ts. \<exists>a \<in> {tf_from_address (fields_of t), tf_to_address (fields_of t)}.
        a \<noteq> ZERO_ADDRESS \<and> p = token_address_param t a)"
  by (auto simp: origin_parameters_def transfer_params_def)

lemma rmap_keeps: "rmap f xs = Inr ys \<Longrightarrow> (\<And>x y. f x = Inr y \<Longrightarrow> g y = x) \<Longrightarrow> map g ys = xs"
proof (induction xs arbitrary: ys)
  case (Cons x xs)
  from Cons.prems(1) obtain y zs where y: "f x = Inr y" and zs: "rmap f xs = Inr zs" "ys = y # zs"
    by (auto simp: rbind_Inr_iff)
  with Cons.IH [OF zs(1) Cons.prems(2)] Cons.prems(2) [OF y] show ?case by simp
qed simp

lemma token_parameter_param: "token_parameter_of x p = Inr q \<Longrightarrow> tp_param q = p"
  by (auto simp: token_parameter_of_def rbind_Inr_iff split: option.splits)

lemma length_name_contracts:
  "name_contracts x irs cs w = (w', Inr cs') \<Longrightarrow> length cs' = length cs"
proof (induction irs arbitrary: cs w)
  case (Cons ir irs)
  from Cons.prems obtain w1 cs1 where one: "name_contract x ir cs w = (w1, Inr cs1)"
    and rest: "name_contracts x irs cs1 w1 = (w', Inr cs')"
    by (auto simp: sbind_def split: prod.splits sum.splits)
  from one have "length cs1 = length cs"
    by (auto simp: name_contract_def Let_def sbind_def sthen_def lift_res_def split: prod.splits sum.splits)
  with Cons.IH [OF rest] show ?case by simp
qed simp

lemma sender_of_lookup:
  assumes "map_of (sender_of blocks) h = Some a"
  shows "\<exists>t \<in> set (concat (map bl_transactions blocks)). tx_hash t = h \<and> tx_from_address t = a"
proof -
  have "map_of (fold (\<lambda>t. AList.update (tx_hash t) (tx_from_address t)) ts d) h = Some a \<Longrightarrow>
      map_of d h = Some a \<or> (\<exists>t \<in> set ts. tx_hash t = h \<and> tx_from_address t = a)" for ts d
  proof (induction ts arbitrary: d)
    case (Cons t ts)
    from Cons.IH [of "AList.update (tx_hash t) (tx_from_address t) d"] Cons.prems
    show ?case by (auto simp: map_of_upd split: if_splits)
  qed simp
  from this [of "concat (map bl_transactions blocks)" "[]"] assms show ?thesis by (simp add: sender_of_def)
qed

section \<open>Properties\<close>

text \<open>The balances asked for are those of both ends of each transfer except the zero address,
  each with the token, the token id of an ERC1155 transfer and the block, and each once.\<close>

lemma token_parameters_complete:
  assumes "extract_token_parameters x ts = Inr ps"
  shows "distinct (map tp_param ps) \<and>
    set (map tp_param ps) = {token_address_param t a | t a. t \<in> set ts \<and> a \<noteq> ZERO_ADDRESS \<and>
      (a = tf_from_address (fields_of t) \<or> a = tf_to_address (fields_of t))}"
proof -
  have "map tp_param ps = origin_parameters ts"
    using rmap_keeps [OF assms [unfolded extract_token_parameters_def]] token_parameter_param by blast
  moreover have "distinct (origin_parameters ts)" by (simp add: origin_parameters_def)
  moreover have "set (origin_parameters ts) = {token_address_param t a | t a. t \<in> set ts \<and> a \<noteq> ZERO_ADDRESS \<and>
      (a = tf_from_address (fields_of t) \<or> a = tf_to_address (fields_of t))}"
    by (rule set_eqI, unfold origin_parameters_set mem_Collect_eq) blast
  ultimately show ?thesis by simp
qed

text \<open>The coin balances asked for are those of the miner of each block, of the sender and
  recipient of each transaction and of both ends of each internal transaction, at its block, each
  once.\<close>

lemma coin_addresses_complete:
  "distinct (distinct_addresses blocks txs traces) \<and>
   (r \<in> set (distinct_addresses blocks txs traces) \<longleftrightarrow>
      (\<exists>b \<in> set blocks. ar_address r = bl_miner b \<and> ar_block_number r = Some (bl_number b) \<and>
         ar_block_timestamp r = Some (bl_timestamp b)) \<or>
      (\<exists>t \<in> set txs. (ar_address r = tx_from_address t \<or> tx_to_address t = Some (ar_address r)) \<and>
         ar_block_number r = tx_block_number t \<and> ar_block_timestamp r = tx_block_timestamp t) \<or>
      (\<exists>c \<in> set traces. (ci_to_address c = Some (ar_address r) \<or> ci_from_address c = Some (ar_address r)) \<and>
         ar_block_number r = Some (ci_block_number c) \<and> ar_block_timestamp r = Some (ci_block_timestamp c)))"
proof -
  have "r \<in> set (transaction_records t) \<longleftrightarrow>
      (ar_address r = tx_from_address t \<or> tx_to_address t = Some (ar_address r)) \<and>
      ar_block_number r = tx_block_number t \<and> ar_block_timestamp r = tx_block_timestamp t" for t
    by (auto simp: transaction_records_def new_record_set)
  moreover have "r \<in> set (new_record (Some (bl_number b)) (Some (bl_timestamp b)) (Some (bl_miner b))) \<longleftrightarrow>
      ar_address r = bl_miner b \<and> ar_block_number r = Some (bl_number b) \<and>
      ar_block_timestamp r = Some (bl_timestamp b)" for b
    by (auto simp: new_record_set)
  moreover have "r \<in> set (internal_records c) \<longleftrightarrow>
      (ci_to_address c = Some (ar_address r) \<or> ci_from_address c = Some (ar_address r)) \<and>
      ar_block_number r = Some (ci_block_number c) \<and> ar_block_timestamp r = Some (ci_block_timestamp c)" for c
    by (auto simp: internal_records_def new_record_set)
  ultimately show ?thesis
    by (simp only: distinct_addresses_def distinct_remdups set_remdups set_append set_concat set_map
        Un_iff UN_iff image_iff bex_simps) blast
qed

text \<open>When the senders of all contracts are known, each contract of the job has the sender of the
  transaction that created it.\<close>

lemma contracts_have_senders:
  assumes "process_contracts blocks cs = Inr cs'"
  shows "mset (map (\<lambda>c. c\<lparr>ct_transaction_from_address := None\<rparr>) cs') =
      mset (map (\<lambda>c. c\<lparr>ct_transaction_from_address := None\<rparr>) cs) \<and>
    (\<forall>c \<in> set cs'. \<exists>t \<in> set (concat (map bl_transactions blocks)).
       ct_transaction_hash c = Some (tx_hash t) \<and> ct_transaction_from_address c = Some (tx_from_address t))"
proof -
  let ?txs = "concat (map bl_transactions blocks)" and ?clear = "\<lambda>c. c\<lparr>ct_transaction_from_address := None\<rparr>"
  from assms obtain ds where ds: "rmap (fill_sender (sender_of blocks)) cs = Inr ds"
    and cs': "cs' = sort_key (\<lambda>c. (ct_block_number c, ct_transaction_index c, text_or_empty (ct_address c))) ds"
    by (auto simp: process_contracts_def rbind_Inr_iff)
  have fill: "?clear d = ?clear c \<and> (\<exists>t \<in> set ?txs. ct_transaction_hash d = Some (tx_hash t) \<and>
      ct_transaction_from_address d = Some (tx_from_address t))"
    if "fill_sender (sender_of blocks) c = Inr d" for c d
  proof -
    from that obtain h a where h: "ct_transaction_hash c = Some h" and a: "map_of (sender_of blocks) h = Some a"
      and d: "d = fill_transaction_from_address (Some a) c"
      by (auto simp: fill_sender_def rbind_Inr_iff split: option.splits)
    from sender_of_lookup [OF a] h d show ?thesis by (auto simp: fill_transaction_from_address_def)
  qed
  from ds have all: "list_all2 (\<lambda>c d. fill_sender (sender_of blocks) c = Inr d) cs ds" by (simp add: rmap_Inr_iff)
  from all have "map ?clear ds = map ?clear cs"
    by (induction rule: list_all2_induct) (simp_all add: fill)
  moreover from all have "\<forall>d \<in> set ds. \<exists>t \<in> set ?txs. ct_transaction_hash d = Some (tx_hash t) \<and>
      ct_transaction_from_address d = Some (tx_from_address t)"
    by (induction rule: list_all2_induct) (use fill in auto)
  moreover have "mset cs' = mset ds" "set cs' = set ds" by (simp_all add: cs')
  ultimately show ?thesis by (metis (no_types, lifting) mset_map)
qed

section \<open>Witnesses\<close>

definition encoding_ext :: ext where
  "encoding_ext = sample_ext\<lparr>abi_encode := (\<lambda>_ _. Inr [])\<rparr>"

definition sample_erc20 :: specific_transfer where
  "sample_erc20 = ERC20TokenTransfer \<lparr>tf_transaction_hash = ''0xt'', tf_log_index = 0, tf_from_address = ZERO_ADDRESS,
     tf_to_address = ''0xb'', tf_token_address = ''0xc'', tf_block_number = Some 9, tf_block_hash = None,
     tf_block_timestamp = Some 5\<rparr> 7"

theorem token_parameters_complete_witness:
  "\<exists>ps. extract_token_parameters encoding_ext [sample_erc20] = Inr ps \<and>
     set (map tp_param ps) = {token_address_param sample_erc20 ''0xb''}"
proof -
  have "case extract_token_parameters encoding_ext [sample_erc20] of Inr ps \<Rightarrow> True | Inl _ \<Rightarrow> False" by code_simp
  then obtain ps where ps: "extract_token_parameters encoding_ext [sample_erc20] = Inr ps"
    by (auto split: sum.splits)
  have "tf_from_address (fields_of sample_erc20) = ZERO_ADDRESS" "tf_to_address (fields_of sample_erc20) = ''0xb''"
    by (simp_all add: sample_erc20_def)
  moreover have "''0xb'' \<noteq> ZERO_ADDRESS" by code_simp
  ultimately have "{token_address_param t a | t a. t \<in> set [sample_erc20] \<and> a \<noteq> ZERO_ADDRESS \<and>
      (a = tf_from_address (fields_of t) \<or> a = tf_to_address (fields_of t))} = {token_address_param sample_erc20 ''0xb''}"
    by auto
  with token_parameters_complete [OF ps] ps show ?thesis by metis
qed

definition sample_contract :: contract where
  "sample_contract = \<lparr>ct_address = Some ''0xc'', ct_name = None, ct_contract_creator = None, ct_creation_code = None,
     ct_deployed_code = None, ct_block_number = 7, ct_block_hash = ''0xb'', ct_block_timestamp = 5,
     ct_transaction_index = 0, ct_transaction_hash = Some ''0xt'', ct_transaction_from_address = None\<rparr>"

theorem contracts_have_senders_witness:
  "\<exists>c. process_contracts [(sample_block 7 5)\<lparr>bl_transactions := [sample_transaction 7 []]\<rparr>] [sample_contract] = Inr [c] \<and>
     ct_transaction_from_address c = Some ''0xa''"
proof -
  let ?c = "sample_contract\<lparr>ct_transaction_from_address := Some ''0xa''\<rparr>"
  have p: "process_contracts [(sample_block 7 5)\<lparr>bl_transactions := [sample_transaction 7 []]\<rparr>] [sample_contract] = Inr [?c]"
    by (simp add: process_contracts_def fill_sender_def sender_of_def sample_contract_def sample_transaction_def
        fill_transaction_from_address_def dict_get_def)
  from contracts_have_senders [OF p] p show ?thesis by (simp add: sample_transaction_def)
qed

end
