(* ===== verification/TokenIds.thy ===== *)
theory TokenIds
  imports Balances
begin

text \<open>
  \<open>indexer/jobs/export_token_id_infos_job.py\<close> and \<open>indexer/domain/token_id_infos.py\<close>: owners,
  supplies and addresses of single tokens (ids) after their transfers. \<open>hash_of\<close> is Python's
  \<open>hash\<close> of a string, which gives the ids of requests.
\<close>

section \<open>Data\<close>

datatype nft_type = ERC721 | ERC1155

record id_info =
  ii_address :: string
  ii_token_id :: int
  ii_token_type :: nft_type
  ii_block_number :: "int option"
  ii_block_timestamp :: "int option"
  ii_is_get_token_uri :: bool
  ii_request_id :: int

record 'v id_detail =
  id_token_address :: string
  id_token_id :: int
  id_value :: 'v
  id_block_number :: "int option"
  id_block_timestamp :: "int option"

text \<open>The value is the address of the metadata, the owner or the supply.\<close>

datatype id_item =
    ERC721TokenIdDetail "string id_detail"
  | UpdateERC721TokenIdDetail "string id_detail"
  | ERC721TokenIdChange "string id_detail"
  | ERC1155TokenIdDetail "string id_detail"
  | UpdateERC1155TokenIdDetail "int id_detail"

fun id_item_type :: "id_item \<Rightarrow> string" where
  "id_item_type (ERC721TokenIdDetail _) = ''erc721_token_id_detail''"
| "id_item_type (UpdateERC721TokenIdDetail _) = ''update_erc721_token_id_detail''"
| "id_item_type (ERC721TokenIdChange _) = ''erc721_token_id_change''"
| "id_item_type (ERC1155TokenIdDetail _) = ''erc1155_token_id_detail''"
| "id_item_type (UpdateERC1155TokenIdDetail _) = ''update_erc1155_token_id_detail''"

text \<open>\<open>from_token_dict\<close> of the five classes.\<close>

definition detail_of_dict :: "jdict \<Rightarrow> 'v res \<Rightarrow> 'v id_detail res" where
  "detail_of_dict d value =
     rbind (get_str d ''address'') (\<lambda>a.
     rbind (get_int d ''token_id'') (\<lambda>i.
     rbind value (\<lambda>v.
     rbind (dict_get d ''block_number'') (\<lambda>n. rbind (as_opt_int n) (\<lambda>n.
     rbind (dict_get d ''block_timestamp'') (\<lambda>ts. rbind (as_opt_int ts) (\<lambda>ts.
       Inr \<lparr>id_token_address = a, id_token_id = i, id_value = v, id_block_number = n, id_block_timestamp = ts\<rparr>)))))))"

definition owner_or_zero :: "jdict \<Rightarrow> string res" where
  "owner_or_zero d =
     rbind (dict_get d ''ownerOf'') (\<lambda>j. if truthy j then as_str j else Inr ZERO_ADDRESS)"

definition erc721_change_from_token_dict :: "jdict \<Rightarrow> id_item res" where
  "erc721_change_from_token_dict d = rbind (detail_of_dict d (owner_or_zero d)) (\<lambda>i. Inr (ERC721TokenIdChange i))"

definition erc721_detail_from_token_dict :: "jdict \<Rightarrow> id_item res" where
  "erc721_detail_from_token_dict d = rbind (detail_of_dict d (get_str d ''tokenURI'')) (\<lambda>i. Inr (ERC721TokenIdDetail i))"

definition erc721_update_from_token_dict :: "jdict \<Rightarrow> id_item res" where
  "erc721_update_from_token_dict d = rbind (detail_of_dict d (owner_or_zero d)) (\<lambda>i. Inr (UpdateERC721TokenIdDetail i))"

definition erc1155_detail_from_token_dict :: "jdict \<Rightarrow> id_item res" where
  "erc1155_detail_from_token_dict d = rbind (detail_of_dict d (get_str d ''uri'')) (\<lambda>i. Inr (ERC1155TokenIdDetail i))"

definition erc1155_update_from_token_dict :: "jdict \<Rightarrow> id_item res" where
  "erc1155_update_from_token_dict d = rbind (detail_of_dict d (get_int d ''totalSupply'')) (\<lambda>i. Inr (UpdateERC1155TokenIdDetail i))"

section \<open>What to ask for\<close>

definition ERC721_TOKEN_URI_ABI_FUNCTION :: function_abi where
  "ERC721_TOKEN_URI_ABI_FUNCTION = \<lparr>fn_name = ''tokenURI'', fn_inputs = [''uint256''], fn_outputs = [''string'']\<rparr>"

definition ERC721_OWNER_OF_ABI_FUNCTION :: function_abi where
  "ERC721_OWNER_OF_ABI_FUNCTION = \<lparr>fn_name = ''ownerOf'', fn_inputs = [''uint256''], fn_outputs = [''address'']\<rparr>"

definition ERC1155_TOKEN_URI_ABI_FUNCTION :: function_abi where
  "ERC1155_TOKEN_URI_ABI_FUNCTION = \<lparr>fn_name = ''uri'', fn_inputs = [''uint256''], fn_outputs = [''string'']\<rparr>"

definition ERC1155_TOTAL_SUPPLY_ABI_FUNCTION :: function_abi where
  "ERC1155_TOTAL_SUPPLY_ABI_FUNCTION =
     \<lparr>fn_name = ''totalSupply'', fn_inputs = [''uint256''], fn_outputs = [''uint256'']\<rparr>"

text \<open>The buffers given are those of single tokens: an ERC20 transfer, never in them, asks for
  nothing.\<close>

fun nft_of :: "specific_transfer \<Rightarrow> (transfer_fields \<times> int \<times> nft_type) option" where
  "nft_of (ERC20TokenTransfer _ _) = None"
| "nft_of (ERC721TokenTransfer f i) = Some (f, i, ERC721)"
| "nft_of (ERC1155TokenTransfer f i _) = Some (f, i, ERC1155)"

definition opt_int_str :: "int option \<Rightarrow> string" where
  "opt_int_str n = (case n of None \<Rightarrow> ''None'' | Some k \<Rightarrow> int_str k)"

definition id_infos_of :: "(string \<Rightarrow> int) \<Rightarrow> specific_transfer \<Rightarrow> id_info list" where
  "id_infos_of hash_of t =
     (case nft_of t of
        None \<Rightarrow> []
      | Some (f, i, ty) \<Rightarrow>
          let key = tf_token_address f @ ''_'' @ int_str i @ ''_'' @ opt_int_str (tf_block_number f);
              info = \<lambda>get_uri rid. \<lparr>ii_address = tf_token_address f, ii_token_id = i, ii_token_type = ty,
                ii_block_number = tf_block_number f, ii_block_timestamp = tf_block_timestamp f,
                ii_is_get_token_uri = get_uri, ii_request_id = rid\<rparr>
          in (if tf_from_address f = ZERO_ADDRESS then [info True (hash_of (key @ ''_get_token_uri''))] else []) @
             [info False (hash_of key)])"

definition generate_token_id_info :: "(string \<Rightarrow> int) \<Rightarrow> specific_transfer list \<Rightarrow> specific_transfer list \<Rightarrow> id_info list"
  where
  "generate_token_id_info hash_of erc721_transfers erc1155_transfers =
     remdups (concat (map (id_infos_of hash_of) (erc721_transfers @ erc1155_transfers)))"

definition id_function :: "id_info \<Rightarrow> function_abi" where
  "id_function i =
     (case ii_token_type i of
        ERC721 \<Rightarrow> if ii_is_get_token_uri i then ERC721_TOKEN_URI_ABI_FUNCTION else ERC721_OWNER_OF_ABI_FUNCTION
      | ERC1155 \<Rightarrow> if ii_is_get_token_uri i then ERC1155_TOKEN_URI_ABI_FUNCTION else ERC1155_TOTAL_SUPPLY_ABI_FUNCTION)"

definition abi_selector_encode_and_decode_type :: "ext \<Rightarrow> id_info \<Rightarrow> string res" where
  "abi_selector_encode_and_decode_type x i =
     encode_abi x (id_function i) [AUint (ii_token_id i)] (function_abi_to_4byte_selector_str x (id_function i))"

section \<open>Answers\<close>

definition decode_text :: "ext \<Rightarrow> string \<Rightarrow> string res" where
  "decode_text x result = rbind (decode_first x [''string''] result) (\<lambda>v.
     case v of AString s \<Rightarrow> Inr (filter (\<lambda>c. c \<noteq> CHR 0x00) s) | _ \<Rightarrow> Inl AttributeError)"

definition decode_owner :: "ext \<Rightarrow> string \<Rightarrow> string res" where
  "decode_owner x result = rbind (decode_first x [''address''] result) (\<lambda>v.
     case v of AAddress s \<Rightarrow> Inr s | _ \<Rightarrow> Inl TypeError)"

definition id_detail_of :: "id_info \<Rightarrow> 'v \<Rightarrow> 'v id_detail" where
  "id_detail_of i v = \<lparr>id_token_address = ii_address i, id_token_id = ii_token_id i, id_value = v,
     id_block_number = ii_block_number i, id_block_timestamp = ii_block_timestamp i\<rparr>"

definition items_of_result :: "ext \<Rightarrow> id_info \<Rightarrow> string \<Rightarrow> id_item list res" where
  "items_of_result x i result =
     (case ii_token_type i of
        ERC721 \<Rightarrow>
          if ii_is_get_token_uri i
          then rbind (decode_text x result) (\<lambda>uri. Inr [ERC721TokenIdDetail (id_detail_of i uri)])
          else rbind (decode_owner x result) (\<lambda>owner.
            Inr [UpdateERC721TokenIdDetail (id_detail_of i owner), ERC721TokenIdChange (id_detail_of i owner)])
      | ERC1155 \<Rightarrow>
          if ii_is_get_token_uri i
          then rbind (decode_text x result) (\<lambda>uri. Inr [ERC1155TokenIdDetail (id_detail_of i uri)])
          else rbind (decode_first x [''uint256''] result) (\<lambda>v. rbind (dec_uint (Some v)) (\<lambda>supply.
            Inr [UpdateERC1155TokenIdDetail (id_detail_of i supply)])))"

definition id_items_of_answer :: "ext \<Rightarrow> id_info \<times> (json, string) rpc_response \<Rightarrow> (('d, 'x) world, id_item list) act"
  where
  "id_items_of_answer x ir =
     sbind (lift_res (rpc_response_to_result (snd ir))) (\<lambda>result.
       case result of
         None \<Rightarrow> sret []
       | Some r \<Rightarrow>
           (case items_of_result x (fst ir) r of
              Inr items \<Rightarrow> sret items
            | Inl e \<Rightarrow> sthen (on_recorder (log_exception (recorder_entry
                (NumberInt (int_or_0 (ii_block_number (fst ir)))) ''token_id_info'' ''decode_token_id_info_fail''
                (exc_text e) ''Warning''))) (sret [])))"

definition id_request :: "ext \<Rightarrow> id_info \<Rightarrow> (string \<times> string \<times> json \<times> json) res" where
  "id_request x i =
     rbind (abi_selector_encode_and_decode_type x i) (\<lambda>data.
       case ii_block_number i of
         None \<Rightarrow> Inl TypeError
       | Some n \<Rightarrow> Inr (ii_address i, data, JStr (py_hex n), JInt (ii_request_id i)))"

text \<open>The answers are taken by their position, not by their ids.\<close>

definition token_ids_info_rpc_requests :: "ext \<Rightarrow> (jdict list \<Rightarrow> (json, string) rpc_response list res)
    \<Rightarrow> id_info list \<Rightarrow> bool \<Rightarrow> (('d, 'x) world, id_item list) act" where
  "token_ids_info_rpc_requests x make_requests items is_batch =
     sbind (lift_res (rbind (rmap (id_request x) items) (\<lambda>params.
              send_requests make_requests is_batch (generate_eth_call_json_rpc params))))
       (\<lambda>response. sbind (smap (id_items_of_answer x) (zip items response)) (\<lambda>iss. sret (concat iss)))"

definition collect_id_batch :: "ext \<Rightarrow> (jdict list \<Rightarrow> (json, string) rpc_response list res) \<Rightarrow> bool
    \<Rightarrow> id_info list \<Rightarrow> ((id_item, 'x) world, unit) act" where
  "collect_id_batch x make_requests is_batch token_list =
     sbind (token_ids_info_rpc_requests x make_requests token_list is_batch)
       (sfor (\<lambda>i. collect_item (id_item_type i) i))"

section \<open>Only the last update of each token\<close>

definition token_key :: "'v id_detail \<Rightarrow> string \<times> int" where
  "token_key d = (id_token_address d, id_token_id d)"

definition id_update_order :: "'v id_detail \<Rightarrow> (string \<times> int) \<times> int" where
  "id_update_order d = (token_key d, int_or_0 (id_block_number d))"

definition last_updates :: "'v id_detail list \<Rightarrow> 'v id_detail list" where
  "last_updates ds = map (\<lambda>(key, group). last group) (groupby token_key (sort_key id_update_order ds))"

definition process_token_ids :: "string id_detail list \<Rightarrow> int id_detail list \<Rightarrow> string id_detail list \<times> int id_detail list"
  where
  "process_token_ids erc721_updates erc1155_updates = (last_updates erc721_updates, last_updates erc1155_updates)"

section \<open>Properties\<close>

text \<open>After the job there is one update for each token that was updated, and none of the updates
  of its token is of a later block.\<close>

lemma last_updates_latest:
  "distinct (map token_key (last_updates ds)) \<and> token_key ` set (last_updates ds) = token_key ` set ds \<and>
   (\<forall>d \<in> set (last_updates ds). d \<in> set ds \<and>
      (\<forall>e \<in> set ds. token_key e = token_key d \<longrightarrow> int_or_0 (id_block_number e) \<le> int_or_0 (id_block_number d)))"
proof -
  let ?ds = "sort_key id_update_order ds"
  have sorted: "sorted (map id_update_order ?ds)" by simp
  then have "sorted (map token_key ?ds)" unfolding sorted_map
    by (rule sorted_wrt_mono_rel [rotated]) (auto simp: id_update_order_def dest: fst_le_pair)
  then have "distinct (map fst (groupby token_key ?ds)) \<and> fst ` set (groupby token_key ?ds) = token_key ` set ?ds \<and>
      (\<forall>(k, g) \<in> set (groupby token_key ?ds). g = filter (\<lambda>d. token_key d = k) ?ds)"
    by (rule groupby_groups) blast
  then have dist: "distinct (map fst (groupby token_key ?ds))"
    and keys: "fst ` set (groupby token_key ?ds) = token_key ` set ds"
    and groups: "\<And>k g. (k, g) \<in> set (groupby token_key ?ds) \<Longrightarrow> g = filter (\<lambda>d. token_key d = k) ?ds"
    by (simp_all only: set_sort) blast
  have latest: "token_key (last g) = k \<and> last g \<in> set ds \<and>
      (\<forall>e \<in> set ds. token_key e = k \<longrightarrow> int_or_0 (id_block_number e) \<le> int_or_0 (id_block_number (last g)))"
    if kg: "(k, g) \<in> set (groupby token_key ?ds)" for k g
  proof -
    note g = groups [OF kg]
    from kg keys have "k \<in> token_key ` set ds" by force
    then have "g \<noteq> []" by (auto simp: g filter_empty_conv)
    then have "last g \<in> set g" by simp
    then have in_ds: "token_key (last g) = k" "last g \<in> set ds" by (auto simp: g)
    have "sorted (map id_update_order g)" unfolding g using sorted by (rule sorted_filter)
    from sorted_last [OF this] have "id_update_order e \<le> id_update_order (last g)" if "e \<in> set g" for e
      using that .
    then have "int_or_0 (id_block_number e) \<le> int_or_0 (id_block_number (last g))"
      if "e \<in> set ds" "token_key e = k" for e
      using that in_ds(1) by (auto simp: g id_update_order_def less_eq_prod_def)
    with in_ds show ?thesis by blast
  qed
  have "map token_key (last_updates ds) = map fst (groupby token_key ?ds)"
    using latest by (auto simp: last_updates_def)
  moreover from arg_cong [OF this, of set] have "token_key ` set (last_updates ds) = token_key ` set ds"
    using keys by (metis set_map)
  moreover have "d \<in> set ds \<and> (\<forall>e \<in> set ds. token_key e = token_key d \<longrightarrow>
      int_or_0 (id_block_number e) \<le> int_or_0 (id_block_number d))" if "d \<in> set (last_updates ds)" for d
    using that latest by (auto simp: last_updates_def)
  ultimately show ?thesis using dist by simp
qed

definition sample_update :: "int \<Rightarrow> string \<Rightarrow> string id_detail" where
  "sample_update n owner = \<lparr>id_token_address = ''0xc'', id_token_id = 1, id_value = owner, id_block_number = Some n,
     id_block_timestamp = None\<rparr>"

theorem last_updates_latest_witness:
  "token_key ` set (last_updates [sample_update 9 ''0xa'', sample_update 8 ''0xb'']) = {(''0xc'', 1)} \<and>
   distinct (map token_key (last_updates [sample_update 9 ''0xa'', sample_update 8 ''0xb'']))"
  using last_updates_latest [of "[sample_update 9 ''0xa'', sample_update 8 ''0xb'']"]
  by (simp add: token_key_def sample_update_def)

end
