(* ===== verification/Traces.thy ===== *)
theory Traces
  imports Domain Jobs
begin

text \<open>
  \<open>indexer/jobs/export_traces_job.py\<close>: the traces of a block as the node gives them (a call tree
  for each transaction), flattened into numbered traces, collected, sorted and counted. A call
  tree stays the JSON it is; the counter of \<open>ExtractTraces\<close> is threaded through the walk. Values
  that are of no use (a number for \<open>calls\<close>) raise \<open>TypeError\<close>.
\<close>

section \<open>Walking a call tree\<close>

record geth_trace =
  gt_block_number :: int
  gt_block_hash :: string
  gt_block_timestamp :: int
  gt_transaction_traces :: "json list"

definition trace_id_of :: "int \<Rightarrow> int \<Rightarrow> int \<Rightarrow> string" where
  "trace_id_of block_number transaction_index trace_index =
     int_str block_number @ ''_'' @ int_str transaction_index @ ''_'' @ int_str trace_index"

text \<open>The type and call type, as parity names them.\<close>

definition trace_types :: "jdict \<Rightarrow> (string \<times> string) res" where
  "trace_types tx_trace =
     (case jget tx_trace ''type'' of
        JStr s \<Rightarrow>
          (let trace_type = str_lower s
           in if trace_type = ''selfdestruct'' then Inr (''suicide'', '''')
              else if trace_type \<in> {''call'', ''callcode'', ''delegatecall'', ''staticcall''}
              then Inr (''call'', trace_type)
              else Inr (trace_type, ''''))
      | _ \<Rightarrow> Inl AttributeError)"

definition trace_dict :: "geth_trace \<Rightarrow> int \<Rightarrow> json \<Rightarrow> jdict \<Rightarrow> nat list \<Rightarrow> string \<Rightarrow> string \<Rightarrow> string \<Rightarrow> nat
    \<Rightarrow> int \<Rightarrow> jdict" where
  "trace_dict g tx_index txHash tx_trace trace_address trace_id trace_type call_type n_calls trace_idx =
     [(''trace_id'', JStr trace_id), (''from_address'', jget tx_trace ''from''),
      (''to_address'', jget tx_trace ''to''), (''input'', jget tx_trace ''input''),
      (''output'', jget tx_trace ''output''), (''value'', jget tx_trace ''value''),
      (''gas'', jget tx_trace ''gas''), (''gas_used'', jget tx_trace ''gasUsed''),
      (''trace_type'', JStr trace_type), (''call_type'', JStr call_type),
      (''subtraces'', JInt (int n_calls)),
      (''trace_address'', JList (map (\<lambda>i. JInt (int i)) trace_address)),
      (''error'', jget tx_trace ''error''),
      (''status'', JInt (if jget tx_trace ''error'' = JNull then 1 else 0)),
      (''block_number'', JInt (gt_block_number g)), (''block_hash'', JStr (gt_block_hash g)),
      (''block_timestamp'', JInt (gt_block_timestamp g)), (''transaction_index'', JInt tx_index),
      (''transaction_hash'', txHash), (''trace_index'', JInt trace_idx)]"

lemma size_jcalls:
  "map_of d k = Some v \<Longrightarrow> size v < Suc (size_list (size_prod (\<lambda>_. 0) size) d)"
proof (induction d)
  case (Cons p d)
  then show ?case by (cases p) (auto split: if_splits)
qed simp

lemma get_list_default_size:
  "get_list_default d k = Inr xs \<Longrightarrow> size_list size xs \<le> size_list (size_prod (\<lambda>_. 0) size) d"
  using size_jcalls [of d k]
  by (auto simp: get_list_default_def split: option.splits elim!: as_list.elims)

text \<open>One call and the calls below it: the first has the next number of the counter.\<close>

function (sequential)
  iterate_transaction_trace :: "geth_trace \<Rightarrow> int \<Rightarrow> json \<Rightarrow> json \<Rightarrow> nat list \<Rightarrow> int \<Rightarrow> (jdict list \<times> int) res" and
  iterate_calls :: "geth_trace \<Rightarrow> int \<Rightarrow> json \<Rightarrow> json list \<Rightarrow> nat list \<Rightarrow> nat \<Rightarrow> int \<Rightarrow> (jdict list \<times> int) res"
where
  "iterate_transaction_trace g tx_index txHash (JDict tx_trace) trace_address trace_idx =
     rbind (trace_types tx_trace) (\<lambda>(trace_type, call_type).
     rbind (get_list_default tx_trace ''calls'') (\<lambda>calls.
     rbind (iterate_calls g tx_index txHash calls trace_address 0 (trace_idx + 1)) (\<lambda>(traces, trace_idx').
       Inr (trace_dict g tx_index txHash tx_trace trace_address
              (trace_id_of (gt_block_number g) tx_index trace_idx) trace_type call_type (length calls)
              (trace_idx + 1) # traces, trace_idx'))))"
| "iterate_transaction_trace g tx_index txHash _ trace_address trace_idx = Inl AttributeError"
| "iterate_calls g tx_index txHash [] trace_address call_index trace_idx = Inr ([], trace_idx)"
| "iterate_calls g tx_index txHash (call_trace # calls) trace_address call_index trace_idx =
     rbind (iterate_transaction_trace g tx_index txHash call_trace (trace_address @ [call_index]) trace_idx)
       (\<lambda>(traces, trace_idx').
     rbind (iterate_calls g tx_index txHash calls trace_address (Suc call_index) trace_idx')
       (\<lambda>(more, trace_idx''). Inr (traces @ more, trace_idx'')))"
  by pat_completeness auto
termination
  by (relation "measure (\<lambda>s. case s of Inl (_, _, _, j, _) \<Rightarrow> 2 * size j + 1
      | Inr (_, _, _, js, _) \<Rightarrow> 2 * size_list size js + 2)")
    (auto dest!: get_list_default_size)

text \<open>The trees of a block. The counter starts again with each transaction.\<close>

definition transaction_traces_of :: "geth_trace \<Rightarrow> nat \<times> json \<Rightarrow> jdict list res" where
  "transaction_traces_of g itx =
     rbind (as_dict (snd itx)) (\<lambda>tx.
     rbind (dict_get tx ''txHash'') (\<lambda>txHash.
     rbind (dict_get tx ''result'') (\<lambda>tx_trace.
     rbind (iterate_transaction_trace g (int (fst itx)) txHash tx_trace [] 0) (\<lambda>(traces, _). Inr traces))))"

definition geth_trace_to_traces :: "geth_trace \<Rightarrow> jdict list res" where
  "geth_trace_to_traces g =
     rbind (rmap (transaction_traces_of g) (enumerate 0 (gt_transaction_traces g))) (\<lambda>tss. Inr (concat tss))"

section \<open>Requests for the traces of blocks\<close>

text \<open>Blocks are asked for and logged by their number in hexadecimal.\<close>

definition block_hex :: "block \<Rightarrow> string" where
  "block_hex b = py_hex (bl_number b)"

text \<open>What stands for the traces of a block whose history the node has dropped.\<close>

definition history_stub :: "ext \<Rightarrow> block \<Rightarrow> jdict res" where
  "history_stub x b =
     rbind (to_int_hexstr x (block_hex b)) (\<lambda>n.
       Inr [(''trace_id'', JStr (int_str n @ ''_?_?'')), (''block_number'', JInt n),
            (''block_hash'', JStr (bl_hash b)), (''block_timestamp'', JInt (bl_timestamp b)),
            (''transaction_index'', JInt 0), (''trace_index'', JInt 0)])"

text \<open>A node that leaves out the hashes gives one tree for each transaction of the block.\<close>

definition add_tx_hash :: "json \<times> transaction \<Rightarrow> json res" where
  "add_tx_hash rt = rbind (as_dict (fst rt))
     (\<lambda>d. Inr (JDict (AList.update ''txHash'' (JStr (tx_hash (snd rt))) d)))"

definition with_tx_hashes :: "transaction list \<Rightarrow> json list \<Rightarrow> json list res" where
  "with_tx_hashes transactions result =
     (case result of
        [] \<Rightarrow> Inl IndexError
      | r # _ \<Rightarrow> rbind (as_dict r) (\<lambda>d.
          if map_of d ''txHash'' \<noteq> None then Inr result
          else if length result \<noteq> length transactions
          then Inl (ValueError ''The number of traces is wrong'')
          else rmap add_tx_hash (zip result transactions)))"

definition geth_trace_of :: "ext \<Rightarrow> block \<Rightarrow> json list \<Rightarrow> geth_trace res" where
  "geth_trace_of x b result =
     rbind (with_tx_hashes (bl_transactions b) result) (\<lambda>traces.
     rbind (to_int_hexstr x (block_hex b)) (\<lambda>n.
       Inr \<lparr>gt_block_number = n, gt_block_hash = bl_hash b, gt_block_timestamp = bl_timestamp b,
            gt_transaction_traces = traces\<rparr>))"

definition traces_of_block :: "ext \<Rightarrow> block \<times> (json, json list) rpc_response \<Rightarrow> (('d, 'x) world, jdict list) act" where
  "traces_of_block x br =
     (case rpc_response_to_result (snd br) of
        Inl (HistoryUnavailableError message) \<Rightarrow>
          sthen (on_recorder (log_exception \<lparr>log_block_number = NumberHex (block_hex (fst br)),
                   log_dataclass = ''trace'', log_message_type = ''HistoryUnavailableError'',
                   log_message = message, log_level = ''Error''\<rparr>))
            (lift_res (rbind (history_stub x (fst br)) (\<lambda>d. Inr [d])))
      | Inl e \<Rightarrow> sraise e
      | Inr None \<Rightarrow> sraise TypeError
      | Inr (Some result) \<Rightarrow> lift_res (rbind (geth_trace_of x (fst br) result) geth_trace_to_traces))"

fun traces_of_blocks :: "ext \<Rightarrow> (block \<times> (json, json list) rpc_response) list \<Rightarrow> (('d, 'x) world, jdict list) act"
  where
  "traces_of_blocks x [] = sret []"
| "traces_of_blocks x (br # brs) =
     sbind (traces_of_block x br) (\<lambda>traces.
     sbind (traces_of_blocks x brs) (\<lambda>more. sret (traces @ more)))"

definition traces_responses :: "(jdict list \<Rightarrow> (json, json list) rpc_response list res) \<Rightarrow> block list \<Rightarrow> bool
    \<Rightarrow> (json, json list) rpc_response list res" where
  "traces_responses make_requests blocks is_batch =
     (let trace_block_rpc = generate_trace_block_by_number_json_rpc (map (\<lambda>b. JStr (block_hex b)) blocks)
      in send_requests make_requests is_batch trace_block_rpc)"

definition traces_rpc_requests :: "ext \<Rightarrow> (jdict list \<Rightarrow> (json, json list) rpc_response list res) \<Rightarrow> block list
    \<Rightarrow> bool \<Rightarrow> (('d, 'x) world, jdict list) act" where
  "traces_rpc_requests x make_requests blocks is_batch =
     sbind (lift_res (rbind (traces_responses make_requests blocks is_batch)
                       (zip_rpc_response (\<lambda>b. JStr (block_hex b)) blocks)))
       (traces_of_blocks x)"

section \<open>The job\<close>

datatype trace_item = TraceItem trace | InternalItem contract_internal_transaction
  | CountItem update_block_internal_count

definition collect_trace :: "ext \<Rightarrow> jdict \<Rightarrow> ((trace_item, 'x) world, unit) act" where
  "collect_trace x d =
     sbind (lift_res (trace_from_rpc x d)) (\<lambda>t.
     sthen (collect_item ''trace'' (TraceItem t))
       (if is_contract_creation t \<or> is_transfer_value t
        then sbind (lift_res (internal_transaction_from_rpc x d))
          (\<lambda>c. collect_item ''contract_internal_transaction'' (InternalItem c))
        else sret ()))"

definition collect_trace_batch :: "ext \<Rightarrow> (jdict list \<Rightarrow> (json, json list) rpc_response list res) \<Rightarrow> bool
    \<Rightarrow> block list \<Rightarrow> ((trace_item, 'x) world, unit) act" where
  "collect_trace_batch x make_requests is_batch blocks =
     sbind (traces_rpc_requests x make_requests blocks is_batch) (sfor (collect_trace x))"

text \<open>Each group of \<open>itertools.groupby\<close> is an iterator: reading it to its end leaves nothing to read.\<close>

definition consume :: "'a list \<Rightarrow> 'a list \<times> 'a list" where
  "consume items = (items, [])"

definition internal_count :: "string \<times> trace list \<Rightarrow> update_block_internal_count" where
  "internal_count ht =
     (case consume (snd ht) of (items, traces) \<Rightarrow>
        \<lparr>ub_hash = fst ht, ub_traces_count = int (length items),
         ub_internal_transactions_count = int (length (filter is_contract_creation traces))\<rparr>)"

definition trace_order :: "trace \<Rightarrow> int \<times> int \<times> int" where
  "trace_order t = (tr_block_number t, tr_transaction_index t, tr_trace_index t)"

definition internal_order :: "contract_internal_transaction \<Rightarrow> int \<times> int \<times> int" where
  "internal_order c = (ci_block_number c, ci_transaction_index c, ci_trace_index c)"

definition process_traces :: "trace list \<Rightarrow> contract_internal_transaction list
    \<Rightarrow> trace list \<times> contract_internal_transaction list \<times> update_block_internal_count list" where
  "process_traces traces internals =
     (let traces = sort_key trace_order traces
      in (traces, sort_key internal_order internals, map internal_count (groupby tr_block_hash traces)))"

section \<open>The shape of the traces\<close>

text \<open>A call tree without its data, and its calls in preorder: the path to each and the number of
  calls it makes.\<close>

datatype frame = Frame "frame list"

definition calls_of :: "jdict \<Rightarrow> json list" where
  "calls_of d = (case map_of d ''calls'' of Some (JList cs) \<Rightarrow> cs | _ \<Rightarrow> [])"

lemma calls_of_size: "c \<in> set (calls_of d) \<Longrightarrow> size c < Suc (size_list (size_prod (\<lambda>_. 0) size) d)"
proof -
  assume c: "c \<in> set (calls_of d)"
  then obtain cs where cs: "map_of d ''calls'' = Some (JList cs)" "c \<in> set cs"
    by (cases "map_of d ''calls''") (auto simp: calls_of_def split: json.splits)
  with size_jcalls [OF cs(1)] size_list_estimation' [OF cs(2) order_refl, of size] show ?thesis by simp
qed

function (sequential) frame_of :: "json \<Rightarrow> frame" where
  "frame_of (JDict d) = Frame (map frame_of (calls_of d))"
| "frame_of _ = Frame []"
  by pat_completeness auto
termination
  by (relation "measure size") (auto dest: calls_of_size)

fun preorder :: "frame \<Rightarrow> nat list \<Rightarrow> (nat list \<times> nat) list" and
  preorders :: "frame list \<Rightarrow> nat list \<Rightarrow> nat \<Rightarrow> (nat list \<times> nat) list" where
  "preorder (Frame fs) path = (path, length fs) # preorders fs path 0"
| "preorders [] path k = []"
| "preorders (f # fs) path k = preorder f (path @ [k]) @ preorders fs path (Suc k)"

fun numbered :: "int \<Rightarrow> 'a list \<Rightarrow> (int \<times> 'a) list" where
  "numbered n [] = []"
| "numbered n (y # ys) = (n, y) # numbered (n + 1) ys"

lemma numbered_append: "numbered n (xs @ ys) = numbered n xs @ numbered (n + int (length xs)) ys"
  by (induction xs arbitrary: n) (simp_all add: algebra_simps)

lemma length_numbered [simp]: "length (numbered n xs) = length xs"
  by (induction xs arbitrary: n) simp_all

lemma numbered_snd: "map snd (numbered n xs) = xs"
  by (induction xs arbitrary: n) simp_all

definition trace_summary :: "jdict \<Rightarrow> json list" where
  "trace_summary t = map (jget t) [''trace_id'', ''transaction_index'', ''trace_index'', ''trace_address'', ''subtraces'']"

definition numbered_call :: "int \<Rightarrow> int \<Rightarrow> int \<times> nat list \<times> nat \<Rightarrow> json list" where
  "numbered_call block_number tx_index call =
     (case call of (n, path, calls) \<Rightarrow>
        [JStr (trace_id_of block_number tx_index n), JInt tx_index, JInt (n + 1),
         JList (map (\<lambda>i. JInt (int i)) path), JInt (int calls)])"

lemma summary_trace_dict:
  "trace_summary (trace_dict g i h d path tid ty cty c n) =
     [JStr tid, JInt i, JInt n, JList (map (\<lambda>i. JInt (int i)) path), JInt (int c)]"
  by (simp add: trace_summary_def trace_dict_def jget_def)

lemma get_list_calls: "get_list_default d ''calls'' = Inr cs \<Longrightarrow> calls_of d = cs"
  by (auto simp: get_list_default_def calls_of_def split: option.splits elim!: as_list.elims)

lemma walk_enumerates:
  "iterate_transaction_trace g i h j path n = Inr (ts, m) \<Longrightarrow>
     m = n + int (length ts) \<and>
     map trace_summary ts = map (numbered_call (gt_block_number g) i) (numbered n (preorder (frame_of j) path))"
  "iterate_calls g i h js path k n = Inr (ts, m) \<Longrightarrow>
     m = n + int (length ts) \<and>
     map trace_summary ts =
       map (numbered_call (gt_block_number g) i) (numbered n (preorders (map frame_of js) path k))"
proof (induction g i h j path n and g i h js path k n arbitrary: ts m and ts m
    rule: iterate_transaction_trace_iterate_calls.induct)
  case (1 g i h d path n)
  from "1.prems" obtain ty cty cs rest where ty: "trace_types d = Inr (ty, cty)"
    and cs: "get_list_default d ''calls'' = Inr cs"
    and rest: "iterate_calls g i h cs path 0 (n + 1) = Inr (rest, m)"
    and ts: "ts = trace_dict g i h d path (trace_id_of (gt_block_number g) i n) ty cty (length cs) (n + 1) # rest"
    by (auto simp: rbind_Inr_iff)
  from "1.IH" [OF ty refl cs rest] show ?case
    by (simp add: ts summary_trace_dict numbered_call_def get_list_calls [OF cs])
next
  case (4 g i h c cs path k n)
  from "4.prems" obtain ts1 m1 ts2 where one: "iterate_transaction_trace g i h c (path @ [k]) n = Inr (ts1, m1)"
    and two: "iterate_calls g i h cs path (Suc k) m1 = Inr (ts2, m)" and ts: "ts = ts1 @ ts2"
    by (auto simp: rbind_Inr_iff)
  from "4.IH"(1) [OF one] have m1: "m1 = n + int (length ts1)"
    and s1: "map trace_summary ts1 = map (numbered_call (gt_block_number g) i) (numbered n (preorder (frame_of c) (path @ [k])))"
    by simp_all
  from arg_cong [OF s1, of length] have len: "length ts1 = length (preorder (frame_of c) (path @ [k]))"
    by simp
  from "4.IH"(2) [OF one refl two] show ?case by (simp add: ts m1 s1 len numbered_append)
qed simp_all

text \<open>The calls of a block: the transaction, the number of the call in it, its path and the number of
  calls it makes.\<close>

definition result_of :: "json \<Rightarrow> json" where
  "result_of tx = (case tx of JDict d \<Rightarrow> jget d ''result'' | _ \<Rightarrow> JNull)"

definition transaction_calls :: "nat \<times> json \<Rightarrow> (int \<times> int \<times> nat list \<times> nat) list" where
  "transaction_calls itx = map (Pair (int (fst itx))) (numbered 0 (preorder (frame_of (result_of (snd itx))) []))"

definition block_calls :: "geth_trace \<Rightarrow> (int \<times> int \<times> nat list \<times> nat) list" where
  "block_calls g = concat (map transaction_calls (enumerate 0 (gt_transaction_traces g)))"

lemma transaction_traces_summary:
  assumes "transaction_traces_of g itx = Inr ts"
  shows "map trace_summary ts = map (\<lambda>(i, c). numbered_call (gt_block_number g) i c) (transaction_calls itx)"
proof -
  from assms obtain tx h j n where tx: "snd itx = JDict tx" and j: "map_of tx ''result'' = Some j"
    and walk: "iterate_transaction_trace g (int (fst itx)) h j [] 0 = Inr (ts, n)"
    by (auto simp: transaction_traces_of_def rbind_Inr_iff elim!: as_dict.elims)
  from tx j have "result_of (snd itx) = j" by (simp add: result_of_def jget_def)
  with walk_enumerates(1) [OF walk] show ?thesis by (simp add: transaction_calls_def comp_def)
qed

lemma numbered_lower: "(n, c) \<in> set (numbered k xs) \<Longrightarrow> k \<le> n"
  by (induction xs arbitrary: k) force+

lemma numbered_distinct: "distinct (map fst (numbered k xs))"
  by (induction xs arbitrary: k) (auto dest: numbered_lower)

lemma block_calls_distinct: "distinct (map (\<lambda>(i, n, _). (i, n)) (block_calls g))"
proof -
  have "distinct (map (\<lambda>(i, n, _). (i, n)) (concat (map transaction_calls (enumerate k txs))))
    \<and> (\<forall>(i, n, _) \<in> set (concat (map transaction_calls (enumerate k txs))). int k \<le> i)" for k txs
  proof (induction txs arbitrary: k)
    case (Cons tx txs)
    have "map (\<lambda>(i, n, _). (i, n)) (transaction_calls (k, tx)) =
        map (Pair (int k)) (map fst (numbered 0 (preorder (frame_of (result_of tx)) [])))"
      by (auto simp: transaction_calls_def)
    then have "distinct (map (\<lambda>(i, n, _). (i, n)) (transaction_calls (k, tx)))"
      using numbered_distinct by (simp add: distinct_map inj_on_def)
    moreover have "fst ` set (transaction_calls (k, tx)) \<subseteq> {int k}" by (auto simp: transaction_calls_def)
    ultimately show ?case using Cons.IH [of "Suc k"] by (fastforce simp: image_iff)
  qed simp
  then show ?thesis by (simp add: block_calls_def)
qed

lemma split_at: "c \<notin> set xs \<Longrightarrow> c \<notin> set ys \<Longrightarrow> xs @ c # us = ys @ c # vs \<longleftrightarrow> xs = ys \<and> us = vs"
proof (induction xs arbitrary: ys)
  case Nil
  then show ?case by (cases ys) auto
next
  case (Cons x xs)
  then show ?case by (cases ys) auto
qed

lemma int_str_no_underscore: "CHR ''_'' \<notin> set (int_str n)"
proof -
  have "CHR ''_'' \<notin> set (nat_str m)" for m
    using nat_str_digits [of m] by (auto simp: list_all_iff is_digit_def)
  then show ?thesis by (simp add: int_str_def)
qed

lemma int_str_inj: "int_str m = int_str n \<longleftrightarrow> m = n"
proof
  assume eq: "int_str m = int_str n"
  have p: "parse_int (int_str k) = Inr k" for k using parse_int_str [of "[]" k] by simp
  from p [of m] p [of n] show "m = n" unfolding eq by simp
qed simp

lemma trace_id_inj: "trace_id_of b i n = trace_id_of b' j m \<longleftrightarrow> b = b' \<and> i = j \<and> n = m"
proof -
  have "trace_id_of b i n = int_str b @ CHR ''_'' # (int_str i @ CHR ''_'' # int_str n)" for b i n
    by (simp add: trace_id_of_def)
  then show ?thesis by (simp add: split_at int_str_no_underscore int_str_inj)
qed

lemma enumerates:
  assumes "geth_trace_to_traces g = Inr ts"
  shows "map trace_summary ts = map (\<lambda>(i, c). numbered_call (gt_block_number g) i c) (block_calls g)"
proof -
  from assms obtain tss where tss: "list_all2 (\<lambda>itx ts. transaction_traces_of g itx = Inr ts)
      (enumerate 0 (gt_transaction_traces g)) tss" and ts: "ts = concat tss"
    by (auto simp: geth_trace_to_traces_def rbind_Inr_iff rmap_Inr_iff)
  from tss have "map trace_summary (concat tss) =
      map (\<lambda>(i, c). numbered_call (gt_block_number g) i c) (concat (map transaction_calls (enumerate 0 (gt_transaction_traces g))))"
    by (induction rule: list_all2_induct) (simp_all add: transaction_traces_summary)
  then show ?thesis by (simp add: ts block_calls_def)
qed

section \<open>Children\<close>

lemma preorder_prefix:
  "(p, c) \<in> set (preorder f path) \<Longrightarrow> \<exists>q. p = path @ q"
  "(p, c) \<in> set (preorders fs path k) \<Longrightarrow> \<exists>i q. i \<ge> k \<and> i < k + length fs \<and> p = path @ i # q"
  by (induction f path and fs path k arbitrary: p c and p c rule: preorder_preorders.induct)
    (fastforce dest: Suc_leD)+

text \<open>A call makes \<open>c\<close> calls exactly if the paths extending its own by one index are those with an
  index below \<open>c\<close>.\<close>

definition children_of :: "(nat list \<times> nat) list \<Rightarrow> nat list \<Rightarrow> nat set" where
  "children_of cs p = {k. p @ [k] \<in> fst ` set cs}"

lemma children_append: "children_of (xs @ ys) p = children_of xs p \<union> children_of ys p"
  by (auto simp: children_of_def)

lemma preorder_root: "path \<in> fst ` set (preorder f path)"
  by (cases f) simp

lemma preorders_direct: "k \<le> i \<Longrightarrow> i < k + length fs \<Longrightarrow> \<exists>c. (path @ [i], c) \<in> set (preorders fs path k)"
proof (induction fs arbitrary: k)
  case (Cons f fs)
  show ?case
  proof (cases "i = k")
    case True
    with preorder_root [of "path @ [k]" f] show ?thesis by auto
  next
    case False
    with Cons.prems Cons.IH [of "Suc k"] show ?thesis by auto
  qed
qed simp

lemma preorder_children:
  "(p, c) \<in> set (preorder f path) \<Longrightarrow> children_of (preorder f path) p = {..<c}"
  "(p, c) \<in> set (preorders fs path k) \<Longrightarrow> children_of (preorders fs path k) p = {..<c}"
proof (induction f path and fs path k arbitrary: p c and p c rule: preorder_preorders.induct)
  case (1 fs path)
  show ?case
  proof (cases "p = path")
    case True
    have "\<exists>c. (path @ [i], c) \<in> set (preorders fs path 0)" if "i < length fs" for i
      using preorders_direct [of 0 i fs path] that by simp
    moreover have "i < length fs" if "(path @ [i], c) \<in> set (preorders fs path 0)" for i c
      using preorder_prefix(2) [OF that] by auto
    moreover have "c = length fs" using "1.prems" True preorder_prefix(2) [of path c fs path 0] by auto
    ultimately show ?thesis using True by (force simp: children_of_def)
  next
    case False
    then have p: "(p, c) \<in> set (preorders fs path 0)" using "1.prems" by simp
    from preorder_prefix(2) [OF p] have "p @ [k] \<noteq> path" for k by auto
    then have "children_of (preorder (Frame fs) path) p = children_of (preorders fs path 0) p"
      by (auto simp: children_of_def)
    with "1.IH" [OF p] show ?thesis by simp
  qed
next
  case (3 f fs path k)
  note before = preorder_prefix(1) [where f = f and path = "path @ [k]"]
  note after = preorder_prefix(2) [where fs = fs and path = path and k = "Suc k"]
  from "3.prems" consider "(p, c) \<in> set (preorder f (path @ [k]))" | "(p, c) \<in> set (preorders fs path (Suc k))"
    by auto
  then show ?case
  proof cases
    case 1
    with before obtain q where "p = path @ k # q" by fastforce
    then have "children_of (preorders fs path (Suc k)) p = {}"
      by (auto simp: children_of_def dest!: after)
    with "3.IH"(1) [OF 1] show ?thesis by (simp add: children_append)
  next
    case 2
    with after obtain i q where i: "Suc k \<le> i" "p = path @ i # q" by blast
    then have "children_of (preorder f (path @ [k])) p = {}"
      by (auto simp: children_of_def dest!: before)
    with "3.IH"(2) [OF 2] show ?thesis by (simp add: children_append)
  qed
qed simp

section \<open>Properties\<close>

text \<open>C28: the traces of a block are the calls of its call trees in preorder, transaction by
  transaction: each has the number of its call in the transaction in its identifier, the index one
  above it, the path to its call and the number of calls made.\<close>

theorem traces_enumerate_calls:
  assumes "geth_trace_to_traces g = Inr ts"
  shows "map trace_summary ts = map (\<lambda>(i, c). numbered_call (gt_block_number g) i c) (block_calls g)"
  using assms by (rule enumerates)

text \<open>No two traces of a block have the same identifier.\<close>

lemma trace_ids_distinct:
  assumes "geth_trace_to_traces g = Inr ts"
  shows "distinct (map (\<lambda>t. jget t ''trace_id'') ts)"
proof -
  let ?id = "\<lambda>(i, n). JStr (trace_id_of (gt_block_number g) i n)"
  have summary: "map trace_summary ts = map (\<lambda>(i, c). numbered_call (gt_block_number g) i c) (block_calls g)"
    using assms by (rule enumerates)
  have "map (\<lambda>t. jget t ''trace_id'') ts = map hd (map trace_summary ts)" by (simp add: trace_summary_def)
  also have "\<dots> = map ?id (map (\<lambda>(i, n, _). (i, n)) (block_calls g))"
    by (simp add: summary numbered_call_def split_beta)
  finally show ?thesis using block_calls_distinct [of g]
    by (simp add: distinct_map inj_on_def trace_id_inj split_beta)
qed

text \<open>The number of subtraces a trace of a call tree claims is the number of traces whose path
  extends its own by one index.\<close>

lemma subtraces_are_children:
  assumes "iterate_transaction_trace g i h tx_trace [] 0 = Inr (ts, n)" and "t \<in> set ts"
    and "jget t ''trace_address'' = JList (map (\<lambda>k. JInt (int k)) path)"
  shows "jget t ''subtraces'' =
    JInt (int (card {k. \<exists>u \<in> set ts. jget u ''trace_address'' = JList (map (\<lambda>k. JInt (int k)) (path @ [k]))}))"
proof -
  let ?j = "\<lambda>p. JList (map (\<lambda>k. JInt (int k)) p)" and ?cs = "preorder (frame_of tx_trace) []"
  have inj: "?j p = ?j q \<longleftrightarrow> p = q" for p q
    by (simp add: inj_map_eq_map inj_on_def)
  have "map trace_summary ts = map (numbered_call (gt_block_number g) i) (numbered 0 ?cs)"
    using walk_enumerates(1) [OF assms(1)] by simp
  then have "map (\<lambda>l. (l ! 3, l ! 4)) (map trace_summary ts) =
      map (\<lambda>l. (l ! 3, l ! 4)) (map (numbered_call (gt_block_number g) i) (numbered 0 ?cs))"
    by (rule arg_cong)
  then have eq: "map (\<lambda>t. (jget t ''trace_address'', jget t ''subtraces'')) ts =
      map (\<lambda>c. (?j (fst c), JInt (int (snd c)))) (map snd (numbered 0 ?cs))"
    by (simp add: trace_summary_def numbered_call_def split_beta comp_def)
  from arg_cong [OF eq, of set]
  have set: "(\<lambda>t. (jget t ''trace_address'', jget t ''subtraces'')) ` set ts =
      (\<lambda>c. (?j (fst c), JInt (int (snd c)))) ` set ?cs" by (simp only: numbered_snd set_map)
  have "(jget t ''trace_address'', jget t ''subtraces'') \<in> (\<lambda>c. (?j (fst c), JInt (int (snd c)))) ` set ?cs"
    unfolding set [symmetric] using assms(2) by (rule imageI)
  then obtain qc where qc: "qc \<in> set ?cs"
    and eq: "(jget t ''trace_address'', jget t ''subtraces'') = (?j (fst qc), JInt (int (snd qc)))" by (rule imageE)
  obtain c where c: "(path, c) \<in> set ?cs" "jget t ''subtraces'' = JInt (int c)"
  proof (rule that)
    have "?j (fst qc) = ?j path" using eq assms(3) by (metis fst_conv)
    then have "fst qc = path" using inj by blast
    with qc show "(path, snd qc) \<in> set ?cs" by (metis prod.collapse)
    show "jget t ''subtraces'' = JInt (int (snd qc))" using eq unfolding prod.inject by (rule conjunct2)
  qed
  have "(\<exists>u \<in> set ts. jget u ''trace_address'' = ?j q) \<longleftrightarrow> q \<in> fst ` set ?cs" for q
  proof -
    have "(\<exists>u \<in> set ts. jget u ''trace_address'' = ?j q) \<longleftrightarrow>
        ?j q \<in> fst ` ((\<lambda>t. (jget t ''trace_address'', jget t ''subtraces'')) ` set ts)"
      by (force simp: image_comp)
    also have "\<dots> \<longleftrightarrow> ?j q \<in> ?j ` fst ` set ?cs" unfolding set by (simp add: image_comp comp_def)
    finally show ?thesis using inj by blast
  qed
  then have "{k. \<exists>u \<in> set ts. jget u ''trace_address'' = ?j (path @ [k])} = children_of ?cs path"
    by (simp only: children_of_def)
  with preorder_children(1) [OF c(1)] c(2) show ?thesis by simp
qed

text \<open>When blocks with different numbers have different hashes, there is one count for each
  block with traces, it counts its traces, and no internal transaction is ever counted.\<close>

lemma traces_counted:
  assumes "process_traces traces internals = (traces', internals', counts)"
    and "\<forall>t \<in> set traces. \<forall>u \<in> set traces. tr_block_hash t = tr_block_hash u \<longleftrightarrow> tr_block_number t = tr_block_number u"
  shows "distinct (map ub_hash counts) \<and> ub_hash ` set counts = tr_block_hash ` set traces \<and>
    (\<forall>c \<in> set counts. ub_traces_count c = int (length (filter (\<lambda>t. tr_block_hash t = ub_hash c) traces)) \<and>
       ub_internal_transactions_count c = 0)"
proof -
  let ?ts = "sort_key trace_order traces"
  have "sorted (map tr_block_number ?ts)"
  proof -
    have "sorted (map trace_order ?ts)" by simp
    then show ?thesis unfolding sorted_map
      by (rule sorted_wrt_mono_rel [rotated]) (auto simp: less_eq_prod_def trace_order_def)
  qed
  note groups = groupby_groups [OF this, of tr_block_hash]
  have counts: "counts = map internal_count (groupby tr_block_hash ?ts)"
    using assms(1) by (auto simp: process_traces_def Let_def)
  have count: "length (filter p ?ts) = length (filter p traces)" for p
    by (metis mset_filter mset_sort_key size_mset)
  have hash: "ub_hash (internal_count ht) = fst ht" "ub_traces_count (internal_count ht) = int (length (snd ht))"
    "ub_internal_transactions_count (internal_count ht) = 0" for ht
    by (simp_all add: internal_count_def consume_def)
  have "map ub_hash counts = map fst (groupby tr_block_hash ?ts)" by (simp add: counts hash comp_def)
  moreover from arg_cong [OF this, of set] have "ub_hash ` set counts = fst ` set (groupby tr_block_hash ?ts)" by simp
  moreover have "ub_traces_count c = int (length (filter (\<lambda>t. tr_block_hash t = ub_hash c) traces)) \<and>
      ub_internal_transactions_count c = 0" if "c \<in> set counts" for c
    using that groups assms(2) by (auto simp: counts hash count)
  ultimately show ?thesis using groups assms(2) by simp
qed

section \<open>Witnesses\<close>

definition sample_call :: "string \<Rightarrow> json list \<Rightarrow> json" where
  "sample_call ty calls = JDict [(''type'', JStr ty), (''from'', JStr ''0xa''), (''to'', JStr ''0xb''),
     (''value'', JStr ''0x1''), (''calls'', JList calls)]"

definition sample_geth_trace :: geth_trace where
  "sample_geth_trace = \<lparr>gt_block_number = 12, gt_block_hash = ''0xh'', gt_block_timestamp = 5,
     gt_transaction_traces =
       [JDict [(''txHash'', JStr ''0xt''), (''result'', sample_call ''CALL''
          [sample_call ''CREATE'' [], sample_call ''STATICCALL'' [sample_call ''SELFDESTRUCT'' []]])]]\<rparr>"

definition sample_trace :: trace where
  "sample_trace = \<lparr>tr_trace_id = ''1_0_0'', tr_from_address = None, tr_to_address = None, tr_value = None,
     tr_input = None, tr_output = None, tr_trace_type = Some ''create'', tr_call_type = None, tr_gas = None,
     tr_gas_used = None, tr_subtraces = None, tr_error = None, tr_status = None, tr_block_number = 1,
     tr_block_hash = ''0xh'', tr_block_timestamp = 5, tr_transaction_index = 0, tr_transaction_hash = None,
     tr_trace_index = 1, tr_trace_address = JList []\<rparr>"

lemma returned: "(case r of Inr _ \<Rightarrow> True | Inl _ \<Rightarrow> False) \<Longrightarrow> \<exists>v. r = Inr v"
  by (cases r) auto

lemma sample_traces: "\<exists>ts. geth_trace_to_traces sample_geth_trace = Inr ts"
  by (rule returned) code_simp

theorem traces_enumerate_calls_witness:
  "\<exists>ts. geth_trace_to_traces sample_geth_trace = Inr ts \<and>
     map trace_summary ts = map (\<lambda>(i, c). numbered_call 12 i c)
       [(0, 0, [], 2), (0, 1, [0], 0), (0, 2, [1], 1), (0, 3, [1, 0], 0)]"
proof -
  obtain ts where ts: "geth_trace_to_traces sample_geth_trace = Inr ts" using sample_traces by blast
  have "block_calls sample_geth_trace = [(0, 0, [], 2), (0, 1, [0], 0), (0, 2, [1], 1), (0, 3, [1, 0], 0)]"
    by code_simp
  with traces_enumerate_calls [OF ts] ts show ?thesis by (simp add: sample_geth_trace_def)
qed

theorem trace_ids_distinct_witness:
  "\<exists>ts. geth_trace_to_traces sample_geth_trace = Inr ts \<and> distinct (map (\<lambda>t. jget t ''trace_id'') ts)"
  using sample_traces trace_ids_distinct by blast

theorem subtraces_are_children_witness:
  "\<exists>ts n t. iterate_transaction_trace sample_geth_trace 0 JNull (sample_call ''CALL'' [sample_call ''CREATE'' []]) [] 0 = Inr (ts, n) \<and>
     t \<in> set ts \<and> jget t ''subtraces'' =
       JInt (int (card {k. \<exists>u \<in> set ts. jget u ''trace_address'' = JList (map (\<lambda>k. JInt (int k)) ([] @ [k]))}))"
proof -
  let ?r = "iterate_transaction_trace sample_geth_trace 0 JNull (sample_call ''CALL'' [sample_call ''CREATE'' []]) [] 0"
  have "case ?r of Inr (t # _, _) \<Rightarrow> jget t ''trace_address'' = JList [] | _ \<Rightarrow> False" by code_simp
  then obtain t ts n where r: "?r = Inr (t # ts, n)" and t: "jget t ''trace_address'' = JList []"
    by (auto split: sum.splits list.splits)
  from subtraces_are_children [OF r, of t "[]"] t r show ?thesis by fastforce
qed

theorem traces_counted_witness:
  "\<exists>counts. process_traces [sample_trace, sample_trace] [] = ([sample_trace, sample_trace], [], counts) \<and>
     map ub_traces_count counts = [2] \<and> map ub_internal_transactions_count counts = [0]"
proof -
  let ?c = "[internal_count (''0xh'', [sample_trace, sample_trace])]"
  have p: "process_traces [sample_trace, sample_trace] [] = ([sample_trace, sample_trace], [], ?c)"
    by (simp add: process_traces_def Let_def) (simp add: sample_trace_def)
  from traces_counted [OF p] have "map ub_internal_transactions_count ?c = [0]" by simp
  with p show ?thesis by (auto simp: internal_count_def consume_def)
qed

end
