(* ===== verification/Enrich.thy ===== *)
theory Enrich
  imports Domain
begin

text \<open>
  \<open>indexer/utils/enrich.py\<close>: the hash join on lists of dictionaries, the joins of blocks with
  what happened in them, and the filling in of timestamps and token types. A join reads the key of
  every item first; a list or a dictionary cannot be a key, and \<open>True\<close> and \<open>False\<close> are the keys 1 and 0.
\<close>

section \<open>Join\<close>

text \<open>A field list has names or pairs of a source and a destination name.\<close>

definition self_field :: "string \<Rightarrow> string \<times> string" where
  "self_field f = (f, f)"

definition field_list_to_dict :: "(string \<times> string) list \<Rightarrow> (string \<times> string) list" where
  "field_list_to_dict field_list = fold (\<lambda>(src, dst). AList.update src dst) field_list []"

definition copy_fields :: "(string \<times> string) list \<Rightarrow> jdict \<Rightarrow> jdict \<Rightarrow> jdict" where
  "copy_fields field_list item result_item =
     fold (\<lambda>(src, dst). AList.update dst (jget item src)) (field_list_to_dict field_list) result_item"

definition joined_item :: "(string \<times> string) list \<Rightarrow> (string \<times> string) list \<Rightarrow> jdict \<Rightarrow> jdict \<Rightarrow> jdict" where
  "joined_item left_fields right_fields left_item right_item =
     copy_fields right_fields right_item (copy_fields left_fields left_item [])"

text \<open>Keys as the dictionaries of Python compare them.\<close>

definition as_key :: "json \<Rightarrow> json" where
  "as_key k = (case k of JBool b \<Rightarrow> JInt (if b then 1 else 0) | _ \<Rightarrow> k)"

definition hash_key :: "json \<Rightarrow> json res" where
  "hash_key k = (case k of JList _ \<Rightarrow> Inl TypeError | JDict _ \<Rightarrow> Inl TypeError | _ \<Rightarrow> Inr (as_key k))"

definition keyed :: "string \<Rightarrow> jdict list \<Rightarrow> (json \<times> jdict) list res" where
  "keyed join_field items =
     rmap (\<lambda>item. rbind (dict_get item join_field) (\<lambda>v. rbind (hash_key v) (\<lambda>k. Inr (k, item)))) items"

definition by_key :: "(json \<times> jdict) list \<Rightarrow> (json \<times> jdict list) list" where
  "by_key kis = map (\<lambda>(k, group). (k, map snd group)) (group_on fst kis)"

definition items_at :: "(json \<times> jdict list) list \<Rightarrow> json \<Rightarrow> jdict list" where
  "items_at m k = (case map_of m k of None \<Rightarrow> [] | Some items \<Rightarrow> items)"

definition join :: "jdict list \<Rightarrow> jdict list \<Rightarrow> string \<times> string \<Rightarrow> (string \<times> string) list
    \<Rightarrow> (string \<times> string) list \<Rightarrow> jdict list res" where
  "join left right join_fields left_fields right_fields =
     rbind (keyed (fst join_fields) left) (\<lambda>ls.
     rbind (keyed (snd join_fields) right) (\<lambda>rs.
       Inr (concat (map (\<lambda>(k, left_items). concat (map (\<lambda>l.
              map (joined_item left_fields right_fields l) (items_at (by_key rs) k)) left_items)) (by_key ls)))))"

text \<open>A join has to give exactly one item for each item on the left, else its result is refused (the
  error prints it too).\<close>

definition joined_all :: "string \<Rightarrow> jdict list \<Rightarrow> jdict list \<Rightarrow> string \<times> string \<Rightarrow> (string \<times> string) list
    \<Rightarrow> (string \<times> string) list \<Rightarrow> jdict list res" where
  "joined_all message left right join_fields left_fields right_fields =
     rbind (join left right join_fields left_fields right_fields) (\<lambda>items.
       if length items \<noteq> length left then Inl (ValueError message) else Inr items)"

section \<open>The joins of the program\<close>

definition enrich_transactions :: "jdict list \<Rightarrow> jdict list \<Rightarrow> jdict list res" where
  "enrich_transactions transactions receipts =
     joined_all ''The number of transactions is wrong'' transactions receipts (''hash'', ''transactionHash'')
       [self_field ''hash'', self_field ''transactionIndex'', self_field ''from'',
        self_field ''to'', self_field ''value'', self_field ''type'', self_field ''input'',
        self_field ''nonce'', self_field ''blockHash'', self_field ''blockNumber'',
        self_field ''gas'', self_field ''gasPrice'', self_field ''maxFeePerGas'',
        self_field ''maxPriorityFeePerGas'', self_field ''maxFeePerBlobGas'',
        self_field ''blobVersionedHashes'']
       [(''gasUsed'', ''receiptGasUsed''), (''cumulativeGasUsed'', ''receiptCumulativeGasUsed''),
        (''effectiveGasPrice'', ''receiptEffectiveGasPrice''), (''root'', ''receiptRoot''),
        (''status'', ''receiptStatus''), (''l1Fee'', ''receiptL1Fee''),
        (''l1FeeScalar'', ''receiptL1FeeScalar''), (''l1GasUsed'', ''receiptL1GasUsed''),
        (''l1GasPrice'', ''receiptL1GasPrice''), (''blobGasUsed'', ''receiptBlobGasUsed''),
        (''blobGasPrice'', ''receiptBlobGasPrice''),
        (''contractAddress'', ''receiptContractAddress''), self_field ''error'',
        self_field ''revertReason'', self_field ''logs'']"

definition enrich_logs :: "jdict list \<Rightarrow> jdict list \<Rightarrow> jdict list res" where
  "enrich_logs blocks logs =
     joined_all ''The number of logs is wrong'' logs blocks (''block_number'', ''number'')
       [self_field ''type'', self_field ''log_index'', self_field ''transaction_hash'',
        self_field ''transaction_index'', self_field ''address'', self_field ''data'',
        self_field ''topic0'', self_field ''topic1'', self_field ''topic2'', self_field ''topic3'',
        self_field ''block_number'']
       [(''timestamp'', ''block_timestamp''), (''hash'', ''block_hash'')]"

definition enrich_token_transfers :: "jdict list \<Rightarrow> jdict list \<Rightarrow> jdict list res" where
  "enrich_token_transfers blocks token_transfers =
     joined_all ''The number of token transfers is wrong'' token_transfers blocks (''block_number'', ''number'')
       [self_field ''type'', self_field ''token_address'', self_field ''from_address'',
        self_field ''to_address'', self_field ''value'', self_field ''transaction_hash'',
        self_field ''log_index'', self_field ''block_number'']
       [(''timestamp'', ''block_timestamp''), (''hash'', ''block_hash'')]"

definition enrich_traces :: "jdict list \<Rightarrow> jdict list \<Rightarrow> jdict list res" where
  "enrich_traces blocks traces =
     joined_all ''The number of traces is wrong'' traces blocks (''block_number'', ''number'')
       [self_field ''trace_id'', self_field ''from_address'', self_field ''to_address'',
        self_field ''input'', self_field ''output'', self_field ''value'', self_field ''gas'',
        self_field ''gas_used'', self_field ''trace_type'', self_field ''call_type'',
        self_field ''subtraces'', self_field ''trace_address'', self_field ''error'',
        self_field ''status'', self_field ''block_number'', self_field ''transaction_index'',
        self_field ''transaction_hash'', self_field ''trace_index'']
       [(''timestamp'', ''block_timestamp''), (''hash'', ''block_hash'')]"

definition enrich_contracts :: "jdict list \<Rightarrow> jdict list \<Rightarrow> jdict list res" where
  "enrich_contracts blocks contracts =
     joined_all ''The number of contracts is wrong'' contracts blocks (''block_number'', ''number'')
       [self_field ''address'', self_field ''contract_creator'', self_field ''creation_code'',
        self_field ''deployed_code'', self_field ''block_number'',
        self_field ''transaction_index'', self_field ''transaction_hash'', self_field ''name'']
       [(''timestamp'', ''block_timestamp''), (''hash'', ''block_hash'')]"

definition enrich_tokens :: "jdict list \<Rightarrow> jdict list \<Rightarrow> jdict list res" where
  "enrich_tokens blocks tokens =
     joined_all ''The number of tokens is wrong'' tokens blocks (''block_number'', ''number'')
       [self_field ''type'', self_field ''address'', self_field ''symbol'', self_field ''name'',
        self_field ''decimals'', self_field ''total_supply'', self_field ''block_number'']
       [(''timestamp'', ''block_timestamp''), (''hash'', ''block_hash'')]"

section \<open>Filling in\<close>

definition enrich_blocks_timestamp :: "ext \<Rightarrow> jdict list \<Rightarrow> jdict list \<Rightarrow> jdict list res" where
  "enrich_blocks_timestamp x blocks datas =
     rbind (rfold (\<lambda>d b. rbind (dict_get b ''number'') (\<lambda>n. rbind (dict_get b ''timestamp'') (\<lambda>ts.
              rbind (hash_key n) (\<lambda>k. Inr (AList.update k ts d))))) [] blocks) (\<lambda>block_timestamp.
       rmap (\<lambda>data. rbind (get_hex x data ''blockNumber'') (\<lambda>n.
         case map_of block_timestamp (JInt n) of
           None \<Rightarrow> Inl (KeyError (int_str n))
         | Some ts \<Rightarrow> Inr (AList.update ''blockTimestamp'' ts data))) datas)"

definition fill_token_type :: "(string \<times> json) list \<Rightarrow> jdict \<Rightarrow> jdict res" where
  "fill_token_type tokens_type transfer_event =
     rbind (dict_get transfer_event ''tokenType'') (\<lambda>ty.
     rbind (if ty = JNull
            then rbind (get_str transfer_event ''tokenAddress'') (\<lambda>a. rbind (dict_get tokens_type a) (\<lambda>t.
              Inr (AList.update ''tokenType'' t transfer_event)))
            else Inr transfer_event) (\<lambda>e.
       if jget e ''tokenType'' = JStr ''ERC721''
       then rbind (dict_get e ''value'') (\<lambda>v. Inr (AList.update ''tokenId'' v e))
       else Inr e))"

definition enrich_token_transfer_type :: "jdict list \<Rightarrow> (string \<times> json) list \<Rightarrow> jdict list res" where
  "enrich_token_transfer_type token_transfers tokens_type = rmap (fill_token_type tokens_type) token_transfers"

section \<open>A join by comparing all pairs\<close>

text \<open>The reference: each item on the left with each item on the right whose key is equal to its own.\<close>

definition same_key :: "json \<Rightarrow> json \<Rightarrow> bool" where
  "same_key k l \<longleftrightarrow> k = l \<or> (\<exists>b \<in> {True, False}. \<exists>n \<in> {if b then 1 else 0}. {k, l} = {JBool b, JInt n})"

definition nested_loop_join :: "jdict list \<Rightarrow> jdict list \<Rightarrow> string \<times> string \<Rightarrow> (string \<times> string) list
    \<Rightarrow> (string \<times> string) list \<Rightarrow> jdict list" where
  "nested_loop_join left right join_fields left_fields right_fields =
     concat (map (\<lambda>l. map (joined_item left_fields right_fields l)
       (filter (\<lambda>r. same_key (jget r (snd join_fields)) (jget l (fst join_fields))) right)) left)"

lemma as_key_same [simp]: "as_key k = as_key l \<longleftrightarrow> same_key k l"
  by (cases k; cases l) (auto simp: as_key_def same_key_def doubleton_eq_iff)

lemma hash_key_Inr: "hash_key v = Inr k \<Longrightarrow> k = as_key v"
  by (cases v) (auto simp: hash_key_def)

lemma keyed_items: "keyed f items = Inr ks \<Longrightarrow> ks = map (\<lambda>i. (as_key (jget i f), i)) items"
proof (induction items arbitrary: ks)
  case (Cons i js)
  from Cons.prems obtain v k ks' where "map_of i f = Some v" "hash_key v = Inr k" "keyed f js = Inr ks'" "ks = (k, i) # ks'"
    by (auto simp: keyed_def rbind_Inr_iff)
  with Cons.IH hash_key_Inr show ?case by (simp add: jget_def)
qed (simp add: keyed_def)

lemma items_at_by_key: "items_at (by_key ks) k = map snd (filter (\<lambda>p. fst p = k) ks)"
proof -
  have "map_of (map (\<lambda>(k, g). (k, map snd g)) d) k = map_option (map snd) (map_of d k)" for d :: "(json \<times> (json \<times> jdict) list) list"
    by (induction d) auto
  then show ?thesis by (auto simp: items_at_def by_key_def group_on_lookup filter_empty_conv)
qed

text \<open>Going through the groups is going through the items, up to the order.\<close>

definition group_total :: "('k \<Rightarrow> 'a \<Rightarrow> 'b multiset) \<Rightarrow> ('k \<times> 'a list) list \<Rightarrow> 'b multiset" where
  "group_total f d = sum_list (map (\<lambda>(k, g). sum_list (map (f k) g)) d)"

lemma group_total_update:
  "distinct (map fst d) \<Longrightarrow> group_total f (dict_append k x d) = group_total f d + f k x"
  by (induction d) (auto simp: group_total_def dict_append_def)

lemma group_total_group_on: "group_total f (group_on key xs) = sum_list (map (\<lambda>x. f (key x) x) xs)"
proof -
  have "distinct (map fst d) \<Longrightarrow>
      group_total f (fold (\<lambda>x. dict_append (key x) x) xs d) = group_total f d + sum_list (map (\<lambda>x. f (key x) x) xs)" for d
    by (induction xs arbitrary: d) (simp_all add: group_total_update distinct_dict_append ac_simps)
  from this [of "[]"] show ?thesis by (simp add: group_on_def group_total_def)
qed

lemma mset_concat_map: "mset (concat (map f xs)) = sum_list (map (\<lambda>x. mset (f x)) xs)"
  by (induction xs) simp_all

lemma join_refines_nested_loop_mset:
  assumes "join left right join_fields left_fields right_fields = Inr items"
  shows "mset items = mset (nested_loop_join left right join_fields left_fields right_fields)"
proof -
  let ?j = "joined_item left_fields right_fields" and ?lk = "fst join_fields" and ?rk = "snd join_fields"
  from assms obtain ls rs where ls: "keyed ?lk left = Inr ls" and rs: "keyed ?rk right = Inr rs"
    and items: "items = concat (map (\<lambda>(k, left_items). concat (map (\<lambda>l. map (?j l) (items_at (by_key rs) k)) left_items)) (by_key ls))"
    by (auto simp: join_def rbind_Inr_iff)
  have at: "items_at (by_key rs) k = filter (\<lambda>r. as_key (jget r ?rk) = k) right" for k
    by (simp add: items_at_by_key keyed_items [OF rs] filter_map comp_def)
  have "mset items = group_total (\<lambda>k kl. mset (map (?j (snd kl)) (items_at (by_key rs) k))) (group_on fst ls)"
    by (simp add: items by_key_def [of ls] group_total_def mset_concat_map comp_def case_prod_unfold)
  also have "\<dots> = sum_list (map (\<lambda>kl. mset (map (?j (snd kl)) (items_at (by_key rs) (fst kl)))) ls)"
    by (rule group_total_group_on)
  also have "\<dots> = mset (nested_loop_join left right join_fields left_fields right_fields)"
    by (simp add: nested_loop_join_def mset_concat_map keyed_items [OF ls] at comp_def)
  finally show ?thesis .
qed

section \<open>Properties\<close>

text \<open>C39: a hash join that raises nothing gives the items that comparing all pairs gives, each as often.\<close>

theorem join_refines_nested_loop:
  assumes "join left right join_fields left_fields right_fields = Inr items"
  shows "mset items = mset (nested_loop_join left right join_fields left_fields right_fields)"
  using assms by (rule join_refines_nested_loop_mset)

text \<open>Transactions are enriched only when together they match as many receipts as they are, and
  then with exactly the pairs of the same hash.\<close>

lemma enrich_transactions_matches:
  assumes "enrich_transactions transactions receipts = Inr items"
  shows "length items = length transactions \<and>
    (\<Sum>t\<leftarrow>transactions. length (filter (\<lambda>r. same_key (jget r ''transactionHash'') (jget t ''hash'')) receipts)) = length transactions"
proof -
  obtain lf rf where join: "join transactions receipts (''hash'', ''transactionHash'') lf rf = Inr items"
    and len: "length items = length transactions"
    using assms by (auto simp: enrich_transactions_def joined_all_def rbind_Inr_iff split: if_splits)
  from arg_cong [OF join_refines_nested_loop_mset [OF join], of size] len show ?thesis
    by (simp add: nested_loop_join_def length_concat comp_def)
qed

section \<open>Witnesses\<close>

definition sample_rows :: "jdict list" where
  "sample_rows = [[(''hash'', JStr ''0x1''), (''value'', JStr ''0x5'')], [(''hash'', JStr ''0x2'')]]"

definition sample_receipts :: "jdict list" where
  "sample_receipts = [[(''transactionHash'', JStr ''0x2''), (''status'', JStr ''0x1'')], [(''transactionHash'', JStr ''0x1'')]]"

theorem join_refines_nested_loop_witness:
  "\<exists>items. join sample_rows sample_receipts (''hash'', ''transactionHash'') [self_field ''hash''] [self_field ''status''] = Inr items \<and>
     mset items = {#[(''hash'', JStr ''0x1''), (''status'', JNull)], [(''hash'', JStr ''0x2''), (''status'', JStr ''0x1'')]#}"
proof -
  let ?join = "join sample_rows sample_receipts (''hash'', ''transactionHash'') [self_field ''hash''] [self_field ''status'']"
  have "case ?join of Inr _ \<Rightarrow> True | Inl _ \<Rightarrow> False" by code_simp
  then obtain items where items: "?join = Inr items" by (auto split: sum.splits)
  have "nested_loop_join sample_rows sample_receipts (''hash'', ''transactionHash'') [self_field ''hash''] [self_field ''status''] =
      [[(''hash'', JStr ''0x1''), (''status'', JNull)], [(''hash'', JStr ''0x2''), (''status'', JStr ''0x1'')]]"
    by code_simp
  with join_refines_nested_loop [OF items] items show ?thesis by simp
qed

theorem enrich_transactions_matches_witness:
  "\<exists>items. enrich_transactions sample_rows sample_receipts = Inr items \<and> length items = 2"
proof -
  have "case enrich_transactions sample_rows sample_receipts of Inr _ \<Rightarrow> True | Inl _ \<Rightarrow> False" by code_simp
  then obtain items where items: "enrich_transactions sample_rows sample_receipts = Inr items" by (auto split: sum.splits)
  with enrich_transactions_matches [OF items] show ?thesis by (simp add: sample_rows_def)
qed

end
