(* ===== verification/Models.thy ===== *)
theory Models
  imports Prelude
begin

text \<open>
  The database models of \<open>common/models\<close> and of the modules: for each class the name of its table,
  its columns with their types, its primary key, and the data classes it stores with what happens
  to a row that is already there (\<open>model_domain_mapping\<close>). Lengths and precisions of types and
  indexes other than the primary key are left out, and so are the default values of columns.
\<close>

section \<open>Tables\<close>

datatype column_type = BYTEA | BIGINT | INTEGER | NUMERIC | VARCHAR | TEXT | TIMESTAMP | BOOLEAN | JSON
  | JSONB | DATE | DATETIME | ARRAY column_type

record column =
  col_name :: string
  col_type :: column_type
  col_primary :: bool
  col_generated :: bool

definition plain_column :: "string \<Rightarrow> column_type \<Rightarrow> column" where
  "plain_column n t = \<lparr>col_name = n, col_type = t, col_primary = False, col_generated = False\<rparr>"

definition primary_column :: "string \<Rightarrow> column_type \<Rightarrow> column" where
  "primary_column n t = \<lparr>col_name = n, col_type = t, col_primary = True, col_generated = False\<rparr>"

definition generated_column :: "string \<Rightarrow> column_type \<Rightarrow> column" where
  "generated_column n t = \<lparr>col_name = n, col_type = t, col_primary = False, col_generated = True\<rparr>"

text \<open>The condition of an update on the block number of the new row and of the row that is there.\<close>

datatype update_strategy = NoStrategy | NewerBlock | NotOlderBlock

datatype converter_name = GeneralConverter | BlockConverter | TransactionConverter

record domain_config =
  dc_domain :: string
  dc_conflict_do_update :: bool
  dc_update_strategy :: update_strategy
  dc_converter :: converter_name

definition domain_mapping :: "string \<Rightarrow> bool \<Rightarrow> update_strategy \<Rightarrow> converter_name \<Rightarrow> domain_config" where
  "domain_mapping d u s c =
     \<lparr>dc_domain = d, dc_conflict_do_update = u, dc_update_strategy = s, dc_converter = c\<rparr>"

record table_model =
  tm_tablename :: string
  tm_columns :: "column list"
  tm_primary_key :: "string list"
  tm_mapping :: "domain_config list"

text \<open>The primary key is the constraint of the table, or the columns marked.\<close>

definition primary_key :: "table_model \<Rightarrow> string list" where
  "primary_key t = (if tm_primary_key t = [] then map col_name (filter col_primary (tm_columns t))
     else tm_primary_key t)"

definition column_names :: "table_model \<Rightarrow> string list" where
  "column_names t = map col_name (tm_columns t)"

definition column_type_of :: "table_model \<Rightarrow> string \<Rightarrow> column_type option" where
  "column_type_of t n = map_of (map (\<lambda>c. (col_name c, col_type c)) (tm_columns t)) n"

section \<open>The models\<close>

definition all_feature_value_records_model :: table_model where
  "all_feature_value_records_model =
     \<lparr>tm_tablename = ''all_feature_value_records'',
      tm_columns =
        [primary_column ''feature_id'' NUMERIC, primary_column ''block_number'' BIGINT,
         primary_column ''address'' BYTEA, plain_column ''value'' JSONB,
         plain_column ''create_time'' TIMESTAMP, plain_column ''update_time'' TIMESTAMP],
      tm_primary_key = [''block_number'', ''feature_id'', ''address''],
      tm_mapping =
        [domain_mapping ''AllFeatureValueRecordUniswapV3Pool'' True NoStrategy GeneralConverter,
         domain_mapping ''AllFeatureValueRecordUniswapV3Token'' True NoStrategy GeneralConverter,
         domain_mapping ''AllFeatureValueRecordTraitsActiveness'' True NoStrategy GeneralConverter]\<rparr>"

definition block_timestamp_mapper_model :: table_model where
  "block_timestamp_mapper_model =
     \<lparr>tm_tablename = ''block_ts_mapper'',
      tm_columns =
        [primary_column ''ts'' BIGINT, plain_column ''block_number'' BIGINT,
         plain_column ''timestamp'' TIMESTAMP],
      tm_primary_key = [],
      tm_mapping =
        [domain_mapping ''BlockTsMapper'' False NoStrategy GeneralConverter]\<rparr>"

definition blocks_model :: table_model where
  "blocks_model =
     \<lparr>tm_tablename = ''blocks'',
      tm_columns =
        [primary_column ''hash'' BYTEA, plain_column ''number'' BIGINT,
         plain_column ''timestamp'' TIMESTAMP, plain_column ''parent_hash'' BYTEA,
         plain_column ''nonce'' BYTEA, plain_column ''gas_limit'' NUMERIC,
         plain_column ''gas_used'' NUMERIC, plain_column ''base_fee_per_gas'' NUMERIC,
         plain_column ''blob_gas_used'' NUMERIC, plain_column ''excess_blob_gas'' NUMERIC,
         plain_column ''difficulty'' NUMERIC, plain_column ''total_difficulty'' NUMERIC,
         plain_column ''size'' BIGINT, plain_column ''miner'' BYTEA, plain_column ''sha3_uncles'' BYTEA,
         plain_column ''transactions_root'' BYTEA, plain_column ''transactions_count'' BIGINT,
         plain_column ''traces_count'' BIGINT, plain_column ''internal_transactions_count'' BIGINT,
         plain_column ''state_root'' BYTEA, plain_column ''receipts_root'' BYTEA,
         plain_column ''withdrawals_root'' BYTEA, plain_column ''extra_data'' BYTEA,
         plain_column ''create_time'' TIMESTAMP, plain_column ''update_time'' TIMESTAMP,
         plain_column ''reorg'' BOOLEAN],
      tm_primary_key = [],
      tm_mapping =
        [domain_mapping ''Block'' True NoStrategy BlockConverter,
         domain_mapping ''UpdateBlockInternalCount'' True NoStrategy BlockConverter]\<rparr>"

definition l1_to_l2_bridge_transactions_model :: table_model where
  "l1_to_l2_bridge_transactions_model =
     \<lparr>tm_tablename = ''l1_to_l2_bridge_transactions'',
      tm_columns =
        [primary_column ''msg_hash'' BYTEA, plain_column ''version'' INTEGER,
         plain_column ''index'' INTEGER, plain_column ''l1_block_number'' INTEGER,
         plain_column ''l1_block_timestamp'' TIMESTAMP, plain_column ''l1_block_hash'' BYTEA,
         plain_column ''l1_transaction_hash'' BYTEA, plain_column ''l1_from_address'' BYTEA,
         plain_column ''l1_to_address'' BYTEA, plain_column ''l2_block_number'' INTEGER,
         plain_column ''l2_block_timestamp'' TIMESTAMP, plain_column ''l2_block_hash'' BYTEA,
         plain_column ''l2_transaction_hash'' BYTEA, plain_column ''l2_from_address'' BYTEA,
         plain_column ''l2_to_address'' BYTEA, plain_column ''amount'' NUMERIC,
         plain_column ''from_address'' BYTEA, plain_column ''to_address'' BYTEA,
         plain_column ''l1_token_address'' BYTEA, plain_column ''l2_token_address'' BYTEA,
         plain_column ''extra_info'' JSON, plain_column ''_type'' INTEGER, plain_column ''sender'' BYTEA,
         plain_column ''target'' BYTEA, plain_column ''data'' BYTEA],
      tm_primary_key = [],
      tm_mapping =
        [domain_mapping ''ArbitrumL1ToL2TransactionOnL1'' False NoStrategy GeneralConverter,
         domain_mapping ''ArbitrumL1ToL2TransactionOnL2'' False NoStrategy GeneralConverter,
         domain_mapping ''OpL1ToL2DepositedTransaction'' False NoStrategy GeneralConverter,
         domain_mapping ''OpL1ToL2DepositedTransactionOnL2'' False NoStrategy GeneralConverter]\<rparr>"

definition l2_to_l1_bridge_transactions_model :: table_model where
  "l2_to_l1_bridge_transactions_model =
     \<lparr>tm_tablename = ''l2_to_l1_bridge_transactions'',
      tm_columns =
        [primary_column ''msg_hash'' BYTEA, plain_column ''version'' INTEGER,
         plain_column ''index'' INTEGER, plain_column ''l2_block_number'' INTEGER,
         plain_column ''l2_block_timestamp'' TIMESTAMP, plain_column ''l2_block_hash'' BYTEA,
         plain_column ''l2_transaction_hash'' BYTEA, plain_column ''l2_from_address'' BYTEA,
         plain_column ''l2_to_address'' BYTEA, plain_column ''l1_block_number'' INTEGER,
         plain_column ''l1_block_timestamp'' TIMESTAMP, plain_column ''l1_block_hash'' BYTEA,
         plain_column ''l1_transaction_hash'' BYTEA, plain_column ''l1_from_address'' BYTEA,
         plain_column ''l1_to_address'' BYTEA, plain_column ''amount'' NUMERIC,
         plain_column ''from_address'' BYTEA, plain_column ''to_address'' BYTEA,
         plain_column ''l1_token_address'' BYTEA, plain_column ''l2_token_address'' BYTEA,
         plain_column ''extra_info'' JSON, plain_column ''_type'' INTEGER,
         plain_column ''l1_proven_transaction_hash'' BYTEA,
         plain_column ''l1_proven_block_number'' INTEGER,
         plain_column ''l1_proven_block_timestamp'' TIMESTAMP, plain_column ''l1_proven_block_hash'' BYTEA,
         plain_column ''l1_proven_from_address'' BYTEA, plain_column ''l1_proven_to_address'' BYTEA],
      tm_primary_key = [],
      tm_mapping =
        [domain_mapping ''ArbitrumL2ToL1TransactionOnL1'' False NoStrategy GeneralConverter,
         domain_mapping ''ArbitrumL2ToL1TransactionOnL2'' False NoStrategy GeneralConverter,
         domain_mapping ''OpL2ToL1WithdrawnTransactionFinalized'' False NoStrategy GeneralConverter,
         domain_mapping ''OpL2ToL1WithdrawnTransactionOnL2'' False NoStrategy GeneralConverter,
         domain_mapping ''OpL2ToL1WithdrawnTransactionProven'' False NoStrategy GeneralConverter]\<rparr>"

definition bridge_tokens_model :: table_model where
  "bridge_tokens_model =
     \<lparr>tm_tablename = ''bridge_tokens'',
      tm_columns =
        [primary_column ''l1_token_address'' BYTEA, primary_column ''l2_token_address'' BYTEA],
      tm_primary_key = [],
      tm_mapping =
        [domain_mapping ''BridgeToken'' False NoStrategy GeneralConverter]\<rparr>"

definition state_batches_model :: table_model where
  "state_batches_model =
     \<lparr>tm_tablename = ''l1_state_batches'',
      tm_columns =
        [primary_column ''batch_index'' INTEGER, plain_column ''previous_total_elements'' INTEGER,
         plain_column ''batch_size'' INTEGER, plain_column ''l1_block_number'' INTEGER,
         plain_column ''l1_block_timestamp'' TIMESTAMP, plain_column ''l1_block_hash'' VARCHAR,
         plain_column ''l1_transaction_hash'' VARCHAR, plain_column ''extra_data'' VARCHAR,
         plain_column ''batch_root'' VARCHAR],
      tm_primary_key = [],
      tm_mapping =
        []\<rparr>"

definition op_bedrock_state_batches_model :: table_model where
  "op_bedrock_state_batches_model =
     \<lparr>tm_tablename = ''op_bedrock_state_batches'',
      tm_columns =
        [primary_column ''batch_index'' INTEGER, plain_column ''l1_block_number'' INTEGER,
         plain_column ''l1_block_timestamp'' TIMESTAMP, plain_column ''l1_block_hash'' VARCHAR,
         plain_column ''l1_transaction_hash'' VARCHAR, plain_column ''start_block_number'' INTEGER,
         plain_column ''end_block_number'' INTEGER, plain_column ''batch_root'' VARCHAR,
         plain_column ''transaction_count'' INTEGER, plain_column ''block_count'' INTEGER],
      tm_primary_key = [],
      tm_mapping =
        [domain_mapping ''OpStateBatch'' False NoStrategy GeneralConverter]\<rparr>"

definition arbitrum_state_batches_model :: table_model where
  "arbitrum_state_batches_model =
     \<lparr>tm_tablename = ''arbitrum_state_batches'',
      tm_columns =
        [primary_column ''node_num'' INTEGER, plain_column ''create_l1_block_number'' INTEGER,
         plain_column ''create_l1_block_timestamp'' TIMESTAMP,
         plain_column ''create_l1_block_hash'' VARCHAR,
         plain_column ''create_l1_transaction_hash'' VARCHAR, plain_column ''l1_block_number'' INTEGER,
         plain_column ''l1_block_timestamp'' TIMESTAMP, plain_column ''l1_block_hash'' VARCHAR,
         plain_column ''l1_transaction_hash'' VARCHAR, plain_column ''parent_node_hash'' VARCHAR,
         plain_column ''node_hash'' VARCHAR, plain_column ''block_hash'' VARCHAR,
         plain_column ''send_root'' VARCHAR, plain_column ''start_block_number'' INTEGER,
         plain_column ''end_block_number'' INTEGER, plain_column ''transaction_count'' INTEGER,
         plain_column ''block_count'' INTEGER],
      tm_primary_key = [],
      tm_mapping =
        [domain_mapping ''ArbitrumStateBatchCreated'' False NoStrategy GeneralConverter,
         domain_mapping ''ArbitrumStateBatchConfirmed'' False NoStrategy GeneralConverter]\<rparr>"

definition mantle_da_batches_model :: table_model where
  "mantle_da_batches_model =
     \<lparr>tm_tablename = ''mantle_batches'',
      tm_columns =
        [primary_column ''index'' INTEGER, plain_column ''data_store_index'' INTEGER,
         plain_column ''upgrade_data_store_id'' INTEGER, plain_column ''data_store_id'' INTEGER,
         plain_column ''status'' INTEGER, plain_column ''confirm_at'' TIMESTAMP],
      tm_primary_key = [],
      tm_mapping =
        []\<rparr>"

definition mantle_da_stores_model :: table_model where
  "mantle_da_stores_model =
     \<lparr>tm_tablename = ''data_stores'',
      tm_columns =
        [primary_column ''id'' INTEGER, plain_column ''store_number'' INTEGER,
         plain_column ''duration_data_store_id'' INTEGER, plain_column ''index'' INTEGER,
         plain_column ''data_commitment'' VARCHAR, plain_column ''msg_hash'' VARCHAR,
         plain_column ''init_time'' TIMESTAMP, plain_column ''expire_time'' TIMESTAMP,
         plain_column ''duration'' INTEGER, plain_column ''store_period_length'' INTEGER,
         plain_column ''fee'' INTEGER, plain_column ''confirmer'' VARCHAR, plain_column ''header'' VARCHAR,
         plain_column ''init_tx_hash'' VARCHAR, plain_column ''init_gas_used'' INTEGER,
         plain_column ''init_block_number'' INTEGER, plain_column ''confirmed'' BOOLEAN,
         plain_column ''signatory_record'' VARCHAR, plain_column ''confirm_tx_hash'' VARCHAR,
         plain_column ''confirm_gas_used'' INTEGER, plain_column ''batch_index'' INTEGER,
         plain_column ''tx_count'' INTEGER, plain_column ''block_count'' INTEGER],
      tm_primary_key = [],
      tm_mapping =
        []\<rparr>"

definition mantle_da_store_transaction_mapping_model :: table_model where
  "mantle_da_store_transaction_mapping_model =
     \<lparr>tm_tablename = ''data_store_tx_mapping'',
      tm_columns =
        [primary_column ''data_store_id'' INTEGER, primary_column ''index'' INTEGER,
         plain_column ''block_number'' INTEGER, plain_column ''transaction_hash'' VARCHAR],
      tm_primary_key = [],
      tm_mapping =
        []\<rparr>"

definition linea_batches_model :: table_model where
  "linea_batches_model =
     \<lparr>tm_tablename = ''linea_batches'',
      tm_columns =
        [primary_column ''number'' INTEGER, plain_column ''verify_tx_hash'' VARCHAR,
         plain_column ''verify_block_number'' INTEGER, plain_column ''timestamp'' TIMESTAMP,
         plain_column ''blocks'' (ARRAY INTEGER), plain_column ''transactions'' (ARRAY VARCHAR),
         plain_column ''last_finalized_block_number'' INTEGER, plain_column ''tx_count'' INTEGER,
         plain_column ''block_count'' INTEGER],
      tm_primary_key = [],
      tm_mapping =
        []\<rparr>"

definition zk_evm_batches_model :: table_model where
  "zk_evm_batches_model =
     \<lparr>tm_tablename = ''zkevm_batches'',
      tm_columns =
        [primary_column ''batch_index'' INTEGER, plain_column ''coinbase'' VARCHAR,
         plain_column ''state_root'' VARCHAR, plain_column ''global_exit_root'' VARCHAR,
         plain_column ''mainnet_exit_root'' VARCHAR, plain_column ''rollup_exit_root'' VARCHAR,
         plain_column ''local_exit_root'' VARCHAR, plain_column ''acc_input_hash'' VARCHAR,
         plain_column ''timestamp'' TIMESTAMP, plain_column ''transactions'' (ARRAY VARCHAR),
         plain_column ''blocks'' (ARRAY INTEGER), plain_column ''start_block_number'' INTEGER,
         plain_column ''end_block_number'' INTEGER, plain_column ''block_count'' INTEGER,
         plain_column ''transaction_count'' INTEGER, plain_column ''sequence_batch_tx_hash'' VARCHAR,
         plain_column ''sequence_batch_block_number'' INTEGER,
         plain_column ''sequence_batch_block_timestamp'' TIMESTAMP,
         plain_column ''verify_batch_tx_hash'' VARCHAR, plain_column ''verify_batch_block_number'' INTEGER,
         plain_column ''verify_batch_block_timestamp'' TIMESTAMP, plain_column ''number'' INTEGER,
         plain_column ''send_sequences_tx_hash'' VARCHAR],
      tm_primary_key = [],
      tm_mapping =
        []\<rparr>"

definition op_da_transactions_model :: table_model where
  "op_da_transactions_model =
     \<lparr>tm_tablename = ''op_da_transactions'',
      tm_columns =
        [primary_column ''hash'' VARCHAR, plain_column ''nonce'' INTEGER,
         plain_column ''transaction_index'' INTEGER, plain_column ''from_address'' VARCHAR,
         plain_column ''to_address'' VARCHAR, plain_column ''value'' NUMERIC, plain_column ''gas'' INTEGER,
         plain_column ''gas_price'' INTEGER, plain_column ''input'' VARCHAR,
         plain_column ''receipt_cumulative_gas_used'' INTEGER, plain_column ''receipt_gas_used'' INTEGER,
         plain_column ''receipt_contract_address'' VARCHAR, plain_column ''receipt_root'' VARCHAR,
         plain_column ''receipt_status'' INTEGER, plain_column ''block_timestamp'' TIMESTAMP,
         plain_column ''block_number'' INTEGER, plain_column ''block_hash'' VARCHAR,
         plain_column ''max_fee_per_gas'' INTEGER, plain_column ''max_priority_fee_per_gas'' INTEGER,
         plain_column ''transaction_type'' INTEGER, plain_column ''receipt_effective_gas_price'' INTEGER,
         plain_column ''receipt_blob_gas_used'' INTEGER, plain_column ''receipt_blob_gas_price'' NUMERIC,
         plain_column ''blob_versioned_hashes'' (ARRAY VARCHAR)],
      tm_primary_key = [],
      tm_mapping =
        []\<rparr>"

definition arbitrum_transaction_batches_model :: table_model where
  "arbitrum_transaction_batches_model =
     \<lparr>tm_tablename = ''arbitrum_transaction_batches'',
      tm_columns =
        [primary_column ''batch_index'' INTEGER, plain_column ''l1_block_number'' INTEGER,
         plain_column ''l1_block_timestamp'' TIMESTAMP, plain_column ''l1_block_hash'' VARCHAR,
         plain_column ''l1_transaction_hash'' VARCHAR, plain_column ''batch_root'' VARCHAR,
         plain_column ''start_block_number'' INTEGER, plain_column ''end_block_number'' INTEGER,
         plain_column ''transaction_count'' INTEGER, plain_column ''block_count'' INTEGER],
      tm_primary_key = [],
      tm_mapping =
        [domain_mapping ''ArbitrumTransactionBatch'' False NoStrategy GeneralConverter]\<rparr>"

definition coin_balances_model :: table_model where
  "coin_balances_model =
     \<lparr>tm_tablename = ''address_coin_balances'',
      tm_columns =
        [primary_column ''address'' BYTEA, plain_column ''balance'' NUMERIC,
         primary_column ''block_number'' BIGINT, plain_column ''block_timestamp'' TIMESTAMP,
         plain_column ''create_time'' TIMESTAMP, plain_column ''update_time'' TIMESTAMP,
         plain_column ''reorg'' BOOLEAN],
      tm_primary_key = [''address'', ''block_number''],
      tm_mapping =
        [domain_mapping ''CoinBalance'' False NoStrategy GeneralConverter]\<rparr>"

definition contract_internal_transactions_model :: table_model where
  "contract_internal_transactions_model =
     \<lparr>tm_tablename = ''contract_internal_transactions'',
      tm_columns =
        [primary_column ''trace_id'' VARCHAR, plain_column ''from_address'' BYTEA,
         plain_column ''to_address'' BYTEA, plain_column ''value'' NUMERIC,
         plain_column ''trace_type'' VARCHAR, plain_column ''call_type'' VARCHAR,
         plain_column ''gas'' NUMERIC, plain_column ''gas_used'' NUMERIC,
         plain_column ''trace_address'' (ARRAY INTEGER), plain_column ''error'' TEXT,
         plain_column ''status'' INTEGER, plain_column ''block_number'' BIGINT,
         plain_column ''block_hash'' BYTEA, plain_column ''block_timestamp'' TIMESTAMP,
         plain_column ''transaction_index'' INTEGER, plain_column ''transaction_hash'' BYTEA,
         plain_column ''create_time'' TIMESTAMP, plain_column ''update_time'' TIMESTAMP,
         plain_column ''reorg'' BOOLEAN],
      tm_primary_key = [],
      tm_mapping =
        [domain_mapping ''ContractInternalTransaction'' False NoStrategy GeneralConverter]\<rparr>"

definition contracts_model :: table_model where
  "contracts_model =
     \<lparr>tm_tablename = ''contracts'',
      tm_columns =
        [primary_column ''address'' BYTEA, plain_column ''name'' VARCHAR,
         plain_column ''contract_creator'' BYTEA, plain_column ''creation_code'' BYTEA,
         plain_column ''deployed_code'' BYTEA, plain_column ''block_number'' BIGINT,
         plain_column ''block_hash'' BYTEA, plain_column ''block_timestamp'' TIMESTAMP,
         plain_column ''transaction_index'' INTEGER, plain_column ''transaction_hash'' BYTEA,
         plain_column ''transaction_from_address'' BYTEA, plain_column ''official_website'' VARCHAR,
         plain_column ''description'' VARCHAR, plain_column ''email'' VARCHAR,
         plain_column ''social_list'' JSONB, plain_column ''is_verified'' BOOLEAN,
         plain_column ''is_proxy'' BOOLEAN, plain_column ''implementation_contract'' BYTEA,
         plain_column ''verified_implementation_contract'' BYTEA, plain_column ''proxy_standard'' VARCHAR,
         plain_column ''create_time'' TIMESTAMP, plain_column ''update_time'' TIMESTAMP,
         plain_column ''reorg'' BOOLEAN],
      tm_primary_key = [],
      tm_mapping =
        [domain_mapping ''Contract'' False NoStrategy GeneralConverter]\<rparr>"

definition current_token_balances_model :: table_model where
  "current_token_balances_model =
     \<lparr>tm_tablename = ''address_current_token_balances'',
      tm_columns =
        [primary_column ''address'' BYTEA, plain_column ''token_id'' NUMERIC,
         plain_column ''token_type'' VARCHAR, primary_column ''token_address'' BYTEA,
         plain_column ''balance'' NUMERIC, plain_column ''block_number'' BIGINT,
         plain_column ''block_timestamp'' TIMESTAMP, plain_column ''create_time'' TIMESTAMP,
         plain_column ''update_time'' TIMESTAMP, plain_column ''reorg'' BOOLEAN],
      tm_primary_key = [''address'', ''token_address''],
      tm_mapping =
        [domain_mapping ''CurrentTokenBalance'' True NewerBlock GeneralConverter]\<rparr>"

definition daily_addresses_aggregates_model :: table_model where
  "daily_addresses_aggregates_model =
     \<lparr>tm_tablename = ''daily_addresses_aggregates'',
      tm_columns =
        [primary_column ''block_date'' DATE, plain_column ''active_address_cnt'' BIGINT,
         plain_column ''receiver_address_cnt'' BIGINT, plain_column ''sender_address_cnt'' BIGINT,
         plain_column ''total_address_cnt'' BIGINT, plain_column ''new_address_cnt'' BIGINT],
      tm_primary_key = [],
      tm_mapping =
        []\<rparr>"

definition daily_blocks_aggregates_model :: table_model where
  "daily_blocks_aggregates_model =
     \<lparr>tm_tablename = ''daily_blocks_aggregates'',
      tm_columns =
        [primary_column ''block_date'' DATE, plain_column ''cnt'' BIGINT,
         plain_column ''avg_size'' NUMERIC, plain_column ''avg_gas_limit'' NUMERIC,
         plain_column ''avg_gas_used'' NUMERIC, plain_column ''total_gas_used'' BIGINT,
         plain_column ''avg_gas_used_percentage'' NUMERIC, plain_column ''avg_txn_cnt'' NUMERIC,
         plain_column ''total_cnt'' BIGINT, plain_column ''block_interval'' NUMERIC],
      tm_primary_key = [],
      tm_mapping =
        []\<rparr>"

definition daily_tokens_aggregates_model :: table_model where
  "daily_tokens_aggregates_model =
     \<lparr>tm_tablename = ''daily_tokens_aggregates'',
      tm_columns =
        [primary_column ''block_date'' DATE, plain_column ''erc20_active_address_cnt'' INTEGER,
         plain_column ''erc20_total_transfer_cnt'' BIGINT,
         plain_column ''erc721_active_address_cnt'' INTEGER,
         plain_column ''erc721_total_transfer_cnt'' BIGINT,
         plain_column ''erc1155_active_address_cnt'' INTEGER,
         plain_column ''erc1155_total_transfer_cnt'' BIGINT],
      tm_primary_key = [],
      tm_mapping =
        []\<rparr>"

definition daily_transactions_aggregates_model :: table_model where
  "daily_transactions_aggregates_model =
     \<lparr>tm_tablename = ''daily_transactions_aggregates'',
      tm_columns =
        [primary_column ''block_date'' DATE, plain_column ''cnt'' BIGINT,
         plain_column ''total_cnt'' BIGINT, plain_column ''txn_error_cnt'' BIGINT,
         plain_column ''avg_transaction_fee'' NUMERIC, plain_column ''avg_gas_price'' NUMERIC,
         plain_column ''max_gas_price'' NUMERIC, plain_column ''min_gas_price'' NUMERIC,
         plain_column ''avg_receipt_l1_fee'' NUMERIC, plain_column ''max_receipt_l1_fee'' NUMERIC,
         plain_column ''min_receipt_l1_fee'' NUMERIC, plain_column ''avg_receipt_l1_gas_used'' NUMERIC,
         plain_column ''max_receipt_l1_gas_used'' NUMERIC,
         plain_column ''min_receipt_l1_gas_used'' NUMERIC,
         plain_column ''avg_receipt_l1_gas_price'' NUMERIC,
         plain_column ''max_receipt_l1_gas_price'' NUMERIC,
         plain_column ''min_receipt_l1_gas_price'' NUMERIC,
         plain_column ''avg_receipt_l1_fee_scalar'' NUMERIC,
         plain_column ''max_receipt_l1_fee_scalar'' NUMERIC,
         plain_column ''min_receipt_l1_fee_scalar'' NUMERIC],
      tm_primary_key = [],
      tm_mapping =
        []\<rparr>"

definition erc1155_token_id_details_model :: table_model where
  "erc1155_token_id_details_model =
     \<lparr>tm_tablename = ''erc1155_token_id_details'',
      tm_columns =
        [primary_column ''token_address'' BYTEA, primary_column ''token_id'' NUMERIC,
         plain_column ''token_supply'' NUMERIC, plain_column ''token_uri'' VARCHAR,
         plain_column ''token_uri_info'' JSONB, plain_column ''block_number'' BIGINT,
         plain_column ''block_timestamp'' TIMESTAMP, plain_column ''create_time'' TIMESTAMP,
         plain_column ''update_time'' TIMESTAMP, plain_column ''reorg'' BOOLEAN],
      tm_primary_key = [''token_address'', ''token_id''],
      tm_mapping =
        [domain_mapping ''ERC1155TokenIdDetail'' False NoStrategy GeneralConverter,
         domain_mapping ''UpdateERC1155TokenIdDetail'' True NotOlderBlock GeneralConverter]\<rparr>"

definition erc1155_token_transfers_model :: table_model where
  "erc1155_token_transfers_model =
     \<lparr>tm_tablename = ''erc1155_token_transfers'',
      tm_columns =
        [primary_column ''transaction_hash'' BYTEA, primary_column ''log_index'' INTEGER,
         plain_column ''from_address'' BYTEA, plain_column ''to_address'' BYTEA,
         plain_column ''token_address'' BYTEA, primary_column ''token_id'' NUMERIC,
         plain_column ''value'' NUMERIC, plain_column ''block_number'' BIGINT,
         primary_column ''block_hash'' BYTEA, plain_column ''block_timestamp'' TIMESTAMP,
         plain_column ''create_time'' TIMESTAMP, plain_column ''update_time'' TIMESTAMP,
         plain_column ''reorg'' BOOLEAN],
      tm_primary_key = [''transaction_hash'', ''block_hash'', ''log_index'', ''token_id''],
      tm_mapping =
        [domain_mapping ''ERC1155TokenTransfer'' False NoStrategy GeneralConverter]\<rparr>"

definition erc20_token_transfers_model :: table_model where
  "erc20_token_transfers_model =
     \<lparr>tm_tablename = ''erc20_token_transfers'',
      tm_columns =
        [primary_column ''transaction_hash'' BYTEA, primary_column ''log_index'' INTEGER,
         plain_column ''from_address'' BYTEA, plain_column ''to_address'' BYTEA,
         plain_column ''token_address'' BYTEA, plain_column ''value'' NUMERIC,
         plain_column ''block_number'' BIGINT, primary_column ''block_hash'' BYTEA,
         plain_column ''block_timestamp'' TIMESTAMP, plain_column ''create_time'' TIMESTAMP,
         plain_column ''update_time'' TIMESTAMP, plain_column ''reorg'' BOOLEAN],
      tm_primary_key = [''transaction_hash'', ''block_hash'', ''log_index''],
      tm_mapping =
        [domain_mapping ''ERC20TokenTransfer'' False NoStrategy GeneralConverter]\<rparr>"

definition erc721_token_id_changes_model :: table_model where
  "erc721_token_id_changes_model =
     \<lparr>tm_tablename = ''erc721_token_id_changes'',
      tm_columns =
        [primary_column ''token_address'' BYTEA, primary_column ''token_id'' NUMERIC,
         plain_column ''token_owner'' BYTEA, primary_column ''block_number'' BIGINT,
         plain_column ''block_timestamp'' TIMESTAMP, plain_column ''create_time'' TIMESTAMP,
         plain_column ''update_time'' TIMESTAMP, plain_column ''reorg'' BOOLEAN],
      tm_primary_key = [''token_address'', ''token_id'', ''block_number''],
      tm_mapping =
        [domain_mapping ''ERC721TokenIdChange'' False NoStrategy GeneralConverter]\<rparr>"

definition erc721_token_id_details_model :: table_model where
  "erc721_token_id_details_model =
     \<lparr>tm_tablename = ''erc721_token_id_details'',
      tm_columns =
        [primary_column ''token_address'' BYTEA, primary_column ''token_id'' NUMERIC,
         plain_column ''token_owner'' BYTEA, plain_column ''token_uri'' VARCHAR,
         plain_column ''token_uri_info'' JSONB, plain_column ''block_number'' BIGINT,
         plain_column ''block_timestamp'' TIMESTAMP, plain_column ''create_time'' TIMESTAMP,
         plain_column ''update_time'' TIMESTAMP, plain_column ''reorg'' BOOLEAN],
      tm_primary_key = [''token_address'', ''token_id''],
      tm_mapping =
        [domain_mapping ''ERC721TokenIdDetail'' False NoStrategy GeneralConverter,
         domain_mapping ''UpdateERC721TokenIdDetail'' True NotOlderBlock GeneralConverter]\<rparr>"

definition erc721_token_transfers_model :: table_model where
  "erc721_token_transfers_model =
     \<lparr>tm_tablename = ''erc721_token_transfers'',
      tm_columns =
        [primary_column ''transaction_hash'' BYTEA, primary_column ''log_index'' INTEGER,
         plain_column ''from_address'' BYTEA, plain_column ''to_address'' BYTEA,
         plain_column ''token_address'' BYTEA, plain_column ''token_id'' NUMERIC,
         plain_column ''block_number'' BIGINT, primary_column ''block_hash'' BYTEA,
         plain_column ''block_timestamp'' TIMESTAMP, plain_column ''create_time'' TIMESTAMP,
         plain_column ''update_time'' TIMESTAMP, plain_column ''reorg'' BOOLEAN],
      tm_primary_key = [''transaction_hash'', ''block_hash'', ''log_index''],
      tm_mapping =
        [domain_mapping ''ERC721TokenTransfer'' False NoStrategy GeneralConverter]\<rparr>"

definition exception_records_model :: table_model where
  "exception_records_model =
     \<lparr>tm_tablename = ''exception_records'',
      tm_columns =
        [primary_column ''id'' BIGINT, plain_column ''block_number'' BIGINT,
         plain_column ''dataclass'' VARCHAR, plain_column ''level'' VARCHAR,
         plain_column ''message_type'' VARCHAR, plain_column ''message'' VARCHAR,
         plain_column ''exception_env'' JSONB, plain_column ''record_time'' TIMESTAMP],
      tm_primary_key = [],
      tm_mapping =
        []\<rparr>"

definition fix_record_model :: table_model where
  "fix_record_model =
     \<lparr>tm_tablename = ''fix_record'',
      tm_columns =
        [primary_column ''job_id'' INTEGER, plain_column ''start_block_number'' BIGINT,
         plain_column ''last_fixed_block_number'' BIGINT, plain_column ''remain_process'' INTEGER,
         plain_column ''job_status'' VARCHAR, plain_column ''create_time'' TIMESTAMP,
         plain_column ''update_time'' TIMESTAMP],
      tm_primary_key = [],
      tm_mapping =
        []\<rparr>"

definition logs_model :: table_model where
  "logs_model =
     \<lparr>tm_tablename = ''logs'',
      tm_columns =
        [primary_column ''log_index'' INTEGER, plain_column ''address'' BYTEA, plain_column ''data'' BYTEA,
         plain_column ''topic0'' BYTEA, plain_column ''topic1'' BYTEA, plain_column ''topic2'' BYTEA,
         plain_column ''topic3'' BYTEA, primary_column ''transaction_hash'' BYTEA,
         plain_column ''transaction_index'' INTEGER, plain_column ''block_number'' BIGINT,
         primary_column ''block_hash'' BYTEA, plain_column ''block_timestamp'' TIMESTAMP,
         plain_column ''create_time'' TIMESTAMP, plain_column ''update_time'' TIMESTAMP,
         plain_column ''reorg'' BOOLEAN],
      tm_primary_key = [''transaction_hash'', ''block_hash'', ''log_index''],
      tm_mapping =
        [domain_mapping ''Log'' False NoStrategy GeneralConverter]\<rparr>"

definition scheduled_wallet_count_metadata_model :: table_model where
  "scheduled_wallet_count_metadata_model =
     \<lparr>tm_tablename = ''scheduled_wallet_count_metadata'',
      tm_columns =
        [primary_column ''id'' INTEGER, plain_column ''dag_id'' VARCHAR,
         plain_column ''execution_date'' DATETIME, plain_column ''last_data_timestamp'' DATETIME],
      tm_primary_key = [],
      tm_mapping =
        []\<rparr>"

definition scheduled_token_count_metadata_model :: table_model where
  "scheduled_token_count_metadata_model =
     \<lparr>tm_tablename = ''scheduled_token_count_metadata'',
      tm_columns =
        [primary_column ''id'' INTEGER, plain_column ''dag_id'' VARCHAR,
         plain_column ''execution_date'' DATETIME, plain_column ''last_data_timestamp'' DATETIME],
      tm_primary_key = [],
      tm_mapping =
        []\<rparr>"

definition statistics_wallet_addresses_model :: table_model where
  "statistics_wallet_addresses_model =
     \<lparr>tm_tablename = ''statistics_wallet_addresses'',
      tm_columns =
        [primary_column ''address'' BYTEA, plain_column ''txn_in_cnt'' INTEGER,
         plain_column ''txn_out_cnt'' INTEGER, plain_column ''txn_in_value'' NUMERIC,
         plain_column ''txn_out_value'' NUMERIC, plain_column ''internal_txn_in_cnt'' INTEGER,
         plain_column ''internal_txn_out_cnt'' INTEGER, plain_column ''internal_txn_in_value'' NUMERIC,
         plain_column ''internal_txn_out_value'' NUMERIC, plain_column ''erc20_transfer_in_cnt'' INTEGER,
         plain_column ''erc721_transfer_in_cnt'' INTEGER, plain_column ''erc1155_transfer_in_cnt'' INTEGER,
         plain_column ''erc20_transfer_out_cnt'' INTEGER, plain_column ''erc721_transfer_out_cnt'' INTEGER,
         plain_column ''erc1155_transfer_out_cnt'' INTEGER, plain_column ''txn_cnt'' INTEGER,
         plain_column ''internal_txn_cnt'' INTEGER, plain_column ''erc20_transfer_cnt'' INTEGER,
         plain_column ''erc721_transfer_cnt'' INTEGER, plain_column ''erc1155_transfer_cnt'' INTEGER,
         plain_column ''deposit_cnt'' INTEGER, plain_column ''withdraw_cnt'' INTEGER,
         plain_column ''tag'' VARCHAR],
      tm_primary_key = [],
      tm_mapping =
        []\<rparr>"

definition sync_record_model :: table_model where
  "sync_record_model =
     \<lparr>tm_tablename = ''sync_record'',
      tm_columns =
        [primary_column ''mission_sign'' VARCHAR, plain_column ''last_block_number'' BIGINT,
         plain_column ''update_time'' TIMESTAMP],
      tm_primary_key = [],
      tm_mapping =
        []\<rparr>"

definition address_token_balances_model :: table_model where
  "address_token_balances_model =
     \<lparr>tm_tablename = ''address_token_balances'',
      tm_columns =
        [primary_column ''address'' BYTEA, plain_column ''token_id'' NUMERIC,
         plain_column ''token_type'' VARCHAR, primary_column ''token_address'' BYTEA,
         plain_column ''balance'' NUMERIC, primary_column ''block_number'' BIGINT,
         plain_column ''block_timestamp'' TIMESTAMP, plain_column ''create_time'' TIMESTAMP,
         plain_column ''update_time'' TIMESTAMP, plain_column ''reorg'' BOOLEAN],
      tm_primary_key = [''address'', ''token_address'', ''block_number''],
      tm_mapping =
        [domain_mapping ''TokenBalance'' False NoStrategy GeneralConverter]\<rparr>"

definition tokens_model :: table_model where
  "tokens_model =
     \<lparr>tm_tablename = ''tokens'',
      tm_columns =
        [primary_column ''address'' BYTEA, plain_column ''token_type'' VARCHAR,
         plain_column ''name'' VARCHAR, plain_column ''symbol'' VARCHAR, plain_column ''decimals'' NUMERIC,
         plain_column ''total_supply'' NUMERIC, plain_column ''block_number'' BIGINT,
         plain_column ''holder_count'' INTEGER, plain_column ''transfer_count'' INTEGER,
         plain_column ''icon_url'' VARCHAR, plain_column ''urls'' JSONB,
         plain_column ''volume_24h'' NUMERIC, plain_column ''price'' NUMERIC,
         plain_column ''previous_price'' NUMERIC, plain_column ''market_cap'' NUMERIC,
         plain_column ''on_chain_market_cap'' NUMERIC, plain_column ''is_verified'' BOOLEAN,
         plain_column ''cmc_id'' INTEGER, plain_column ''cmc_slug'' VARCHAR,
         plain_column ''gecko_id'' VARCHAR, plain_column ''description'' VARCHAR,
         plain_column ''create_time'' TIMESTAMP, plain_column ''update_time'' TIMESTAMP],
      tm_primary_key = [''address''],
      tm_mapping =
        [domain_mapping ''Token'' False NoStrategy GeneralConverter,
         domain_mapping ''UpdateToken'' True NewerBlock GeneralConverter]\<rparr>"

definition traces_model :: table_model where
  "traces_model =
     \<lparr>tm_tablename = ''traces'',
      tm_columns =
        [primary_column ''trace_id'' VARCHAR, plain_column ''from_address'' BYTEA,
         plain_column ''to_address'' BYTEA, plain_column ''value'' NUMERIC, plain_column ''input'' BYTEA,
         plain_column ''output'' BYTEA, plain_column ''trace_type'' VARCHAR,
         plain_column ''call_type'' VARCHAR, plain_column ''gas'' NUMERIC,
         plain_column ''gas_used'' NUMERIC, plain_column ''subtraces'' INTEGER,
         plain_column ''trace_address'' (ARRAY INTEGER), plain_column ''error'' TEXT,
         plain_column ''status'' INTEGER, plain_column ''block_number'' BIGINT,
         plain_column ''block_hash'' BYTEA, plain_column ''block_timestamp'' TIMESTAMP,
         plain_column ''transaction_index'' INTEGER, plain_column ''transaction_hash'' BYTEA,
         plain_column ''create_time'' TIMESTAMP, plain_column ''update_time'' TIMESTAMP,
         plain_column ''reorg'' BOOLEAN],
      tm_primary_key = [],
      tm_mapping =
        [domain_mapping ''Trace'' False NoStrategy GeneralConverter]\<rparr>"

definition transactions_model :: table_model where
  "transactions_model =
     \<lparr>tm_tablename = ''transactions'',
      tm_columns =
        [primary_column ''hash'' BYTEA, plain_column ''transaction_index'' INTEGER,
         plain_column ''from_address'' BYTEA, plain_column ''to_address'' BYTEA,
         plain_column ''value'' NUMERIC, plain_column ''transaction_type'' INTEGER,
         plain_column ''input'' BYTEA, generated_column ''method_id'' VARCHAR,
         plain_column ''nonce'' INTEGER, plain_column ''block_hash'' BYTEA,
         plain_column ''block_number'' BIGINT, plain_column ''block_timestamp'' TIMESTAMP,
         plain_column ''gas'' NUMERIC, plain_column ''gas_price'' NUMERIC,
         plain_column ''max_fee_per_gas'' NUMERIC, plain_column ''max_priority_fee_per_gas'' NUMERIC,
         plain_column ''receipt_root'' BYTEA, plain_column ''receipt_status'' INTEGER,
         plain_column ''receipt_gas_used'' NUMERIC, plain_column ''receipt_cumulative_gas_used'' NUMERIC,
         plain_column ''receipt_effective_gas_price'' NUMERIC, plain_column ''receipt_l1_fee'' NUMERIC,
         plain_column ''receipt_l1_fee_scalar'' NUMERIC, plain_column ''receipt_l1_gas_used'' NUMERIC,
         plain_column ''receipt_l1_gas_price'' NUMERIC, plain_column ''receipt_blob_gas_used'' NUMERIC,
         plain_column ''receipt_blob_gas_price'' NUMERIC,
         plain_column ''blob_versioned_hashes'' (ARRAY BYTEA),
         plain_column ''receipt_contract_address'' BYTEA, plain_column ''exist_error'' BOOLEAN,
         plain_column ''error'' TEXT, plain_column ''revert_reason'' TEXT,
         plain_column ''create_time'' TIMESTAMP, plain_column ''update_time'' TIMESTAMP,
         plain_column ''reorg'' BOOLEAN],
      tm_primary_key = [],
      tm_mapping =
        [domain_mapping ''Transaction'' False NoStrategy TransactionConverter]\<rparr>"

definition current_traits_activeness_model_model :: table_model where
  "current_traits_activeness_model_model =
     \<lparr>tm_tablename = ''current_traits_activeness'',
      tm_columns =
        [primary_column ''block_number'' BIGINT, primary_column ''address'' BYTEA,
         plain_column ''value'' JSONB, plain_column ''create_time'' TIMESTAMP,
         plain_column ''update_time'' TIMESTAMP],
      tm_primary_key = [''address''],
      tm_mapping =
        [domain_mapping ''CurrentTraitsActiveness'' True NoStrategy GeneralConverter]\<rparr>"

definition uniswap_v2_pools_model :: table_model where
  "uniswap_v2_pools_model =
     \<lparr>tm_tablename = ''feature_uniswap_v2_pools'',
      tm_columns =
        [primary_column ''factory_address'' BYTEA, primary_column ''pool_address'' BYTEA,
         plain_column ''token0_address'' BYTEA, plain_column ''token1_address'' BYTEA,
         plain_column ''length'' NUMERIC, plain_column ''called_block_number'' BIGINT,
         plain_column ''create_time'' TIMESTAMP, plain_column ''update_time'' TIMESTAMP],
      tm_primary_key = [''factory_address'', ''pool_address''],
      tm_mapping =
        [domain_mapping ''UniswapV2Pool'' True NoStrategy GeneralConverter]\<rparr>"

definition uniswap_v3_pools_model :: table_model where
  "uniswap_v3_pools_model =
     \<lparr>tm_tablename = ''feature_uniswap_v3_pools'',
      tm_columns =
        [primary_column ''nft_address'' BYTEA, primary_column ''pool_address'' BYTEA,
         plain_column ''token0_address'' BYTEA, plain_column ''token1_address'' BYTEA,
         plain_column ''fee'' NUMERIC, plain_column ''tick_spacing'' NUMERIC,
         plain_column ''called_block_number'' BIGINT, plain_column ''create_time'' TIMESTAMP,
         plain_column ''update_time'' TIMESTAMP],
      tm_primary_key = [''nft_address'', ''pool_address''],
      tm_mapping =
        [domain_mapping ''UniswapV3Pool'' True NoStrategy GeneralConverter]\<rparr>"

definition uniswap_v3_tokens_model :: table_model where
  "uniswap_v3_tokens_model =
     \<lparr>tm_tablename = ''feature_uniswap_v3_tokens'',
      tm_columns =
        [primary_column ''nft_address'' BYTEA, primary_column ''token_id'' NUMERIC,
         plain_column ''pool_address'' BYTEA, plain_column ''tick_lower'' NUMERIC,
         plain_column ''tick_upper'' NUMERIC, plain_column ''fee'' NUMERIC,
         plain_column ''called_block_number'' BIGINT, plain_column ''create_time'' TIMESTAMP,
         plain_column ''update_time'' TIMESTAMP],
      tm_primary_key = [''nft_address'', ''token_id''],
      tm_mapping =
        [domain_mapping ''UniswapV3Token'' True NoStrategy GeneralConverter]\<rparr>"

definition user_operation_result_model :: table_model where
  "user_operation_result_model =
     \<lparr>tm_tablename = ''user_operations_results'',
      tm_columns =
        [primary_column ''user_op_hash'' BYTEA, plain_column ''sender'' VARCHAR,
         plain_column ''paymaster'' VARCHAR, plain_column ''nonce'' NUMERIC,
         plain_column ''status'' BOOLEAN, plain_column ''actual_gas_cost'' NUMERIC,
         plain_column ''actual_gas_used'' INTEGER, plain_column ''init_code'' BYTEA,
         plain_column ''call_data'' BYTEA, plain_column ''call_gas_limit'' INTEGER,
         plain_column ''verification_gas_limit'' INTEGER, plain_column ''pre_verification_gas'' INTEGER,
         plain_column ''max_fee_per_gas'' INTEGER, plain_column ''max_priority_fee_per_gas'' INTEGER,
         plain_column ''paymaster_and_data'' BYTEA, plain_column ''signature'' BYTEA,
         plain_column ''transactions_hash'' BYTEA, plain_column ''transactions_index'' INTEGER,
         plain_column ''block_number'' INTEGER, plain_column ''block_timestamp'' TIMESTAMP,
         plain_column ''bundler'' VARCHAR, plain_column ''start_log_index'' INTEGER,
         plain_column ''end_log_index'' INTEGER],
      tm_primary_key = [],
      tm_mapping =
        [domain_mapping ''UserOperationsResult'' False NoStrategy GeneralConverter]\<rparr>"

section \<open>All of them\<close>

definition all_models :: "table_model list" where
  "all_models =
     [all_feature_value_records_model, block_timestamp_mapper_model, blocks_model,
      l1_to_l2_bridge_transactions_model, l2_to_l1_bridge_transactions_model, bridge_tokens_model,
      state_batches_model, op_bedrock_state_batches_model, arbitrum_state_batches_model,
      mantle_da_batches_model, mantle_da_stores_model, mantle_da_store_transaction_mapping_model,
      linea_batches_model, zk_evm_batches_model, op_da_transactions_model,
      arbitrum_transaction_batches_model, coin_balances_model, contract_internal_transactions_model,
      contracts_model, current_token_balances_model, daily_addresses_aggregates_model,
      daily_blocks_aggregates_model, daily_tokens_aggregates_model,
      daily_transactions_aggregates_model, erc1155_token_id_details_model,
      erc1155_token_transfers_model, erc20_token_transfers_model, erc721_token_id_changes_model,
      erc721_token_id_details_model, erc721_token_transfers_model, exception_records_model,
      fix_record_model, logs_model, scheduled_wallet_count_metadata_model,
      scheduled_token_count_metadata_model, statistics_wallet_addresses_model, sync_record_model,
      address_token_balances_model, tokens_model, traces_model, transactions_model,
      current_traits_activeness_model_model, uniswap_v2_pools_model, uniswap_v3_pools_model,
      uniswap_v3_tokens_model, user_operation_result_model]"

text \<open>\<open>scan_convert_config\<close>: the table and the settings of each data class.\<close>

definition scan_convert_config :: "table_model list \<Rightarrow> (string \<times> table_model \<times> domain_config) list" where
  "scan_convert_config models =
     fold (\<lambda>t. fold (\<lambda>c. AList.update (dc_domain c) (t, c)) (tm_mapping t)) models []"

definition domain_model_mapping :: "(string \<times> table_model \<times> domain_config) list" where
  "domain_model_mapping = scan_convert_config all_models"

section \<open>Properties\<close>

text \<open>A table is well formed when its columns have different names, its primary key is not empty and
  consists of columns, and an update that compares block numbers has a block number to compare and
  to store.\<close>

definition model_well_formed :: "table_model \<Rightarrow> bool" where
  "model_well_formed t \<longleftrightarrow>
     distinct (column_names t) \<and> primary_key t \<noteq> [] \<and> set (primary_key t) \<subseteq> set (column_names t) \<and>
     list_all (\<lambda>c. dc_update_strategy c = NoStrategy \<or>
       (dc_conflict_do_update c \<and> ''block_number'' \<in> set (column_names t) \<and>
        ''block_number'' \<notin> set (primary_key t))) (tm_mapping t)"

text \<open>All the tables of the program are well formed, have different names, and no data class is
  stored in two of them.\<close>

lemma models_well_formed:
  "list_all model_well_formed all_models \<and> distinct (map tm_tablename all_models) \<and>
   distinct (map dc_domain (concat (map tm_mapping all_models)))"
  by code_simp

end
