(* ===== verification/Exporters.thy ===== *)
theory Exporters
  imports Models Domain Recorders
begin

text \<open>
  \<open>indexer/exporters/base_exporter.py\<close>, \<open>item_exporter.py\<close>, \<open>postgres_item_exporter.py\<close> and
  the converters of \<open>common/models\<close>: which exporter an output names, how items become rows, and how
  rows get into the tables. A table maps the values of its primary key to a row; a row maps columns
  to values and is null elsewhere. A statement and its commit are one step that happens whole or
  raises: PostgreSQL refuses a null in the primary key, and an \<open>ON CONFLICT DO UPDATE\<close> that would
  touch a row twice. \<open>annotation_keys\<close> gives the fields of a data class, \<open>now\<close> is the clock.
  The primary key of a table is that of its model; a database that the migrations made has another for four
  tables (\<open>Migrations.other_keys\<close>), with which it drops more rows as conflicting.
\<close>

section \<open>Choosing exporters\<close>

datatype exporter_type = POSTGRES | JSONFILE | CSVFILE | CONSOLE | UNKNOWN

definition determine_item_exporter_type :: "string option \<Rightarrow> exporter_type" where
  "determine_item_exporter_type output =
     (case output of
        None \<Rightarrow> CONSOLE
      | Some s \<Rightarrow>
          if s = ''postgres'' then POSTGRES
          else if startswith s ''jsonfile://'' then JSONFILE
          else if startswith s ''csvfile://'' then CSVFILE
          else if s = ''console'' then CONSOLE
          else UNKNOWN)"

text \<open>An exporter is its type with the output it was made for.\<close>

definition create_item_exporter :: "string \<Rightarrow> (exporter_type \<times> string) res" where
  "create_item_exporter output =
     (case determine_item_exporter_type (Some output) of
        UNKNOWN \<Rightarrow> Inl (ValueError (''Unable to determine item exporter type for output '' @ output))
      | t \<Rightarrow> Inr (t, output))"

definition create_item_exporters :: "string \<Rightarrow> (exporter_type \<times> string) list res" where
  "create_item_exporters outputs =
     rmap create_item_exporter (if outputs = [] then [] else map str_strip (str_split (CHR '','') outputs))"

section \<open>From items to rows\<close>

datatype pg_value = PBytes "byte list" | PTimestamp json | PByteArrays "byte list list" | PValue json

type_synonym row = "string \<Rightarrow> pg_value"

record domain_item =
  di_type :: string
  di_data :: jdict
  di_receipt :: "receipt option"

definition group_by_item_type :: "domain_item list \<Rightarrow> (string \<times> domain_item list) list" where
  "group_by_item_type items = group_on di_type items"

definition is_null :: "pg_value \<Rightarrow> bool" where
  "is_null v \<longleftrightarrow> v = PValue JNull \<or> v = PTimestamp JNull"

text \<open>\<open>bytes.fromhex(v[2:]) if v else None\<close>\<close>

definition hex_column :: "json \<Rightarrow> pg_value res" where
  "hex_column v = (if truthy v then rbind (as_str v) (\<lambda>s. rbind (bytes_fromhex (drop 2 s)) (\<lambda>b. Inr (PBytes b)))
     else Inr (PValue JNull))"

definition convert_value :: "column_type \<Rightarrow> json \<Rightarrow> pg_value res" where
  "convert_value t v =
     (case t of
        BYTEA \<Rightarrow> hex_column v
      | TIMESTAMP \<Rightarrow> Inr (PTimestamp v)
      | ARRAY BYTEA \<Rightarrow>
          rbind (as_list v) (\<lambda>vs. rbind (rmap (\<lambda>a. rbind (as_str a) (\<lambda>s. bytes_fromhex (drop 2 s))) vs) (\<lambda>bs.
            Inr (PByteArrays bs)))
      | _ \<Rightarrow> Inr (PValue v))"

definition general_converter :: "int \<Rightarrow> table_model \<Rightarrow> jdict \<Rightarrow> bool \<Rightarrow> (string \<times> pg_value) list res" where
  "general_converter now t data is_update =
     rbind (rmap (\<lambda>(key, v). case column_type_of t key of
              None \<Rightarrow> Inr []
            | Some ty \<Rightarrow> rbind (convert_value ty v) (\<lambda>w. Inr [(key, w)])) data) (\<lambda>kvs.
     let d = concat kvs;
         d = (if is_update then AList.update ''update_time'' (PTimestamp (JInt now)) d else d);
         d = (if ''reorg'' \<in> set (column_names t) then AList.update ''reorg'' (PValue (JBool False)) d else d)
     in Inr d)"

definition block_converter :: "int \<Rightarrow> table_model \<Rightarrow> domain_item \<Rightarrow> bool \<Rightarrow> (string \<times> pg_value) list res" where
  "block_converter now t item is_update =
     rbind (general_converter now t (di_data item) is_update) (\<lambda>d.
       if di_type item = ''Block''
       then rbind (if truthy (jget (di_data item) ''transactions'')
                   then rbind (as_list (jget (di_data item) ''transactions'')) (\<lambda>ts. Inr (int (length ts))) else Inr 0)
         (\<lambda>n. Inr (AList.update ''transactions_count'' (PValue (JInt n)) d))
       else Inr d)"

definition opt_json :: "('a \<Rightarrow> json) \<Rightarrow> 'a option \<Rightarrow> json" where
  "opt_json f v = (case v of None \<Rightarrow> JNull | Some a \<Rightarrow> f a)"

definition receipt_columns :: "receipt \<Rightarrow> (string \<times> pg_value) list res" where
  "receipt_columns r =
     rbind (hex_column (opt_json JStr (rc_root r))) (\<lambda>root.
     rbind (hex_column (opt_json JStr (rc_contract_address r))) (\<lambda>contract_address.
       Inr [(''receipt_root'', root), (''receipt_status'', PValue (JInt (rc_status r))),
            (''receipt_gas_used'', PValue (opt_json JInt (rc_gas_used r))),
            (''receipt_cumulative_gas_used'', PValue (opt_json JInt (rc_cumulative_gas_used r))),
            (''receipt_effective_gas_price'', PValue (opt_json JInt (rc_effective_gas_price r))),
            (''receipt_l1_fee'', PValue (opt_json JInt (rc_l1_fee r))),
            (''receipt_l1_fee_scalar'', PValue (opt_json JStr (rc_l1_fee_scalar r))),
            (''receipt_l1_gas_used'', PValue (opt_json JInt (rc_l1_gas_used r))),
            (''receipt_l1_gas_price'', PValue (opt_json JInt (rc_l1_gas_price r))),
            (''receipt_blob_gas_used'', PValue (opt_json JInt (rc_blob_gas_used r))),
            (''receipt_blob_gas_price'', PValue (opt_json JInt (rc_blob_gas_price r))),
            (''receipt_contract_address'', contract_address)]))"

definition transaction_converter :: "int \<Rightarrow> table_model \<Rightarrow> domain_item \<Rightarrow> bool \<Rightarrow> (string \<times> pg_value) list res" where
  "transaction_converter now t item is_update =
     rbind (general_converter now t (di_data item) is_update) (\<lambda>d.
       case di_receipt item of
         None \<Rightarrow> Inl AttributeError
       | Some r \<Rightarrow> rbind (receipt_columns r) (\<lambda>cs. Inr (fold (\<lambda>(k, v). AList.update k v) cs d)))"

definition convert_item :: "int \<Rightarrow> table_model \<Rightarrow> domain_config \<Rightarrow> domain_item \<Rightarrow> row res" where
  "convert_item now t c item =
     rbind (case dc_converter c of
              GeneralConverter \<Rightarrow> general_converter now t (di_data item) (dc_conflict_do_update c)
            | BlockConverter \<Rightarrow> block_converter now t item (dc_conflict_do_update c)
            | TransactionConverter \<Rightarrow> transaction_converter now t item (dc_conflict_do_update c))
       (\<lambda>d. Inr (\<lambda>col. case map_of d col of None \<Rightarrow> PValue JNull | Some v \<Rightarrow> v))"

section \<open>Statements\<close>

type_synonym pg_rows = "pg_value list \<Rightarrow> row option"

record pg_db =
  db_tables :: "string \<Rightarrow> pg_rows"
  db_faults :: "exc option list"

definition COMMIT_BATCH_SIZE :: nat where
  "COMMIT_BATCH_SIZE = 10000"

definition key_of :: "string list \<Rightarrow> row \<Rightarrow> pg_value list" where
  "key_of pk r = map r pk"

definition block_number_of :: "row \<Rightarrow> int option" where
  "block_number_of r = (case r ''block_number'' of PValue (JInt n) \<Rightarrow> Some n | _ \<Rightarrow> None)"

text \<open>The condition is not true when one of the numbers is null.\<close>

definition may_update :: "update_strategy \<Rightarrow> row \<Rightarrow> row \<Rightarrow> bool" where
  "may_update s new old =
     (case s of
        NoStrategy \<Rightarrow> True
      | NewerBlock \<Rightarrow> (case (block_number_of new, block_number_of old) of (Some n, Some m) \<Rightarrow> n > m | _ \<Rightarrow> False)
      | NotOlderBlock \<Rightarrow> (case (block_number_of new, block_number_of old) of (Some n, Some m) \<Rightarrow> n \<ge> m | _ \<Rightarrow> False))"

text \<open>\<open>on_conflict_do_update\<close>: what an update sets is the columns outside the primary key that are
  fields of the data class.\<close>

definition update_columns :: "(string \<Rightarrow> string list) \<Rightarrow> table_model \<Rightarrow> domain_config \<Rightarrow> string list" where
  "update_columns annotation_keys t c =
     filter (\<lambda>n. n \<notin> set (primary_key t) \<and> n \<in> set (annotation_keys (dc_domain c))) (column_names t)"

definition merge_row :: "string list \<Rightarrow> row \<Rightarrow> row \<Rightarrow> row" where
  "merge_row cols new old = (\<lambda>n. if n \<in> set cols then new n else old n)"

definition upsert_row :: "(string \<Rightarrow> string list) \<Rightarrow> table_model \<Rightarrow> domain_config \<Rightarrow> row \<Rightarrow> pg_rows \<Rightarrow> pg_rows" where
  "upsert_row annotation_keys t c new rows =
     (case rows (key_of (primary_key t) new) of
        None \<Rightarrow> rows(key_of (primary_key t) new \<mapsto> new)
      | Some old \<Rightarrow>
          if dc_conflict_do_update c \<and> may_update (dc_update_strategy c) new old
          then rows(key_of (primary_key t) new \<mapsto> merge_row (update_columns annotation_keys t c) new old)
          else rows)"

definition insert_statement :: "(string \<Rightarrow> string list) \<Rightarrow> table_model \<Rightarrow> domain_config \<Rightarrow> row list \<Rightarrow> pg_rows
    \<Rightarrow> pg_rows res" where
  "insert_statement annotation_keys t c batch rows =
     (let keys = map (key_of (primary_key t)) batch
      in if list_ex (list_ex is_null) keys then Inl (OtherException ''NotNullViolation'')
         else if dc_conflict_do_update c \<and> \<not> distinct keys then Inl (OtherException ''CardinalityViolation'')
         else Inr (fold (upsert_row annotation_keys t c) batch rows))"

definition execute_and_commit :: "(string \<Rightarrow> string list) \<Rightarrow> table_model \<Rightarrow> domain_config \<Rightarrow> row list
    \<Rightarrow> (pg_db, unit) act" where
  "execute_and_commit annotation_keys t c batch db =
     (case next_fault (db_faults db) of
        (Some e, fs) \<Rightarrow> (db\<lparr>db_faults := fs\<rparr>, Inl e)
      | (None, fs) \<Rightarrow>
          (case insert_statement annotation_keys t c batch (db_tables db (tm_tablename t)) of
             Inl e \<Rightarrow> (db\<lparr>db_faults := fs\<rparr>, Inl e)
           | Inr rows \<Rightarrow> (db\<lparr>db_faults := fs, db_tables := (db_tables db)(tm_tablename t := rows)\<rparr>, Inr ())))"

definition split_data :: "nat \<Rightarrow> 'a list \<Rightarrow> 'a list list" where
  "split_data n data = map (\<lambda>i. Prelude.slice (i * n) (i * n + n) data) [0..<(length data + n - 1) div n]"

section \<open>The exporter\<close>

definition export_group :: "(string \<Rightarrow> string list) \<Rightarrow> int \<Rightarrow> (string \<times> table_model \<times> domain_config) list
    \<Rightarrow> string \<times> domain_item list \<Rightarrow> (pg_db, unit) act" where
  "export_group annotation_keys now mapping item_group =
     sbind (lift_res (dict_get mapping (fst item_group))) (\<lambda>(t, c).
     sbind (lift_res (rmap (convert_item now t c) (snd item_group))) (\<lambda>data.
       sfor (execute_and_commit annotation_keys t c) (split_data COMMIT_BATCH_SIZE data)))"

text \<open>Whatever goes wrong becomes one exception; the groups before keep what they have committed.\<close>

definition pg_export_items :: "(string \<Rightarrow> string list) \<Rightarrow> int \<Rightarrow> (string \<times> table_model \<times> domain_config) list
    \<Rightarrow> domain_item list \<Rightarrow> (pg_db, unit) act" where
  "pg_export_items annotation_keys now mapping items db =
     (case sfor (export_group annotation_keys now mapping) (group_by_item_type items) db of
        (db', Inl _) \<Rightarrow> (db', Inl (OtherException ''Error exporting items''))
      | (db', Inr _) \<Rightarrow> (db', Inr ()))"

section \<open>Block numbers only grow\<close>

definition not_older :: "row \<Rightarrow> row \<Rightarrow> bool" where
  "not_older r r' \<longleftrightarrow>
     (case block_number_of r of None \<Rightarrow> True
      | Some m \<Rightarrow> (case block_number_of r' of None \<Rightarrow> False | Some n \<Rightarrow> m \<le> n))"

lemma not_older_refl: "not_older r r"
  by (simp add: not_older_def split: option.splits)

lemma not_older_trans: "not_older a b \<Longrightarrow> not_older b c \<Longrightarrow> not_older a c"
  by (auto simp: not_older_def split: option.splits)

definition keeps_rows :: "pg_rows \<Rightarrow> pg_rows \<Rightarrow> bool" where
  "keeps_rows rows rows' \<longleftrightarrow> (\<forall>k r. rows k = Some r \<longrightarrow> (\<exists>r'. rows' k = Some r' \<and> not_older r r'))"

definition guarded :: "domain_config \<Rightarrow> bool" where
  "guarded c \<longleftrightarrow> dc_conflict_do_update c \<longrightarrow> dc_update_strategy c \<noteq> NoStrategy"

lemma keeps_rows_refl: "keeps_rows rows rows"
  by (simp add: keeps_rows_def not_older_refl)

lemma keeps_rows_trans: "keeps_rows a b \<Longrightarrow> keeps_rows b c \<Longrightarrow> keeps_rows a c"
  unfolding keeps_rows_def by (meson not_older_trans)

lemma merged_block:
  assumes "may_update s new old" and "s \<noteq> NoStrategy"
  shows "not_older old (merge_row cols new old)"
proof -
  have "block_number_of (merge_row cols new old) =
      (if ''block_number'' \<in> set cols then block_number_of new else block_number_of old)"
    by (simp add: block_number_of_def merge_row_def)
  with assms show ?thesis by (cases s) (auto simp: may_update_def not_older_def split: option.splits)
qed

lemma upsert_keeps: "guarded c \<Longrightarrow> keeps_rows rows (upsert_row ak t c new rows)"
  using merged_block [of "dc_update_strategy c" new _ "update_columns ak t c"]
  by (auto simp: keeps_rows_def upsert_row_def guarded_def not_older_refl split: option.splits)

text \<open>Without any condition on the data classes: no row disappears.\<close>

definition keeps_keys :: "pg_rows \<Rightarrow> pg_rows \<Rightarrow> bool" where
  "keeps_keys rows rows' \<longleftrightarrow> (\<forall>k. rows k \<noteq> None \<longrightarrow> rows' k \<noteq> None)"

lemma upsert_keeps_keys: "keeps_keys rows (upsert_row ak t c new rows)"
  by (auto simp: keeps_keys_def upsert_row_def split: option.splits)

lemma keeps_keys_trans: "keeps_keys a b \<Longrightarrow> keeps_keys b c \<Longrightarrow> keeps_keys a c"
  by (simp add: keeps_keys_def)

lemma keeps_keys_refl: "keeps_keys rows rows"
  by (simp add: keeps_keys_def)

lemma statement_keeps_keys:
  assumes "insert_statement ak t c batch rows = Inr rows'"
  shows "keeps_keys rows rows'"
proof -
  have "keeps_keys rows (fold (upsert_row ak t c) batch rows)"
    by (induction batch arbitrary: rows) (auto intro: keeps_keys_refl keeps_keys_trans upsert_keeps_keys)
  with assms show ?thesis by (auto simp: insert_statement_def Let_def split: if_splits)
qed

lemma statement_keeps:
  assumes "insert_statement ak t c batch rows = Inr rows'" and "guarded c"
  shows "keeps_rows rows rows'"
proof -
  have "keeps_rows rows (fold (upsert_row ak t c) batch rows)"
    using assms(2)
    by (induction batch arbitrary: rows) (auto intro: keeps_rows_refl keeps_rows_trans upsert_keeps)
  with assms(1) show ?thesis by (auto simp: insert_statement_def Let_def split: if_splits)
qed

lemma sfor_relates:
  assumes "\<And>x s. x \<in> set xs \<Longrightarrow> R s (fst (f x s))" and "\<And>s. R s s"
    and "\<And>a b c. R a b \<Longrightarrow> R b c \<Longrightarrow> R a c"
  shows "R s (fst (sfor f xs s))"
  using assms(1)
proof (induction xs arbitrary: s)
  case Nil
  then show ?case by (simp add: assms(2))
next
  case (Cons x xs)
  have one: "R s (fst (f x s))" using Cons.prems by simp
  show ?case
  proof (cases "f x s")
    case (Pair s' r)
    show ?thesis
    proof (cases r)
      case (Inl e)
      with one Pair show ?thesis by simp
    next
      case (Inr u)
      have "R s' (fst (sfor f xs s'))" using Cons.prems by (intro Cons.IH) simp
      with one assms(3) Pair Inr show ?thesis by auto
    qed
  qed
qed

lemma execute_keeps:
  "tm_tablename t = T \<Longrightarrow> guarded c \<Longrightarrow>
     keeps_rows (db_tables db T) (db_tables (fst (execute_and_commit ak t c batch db)) T)"
  using statement_keeps [of ak t c batch "db_tables db T"]
  by (auto simp: execute_and_commit_def keeps_rows_refl split: prod.splits option.splits sum.splits)

lemma execute_other: "tm_tablename t \<noteq> T \<Longrightarrow> db_tables (fst (execute_and_commit ak t c batch db)) T = db_tables db T"
  by (auto simp: execute_and_commit_def split: prod.splits option.splits sum.splits)

lemma export_group_keeps:
  assumes "list_all (\<lambda>(_, t, c). tm_tablename t = T \<longrightarrow> guarded c) mapping"
  shows "keeps_rows (db_tables db T) (db_tables (fst (export_group ak now mapping item_group db)) T)"
proof (cases "dict_get mapping (fst item_group)")
  case (Inl e)
  then show ?thesis by (simp add: export_group_def sbind_def lift_res_def keeps_rows_refl)
next
  case (Inr tc)
  obtain t c where tc: "tc = (t, c)" by (cases tc)
  from Inr have "(fst item_group, t, c) \<in> set mapping" by (auto simp: tc dest: map_of_SomeD)
  with assms have g: "tm_tablename t = T \<Longrightarrow> guarded c" by (auto simp: list_all_iff)
  have step: "keeps_rows (db_tables db T) (db_tables (fst (execute_and_commit ak t c b db)) T)" for b db
    using execute_keeps [OF _ g] execute_other [of t T] by (cases "tm_tablename t = T") (simp_all add: keeps_rows_refl)
  have "keeps_rows (db_tables db T) (db_tables (fst (sfor (execute_and_commit ak t c) bs db)) T)" for bs
    by (rule sfor_relates [where R = "\<lambda>a b. keeps_rows (db_tables a T) (db_tables b T)"])
      (blast intro: step keeps_rows_refl keeps_rows_trans)+
  then show ?thesis
    by (simp add: export_group_def sbind_def lift_res_def Inr tc keeps_rows_refl split: sum.splits)
qed

lemma execute_keeps_keys: "keeps_keys (db_tables db T) (db_tables (fst (execute_and_commit ak t c batch db)) T)"
  using statement_keeps_keys [of ak t c batch "db_tables db T"]
  by (auto simp: execute_and_commit_def keeps_keys_refl split: prod.splits option.splits sum.splits)

lemma export_group_keeps_keys:
  "keeps_keys (db_tables db T) (db_tables (fst (export_group ak now mapping item_group db)) T)"
proof -
  have "keeps_keys (db_tables db T) (db_tables (fst (sfor (execute_and_commit ak t c) bs db)) T)" for t c bs
    by (rule sfor_relates [where R = "\<lambda>a b. keeps_keys (db_tables a T) (db_tables b T)"])
      (blast intro: execute_keeps_keys keeps_keys_refl keeps_keys_trans)+
  then show ?thesis
    by (auto simp: export_group_def sbind_def lift_res_def keeps_keys_refl split: sum.splits prod.splits)
qed

section \<open>Exporting again\<close>

type_synonym entry = "table_model \<times> domain_config \<times> row"

definition upsert_entry :: "(string \<Rightarrow> string list) \<Rightarrow> entry \<Rightarrow> (string \<Rightarrow> pg_rows) \<Rightarrow> string \<Rightarrow> pg_rows" where
  "upsert_entry ak = (\<lambda>(t, c, r) tables. tables(tm_tablename t := upsert_row ak t c r (tables (tm_tablename t))))"

definition entry_place :: "entry \<Rightarrow> string \<times> pg_value list" where
  "entry_place = (\<lambda>(t, c, r). (tm_tablename t, key_of (primary_key t) r))"

definition at_place :: "(string \<Rightarrow> pg_rows) \<Rightarrow> string \<times> pg_value list \<Rightarrow> row option" where
  "at_place tables p = tables (fst p) (snd p)"

definition written :: "(string \<Rightarrow> string list) \<Rightarrow> entry \<Rightarrow> string list" where
  "written ak = (\<lambda>(t, c, r). if dc_conflict_do_update c then update_columns ak t c else [])"

definition entry_row :: "entry \<Rightarrow> row" where
  "entry_row = (\<lambda>(t, c, r). r)"

definition unconditional :: "entry \<Rightarrow> bool" where
  "unconditional = (\<lambda>(t, c, r). dc_update_strategy c = NoStrategy)"

text \<open>What an unconditional entry does to the place of its key and to the others.\<close>

lemma upsert_entry_place:
  assumes "unconditional e"
  shows "at_place (upsert_entry ak e tables) p =
    (if p = entry_place e
     then Some (case at_place tables p of None \<Rightarrow> entry_row e | Some old \<Rightarrow> merge_row (written ak e) (entry_row e) old)
     else at_place tables p)"
proof -
  obtain t c r where e: "e = (t, c, r)" by (cases e) auto
  obtain T k where p: "p = (T, k)" by (cases p)
  have "merge_row [] r old = old" for old by (simp add: merge_row_def)
  with assms show ?thesis
    by (auto simp: e p upsert_entry_def entry_place_def at_place_def written_def entry_row_def unconditional_def
        upsert_row_def may_update_def split: option.splits)
qed

lemma tables_eqI: "(\<And>p. at_place a p = at_place b p) \<Longrightarrow> a = b"
  by (rule ext, rule ext) (metis at_place_def fst_conv snd_conv)

text \<open>Tables that differ in some columns of one row stay so.\<close>

definition differ_in :: "string \<times> pg_value list \<Rightarrow> string list \<Rightarrow> (string \<Rightarrow> pg_rows) \<Rightarrow> (string \<Rightarrow> pg_rows) \<Rightarrow> bool" where
  "differ_in p cols a b \<longleftrightarrow> (\<forall>q. q \<noteq> p \<longrightarrow> at_place a q = at_place b q) \<and>
     (\<exists>r s. at_place a p = Some r \<and> at_place b p = Some s \<and> (\<forall>n. n \<notin> set cols \<longrightarrow> r n = s n))"

lemma differ_in_step:
  assumes "differ_in p cols a b" and "unconditional e"
  shows "differ_in p cols (upsert_entry ak e a) (upsert_entry ak e b)"
proof (cases "p = entry_place e")
  case True
  with assms show ?thesis by (auto simp: differ_in_def upsert_entry_place merge_row_def)
next
  case False
  with assms(1) have "at_place a (entry_place e) = at_place b (entry_place e)"
    unfolding differ_in_def by metis
  with False assms show ?thesis by (simp add: differ_in_def upsert_entry_place)
qed

lemma differ_in_fold:
  "differ_in p cols a b \<Longrightarrow> list_all unconditional es \<Longrightarrow>
     differ_in p cols (fold (upsert_entry ak) es a) (fold (upsert_entry ak) es b)"
  by (induction es arbitrary: a b) (auto intro: differ_in_step)

lemma fold_local:
  "at_place a p = at_place b p \<Longrightarrow> list_all unconditional es \<Longrightarrow>
     at_place (fold (upsert_entry ak) es a) p = at_place (fold (upsert_entry ak) es b) p"
proof (induction es arbitrary: a b)
  case (Cons e es)
  have u: "unconditional e" using Cons.prems(2) by simp
  have "at_place (upsert_entry ak e a) p = at_place (upsert_entry ak e b) p"
    using Cons.prems(1) by (cases "p = entry_place e") (simp_all add: upsert_entry_place [OF u])
  from Cons.IH [OF this] Cons.prems(2) show ?case by simp
qed simp

lemma fold_present:
  "at_place tables p \<noteq> None \<Longrightarrow> list_all unconditional es \<Longrightarrow> at_place (fold (upsert_entry ak) es tables) p \<noteq> None"
  by (induction es arbitrary: tables) (auto simp: upsert_entry_place)

lemma fold_inserts:
  "e \<in> set es \<Longrightarrow> list_all unconditional es \<Longrightarrow> at_place (fold (upsert_entry ak) es tables) (entry_place e) \<noteq> None"
proof (induction es arbitrary: tables)
  case (Cons d es)
  show ?case
  proof (cases "e = d")
    case True
    with Cons.prems have "at_place (upsert_entry ak d tables) (entry_place e) \<noteq> None"
      by (simp add: upsert_entry_place)
    with fold_present Cons.prems show ?thesis by simp
  qed (use Cons in auto)
qed simp

lemma fold_untouched:
  "\<forall>e \<in> set es. entry_place e \<noteq> p \<Longrightarrow> list_all unconditional es \<Longrightarrow>
     at_place (fold (upsert_entry ak) es tables) p = at_place tables p"
  by (induction es arbitrary: tables) (auto simp: upsert_entry_place)

lemma upsert_twice:
  assumes "list_all unconditional es"
  shows "fold (upsert_entry ak) es (fold (upsert_entry ak) es tables) = fold (upsert_entry ak) es tables"
  using assms
proof (induction es arbitrary: tables rule: rev_induct)
  case (snoc e es)
  let ?P = "fold (upsert_entry ak) es" and ?f = "upsert_entry ak e"
  define X where "X = ?P tables"
  have fixed: "?P X = X" using snoc by (simp add: X_def)
  from snoc.prems have u: "unconditional e" "list_all unconditional es" by simp_all
  have "?f (?P (?f X)) = ?f X"
  proof (cases "at_place X (entry_place e)")
    case None
    have "entry_place d \<noteq> entry_place e" if "d \<in> set es" for d
      using fold_inserts [OF that u(2), of ak tables] None by (auto simp: X_def)
    then have same: "at_place (?P (?f X)) (entry_place e) = at_place (?f X) (entry_place e)"
      using fold_untouched [OF _ u(2)] by blast
    have other: "at_place (?P (?f X)) p = at_place X p" if "p \<noteq> entry_place e" for p
      using fold_local [of "?f X" p X es ak] u that fixed by (simp add: upsert_entry_place)
    show ?thesis
      by (rule tables_eqI) (use None same other u(1) in \<open>auto simp: upsert_entry_place merge_row_def fun_eq_iff\<close>)
  next
    case (Some r)
    have "differ_in (entry_place e) (written ak e) (?f X) X"
      using Some u(1) by (auto simp: differ_in_def upsert_entry_place merge_row_def)
    from differ_in_fold [OF this u(2), of ak] have d: "differ_in (entry_place e) (written ak e) (?P (?f X)) X"
      by (simp add: fixed)
    show ?thesis
      by (rule tables_eqI) (use d u(1) in \<open>auto simp: upsert_entry_place differ_in_def merge_row_def fun_eq_iff\<close>)
  qed
  then show ?case by (simp add: X_def)
qed simp

text \<open>Without faults an export either writes certain entries whatever the tables are, or fails
  whatever they are.\<close>

definition writes :: "(string \<Rightarrow> string list) \<Rightarrow> (pg_db, unit) act \<Rightarrow> entry list \<Rightarrow> bool" where
  "writes ak m es \<longleftrightarrow>
     (\<forall>db. db_faults db = [] \<longrightarrow> m db = (db\<lparr>db_tables := fold (upsert_entry ak) es (db_tables db)\<rparr>, Inr ()))"

definition always_fails :: "(pg_db, unit) act \<Rightarrow> bool" where
  "always_fails m \<longleftrightarrow> (\<forall>db. db_faults db = [] \<longrightarrow> (\<exists>db' e. m db = (db', Inl e)))"

definition statement_ok :: "table_model \<Rightarrow> domain_config \<Rightarrow> row list \<Rightarrow> bool" where
  "statement_ok t c batch \<longleftrightarrow> \<not> list_ex (list_ex is_null) (map (key_of (primary_key t)) batch) \<and>
     (dc_conflict_do_update c \<longrightarrow> distinct (map (key_of (primary_key t)) batch))"

lemma fold_upsert_entries:
  "fold (upsert_entry ak) (map (\<lambda>r. (t, c, r)) batch) tables =
     tables(tm_tablename t := fold (upsert_row ak t c) batch (tables (tm_tablename t)))"
  by (induction batch arbitrary: tables) (simp_all add: upsert_entry_def)

lemma execute_writes:
  "statement_ok t c batch \<Longrightarrow> writes ak (execute_and_commit ak t c batch) (map (\<lambda>r. (t, c, r)) batch)"
  by (auto simp: writes_def execute_and_commit_def next_fault_def insert_statement_def statement_ok_def Let_def
      fold_upsert_entries)

lemma execute_fails: "\<not> statement_ok t c batch \<Longrightarrow> always_fails (execute_and_commit ak t c batch)"
  by (auto simp: always_fails_def execute_and_commit_def next_fault_def insert_statement_def statement_ok_def Let_def)

subsection \<open>Two clocks\<close>

text \<open>A row without the time of its update.\<close>

definition forget :: "row \<Rightarrow> row" where
  "forget r = r(''update_time'' := PValue JNull)"

definition forget_entry :: "entry \<Rightarrow> entry" where
  "forget_entry = (\<lambda>(t, c, r). (t, c, forget r))"

definition forget_tables :: "(string \<Rightarrow> pg_rows) \<Rightarrow> string \<Rightarrow> pg_rows" where
  "forget_tables tables = (\<lambda>T k. map_option forget (tables T k))"

definition timeless_key :: "table_model \<Rightarrow> bool" where
  "timeless_key t \<longleftrightarrow> ''update_time'' \<notin> set (primary_key t)"

definition same_but_time :: "row option \<Rightarrow> row option \<Rightarrow> bool" where
  "same_but_time x y \<longleftrightarrow> (case (x, y) of
     (None, None) \<Rightarrow> True | (Some r, Some r') \<Rightarrow> (\<forall>n. n \<noteq> ''update_time'' \<longrightarrow> r n = r' n) | _ \<Rightarrow> False)"

lemma forget_eq: "forget r = forget r' \<longleftrightarrow> (\<forall>n. n \<noteq> ''update_time'' \<longrightarrow> r n = r' n)"
  by (auto simp: forget_def fun_eq_iff)

lemma same_but_time_forget: "same_but_time x y \<longleftrightarrow> map_option forget x = map_option forget y"
  by (auto simp: same_but_time_def forget_eq split: option.splits)

definition same_columns :: "(string \<times> pg_value) list \<Rightarrow> (string \<times> pg_value) list \<Rightarrow> bool" where
  "same_columns d d' \<longleftrightarrow> (\<forall>k. k \<noteq> ''update_time'' \<longrightarrow> map_of d k = map_of d' k)"

lemma rel_bind:
  assumes "rel_sum (=) R a b" and "\<And>x y. R x y \<Longrightarrow> rel_sum (=) S (f x) (g y)"
  shows "rel_sum (=) S (rbind a f) (rbind b g)"
  using assms by (cases a; cases b) auto

lemma rel_rmap:
  assumes "\<And>x. rel_sum (=) R (f x) (g x)"
  shows "rel_sum (=) (list_all2 R) (rmap f xs) (rmap g xs)"
proof (induction xs)
  case (Cons x xs)
  then show ?case using assms [of x] by (auto intro!: rel_bind)
qed simp

lemma same_columns_update: "same_columns d d' \<Longrightarrow> same_columns (AList.update k v d) (AList.update k v d')"
  by (simp add: same_columns_def map_of_upd)

lemma same_columns_updates:
  "same_columns d d' \<Longrightarrow> same_columns (fold (\<lambda>(k, v). AList.update k v) cs d) (fold (\<lambda>(k, v). AList.update k v) cs d')"
  by (induction cs arbitrary: d d') (auto intro: same_columns_update)

lemma general_converter_clock:
  "rel_sum (=) same_columns (general_converter now t data u) (general_converter later t data u)"
  unfolding general_converter_def
  by (rule rel_bind [where R = "(=)"]) (auto simp: same_columns_def Let_def map_of_upd sum.rel_refl)

lemma convert_item_clock:
  "rel_sum (=) (\<lambda>r r'. forget r = forget r') (convert_item now t c item) (convert_item later t c item)"
  unfolding convert_item_def
proof (rule rel_bind [where R = same_columns])
  show "rel_sum (=) same_columns
    (case dc_converter c of
        GeneralConverter \<Rightarrow> general_converter now t (di_data item) (dc_conflict_do_update c)
      | BlockConverter \<Rightarrow> block_converter now t item (dc_conflict_do_update c)
      | TransactionConverter \<Rightarrow> transaction_converter now t item (dc_conflict_do_update c))
    (case dc_converter c of
        GeneralConverter \<Rightarrow> general_converter later t (di_data item) (dc_conflict_do_update c)
      | BlockConverter \<Rightarrow> block_converter later t item (dc_conflict_do_update c)
      | TransactionConverter \<Rightarrow> transaction_converter later t item (dc_conflict_do_update c))"
  proof (cases "dc_converter c")
    case BlockConverter
    have "rel_sum (=) same_columns (block_converter now t item (dc_conflict_do_update c))
        (block_converter later t item (dc_conflict_do_update c))"
      unfolding block_converter_def
    proof (rule rel_bind [OF general_converter_clock])
      fix x y
      assume "same_columns x y"
      then show "rel_sum (=) same_columns
        (if di_type item = ''Block''
         then rbind (if truthy (jget (di_data item) ''transactions'')
                   then rbind (as_list (jget (di_data item) ''transactions'')) (\<lambda>ts. Inr (int (length ts))) else Inr 0)
           (\<lambda>n. Inr (AList.update ''transactions_count'' (PValue (JInt n)) x)) else Inr x)
        (if di_type item = ''Block''
         then rbind (if truthy (jget (di_data item) ''transactions'')
                   then rbind (as_list (jget (di_data item) ''transactions'')) (\<lambda>ts. Inr (int (length ts))) else Inr 0)
           (\<lambda>n. Inr (AList.update ''transactions_count'' (PValue (JInt n)) y)) else Inr y)"
        by (cases "as_list (jget (di_data item) ''transactions'')") (auto intro: same_columns_update)
    qed
    with BlockConverter show ?thesis by simp
  next
    case TransactionConverter
    have "rel_sum (=) same_columns (transaction_converter now t item (dc_conflict_do_update c))
        (transaction_converter later t item (dc_conflict_do_update c))"
      unfolding transaction_converter_def
      by (rule rel_bind [OF general_converter_clock])
        (auto intro: same_columns_updates simp: rbind_def split: option.splits sum.splits)
    with TransactionConverter show ?thesis by simp
  qed (simp add: general_converter_clock)
next
  fix d d'
  assume "same_columns d d'"
  then show "rel_sum (=) (\<lambda>r r'. forget r = forget r')
      (Inr (\<lambda>col. case map_of d col of None \<Rightarrow> PValue JNull | Some v \<Rightarrow> v))
      (Inr (\<lambda>col. case map_of d' col of None \<Rightarrow> PValue JNull | Some v \<Rightarrow> v))"
    by (simp add: same_columns_def forget_eq)
qed

text \<open>What the entries do does not depend on the clock but for that column.\<close>

lemma forget_key: "timeless_key t \<Longrightarrow> key_of (primary_key t) (forget r) = key_of (primary_key t) r"
  by (auto simp: timeless_key_def key_of_def forget_def)

lemma forget_merge: "merge_row cols (forget new) (forget old) = forget (merge_row cols new old)"
  by (simp add: merge_row_def forget_def fun_eq_iff)

lemma forget_upsert:
  assumes "unconditional e" and "timeless_key (fst e)"
  shows "forget_tables (upsert_entry ak e tables) = upsert_entry ak (forget_entry e) (forget_tables tables)"
proof -
  obtain t c r where e: "e = (t, c, r)" by (cases e) auto
  have u: "unconditional (t, c, forget r)" "unconditional (t, c, r)" using assms(1) by (simp_all add: e unconditional_def)
  have k: "timeless_key t" using assms(2) by (simp add: e)
  have at: "at_place (forget_tables tbs) p = map_option forget (at_place tbs p)" for tbs p
    by (simp add: at_place_def forget_tables_def)
  show ?thesis
  proof (rule tables_eqI)
    fix p
    show "at_place (forget_tables (upsert_entry ak e tables)) p = at_place (upsert_entry ak (forget_entry e) (forget_tables tables)) p"
      using u k
      by (auto simp: at e forget_entry_def upsert_entry_place entry_place_def entry_row_def written_def forget_key
          forget_merge split: option.splits)
  qed
qed

lemma forget_fold:
  "list_all (\<lambda>e. unconditional e \<and> timeless_key (fst e)) es \<Longrightarrow>
     forget_tables (fold (upsert_entry ak) es tables) = fold (upsert_entry ak) (map forget_entry es) (forget_tables tables)"
  by (induction es arbitrary: tables) (simp_all add: forget_upsert)

lemma fold_keeps_time:
  assumes "list_all (\<lambda>e. unconditional e \<and> ''update_time'' \<notin> set (written ak e)) es" and "at_place tables p = Some r"
  shows "\<exists>r'. at_place (fold (upsert_entry ak) es tables) p = Some r' \<and> r' ''update_time'' = r ''update_time''"
  using assms
proof (induction es arbitrary: tables r)
  case (Cons e es)
  then have u: "unconditional e" "''update_time'' \<notin> set (written ak e)" by simp_all
  have "\<exists>r1. at_place (upsert_entry ak e tables) p = Some r1 \<and> r1 ''update_time'' = r ''update_time''"
    using Cons.prems(2) u(2) by (auto simp: upsert_entry_place [OF u(1)] merge_row_def)
  then obtain r1 where "at_place (upsert_entry ak e tables) p = Some r1" "r1 ''update_time'' = r ''update_time''" by blast
  with Cons.IH [OF _ this(1)] Cons.prems(1) show ?case by simp
qed simp

text \<open>At two times the same items make the same entries but for the time, or fail at both.\<close>

definition same_writes :: "(string \<Rightarrow> string list) \<Rightarrow> entry set \<Rightarrow> (pg_db, unit) act \<Rightarrow> (pg_db, unit) act \<Rightarrow> bool" where
  "same_writes ak A m m' \<longleftrightarrow> always_fails m \<or>
     (\<exists>es es'. writes ak m es \<and> writes ak m' es' \<and> map forget_entry es = map forget_entry es' \<and> set es \<subseteq> A \<and> set es' \<subseteq> A)"

lemma sfor_same_writes:
  assumes "list_all2 (\<lambda>x y. same_writes ak A (f x) (g y)) xs ys"
  shows "same_writes ak A (sfor f xs) (sfor g ys)"
  using assms
proof (induction rule: list_all2_induct)
  case Nil
  have "writes ak (sfor f []) []" "writes ak (sfor g []) []" by (simp_all add: writes_def)
  then show ?case unfolding same_writes_def by fastforce
next
  case (Cons x xs y ys)
  show ?case
  proof (cases "always_fails (f x)")
    case True
    then have "always_fails (sfor f (x # xs))" unfolding always_fails_def by fastforce
    then show ?thesis unfolding same_writes_def ..
  next
    case False
    then obtain es es' where es: "writes ak (f x) es" "writes ak (g y) es'" "map forget_entry es = map forget_entry es'"
      "set es \<subseteq> A" "set es' \<subseteq> A" using Cons.hyps(1) by (auto simp: same_writes_def)
    show ?thesis
    proof (cases "always_fails (sfor f xs)")
      case True
      then have "always_fails (sfor f (x # xs))"
        using es(1) by (simp add: writes_def always_fails_def)
      then show ?thesis unfolding same_writes_def ..
    next
      case False
      then obtain fs fs' where fs: "writes ak (sfor f xs) fs" "writes ak (sfor g ys) fs'"
        "map forget_entry fs = map forget_entry fs'" "set fs \<subseteq> A" "set fs' \<subseteq> A"
        using Cons.IH by (auto simp: same_writes_def)
      have "writes ak (sfor f (x # xs)) (es @ fs)" "writes ak (sfor g (y # ys)) (es' @ fs')"
        using es fs by (simp_all add: writes_def)
      moreover have "map forget_entry (es @ fs) = map forget_entry (es' @ fs')" using es(3) fs(3) by simp
      moreover have "set (es @ fs) \<subseteq> A" "set (es' @ fs') \<subseteq> A" using es fs by simp_all
      ultimately show ?thesis unfolding same_writes_def by blast
    qed
  qed
qed

definition entries_of :: "(string \<times> table_model \<times> domain_config) list \<Rightarrow> string set \<Rightarrow> entry set" where
  "entries_of mapping types = {(t, c, r) | t c r. \<exists>d \<in> types. map_of mapping d = Some (t, c)}"

lemma statement_ok_clock:
  assumes "list_all2 (\<lambda>r r'. forget r = forget r') b b'" and "timeless_key t"
  shows "statement_ok t c b' = statement_ok t c b"
proof -
  have "map (key_of (primary_key t)) b = map (key_of (primary_key t)) b'"
    using assms(1) by (induction rule: list_all2_induct) (auto, metis assms(2) forget_key)
  then show ?thesis by (simp add: statement_ok_def)
qed

lemma execute_same_writes:
  assumes "list_all2 (\<lambda>r r'. forget r = forget r') b b'" and "timeless_key t" and "\<And>r. (t, c, r) \<in> A"
  shows "same_writes ak A (execute_and_commit ak t c b) (execute_and_commit ak t c b')"
proof (cases "statement_ok t c b")
  case True
  with assms(1,2) have "statement_ok t c b'" by (simp add: statement_ok_clock)
  note w = execute_writes [OF True, of ak] execute_writes [OF this, of ak]
  have "map forget_entry (map (\<lambda>r. (t, c, r)) b) = map forget_entry (map (\<lambda>r. (t, c, r)) b')"
    using assms(1) by (induction rule: list_all2_induct) (simp_all add: forget_entry_def)
  moreover have "set (map (\<lambda>r. (t, c, r)) b) \<subseteq> A" "set (map (\<lambda>r. (t, c, r)) b') \<subseteq> A" using assms(3) by auto
  ultimately show ?thesis using w unfolding same_writes_def by blast
qed (simp add: same_writes_def execute_fails)

lemma split_data_rel:
  assumes "list_all2 R xs ys"
  shows "list_all2 (list_all2 R) (split_data n xs) (split_data n ys)"
proof -
  have "list_all2 R (Prelude.slice a b xs) (Prelude.slice a b ys)" for a b
    using assms by (simp add: Prelude.slice_def list_all2_takeI list_all2_dropI)
  then show ?thesis
    using list_all2_lengthD [OF assms] by (simp add: split_data_def list_all2_conv_all_nth)
qed

lemma export_group_same_writes:
  assumes "fst item_group \<in> types"
    and "\<And>d t c. d \<in> types \<Longrightarrow> map_of mapping d = Some (t, c) \<Longrightarrow> timeless_key t"
  shows "same_writes ak (entries_of mapping types) (export_group ak now mapping item_group) (export_group ak later mapping item_group)"
proof (cases "dict_get mapping (fst item_group)")
  case (Inl e)
  then show ?thesis by (simp add: export_group_def sbind_def lift_res_def always_fails_def same_writes_def)
next
  case (Inr tc)
  obtain t c where tc: "tc = (t, c)" by (cases tc)
  from Inr have look: "map_of mapping (fst item_group) = Some (t, c)"
    by (auto simp: tc dict_get_def split: option.splits)
  then have here: "(t, c, r) \<in> entries_of mapping types" for r using assms(1) by (auto simp: entries_of_def)
  have key: "timeless_key t" using assms(2) [OF assms(1) look] .
  have rel: "rel_sum (=) (list_all2 (\<lambda>r r'. forget r = forget r')) (rmap (convert_item now t c) (snd item_group))
      (rmap (convert_item later t c) (snd item_group))"
    by (rule rel_rmap) (rule convert_item_clock)
  show ?thesis
  proof (cases "rmap (convert_item now t c) (snd item_group)")
    case (Inl e)
    then have "always_fails (export_group ak now mapping item_group)"
      unfolding always_fails_def export_group_def sbind_def lift_res_def by (simp add: Inr tc)
    then show ?thesis unfolding same_writes_def ..
  next
    case data: (Inr data)
    with rel obtain data' where data': "rmap (convert_item later t c) (snd item_group) = Inr data'"
      "list_all2 (\<lambda>r r'. forget r = forget r') data data'"
      by (cases "rmap (convert_item later t c) (snd item_group)") auto
    have "export_group ak now mapping item_group = sfor (execute_and_commit ak t c) (split_data COMMIT_BATCH_SIZE data)"
      "export_group ak later mapping item_group = sfor (execute_and_commit ak t c) (split_data COMMIT_BATCH_SIZE data')"
      using look data data'(1) by (simp_all add: export_group_def sbind_def lift_res_def dict_get_def fun_eq_iff)
    moreover have "list_all2 (\<lambda>b b'. same_writes ak (entries_of mapping types) (execute_and_commit ak t c b) (execute_and_commit ak t c b'))
        (split_data COMMIT_BATCH_SIZE data) (split_data COMMIT_BATCH_SIZE data')"
      using split_data_rel [OF data'(2)] execute_same_writes [OF _ key here] by (rule list_all2_mono)
    ultimately show ?thesis using sfor_same_writes by metis
  qed
qed

lemma export_same_writes:
  assumes "\<And>d t c. d \<in> di_type ` set items \<Longrightarrow> map_of mapping d = Some (t, c) \<Longrightarrow> timeless_key t"
  shows "same_writes ak (entries_of mapping (di_type ` set items))
    (sfor (export_group ak now mapping) (group_by_item_type items)) (sfor (export_group ak later mapping) (group_by_item_type items))"
proof (rule sfor_same_writes, rule list.rel_refl_strong)
  fix g
  assume "g \<in> set (group_by_item_type items)"
  then have "fst g \<in> di_type ` set items"
    using group_on_keys [of di_type items] by (auto simp: group_by_item_type_def)
  then show "same_writes ak (entries_of mapping (di_type ` set items)) (export_group ak now mapping g) (export_group ak later mapping g)"
    using assms by (rule export_group_same_writes)
qed

text \<open>Writing the same entries at two times, one after the other.\<close>

lemma fold_twice_same_time:
  assumes "list_all (\<lambda>e. unconditional e \<and> timeless_key (fst e)) es" and "list_all (\<lambda>e. unconditional e \<and> timeless_key (fst e)) es'"
    and "map forget_entry es = map forget_entry es'"
  shows "same_but_time (fold (upsert_entry ak) es db T k) (fold (upsert_entry ak) es' (fold (upsert_entry ak) es db) T k)"
proof -
  let ?f = "fold (upsert_entry ak)"
  have uf: "list_all unconditional (map forget_entry es)"
    using assms(1) by (auto simp: list_all_iff forget_entry_def unconditional_def)
  have "forget_tables (?f es' (?f es db)) = ?f (map forget_entry es) (?f (map forget_entry es) (forget_tables db))"
    by (simp add: forget_fold [OF assms(1)] forget_fold [OF assms(2)] flip: assms(3))
  also have "\<dots> = forget_tables (?f es db)" unfolding upsert_twice [OF uf] by (simp add: forget_fold [OF assms(1)])
  finally show ?thesis unfolding same_but_time_forget forget_tables_def by (metis (mono_tags))
qed

lemma fold_changes_nothing:
  assumes "list_all (\<lambda>e. unconditional e \<and> ''update_time'' \<notin> set (written ak e)) es"
    and "\<And>T k. same_but_time (db T k) (fold (upsert_entry ak) es db T k)"
  shows "fold (upsert_entry ak) es db = db"
proof (rule tables_eqI)
  fix p
  let ?db = "fold (upsert_entry ak) es db"
  have same: "same_but_time (at_place db p) (at_place ?db p)" unfolding at_place_def by (rule assms(2))
  show "at_place ?db p = at_place db p"
  proof (cases "at_place db p")
    case None
    with same show ?thesis by (simp add: same_but_time_forget)
  next
    case (Some r)
    from fold_keeps_time [OF assms(1) this] obtain r' where r': "at_place ?db p = Some r'"
      "r' ''update_time'' = r ''update_time''" by auto
    have rest: "r n = r' n" if "n \<noteq> ''update_time''" for n
      using same that unfolding Some r'(1) by (simp add: same_but_time_def)
    have "r = r'"
    proof
      fix n
      show "r n = r' n" using rest [of n] r'(2) by (cases "n = ''update_time''") simp_all
    qed
    with Some r'(1) show ?thesis by simp
  qed
qed

section \<open>Properties\<close>

text \<open>C13: no export, successful or not, removes a row of any table; and in a table all of whose data classes are
  inserted only or update on the condition of the block number, none gives a row an earlier block number.\<close>

theorem export_never_goes_back:
  assumes "pg_export_items ak now mapping items db = (db', r)"
  shows "(\<forall>T. keeps_keys (db_tables db T) (db_tables db' T)) \<and>
    (\<forall>T. list_all (\<lambda>(_, t, c). tm_tablename t = T \<longrightarrow> guarded c) mapping \<longrightarrow>
       keeps_rows (db_tables db T) (db_tables db' T))"
proof -
  let ?db = "fst (sfor (export_group ak now mapping) (group_by_item_type items) db)"
  have db': "db_tables db' = db_tables ?db" using assms by (auto simp: pg_export_items_def split: prod.splits sum.splits)
  have "keeps_keys (db_tables db T) (db_tables ?db T)" for T
    by (rule sfor_relates [where R = "\<lambda>a b. keeps_keys (db_tables a T) (db_tables b T)"])
      (blast intro: export_group_keeps_keys keeps_keys_refl keeps_keys_trans)+
  moreover have "keeps_rows (db_tables db T) (db_tables ?db T)"
    if "list_all (\<lambda>(_, t, c). tm_tablename t = T \<longrightarrow> guarded c) mapping" for T
    by (rule sfor_relates [where R = "\<lambda>a b. keeps_rows (db_tables a T) (db_tables b T)"])
      (blast intro: export_group_keeps [OF that] keeps_rows_refl keeps_rows_trans)+
  ultimately show ?thesis by (simp add: db')
qed

text \<open>C14: for data classes whose updates have no condition, exporting the same items once more at any other time, as
  a restart after a crash does, succeeds again and leaves every row of every table as it is but for its
  \<open>update_time\<close>; and everything as it is if no data class that is updated has \<open>update_time\<close> among its fields.\<close>

theorem export_idempotent:
  assumes "pg_export_items ak now mapping items db = (db', Inr ())" and "db_faults db = []"
    and "list_all (\<lambda>i. case map_of mapping (di_type i) of None \<Rightarrow> True
      | Some (t, c) \<Rightarrow> dc_update_strategy c = NoStrategy \<and> ''update_time'' \<notin> set (primary_key t)) items"
  shows "\<exists>db''. pg_export_items ak later mapping items db' = (db'', Inr ()) \<and>
    (\<forall>T k. same_but_time (db_tables db' T k) (db_tables db'' T k)) \<and>
    (list_all (\<lambda>i. case map_of mapping (di_type i) of None \<Rightarrow> True
       | Some (t, c) \<Rightarrow> dc_conflict_do_update c \<longrightarrow> ''update_time'' \<notin> set (ak (dc_domain c))) items \<longrightarrow> db'' = db')"
proof -
  let ?m = "\<lambda>now. sfor (export_group ak now mapping) (group_by_item_type items)" and ?f = "fold (upsert_entry ak)"
  let ?A = "entries_of mapping (di_type ` set items)"
  have cfg: "dc_update_strategy c = NoStrategy \<and> timeless_key t"
    if "d \<in> di_type ` set items" "map_of mapping d = Some (t, c)" for d t c
    using assms(3) that by (fastforce simp: list_all_iff timeless_key_def)
  from assms(1) have ok: "?m now db = (db', Inr ())"
    by (auto simp: pg_export_items_def split: prod.splits sum.splits)
  with assms(2) have "\<not> always_fails (?m now)" unfolding always_fails_def by (metis Inl_Inr_False prod.inject)
  then obtain es es' where es: "writes ak (?m now) es" "writes ak (?m later) es'" "map forget_entry es = map forget_entry es'"
    "set es \<subseteq> ?A" "set es' \<subseteq> ?A"
    using export_same_writes [of items mapping ak now later] cfg by (auto simp: same_writes_def)
  have A: "unconditional e \<and> timeless_key (fst e)" if "e \<in> ?A" for e
    using that cfg by (fastforce simp: entries_of_def unconditional_def)
  have u: "list_all (\<lambda>e. unconditional e \<and> timeless_key (fst e)) es" "list_all (\<lambda>e. unconditional e \<and> timeless_key (fst e)) es'"
    using A es(4,5) by (auto simp: list_all_iff)
  from es(1) ok assms(2) have db': "db' = db\<lparr>db_tables := ?f es (db_tables db)\<rparr>" by (simp add: writes_def)
  let ?db = "db'\<lparr>db_tables := ?f es' (db_tables db')\<rparr>"
  have "db_faults db' = []" using db' assms(2) by simp
  with es(2) have run: "?m later db' = (?db, Inr ())" by (simp add: writes_def)
  have same: "same_but_time (db_tables db' T k) (db_tables ?db T k)" for T k
    using fold_twice_same_time [OF u es(3), of ak "db_tables db" T k] by (simp add: db')
  moreover have "?db = db'" if nt: "list_all (\<lambda>i. case map_of mapping (di_type i) of None \<Rightarrow> True
       | Some (t, c) \<Rightarrow> dc_conflict_do_update c \<longrightarrow> ''update_time'' \<notin> set (ak (dc_domain c))) items"
  proof -
    have "''update_time'' \<notin> set (written ak e)" if "e \<in> ?A" for e
      using that nt by (fastforce simp: entries_of_def written_def update_columns_def list_all_iff)
    with A es(5) have w: "list_all (\<lambda>e. unconditional e \<and> ''update_time'' \<notin> set (written ak e)) es'"
      by (auto simp: list_all_iff)
    from fold_changes_nothing [OF w] same have "db_tables ?db = db_tables db'" by simp
    then show ?thesis by simp
  qed
  ultimately show ?thesis using run by (intro exI [of _ ?db]) (simp add: pg_export_items_def)
qed

text \<open>The tables of the program that this is true of.\<close>

lemma guarded_tables:
  "list_all (\<lambda>T. list_all (\<lambda>(_, t, c). tm_tablename t = T \<longrightarrow> guarded c) domain_model_mapping)
     [''address_current_token_balances'', ''tokens'', ''erc721_token_id_details'', ''erc1155_token_id_details'']"
  by code_simp

section \<open>Witnesses\<close>

lemma split_data_short: "data \<noteq> [] \<Longrightarrow> length data \<le> n \<Longrightarrow> split_data n data = [data]"
proof -
  assume d: "data \<noteq> []" "length data \<le> n"
  then have "(length data + n - 1) div n = 1"
    by (intro div_nat_eqI) (cases data; simp)+
  with d show ?thesis by (simp add: split_data_def Prelude.slice_def)
qed

definition sample_item :: "string \<Rightarrow> int \<Rightarrow> domain_item" where
  "sample_item ty n = \<lparr>di_type = ty, di_data = [(''address'', JStr ''0x0a''), (''token_address'', JStr ''0x0b''),
     (''balance'', JInt 5), (''block_number'', JInt n), (''block_timestamp'', JInt 7)], di_receipt = None\<rparr>"

definition empty_db :: pg_db where
  "empty_db = \<lparr>db_tables = (\<lambda>_ _. None), db_faults = []\<rparr>"

definition sample_mapping :: "(string \<times> table_model \<times> domain_config) list" where
  "sample_mapping = scan_convert_config [current_token_balances_model, coin_balances_model]"

abbreviation export_sample :: "int \<Rightarrow> domain_item list \<Rightarrow> (pg_db, unit) act" where
  "export_sample \<equiv> \<lambda>now. pg_export_items (\<lambda>_. [''balance'', ''block_number'', ''block_timestamp'']) now sample_mapping"

text \<open>One statement is enough for a few items of one class that all convert.\<close>

lemma group_by_one_type:
  assumes "items \<noteq> []" and "list_all (\<lambda>i. di_type i = d) items"
  shows "group_by_item_type items = [(d, items)]"
proof -
  have all: "list_all (\<lambda>i. di_type i = d) js \<Longrightarrow>
      fold (\<lambda>i. dict_append (di_type i) i) js [(d, ys)] = [(d, ys @ js)]" for ys js
    by (induction js arbitrary: ys) (simp_all add: dict_append_def)
  obtain i js where items: "items = i # js" using assms(1) by (cases items) auto
  with assms(2) all [of js "[i]"] show ?thesis
    by (simp add: group_by_item_type_def group_on_def dict_append_def)
qed

lemma export_one_group:
  assumes "items \<noteq> []" and "length items \<le> COMMIT_BATCH_SIZE" and "list_all (\<lambda>i. di_type i = d) items"
    and "map_of mapping d = Some (t, c)" and "db_faults db = []"
    and "case rmap (convert_item now t c) items of Inl _ \<Rightarrow> False | Inr rows \<Rightarrow> statement_ok t c rows"
  shows "\<exists>db'. pg_export_items ak now mapping items db = (db', Inr ()) \<and> db_faults db' = []"
proof -
  from assms(6) obtain rows where rows: "rmap (convert_item now t c) items = Inr rows" "statement_ok t c rows"
    by (auto split: sum.splits)
  have len: "length rows = length items" using rmap_length [OF rows(1)] .
  with assms(1,2) have "split_data COMMIT_BATCH_SIZE rows = [rows]" by (intro split_data_short) auto
  then have "export_group ak now mapping (d, items) db = sfor (execute_and_commit ak t c) [rows] db"
    using assms(4) rows(1) by (simp add: export_group_def sbind_def lift_res_def dict_get_def)
  also have "\<dots> = (db\<lparr>db_tables := fold (upsert_entry ak) (map (\<lambda>r. (t, c, r)) rows) (db_tables db)\<rparr>, Inr ())"
    using execute_writes [OF rows(2), of ak] assms(5) by (simp add: writes_def)
  finally show ?thesis
    using assms(5) by (simp add: pg_export_items_def group_by_one_type [OF assms(1,3)])
qed

lemma sample_export:
  assumes "d = ''CurrentTokenBalance'' \<or> d = ''CoinBalance''" and "db_faults db = []"
  shows "\<exists>db'. export_sample now [sample_item d n] db = (db', Inr ()) \<and> db_faults db' = []"
proof -
  have "\<exists>t c. map_of sample_mapping d = Some (t, c) \<and>
      (case rmap (convert_item now t c) [sample_item d n] of Inl _ \<Rightarrow> False | Inr rows \<Rightarrow> statement_ok t c rows)"
    using assms(1)
    by (auto simp: sample_mapping_def scan_convert_config_def current_token_balances_model_def
        coin_balances_model_def domain_mapping_def convert_item_def general_converter_def sample_item_def
        column_type_of_def column_names_def plain_column_def primary_column_def convert_value_def hex_column_def
        statement_ok_def key_of_def primary_key_def is_null_def is_space_def hex_value_def of_char_def)
  then obtain t c where "map_of sample_mapping d = Some (t, c)"
    "case rmap (convert_item now t c) [sample_item d n] of Inl _ \<Rightarrow> False | Inr rows \<Rightarrow> statement_ok t c rows" by blast
  then show ?thesis
    using assms(2) by (intro export_one_group) (simp_all add: COMMIT_BATCH_SIZE_def sample_item_def)
qed

theorem export_never_goes_back_witness:
  "\<exists>db db'. export_sample 9 [sample_item ''CurrentTokenBalance'' 4] empty_db = (db, Inr ()) \<and>
     export_sample 9 [sample_item ''CurrentTokenBalance'' 3] db = (db', Inr ()) \<and>
     keeps_rows (db_tables db ''address_current_token_balances'') (db_tables db' ''address_current_token_balances'')"
proof -
  obtain db where db: "export_sample 9 [sample_item ''CurrentTokenBalance'' 4] empty_db = (db, Inr ())" "db_faults db = []"
    using sample_export [of "''CurrentTokenBalance''" empty_db 9 4] by (auto simp: empty_db_def)
  obtain db' where db': "export_sample 9 [sample_item ''CurrentTokenBalance'' 3] db = (db', Inr ())"
    using sample_export [of "''CurrentTokenBalance''" db 9 3] db(2) by auto
  have "list_all (\<lambda>(_, t, c). tm_tablename t = ''address_current_token_balances'' \<longrightarrow> guarded c) sample_mapping"
    by code_simp
  with export_never_goes_back [OF db'] db(1) db' show ?thesis by blast
qed

theorem export_idempotent_witness:
  "\<exists>db. export_sample 9 [sample_item ''CoinBalance'' 4] empty_db = (db, Inr ()) \<and>
     export_sample 12 [sample_item ''CoinBalance'' 4] db = (db, Inr ())"
proof -
  obtain db where db: "export_sample 9 [sample_item ''CoinBalance'' 4] empty_db = (db, Inr ())"
    using sample_export [of "''CoinBalance''" empty_db 9 4] by (auto simp: empty_db_def)
  have "list_all (\<lambda>i. case map_of sample_mapping (di_type i) of None \<Rightarrow> True
      | Some (t, c) \<Rightarrow> dc_update_strategy c = NoStrategy \<and> ''update_time'' \<notin> set (primary_key t)) [sample_item ''CoinBalance'' 4]"
    by code_simp
  note again = export_idempotent [OF db _ this, of 12]
  have "list_all (\<lambda>i. case map_of sample_mapping (di_type i) of None \<Rightarrow> True
      | Some (t, c) \<Rightarrow> dc_conflict_do_update c \<longrightarrow>
          ''update_time'' \<notin> set ((\<lambda>_. [''balance'', ''block_number'', ''block_timestamp'']) (dc_domain c))) [sample_item ''CoinBalance'' 4]"
    by code_simp
  with again db show ?thesis by (auto simp: empty_db_def)
qed

end
