(* ===== verification/Migrations.thy ===== *)
theory Migrations
  imports Models
begin

text \<open>
  The schema migrations (\<open>migrations/versions\<close>): each script as the operations of its \<open>upgrade\<close> and \<open>downgrade\<close>, run on
  a schema of tables, columns, primary keys and indexes as PostgreSQL does. A precision without scale has scale 0, the
  name of a primary key is that of its table with \<open>_pkey\<close>. Autoincrement, and the type repeated where only the
  nullability of a column changes, are left out. What operations on one table leave behind does not depend on the other
  tables, so the history of all tables is checked table by table.
\<close>

section \<open>Schemas\<close>

datatype db_column = Column string column_type bool | SizedColumn string column_type nat nat bool

fun column_name :: "db_column \<Rightarrow> string" where
  "column_name (Column n _ _) = n"
| "column_name (SizedColumn n _ _ _ _) = n"

fun column_kind :: "db_column \<Rightarrow> column_type" where
  "column_kind (Column _ t _) = t"
| "column_kind (SizedColumn _ t _ _ _) = t"

fun renamed_column :: "string \<Rightarrow> db_column \<Rightarrow> db_column" where
  "renamed_column n (Column _ t b) = Column n t b"
| "renamed_column n (SizedColumn _ t p s b) = SizedColumn n t p s b"

fun nullable_column :: "bool \<Rightarrow> db_column \<Rightarrow> db_column" where
  "nullable_column b (Column n t _) = Column n t b"
| "nullable_column b (SizedColumn n t p s _) = SizedColumn n t p s b"

datatype index_part = Key string | Asc string | Desc string

fun part_column :: "index_part \<Rightarrow> string" where
  "part_column (Key c) = c"
| "part_column (Asc c) = c"
| "part_column (Desc c) = c"

fun renamed_part :: "string \<Rightarrow> string \<Rightarrow> index_part \<Rightarrow> index_part" where
  "renamed_part c n (Key x) = Key (if x = c then n else x)"
| "renamed_part c n (Asc x) = Asc (if x = c then n else x)"
| "renamed_part c n (Desc x) = Desc (if x = c then n else x)"

datatype db_op = CreateTable string "db_column list" "string list" | DropTable string
  | AddColumn string db_column | DropColumn string string | RenameColumn string string string | SetNullable string string bool
  | CreateIndex string string "index_part list" bool "string option" | DropIndex string string
  | CreatePrimaryKey string string "string list" | DropPrimaryKey string string

record db_table =
  tb_columns :: "db_column list"
  tb_key :: "(string \<times> string list) option"

record db_index =
  ix_table :: string
  ix_parts :: "index_part list"
  ix_unique :: bool
  ix_where :: "string option"

record schema =
  sc_tables :: "(string \<times> db_table) list"
  sc_indexes :: "(string \<times> db_index) list"

definition empty_schema :: schema where
  "empty_schema = \<lparr>sc_tables = [], sc_indexes = []\<rparr>"

section \<open>Operations\<close>

definition db_error :: "string \<Rightarrow> exc" where
  "db_error t = OtherException t"

definition table_of :: "schema \<Rightarrow> string \<Rightarrow> db_table res" where
  "table_of s t = (case map_of (sc_tables s) t of None \<Rightarrow> Inl (db_error ''UndefinedTable'') | Some x \<Rightarrow> Inr x)"

definition set_table :: "string \<Rightarrow> db_table \<Rightarrow> schema \<Rightarrow> schema" where
  "set_table t x s = s\<lparr>sc_tables := map (\<lambda>(n, y). (n, if n = t then x else y)) (sc_tables s)\<rparr>"

definition has_column :: "db_table \<Rightarrow> string \<Rightarrow> bool" where
  "has_column x c \<longleftrightarrow> c \<in> set (map column_name (tb_columns x))"

definition need_column :: "db_table \<Rightarrow> string \<Rightarrow> unit res" where
  "need_column x c = (if has_column x c then Inr () else Inl (db_error ''UndefinedColumn''))"

definition new_column :: "db_table \<Rightarrow> string \<Rightarrow> unit res" where
  "new_column x c = (if has_column x c then Inl (db_error ''DuplicateColumn'') else Inr ())"

definition on_column :: "string \<Rightarrow> (db_column \<Rightarrow> db_column) \<Rightarrow> db_table \<Rightarrow> db_table" where
  "on_column c f x = x\<lparr>tb_columns := map (\<lambda>k. if column_name k = c then f k else k) (tb_columns x)\<rparr>"

definition pkey_name :: "string \<Rightarrow> string" where
  "pkey_name t = t @ ''_pkey''"

fun apply_op :: "db_op \<Rightarrow> schema \<Rightarrow> schema res" where
  "apply_op (CreateTable t cs key) s =
     (if t \<in> fst ` set (sc_tables s) then Inl (db_error ''DuplicateTable'')
      else Inr (s\<lparr>sc_tables := (t, \<lparr>tb_columns = cs, tb_key = Some (pkey_name t, key)\<rparr>) # sc_tables s\<rparr>))"
| "apply_op (DropTable t) s =
     rbind (table_of s t) (\<lambda>_. Inr (s\<lparr>sc_tables := filter (\<lambda>p. fst p \<noteq> t) (sc_tables s),
       sc_indexes := filter (\<lambda>p. ix_table (snd p) \<noteq> t) (sc_indexes s)\<rparr>))"
| "apply_op (AddColumn t c) s =
     rbind (table_of s t) (\<lambda>x. rbind (new_column x (column_name c)) (\<lambda>_.
       Inr (set_table t (x\<lparr>tb_columns := tb_columns x @ [c]\<rparr>) s)))"
| "apply_op (DropColumn t c) s =
     rbind (table_of s t) (\<lambda>x. rbind (need_column x c) (\<lambda>_.
       Inr (set_table t (x\<lparr>tb_columns := filter (\<lambda>k. column_name k \<noteq> c) (tb_columns x),
              tb_key := (case tb_key x of Some (n, cs) \<Rightarrow> if c \<in> set cs then None else tb_key x | None \<Rightarrow> None)\<rparr>)
            (s\<lparr>sc_indexes := filter (\<lambda>p. \<not> (ix_table (snd p) = t \<and> c \<in> set (map part_column (ix_parts (snd p))))) (sc_indexes s)\<rparr>))))"
| "apply_op (RenameColumn t c n) s =
     rbind (table_of s t) (\<lambda>x. rbind (need_column x c) (\<lambda>_. rbind (new_column x n) (\<lambda>_.
       Inr (set_table t ((on_column c (renamed_column n) x)\<lparr>tb_key := map_option (\<lambda>(k, cs).
              (k, map (\<lambda>y. if y = c then n else y) cs)) (tb_key x)\<rparr>)
            (s\<lparr>sc_indexes := map (\<lambda>(k, i). (k, if ix_table i = t then i\<lparr>ix_parts := map (renamed_part c n) (ix_parts i)\<rparr> else i))
              (sc_indexes s)\<rparr>)))))"
| "apply_op (SetNullable t c b) s =
     rbind (table_of s t) (\<lambda>x. rbind (need_column x c) (\<lambda>_. Inr (set_table t (on_column c (nullable_column b) x) s)))"
| "apply_op (CreateIndex i t parts u w) s =
     rbind (table_of s t) (\<lambda>x.
       if i \<in> fst ` set (sc_indexes s) then Inl (db_error ''DuplicateTable'')
       else if \<not> list_all (has_column x \<circ> part_column) parts then Inl (db_error ''UndefinedColumn'')
       else Inr (s\<lparr>sc_indexes := (i, \<lparr>ix_table = t, ix_parts = parts, ix_unique = u, ix_where = w\<rparr>) # sc_indexes s\<rparr>))"
| "apply_op (DropIndex i t) s =
     (if i \<in> fst ` set (sc_indexes s) then Inr (s\<lparr>sc_indexes := filter (\<lambda>p. fst p \<noteq> i) (sc_indexes s)\<rparr>)
      else Inl (db_error ''UndefinedObject''))"
| "apply_op (CreatePrimaryKey n t cs) s =
     rbind (table_of s t) (\<lambda>x.
       if tb_key x \<noteq> None then Inl (db_error ''InvalidTableDefinition'')
       else if \<not> list_all (has_column x) cs then Inl (db_error ''UndefinedColumn'')
       else Inr (set_table t (x\<lparr>tb_key := Some (n, cs)\<rparr>) s))"
| "apply_op (DropPrimaryKey n t) s =
     rbind (table_of s t) (\<lambda>x. case tb_key x of
       Some (k, _) \<Rightarrow> if k = n then Inr (set_table t (x\<lparr>tb_key := None\<rparr>) s) else Inl (db_error ''UndefinedObject'')
     | None \<Rightarrow> Inl (db_error ''UndefinedObject''))"

fun apply_ops :: "db_op list \<Rightarrow> schema \<Rightarrow> schema res" where
  "apply_ops [] s = Inr s"
| "apply_ops (p # ps) s = rbind (apply_op p s) (apply_ops ps)"

record migration =
  mg_revision :: string
  mg_down_revision :: "string option"
  mg_upgrade :: "db_op list"
  mg_downgrade :: "db_op list"

text \<open>All scripts one after the other, as \<open>alembic upgrade head\<close> runs them.\<close>

definition upgrade_all :: "migration list \<Rightarrow> schema \<Rightarrow> schema res" where
  "upgrade_all ms s = rfold (\<lambda>s m. apply_ops (mg_upgrade m) s) s ms"

section \<open>\<open>20240704_base_version\<close>\<close>

definition base_version_upgrade_1 :: "db_op list" where
  "base_version_upgrade_1 =
     [CreateTable ''address_coin_balances'' [Column ''address'' BYTEA False, SizedColumn ''balance'' NUMERIC 100 0 True,
        Column ''block_number'' BIGINT False, Column ''block_timestamp'' TIMESTAMP True, Column ''create_time'' TIMESTAMP True,
        Column ''update_time'' TIMESTAMP True, Column ''reorg'' BOOLEAN True] [''address'', ''block_number''],
      CreateTable ''address_token_balances'' [Column ''address'' BYTEA False, SizedColumn ''token_id'' NUMERIC 78 0 True,
        Column ''token_type'' VARCHAR True, Column ''token_address'' BYTEA False, SizedColumn ''balance'' NUMERIC 100 0 True,
        Column ''block_number'' BIGINT False, Column ''block_timestamp'' TIMESTAMP True, Column ''create_time'' TIMESTAMP True,
        Column ''update_time'' TIMESTAMP True, Column ''reorg'' BOOLEAN True] [''address'', ''token_address'', ''block_number''],
      CreateTable ''block_ts_mapper'' [Column ''ts'' BIGINT False, Column ''block_number'' BIGINT True,
        Column ''timestamp'' TIMESTAMP True] [''ts''],
      CreateIndex ''block_ts_mapper_idx'' ''block_ts_mapper'' [Desc ''block_number''] False None,
      CreateTable ''blocks'' [Column ''hash'' BYTEA False, Column ''number'' BIGINT True, Column ''timestamp'' TIMESTAMP True,
        Column ''parent_hash'' BYTEA True, Column ''nonce'' BYTEA True, SizedColumn ''gas_limit'' NUMERIC 100 0 True,
        SizedColumn ''gas_used'' NUMERIC 100 0 True, SizedColumn ''base_fee_per_gas'' NUMERIC 100 0 True,
        SizedColumn ''difficulty'' NUMERIC 38 0 True, SizedColumn ''total_difficulty'' NUMERIC 38 0 True,
        Column ''size'' BIGINT True, Column ''miner'' BYTEA True, Column ''sha3_uncles'' BYTEA True,
        Column ''transactions_root'' BYTEA True, Column ''transactions_count'' BIGINT True, Column ''state_root'' BYTEA True,
        Column ''receipts_root'' BYTEA True, Column ''extra_data'' BYTEA True, Column ''withdrawals_root'' BYTEA True,
        Column ''create_time'' TIMESTAMP True, Column ''update_time'' TIMESTAMP True, Column ''reorg'' BOOLEAN True] [''hash''],
      CreateIndex ''blocks_number_index'' ''blocks'' [Desc ''number''] False None,
      CreateIndex ''blocks_timestamp_index'' ''blocks'' [Desc ''timestamp''] False None,
      CreateTable ''contract_internal_transactions'' [Column ''trace_id'' VARCHAR False, Column ''from_address'' BYTEA True,
        Column ''to_address'' BYTEA True, SizedColumn ''value'' NUMERIC 100 0 True, Column ''trace_type'' VARCHAR True,
        Column ''call_type'' VARCHAR True, SizedColumn ''gas'' NUMERIC 100 0 True, SizedColumn ''gas_used'' NUMERIC 100 0 True,
        Column ''trace_address'' (ARRAY INTEGER) True, Column ''error'' TEXT True, Column ''status'' INTEGER True,
        Column ''block_number'' BIGINT True, Column ''block_hash'' BYTEA True, Column ''block_timestamp'' TIMESTAMP True,
        Column ''transaction_index'' INTEGER True, Column ''transaction_hash'' BYTEA True,
        Column ''create_time'' TIMESTAMP True, Column ''update_time'' TIMESTAMP True,
        Column ''reorg'' BOOLEAN True] [''trace_id''],
      CreateIndex ''contract_internal_transactions_transaction_hash_idx'' ''contract_internal_transactions'' [Key ''transaction_hash''] False None,
      CreateIndex ''internal_transactions_address_number_transaction_index'' ''contract_internal_transactions'' [Key ''from_address'', Key ''to_address'', Desc ''block_number'', Desc ''transaction_index''] False None,
      CreateIndex ''internal_transactions_block_timestamp_index'' ''contract_internal_transactions'' [Desc ''block_timestamp''] False None,
      CreateTable ''contracts'' [Column ''address'' BYTEA False, Column ''name'' VARCHAR True,
        Column ''contract_creator'' BYTEA True, Column ''creation_code'' BYTEA True, Column ''deployed_code'' BYTEA True,
        Column ''block_number'' BIGINT True, Column ''block_hash'' BYTEA True, Column ''block_timestamp'' TIMESTAMP True,
        Column ''transaction_index'' INTEGER True, Column ''transaction_hash'' BYTEA True,
        Column ''official_website'' VARCHAR True, Column ''description'' VARCHAR True, Column ''email'' VARCHAR True,
        Column ''social_list'' JSONB True, Column ''is_verified'' BOOLEAN True, Column ''is_proxy'' BOOLEAN True,
        Column ''implementation_contract'' BYTEA True, Column ''verified_implementation_contract'' BYTEA True,
        Column ''proxy_standard'' VARCHAR True, Column ''create_time'' TIMESTAMP True, Column ''update_time'' TIMESTAMP True,
        Column ''reorg'' BOOLEAN True] [''address'']]"

definition base_version_upgrade_2 :: "db_op list" where
  "base_version_upgrade_2 =
     [CreateTable ''erc1155_token_holders'' [Column ''token_address'' BYTEA False, Column ''wallet_address'' BYTEA False,
        SizedColumn ''token_id'' NUMERIC 78 0 False, SizedColumn ''balance_of'' NUMERIC 100 0 True,
        Column ''latest_call_contract_time'' TIMESTAMP True, Column ''block_number'' BIGINT True,
        Column ''block_timestamp'' TIMESTAMP True, Column ''create_time'' TIMESTAMP True,
        Column ''update_time'' TIMESTAMP True,
        Column ''reorg'' BOOLEAN True] [''token_address'', ''wallet_address'', ''token_id''],
      CreateIndex ''erc1155_token_holders_token_address_balance_of_index'' ''erc1155_token_holders'' [Key ''token_address'', Desc ''balance_of''] False None,
      CreateTable ''erc1155_token_id_details'' [Column ''address'' BYTEA False, SizedColumn ''token_id'' NUMERIC 78 0 False,
        SizedColumn ''token_supply'' NUMERIC 78 0 True, Column ''token_uri'' VARCHAR True,
        Column ''token_uri_info'' JSONB True, Column ''block_number'' BIGINT True, Column ''block_timestamp'' TIMESTAMP True,
        Column ''create_time'' TIMESTAMP True, Column ''update_time'' TIMESTAMP True,
        Column ''reorg'' BOOLEAN True] [''address'', ''token_id''],
      CreateIndex ''erc1155_detail_desc_address_id_index'' ''erc1155_token_id_details'' [Desc ''address'', Key ''token_id''] False None,
      CreateTable ''erc1155_token_transfers'' [Column ''transaction_hash'' BYTEA False, Column ''log_index'' INTEGER False,
        Column ''from_address'' BYTEA True, Column ''to_address'' BYTEA True, Column ''token_address'' BYTEA True,
        SizedColumn ''token_id'' NUMERIC 78 0 True, SizedColumn ''value'' NUMERIC 100 0 True,
        Column ''block_number'' BIGINT True, Column ''block_hash'' BYTEA True, Column ''block_timestamp'' TIMESTAMP True,
        Column ''create_time'' TIMESTAMP True, Column ''update_time'' TIMESTAMP True,
        Column ''reorg'' BOOLEAN True] [''transaction_hash'', ''log_index''],
      CreateIndex ''erc1155_token_transfers_address_block_number_log_index_index'' ''erc1155_token_transfers'' [Key ''token_address'', Key ''from_address'', Key ''to_address'', Desc ''block_number'', Desc ''log_index''] False None,
      CreateIndex ''erc1155_token_transfers_block_timestamp_index'' ''erc1155_token_transfers'' [Desc ''block_timestamp''] False None,
      CreateTable ''erc20_token_holders'' [Column ''token_address'' BYTEA False, Column ''wallet_address'' BYTEA False,
        SizedColumn ''balance_of'' NUMERIC 100 0 True, Column ''block_number'' BIGINT True,
        Column ''block_timestamp'' TIMESTAMP True, Column ''create_time'' TIMESTAMP True,
        Column ''update_time'' TIMESTAMP True, Column ''reorg'' BOOLEAN True] [''token_address'', ''wallet_address''],
      CreateIndex ''erc20_token_holders_token_address_balance_of_index'' ''erc20_token_holders'' [Key ''token_address'', Desc ''balance_of''] False None,
      CreateTable ''erc20_token_transfers'' [Column ''transaction_hash'' BYTEA False, Column ''log_index'' INTEGER False,
        Column ''from_address'' BYTEA True, Column ''to_address'' BYTEA True, Column ''token_address'' BYTEA True,
        SizedColumn ''value'' NUMERIC 100 0 True, Column ''block_number'' BIGINT True, Column ''block_hash'' BYTEA True,
        Column ''block_timestamp'' TIMESTAMP True, Column ''create_time'' TIMESTAMP True,
        Column ''update_time'' TIMESTAMP True, Column ''reorg'' BOOLEAN True] [''transaction_hash'', ''log_index''],
      CreateIndex ''erc20_token_transfers_address_block_number_log_index_index'' ''erc20_token_transfers'' [Key ''token_address'', Key ''from_address'', Key ''to_address'', Desc ''block_number'', Desc ''log_index''] False None,
      CreateIndex ''erc20_token_transfers_block_timestamp_index'' ''erc20_token_transfers'' [Desc ''block_timestamp''] False None,
      CreateTable ''erc721_token_holders'' [Column ''token_address'' BYTEA False, Column ''wallet_address'' BYTEA False,
        SizedColumn ''balance_of'' NUMERIC 100 0 True, Column ''block_number'' BIGINT True,
        Column ''block_timestamp'' TIMESTAMP True, Column ''create_time'' TIMESTAMP True,
        Column ''update_time'' TIMESTAMP True, Column ''reorg'' BOOLEAN True] [''token_address'', ''wallet_address'']]"

definition base_version_upgrade_3 :: "db_op list" where
  "base_version_upgrade_3 =
     [CreateIndex ''erc721_token_holders_token_address_balance_of_index'' ''erc721_token_holders'' [Key ''token_address'', Desc ''balance_of''] False None,
      CreateTable ''erc721_token_id_changes'' [Column ''address'' BYTEA False, SizedColumn ''token_id'' NUMERIC 78 0 False,
        Column ''token_owner'' BYTEA True, Column ''block_number'' BIGINT False, Column ''block_timestamp'' TIMESTAMP True,
        Column ''create_time'' TIMESTAMP True, Column ''update_time'' TIMESTAMP True,
        Column ''reorg'' BOOLEAN True] [''address'', ''token_id'', ''block_number''],
      CreateIndex ''erc721_change_address_id_number_desc_index'' ''erc721_token_id_changes'' [Key ''address'', Key ''token_id'', Desc ''block_number''] False None,
      CreateTable ''erc721_token_id_details'' [Column ''address'' BYTEA False, SizedColumn ''token_id'' NUMERIC 78 0 False,
        Column ''token_owner'' BYTEA True, Column ''token_uri'' VARCHAR True, Column ''token_uri_info'' JSONB True,
        Column ''block_number'' BIGINT True, Column ''block_timestamp'' TIMESTAMP True, Column ''create_time'' TIMESTAMP True,
        Column ''update_time'' TIMESTAMP True, Column ''reorg'' BOOLEAN True] [''address'', ''token_id''],
      CreateIndex ''erc721_detail_owner_address_id_index'' ''erc721_token_id_details'' [Desc ''token_owner'', Key ''address'', Key ''token_id''] False None,
      CreateTable ''erc721_token_transfers'' [Column ''transaction_hash'' BYTEA False, Column ''log_index'' INTEGER False,
        Column ''from_address'' BYTEA True, Column ''to_address'' BYTEA True, Column ''token_address'' BYTEA True,
        SizedColumn ''token_id'' NUMERIC 78 0 True, Column ''token_uri'' JSONB True, Column ''block_number'' BIGINT True,
        Column ''block_hash'' BYTEA True, Column ''block_timestamp'' TIMESTAMP True, Column ''create_time'' TIMESTAMP True,
        Column ''update_time'' TIMESTAMP True, Column ''reorg'' BOOLEAN True] [''transaction_hash'', ''log_index''],
      CreateIndex ''erc721_token_transfers_address_block_number_log_index_index'' ''erc721_token_transfers'' [Key ''token_address'', Key ''from_address'', Key ''to_address'', Desc ''block_number'', Desc ''log_index''] False None,
      CreateIndex ''erc721_token_transfers_block_timestamp_index'' ''erc721_token_transfers'' [Desc ''block_timestamp''] False None,
      CreateTable ''fix_record'' [Column ''job_id'' INTEGER False, Column ''start_block_number'' BIGINT True,
        Column ''last_fixed_block_number'' BIGINT True, Column ''remain_process'' INTEGER True,
        Column ''job_status'' VARCHAR True, Column ''create_time'' TIMESTAMP True,
        Column ''update_time'' TIMESTAMP True] [''job_id''],
      CreateTable ''logs'' [Column ''log_index'' INTEGER False, Column ''address'' BYTEA True, Column ''data'' BYTEA True,
        Column ''topic0'' BYTEA True, Column ''topic1'' BYTEA True, Column ''topic2'' BYTEA True, Column ''topic3'' BYTEA True,
        Column ''transaction_hash'' BYTEA False, Column ''transaction_index'' INTEGER True,
        Column ''block_number'' BIGINT True, Column ''block_hash'' BYTEA True, Column ''block_timestamp'' TIMESTAMP True,
        Column ''create_time'' TIMESTAMP True, Column ''update_time'' TIMESTAMP True,
        Column ''reorg'' BOOLEAN True] [''log_index'', ''transaction_hash''],
      CreateIndex ''logs_address_block_number_log_index_index'' ''logs'' [Key ''address'', Desc ''block_number'', Desc ''log_index''] False None,
      CreateIndex ''logs_block_timestamp_index'' ''logs'' [Desc ''block_timestamp''] False None,
      CreateTable ''sync_record'' [Column ''mission_type'' VARCHAR False, Column ''entity_types'' INTEGER False,
        Column ''last_block_number'' BIGINT True, Column ''update_time'' TIMESTAMP True] [''mission_type'', ''entity_types'']]"

definition base_version_upgrade_4 :: "db_op list" where
  "base_version_upgrade_4 =
     [CreateTable ''tokens'' [Column ''address'' BYTEA False, Column ''name'' VARCHAR True, Column ''symbol'' VARCHAR True,
        SizedColumn ''total_supply'' NUMERIC 100 0 True, SizedColumn ''decimals'' NUMERIC 100 0 True,
        Column ''token_type'' VARCHAR True, Column ''holder_count'' INTEGER True, Column ''transfer_count'' INTEGER True,
        Column ''icon_url'' VARCHAR True, Column ''urls'' JSONB True, SizedColumn ''volume_24h'' NUMERIC 38 2 True,
        SizedColumn ''price'' NUMERIC 38 6 True, SizedColumn ''previous_price'' NUMERIC 38 6 True,
        SizedColumn ''market_cap'' NUMERIC 38 2 True, SizedColumn ''on_chain_market_cap'' NUMERIC 38 2 True,
        Column ''is_verified'' BOOLEAN True, Column ''cmc_id'' INTEGER True, Column ''cmc_slug'' VARCHAR True,
        Column ''gecko_id'' VARCHAR True, Column ''description'' VARCHAR True, Column ''create_time'' TIMESTAMP True,
        Column ''update_time'' TIMESTAMP True] [''address''],
      CreateIndex ''tokens_symbol_index'' ''tokens'' [Key ''symbol''] False None,
      CreateIndex ''tokens_type_index'' ''tokens'' [Key ''token_type''] False None,
      CreateTable ''traces'' [Column ''trace_id'' VARCHAR False, Column ''from_address'' BYTEA True,
        Column ''to_address'' BYTEA True, SizedColumn ''value'' NUMERIC 100 0 True, Column ''input'' BYTEA True,
        Column ''output'' BYTEA True, Column ''trace_type'' VARCHAR True, Column ''call_type'' VARCHAR True,
        SizedColumn ''gas'' NUMERIC 100 0 True, SizedColumn ''gas_used'' NUMERIC 100 0 True, Column ''subtraces'' INTEGER True,
        Column ''trace_address'' (ARRAY INTEGER) True, Column ''error'' TEXT True, Column ''status'' INTEGER True,
        Column ''block_number'' BIGINT True, Column ''block_hash'' BYTEA True, Column ''block_timestamp'' TIMESTAMP True,
        Column ''transaction_index'' INTEGER True, Column ''transaction_hash'' BYTEA True,
        Column ''create_time'' TIMESTAMP True, Column ''update_time'' TIMESTAMP True,
        Column ''reorg'' BOOLEAN True] [''trace_id''],
      CreateIndex ''traces_address_block_timestamp_index'' ''traces'' [Key ''from_address'', Key ''to_address'', Desc ''block_timestamp''] False None,
      CreateIndex ''traces_transaction_hash_index'' ''traces'' [Key ''transaction_hash''] False None,
      CreateTable ''transactions'' [Column ''hash'' BYTEA False, Column ''transaction_index'' INTEGER True,
        Column ''from_address'' BYTEA True, Column ''to_address'' BYTEA True, SizedColumn ''value'' NUMERIC 100 0 True,
        Column ''transaction_type'' INTEGER True, Column ''input'' BYTEA True, Column ''nonce'' INTEGER True,
        Column ''block_hash'' BYTEA True, Column ''block_number'' BIGINT True, Column ''block_timestamp'' TIMESTAMP True,
        SizedColumn ''gas'' NUMERIC 100 0 True, SizedColumn ''gas_price'' NUMERIC 100 0 True,
        SizedColumn ''max_fee_per_gas'' NUMERIC 100 0 True, SizedColumn ''max_priority_fee_per_gas'' NUMERIC 100 0 True,
        Column ''receipt_root'' BYTEA True, Column ''receipt_status'' INTEGER True,
        SizedColumn ''receipt_gas_used'' NUMERIC 100 0 True, SizedColumn ''receipt_cumulative_gas_used'' NUMERIC 100 0 True,
        SizedColumn ''receipt_effective_gas_price'' NUMERIC 100 0 True, SizedColumn ''receipt_l1_fee'' NUMERIC 100 0 True,
        SizedColumn ''receipt_l1_fee_scalar'' NUMERIC 100 18 True, SizedColumn ''receipt_l1_gas_used'' NUMERIC 100 0 True,
        SizedColumn ''receipt_l1_gas_price'' NUMERIC 100 0 True, SizedColumn ''receipt_blob_gas_used'' NUMERIC 100 0 True,
        SizedColumn ''receipt_blob_gas_price'' NUMERIC 100 0 True, Column ''blob_versioned_hashes'' (ARRAY BYTEA) True,
        Column ''receipt_contract_address'' BYTEA True, Column ''exist_error'' BOOLEAN True, Column ''error'' TEXT True,
        Column ''revert_reason'' TEXT True, Column ''create_time'' TIMESTAMP True, Column ''update_time'' TIMESTAMP True,
        Column ''reorg'' BOOLEAN True] [''hash''],
      CreateIndex ''transactions_address_block_number_transaction_idx'' ''transactions'' [Key ''from_address'', Key ''to_address'', Desc ''block_number'', Desc ''transaction_index''] False None,
      CreateIndex ''transactions_block_timestamp_block_number_index'' ''transactions'' [Desc ''block_timestamp'', Desc ''block_number''] False None]"

definition base_version_downgrade :: "db_op list" where
  "base_version_downgrade =
     [DropIndex ''transactions_block_timestamp_block_number_index'' ''transactions'',
      DropIndex ''transactions_address_block_number_transaction_idx'' ''transactions'',
      DropTable ''transactions'',
      DropIndex ''traces_transaction_hash_index'' ''traces'',
      DropIndex ''traces_address_block_timestamp_index'' ''traces'',
      DropTable ''traces'',
      DropIndex ''tokens_type_index'' ''tokens'',
      DropIndex ''tokens_symbol_index'' ''tokens'',
      DropTable ''tokens'',
      DropTable ''sync_record'',
      DropIndex ''logs_block_timestamp_index'' ''logs'',
      DropIndex ''logs_address_block_number_log_index_index'' ''logs'',
      DropTable ''logs'',
      DropTable ''fix_record'',
      DropIndex ''erc721_token_transfers_block_timestamp_index'' ''erc721_token_transfers'',
      DropIndex ''erc721_token_transfers_address_block_number_log_index_index'' ''erc721_token_transfers'',
      DropTable ''erc721_token_transfers'',
      DropIndex ''erc721_detail_owner_address_id_index'' ''erc721_token_id_details'',
      DropTable ''erc721_token_id_details'',
      DropIndex ''erc721_change_address_id_number_desc_index'' ''erc721_token_id_changes'',
      DropTable ''erc721_token_id_changes'',
      DropIndex ''erc721_token_holders_token_address_balance_of_index'' ''erc721_token_holders'',
      DropTable ''erc721_token_holders'',
      DropIndex ''erc20_token_transfers_block_timestamp_index'' ''erc20_token_transfers'',
      DropIndex ''erc20_token_transfers_address_block_number_log_index_index'' ''erc20_token_transfers'',
      DropTable ''erc20_token_transfers'',
      DropIndex ''erc20_token_holders_token_address_balance_of_index'' ''erc20_token_holders'',
      DropTable ''erc20_token_holders'',
      DropIndex ''erc1155_token_transfers_block_timestamp_index'' ''erc1155_token_transfers'',
      DropIndex ''erc1155_token_transfers_address_block_number_log_index_index'' ''erc1155_token_transfers'',
      DropTable ''erc1155_token_transfers'',
      DropIndex ''erc1155_detail_desc_address_id_index'' ''erc1155_token_id_details'',
      DropTable ''erc1155_token_id_details'',
      DropIndex ''erc1155_token_holders_token_address_balance_of_index'' ''erc1155_token_holders'',
      DropTable ''erc1155_token_holders'',
      DropTable ''contracts'',
      DropIndex ''internal_transactions_block_timestamp_index'' ''contract_internal_transactions'',
      DropIndex ''internal_transactions_address_number_transaction_index'' ''contract_internal_transactions'',
      DropIndex ''contract_internal_transactions_transaction_hash_idx'' ''contract_internal_transactions'',
      DropTable ''contract_internal_transactions'',
      DropIndex ''blocks_timestamp_index'' ''blocks'',
      DropIndex ''blocks_number_index'' ''blocks'',
      DropTable ''blocks'',
      DropIndex ''block_ts_mapper_idx'' ''block_ts_mapper'',
      DropTable ''block_ts_mapper'',
      DropTable ''address_token_balances'',
      DropTable ''address_coin_balances'']"

definition base_version :: migration where
  "base_version = \<lparr>mg_revision = ''5e4608933f64'', mg_down_revision = None,
     mg_upgrade = base_version_upgrade_1 @ base_version_upgrade_2 @ base_version_upgrade_3 @ base_version_upgrade_4, mg_downgrade = base_version_downgrade\<rparr>"

section \<open>\<open>20240708_tokens_table_add_column_block_number\<close>\<close>

definition tokens_block_number_upgrade :: "db_op list" where
  "tokens_block_number_upgrade =
     [AddColumn ''tokens'' (Column ''block_number'' BIGINT True)]"

definition tokens_block_number_downgrade :: "db_op list" where
  "tokens_block_number_downgrade =
     [DropColumn ''tokens'' ''block_number'']"

definition tokens_block_number :: migration where
  "tokens_block_number = \<lparr>mg_revision = ''8a915490914a'', mg_down_revision = (Some ''5e4608933f64''),
     mg_upgrade = tokens_block_number_upgrade, mg_downgrade = tokens_block_number_downgrade\<rparr>"

section \<open>\<open>20240716_add_api_server_table\<close>\<close>

definition api_server_table_upgrade :: "db_op list" where
  "api_server_table_upgrade =
     [CreateTable ''daily_addresses_aggregates'' [Column ''block_date'' DATE False, Column ''active_address_cnt'' BIGINT True,
        Column ''receiver_address_cnt'' BIGINT True, Column ''sender_address_cnt'' BIGINT True,
        Column ''total_address_cnt'' BIGINT True, Column ''new_address_cnt'' BIGINT True] [''block_date''],
      CreateTable ''daily_blocks_aggregates'' [Column ''block_date'' DATE False, Column ''cnt'' BIGINT True,
        Column ''avg_size'' NUMERIC True, Column ''avg_gas_limit'' NUMERIC True, Column ''avg_gas_used'' NUMERIC True,
        Column ''total_gas_used'' BIGINT True, Column ''avg_gas_used_percentage'' NUMERIC True,
        Column ''avg_txn_cnt'' NUMERIC True, Column ''total_cnt'' BIGINT True,
        Column ''block_interval'' NUMERIC True] [''block_date''],
      CreateTable ''daily_tokens_aggregates'' [Column ''block_date'' DATE False, Column ''erc20_active_address_cnt'' INTEGER True,
        Column ''erc20_total_transfer_cnt'' BIGINT True, Column ''erc721_active_address_cnt'' INTEGER True,
        Column ''erc721_total_transfer_cnt'' BIGINT True, Column ''erc1155_active_address_cnt'' INTEGER True,
        Column ''erc1155_total_transfer_cnt'' BIGINT True] [''block_date''],
      CreateTable ''daily_transactions_aggregates'' [Column ''block_date'' DATE False, Column ''cnt'' BIGINT True,
        Column ''total_cnt'' BIGINT True, Column ''txn_error_cnt'' BIGINT True, Column ''avg_transaction_fee'' NUMERIC True,
        Column ''avg_gas_price'' NUMERIC True, Column ''max_gas_price'' NUMERIC True, Column ''min_gas_price'' NUMERIC True,
        Column ''avg_receipt_l1_fee'' NUMERIC True, Column ''max_receipt_l1_fee'' NUMERIC True,
        Column ''min_receipt_l1_fee'' NUMERIC True, Column ''avg_receipt_l1_gas_used'' NUMERIC True,
        Column ''max_receipt_l1_gas_used'' NUMERIC True, Column ''min_receipt_l1_gas_used'' NUMERIC True,
        Column ''avg_receipt_l1_gas_price'' NUMERIC True, Column ''max_receipt_l1_gas_price'' NUMERIC True,
        Column ''min_receipt_l1_gas_price'' NUMERIC True, Column ''avg_receipt_l1_fee_scalar'' NUMERIC True,
        Column ''max_receipt_l1_fee_scalar'' NUMERIC True, Column ''min_receipt_l1_fee_scalar'' NUMERIC True] [''block_date''],
      CreateTable ''scheduled_token_count_metadata'' [Column ''id'' INTEGER False, Column ''dag_id'' VARCHAR True,
        Column ''execution_date'' DATETIME True, Column ''last_data_timestamp'' DATETIME True] [''id''],
      CreateTable ''scheduled_wallet_count_metadata'' [Column ''id'' INTEGER False, Column ''dag_id'' VARCHAR True,
        Column ''execution_date'' DATETIME True, Column ''last_data_timestamp'' DATETIME True] [''id''],
      CreateTable ''statistics_wallet_addresses'' [Column ''address'' BYTEA False, Column ''txn_in_cnt'' INTEGER True,
        Column ''txn_out_cnt'' INTEGER True, SizedColumn ''txn_in_value'' NUMERIC 78 0 True,
        SizedColumn ''txn_out_value'' NUMERIC 78 0 True, Column ''internal_txn_in_cnt'' INTEGER True,
        Column ''internal_txn_out_cnt'' INTEGER True, SizedColumn ''internal_txn_in_value'' NUMERIC 78 0 True,
        SizedColumn ''internal_txn_out_value'' NUMERIC 78 0 True, Column ''erc20_transfer_in_cnt'' INTEGER True,
        Column ''erc721_transfer_in_cnt'' INTEGER True, Column ''erc1155_transfer_in_cnt'' INTEGER True,
        Column ''erc20_transfer_out_cnt'' INTEGER True, Column ''erc721_transfer_out_cnt'' INTEGER True,
        Column ''erc1155_transfer_out_cnt'' INTEGER True, Column ''txn_cnt'' INTEGER True,
        Column ''internal_txn_cnt'' INTEGER True, Column ''erc20_transfer_cnt'' INTEGER True,
        Column ''erc721_transfer_cnt'' INTEGER True, Column ''erc1155_transfer_cnt'' INTEGER True,
        Column ''deposit_cnt'' INTEGER True, Column ''withdraw_cnt'' INTEGER True, Column ''tag'' VARCHAR True] [''address''],
      CreateTable ''wallet_addresses'' [Column ''address'' BYTEA False, Column ''ens_name'' VARCHAR True] [''address'']]"

definition api_server_table_downgrade :: "db_op list" where
  "api_server_table_downgrade =
     [DropTable ''scheduled_wallet_count_metadata'',
      DropTable ''scheduled_token_count_metadata'',
      DropTable ''daily_transactions_aggregates'',
      DropTable ''daily_tokens_aggregates'',
      DropTable ''daily_blocks_aggregates'',
      DropTable ''daily_addresses_aggregates'',
      DropTable ''wallet_addresses'',
      DropTable ''statistics_wallet_addresses'']"

definition api_server_table :: migration where
  "api_server_table = \<lparr>mg_revision = ''b15f744e8582'', mg_down_revision = (Some ''8a915490914a''),
     mg_upgrade = api_server_table_upgrade, mg_downgrade = api_server_table_downgrade\<rparr>"

section \<open>\<open>20240725_update_index_table_optimize\<close>\<close>

definition index_table_optimize_upgrade_1 :: "db_op list" where
  "index_table_optimize_upgrade_1 =
     [CreateTable ''address_current_token_balances'' [Column ''address'' BYTEA False, SizedColumn ''token_id'' NUMERIC 100 0 True,
        Column ''token_type'' VARCHAR True, Column ''token_address'' BYTEA False, SizedColumn ''balance'' NUMERIC 100 0 True,
        Column ''block_number'' BIGINT True, Column ''block_timestamp'' TIMESTAMP True, Column ''create_time'' TIMESTAMP True,
        Column ''update_time'' TIMESTAMP True, Column ''reorg'' BOOLEAN True] [''address'', ''token_address''],
      CreateIndex ''current_token_balances_token_address_balance_of_index'' ''address_current_token_balances'' [Key ''token_address'', Desc ''balance''] False None,
      CreateIndex ''current_token_balances_token_address_id_balance_of_index'' ''address_current_token_balances'' [Key ''token_address'', Key ''token_id'', Desc ''balance''] False None,
      DropIndex ''erc721_token_holders_token_address_balance_of_index'' ''erc721_token_holders'',
      DropTable ''erc721_token_holders'',
      DropIndex ''erc20_token_holders_token_address_balance_of_index'' ''erc20_token_holders'',
      DropTable ''erc20_token_holders'',
      DropTable ''wallet_addresses'',
      DropIndex ''erc1155_token_holders_token_address_balance_of_index'' ''erc1155_token_holders'',
      DropTable ''erc1155_token_holders'',
      CreateIndex ''coin_balance_address_number_desc_index'' ''address_coin_balances'' [Desc ''address'', Desc ''block_number''] False None,
      CreateIndex ''token_balance_address_id_number_index'' ''address_token_balances'' [Key ''address'', Key ''token_address'', Desc ''token_id'', Desc ''block_number''] False None,
      AddColumn ''blocks'' (SizedColumn ''blob_gas_used'' NUMERIC 100 0 True),
      AddColumn ''blocks'' (SizedColumn ''excess_blob_gas'' NUMERIC 100 0 True),
      AddColumn ''blocks'' (Column ''traces_count'' BIGINT True),
      AddColumn ''blocks'' (Column ''internal_transactions_count'' BIGINT True),
      CreateIndex ''blocks_hash_unique_when_not_reorg'' ''blocks'' [Key ''hash''] True (Some ''reorg = false''),
      CreateIndex ''blocks_number_unique_when_not_reorg'' ''blocks'' [Key ''number''] True (Some ''reorg = false''),
      DropIndex ''internal_transactions_address_number_transaction_index'' ''contract_internal_transactions'',
      DropIndex ''internal_transactions_block_timestamp_index'' ''contract_internal_transactions'',
      CreateIndex ''internal_transactions_block_number_index'' ''contract_internal_transactions'' [Desc ''block_number''] False None,
      CreateIndex ''internal_transactions_from_address_number_transaction_index'' ''contract_internal_transactions'' [Key ''from_address'', Desc ''block_number'', Desc ''transaction_index''] False None,
      CreateIndex ''internal_transactions_number_transaction_index'' ''contract_internal_transactions'' [Desc ''block_number'', Desc ''transaction_index''] False None,
      CreateIndex ''internal_transactions_to_address_number_transaction_index'' ''contract_internal_transactions'' [Key ''to_address'', Desc ''block_number'', Desc ''transaction_index''] False None,
      DropIndex ''erc1155_detail_desc_address_id_index'' ''erc1155_token_id_details'',
      DropPrimaryKey ''erc1155_token_id_details_pkey'' ''erc1155_token_id_details'',
      RenameColumn ''erc1155_token_id_details'' ''address'' ''token_address'',
      CreateIndex ''erc1155_detail_desc_address_id_index'' ''erc1155_token_id_details'' [Desc ''token_address'', Key ''token_id''] False None,
      CreatePrimaryKey ''erc1155_token_id_details_pkey'' ''erc1155_token_id_details'' [''token_address'', ''token_id''],
      SetNullable ''erc1155_token_transfers'' ''token_id'' False,
      SetNullable ''erc1155_token_transfers'' ''block_hash'' False]"

definition index_table_optimize_upgrade_2 :: "db_op list" where
  "index_table_optimize_upgrade_2 =
     [DropIndex ''erc1155_token_transfers_address_block_number_log_index_index'' ''erc1155_token_transfers'',
      DropIndex ''erc1155_token_transfers_block_timestamp_index'' ''erc1155_token_transfers'',
      CreateIndex ''erc1155_token_transfers_from_address_number_log_index_index'' ''erc1155_token_transfers'' [Key ''from_address'', Desc ''block_number'', Desc ''log_index''] False None,
      CreateIndex ''erc1155_token_transfers_number_log_index'' ''erc1155_token_transfers'' [Desc ''block_number'', Desc ''log_index''] False None,
      CreateIndex ''erc1155_token_transfers_to_address_number_log_index_index'' ''erc1155_token_transfers'' [Key ''to_address'', Desc ''block_number'', Desc ''log_index''] False None,
      CreateIndex ''erc1155_token_transfers_token_address_from_index'' ''erc1155_token_transfers'' [Key ''token_address'', Key ''from_address''] False None,
      CreateIndex ''erc1155_token_transfers_token_address_id_index'' ''erc1155_token_transfers'' [Key ''token_address'', Key ''token_id''] False None,
      CreateIndex ''erc1155_token_transfers_token_address_number_log_index_index'' ''erc1155_token_transfers'' [Key ''token_address'', Desc ''block_number'', Desc ''log_index''] False None,
      CreateIndex ''erc1155_token_transfers_token_address_to_index'' ''erc1155_token_transfers'' [Key ''token_address'', Key ''to_address''] False None,
      SetNullable ''erc20_token_transfers'' ''block_hash'' False,
      DropIndex ''erc20_token_transfers_address_block_number_log_index_index'' ''erc20_token_transfers'',
      DropIndex ''erc20_token_transfers_block_timestamp_index'' ''erc20_token_transfers'',
      CreateIndex ''erc20_token_transfers_from_address_number_log_index_index'' ''erc20_token_transfers'' [Key ''from_address'', Desc ''block_number'', Desc ''log_index''] False None,
      CreateIndex ''erc20_token_transfers_number_log_index'' ''erc20_token_transfers'' [Desc ''block_number'', Desc ''log_index''] False None,
      CreateIndex ''erc20_token_transfers_to_address_number_log_index_index'' ''erc20_token_transfers'' [Key ''to_address'', Desc ''block_number'', Desc ''log_index''] False None,
      CreateIndex ''erc20_token_transfers_token_address_from_index_index'' ''erc20_token_transfers'' [Key ''token_address'', Key ''from_address''] False None,
      CreateIndex ''erc20_token_transfers_token_address_number_log_index_index'' ''erc20_token_transfers'' [Key ''token_address'', Desc ''block_number'', Desc ''log_index''] False None,
      CreateIndex ''erc20_token_transfers_token_address_to_index_index'' ''erc20_token_transfers'' [Key ''token_address'', Key ''to_address''] False None,
      DropIndex ''erc721_change_address_id_number_desc_index'' ''erc721_token_id_changes'',
      DropPrimaryKey ''erc721_token_id_changes_pkey'' ''erc721_token_id_changes'',
      RenameColumn ''erc721_token_id_changes'' ''address'' ''token_address'',
      CreateIndex ''erc721_change_address_id_number_desc_index'' ''erc721_token_id_changes'' [Key ''token_address'', Key ''token_id'', Desc ''block_number''] False None,
      CreatePrimaryKey ''erc721_token_id_changes_pkey'' ''erc721_token_id_changes'' [''token_address'', ''token_id'', ''block_number''],
      DropIndex ''erc721_detail_owner_address_id_index'' ''erc721_token_id_details'',
      DropPrimaryKey ''erc721_token_id_details_pkey'' ''erc721_token_id_details'',
      RenameColumn ''erc721_token_id_details'' ''address'' ''token_address'',
      CreateIndex ''erc721_detail_owner_address_id_index'' ''erc721_token_id_details'' [Desc ''token_owner'', Key ''token_address'', Key ''token_id''] False None,
      CreatePrimaryKey ''erc721_token_id_details_pkey'' ''erc721_token_id_details'' [''token_address'', ''token_id''],
      SetNullable ''erc721_token_transfers'' ''block_hash'' False]"

definition index_table_optimize_upgrade_3 :: "db_op list" where
  "index_table_optimize_upgrade_3 =
     [DropIndex ''erc721_token_transfers_address_block_number_log_index_index'' ''erc721_token_transfers'',
      CreateIndex ''erc721_token_transfers_from_address_number_log_index_index'' ''erc721_token_transfers'' [Key ''from_address'', Desc ''block_number'', Desc ''log_index''] False None,
      CreateIndex ''erc721_token_transfers_number_log_index'' ''erc721_token_transfers'' [Desc ''block_number'', Desc ''log_index''] False None,
      CreateIndex ''erc721_token_transfers_to_address_number_log_index_index'' ''erc721_token_transfers'' [Key ''to_address'', Desc ''block_number'', Desc ''log_index''] False None,
      CreateIndex ''erc721_token_transfers_token_address_from_index'' ''erc721_token_transfers'' [Key ''token_address'', Key ''from_address''] False None,
      CreateIndex ''erc721_token_transfers_token_address_id_index'' ''erc721_token_transfers'' [Key ''token_address'', Key ''token_id''] False None,
      CreateIndex ''erc721_token_transfers_token_address_number_log_index_index'' ''erc721_token_transfers'' [Key ''token_address'', Desc ''block_number'', Desc ''log_index''] False None,
      CreateIndex ''erc721_token_transfers_token_address_to_index'' ''erc721_token_transfers'' [Key ''token_address'', Key ''to_address''] False None,
      DropColumn ''erc721_token_transfers'' ''token_uri'',
      SetNullable ''logs'' ''block_hash'' False,
      CreateIndex ''logs_address_topic_0_number_log_index_index'' ''logs'' [Key ''address'', Key ''topic0'', Desc ''block_number'', Desc ''log_index''] False None,
      CreateIndex ''logs_block_number_log_index_index'' ''logs'' [Desc ''block_number'', Desc ''log_index''] False None,
      CreateIndex ''tokens_name_index'' ''tokens'' [Key ''name''] False None,
      CreateIndex ''tokens_type_holders_index'' ''tokens'' [Key ''token_type'', Desc ''holder_count''] False None,
      CreateIndex ''tokens_type_on_chain_market_cap_index'' ''tokens'' [Key ''token_type'', Desc ''on_chain_market_cap''] False None,
      DropIndex ''traces_address_block_timestamp_index'' ''traces'',
      CreateIndex ''traces_block_number_index'' ''traces'' [Desc ''block_number''] False None,
      CreateIndex ''traces_from_address_block_number_index'' ''traces'' [Key ''from_address'', Desc ''block_number''] False None,
      CreateIndex ''traces_to_address_block_number_index'' ''traces'' [Key ''to_address'', Desc ''block_number''] False None,
      AddColumn ''transactions'' (Column ''method_id'' VARCHAR True),
      DropIndex ''transactions_address_block_number_transaction_idx'' ''transactions'',
      DropIndex ''transactions_block_timestamp_block_number_index'' ''transactions'',
      CreateIndex ''transactions_block_number_transaction_index'' ''transactions'' [Desc ''block_number'', Desc ''transaction_index''] False None,
      CreateIndex ''transactions_block_timestamp_index'' ''transactions'' [Key ''block_timestamp''] False None,
      CreateIndex ''transactions_from_address_block_number_transaction_idx'' ''transactions'' [Asc ''from_address'', Desc ''block_number'', Desc ''transaction_index''] False None,
      CreateIndex ''transactions_to_address_block_number_transaction_idx'' ''transactions'' [Asc ''to_address'', Desc ''block_number'', Desc ''transaction_index''] False None]"

definition index_table_optimize_downgrade_1 :: "db_op list" where
  "index_table_optimize_downgrade_1 =
     [DropIndex ''transactions_to_address_block_number_transaction_idx'' ''transactions'',
      DropIndex ''transactions_from_address_block_number_transaction_idx'' ''transactions'',
      DropIndex ''transactions_block_timestamp_index'' ''transactions'',
      DropIndex ''transactions_block_number_transaction_index'' ''transactions'',
      CreateIndex ''transactions_block_timestamp_block_number_index'' ''transactions'' [Desc ''block_timestamp'', Desc ''block_number''] False None,
      CreateIndex ''transactions_address_block_number_transaction_idx'' ''transactions'' [Key ''from_address'', Key ''to_address'', Desc ''block_number'', Desc ''transaction_index''] False None,
      DropColumn ''transactions'' ''method_id'',
      DropIndex ''traces_to_address_block_number_index'' ''traces'',
      DropIndex ''traces_from_address_block_number_index'' ''traces'',
      DropIndex ''traces_block_number_index'' ''traces'',
      CreateIndex ''traces_address_block_timestamp_index'' ''traces'' [Key ''from_address'', Key ''to_address'', Desc ''block_timestamp''] False None,
      DropIndex ''tokens_type_on_chain_market_cap_index'' ''tokens'',
      DropIndex ''tokens_type_holders_index'' ''tokens'',
      DropIndex ''tokens_name_index'' ''tokens'',
      DropIndex ''logs_block_number_log_index_index'' ''logs'',
      DropIndex ''logs_address_topic_0_number_log_index_index'' ''logs'',
      SetNullable ''logs'' ''block_hash'' True,
      AddColumn ''erc721_token_transfers'' (Column ''token_uri'' JSONB True),
      DropIndex ''erc721_token_transfers_token_address_to_index'' ''erc721_token_transfers'',
      DropIndex ''erc721_token_transfers_token_address_number_log_index_index'' ''erc721_token_transfers'',
      DropIndex ''erc721_token_transfers_token_address_id_index'' ''erc721_token_transfers'',
      DropIndex ''erc721_token_transfers_token_address_from_index'' ''erc721_token_transfers'',
      DropIndex ''erc721_token_transfers_to_address_number_log_index_index'' ''erc721_token_transfers'',
      DropIndex ''erc721_token_transfers_number_log_index'' ''erc721_token_transfers'',
      DropIndex ''erc721_token_transfers_from_address_number_log_index_index'' ''erc721_token_transfers'',
      CreateIndex ''erc721_token_transfers_address_block_number_log_index_index'' ''erc721_token_transfers'' [Key ''token_address'', Key ''from_address'', Key ''to_address'', Desc ''block_number'', Desc ''log_index''] False None,
      SetNullable ''erc721_token_transfers'' ''block_hash'' True,
      DropIndex ''erc721_detail_owner_address_id_index'' ''erc721_token_id_details'',
      DropPrimaryKey ''erc721_token_id_details_pkey'' ''erc721_token_id_details'',
      RenameColumn ''erc721_token_id_details'' ''token_address'' ''address'',
      CreateIndex ''erc721_detail_owner_address_id_index'' ''erc721_token_id_details'' [Desc ''token_owner'', Key ''address'', Key ''token_id''] False None,
      CreatePrimaryKey ''erc721_token_id_details_pkey'' ''erc721_token_id_details'' [''address'', ''token_id''],
      DropIndex ''erc721_change_address_id_number_desc_index'' ''erc721_token_id_changes'',
      DropPrimaryKey ''erc721_token_id_changes_pkey'' ''erc721_token_id_changes'',
      RenameColumn ''erc721_token_id_changes'' ''token_address'' ''address'',
      CreateIndex ''erc721_change_address_id_number_desc_index'' ''erc721_token_id_changes'' [Key ''address'', Key ''token_id'', Desc ''block_number''] False None,
      CreatePrimaryKey ''erc721_token_id_changes_pkey'' ''erc721_token_id_changes'' [''address'', ''token_id'', ''block_number''],
      DropIndex ''erc20_token_transfers_token_address_to_index_index'' ''erc20_token_transfers'',
      DropIndex ''erc20_token_transfers_token_address_number_log_index_index'' ''erc20_token_transfers'',
      DropIndex ''erc20_token_transfers_token_address_from_index_index'' ''erc20_token_transfers'']"

definition index_table_optimize_downgrade_2 :: "db_op list" where
  "index_table_optimize_downgrade_2 =
     [DropIndex ''erc20_token_transfers_to_address_number_log_index_index'' ''erc20_token_transfers'',
      DropIndex ''erc20_token_transfers_number_log_index'' ''erc20_token_transfers'',
      DropIndex ''erc20_token_transfers_from_address_number_log_index_index'' ''erc20_token_transfers'',
      CreateIndex ''erc20_token_transfers_block_timestamp_index'' ''erc20_token_transfers'' [Desc ''block_timestamp''] False None,
      CreateIndex ''erc20_token_transfers_address_block_number_log_index_index'' ''erc20_token_transfers'' [Key ''token_address'', Key ''from_address'', Key ''to_address'', Desc ''block_number'', Desc ''log_index''] False None,
      SetNullable ''erc20_token_transfers'' ''block_hash'' True,
      DropIndex ''erc1155_token_transfers_token_address_to_index'' ''erc1155_token_transfers'',
      DropIndex ''erc1155_token_transfers_token_address_number_log_index_index'' ''erc1155_token_transfers'',
      DropIndex ''erc1155_token_transfers_token_address_id_index'' ''erc1155_token_transfers'',
      DropIndex ''erc1155_token_transfers_token_address_from_index'' ''erc1155_token_transfers'',
      DropIndex ''erc1155_token_transfers_to_address_number_log_index_index'' ''erc1155_token_transfers'',
      DropIndex ''erc1155_token_transfers_number_log_index'' ''erc1155_token_transfers'',
      DropIndex ''erc1155_token_transfers_from_address_number_log_index_index'' ''erc1155_token_transfers'',
      CreateIndex ''erc1155_token_transfers_block_timestamp_index'' ''erc1155_token_transfers'' [Desc ''block_timestamp''] False None,
      CreateIndex ''erc1155_token_transfers_address_block_number_log_index_index'' ''erc1155_token_transfers'' [Key ''token_address'', Key ''from_address'', Key ''to_address'', Desc ''block_number'', Desc ''log_index''] False None,
      SetNullable ''erc1155_token_transfers'' ''block_hash'' True,
      SetNullable ''erc1155_token_transfers'' ''token_id'' True,
      DropIndex ''erc1155_detail_desc_address_id_index'' ''erc1155_token_id_details'',
      DropPrimaryKey ''erc1155_token_id_details_pkey'' ''erc1155_token_id_details'',
      RenameColumn ''erc1155_token_id_details'' ''token_address'' ''address'',
      CreateIndex ''erc1155_detail_desc_address_id_index'' ''erc1155_token_id_details'' [Desc ''address'', Key ''token_id''] False None,
      CreatePrimaryKey ''erc1155_token_id_details_pkey'' ''erc1155_token_id_details'' [''address'', ''token_id''],
      DropIndex ''internal_transactions_to_address_number_transaction_index'' ''contract_internal_transactions'',
      DropIndex ''internal_transactions_number_transaction_index'' ''contract_internal_transactions'',
      DropIndex ''internal_transactions_from_address_number_transaction_index'' ''contract_internal_transactions'',
      DropIndex ''internal_transactions_block_number_index'' ''contract_internal_transactions'',
      CreateIndex ''internal_transactions_block_timestamp_index'' ''contract_internal_transactions'' [Desc ''block_timestamp''] False None,
      CreateIndex ''internal_transactions_address_number_transaction_index'' ''contract_internal_transactions'' [Key ''from_address'', Key ''to_address'', Desc ''block_number'', Desc ''transaction_index''] False None,
      DropIndex ''blocks_number_unique_when_not_reorg'' ''blocks'']"

definition index_table_optimize_downgrade_3 :: "db_op list" where
  "index_table_optimize_downgrade_3 =
     [DropIndex ''blocks_hash_unique_when_not_reorg'' ''blocks'',
      DropColumn ''blocks'' ''internal_transactions_count'',
      DropColumn ''blocks'' ''traces_count'',
      DropColumn ''blocks'' ''excess_blob_gas'',
      DropColumn ''blocks'' ''blob_gas_used'',
      DropIndex ''token_balance_address_id_number_index'' ''address_token_balances'',
      DropIndex ''coin_balance_address_number_desc_index'' ''address_coin_balances'',
      CreateTable ''erc1155_token_holders'' [Column ''token_address'' BYTEA False, Column ''wallet_address'' BYTEA False,
        SizedColumn ''token_id'' NUMERIC 78 0 False, SizedColumn ''balance_of'' NUMERIC 100 0 True,
        Column ''latest_call_contract_time'' TIMESTAMP True, Column ''block_number'' BIGINT True,
        Column ''block_timestamp'' TIMESTAMP True, Column ''create_time'' TIMESTAMP True,
        Column ''update_time'' TIMESTAMP True,
        Column ''reorg'' BOOLEAN True] [''token_address'', ''wallet_address'', ''token_id''],
      CreateIndex ''erc1155_token_holders_token_address_balance_of_index'' ''erc1155_token_holders'' [Key ''token_address'', Desc ''balance_of''] False None,
      CreateTable ''wallet_addresses'' [Column ''address'' BYTEA False, Column ''ens_name'' VARCHAR True] [''address''],
      CreateTable ''erc20_token_holders'' [Column ''token_address'' BYTEA False, Column ''wallet_address'' BYTEA False,
        SizedColumn ''balance_of'' NUMERIC 100 0 True, Column ''block_number'' BIGINT True,
        Column ''block_timestamp'' TIMESTAMP True, Column ''create_time'' TIMESTAMP True,
        Column ''update_time'' TIMESTAMP True, Column ''reorg'' BOOLEAN True] [''token_address'', ''wallet_address''],
      CreateIndex ''erc20_token_holders_token_address_balance_of_index'' ''erc20_token_holders'' [Key ''token_address'', Desc ''balance_of''] False None,
      CreateTable ''erc721_token_holders'' [Column ''token_address'' BYTEA False, Column ''wallet_address'' BYTEA False,
        SizedColumn ''balance_of'' NUMERIC 100 0 True, Column ''block_number'' BIGINT True,
        Column ''block_timestamp'' TIMESTAMP True, Column ''create_time'' TIMESTAMP True,
        Column ''update_time'' TIMESTAMP True, Column ''reorg'' BOOLEAN True] [''token_address'', ''wallet_address''],
      CreateIndex ''erc721_token_holders_token_address_balance_of_index'' ''erc721_token_holders'' [Key ''token_address'', Desc ''balance_of''] False None,
      DropIndex ''current_token_balances_token_address_id_balance_of_index'' ''address_current_token_balances'',
      DropIndex ''current_token_balances_token_address_balance_of_index'' ''address_current_token_balances'',
      DropTable ''address_current_token_balances'']"

definition index_table_optimize :: migration where
  "index_table_optimize = \<lparr>mg_revision = ''9f2cf385645f'', mg_down_revision = (Some ''b15f744e8582''),
     mg_upgrade = index_table_optimize_upgrade_1 @ index_table_optimize_upgrade_2 @ index_table_optimize_upgrade_3, mg_downgrade = index_table_optimize_downgrade_1 @ index_table_optimize_downgrade_2 @ index_table_optimize_downgrade_3\<rparr>"

section \<open>\<open>20240726_modify_sync_record_table\<close>\<close>

definition sync_record_table_upgrade :: "db_op list" where
  "sync_record_table_upgrade =
     [DropTable ''sync_record'',
      CreateTable ''sync_record'' [Column ''mission_sign'' VARCHAR False, Column ''last_block_number'' BIGINT True,
        Column ''update_time'' TIMESTAMP True] [''mission_sign'']]"

definition sync_record_table_downgrade :: "db_op list" where
  "sync_record_table_downgrade =
     [DropTable ''sync_record'',
      CreateTable ''sync_record'' [Column ''mission_type'' VARCHAR False, Column ''entity_types'' INTEGER False,
        Column ''last_block_number'' BIGINT True, Column ''update_time'' TIMESTAMP True] [''mission_type'', ''entity_types'']]"

definition sync_record_table :: migration where
  "sync_record_table = \<lparr>mg_revision = ''0b922153e040'', mg_down_revision = (Some ''9f2cf385645f''),
     mg_upgrade = sync_record_table_upgrade, mg_downgrade = sync_record_table_downgrade\<rparr>"

section \<open>\<open>20240731_add_feature_records_and_uniswap_v3_\<close>\<close>

definition feature_records_upgrade :: "db_op list" where
  "feature_records_upgrade =
     [CreateTable ''all_feature_value_records'' [SizedColumn ''feature_id'' NUMERIC 100 0 False,
        Column ''block_number'' BIGINT False, Column ''address'' BYTEA False, Column ''value'' JSONB True,
        Column ''create_time'' TIMESTAMP True,
        Column ''update_time'' TIMESTAMP True] [''block_number'', ''feature_id'', ''address''],
      CreateIndex ''all_feature_value_records_feature_block_index'' ''all_feature_value_records'' [Key ''feature_id'', Desc ''block_number''] False None,
      CreateTable ''feature_uniswap_v3_pools'' [Column ''nft_address'' BYTEA False, Column ''pool_address'' BYTEA False,
        Column ''token0_address'' BYTEA True, Column ''token1_address'' BYTEA True, SizedColumn ''fee'' NUMERIC 100 0 True,
        SizedColumn ''tick_spacing'' NUMERIC 100 0 True, Column ''mint_block_number'' BIGINT True,
        Column ''create_time'' TIMESTAMP True, Column ''update_time'' TIMESTAMP True] [''nft_address'', ''pool_address''],
      CreateTable ''feature_uniswap_v3_tokens'' [Column ''nft_address'' BYTEA False, SizedColumn ''token_id'' NUMERIC 100 0 False,
        Column ''pool_address'' BYTEA True, SizedColumn ''tick_lower'' NUMERIC 100 0 True,
        SizedColumn ''tick_upper'' NUMERIC 100 0 True, SizedColumn ''fee'' NUMERIC 100 0 True,
        Column ''mint_block_number'' BIGINT True, Column ''create_time'' TIMESTAMP True,
        Column ''update_time'' TIMESTAMP True] [''nft_address'', ''token_id''],
      CreateIndex ''feature_uniswap_v3_tokens_nft_index'' ''feature_uniswap_v3_tokens'' [Key ''nft_address''] False None]"

definition feature_records_downgrade :: "db_op list" where
  "feature_records_downgrade =
     [DropIndex ''feature_uniswap_v3_tokens_nft_index'' ''feature_uniswap_v3_tokens'',
      DropTable ''feature_uniswap_v3_tokens'',
      DropTable ''feature_uniswap_v3_pools'',
      DropIndex ''all_feature_value_records_feature_block_index'' ''all_feature_value_records'',
      DropTable ''all_feature_value_records'']"

definition feature_records :: migration where
  "feature_records = \<lparr>mg_revision = ''3d5ce8939570'', mg_down_revision = (Some ''0b922153e040''),
     mg_upgrade = feature_records_upgrade, mg_downgrade = feature_records_downgrade\<rparr>"

section \<open>\<open>20240731_add_user_ops_table\<close>\<close>

definition user_ops_table_upgrade :: "db_op list" where
  "user_ops_table_upgrade =
     [CreateTable ''user_operations_results'' [Column ''user_op_hash'' BYTEA False, SizedColumn ''sender'' VARCHAR 42 0 True,
        SizedColumn ''paymaster'' VARCHAR 42 0 True, Column ''nonce'' NUMERIC True, Column ''status'' BOOLEAN True,
        Column ''actual_gas_cost'' NUMERIC True, Column ''actual_gas_used'' INTEGER True, Column ''init_code'' BYTEA True,
        Column ''call_data'' BYTEA True, Column ''call_gas_limit'' INTEGER True,
        Column ''verification_gas_limit'' INTEGER True, Column ''pre_verification_gas'' INTEGER True,
        Column ''max_fee_per_gas'' INTEGER True, Column ''max_priority_fee_per_gas'' INTEGER True,
        Column ''paymaster_and_data'' BYTEA True, Column ''signature'' BYTEA True, Column ''transactions_hash'' BYTEA True,
        Column ''transactions_index'' INTEGER True, Column ''block_number'' INTEGER True,
        Column ''block_timestamp'' TIMESTAMP True, SizedColumn ''bundler'' VARCHAR 42 0 True,
        Column ''start_log_index'' INTEGER True, Column ''end_log_index'' INTEGER True] [''user_op_hash''],
      CreateIndex ''transactions_hash_index'' ''user_operations_results'' [Key ''transactions_hash''] False None]"

definition user_ops_table_downgrade :: "db_op list" where
  "user_ops_table_downgrade =
     [DropIndex ''transactions_hash_index'' ''user_operations_results'',
      DropTable ''user_operations_results'']"

definition user_ops_table :: migration where
  "user_ops_table = \<lparr>mg_revision = ''9a1e927f02bb'', mg_down_revision = (Some ''3d5ce8939570''),
     mg_upgrade = user_ops_table_upgrade, mg_downgrade = user_ops_table_downgrade\<rparr>"

section \<open>\<open>20240802_add_l2_chain_table\<close>\<close>

definition l2_chain_table_upgrade_1 :: "db_op list" where
  "l2_chain_table_upgrade_1 =
     [CreateTable ''arbitrum_state_batches'' [Column ''node_num'' INTEGER False, Column ''create_l1_block_number'' INTEGER True,
        Column ''create_l1_block_timestamp'' TIMESTAMP True, Column ''create_l1_block_hash'' VARCHAR True,
        Column ''create_l1_transaction_hash'' VARCHAR True, Column ''l1_block_number'' INTEGER True,
        Column ''l1_block_timestamp'' TIMESTAMP True, Column ''l1_block_hash'' VARCHAR True,
        Column ''l1_transaction_hash'' VARCHAR True, Column ''parent_node_hash'' VARCHAR True,
        Column ''node_hash'' VARCHAR True, Column ''block_hash'' VARCHAR True, Column ''send_root'' VARCHAR True,
        Column ''start_block_number'' INTEGER True, Column ''end_block_number'' INTEGER True,
        Column ''transaction_count'' INTEGER True, Column ''block_count'' INTEGER True] [''node_num''],
      CreateTable ''arbitrum_transaction_batches'' [Column ''batch_index'' INTEGER False, Column ''l1_block_number'' INTEGER True,
        Column ''l1_block_timestamp'' TIMESTAMP True, Column ''l1_block_hash'' VARCHAR True,
        Column ''l1_transaction_hash'' VARCHAR True, Column ''batch_root'' VARCHAR True,
        Column ''start_block_number'' INTEGER True, Column ''end_block_number'' INTEGER True,
        Column ''transaction_count'' INTEGER True, Column ''block_count'' INTEGER True] [''batch_index''],
      CreateTable ''bridge_tokens'' [Column ''l1_token_address'' BYTEA False,
        Column ''l2_token_address'' BYTEA False] [''l1_token_address'', ''l2_token_address''],
      CreateTable ''data_store_tx_mapping'' [Column ''data_store_id'' INTEGER False, Column ''index'' INTEGER False,
        Column ''block_number'' INTEGER True, Column ''transaction_hash'' VARCHAR True] [''data_store_id'', ''index''],
      CreateTable ''data_stores'' [Column ''id'' INTEGER False, Column ''store_number'' INTEGER True,
        Column ''duration_data_store_id'' INTEGER True, Column ''index'' INTEGER True, Column ''data_commitment'' VARCHAR True,
        Column ''msg_hash'' VARCHAR True, Column ''init_time'' TIMESTAMP True, Column ''expire_time'' TIMESTAMP True,
        Column ''duration'' INTEGER True, Column ''store_period_length'' INTEGER True, Column ''fee'' INTEGER True,
        Column ''confirmer'' VARCHAR True, Column ''header'' VARCHAR True, Column ''init_tx_hash'' VARCHAR True,
        Column ''init_gas_used'' INTEGER True, Column ''init_block_number'' INTEGER True, Column ''confirmed'' BOOLEAN True,
        Column ''signatory_record'' VARCHAR True, Column ''confirm_tx_hash'' VARCHAR True,
        Column ''confirm_gas_used'' INTEGER True, Column ''batch_index'' INTEGER True, Column ''tx_count'' INTEGER True,
        Column ''block_count'' INTEGER True] [''id''],
      CreateTable ''l1_state_batches'' [Column ''batch_index'' INTEGER False, Column ''previous_total_elements'' INTEGER True,
        Column ''batch_size'' INTEGER True, Column ''l1_block_number'' INTEGER True,
        Column ''l1_block_timestamp'' TIMESTAMP True, Column ''l1_block_hash'' VARCHAR True,
        Column ''l1_transaction_hash'' VARCHAR True, Column ''extra_data'' VARCHAR True,
        Column ''batch_root'' VARCHAR True] [''batch_index''],
      CreateTable ''l1_to_l2_bridge_transactions'' [Column ''msg_hash'' BYTEA False, Column ''version'' INTEGER True,
        Column ''index'' INTEGER True, Column ''l1_block_number'' INTEGER True, Column ''l1_block_timestamp'' TIMESTAMP True,
        Column ''l1_block_hash'' BYTEA True, Column ''l1_transaction_hash'' BYTEA True, Column ''l1_from_address'' BYTEA True,
        Column ''l1_to_address'' BYTEA True, Column ''l2_block_number'' INTEGER True,
        Column ''l2_block_timestamp'' TIMESTAMP True, Column ''l2_block_hash'' BYTEA True,
        Column ''l2_transaction_hash'' BYTEA True, Column ''l2_from_address'' BYTEA True, Column ''l2_to_address'' BYTEA True,
        SizedColumn ''amount'' NUMERIC 78 0 True, Column ''from_address'' BYTEA True, Column ''to_address'' BYTEA True,
        Column ''l1_token_address'' BYTEA True, Column ''l2_token_address'' BYTEA True, Column ''extra_info'' JSON True,
        Column ''_type'' INTEGER True, Column ''sender'' BYTEA True, Column ''target'' BYTEA True,
        Column ''data'' BYTEA True] [''msg_hash'']]"

definition l2_chain_table_upgrade_2 :: "db_op list" where
  "l2_chain_table_upgrade_2 =
     [CreateTable ''l2_to_l1_bridge_transactions'' [Column ''msg_hash'' BYTEA False, Column ''version'' INTEGER True,
        Column ''index'' INTEGER True, Column ''l2_block_number'' INTEGER True, Column ''l2_block_timestamp'' TIMESTAMP True,
        Column ''l2_block_hash'' BYTEA True, Column ''l2_transaction_hash'' BYTEA True, Column ''l2_from_address'' BYTEA True,
        Column ''l2_to_address'' BYTEA True, Column ''l1_block_number'' INTEGER True,
        Column ''l1_block_timestamp'' TIMESTAMP True, Column ''l1_block_hash'' BYTEA True,
        Column ''l1_transaction_hash'' BYTEA True, Column ''l1_from_address'' BYTEA True, Column ''l1_to_address'' BYTEA True,
        SizedColumn ''amount'' NUMERIC 78 0 True, Column ''from_address'' BYTEA True, Column ''to_address'' BYTEA True,
        Column ''l1_token_address'' BYTEA True, Column ''l2_token_address'' BYTEA True, Column ''extra_info'' JSON True,
        Column ''_type'' INTEGER True, Column ''l1_proven_transaction_hash'' BYTEA True,
        Column ''l1_proven_block_number'' INTEGER True, Column ''l1_proven_block_timestamp'' TIMESTAMP True,
        Column ''l1_proven_block_hash'' BYTEA True, Column ''l1_proven_from_address'' BYTEA True,
        Column ''l1_proven_to_address'' BYTEA True] [''msg_hash''],
      CreateTable ''linea_batches'' [Column ''number'' INTEGER False, Column ''verify_tx_hash'' VARCHAR True,
        Column ''verify_block_number'' INTEGER True, Column ''timestamp'' TIMESTAMP True,
        Column ''blocks'' (ARRAY INTEGER) True, Column ''transactions'' (ARRAY VARCHAR) True,
        Column ''last_finalized_block_number'' INTEGER True, Column ''tx_count'' INTEGER True,
        Column ''block_count'' INTEGER True] [''number''],
      CreateTable ''mantle_batches'' [Column ''index'' INTEGER False, Column ''data_store_index'' INTEGER True,
        Column ''upgrade_data_store_id'' INTEGER True, Column ''data_store_id'' INTEGER True, Column ''status'' INTEGER True,
        Column ''confirm_at'' TIMESTAMP True] [''index''],
      CreateTable ''op_bedrock_state_batches'' [Column ''batch_index'' INTEGER False, Column ''l1_block_number'' INTEGER True,
        Column ''l1_block_timestamp'' TIMESTAMP True, Column ''l1_block_hash'' VARCHAR True,
        Column ''l1_transaction_hash'' VARCHAR True, Column ''start_block_number'' INTEGER True,
        Column ''end_block_number'' INTEGER True, Column ''batch_root'' VARCHAR True,
        Column ''transaction_count'' INTEGER True, Column ''block_count'' INTEGER True] [''batch_index''],
      CreateTable ''op_da_transactions'' [Column ''receipt_blob_gas_used'' INTEGER True,
        Column ''receipt_blob_gas_price'' NUMERIC True, Column ''blob_versioned_hashes'' (ARRAY VARCHAR) True,
        Column ''hash'' VARCHAR False, Column ''nonce'' INTEGER True, Column ''transaction_index'' INTEGER True,
        Column ''from_address'' VARCHAR True, Column ''to_address'' VARCHAR True, Column ''value'' NUMERIC True,
        Column ''gas'' INTEGER True, Column ''gas_price'' INTEGER True, Column ''input'' VARCHAR True,
        Column ''receipt_cumulative_gas_used'' INTEGER True, Column ''receipt_gas_used'' INTEGER True,
        Column ''receipt_contract_address'' VARCHAR True, Column ''receipt_root'' VARCHAR True,
        Column ''receipt_status'' INTEGER True, Column ''block_timestamp'' TIMESTAMP True,
        Column ''block_number'' INTEGER True, Column ''block_hash'' VARCHAR True, Column ''max_fee_per_gas'' INTEGER True,
        Column ''max_priority_fee_per_gas'' INTEGER True, Column ''transaction_type'' INTEGER True,
        Column ''receipt_effective_gas_price'' INTEGER True] [''hash''],
      CreateTable ''zkevm_batches'' [Column ''batch_index'' INTEGER False, Column ''coinbase'' VARCHAR True,
        Column ''state_root'' VARCHAR True, Column ''global_exit_root'' VARCHAR True,
        Column ''mainnet_exit_root'' VARCHAR True, Column ''rollup_exit_root'' VARCHAR True,
        Column ''local_exit_root'' VARCHAR True, Column ''acc_input_hash'' VARCHAR True, Column ''timestamp'' TIMESTAMP True,
        Column ''transactions'' (ARRAY VARCHAR) True, Column ''blocks'' (ARRAY INTEGER) True,
        Column ''start_block_number'' INTEGER True, Column ''end_block_number'' INTEGER True,
        Column ''block_count'' INTEGER True, Column ''transaction_count'' INTEGER True,
        Column ''sequence_batch_tx_hash'' VARCHAR True, Column ''sequence_batch_block_number'' INTEGER True,
        Column ''sequence_batch_block_timestamp'' TIMESTAMP True, Column ''verify_batch_tx_hash'' VARCHAR True,
        Column ''verify_batch_block_number'' INTEGER True, Column ''verify_batch_block_timestamp'' TIMESTAMP True,
        Column ''number'' INTEGER True, Column ''send_sequences_tx_hash'' VARCHAR True] [''batch_index'']]"

definition l2_chain_table_downgrade :: "db_op list" where
  "l2_chain_table_downgrade =
     [DropTable ''zkevm_batches'',
      DropTable ''op_da_transactions'',
      DropTable ''op_bedrock_state_batches'',
      DropTable ''mantle_batches'',
      DropTable ''linea_batches'',
      DropTable ''l2_to_l1_bridge_transactions'',
      DropTable ''l1_to_l2_bridge_transactions'',
      DropTable ''l1_state_batches'',
      DropTable ''data_stores'',
      DropTable ''data_store_tx_mapping'',
      DropTable ''bridge_tokens'',
      DropTable ''arbitrum_transaction_batches'',
      DropTable ''arbitrum_state_batches'']"

definition l2_chain_table :: migration where
  "l2_chain_table = \<lparr>mg_revision = ''e3a3e2114b9c'', mg_down_revision = (Some ''9a1e927f02bb''),
     mg_upgrade = l2_chain_table_upgrade_1 @ l2_chain_table_upgrade_2, mg_downgrade = l2_chain_table_downgrade\<rparr>"

section \<open>\<open>20240802_add_uniswap_v2_table\<close>\<close>

definition uniswap_v2_table_upgrade :: "db_op list" where
  "uniswap_v2_table_upgrade =
     [CreateTable ''feature_uniswap_v2_pools'' [Column ''factory_address'' BYTEA False, Column ''pool_address'' BYTEA False,
        Column ''token0_address'' BYTEA True, Column ''token1_address'' BYTEA True, SizedColumn ''length'' NUMERIC 100 0 True,
        Column ''called_block_number'' BIGINT True, Column ''create_time'' TIMESTAMP True,
        Column ''update_time'' TIMESTAMP True] [''factory_address'', ''pool_address''],
      AddColumn ''feature_uniswap_v3_pools'' (Column ''called_block_number'' BIGINT True),
      DropColumn ''feature_uniswap_v3_pools'' ''mint_block_number'',
      AddColumn ''feature_uniswap_v3_tokens'' (Column ''called_block_number'' BIGINT True),
      DropColumn ''feature_uniswap_v3_tokens'' ''mint_block_number'']"

definition uniswap_v2_table_downgrade :: "db_op list" where
  "uniswap_v2_table_downgrade =
     [AddColumn ''feature_uniswap_v3_tokens'' (Column ''mint_block_number'' BIGINT True),
      DropColumn ''feature_uniswap_v3_tokens'' ''called_block_number'',
      AddColumn ''feature_uniswap_v3_pools'' (Column ''mint_block_number'' BIGINT True),
      DropColumn ''feature_uniswap_v3_pools'' ''called_block_number'',
      DropTable ''feature_uniswap_v2_pools'']"

definition uniswap_v2_table :: migration where
  "uniswap_v2_table = \<lparr>mg_revision = ''aa99dd347ef1'', mg_down_revision = (Some ''e3a3e2114b9c''),
     mg_upgrade = uniswap_v2_table_upgrade, mg_downgrade = uniswap_v2_table_downgrade\<rparr>"

section \<open>\<open>20240802_add_exception_recorder_table\<close>\<close>

definition exception_recorder_table_upgrade :: "db_op list" where
  "exception_recorder_table_upgrade =
     [CreateTable ''exception_records'' [Column ''id'' BIGINT False, Column ''block_number'' BIGINT True,
        Column ''dataclass'' VARCHAR True, Column ''level'' VARCHAR True, Column ''message_type'' VARCHAR True,
        Column ''message'' VARCHAR True, Column ''exception_env'' JSONB True, Column ''record_time'' TIMESTAMP True] [''id'']]"

definition exception_recorder_table_downgrade :: "db_op list" where
  "exception_recorder_table_downgrade =
     [DropTable ''exception_records'']"

definition exception_recorder_table :: migration where
  "exception_recorder_table = \<lparr>mg_revision = ''040e5251f45d'', mg_down_revision = (Some ''aa99dd347ef1''),
     mg_upgrade = exception_recorder_table_upgrade, mg_downgrade = exception_recorder_table_downgrade\<rparr>"

section \<open>\<open>20240805_add_transaction_from_address_column_to_contracts\<close>\<close>

definition contracts_transaction_from_upgrade :: "db_op list" where
  "contracts_transaction_from_upgrade =
     [AddColumn ''contracts'' (Column ''transaction_from_address'' BYTEA True)]"

definition contracts_transaction_from_downgrade :: "db_op list" where
  "contracts_transaction_from_downgrade =
     [DropColumn ''contracts'' ''transaction_from_address'']"

definition contracts_transaction_from :: migration where
  "contracts_transaction_from = \<lparr>mg_revision = ''832fa52da346'', mg_down_revision = (Some ''040e5251f45d''),
     mg_upgrade = contracts_transaction_from_upgrade, mg_downgrade = contracts_transaction_from_downgrade\<rparr>"

section \<open>\<open>20240806_add_current_traits_activeness\<close>\<close>

definition current_traits_activeness_upgrade :: "db_op list" where
  "current_traits_activeness_upgrade =
     [CreateTable ''current_traits_activeness'' [Column ''block_number'' BIGINT False, Column ''address'' BYTEA False,
        Column ''value'' JSONB True, Column ''create_time'' TIMESTAMP True, Column ''update_time'' TIMESTAMP True] [''address'']]"

definition current_traits_activeness_downgrade :: "db_op list" where
  "current_traits_activeness_downgrade =
     [DropTable ''current_traits_activeness'']"

definition current_traits_activeness :: migration where
  "current_traits_activeness = \<lparr>mg_revision = ''b86e241b5e18'', mg_down_revision = (Some ''832fa52da346''),
     mg_upgrade = current_traits_activeness_upgrade, mg_downgrade = current_traits_activeness_downgrade\<rparr>"

section \<open>The history\<close>

definition migrations :: "migration list" where
  "migrations =
     [base_version, tokens_block_number, api_server_table, index_table_optimize, sync_record_table, feature_records, user_ops_table,
      l2_chain_table, uniswap_v2_table, exception_recorder_table, contracts_transaction_from, current_traits_activeness]"

text \<open>The scripts form one chain: each names the one before it.\<close>

lemma migrations_chained:
  "mg_down_revision (hd migrations) = None \<and>
   list_all2 (\<lambda>m m'. mg_down_revision m' = Some (mg_revision m)) (butlast migrations) (tl migrations)"
  by code_simp

section \<open>The history of one table\<close>

fun op_table :: "db_op \<Rightarrow> string" where
  "op_table (CreateTable t _ _) = t"
| "op_table (DropTable t) = t"
| "op_table (AddColumn t _) = t"
| "op_table (DropColumn t _) = t"
| "op_table (RenameColumn t _ _) = t"
| "op_table (SetNullable t _ _) = t"
| "op_table (CreateIndex _ t _ _ _) = t"
| "op_table (DropIndex _ t) = t"
| "op_table (CreatePrimaryKey _ t _) = t"
| "op_table (DropPrimaryKey _ t) = t"

definition ops_on :: "string \<Rightarrow> db_op list \<Rightarrow> db_op list" where
  "ops_on t ps = filter (\<lambda>p. op_table p = t) ps"

definition part_of :: "string \<Rightarrow> schema \<Rightarrow> schema" where
  "part_of t s = \<lparr>sc_tables = filter (\<lambda>p. fst p = t) (sc_tables s), sc_indexes = filter (\<lambda>p. ix_table (snd p) = t) (sc_indexes s)\<rparr>"

text \<open>Two schemas are the same if they have the same tables, up to the order of columns, and the same indexes.\<close>

definition same_set :: "'a list \<Rightarrow> 'a list \<Rightarrow> bool" where
  "same_set xs ys = (if xs = ys then True else set xs = set ys)"

definition same_table :: "db_table \<Rightarrow> db_table \<Rightarrow> bool" where
  "same_table x y \<longleftrightarrow> same_set (tb_columns x) (tb_columns y) \<and> tb_key x = tb_key y"

definition same_part :: "schema \<Rightarrow> schema \<Rightarrow> bool" where
  "same_part s s' \<longleftrightarrow> list_all2 (\<lambda>p q. fst p = fst q \<and> same_table (snd p) (snd q)) (sc_tables s) (sc_tables s') \<and>
     same_set (sc_indexes s) (sc_indexes s')"

definition same_schema :: "schema \<Rightarrow> schema \<Rightarrow> bool" where
  "same_schema s s' \<longleftrightarrow> (\<forall>t. same_part (part_of t s) (part_of t s'))"

text \<open>All scripts are run up, each one also down again, on a part that some of them leave alone.\<close>

fun check_history :: "(db_op list \<times> db_op list) list \<Rightarrow> schema \<Rightarrow> schema option" where
  "check_history [] s = Some s"
| "check_history ((u, d) # h) s =
     (if u = [] \<and> d = [] then check_history h s
      else case apply_ops u s of
        Inl _ \<Rightarrow> None
      | Inr s1 \<Rightarrow> (case apply_ops d s1 of
          Inl _ \<Rightarrow> None
        | Inr s2 \<Rightarrow> if same_part s2 s then check_history h s1 else None))"

text \<open>The scripts in the pieces in which they are written down here.\<close>

definition script_parts :: "(db_op list list \<times> db_op list list) list" where
  "script_parts =
     [([base_version_upgrade_1, base_version_upgrade_2, base_version_upgrade_3, base_version_upgrade_4], [base_version_downgrade]),
      ([tokens_block_number_upgrade], [tokens_block_number_downgrade]),
      ([api_server_table_upgrade], [api_server_table_downgrade]),
      ([index_table_optimize_upgrade_1, index_table_optimize_upgrade_2, index_table_optimize_upgrade_3], [index_table_optimize_downgrade_1, index_table_optimize_downgrade_2, index_table_optimize_downgrade_3]),
      ([sync_record_table_upgrade], [sync_record_table_downgrade]), ([feature_records_upgrade], [feature_records_downgrade]),
      ([user_ops_table_upgrade], [user_ops_table_downgrade]),
      ([l2_chain_table_upgrade_1, l2_chain_table_upgrade_2], [l2_chain_table_downgrade]),
      ([uniswap_v2_table_upgrade], [uniswap_v2_table_downgrade]),
      ([exception_recorder_table_upgrade], [exception_recorder_table_downgrade]),
      ([contracts_transaction_from_upgrade], [contracts_transaction_from_downgrade]),
      ([current_traits_activeness_upgrade], [current_traits_activeness_downgrade])]"

definition parts_on :: "string \<Rightarrow> (db_op list list \<times> db_op list list) list \<Rightarrow> (db_op list \<times> db_op list) list" where
  "parts_on t h = map (\<lambda>(u, d). (concat (map (ops_on t) u), concat (map (ops_on t) d))) h"

text \<open>The operations on tables whose names begin with one of some texts.\<close>

definition begins :: "string list \<Rightarrow> string \<Rightarrow> bool" where
  "begins qs n \<longleftrightarrow> list_ex (\<lambda>q. take (length q) n = q) qs"

definition parts_starting :: "string list \<Rightarrow> (db_op list list \<times> db_op list list) list \<Rightarrow> (db_op list list \<times> db_op list list) list" where
  "parts_starting qs h = (let f = map (filter (\<lambda>p. begins qs (op_table p))) in map (\<lambda>(u, d). (f u, f d)) h)"

text \<open>The table of a model: the same columns with their types, and the same primary key.\<close>

definition columns_match :: "table_model \<Rightarrow> db_table \<Rightarrow> bool" where
  "columns_match m x \<longleftrightarrow> (let cs = map (\<lambda>c. (column_name c, column_kind c)) (tb_columns x); ms = map (\<lambda>c. (col_name c, col_type c)) (tm_columns m)
     in if cs = ms then True else length cs = length ms \<and> list_all (\<lambda>(n, k). map_of cs n = Some k) ms)"

definition key_matches :: "table_model \<Rightarrow> db_table \<Rightarrow> bool" where
  "key_matches m x \<longleftrightarrow> (case tb_key x of None \<Rightarrow> False | Some (_, k) \<Rightarrow> set k = set (primary_key m))"

text \<open>Tables whose primary key in the database is not that of their model.\<close>

definition other_keys :: "string list" where
  "other_keys = [''erc1155_token_transfers'', ''erc20_token_transfers'', ''erc721_token_transfers'', ''logs'']"

definition model_checked :: "(db_op list list \<times> db_op list list) list \<Rightarrow> table_model \<Rightarrow> bool" where
  "model_checked h m = (case check_history (parts_on (tm_tablename m) h) empty_schema of
     None \<Rightarrow> False
   | Some s \<Rightarrow> (case sc_tables s of
       [(n, x)] \<Rightarrow> columns_match m x \<and> key_matches m x = (tm_tablename m \<notin> set other_keys)
     | _ \<Rightarrow> False))"

definition dropped_checked :: "(db_op list list \<times> db_op list list) list \<Rightarrow> string \<Rightarrow> bool" where
  "dropped_checked h t = (case check_history (parts_on t h) empty_schema of None \<Rightarrow> False | Some s \<Rightarrow> sc_tables s = [])"

definition every_op :: "(db_op \<Rightarrow> bool) \<Rightarrow> (db_op list list \<times> db_op list list) list \<Rightarrow> bool" where
  "every_op f h = list_all (\<lambda>(u, d). list_all (list_all f) u \<and> list_all (list_all f) d) h"

fun all_checked :: "(db_op list list \<times> db_op list list) list \<Rightarrow> table_model list \<Rightarrow> string list \<Rightarrow> bool" where
  "all_checked h (m # ms) ds \<longleftrightarrow> model_checked h m \<and> all_checked h ms ds"
| "all_checked h [] (t # ds) \<longleftrightarrow> dropped_checked h t \<and> all_checked h [] ds"
| "all_checked h [] [] \<longleftrightarrow> True"

fun group_checked :: "(db_op list list \<times> db_op list list) list \<Rightarrow> string list \<times> table_model list \<times> string list \<Rightarrow> bool" where
  "group_checked h (qs, ms, ds) \<longleftrightarrow> all_checked (parts_starting qs h) ms ds \<and> list_all (begins qs) (map tm_tablename ms @ ds) \<and>
     every_op (\<lambda>p. op_table p \<in> set (map tm_tablename ms @ ds)) (parts_starting qs h)"

text \<open>The tables with their models, and those that are dropped again, by the beginnings of their names.\<close>

type_synonym table_group = "string list \<times> table_model list \<times> string list"

definition tables_a :: table_group where
  "tables_a = ([''a'', ''b''], [all_feature_value_records_model, block_timestamp_mapper_model, blocks_model, bridge_tokens_model,
        arbitrum_state_batches_model, arbitrum_transaction_batches_model, coin_balances_model, current_token_balances_model,
        address_token_balances_model], [])"

definition tables_c :: table_group where
  "tables_c = ([''c'', ''d''], [mantle_da_stores_model, mantle_da_store_transaction_mapping_model, contract_internal_transactions_model, contracts_model,
        daily_addresses_aggregates_model, daily_blocks_aggregates_model, daily_tokens_aggregates_model,
        daily_transactions_aggregates_model, current_traits_activeness_model_model], [])"

definition tables_erc1 :: table_group where
  "tables_erc1 = ([''erc1'', ''erc2''], [erc1155_token_id_details_model, erc1155_token_transfers_model, erc20_token_transfers_model], [''erc1155_token_holders'', ''erc20_token_holders''])"

definition tables_erc7 :: table_group where
  "tables_erc7 = ([''erc7''], [erc721_token_id_changes_model, erc721_token_id_details_model, erc721_token_transfers_model], [''erc721_token_holders''])"

definition tables_ex :: table_group where
  "tables_ex = ([''ex'', ''f'', ''l''], [l1_to_l2_bridge_transactions_model, l2_to_l1_bridge_transactions_model, state_batches_model, linea_batches_model,
        exception_records_model, fix_record_model, logs_model, uniswap_v2_pools_model, uniswap_v3_pools_model,
        uniswap_v3_tokens_model], [])"

definition tables_m :: table_group where
  "tables_m = ([''m'', ''o'', ''u'', ''w'', ''z'', ''s''], [op_bedrock_state_batches_model, mantle_da_batches_model, zk_evm_batches_model, op_da_transactions_model,
        scheduled_wallet_count_metadata_model, scheduled_token_count_metadata_model, statistics_wallet_addresses_model,
        sync_record_model, user_operation_result_model], [''wallet_addresses''])"

definition tables_t :: table_group where
  "tables_t = ([''t''], [tokens_model, traces_model, transactions_model], [])"

definition table_groups :: "table_group list" where
  "table_groups = [tables_a, tables_c, tables_erc1, tables_erc7, tables_ex, tables_m, tables_t]"

definition all_beginnings :: "string list" where
  "all_beginnings = [''a'', ''b'', ''c'', ''d'', ''erc1'', ''erc2'', ''erc7'', ''ex'', ''f'', ''l'', ''m'', ''o'', ''u'', ''w'', ''z'', ''s'', ''t'']"

fun index_home :: "db_op \<Rightarrow> (string \<times> string) list" where
  "index_home (CreateIndex i t _ _ _) = [(i, t)]"
| "index_home _ = []"

definition index_homes :: "(db_op list list \<times> db_op list list) list \<Rightarrow> (string \<times> string) list" where
  "index_homes h = (let f = concat \<circ> map (concat \<circ> map index_home) in concat (map (\<lambda>(u, d). f u @ f d) h))"

text \<open>No name is used for the indexes of two tables, checked for the names with each of the beginnings.\<close>

fun consistent :: "(string \<times> string) list \<Rightarrow> bool" where
  "consistent [] = True"
| "consistent ((i, t) # cs) \<longleftrightarrow> (case map_of cs i of None \<Rightarrow> True | Some t' \<Rightarrow> t' = t) \<and> consistent cs"

definition homes_checked :: "string list \<Rightarrow> (string \<times> string) list \<Rightarrow> bool" where
  "homes_checked qs cs \<longleftrightarrow> list_all (\<lambda>p. begins qs (fst p)) cs \<and>
     list_all (\<lambda>q. consistent (filter (\<lambda>p. begins [q] (fst p)) cs)) qs"

section \<open>The parts of a schema are independent\<close>

text \<open>\<open>H\<close> gives the table of an index: no name is used for indexes of two tables.\<close>

definition homed :: "(string \<Rightarrow> string) \<Rightarrow> schema \<Rightarrow> bool" where
  "homed H s \<longleftrightarrow> (\<forall>(i, x) \<in> set (sc_indexes s). ix_table x = H i)"

fun op_homed :: "(string \<Rightarrow> string) \<Rightarrow> db_op \<Rightarrow> bool" where
  "op_homed H (CreateIndex i t _ _ _) = (H i = t)"
| "op_homed H _ = True"

lemma table_of_part: "table_of (part_of t s) t = table_of s t"
proof -
  have "map_of (filter (\<lambda>p. fst p = t) xs) t = map_of xs t" for xs :: "(string \<times> db_table) list" by (induction xs) auto
  then show ?thesis by (simp add: table_of_def part_of_def)
qed

lemma set_table_part: "part_of t (set_table t' x s) = (if t = t' then set_table t x (part_of t s) else part_of t s)"
proof -
  have "filter (\<lambda>p. fst p = t) (map (\<lambda>(n, y). (n, if n = t' then x else y)) xs) =
      (if t = t' then map (\<lambda>(n, y). (n, if n = t then x else y)) (filter (\<lambda>p. fst p = t) xs) else filter (\<lambda>p. fst p = t) xs)"
    for xs :: "(string \<times> db_table) list" by (induction xs) auto
  then show ?thesis by (simp add: part_of_def set_table_def)
qed

lemma homed_set_table [simp]: "homed H (set_table t x s) = homed H s"
  by (simp add: homed_def set_table_def)

lemma index_name_part: "homed H s \<Longrightarrow> i \<in> fst ` set (sc_indexes s) \<longleftrightarrow> i \<in> fst ` set (sc_indexes (part_of (H i) s))"
  by (force simp: homed_def part_of_def)

lemma table_name_part: "t \<in> fst ` set (sc_tables s) \<longleftrightarrow> t \<in> fst ` set (sc_tables (part_of t s))"
  by (force simp: part_of_def)

lemma on_table_frame:
  assumes "rbind (table_of (part_of t s) t) f = Inr r" and "homed H s"
    and "\<And>x. \<lbrakk>table_of s t = Inr x; f x = Inr r\<rbrakk> \<Longrightarrow> \<exists>s'. g x = Inr s' \<and> homed H s' \<and> part_of t s' = r \<and> (\<forall>u. u \<noteq> t \<longrightarrow> part_of u s' = part_of u s)"
  shows "\<exists>s'. rbind (table_of s t) g = Inr s' \<and> homed H s' \<and> part_of t s' = r \<and> (\<forall>u. u \<noteq> t \<longrightarrow> part_of u s' = part_of u s)"
  using assms by (auto simp: table_of_part rbind_Inr_iff)

lemma filter_comm: "filter P (filter Q xs) = filter Q (filter P xs)"
  by (simp add: conj_commute)

lemma part_of_other_indexes:
  "u \<noteq> t \<Longrightarrow> filter (\<lambda>p. ix_table (snd p) = u) (filter (\<lambda>p. ix_table (snd p) = t \<longrightarrow> P p) xs) = filter (\<lambda>p. ix_table (snd p) = u) xs"
  by (induction xs) auto

lemma drop_indexes_part:
  "part_of u (s\<lparr>sc_indexes := filter (\<lambda>p. ix_table (snd p) = t \<longrightarrow> Q p) (sc_indexes s)\<rparr>) =
   (if u = t then (part_of t s)\<lparr>sc_indexes := filter (\<lambda>p. ix_table (snd p) = t \<longrightarrow> Q p) (sc_indexes (part_of t s))\<rparr>
    else part_of u s)"
proof -
  have "filter (\<lambda>p. ix_table (snd p) = u) (filter (\<lambda>p. ix_table (snd p) = t \<longrightarrow> Q p) xs) =
      (if u = t then filter (\<lambda>p. ix_table (snd p) = t \<longrightarrow> Q p) (filter (\<lambda>p. ix_table (snd p) = t) xs)
       else filter (\<lambda>p. ix_table (snd p) = u) xs)" for xs :: "(string \<times> db_index) list"
    by (induction xs) auto
  then show ?thesis by (simp add: part_of_def)
qed

lemma rename_indexes_part:
  "part_of u (s\<lparr>sc_indexes := map (\<lambda>(k, i). (k, if ix_table i = t then i\<lparr>ix_parts := f (ix_parts i)\<rparr> else i)) (sc_indexes s)\<rparr>) =
   (if u = t then (part_of t s)\<lparr>sc_indexes := map (\<lambda>(k, i). (k, if ix_table i = t then i\<lparr>ix_parts := f (ix_parts i)\<rparr> else i))
      (sc_indexes (part_of t s))\<rparr> else part_of u s)"
proof -
  have "filter (\<lambda>p. ix_table (snd p) = u) (map (\<lambda>(k, i). (k, if ix_table i = t then i\<lparr>ix_parts := f (ix_parts i)\<rparr> else i)) xs) =
      (if u = t then map (\<lambda>(k, i). (k, if ix_table i = t then i\<lparr>ix_parts := f (ix_parts i)\<rparr> else i)) (filter (\<lambda>p. ix_table (snd p) = t) xs)
       else filter (\<lambda>p. ix_table (snd p) = u) xs)" for xs :: "(string \<times> db_index) list"
    by (induction xs) auto
  then show ?thesis by (simp add: part_of_def)
qed

lemma homed_smaller:
  "homed H s \<Longrightarrow> homed H (s\<lparr>sc_indexes := filter P (sc_indexes s)\<rparr>)"
  "homed H s \<Longrightarrow> homed H (s\<lparr>sc_indexes := map (\<lambda>(k, i). (k, if ix_table i = t then i\<lparr>ix_parts := f (ix_parts i)\<rparr> else i)) (sc_indexes s)\<rparr>)"
  by (auto simp: homed_def)

lemma apply_op_frame:
  assumes "homed H s" and "op_homed H p" and "apply_op p (part_of (op_table p) s) = Inr r"
  shows "\<exists>s'. apply_op p s = Inr s' \<and> homed H s' \<and> part_of (op_table p) s' = r \<and> (\<forall>u. u \<noteq> op_table p \<longrightarrow> part_of u s' = part_of u s)"
proof (cases p)
  case (CreateTable t cs key)
  with assms table_name_part [of t s] show ?thesis
    by (auto simp: part_of_def homed_def split: if_splits)
next
  case (DropTable t)
  have f: "filter (\<lambda>p. fst p = u \<and> fst p \<noteq> t) xs = (if u = t then [] else filter (\<lambda>p. fst p = u) xs)" for u and xs :: "(string \<times> db_table) list"
    by (induction xs) auto
  have g: "filter (\<lambda>p. ix_table (snd p) = u \<and> ix_table (snd p) \<noteq> t) xs = (if u = t then [] else filter (\<lambda>p. ix_table (snd p) = u) xs)"
    for u and xs :: "(string \<times> db_index) list" by (induction xs) auto
  from assms show ?thesis unfolding DropTable op_table.simps apply_op.simps
    by (elim on_table_frame) (auto simp: part_of_def homed_def f g conj_commute)
next
  case (AddColumn t c)
  from assms show ?thesis unfolding AddColumn op_table.simps apply_op.simps
    by (elim on_table_frame) (auto simp: rbind_Inr_iff set_table_part)
next
  case (DropColumn t c)
  from assms show ?thesis unfolding DropColumn op_table.simps apply_op.simps
    by (elim on_table_frame) (auto simp: rbind_Inr_iff set_table_part drop_indexes_part homed_smaller)
next
  case (RenameColumn t c n)
  from assms show ?thesis unfolding RenameColumn op_table.simps apply_op.simps
    by (elim on_table_frame) (auto simp: rbind_Inr_iff set_table_part rename_indexes_part homed_smaller)
next
  case (SetNullable t c b)
  from assms show ?thesis unfolding SetNullable op_table.simps apply_op.simps
    by (elim on_table_frame) (auto simp: rbind_Inr_iff set_table_part)
next
  case (CreateIndex i t parts u w)
  from assms index_name_part [OF assms(1), of i] show ?thesis unfolding CreateIndex op_table.simps apply_op.simps
    by (elim on_table_frame) (auto simp: part_of_def homed_def split: if_splits)
next
  case (DropIndex i t)
  from assms(3) have i: "i \<in> fst ` set (sc_indexes (part_of t s))"
    and r: "r = (part_of t s)\<lparr>sc_indexes := filter (\<lambda>p. fst p \<noteq> i) (sc_indexes (part_of t s))\<rparr>"
    by (auto simp: DropIndex split: if_splits)
  from i obtain y where "(i, y) \<in> set (sc_indexes s)" "ix_table y = t" by (auto simp: part_of_def)
  with assms(1) have "H i = t" by (auto simp: homed_def)
  then have h: "ix_table x = t" if "(i, x) \<in> set (sc_indexes s)" for x
    using that assms(1) by (auto simp: homed_def)
  have "filter (\<lambda>p. ix_table (snd p) = u) (filter (\<lambda>p. fst p \<noteq> i) (sc_indexes s)) = filter (\<lambda>p. ix_table (snd p) = u) (sc_indexes s)"
    if "u \<noteq> t" for u using h that by (auto intro!: filter_cong)
  moreover have "i \<in> fst ` set (sc_indexes s)" using i by (auto simp: part_of_def)
  ultimately show ?thesis
    using assms(1) by (simp add: DropIndex r part_of_def homed_smaller conj_commute)
next
  case (CreatePrimaryKey n t cs)
  from assms show ?thesis unfolding CreatePrimaryKey op_table.simps apply_op.simps
    by (elim on_table_frame) (auto simp: set_table_part split: if_splits)
next
  case (DropPrimaryKey n t)
  from assms show ?thesis unfolding DropPrimaryKey op_table.simps apply_op.simps
    by (elim on_table_frame) (auto simp: set_table_part split: option.splits prod.splits if_splits)
qed

lemma apply_ops_frame:
  assumes "homed H s" and "\<forall>p \<in> set ps. op_homed H p" and "\<forall>t. \<exists>r. apply_ops (ops_on t ps) (part_of t s) = Inr r"
  shows "\<exists>s'. apply_ops ps s = Inr s' \<and> homed H s' \<and> (\<forall>t. apply_ops (ops_on t ps) (part_of t s) = Inr (part_of t s'))"
  using assms
proof (induction ps arbitrary: s)
  case (Cons p ps)
  let ?t = "op_table p"
  have on: "ops_on ?t (p # ps) = p # ops_on ?t ps" "\<And>u. u \<noteq> ?t \<Longrightarrow> ops_on u (p # ps) = ops_on u ps" by (simp_all add: ops_on_def)
  from Cons.prems(3) [rule_format, of ?t] obtain r where r: "apply_op p (part_of ?t s) = Inr r" "\<exists>r'. apply_ops (ops_on ?t ps) r = Inr r'"
    by (auto simp: on rbind_Inr_iff)
  from apply_op_frame [OF Cons.prems(1) _ r(1)] Cons.prems(2) obtain s1 where s1: "apply_op p s = Inr s1" "homed H s1"
    "part_of ?t s1 = r" "\<And>u. u \<noteq> ?t \<Longrightarrow> part_of u s1 = part_of u s" by auto
  have "\<exists>r. apply_ops (ops_on u ps) (part_of u s1) = Inr r" for u
    using Cons.prems(3) [rule_format, of u] r(2) s1(3,4) on(2) by (cases "u = ?t") auto
  with Cons.IH [OF s1(2)] Cons.prems(2) obtain s' where s': "apply_ops ps s1 = Inr s'" "homed H s'"
    "\<And>u. apply_ops (ops_on u ps) (part_of u s1) = Inr (part_of u s')" by auto
  have "apply_ops (ops_on u (p # ps)) (part_of u s) = Inr (part_of u s')" for u
    using s'(3) [of u] s1 r(1) on by (cases "u = ?t") auto
  with s' s1(1) show ?case by auto
qed (simp add: ops_on_def)

lemma same_part_refl: "same_part s s"
  by (simp add: same_part_def same_set_def same_table_def list_all2_same)

lemma check_historyE:
  assumes "check_history ((u, d) # h) s = Some r"
  obtains s1 s2 where "apply_ops u s = Inr s1" "apply_ops d s1 = Inr s2" "same_part s2 s" "check_history h s1 = Some r"
  using assms same_part_refl by (auto split: if_splits sum.splits)

lemma history_runs:
  assumes "homed H s" and "\<forall>(u, d) \<in> set h. \<forall>p \<in> set u \<union> set d. op_homed H p"
    and "\<forall>t. \<exists>r. check_history (map (\<lambda>(u, d). (ops_on t u, ops_on t d)) h) (part_of t s) = Some r"
  shows "\<exists>s'. rfold (\<lambda>s p. apply_ops (fst p) s) s h = Inr s' \<and>
      (\<forall>t. check_history (map (\<lambda>(u, d). (ops_on t u, ops_on t d)) h) (part_of t s) = Some (part_of t s')) \<and>
      (\<forall>h1 u d h2. h = h1 @ (u, d) # h2 \<longrightarrow> (\<exists>s0 s1 s2. rfold (\<lambda>s p. apply_ops (fst p) s) s h1 = Inr s0 \<and>
         apply_ops u s0 = Inr s1 \<and> apply_ops d s1 = Inr s2 \<and> same_schema s2 s0))"
  using assms
proof (induction h arbitrary: s)
  case (Cons x h)
  obtain u d where x: "x = (u, d)" by (cases x)
  let ?on = "\<lambda>t h. map (\<lambda>(u, d). (ops_on t u, ops_on t d)) h"
  have step: "\<exists>l1 l2. apply_ops (ops_on t u) (part_of t s) = Inr l1 \<and> apply_ops (ops_on t d) l1 = Inr l2 \<and> same_part l2 (part_of t s) \<and>
      (\<exists>r. check_history (?on t h) l1 = Some r \<and> check_history (?on t (x # h)) (part_of t s) = Some r)" for t
  proof -
    obtain r where "check_history ((ops_on t u, ops_on t d) # ?on t h) (part_of t s) = Some r"
      using Cons.prems(3) [rule_format, of t] by (auto simp: x)
    then show ?thesis by (elim check_historyE) (auto simp: x)
  qed
  have hu: "\<forall>p \<in> set u. op_homed H p" and hd: "\<forall>p \<in> set d. op_homed H p" using Cons.prems(2) by (auto simp: x)
  obtain s1 where s1: "apply_ops u s = Inr s1" "homed H s1" "\<And>t. apply_ops (ops_on t u) (part_of t s) = Inr (part_of t s1)"
    using apply_ops_frame [OF Cons.prems(1) hu] step by metis
  have "\<exists>r. apply_ops (ops_on t d) (part_of t s1) = Inr r" for t using step [of t] s1(3) [of t] by auto
  then obtain s2 where s2: "apply_ops d s1 = Inr s2" "\<And>t. apply_ops (ops_on t d) (part_of t s1) = Inr (part_of t s2)"
    using apply_ops_frame [OF s1(2) hd] by metis
  have same: "same_schema s2 s" unfolding same_schema_def using step s1(3) s2(2) by (metis Inr_inject)
  have "\<exists>r. check_history (?on t h) (part_of t s1) = Some r" for t using step [of t] s1(3) [of t] by auto
  with Cons.IH [OF s1(2)] Cons.prems(2) obtain s' where s': "rfold (\<lambda>s p. apply_ops (fst p) s) s1 h = Inr s'"
    "\<And>t. check_history (?on t h) (part_of t s1) = Some (part_of t s')"
    "\<And>h1 u d h2. h = h1 @ (u, d) # h2 \<Longrightarrow> \<exists>s0 s1' s2. rfold (\<lambda>s p. apply_ops (fst p) s) s1 h1 = Inr s0 \<and>
       apply_ops u s0 = Inr s1' \<and> apply_ops d s1' = Inr s2 \<and> same_schema s2 s0" by auto
  have "check_history (?on t (x # h)) (part_of t s) = Some (part_of t s')" for t
    using step [of t] s1(3) [of t] s'(2) [of t] by auto
  moreover have "\<exists>s0 s1 s2. rfold (\<lambda>s p. apply_ops (fst p) s) s h1 = Inr s0 \<and> apply_ops u' s0 = Inr s1 \<and> apply_ops d' s1 = Inr s2 \<and>
      same_schema s2 s0" if "x # h = h1 @ (u', d') # h2" for h1 u' d' h2
  proof (cases h1)
    case Nil
    with that s1(1) s2(1) same show ?thesis by (auto simp: x)
  next
    case (Cons y ys)
    with that s'(3) [of ys u' d' h2] s1(1) show ?thesis by (auto simp: x)
  qed
  ultimately show ?case using s'(1) s1(1) by (intro exI [of _ s']) (auto simp: x)
qed simp

section \<open>The scripts checked\<close>

lemma group_a: "group_checked script_parts tables_a"
  by code_simp

lemma group_c: "group_checked script_parts tables_c"
  by code_simp

lemma group_erc1: "group_checked script_parts tables_erc1"
  by code_simp

lemma group_erc7: "group_checked script_parts tables_erc7"
  by code_simp

lemma group_ex: "group_checked script_parts tables_ex"
  by code_simp

lemma group_m: "group_checked script_parts tables_m"
  by code_simp

lemma group_t: "group_checked script_parts tables_t"
  by code_simp

lemma all_tables_grouped: "every_op (\<lambda>p. begins all_beginnings (op_table p)) script_parts"
  by code_simp

lemma homes_ok: "homes_checked [''e'', ''t'', ''i'', ''b'', ''c'', ''l'', ''a'', ''f''] (index_homes script_parts)"
  by code_simp

lemma migrations_parts: "map (\<lambda>m. (mg_upgrade m, mg_downgrade m)) migrations = map (\<lambda>(u, d). (concat u, concat d)) script_parts"
  by (simp add: migrations_def script_parts_def base_version_def tokens_block_number_def api_server_table_def index_table_optimize_def sync_record_table_def feature_records_def user_ops_table_def l2_chain_table_def uniswap_v2_table_def exception_recorder_table_def contracts_transaction_from_def current_traits_activeness_def)

section \<open>From the checks to the schema\<close>

lemma ops_on_concat: "ops_on t (concat u) = concat (map (ops_on t) u)"
  by (induction u) (simp_all add: ops_on_def)

lemma ops_on_all: "map (\<lambda>(u, d). (ops_on t u, ops_on t d)) (map (\<lambda>(u, d). (concat u, concat d)) h) = parts_on t h"
  by (simp add: parts_on_def ops_on_concat split_beta)

lemma parts_on_starting:
  assumes "begins qs t"
  shows "parts_on t (parts_starting qs h) = parts_on t h"
proof -
  have "ops_on t (filter (\<lambda>p. begins qs (op_table p)) ps) = ops_on t ps" for ps
    using assms by (induction ps) (auto simp: ops_on_def)
  then show ?thesis by (simp add: parts_on_def parts_starting_def Let_def split_beta comp_def)
qed

lemma parts_on_untouched:
  assumes "every_op (\<lambda>p. op_table p \<noteq> t) h"
  shows "check_history (parts_on t h) s = Some s"
proof -
  have "concat (map (ops_on t) u) = []" if "list_all (list_all (\<lambda>p. op_table p \<noteq> t)) u" for u
    using that by (induction u) (auto simp: ops_on_def list_all_iff)
  with assms show ?thesis by (induction h) (auto simp: every_op_def parts_on_def)
qed

lemma every_op_starting:
  "every_op P (parts_starting qs h) = every_op (\<lambda>p. begins qs (op_table p) \<longrightarrow> P p) h"
  by (induction h) (auto simp: every_op_def parts_starting_def Let_def list_all_iff)

lemma model_checked_starting:
  "begins qs (tm_tablename m) \<Longrightarrow> model_checked (parts_starting qs h) m = model_checked h m"
  by (simp add: model_checked_def parts_on_starting)

lemma dropped_checked_starting: "begins qs t \<Longrightarrow> dropped_checked (parts_starting qs h) t = dropped_checked h t"
  by (simp add: dropped_checked_def parts_on_starting)

lemma all_checked_iff: "all_checked h ms ds \<longleftrightarrow> list_all (model_checked h) ms \<and> list_all (dropped_checked h) ds"
  by (induction h ms ds rule: all_checked.induct) auto

lemma group_checkedE:
  assumes "group_checked h (qs, ms, dropped)"
  obtains "list_all (model_checked h) ms" and "list_all (dropped_checked h) dropped"
    and "every_op (\<lambda>p. begins qs (op_table p) \<longrightarrow> op_table p \<in> set (map tm_tablename ms @ dropped)) h"
  using assms by (auto simp: all_checked_iff list_all_iff model_checked_starting dropped_checked_starting every_op_starting)

lemma every_op_mono: "\<lbrakk>every_op P h; \<And>p. P p \<Longrightarrow> Q p\<rbrakk> \<Longrightarrow> every_op Q h"
  by (auto simp: every_op_def list_all_iff split_beta)

lemma every_op_conj: "every_op (\<lambda>p. P p \<and> Q p) h \<longleftrightarrow> every_op P h \<and> every_op Q h"
  by (auto simp: every_op_def list_all_iff split_beta)

lemma every_op_iff: "every_op P h \<longleftrightarrow> (\<forall>(u, d) \<in> set h. \<forall>ps \<in> set u \<union> set d. \<forall>p \<in> set ps. P p)"
  by (auto simp: every_op_def list_all_iff split_beta)

lemma groups_checked: "list_all (group_checked script_parts) table_groups"
  by (simp add: table_groups_def group_a group_c group_erc1 group_erc7 group_ex group_m group_t)

lemma beginnings_of_groups: "begins all_beginnings n \<longleftrightarrow> list_ex (\<lambda>g. begins (fst g) n) table_groups"
  by (simp add: begins_def all_beginnings_def table_groups_def tables_a_def tables_c_def tables_erc1_def tables_erc7_def tables_ex_def tables_m_def tables_t_def)

lemma models_of_groups: "set (concat (map (fst \<circ> snd) table_groups)) = set all_models"
  by (auto simp: all_models_def table_groups_def tables_a_def tables_c_def tables_erc1_def tables_erc7_def tables_ex_def tables_m_def tables_t_def)

lemma models_checked: "m \<in> set all_models \<Longrightarrow> model_checked script_parts m"
  using groups_checked unfolding models_of_groups [symmetric]
  by (auto simp: list_all_iff elim!: group_checkedE)

lemma others_dropped:
  assumes "t \<notin> tm_tablename ` set all_models"
  shows "dropped_checked script_parts t"
proof (cases "\<exists>g \<in> set table_groups. t \<in> set (snd (snd g))")
  case True
  with groups_checked show ?thesis by (auto simp: list_all_iff elim!: group_checkedE)
next
  case False
  have "op_table p \<noteq> t" if p: "(u, d) \<in> set script_parts" "ps \<in> set u \<union> set d" "p \<in> set ps" for u d ps p
  proof
    assume t: "op_table p = t"
    from all_tables_grouped p have "begins all_beginnings t" unfolding every_op_iff t [symmetric] by blast
    then obtain qs ms ds where g: "(qs, ms, ds) \<in> set table_groups" "begins qs t"
      by (auto simp: beginnings_of_groups list_ex_iff)
    from groups_checked g(1) have "group_checked script_parts (qs, ms, ds)" unfolding list_all_iff by blast
    then have "every_op (\<lambda>p. begins qs (op_table p) \<longrightarrow> op_table p \<in> set (map tm_tablename ms @ ds)) script_parts"
      by (rule group_checkedE)
    with p g(2) have "t \<in> set (map tm_tablename ms @ ds)" unfolding every_op_iff t [symmetric] by blast
    moreover have "set ms \<subseteq> set all_models" using g(1) by (force simp: models_of_groups [symmetric])
    moreover have "t \<notin> set ds" using False g(1) by force
    ultimately show False using assms by auto
  qed
  then have "every_op (\<lambda>p. op_table p \<noteq> t) script_parts" unfolding every_op_iff by blast
  then show ?thesis by (simp add: dropped_checked_def parts_on_untouched empty_schema_def)
qed

lemma tables_checked: "\<exists>s. check_history (parts_on t script_parts) empty_schema = Some s"
  using models_checked others_dropped [of t]
  by (cases "t \<in> tm_tablename ` set all_models"; cases "check_history (parts_on t script_parts) empty_schema")
    (fastforce simp: model_checked_def dropped_checked_def)+

definition table_of_index :: "string \<Rightarrow> string" where
  "table_of_index i = the (map_of (index_homes script_parts) i)"

lemma consistentD: "\<lbrakk>consistent b; (i, t) \<in> set b\<rbrakk> \<Longrightarrow> map_of b i = Some t"
  by (induction b rule: consistent.induct) (auto split: option.splits dest: map_of_SomeD)

lemma homes_checkedD: "\<lbrakk>homes_checked qs cs; (i, t) \<in> set cs\<rbrakk> \<Longrightarrow> map_of cs i = Some t"
proof -
  assume a: "homes_checked qs cs" "(i, t) \<in> set cs"
  then obtain q where q: "q \<in> set qs" "begins [q] i" by (fastforce simp: homes_checked_def list_all_iff begins_def list_ex_iff)
  with a have "map_of (filter (\<lambda>p. begins [q] (fst p)) cs) i = Some t"
    by (intro consistentD) (auto simp: homes_checked_def list_all_iff)
  moreover have "map_of (filter (\<lambda>p. begins [q] (fst p)) xs) i = map_of xs i" for xs :: "(string \<times> string) list"
    using q(2) by (induction xs) auto
  ultimately show ?thesis by simp
qed

lemma index_home_homed: "(\<And>i t. (i, t) \<in> set (index_home p) \<Longrightarrow> H i = t) \<Longrightarrow> op_homed H p"
  by (cases p) auto

lemma set_index_homes: "set (index_homes h) = (\<Union>(u, d) \<in> set h. \<Union>ps \<in> set u \<union> set d. \<Union>p \<in> set ps. set (index_home p))"
  by (induction h) (auto simp: index_homes_def)

lemma scripts_homed:
  "\<forall>(u, d) \<in> set (map (\<lambda>(u, d). (concat u, concat d)) script_parts). \<forall>p \<in> set u \<union> set d. op_homed table_of_index p"
proof -
  have "(i, t) \<in> set (index_homes script_parts)"
    if "(u, d) \<in> set script_parts" "ps \<in> set u \<union> set d" "p \<in> set ps" "(i, t) \<in> set (index_home p)" for u d ps p i t
    unfolding set_index_homes using that by blast
  note home = homes_checkedD [OF homes_ok this]
  have "op_homed table_of_index p" if "(u, d) \<in> set script_parts" "ps \<in> set u \<union> set d" "p \<in> set ps" for u d ps p
    using home [OF that] by (intro index_home_homed) (simp add: table_of_index_def)
  then have "\<forall>(u, d) \<in> set script_parts. \<forall>ps \<in> set u \<union> set d. \<forall>p \<in> set ps. op_homed table_of_index p" by blast
  then show ?thesis by fastforce
qed

lemma part_of_empty: "part_of t empty_schema = empty_schema"
  by (simp add: part_of_def empty_schema_def)

lemma rfold_map: "rfold f s (map g xs) = rfold (\<lambda>s x. f s (g x)) s xs"
  by (induction xs arbitrary: s) (simp_all add: rbind_def split: sum.splits)

lemma upgrade_all_scripts:
  "upgrade_all ms s = rfold (\<lambda>s p. apply_ops (fst p) s) s (map (\<lambda>m. (mg_upgrade m, mg_downgrade m)) ms)"
  by (simp add: upgrade_all_def rfold_map)

lemma migrations_history:
  "\<exists>s. upgrade_all migrations empty_schema = Inr s \<and>
     (\<forall>t. check_history (parts_on t script_parts) empty_schema = Some (part_of t s)) \<and>
     (\<forall>ms m ms'. migrations = ms @ m # ms' \<longrightarrow> (\<exists>s0 s1 s2. upgrade_all ms empty_schema = Inr s0 \<and>
        apply_ops (mg_upgrade m) s0 = Inr s1 \<and> apply_ops (mg_downgrade m) s1 = Inr s2 \<and> same_schema s2 s0))"
proof -
  have "homed table_of_index empty_schema" by (simp add: homed_def empty_schema_def)
  from history_runs [OF this scripts_homed] tables_checked obtain s where
    s: "upgrade_all migrations empty_schema = Inr s" "\<forall>t. check_history (parts_on t script_parts) empty_schema = Some (part_of t s)"
    "\<forall>h1 u d h2. map (\<lambda>m. (mg_upgrade m, mg_downgrade m)) migrations = h1 @ (u, d) # h2 \<longrightarrow>
       (\<exists>s0 s1 s2. rfold (\<lambda>s p. apply_ops (fst p) s) empty_schema h1 = Inr s0 \<and>
         apply_ops u s0 = Inr s1 \<and> apply_ops d s1 = Inr s2 \<and> same_schema s2 s0)"
    unfolding ops_on_all part_of_empty upgrade_all_scripts migrations_parts by blast
  moreover have "\<exists>s0 s1 s2. upgrade_all ms empty_schema = Inr s0 \<and> apply_ops (mg_upgrade m) s0 = Inr s1 \<and>
      apply_ops (mg_downgrade m) s1 = Inr s2 \<and> same_schema s2 s0" if "migrations = ms @ m # ms'" for ms m ms'
  proof -
    let ?g = "\<lambda>m. (mg_upgrade m, mg_downgrade m)"
    have "map ?g migrations = map ?g ms @ ?g m # map ?g ms'" unfolding that by simp
    with s(3) show ?thesis unfolding upgrade_all_scripts by blast
  qed
  ultimately show ?thesis by blast
qed

lemma part_table: "sc_tables (part_of t s) = [(n, x)] \<Longrightarrow> n = t \<and> table_of s t = Inr x"
proof -
  assume a: "sc_tables (part_of t s) = [(n, x)]"
  then have "n = t" by (auto simp: part_of_def filter_eq_Cons_iff)
  with a table_of_part [of t s] show ?thesis by (simp add: table_of_def)
qed

lemma model_checkedE:
  assumes "model_checked h m" and "check_history (parts_on (tm_tablename m) h) empty_schema = Some s"
  obtains n x where "sc_tables s = [(n, x)]" and "columns_match m x" and "key_matches m x = (tm_tablename m \<notin> set other_keys)"
proof (cases "sc_tables s")
  case (Cons p ps)
  with assms that show ?thesis by (cases p; cases ps) (auto simp: model_checked_def)
qed (use assms in \<open>simp add: model_checked_def\<close>)

text \<open>Run one after the other on an empty database, the scripts make exactly the tables of the models, each with the columns
  of its model and their types; the primary key is that of the model except for the four tables of \<open>other_keys\<close>.\<close>

lemma migrations_build_models:
  "\<exists>s. upgrade_all migrations empty_schema = Inr s \<and> fst ` set (sc_tables s) = tm_tablename ` set all_models \<and>
     list_all (\<lambda>m. case table_of s (tm_tablename m) of
       Inr x \<Rightarrow> columns_match m x \<and> key_matches m x = (tm_tablename m \<notin> set other_keys) | Inl _ \<Rightarrow> False) all_models"
proof -
  obtain s where s: "upgrade_all migrations empty_schema = Inr s"
    "\<And>t. check_history (parts_on t script_parts) empty_schema = Some (part_of t s)" using migrations_history by blast
  have m: "\<exists>x. sc_tables (part_of (tm_tablename m) s) = [(tm_tablename m, x)] \<and> table_of s (tm_tablename m) = Inr x \<and>
      columns_match m x \<and> key_matches m x = (tm_tablename m \<notin> set other_keys)" if "m \<in> set all_models" for m
  proof -
    from models_checked [OF that] s(2) [of "tm_tablename m"] obtain n x where
      "sc_tables (part_of (tm_tablename m) s) = [(n, x)]" "columns_match m x" "key_matches m x = (tm_tablename m \<notin> set other_keys)"
      by (rule model_checkedE)
    with part_table [OF this(1)] show ?thesis by blast
  qed
  have "t \<in> fst ` set (sc_tables s) \<longleftrightarrow> t \<in> tm_tablename ` set all_models" for t
  proof (cases "t \<in> tm_tablename ` set all_models")
    case True
    with m show ?thesis by (subst table_name_part) force
  next
    case False
    with others_dropped [OF False] s(2) [of t] show ?thesis by (subst table_name_part) (auto simp: dropped_checked_def)
  qed
  moreover have "case table_of s (tm_tablename m) of Inr x \<Rightarrow> columns_match m x \<and> key_matches m x = (tm_tablename m \<notin> set other_keys)
      | Inl _ \<Rightarrow> False" if "m \<in> set all_models" for m
    using m [OF that] by auto
  ultimately show ?thesis using s(1) unfolding list_all_iff by blast
qed

text \<open>Downgrading by one script, wherever in the history, raises nothing and restores the tables, up to the order of their
  columns, their primary keys and their indexes.\<close>

lemma downgrade_restores:
  assumes "migrations = ms @ m # ms'"
  obtains s s1 s2 where "upgrade_all ms empty_schema = Inr s" and "apply_ops (mg_upgrade m) s = Inr s1"
    and "apply_ops (mg_downgrade m) s1 = Inr s2" and "same_schema s2 s"
  using migrations_history assms by blast

end
