(* ===== verification/Arbitrum.thy ===== *)
theory Arbitrum
  imports Abi Blocks Dataclass
begin

text \<open>
  \<open>indexer/modules/bridge\<close>: \<open>signature.py\<close>, the parser of the Arbitrum bridge
  (\<open>arb_parser.py\<close>, \<open>arb_rlp.py\<close>, \<open>arb_network.py\<close>), its records
  (\<open>domain/arbitrum.py\<close>) and the jobs on the two chains. \<open>rlp.encode\<close> and web3's
  \<open>decode_transaction_data\<close> are fields of \<open>bridge_ext\<close>. The values of a decoded log are read
  at the types of its ABI; \<open>TypeError\<close> stands for a codec that does not keep to them.
\<close>

section \<open>Third-party functions, and the values of decoded data\<close>

datatype rlp_item = RInt int | RBytes "byte list"

record bridge_ext =
  rlp_encode :: "rlp_item list \<Rightarrow> byte list res"
  decode_transaction_data :: "abi_input list \<Rightarrow> string \<Rightarrow> decoded res"

definition sig_decode_log :: "ext \<Rightarrow> event_abi \<Rightarrow> log \<Rightarrow> decoded res" where
  "sig_decode_log x e l =
     (let indexed_types = filter in_indexed (ev_inputs e);
          data_types = filter (\<lambda>i. \<not> in_indexed i) (ev_inputs e)
      in rbind (get_bytes_topics l) (\<lambda>topics.
         rbind (abi_decode x (map indexed_type indexed_types) topics) (\<lambda>decode_indexed.
         rbind (get_bytes_data l) (\<lambda>data.
         rbind (abi_decode x (map in_type data_types) data) (\<lambda>decoded_data.
         Inr (fold (\<lambda>(k, v). AList.update k v) (named_tree data_types decoded_data)
               (named_tree indexed_types decode_indexed)))))))"

definition ev_uint :: "decoded \<Rightarrow> string \<Rightarrow> int res" where
  "ev_uint d k = dec_uint (map_of d k)"

definition ev_addr :: "decoded \<Rightarrow> string \<Rightarrow> string res" where
  "ev_addr d k = (case map_of d k of Some (AAddress s) \<Rightarrow> Inr s | _ \<Rightarrow> Inl TypeError)"

definition ev_bytes :: "decoded \<Rightarrow> string \<Rightarrow> byte list res" where
  "ev_bytes d k = (case map_of d k of Some (ABytes b) \<Rightarrow> Inr b | _ \<Rightarrow> Inl TypeError)"

text \<open>\<open>Web3.to_bytes(hexstr=s)\<close> and \<open>Web3.to_hex(b)\<close>.\<close>

definition to_bytes_hexstr :: "string \<Rightarrow> byte list res" where
  "to_bytes_hexstr s =
     (let h = strip_0x s in bytes_fromhex (if odd (length h) then CHR ''0'' # h else h))"

abbreviation to_hex :: "byte list \<Rightarrow> string" where
  "to_hex \<equiv> bytes_to_hex_str"

section \<open>Networks\<close>

definition network_values :: "int list" where
  "network_values = [1, 3, 4, 5, 10, 16, 18, 19, 25, 30, 31, 42, 56, 66, 69, 97, 100, 106, 108, 114, 122, 128,
     137, 250, 288, 321, 324, 420, 592, 1088, 1284, 1285, 1287, 2001, 2222, 4002, 7700, 8217, 8453, 9000, 9001,
     17000, 42161, 42220, 42262, 43113, 43114, 71401, 71402, 80001, 421611, 421613, 11155111, 1313161554,
     1666600000, 369, 943, 5000, 53457]"

definition network_arbitrum :: int where "network_arbitrum = 42161"

definition network_dodo_testnet :: int where "network_dodo_testnet = 53457"

text \<open>An enumeration member is its value.\<close>

definition network_from_value :: "int \<Rightarrow> int res" where
  "network_from_value v =
     (case List.find (\<lambda>n. n = v) network_values of
        Some n \<Rightarrow> Inr n | None \<Rightarrow> Inl (ValueError ''Invalid network value''))"

section \<open>Identifiers of retryable tickets and deposits\<close>

text \<open>A message number is an integer or already bytes.\<close>

datatype message_number = NumInt int | NumBytes "byte list"

definition convert_int_bytes :: "message_number \<Rightarrow> nat \<Rightarrow> byte list res" where
  "convert_int_bytes v k = (case v of NumBytes b \<Rightarrow> Inr b | NumInt n \<Rightarrow> int_to_bytes k n)"

definition hex_tail :: "string \<Rightarrow> byte list res" where
  "hex_tail s = bytes_fromhex (drop 2 s)"

text \<open>\<open>Web3.keccak(hexstr=Web3.to_hex(prefix + rlp.encode(fields))).hex()\<close>\<close>

definition hash_fields :: "ext \<Rightarrow> bridge_ext \<Rightarrow> byte \<Rightarrow> rlp_item list \<Rightarrow> string res" where
  "hash_fields x bx prefix items =
     rbind (rlp_encode bx items) (\<lambda>encoded_data. Inr (to_hex (keccak x (prefix # encoded_data))))"

definition zero_address_hex :: string where
  "zero_address_hex = ''0x0000000000000000000000000000000000000000''"

definition calculate_submit_retryable_id :: "ext \<Rightarrow> bridge_ext \<Rightarrow> int \<Rightarrow> message_number \<Rightarrow> string \<Rightarrow> int \<Rightarrow> string
    \<Rightarrow> int \<Rightarrow> int \<Rightarrow> int \<Rightarrow> string \<Rightarrow> string \<Rightarrow> int \<Rightarrow> int \<Rightarrow> string \<Rightarrow> string res" where
  "calculate_submit_retryable_id x bx l2_chain_id message_number from_address l1_base_fee dest_address
     l2_call_value l1_value max_submission_fee excess_fee_refund_address call_value_refund_address
     gas_limit max_fee_per_gas data =
     (let r_dest_address = (if dest_address \<noteq> zero_address_hex then dest_address else ''0x'')
      in rbind (convert_int_bytes message_number 32) (\<lambda>num.
         rbind (hex_tail from_address) (\<lambda>from_bytes.
         rbind (hex_tail r_dest_address) (\<lambda>dest_bytes.
         rbind (hex_tail call_value_refund_address) (\<lambda>call_value_bytes.
         rbind (hex_tail excess_fee_refund_address) (\<lambda>excess_fee_bytes.
         rbind (hex_tail data) (\<lambda>data_bytes.
         hash_fields x bx 0x69
           [RInt l2_chain_id, RBytes num, RBytes from_bytes, RInt l1_base_fee, RInt l1_value,
            RInt max_fee_per_gas, RInt gas_limit, RBytes dest_bytes, RInt l2_call_value,
            RBytes call_value_bytes, RInt max_submission_fee, RBytes excess_fee_bytes, RBytes data_bytes])))))))"

definition calculate_deposit_tx_id :: "ext \<Rightarrow> bridge_ext \<Rightarrow> int \<Rightarrow> message_number \<Rightarrow> string \<Rightarrow> string \<Rightarrow> int
    \<Rightarrow> string res" where
  "calculate_deposit_tx_id x bx l2_chain_id message_number from_address to_address v =
     rbind (convert_int_bytes message_number 32) (\<lambda>num.
     rbind (hex_tail from_address) (\<lambda>from_bytes.
     rbind (hex_tail to_address) (\<lambda>to_bytes.
     hash_fields x bx 0x64 [RInt l2_chain_id, RBytes num, RBytes from_bytes, RBytes to_bytes, RInt v])))"

section \<open>Events and functions\<close>

definition MESSAGE_DELIVERED_EVENT :: event_abi where
  "MESSAGE_DELIVERED_EVENT = \<lparr>ev_name = ''MessageDelivered'', ev_inputs =
     [indexed_input ''messageIndex'' ''uint256'', indexed_input ''beforeInboxAcc'' ''bytes32'',
      data_input ''inbox'' ''address'', data_input ''kind'' ''uint8'', data_input ''sender'' ''address'',
      data_input ''messageDataHash'' ''bytes32'', data_input ''baseFeeL1'' ''uint256'',
      data_input ''timestamp'' ''uint64'']\<rparr>"

definition INBOX_MESSAGE_DELIVERED_EVENT :: event_abi where
  "INBOX_MESSAGE_DELIVERED_EVENT = \<lparr>ev_name = ''InboxMessageDelivered'', ev_inputs =
     [indexed_input ''messageNum'' ''uint256'', data_input ''data'' ''bytes'']\<rparr>"

definition BRIDGE_CALL_TRIGGERED_EVENT :: event_abi where
  "BRIDGE_CALL_TRIGGERED_EVENT = \<lparr>ev_name = ''BridgeCallTriggered'', ev_inputs =
     [indexed_input ''outbox'' ''address'', indexed_input ''to'' ''address'',
      data_input ''value'' ''uint256'', data_input ''data'' ''bytes'']\<rparr>"

definition TICKET_CREATED_EVENT :: event_abi where
  "TICKET_CREATED_EVENT = \<lparr>ev_name = ''TicketCreated'', ev_inputs = [indexed_input ''ticketId'' ''bytes32'']\<rparr>"

definition L2ToL1Tx_64_EVENT :: event_abi where
  "L2ToL1Tx_64_EVENT = \<lparr>ev_name = ''L2ToL1Tx'', ev_inputs =
     [data_input ''caller'' ''address'', indexed_input ''destination'' ''address'',
      indexed_input ''hash'' ''uint256'', indexed_input ''position'' ''uint256'',
      data_input ''arbBlockNum'' ''uint256'', data_input ''ethBlockNum'' ''uint256'',
      data_input ''timestamp'' ''uint256'', data_input ''callvalue'' ''uint256'', data_input ''data'' ''bytes'']\<rparr>"

text \<open>The time bounds of a batch are a tuple, which the topic spells out.\<close>

definition SEQUENCER_BATCH_DELIVERED_EVENT :: event_abi where
  "SEQUENCER_BATCH_DELIVERED_EVENT = \<lparr>ev_name = ''SequencerBatchDelivered'', ev_inputs =
     [indexed_input ''batchSequenceNumber'' ''uint256'', indexed_input ''beforeAcc'' ''bytes32'',
      indexed_input ''afterAcc'' ''bytes32'', data_input ''delayedAcc'' ''bytes32'',
      data_input ''afterDelayedMessagesRead'' ''uint256'',
      data_input ''timeBounds'' ''(uint64,uint64,uint64,uint64)'', data_input ''dataLocation'' ''uint8'']\<rparr>"

definition NODE_CREATED_EVENT_SIG :: string where
  "NODE_CREATED_EVENT_SIG = ''0x4f4caa9e67fb994e349dd35d1ad0ce23053d4323f83ce11dc817b5435031d096''"

definition NODE_CONFIRMED_EVENT :: event_abi where
  "NODE_CONFIRMED_EVENT = \<lparr>ev_name = ''NodeConfirmed'', ev_inputs =
     [indexed_input ''nodeNum'' ''uint64'', data_input ''blockHash'' ''bytes32'', data_input ''sendRoot'' ''bytes32'']\<rparr>"

definition NODE_CONFIRMED_EVENT_SIG :: string where
  "NODE_CONFIRMED_EVENT_SIG = ''0x22ef0479a7ff660660d1c2fe35f1b632cf31675c2d9378db8cec95b00d8ffa3c''"

definition BEACON_UPGRADED_EVENT :: event_abi where
  "BEACON_UPGRADED_EVENT = \<lparr>ev_name = ''BeaconUpgraded'', ev_inputs = [indexed_input ''beacon'' ''address'']\<rparr>"

definition DEPOSIT_FINALIZED_EVENT :: event_abi where
  "DEPOSIT_FINALIZED_EVENT = \<lparr>ev_name = ''DepositFinalized'', ev_inputs =
     [indexed_input ''sender'' ''address'', indexed_input ''receiver'' ''address'',
      data_input ''token'' ''address'', data_input ''amount'' ''uint256'']\<rparr>"

definition EXECUTE_TRANSACTION_INPUTS :: "abi_input list" where
  "EXECUTE_TRANSACTION_INPUTS =
     [data_input ''proof'' ''bytes32[]'', data_input ''index'' ''uint256'', data_input ''l2Sender'' ''address'',
      data_input ''to'' ''address'', data_input ''l2Block'' ''uint256'', data_input ''l1Block'' ''uint256'',
      data_input ''l2Timestamp'' ''uint256'', data_input ''value'' ''uint256'', data_input ''data'' ''bytes'']"

definition FROM_BLOBS_INPUTS :: "abi_input list" where
  "FROM_BLOBS_INPUTS =
     [data_input ''sequenceNumber'' ''uint256'', data_input ''afterDelayedMessagesRead'' ''uint256'',
      data_input ''gasRefunder'' ''address'', data_input ''prevMessageCount'' ''uint256'',
      data_input ''newMessageCount'' ''uint256'']"

definition FROM_ORIGIN_INPUTS :: "abi_input list" where
  "FROM_ORIGIN_INPUTS =
     [data_input ''sequenceNumber'' ''uint256'', data_input ''data'' ''bytes'',
      data_input ''afterDelayedMessagesRead'' ''uint256'', data_input ''gasRefunder'' ''address'',
      data_input ''prevMessageCount'' ''uint256'', data_input ''newMessageCount'' ''uint256'']"

definition OUT_BOUND_TRANSFER_INPUTS :: "abi_input list" where
  "OUT_BOUND_TRANSFER_INPUTS =
     [data_input ''_l1Token'' ''address'', data_input ''_to'' ''address'', data_input ''_amount'' ''uint256'',
      data_input ''a'' ''uint256'', data_input ''b'' ''uint256'', data_input ''_data'' ''bytes'']"

text \<open>The selector of a function is computed from the types of its inputs.\<close>

definition selector_of :: "ext \<Rightarrow> string \<Rightarrow> abi_input list \<Rightarrow> string" where
  "selector_of x n ins =
     function_abi_to_4byte_selector_str x \<lparr>fn_name = n, fn_inputs = map in_type ins, fn_outputs = []\<rparr>"

section \<open>Records\<close>

record L2ToL1Tx_64 =
  lt_msg_hash :: int
  lt_l2_block_number :: "int option"
  lt_l2_block_timestamp :: "int option"
  lt_l2_block_hash :: "string option"
  lt_l2_transaction_hash :: string
  lt_l2_from_address :: string
  lt_l2_to_address :: "string option"
  lt_l2_token_address :: "string option"
  lt_caller :: string
  lt_destination :: string
  lt_hash :: string
  lt_position :: int
  lt_arbBlockNum :: int
  lt_ethBlockNum :: int
  lt_timestamp :: int
  lt_callvalue :: int
  lt_data :: "byte list"

record MessageDeliveredData =
  md_msg_hash :: "string option"
  md_block_number :: "int option"
  md_block_timestamp :: "int option"
  md_block_hash :: "string option"
  md_transaction_hash :: string
  md_from_address :: string
  md_to_address :: "string option"
  md_bridge_from_address :: string
  md_bridge_to_address :: string
  md_extra_info :: "(string \<times> int) list"
  md_beforeInboxAcc :: "byte list"
  md_messageIndex :: int
  md_inbox :: string
  md_kind :: int
  md_sender :: string
  md_messageDataHash :: "byte list"
  md_baseFeeL1 :: int
  md_timestamp :: int

record InboxMessageDeliveredData =
  ib_transaction_hash :: string
  ib_msg_number :: int
  ib_data :: "byte list"

record ArbitrumL1ToL2TransactionOnL1 =
  a1_msg_hash :: string
  a1_index :: int
  a1_l1_block_number :: "int option"
  a1_l1_block_timestamp :: "int option"
  a1_l1_block_hash :: "string option"
  a1_l1_transaction_hash :: string
  a1_l1_from_address :: string
  a1_l1_to_address :: "string option"
  a1_l1_token_address :: "string option"
  a1_l2_token_address :: "string option"
  a1_from_address :: string
  a1_to_address :: string
  a1_amount :: int
  a1_extra_info :: "(string \<times> int) list"
  a1_type :: int

record ArbitrumL2ToL1TransactionOnL1 =
  a2_msg_hash :: int
  a2_l1_transaction_hash :: string
  a2_l1_block_number :: "int option"
  a2_l1_block_timestamp :: "int option"
  a2_l1_block_hash :: "string option"
  a2_l1_from_address :: string
  a2_l1_to_address :: "string option"

record TicketCreatedData =
  tc_msg_hash :: string
  tc_transaction_hash :: string
  tc_block_number :: "int option"
  tc_block_timestamp :: "int option"
  tc_block_hash :: "string option"
  tc_from_address :: string
  tc_to_address :: "string option"

record BridgeCallTriggeredData =
  bc_msg_hash :: int
  bc_l1_transaction_hash :: string
  bc_l1_block_number :: "int option"
  bc_l1_block_timestamp :: "int option"
  bc_l1_block_hash :: "string option"
  bc_l1_from_address :: string
  bc_l1_to_address :: "string option"
  bc_outbox :: string
  bc_to :: string
  bc_value :: int
  bc_data :: "byte list"

record TransactionToken =
  tt_transaction_hash :: string
  tt_l1Token :: string
  tt_amount :: int

record ArbitrumTransactionBatch =
  ab_batch_index :: int
  ab_l1_block_number :: "int option"
  ab_l1_block_timestamp :: "int option"
  ab_l1_block_hash :: "string option"
  ab_l1_transaction_hash :: string
  ab_end_block_number :: int
  ab_start_block_number :: int
  ab_transaction_count :: "int option"

record ArbitrumStateBatchConfirmed =
  sc_node_num :: int
  sc_block_hash :: string
  sc_send_root :: string
  sc_l1_block_number :: "int option"
  sc_l1_block_timestamp :: "int option"
  sc_l1_block_hash :: "string option"
  sc_l1_transaction_hash :: string
  sc_end_block_number :: "int option"
  sc_start_block_number :: "int option"
  sc_transaction_count :: "int option"

record ArbitrumStateBatchCreated =
  sb_node_num :: int
  sb_create_l1_block_number :: "int option"
  sb_create_l1_block_timestamp :: "int option"
  sb_create_l1_block_hash :: "string option"
  sb_create_l1_transaction_hash :: string
  sb_parent_node_hash :: "string option"
  sb_node_hash :: "string option"

record BridgeToken =
  bt_l1_token_address :: string
  bt_l2_token_address :: string

record ArbitrumL2ToL1TransactionOnL2 =
  a3_msg_hash :: int
  a3_index :: "int option"
  a3_l2_block_number :: "int option"
  a3_l2_block_timestamp :: "int option"
  a3_l2_block_hash :: "string option"
  a3_l2_transaction_hash :: string
  a3_l2_from_address :: string
  a3_l2_to_address :: "string option"
  a3_amount :: int
  a3_from_address :: string
  a3_to_address :: string
  a3_l1_token_address :: "string option"
  a3_l2_token_address :: "string option"
  a3_extra_info :: "(string \<times> int) list"

record ArbitrumL1ToL2TransactionOnL2 =
  a4_msg_hash :: string
  a4_l2_block_number :: "int option"
  a4_l2_block_timestamp :: "int option"
  a4_l2_block_hash :: string
  a4_l2_transaction_hash :: string
  a4_l2_from_address :: string
  a4_l2_to_address :: "string option"

datatype arb_item =
    L1ToL2OnL1 ArbitrumL1ToL2TransactionOnL1
  | L2ToL1OnL1 ArbitrumL2ToL1TransactionOnL1
  | TransactionBatch ArbitrumTransactionBatch
  | StateBatchCreated ArbitrumStateBatchCreated
  | StateBatchConfirmed ArbitrumStateBatchConfirmed
  | L1ToL2OnL2 ArbitrumL1ToL2TransactionOnL2
  | L2ToL1OnL2 ArbitrumL2ToL1TransactionOnL2
  | TokenPair BridgeToken

text \<open>\<open>data.type()\<close> is the class name in snake case.\<close>

fun arb_item_type :: "arb_item \<Rightarrow> string" where
  "arb_item_type (L1ToL2OnL1 _) = to_snake_case ''ArbitrumL1ToL2TransactionOnL1''"
| "arb_item_type (L2ToL1OnL1 _) = to_snake_case ''ArbitrumL2ToL1TransactionOnL1''"
| "arb_item_type (TransactionBatch _) = to_snake_case ''ArbitrumTransactionBatch''"
| "arb_item_type (StateBatchCreated _) = to_snake_case ''ArbitrumStateBatchCreated''"
| "arb_item_type (StateBatchConfirmed _) = to_snake_case ''ArbitrumStateBatchConfirmed''"
| "arb_item_type (L1ToL2OnL2 _) = to_snake_case ''ArbitrumL1ToL2TransactionOnL2''"
| "arb_item_type (L2ToL1OnL2 _) = to_snake_case ''ArbitrumL2ToL1TransactionOnL2''"
| "arb_item_type (TokenPair _) = to_snake_case ''BridgeToken''"

section \<open>Parsing\<close>

definition strip_bytes_leading_zeros :: "byte list \<Rightarrow> byte list" where
  "strip_bytes_leading_zeros b =
     (if b \<noteq> replicate 32 0 then dropWhile (\<lambda>c. c = 0) b else replicate 20 0)"

definition strip_leading_zeros :: "string \<Rightarrow> string res" where
  "strip_leading_zeros hex_str =
     (if \<not> startswith hex_str ''0x'' then Inl (ValueError ''hex_str should start with 0x'')
      else rbind (to_bytes_hexstr hex_str) (\<lambda>bs. Inr (to_hex (strip_bytes_leading_zeros bs))))"

text \<open>\<open>x and strip_leading_zeros(x)\<close> on an optional string, \<open>None\<close> and the empty one giving \<open>None\<close>.\<close>

definition strip_optional :: "string option \<Rightarrow> string option res" where
  "strip_optional a =
     (case a of None \<Rightarrow> Inr None
      | Some s \<Rightarrow> if s = [] then Inr None else rbind (strip_leading_zeros s) (\<lambda>t. Inr (Some t)))"

definition receipt_logs :: "transaction \<Rightarrow> log list res" where
  "receipt_logs t = (case tx_receipt t of None \<Rightarrow> Inl AttributeError | Some r \<Rightarrow> Inr (rc_logs r))"

definition log_from :: "string \<Rightarrow> string list \<Rightarrow> log \<Rightarrow> bool" where
  "log_from sig contract_set l \<longleftrightarrow> lg_topic0 l = Some sig \<and> lg_address l \<in> set contract_set"

text \<open>The loop of the parsers over the logs of the bridge's contracts with a given first topic.\<close>

definition parse_logs :: "string \<Rightarrow> (transaction \<Rightarrow> log \<Rightarrow> 'a res) \<Rightarrow> transaction \<Rightarrow> string list \<Rightarrow> 'a list res" where
  "parse_logs sig f transaction contract_set =
     rbind (receipt_logs transaction) (\<lambda>logs.
       rmap (f transaction) (filter (log_from sig contract_set) logs))"

definition inbox_message :: "ext \<Rightarrow> transaction \<Rightarrow> log \<Rightarrow> InboxMessageDeliveredData res" where
  "inbox_message x t l =
     rbind (sig_decode_log x INBOX_MESSAGE_DELIVERED_EVENT l) (\<lambda>event.
     rbind (ev_uint event ''messageNum'') (\<lambda>message_num.
     rbind (ev_bytes event ''data'') (\<lambda>data.
     Inr \<lparr>ib_transaction_hash = tx_hash t, ib_msg_number = message_num, ib_data = data\<rparr>)))"

definition parse_inbox_message_delivered :: "ext \<Rightarrow> transaction \<Rightarrow> string list
    \<Rightarrow> InboxMessageDeliveredData list res" where
  "parse_inbox_message_delivered x =
     parse_logs (event_log_abi_to_topic x INBOX_MESSAGE_DELIVERED_EVENT) (inbox_message x)"

definition message_delivered :: "ext \<Rightarrow> transaction \<Rightarrow> log \<Rightarrow> MessageDeliveredData res" where
  "message_delivered x t l =
     rbind (sig_decode_log x MESSAGE_DELIVERED_EVENT l) (\<lambda>event.
     rbind (ev_uint event ''messageIndex'') (\<lambda>messageIndex.
     rbind (ev_bytes event ''beforeInboxAcc'') (\<lambda>beforeInboxAcc.
     rbind (ev_addr event ''inbox'') (\<lambda>inbox.
     rbind (ev_uint event ''kind'') (\<lambda>kind.
     rbind (ev_addr event ''sender'') (\<lambda>sender.
     rbind (ev_bytes event ''messageDataHash'') (\<lambda>messageDataHash.
     rbind (ev_uint event ''baseFeeL1'') (\<lambda>baseFeeL1.
     rbind (ev_uint event ''timestamp'') (\<lambda>timestamp.
     Inr \<lparr>md_msg_hash = None, md_block_number = tx_block_number t, md_block_timestamp = tx_block_timestamp t,
        md_block_hash = tx_block_hash t, md_transaction_hash = tx_hash t,
        md_from_address = tx_from_address t, md_to_address = tx_to_address t,
        md_bridge_from_address = sender, md_bridge_to_address = sender,
        md_extra_info = [(''fee'', baseFeeL1), (''kind'', kind)], md_beforeInboxAcc = beforeInboxAcc,
        md_messageIndex = messageIndex, md_inbox = inbox, md_kind = kind, md_sender = sender,
        md_messageDataHash = messageDataHash, md_baseFeeL1 = baseFeeL1, md_timestamp = timestamp\<rparr>)))))))))"

definition parse_message_delivered :: "ext \<Rightarrow> transaction \<Rightarrow> string list \<Rightarrow> MessageDeliveredData list res" where
  "parse_message_delivered x =
     parse_logs (event_log_abi_to_topic x MESSAGE_DELIVERED_EVENT) (message_delivered x)"

definition ticket_created :: "ext \<Rightarrow> transaction \<Rightarrow> log \<Rightarrow> TicketCreatedData res" where
  "ticket_created x t l =
     rbind (sig_decode_log x TICKET_CREATED_EVENT l) (\<lambda>event.
     rbind (ev_bytes event ''ticketId'') (\<lambda>ticket.
     Inr \<lparr>tc_msg_hash = to_hex ticket, tc_transaction_hash = tx_hash t, tc_block_number = tx_block_number t,
        tc_block_timestamp = tx_block_timestamp t, tc_block_hash = tx_block_hash t,
        tc_from_address = tx_from_address t, tc_to_address = tx_to_address t\<rparr>))"

definition parse_ticket_created_event :: "ext \<Rightarrow> transaction \<Rightarrow> string list \<Rightarrow> TicketCreatedData list res" where
  "parse_ticket_created_event x =
     parse_logs (event_log_abi_to_topic x TICKET_CREATED_EVENT) (ticket_created x)"

text \<open>The call of a gateway that a message to the other chain carries: selector, token, sender, receiver,
  amount and the rest; nothing is read from an empty message.\<close>

definition un_marshal_tx_to_l1 :: "byte list \<Rightarrow> byte list \<times> string option \<times> string \<times> string \<times> int \<times> string" where
  "un_marshal_tx_to_l1 data =
     (if data = [] then ([], None, to_hex (replicate 20 0), to_hex (replicate 20 0), 0, [])
      else (Prelude.slice 0 4 data, Some (to_hex (Prelude.slice 4 36 data)), to_hex (Prelude.slice 36 68 data),
        to_hex (Prelude.slice 68 100 data), int_from_bytes (Prelude.slice 100 132 data), to_hex (drop 132 data)))"

text \<open>An address is still the bytes it was initialised with, or a hexadecimal string.\<close>

datatype addr_val = AddrBytes "byte list" | AddrHex string

definition strip_address :: "addr_val \<Rightarrow> string res" where
  "strip_address a = (case a of AddrBytes _ \<Rightarrow> Inl TypeError | AddrHex s \<Rightarrow> strip_leading_zeros s)"

record inbox_data =
  id_destAddress :: addr_val
  id_l2CallValue :: int
  id_msgValue :: int
  id_gasLimit :: int
  id_maxSubmissionCost :: int
  id_excessFeeRefundAddress :: addr_val
  id_callValueRefundAddress :: addr_val
  id_maxFeePerGas :: int
  id_dataBytes :: string
  id_l1TokenId :: "string option"
  id_l1TokenAmount :: int

definition default_inbox_data :: inbox_data where
  "default_inbox_data = \<lparr>id_destAddress = AddrBytes (replicate 20 0), id_l2CallValue = 0, id_msgValue = 0,
     id_gasLimit = 0, id_maxSubmissionCost = 0, id_excessFeeRefundAddress = AddrBytes (replicate 20 0),
     id_callValueRefundAddress = AddrBytes (replicate 20 0), id_maxFeePerGas = 0, id_dataBytes = ''0x'',
     id_l1TokenId = None, id_l1TokenAmount = 0\<rparr>"

text \<open>The token and the amount in the data of a retryable ticket, by chain.\<close>

definition retryable_token :: "int \<Rightarrow> byte list \<Rightarrow> (string option \<times> int) res" where
  "retryable_token chain_id restData =
     (if chain_id = network_arbitrum
      then Inr (None, if 68 \<le> length restData then int_from_bytes (Prelude.slice 36 68 restData) else 0)
      else if chain_id = network_dodo_testnet
      then rbind (if 36 \<le> length restData
                  then rbind (strip_leading_zeros (to_hex (Prelude.slice 4 36 restData))) (\<lambda>t. Inr (Some t))
                  else Inr None)
             (\<lambda>l1TokenId.
               Inr (l1TokenId, if 100 \<le> length restData then int_from_bytes (Prelude.slice 100 132 restData) else 0))
      else Inr (None, 0))"

text \<open>\<open>data.length\<close> of the kinds 0 and 1 does not exist; after kind -1 the kind is a byte string, which
  no case covers.\<close>

definition un_marshal_inbox_message_delivered_data :: "int \<Rightarrow> byte list \<Rightarrow> int \<Rightarrow> inbox_data res" where
  "un_marshal_inbox_message_delivered_data kind data chain_id =
     (if kind = 11 then Inr default_inbox_data
      else if kind = 0 \<or> kind = 1 then Inl AttributeError
      else if kind = 9 then
        (let dataLength = int_from_bytes (Prelude.slice 256 288 data)
         in rbind (retryable_token chain_id (drop 288 data)) (\<lambda>(l1TokenId, l1TokenAmount).
            Inr \<lparr>id_destAddress = AddrHex (to_hex (Prelude.slice 0 32 data)),
               id_l2CallValue = int_from_bytes (Prelude.slice 32 64 data),
               id_msgValue = int_from_bytes (Prelude.slice 64 96 data),
               id_gasLimit = int_from_bytes (Prelude.slice 192 224 data),
               id_maxSubmissionCost = int_from_bytes (Prelude.slice 96 128 data),
               id_excessFeeRefundAddress = AddrHex (to_hex (Prelude.slice 128 160 data)),
               id_callValueRefundAddress = AddrHex (to_hex (Prelude.slice 160 192 data)),
               id_maxFeePerGas = int_from_bytes (Prelude.slice 224 256 data),
               id_dataBytes = to_hex (Prelude.slice 288 (288 + nat dataLength) data),
               id_l1TokenId = l1TokenId,
               id_l1TokenAmount = l1TokenAmount\<rparr>))
      else if kind = 3 \<or> kind = 13 then Inr default_inbox_data
      else if kind = 12 then
        (let msgValue = int_from_bytes (Prelude.slice 20 52 data)
         in Inr (default_inbox_data\<lparr>id_destAddress := AddrHex (to_hex (Prelude.slice 0 20 data)),
                   id_msgValue := msgValue, id_l1TokenAmount := msgValue\<rparr>))
      else Inl (OtherException ''uncovered case''))"

definition l2_to_l1_tx_64 :: "ext \<Rightarrow> transaction \<Rightarrow> log \<Rightarrow> L2ToL1Tx_64 res" where
  "l2_to_l1_tx_64 x t l =
     rbind (sig_decode_log x L2ToL1Tx_64_EVENT l) (\<lambda>event.
     rbind (ev_uint event ''position'') (\<lambda>msgNumber.
     rbind (ev_bytes event ''data'') (\<lambda>data.
     case un_marshal_tx_to_l1 data of (selector, token, origin, recipient, amount0, restData) \<Rightarrow>
     rbind (if amount0 = 0 then ev_uint event ''callvalue'' else Inr amount0) (\<lambda>amount.
     rbind (strip_optional token) (\<lambda>l2_token_address.
     rbind (ev_addr event ''caller'') (\<lambda>caller.
     rbind (ev_addr event ''destination'') (\<lambda>destination.
     rbind (ev_uint event ''hash'') (\<lambda>hash.
     rbind (ev_uint event ''arbBlockNum'') (\<lambda>arbBlockNum.
     rbind (ev_uint event ''ethBlockNum'') (\<lambda>ethBlockNum.
     rbind (ev_uint event ''timestamp'') (\<lambda>timestamp.
     Inr \<lparr>lt_msg_hash = msgNumber, lt_l2_block_number = tx_block_number t,
        lt_l2_block_timestamp = tx_block_timestamp t, lt_l2_block_hash = tx_block_hash t,
        lt_l2_transaction_hash = tx_hash t, lt_l2_from_address = tx_from_address t,
        lt_l2_to_address = tx_to_address t, lt_l2_token_address = l2_token_address, lt_caller = caller,
        lt_destination = destination, lt_hash = py_hex hash, lt_position = msgNumber,
        lt_arbBlockNum = arbBlockNum, lt_ethBlockNum = ethBlockNum, lt_timestamp = timestamp,
        lt_callvalue = amount, lt_data = data\<rparr>)))))))))))"

definition parse_l2_to_l1_tx_64_event :: "ext \<Rightarrow> transaction \<Rightarrow> string list \<Rightarrow> L2ToL1Tx_64 list res" where
  "parse_l2_to_l1_tx_64_event x = parse_logs (event_log_abi_to_topic x L2ToL1Tx_64_EVENT) (l2_to_l1_tx_64 x)"

text \<open>The sequence number and the message counts of a batch, read from the call that submits it; any
  other call leaves them 0.\<close>

definition batch_counts :: "bridge_ext \<Rightarrow> abi_input list \<Rightarrow> string \<Rightarrow> (int \<times> int \<times> int) res" where
  "batch_counts bx ins input =
     rbind (decode_transaction_data bx ins input) (\<lambda>d.
     rbind (ev_uint d ''sequenceNumber'') (\<lambda>sequenceNumber.
     rbind (ev_uint d ''prevMessageCount'') (\<lambda>prevMessageCount.
     rbind (ev_uint d ''newMessageCount'') (\<lambda>newMessageCount.
     Inr (sequenceNumber, prevMessageCount, newMessageCount)))))"

definition sequencer_batch :: "ext \<Rightarrow> bridge_ext \<Rightarrow> int \<Rightarrow> transaction \<Rightarrow> log \<Rightarrow> ArbitrumTransactionBatch res" where
  "sequencer_batch x bx transaction_batch_offset t l =
     (let input_sig = take 10 (tx_input t)
      in rbind
           (if input_sig = selector_of x ''addSequencerL2BatchFromBlobs'' FROM_BLOBS_INPUTS
            then batch_counts bx FROM_BLOBS_INPUTS (tx_input t)
            else if input_sig = selector_of x ''addSequencerL2BatchFromOrigin'' FROM_ORIGIN_INPUTS
            then batch_counts bx FROM_ORIGIN_INPUTS (tx_input t)
            else Inr (0, 0, 0))
           (\<lambda>(sequenceNumber, prevMessageCount, newMessageCount).
             Inr \<lparr>ab_batch_index = sequenceNumber, ab_l1_block_number = tx_block_number t,
                ab_l1_block_timestamp = tx_block_timestamp t, ab_l1_block_hash = tx_block_hash t,
                ab_l1_transaction_hash = tx_hash t,
                ab_end_block_number = newMessageCount + transaction_batch_offset,
                ab_start_block_number = prevMessageCount + transaction_batch_offset,
                ab_transaction_count = None\<rparr>))"

definition parse_sequencer_batch_delivered :: "ext \<Rightarrow> bridge_ext \<Rightarrow> transaction \<Rightarrow> string list \<Rightarrow> int
    \<Rightarrow> ArbitrumTransactionBatch list res" where
  "parse_sequencer_batch_delivered x bx t contract_set transaction_batch_offset =
     parse_logs (event_log_abi_to_topic x SEQUENCER_BATCH_DELIVERED_EVENT)
       (sequencer_batch x bx transaction_batch_offset) t contract_set"

definition node_confirmed :: "ext \<Rightarrow> transaction \<Rightarrow> log \<Rightarrow> ArbitrumStateBatchConfirmed res" where
  "node_confirmed x t l =
     rbind (sig_decode_log x NODE_CONFIRMED_EVENT l) (\<lambda>event.
     rbind (ev_uint event ''nodeNum'') (\<lambda>nodeNum.
     rbind (ev_bytes event ''blockHash'') (\<lambda>blockHash.
     rbind (ev_bytes event ''sendRoot'') (\<lambda>sendRoot.
     Inr \<lparr>sc_node_num = nodeNum, sc_block_hash = to_hex blockHash, sc_send_root = to_hex sendRoot,
        sc_l1_block_number = tx_block_number t, sc_l1_block_timestamp = tx_block_timestamp t,
        sc_l1_block_hash = tx_block_hash t, sc_l1_transaction_hash = tx_hash t,
        sc_end_block_number = None, sc_start_block_number = None, sc_transaction_count = None\<rparr>))))"

definition parse_node_confirmed :: "ext \<Rightarrow> transaction \<Rightarrow> string list \<Rightarrow> ArbitrumStateBatchConfirmed list res" where
  "parse_node_confirmed x = parse_logs NODE_CONFIRMED_EVENT_SIG (node_confirmed x)"

text \<open>\<open>int(s, 16)\<close> of a topic: hexadecimal digits after an optional prefix.\<close>

definition int_base16 :: "string option \<Rightarrow> int res" where
  "int_base16 s =
     (case s of None \<Rightarrow> Inl TypeError
      | Some h \<Rightarrow> if strip_0x h = [] then Inl (ValueError ''invalid literal for int() with base 16'')
                 else hex_number (strip_0x h) 0)"

definition node_created :: "transaction \<Rightarrow> log \<Rightarrow> ArbitrumStateBatchCreated res" where
  "node_created t l =
     rbind (int_base16 (lg_topic1 l)) (\<lambda>node_num.
     Inr \<lparr>sb_node_num = node_num, sb_create_l1_block_number = tx_block_number t,
        sb_create_l1_block_timestamp = tx_block_timestamp t, sb_create_l1_block_hash = tx_block_hash t,
        sb_create_l1_transaction_hash = tx_hash t, sb_parent_node_hash = lg_topic2 l, sb_node_hash = lg_topic3 l\<rparr>)"

definition parse_node_created :: "transaction \<Rightarrow> string list \<Rightarrow> ArbitrumStateBatchCreated list res" where
  "parse_node_created = parse_logs NODE_CREATED_EVENT_SIG node_created"

text \<open>The last upgrade and the last deposit of a transaction to the bridge pair two tokens.\<close>

definition token_pair_step :: "ext \<Rightarrow> log \<Rightarrow> string option \<times> string option \<Rightarrow> string option \<times> string option" where
  "token_pair_step x l s =
     (let s = (if lg_topic0 l = Some (event_log_abi_to_topic x BEACON_UPGRADED_EVENT)
               then (fst s, Some (lg_address l)) else s)
      in if lg_topic0 l = Some (event_log_abi_to_topic x DEPOSIT_FINALIZED_EVENT)
         then (lg_topic1 l, snd s) else s)"

definition in_contracts :: "string option \<Rightarrow> string list \<Rightarrow> bool" where
  "in_contracts a contract_set \<longleftrightarrow> a \<in> Some ` set contract_set"

definition parse_bridge_token :: "ext \<Rightarrow> transaction \<Rightarrow> string list \<Rightarrow> BridgeToken list res" where
  "parse_bridge_token x t contract_set =
     (if \<not> in_contracts (tx_to_address t) contract_set then Inr []
      else rbind (receipt_logs t) (\<lambda>logs.
        case fold (token_pair_step x) logs (None, None) of
          (Some l1, Some l2) \<Rightarrow>
            Inr (if l1 \<noteq> [] \<and> l2 \<noteq> [] then [\<lparr>bt_l1_token_address = l1, bt_l2_token_address = l2\<rparr>] else [])
        | _ \<Rightarrow> Inr []))"

definition is_outbound_transfer :: "ext \<Rightarrow> string list \<Rightarrow> transaction \<Rightarrow> bool" where
  "is_outbound_transfer x contract_set t \<longleftrightarrow>
     in_contracts (tx_to_address t) contract_set \<and>
     take 10 (tx_input t) = selector_of x ''outboundTransfer'' OUT_BOUND_TRANSFER_INPUTS"

definition outbound_transfer :: "bridge_ext \<Rightarrow> transaction \<Rightarrow> TransactionToken res" where
  "outbound_transfer bx t =
     rbind (decode_transaction_data bx OUT_BOUND_TRANSFER_INPUTS (tx_input t)) (\<lambda>d.
     rbind (ev_addr d ''_l1Token'') (\<lambda>token.
     rbind (ev_uint d ''_amount'') (\<lambda>amount.
     Inr \<lparr>tt_transaction_hash = tx_hash t, tt_l1Token = token, tt_amount = amount\<rparr>)))"

definition parse_outbound_transfer_function :: "ext \<Rightarrow> bridge_ext \<Rightarrow> transaction list \<Rightarrow> string list
    \<Rightarrow> TransactionToken list res" where
  "parse_outbound_transfer_function x bx transactions contract_set =
     rmap (outbound_transfer bx) (filter (is_outbound_transfer x contract_set) transactions)"

definition bridge_call_triggered :: "ext \<Rightarrow> bridge_ext \<Rightarrow> transaction \<Rightarrow> log \<Rightarrow> BridgeCallTriggeredData res" where
  "bridge_call_triggered x bx t l =
     rbind (decode_transaction_data bx EXECUTE_TRANSACTION_INPUTS (tx_input t)) (\<lambda>d.
     rbind (ev_uint d ''index'') (\<lambda>msg_num.
     rbind (sig_decode_log x BRIDGE_CALL_TRIGGERED_EVENT l) (\<lambda>event.
     rbind (ev_addr event ''outbox'') (\<lambda>outbox.
     rbind (ev_addr event ''to'') (\<lambda>recipient.
     rbind (ev_uint event ''value'') (\<lambda>v.
     rbind (ev_bytes event ''data'') (\<lambda>data.
     Inr \<lparr>bc_msg_hash = msg_num, bc_l1_transaction_hash = tx_hash t, bc_l1_block_number = tx_block_number t,
        bc_l1_block_timestamp = tx_block_timestamp t, bc_l1_block_hash = tx_block_hash t,
        bc_l1_from_address = tx_from_address t, bc_l1_to_address = tx_to_address t,
        bc_outbox = outbox, bc_to = recipient, bc_value = v, bc_data = data\<rparr>)))))))"

definition parse_bridge_call_triggered :: "ext \<Rightarrow> bridge_ext \<Rightarrow> transaction \<Rightarrow> string list
    \<Rightarrow> BridgeCallTriggeredData list res" where
  "parse_bridge_call_triggered x bx =
     parse_logs (event_log_abi_to_topic x BRIDGE_CALL_TRIGGERED_EVENT) (bridge_call_triggered x bx)"

section \<open>The job on the first chain\<close>

record arb_config =
  ac_contract_list :: "string list"
  ac_l2_chain_id :: int
  ac_transaction_batch_offset :: int

text \<open>\<open>__init__\<close>: the configured addresses, lower-cased; a set of them is taken without repetitions.\<close>

definition new_arb_config :: "string list \<Rightarrow> int \<Rightarrow> int \<Rightarrow> arb_config" where
  "new_arb_config contract_list l2_chain_id transaction_batch_offset =
     \<lparr>ac_contract_list = map str_lower (remdups contract_list), ac_l2_chain_id = l2_chain_id,
      ac_transaction_batch_offset = transaction_batch_offset\<rparr>"

definition arb_l1_filter :: "ext \<Rightarrow> arb_config \<Rightarrow> tx_filter" where
  "arb_l1_filter x c = TransactionFilterByLogs
     [([event_log_abi_to_topic x MESSAGE_DELIVERED_EVENT, event_log_abi_to_topic x INBOX_MESSAGE_DELIVERED_EVENT,
        event_log_abi_to_topic x BRIDGE_CALL_TRIGGERED_EVENT, NODE_CREATED_EVENT_SIG, NODE_CONFIRMED_EVENT_SIG,
        event_log_abi_to_topic x SEQUENCER_BATCH_DELIVERED_EVENT], ac_contract_list c)]"

definition arb_l2_filter :: "ext \<Rightarrow> arb_config \<Rightarrow> tx_filter" where
  "arb_l2_filter x c = TransactionFilterByLogs
     [([event_log_abi_to_topic x TICKET_CREATED_EVENT, event_log_abi_to_topic x L2ToL1Tx_64_EVENT,
        event_log_abi_to_topic x BEACON_UPGRADED_EVENT, event_log_abi_to_topic x DEPOSIT_FINALIZED_EVENT],
       ac_contract_list c)]"

definition dict_of :: "('a \<Rightarrow> 'k) \<Rightarrow> 'a list \<Rightarrow> ('k \<times> 'a) list" where
  "dict_of f xs = fold (\<lambda>y. AList.update (f y) y) xs []"

text \<open>The record of a message, given its hash, token and amount.\<close>

definition deposit_record :: "string \<Rightarrow> int \<Rightarrow> MessageDeliveredData \<Rightarrow> string option \<Rightarrow> int
    \<Rightarrow> ArbitrumL1ToL2TransactionOnL1" where
  "deposit_record l2_tx_hash msg_num m token amount =
     \<lparr>a1_msg_hash = l2_tx_hash, a1_index = msg_num, a1_l1_block_number = md_block_number m,
      a1_l1_block_timestamp = md_block_timestamp m, a1_l1_block_hash = md_block_hash m,
      a1_l1_transaction_hash = md_transaction_hash m, a1_l1_from_address = md_from_address m,
      a1_l1_to_address = md_to_address m, a1_l1_token_address = token, a1_l2_token_address = None,
      a1_from_address = md_bridge_from_address m, a1_to_address = md_bridge_to_address m,
      a1_amount = amount, a1_extra_info = md_extra_info m, a1_type = 1\<rparr>"

definition retryable_record :: "ext \<Rightarrow> bridge_ext \<Rightarrow> arb_config \<Rightarrow> TransactionToken option \<Rightarrow> int
    \<Rightarrow> MessageDeliveredData \<Rightarrow> inbox_data \<Rightarrow> ArbitrumL1ToL2TransactionOnL1 res" where
  "retryable_record x bx c token_transaction msg_num m d =
     rbind (strip_address (id_destAddress d)) (\<lambda>dest.
     rbind (strip_address (id_excessFeeRefundAddress d)) (\<lambda>excess.
     rbind (strip_address (id_callValueRefundAddress d)) (\<lambda>call_value.
     rbind (calculate_submit_retryable_id x bx (ac_l2_chain_id c) (NumInt msg_num) (md_sender m)
             (md_baseFeeL1 m) dest (id_l2CallValue d) (id_msgValue d) (id_maxSubmissionCost d) excess call_value
             (id_gasLimit d) (id_maxFeePerGas d) (id_dataBytes d)) (\<lambda>l2_tx_hash.
     let token = (case token_transaction of None \<Rightarrow> id_l1TokenId d
           | Some t \<Rightarrow> if tt_l1Token t \<noteq> [] then Some (tt_l1Token t) else id_l1TokenId d);
         amount = (case token_transaction of None \<Rightarrow> id_l1TokenAmount d
           | Some t \<Rightarrow> if tt_amount t \<noteq> 0 then tt_amount t else id_l1TokenAmount d)
     in Inr (deposit_record l2_tx_hash msg_num m token amount)))))"

definition ether_record :: "ext \<Rightarrow> bridge_ext \<Rightarrow> arb_config \<Rightarrow> int \<Rightarrow> MessageDeliveredData \<Rightarrow> inbox_data
    \<Rightarrow> ArbitrumL1ToL2TransactionOnL1 res" where
  "ether_record x bx c msg_num m d =
     rbind (calculate_deposit_tx_id x bx (ac_l2_chain_id c) (NumInt msg_num) (md_sender m) (md_from_address m)
             (id_msgValue d)) (\<lambda>l2_tx_hash.
     rbind (strip_optional (id_l1TokenId d)) (\<lambda>token.
     Inr (deposit_record l2_tx_hash msg_num m token (id_l1TokenAmount d))))"

text \<open>One message of the inbox: nothing if it was not delivered, or if its kind has no record.\<close>

definition message_kind :: "MessageDeliveredData \<Rightarrow> int" where
  "message_kind m = (if md_kind m \<noteq> 0 then md_kind m else -1)"

definition deposit_of :: "ext \<Rightarrow> bridge_ext \<Rightarrow> arb_config \<Rightarrow> (string \<times> TransactionToken) list
    \<Rightarrow> (int \<times> MessageDeliveredData) list \<Rightarrow> int \<times> InboxMessageDeliveredData
    \<Rightarrow> ArbitrumL1ToL2TransactionOnL1 list res" where
  "deposit_of x bx c tnx_input_map delivered e =
     (case e of (msg_num, im) \<Rightarrow>
      case map_of delivered msg_num of
        None \<Rightarrow> Inr []
      | Some m \<Rightarrow>
          let kind = message_kind m in
          rbind (un_marshal_inbox_message_delivered_data kind (ib_data im) (ac_l2_chain_id c)) (\<lambda>d.
            if kind = 9
            then rbind (retryable_record x bx c (map_of tnx_input_map (ib_transaction_hash im)) msg_num m d)
                   (\<lambda>r. Inr [r])
            else if kind = 12 \<or> kind = 11 \<or> kind = 3
            then rbind (ether_record x bx c msg_num m d) (\<lambda>r. Inr [r])
            else Inr []))"

definition withdrawal_record :: "BridgeCallTriggeredData \<Rightarrow> ArbitrumL2ToL1TransactionOnL1" where
  "withdrawal_record z =
     \<lparr>a2_msg_hash = bc_msg_hash z, a2_l1_transaction_hash = bc_l1_transaction_hash z,
      a2_l1_block_number = bc_l1_block_number z, a2_l1_block_timestamp = bc_l1_block_timestamp z,
      a2_l1_block_hash = bc_l1_block_hash z, a2_l1_from_address = bc_l1_from_address z,
      a2_l1_to_address = bc_l1_to_address z\<rparr>"

text \<open>A parser over all transactions, the results one after another.\<close>

definition parse_all :: "(transaction \<Rightarrow> 'a list res) \<Rightarrow> transaction list \<Rightarrow> 'a list res" where
  "parse_all f ts = rbind (rmap f ts) (\<lambda>xss. Inr (concat xss))"

definition arb_deposits :: "ext \<Rightarrow> bridge_ext \<Rightarrow> arb_config \<Rightarrow> TransactionToken list \<Rightarrow> MessageDeliveredData list
    \<Rightarrow> InboxMessageDeliveredData list \<Rightarrow> ArbitrumL1ToL2TransactionOnL1 list res" where
  "arb_deposits x bx c tnx_input delivered inbox =
     rbind (rmap (deposit_of x bx c (dict_of tt_transaction_hash tnx_input) (dict_of md_messageIndex delivered))
             (dict_of ib_msg_number inbox)) (\<lambda>xss. Inr (concat xss))"

definition arb_l1_result :: "ext \<Rightarrow> bridge_ext \<Rightarrow> arb_config \<Rightarrow> transaction list \<Rightarrow> arb_item list res" where
  "arb_l1_result x bx c buffer =
     (let transactions = filter (filter_is_satisfied_by (arb_l1_filter x c)) buffer;
          cs = ac_contract_list c
      in rbind (parse_outbound_transfer_function x bx transactions cs) (\<lambda>tnx_input.
         rbind (parse_all (\<lambda>t. parse_message_delivered x t cs) transactions) (\<lambda>delivered.
         rbind (parse_all (\<lambda>t. parse_inbox_message_delivered x t cs) transactions) (\<lambda>inbox.
         rbind (arb_deposits x bx c tnx_input delivered inbox) (\<lambda>arb_deposit_lis.
         rbind (parse_all (\<lambda>t. parse_bridge_call_triggered x bx t cs) transactions) (\<lambda>triggered.
         rbind (parse_all (\<lambda>t. parse_sequencer_batch_delivered x bx t cs (ac_transaction_batch_offset c))
                 transactions) (\<lambda>tnx_batches.
         rbind (parse_all (\<lambda>t. parse_node_created t cs) transactions) (\<lambda>state_create_batches.
         rbind (parse_all (\<lambda>t. parse_node_confirmed x t cs) transactions) (\<lambda>state_confirm_batches.
         Inr (map L1ToL2OnL1 arb_deposit_lis @ map (L2ToL1OnL1 \<circ> withdrawal_record) triggered
              @ map TransactionBatch tnx_batches @ map StateBatchCreated state_create_batches
              @ map StateBatchConfirmed state_confirm_batches))))))))))"

text \<open>\<open>_process\<close>: nothing is collected if a parser raises.\<close>

definition arb_l1_process :: "ext \<Rightarrow> bridge_ext \<Rightarrow> arb_config \<Rightarrow> transaction list
    \<Rightarrow> ((arb_item, 'x) world, unit) act" where
  "arb_l1_process x bx c buffer = collect_all arb_item_type (arb_l1_result x bx c buffer)"

section \<open>The job on the second chain\<close>

definition py_str :: "string option \<Rightarrow> string" where
  "py_str s = (case s of None \<Rightarrow> ''None'' | Some t \<Rightarrow> t)"

definition ticket_record :: "transaction \<Rightarrow> TicketCreatedData \<Rightarrow> ArbitrumL1ToL2TransactionOnL2" where
  "ticket_record t z =
     \<lparr>a4_msg_hash = tc_msg_hash z, a4_l2_block_number = tx_block_number t,
      a4_l2_block_timestamp = tx_block_timestamp t, a4_l2_block_hash = py_str (tx_block_hash t),
      a4_l2_transaction_hash = tx_hash t, a4_l2_from_address = tc_from_address z,
      a4_l2_to_address = tc_to_address z\<rparr>"

definition l2_to_l1_record :: "L2ToL1Tx_64 \<Rightarrow> ArbitrumL2ToL1TransactionOnL2 res" where
  "l2_to_l1_record z =
     rbind (strip_optional (lt_l2_token_address z)) (\<lambda>token.
     Inr \<lparr>a3_msg_hash = lt_msg_hash z, a3_index = Some (lt_position z), a3_l2_block_number = lt_l2_block_number z,
        a3_l2_block_timestamp = lt_l2_block_timestamp z, a3_l2_block_hash = lt_l2_block_hash z,
        a3_l2_transaction_hash = lt_l2_transaction_hash z, a3_l2_from_address = lt_l2_from_address z,
        a3_l2_to_address = lt_l2_to_address z, a3_amount = lt_callvalue z, a3_from_address = lt_caller z,
        a3_to_address = lt_destination z, a3_l1_token_address = None, a3_l2_token_address = token,
        a3_extra_info = []\<rparr>)"

definition arb_l2_result :: "ext \<Rightarrow> arb_config \<Rightarrow> transaction list \<Rightarrow> arb_item list res" where
  "arb_l2_result x c buffer =
     (let transactions = filter (filter_is_satisfied_by (arb_l2_filter x c)) buffer;
          cs = ac_contract_list c
      in rbind (parse_all (\<lambda>t. rbind (parse_ticket_created_event x t cs) (\<lambda>zs. Inr (map (ticket_record t) zs)))
                 transactions) (\<lambda>ticket_created.
         rbind (parse_all (\<lambda>t. rbind (parse_l2_to_l1_tx_64_event x t cs) (rmap l2_to_l1_record)) transactions)
           (\<lambda>l2_to_l1.
         rbind (parse_all (\<lambda>t. parse_bridge_token x t cs) transactions) (\<lambda>bridge_tokens.
         Inr (map L1ToL2OnL2 ticket_created @ map L2ToL1OnL2 l2_to_l1 @ map TokenPair bridge_tokens)))))"

definition arb_l2_process :: "ext \<Rightarrow> arb_config \<Rightarrow> transaction list \<Rightarrow> ((arb_item, 'x) world, unit) act" where
  "arb_l2_process x c buffer = collect_all arb_item_type (arb_l2_result x c buffer)"

section \<open>Addresses in words\<close>

lemma bytes_fromhex_to_hex: "to_bytes_hexstr (to_hex b) = Inr b"
  by (simp add: to_bytes_hexstr_def strip_0x_bytes length_bytes_hex bytes_fromhex_hex)

lemma startswith_to_hex [simp]: "startswith (to_hex b) ''0x''"
  by (simp add: bytes_to_hex_str_def startswith_def)

lemma strip_leading_zeros_to_hex: "strip_leading_zeros (to_hex b) = Inr (to_hex (strip_bytes_leading_zeros b))"
  by (simp add: strip_leading_zeros_def bytes_fromhex_to_hex)

lemma to_hex_inject [simp]: "to_hex a = to_hex b \<longleftrightarrow> a = b"
  by (metis bytes_fromhex_to_hex sum.inject(2))

lemma dropWhile_replicate_append: "P a \<Longrightarrow> dropWhile P (replicate n a @ xs) = dropWhile P xs"
  by (induction n) auto

lemma dropWhile_id_iff: "dropWhile P xs = xs \<longleftrightarrow> xs = [] \<or> \<not> P (hd xs)"
proof (cases xs)
  case (Cons a as)
  have "length (dropWhile P as) \<le> length as" by (rule length_dropWhile_le)
  then have "dropWhile P as \<noteq> a # as" by (metis impossible_Cons order_refl)
  with Cons show ?thesis by simp
qed simp

text \<open>Stripping the padding of a 32-byte word that holds a 20-byte address gives the address back
  exactly if the address is the zero address or its first byte is not zero; otherwise bytes of
  the address itself are lost.\<close>

lemma strip_address_padding:
  assumes "length a = 20"
  shows "strip_leading_zeros (to_hex (replicate 12 0 @ a)) = Inr (to_hex a) \<longleftrightarrow> a = replicate 20 0 \<or> hd a \<noteq> 0"
proof (cases "a = replicate 20 0")
  case True
  have "replicate 12 0 @ replicate 20 0 = (replicate 32 0 :: byte list)" by (simp flip: replicate_add)
  with True show ?thesis by (simp add: strip_leading_zeros_to_hex strip_bytes_leading_zeros_def)
next
  case False
  have "replicate 12 0 @ a \<noteq> replicate 32 (0::byte)"
  proof
    assume "replicate 12 0 @ a = replicate 32 (0::byte)"
    then have "drop 12 (replicate 12 0 @ a) = drop 12 (replicate 32 (0::byte))" by (rule arg_cong)
    with False show False by simp
  qed
  with False assms show ?thesis
    by (auto simp: strip_leading_zeros_to_hex strip_bytes_leading_zeros_def dropWhile_replicate_append dropWhile_id_iff)
qed

theorem strip_address_padding_witness:
  "strip_leading_zeros (to_hex (replicate 12 0 @ replicate 20 1)) = Inr (to_hex (replicate 20 1)) \<and>
   strip_leading_zeros (to_hex (replicate 12 0 @ 0 # replicate 19 1)) \<noteq> Inr (to_hex (0 # replicate 19 1))"
proof -
  have "length (replicate 20 (1::byte)) = 20" "length (0 # replicate 19 (1::byte)) = 20" by simp_all
  moreover have "replicate 20 (1::byte) \<noteq> []" "hd (replicate 20 (1::byte)) = 1" by (simp_all add: numeral_eq_Suc)
  moreover have "(0 :: byte) # replicate 19 1 \<noteq> replicate 20 0" by (simp add: numeral_eq_Suc)
  ultimately show ?thesis
    using strip_address_padding [of "replicate 20 1"] strip_address_padding [of "0 # replicate 19 1"]
    by simp
qed

section \<open>The message of a retryable ticket\<close>

text \<open>What the inbox packs into the data of a retryable ticket: eight words, the length of the call data,
  the call data.\<close>

definition word_bytes :: "int \<Rightarrow> byte list" where
  "word_bytes n = rev (to_bytes_rev 32 n)"

definition word_range :: "int \<Rightarrow> bool" where
  "word_range n \<longleftrightarrow> 0 \<le> n \<and> n < 256 ^ 32"

definition pack_retryable :: "int \<Rightarrow> int \<Rightarrow> int \<Rightarrow> int \<Rightarrow> int \<Rightarrow> int \<Rightarrow> int \<Rightarrow> int \<Rightarrow> byte list \<Rightarrow> byte list" where
  "pack_retryable dest call_value msg_value submission_cost excess refund gas_limit max_fee call_data =
     word_bytes dest @ word_bytes call_value @ word_bytes msg_value @ word_bytes submission_cost @
     word_bytes excess @ word_bytes refund @ word_bytes gas_limit @ word_bytes max_fee @
     word_bytes (int (length call_data)) @ call_data"

lemma length_word_bytes [simp]: "length (word_bytes n) = 32"
proof -
  have "length (to_bytes_rev k n) = k" for k by (induction k n rule: to_bytes_rev.induct) auto
  then show ?thesis by (simp add: word_bytes_def)
qed

lemma int_from_word_bytes: "word_range n \<Longrightarrow> int_from_bytes (word_bytes n) = n"
  unfolding word_range_def word_bytes_def by (rule int_from_to_bytes_rev) simp_all

lemma slice_append_left:
  "length xs = n \<Longrightarrow> Prelude.slice 0 n (xs @ ys) = xs"
  "length xs \<le> i \<Longrightarrow> Prelude.slice i j (xs @ ys) = Prelude.slice (i - length xs) (j - length xs) ys"
  by (auto simp: Prelude.slice_def)

text \<open>C19: the fields the inbox packed into a retryable ticket for Arbitrum One are read back, each
  word at its place and the call data at its length; the amount is the second word after the
  selector of the call data, if there are that many bytes, and 0 otherwise.\<close>

theorem retryable_roundtrip:
  assumes "list_all word_range [call_value, msg_value, submission_cost, gas_limit, max_fee, int (length call_data)]"
  shows "un_marshal_inbox_message_delivered_data 9
      (pack_retryable dest call_value msg_value submission_cost excess refund gas_limit max_fee call_data)
      network_arbitrum =
    Inr \<lparr>id_destAddress = AddrHex (to_hex (word_bytes dest)), id_l2CallValue = call_value, id_msgValue = msg_value,
       id_gasLimit = gas_limit, id_maxSubmissionCost = submission_cost,
       id_excessFeeRefundAddress = AddrHex (to_hex (word_bytes excess)),
       id_callValueRefundAddress = AddrHex (to_hex (word_bytes refund)), id_maxFeePerGas = max_fee,
       id_dataBytes = to_hex call_data, id_l1TokenId = None,
       id_l1TokenAmount = (if 68 \<le> length call_data then int_from_bytes (Prelude.slice 36 68 call_data) else 0)\<rparr>"
proof -
  let ?d = "pack_retryable dest call_value msg_value submission_cost excess refund gas_limit max_fee call_data"
  have slices: "Prelude.slice 0 32 ?d = word_bytes dest" "Prelude.slice 32 64 ?d = word_bytes call_value"
    "Prelude.slice 64 96 ?d = word_bytes msg_value" "Prelude.slice 96 128 ?d = word_bytes submission_cost"
    "Prelude.slice 128 160 ?d = word_bytes excess" "Prelude.slice 160 192 ?d = word_bytes refund"
    "Prelude.slice 192 224 ?d = word_bytes gas_limit" "Prelude.slice 224 256 ?d = word_bytes max_fee"
    "Prelude.slice 256 288 ?d = word_bytes (int (length call_data))"
    by (simp_all add: pack_retryable_def slice_append_left)
  have rest: "drop 288 ?d = call_data" by (simp add: pack_retryable_def)
  have "Prelude.slice 288 (288 + length call_data) ?d = call_data" by (simp add: Prelude.slice_def rest)
  with assms show ?thesis
    by (simp add: un_marshal_inbox_message_delivered_data_def Let_def slices rest int_from_word_bytes
        retryable_token_def network_arbitrum_def)
qed

lemma word_range_small: "0 \<le> n \<Longrightarrow> n < 256 \<Longrightarrow> word_range n"
  by (simp add: word_range_def order.strict_trans2)

theorem retryable_roundtrip_witness:
  "\<exists>d. un_marshal_inbox_message_delivered_data 9 (pack_retryable 1 2 3 4 5 6 7 8 [9, 10]) network_arbitrum = Inr d
     \<and> id_msgValue d = 3 \<and> id_dataBytes d = ''0x090a'' \<and> id_l1TokenAmount d = 0"
proof -
  have hex: "to_hex [9, 10] = ''0x090a''" by code_simp
  have "list_all word_range [2, 3, 4, 7, 8, int (length [9, 10 :: byte])]" by (simp add: word_range_small)
  from retryable_roundtrip [OF this, of 1 5 6] show ?thesis by (simp add: hex)
qed

section \<open>Dictionaries of messages\<close>

text \<open>The entry of a key is the last item with it.\<close>

definition latest :: "('a \<Rightarrow> 'k) \<Rightarrow> 'a list \<Rightarrow> 'k \<Rightarrow> 'a option" where
  "latest f xs k = List.find (\<lambda>y. f y = k) (rev xs)"

lemma dict_of_snoc: "dict_of f (xs @ [y]) = AList.update (f y) y (dict_of f xs)"
  by (simp add: dict_of_def)

lemma map_of_dict_of: "map_of (dict_of f xs) k = latest f xs k"
proof (induction xs rule: rev_induct)
  case Nil
  then show ?case by (simp add: dict_of_def latest_def)
next
  case (snoc y ys)
  then show ?case by (auto simp: dict_of_snoc map_of_upd latest_def)
qed

lemma distinct_dict_of: "distinct (map fst (dict_of f xs))"
proof (induction xs rule: rev_induct)
  case Nil
  then show ?case by (simp add: dict_of_def)
next
  case (snoc y ys)
  then show ?case unfolding dict_of_snoc by (rule distinct_upd)
qed

lemma keys_dict_of: "set (map fst (dict_of f xs)) = f ` set xs"
proof (induction xs rule: rev_induct)
  case Nil
  then show ?case by (simp add: dict_of_def)
next
  case (snoc y ys)
  then show ?case by (simp only: dict_of_snoc keys_upd) auto
qed

section \<open>Deposits\<close>

lemma retryable_token_returns: "\<exists>t. retryable_token chain_id b = Inr t"
  by (simp add: retryable_token_def strip_leading_zeros_to_hex)

lemma un_marshal_returns:
  "(\<exists>d. un_marshal_inbox_message_delivered_data kind data chain_id = Inr d) \<longleftrightarrow> kind \<in> {3, 9, 11, 12, 13}"
  using retryable_token_returns [of chain_id "drop 288 data"]
  by (auto simp: un_marshal_inbox_message_delivered_data_def Let_def)

lemma retryable_record_fields:
  "retryable_record x bx c t n m d = Inr r \<Longrightarrow> \<exists>h token amount. r = deposit_record h n m token amount"
  by (auto simp: retryable_record_def rbind_Inr_iff Let_def)

lemma ether_record_fields:
  "ether_record x bx c n m d = Inr r \<Longrightarrow> \<exists>h token amount. r = deposit_record h n m token amount"
  by (auto simp: ether_record_def rbind_Inr_iff)

text \<open>What one message of the inbox gives, when it gives anything.\<close>

lemma deposit_of_cases:
  assumes "deposit_of x bx c tm delivered (n, im) = Inr rs"
  obtains (undelivered) "map_of delivered n = None" and "rs = []"
    | (no_record) m where "map_of delivered n = Some m" and "md_kind m = 13" and "rs = []"
    | (recorded) m h token amount where "map_of delivered n = Some m" and "md_kind m \<noteq> 13"
        and "rs = [deposit_record h n m token amount]"
proof (cases "map_of delivered n")
  case None
  with assms show ?thesis by (intro undelivered) (simp_all add: deposit_of_def)
next
  case (Some m)
  let ?k = "message_kind m"
  from assms Some obtain d where d: "un_marshal_inbox_message_delivered_data ?k (ib_data im) (ac_l2_chain_id c) = Inr d"
    by (auto simp: deposit_of_def Let_def rbind_Inr_iff)
  then have k: "?k \<in> {3, 9, 11, 12, 13}" using un_marshal_returns by blast
  show ?thesis
  proof (cases "?k = 13")
    case True
    with assms Some d have "rs = []" by (simp add: deposit_of_def)
    moreover from True have "md_kind m = 13" by (simp add: message_kind_def split: if_splits)
    ultimately show ?thesis by (intro no_record [OF Some])
  next
    case False
    with k assms Some d obtain r where r: "rs = [r]" and "retryable_record x bx c (map_of tm (ib_transaction_hash im)) n m d = Inr r
      \<or> ether_record x bx c n m d = Inr r"
      by (auto simp: deposit_of_def rbind_Inr_iff split: if_splits)
    then have "\<exists>h token amount. r = deposit_record h n m token amount"
      by (elim disjE) (erule retryable_record_fields ether_record_fields)+
    with r obtain h token amount where "rs = [deposit_record h n m token amount]" by auto
    moreover from False have "md_kind m \<noteq> 13" by (auto simp: message_kind_def)
    ultimately show ?thesis by (intro recorded [OF Some])
  qed
qed

lemma rmap_concat_Inr:
  assumes "rmap f xs = Inr yss"
  shows "y \<in> set (concat yss) \<longleftrightarrow> (\<exists>z \<in> set xs. \<exists>ys. f z = Inr ys \<and> y \<in> set ys)"
  using assms
proof (induction xs arbitrary: yss)
  case (Cons z zs)
  from Cons.prems obtain ys yss' where "f z = Inr ys" "rmap f zs = Inr yss'" "yss = ys # yss'"
    by (auto simp: rbind_Inr_iff)
  with Cons.IH [of yss'] show ?case by auto
qed auto

lemma deposits_distinct:
  assumes "rmap (deposit_of x bx c tm delivered) es = Inr rss" and "distinct (map fst es)"
  shows "distinct (map a1_index (concat rss))"
  using assms
proof (induction es arbitrary: rss)
  case (Cons e es)
  obtain n im where e: "e = (n, im)" by (cases e)
  from Cons.prems(1) obtain rs rss' where rs: "deposit_of x bx c tm delivered (n, im) = Inr rs"
    and rss': "rmap (deposit_of x bx c tm delivered) es = Inr rss'" and rss: "rss = rs # rss'"
    by (auto simp: rbind_Inr_iff e)
  have ih: "distinct (map a1_index (concat rss'))" using Cons.IH [OF rss'] Cons.prems(2) by simp
  have idx: "a1_index r \<in> fst ` set es" if "r \<in> set (concat rss')" for r
  proof -
    from that rmap_concat_Inr [OF rss'] obtain k im' qs
      where "(k, im') \<in> set es" and q: "deposit_of x bx c tm delivered (k, im') = Inr qs" and "r \<in> set qs"
      by fastforce
    then show ?thesis by (cases rule: deposit_of_cases [OF q]) (auto simp: deposit_record_def intro: rev_image_eqI)
  qed
  have n: "n \<notin> fst ` set es" using Cons.prems(2) e by simp
  from rs show ?case
  proof (cases rule: deposit_of_cases)
    case (recorded m h token amount)
    with ih idx n show ?thesis by (auto simp: rss deposit_record_def)
  qed (simp_all add: rss ih)
qed simp

text \<open>C17: when the messages are put together, each number has at most one deposit; the numbers with one
  are those that occur in the inbox and among the delivered messages, unless the last message
  delivered with the number is a batch report; and every deposit carries the transaction, the sender
  and the number of that message.\<close>

theorem deposits_pair_messages:
  assumes "arb_deposits x bx c tnx_input delivered inbox = Inr rs"
  shows "distinct (map a1_index rs) \<and>
    a1_index ` set rs = {n \<in> ib_msg_number ` set inbox.
       \<exists>m. latest md_messageIndex delivered n = Some m \<and> md_kind m \<noteq> 13} \<and>
    (\<forall>r \<in> set rs. \<exists>m. latest md_messageIndex delivered (a1_index r) = Some m \<and>
       a1_l1_transaction_hash r = md_transaction_hash m \<and> a1_from_address r = md_bridge_from_address m \<and>
       a1_extra_info r = md_extra_info m)"
proof -
  let ?tm = "dict_of tt_transaction_hash tnx_input" and ?dm = "dict_of md_messageIndex delivered"
  let ?es = "dict_of ib_msg_number inbox"
  from assms obtain rss where rss: "rmap (deposit_of x bx c ?tm ?dm) ?es = Inr rss" and rs: "rs = concat rss"
    by (auto simp: arb_deposits_def rbind_Inr_iff)
  note mem = rmap_concat_Inr [OF rss]
  have el: "\<exists>rs'. deposit_of x bx c ?tm ?dm e = Inr rs'" if "e \<in> set ?es" for e
    using rss that by (auto simp: rmap_Inr_iff list_all2_conv_all_nth in_set_conv_nth)
  have one: "\<exists>m h token amount. n \<in> ib_msg_number ` set inbox \<and> latest md_messageIndex delivered n = Some m \<and>
      md_kind m \<noteq> 13 \<and> r = deposit_record h n m token amount"
    if r: "r \<in> set rs" and n: "n = a1_index r" for r n
  proof -
    from r mem obtain k im qs where e: "(k, im) \<in> set ?es" and q: "deposit_of x bx c ?tm ?dm (k, im) = Inr qs"
      and "r \<in> set qs" unfolding rs by fastforce
    from e keys_dict_of [of ib_msg_number inbox] have "k \<in> ib_msg_number ` set inbox" by force
    with q \<open>r \<in> set qs\<close> n show ?thesis
      by (cases rule: deposit_of_cases) (auto simp: map_of_dict_of deposit_record_def)
  qed
  have all: "n \<in> a1_index ` set rs" if "n \<in> ib_msg_number ` set inbox"
    and m: "latest md_messageIndex delivered n = Some m" "md_kind m \<noteq> 13" for n m
  proof -
    from that(1) keys_dict_of [of ib_msg_number inbox] obtain im where e: "(n, im) \<in> set ?es" by force
    with el obtain qs where q: "deposit_of x bx c ?tm ?dm (n, im) = Inr qs" by blast
    from q m obtain r where "r \<in> set qs" "a1_index r = n"
      by (cases rule: deposit_of_cases) (auto simp: map_of_dict_of deposit_record_def)
    with mem e q show ?thesis unfolding rs by blast
  qed
  have "distinct (map a1_index rs)" unfolding rs by (rule deposits_distinct [OF rss distinct_dict_of])
  moreover have "a1_index ` set rs = {n \<in> ib_msg_number ` set inbox.
      \<exists>m. latest md_messageIndex delivered n = Some m \<and> md_kind m \<noteq> 13}"
    using one all by blast
  moreover have "\<exists>m. latest md_messageIndex delivered (a1_index r) = Some m \<and>
      a1_l1_transaction_hash r = md_transaction_hash m \<and> a1_from_address r = md_bridge_from_address m \<and>
      a1_extra_info r = md_extra_info m" if "r \<in> set rs" for r
    using one [OF that refl] by (auto simp: deposit_record_def)
  ultimately show ?thesis by blast
qed

definition sample_bridge_ext :: bridge_ext where
  "sample_bridge_ext = \<lparr>rlp_encode = (\<lambda>items. Inr (concat (map (\<lambda>i. case i of RBytes b \<Rightarrow> b | RInt n \<Rightarrow> [word_of_int n]) items))),
     decode_transaction_data = (\<lambda>_ _. Inl (OtherException ''DecodingError''))\<rparr>"

definition sample_message :: "int \<Rightarrow> int \<Rightarrow> MessageDeliveredData" where
  "sample_message n k = \<lparr>md_msg_hash = None, md_block_number = Some 1, md_block_timestamp = Some 2,
     md_block_hash = None, md_transaction_hash = ''0xt'', md_from_address = ''0x0a'', md_to_address = None,
     md_bridge_from_address = ''0x0b'', md_bridge_to_address = ''0x0b'', md_extra_info = [(''kind'', k)],
     md_beforeInboxAcc = [], md_messageIndex = n, md_inbox = ''0x0c'', md_kind = k, md_sender = ''0x0b'',
     md_messageDataHash = [], md_baseFeeL1 = 0, md_timestamp = 2\<rparr>"

definition sample_inbox :: "int \<Rightarrow> byte list \<Rightarrow> InboxMessageDeliveredData" where
  "sample_inbox n b = \<lparr>ib_transaction_hash = ''0xt'', ib_msg_number = n, ib_data = b\<rparr>"

theorem deposits_pair_messages_witness:
  "\<exists>rs. arb_deposits sample_ext sample_bridge_ext (new_arb_config [] 4 0) []
      [sample_message 5 12, sample_message 6 13] [sample_inbox 5 (replicate 52 1), sample_inbox 6 [], sample_inbox 7 []]
        = Inr rs \<and> a1_index ` set rs = {5}"
proof -
  have "case arb_deposits sample_ext sample_bridge_ext (new_arb_config [] 4 0) []
      [sample_message 5 12, sample_message 6 13] [sample_inbox 5 (replicate 52 1), sample_inbox 6 [], sample_inbox 7 []]
      of Inr _ \<Rightarrow> True | Inl _ \<Rightarrow> False" by code_simp
  then obtain rs where rs: "arb_deposits sample_ext sample_bridge_ext (new_arb_config [] 4 0) []
      [sample_message 5 12, sample_message 6 13] [sample_inbox 5 (replicate 52 1), sample_inbox 6 [], sample_inbox 7 []]
      = Inr rs" by (auto split: sum.splits)
  from deposits_pair_messages [OF this] have "a1_index ` set rs = {5}"
    by (auto simp: latest_def sample_message_def sample_inbox_def split: if_splits)
  with rs show ?thesis by blast
qed

section \<open>The outcome of the jobs\<close>

text \<open>A job collects the records it made, appended in their order to those of their type in the
  buffer, or leaves the world as it was if a parser raised; a job never collects a part of them.\<close>

lemma arb_collects_all_or_nothing:
  "case arb_l1_result x bx c txs of
     Inl e \<Rightarrow> arb_l1_process x bx c txs w = (w, Inl e)
   | Inr ds \<Rightarrow> \<exists>w'. arb_l1_process x bx c txs w = (w', Inr ()) \<and> outside w' = outside w \<and>
       (\<forall>k. buffered (data_buff w') k = buffered (data_buff w) k @ filter (\<lambda>d. arb_item_type d = k) ds)"
  using collect_all_Inr [of arb_item_type _ w]
  by (cases "arb_l1_result x bx c txs") (simp_all add: arb_l1_process_def)

text \<open>A message of a kind other than a layer-2 message, a retryable ticket, an initialization, a
  deposit or a batch report makes the job of its whole range of blocks fail, and none of the
  range's records is collected.\<close>

lemma unsupported_kind_loses_range:
  fixes x bx c txs
  defines "ts \<equiv> filter (filter_is_satisfied_by (arb_l1_filter x c)) txs"
  assumes "parse_all (\<lambda>t. parse_message_delivered x t (ac_contract_list c)) ts = Inr delivered"
    and "parse_all (\<lambda>t. parse_inbox_message_delivered x t (ac_contract_list c)) ts = Inr inbox"
    and "n \<in> ib_msg_number ` set inbox" and "latest md_messageIndex delivered n = Some m"
    and "md_kind m \<notin> {3, 9, 11, 12, 13}"
  shows "\<exists>e. arb_l1_process x bx c txs w = (w, Inl e)"
proof (rule ccontr)
  assume no: "\<not> ?thesis"
  then obtain ds where "arb_l1_result x bx c txs = Inr ds"
    by (cases "arb_l1_result x bx c txs") (auto simp: arb_l1_process_def)
  with assms(2,3) obtain tnx_input rs where "arb_deposits x bx c tnx_input delivered inbox = Inr rs"
    by (auto simp: arb_l1_result_def Let_def rbind_Inr_iff ts_def)
  then obtain rss where rss: "rmap (deposit_of x bx c (dict_of tt_transaction_hash tnx_input)
      (dict_of md_messageIndex delivered)) (dict_of ib_msg_number inbox) = Inr rss"
    by (auto simp: arb_deposits_def rbind_Inr_iff)
  from assms(4) keys_dict_of [of ib_msg_number inbox] obtain im where
    "(n, im) \<in> set (dict_of ib_msg_number inbox)" by force
  with rss obtain qs where "deposit_of x bx c (dict_of tt_transaction_hash tnx_input)
      (dict_of md_messageIndex delivered) (n, im) = Inr qs"
    by (auto simp: rmap_Inr_iff list_all2_conv_all_nth in_set_conv_nth)
  then have "\<exists>d. un_marshal_inbox_message_delivered_data (message_kind m) (ib_data im) (ac_l2_chain_id c) = Inr d"
    using assms(5) by (auto simp: deposit_of_def map_of_dict_of Let_def rbind_Inr_iff)
  with assms(6) show False by (auto simp: un_marshal_returns message_kind_def split: if_splits)
qed

text \<open>Decoding by the types that are asked for, for examples.\<close>

definition arb_sample_ext :: ext where
  "arb_sample_ext = sample_ext\<lparr>event_topic := (\<lambda>n ts. [of_nat (length ts)]), abi_decode := (\<lambda>ts b.
     if ts = [''uint256''] then Inr [AUint 5]
     else if ts = [''bytes''] then Inr [ABytes [1]]
     else if ts = [''uint256'', ''bytes32''] then Inr [AUint 5, ABytes []]
     else Inr [AAddress ''0x0c'', AUint 7, AAddress ''0x0b'', ABytes [], AUint 0, AUint 2])\<rparr>"

definition sample_arb_txs :: "transaction list" where
  "sample_arb_txs = [sample_transaction 7
     [sample_log\<lparr>lg_topic0 := Some (event_log_abi_to_topic arb_sample_ext MESSAGE_DELIVERED_EVENT)\<rparr>,
      sample_log\<lparr>lg_topic0 := Some (event_log_abi_to_topic arb_sample_ext INBOX_MESSAGE_DELIVERED_EVENT)\<rparr>]]"

theorem unsupported_kind_loses_range_witness:
  "\<forall>w :: (arb_item, unit) world. \<exists>e.
     arb_l1_process arb_sample_ext sample_bridge_ext (new_arb_config [''0xA''] 4 0) sample_arb_txs w = (w, Inl e)"
proof
  fix w :: "(arb_item, unit) world"
  let ?c = "new_arb_config [''0xA''] 4 0"
  let ?ts = "filter (filter_is_satisfied_by (arb_l1_filter arb_sample_ext ?c)) sample_arb_txs"
  let ?d = "parse_all (\<lambda>t. parse_message_delivered arb_sample_ext t (ac_contract_list ?c)) ?ts"
  let ?i = "parse_all (\<lambda>t. parse_inbox_message_delivered arb_sample_ext t (ac_contract_list ?c)) ?ts"
  have "case ?d of Inr ms \<Rightarrow> (case latest md_messageIndex ms 5 of Some m \<Rightarrow> md_kind m = 7 | None \<Rightarrow> False) | Inl _ \<Rightarrow> False"
    by code_simp
  then obtain delivered m where d: "?d = Inr delivered" and m: "latest md_messageIndex delivered 5 = Some m"
    and k: "md_kind m = 7" by (auto split: sum.splits option.splits)
  have "case ?i of Inr ms \<Rightarrow> map ib_msg_number ms = [5] | Inl _ \<Rightarrow> False" by code_simp
  then obtain inbox where i: "?i = Inr inbox" and n: "map ib_msg_number inbox = [5]" by (auto split: sum.splits)
  from n have "5 \<in> ib_msg_number ` set inbox" by (metis list.set_intros(1) set_map)
  moreover from k have "md_kind m \<notin> {3, 9, 11, 12, 13}" by simp
  ultimately show "\<exists>e. arb_l1_process arb_sample_ext sample_bridge_ext ?c sample_arb_txs w = (w, Inl e)"
    by (rule unsupported_kind_loses_range [OF d i _ m])
qed

end
