(* ===== verification/Bedrock.thy ===== *)
theory Bedrock
  imports Arbitrum
begin

unbundle bit_operations_syntax

text \<open>
  \<open>indexer/modules/bridge/bridge_utils.py\<close> and \<open>indexer/modules/bridge/bedrock\<close>: the deposits,
  withdrawals and state batches of an OP Stack chain, read from the logs of its contracts on
  either chain. The RLP encoding is the field \<open>rlp_encode\<close> of \<open>bridge_ext\<close>, a boolean being the byte 1 or nothing.
\<close>

section \<open>Deposit transactions\<close>

record OpBedrockDepositTx =
  dt_source_hash :: "byte list"
  dt_from_address :: "byte list"
  dt_to_address :: "byte list"
  dt_mint :: int
  dt_value :: int
  dt_gas :: int
  dt_is_system_transaction :: bool
  dt_data :: "byte list"

definition deposit_tx_hash :: "ext \<Rightarrow> bridge_ext \<Rightarrow> OpBedrockDepositTx \<Rightarrow> string res" where
  "deposit_tx_hash x bx d =
     hash_fields x bx 0x7e
       [RBytes (dt_source_hash d), RBytes (dt_from_address d), RBytes (dt_to_address d), RInt (dt_mint d),
        RInt (dt_value d), RInt (dt_gas d), RBytes (if dt_is_system_transaction d then [1] else []),
        RBytes (dt_data d)]"

definition rjust :: "nat \<Rightarrow> char \<Rightarrow> string \<Rightarrow> string" where
  "rjust n c s = replicate (n - length s) c @ s"

text \<open>\<open>Web3.keccak(hexstr=s)\<close>\<close>

definition keccak_hexstr :: "ext \<Rightarrow> string \<Rightarrow> byte list res" where
  "keccak_hexstr x s = rbind (to_bytes_hexstr s) (\<lambda>b. Inr (keccak x b))"

text \<open>A field that may be missing, used as a string: \<open>TypeError\<close> when it is \<open>None\<close>.\<close>

definition need_str :: "string option \<Rightarrow> string res" where
  "need_str s = (case s of None \<Rightarrow> Inl TypeError | Some t \<Rightarrow> Inr t)"

definition hex_int :: "string \<Rightarrow> int res" where
  "hex_int s = rbind (bytes_fromhex s) (\<lambda>b. Inr (int_from_bytes b))"

definition deposit_source_hash :: "ext \<Rightarrow> string \<Rightarrow> int \<Rightarrow> byte list res" where
  "deposit_source_hash x block_hash log_index =
     (let prefixed_block_hash = rjust 64 CHR ''0'' (drop 2 block_hash);
          prefixed_log_index = rjust 64 CHR ''0'' (drop 2 (py_hex log_index))
      in rbind (keccak_hexstr x (prefixed_block_hash @ prefixed_log_index)) (\<lambda>deposit_id_hash.
         keccak_hexstr x (rjust 64 CHR ''0'' ''00'' @ bytes_hex deposit_id_hash)))"

definition deposit_event_to_op_bedrock_transaction :: "ext \<Rightarrow> log \<Rightarrow> OpBedrockDepositTx res" where
  "deposit_event_to_op_bedrock_transaction x event =
     rbind (need_str (lg_block_hash event)) (\<lambda>block_hash.
     rbind (need_str (lg_topic1 event)) (\<lambda>topic1.
     rbind (need_str (lg_topic2 event)) (\<lambda>topic2.
     rbind (deposit_source_hash x block_hash (lg_log_index event)) (\<lambda>source_hash.
     rbind (int_base16 (Some (Prelude.slice 2 66 (lg_data event)))) (\<lambda>opaque_content_offset.
     rbind (int_base16 (Some (Prelude.slice 66 130 (lg_data event)))) (\<lambda>opaque_content_length.
     let opaque_data = Prelude.slice 130 (nat (130 + opaque_content_length * 2)) (lg_data event)
     in rbind (hex_int (take 64 opaque_data)) (\<lambda>msg_value.
        rbind (hex_int (Prelude.slice 64 128 opaque_data)) (\<lambda>v.
        rbind (hex_int (Prelude.slice 128 144 opaque_data)) (\<lambda>gas_limit.
        rbind (hex_int (Prelude.slice 144 146 opaque_data)) (\<lambda>creation.
        rbind (bytes_fromhex (drop 146 opaque_data)) (\<lambda>data.
        rbind (bytes_fromhex (drop 26 topic1)) (\<lambda>from_bytes.
        rbind (bytes_fromhex (drop 26 topic2)) (\<lambda>to_bytes.
        Inr \<lparr>dt_source_hash = source_hash, dt_from_address = from_bytes, dt_to_address = to_bytes,
           dt_mint = msg_value, dt_value = v, dt_gas = gas_limit,
           dt_is_system_transaction = (creation \<noteq> 0), dt_data = data\<rparr>)))))))))))))"

definition get_version_and_index_from_nonce :: "int \<Rightarrow> int \<times> int" where
  "get_version_and_index_from_nonce nonce = (drop_bit 240 nonce, nonce AND mask 240)"

definition optional_mint :: "int \<Rightarrow> int option" where
  "optional_mint mint = (if mint = 0 then None else Some mint)"

definition unmarshal_deposit_version1 :: "byte list
    \<Rightarrow> (int option \<times> int \<times> int \<times> int \<times> int \<times> bool \<times> byte list) res" where
  "unmarshal_deposit_version1 opaque_data =
     (if length opaque_data < 137 then Inl AssertionError
      else Inr (optional_mint (int_from_bytes (Prelude.slice 0 32 opaque_data)),
        int_from_bytes (Prelude.slice 32 64 opaque_data), int_from_bytes (Prelude.slice 64 96 opaque_data),
        int_from_bytes (Prelude.slice 96 128 opaque_data), int_from_bytes (Prelude.slice 128 136 opaque_data),
        opaque_data ! 136 = 1, drop 137 opaque_data))"

definition unmarshal_deposit_version0 :: "byte list \<Rightarrow> (int option \<times> int \<times> int \<times> bool \<times> byte list) res" where
  "unmarshal_deposit_version0 opaque_data =
     (if length opaque_data < 73 then Inl AssertionError
      else Inr (optional_mint (int_from_bytes (Prelude.slice 0 32 opaque_data)),
        int_from_bytes (Prelude.slice 32 64 opaque_data), int_from_bytes (Prelude.slice 64 72 opaque_data),
        opaque_data ! 72 = 1, drop 73 opaque_data))"

section \<open>Calls on the other chain\<close>

datatype BedRockFunctionCallType = NATIVE_BRIDGE_ETH | BRIDGE_ETH | BRIDGE_ERC20 | BRIDGE_ERC721
  | NORMAL_CROSS_CHAIN_CALL

fun call_type_value :: "BedRockFunctionCallType \<Rightarrow> int" where
  "call_type_value NATIVE_BRIDGE_ETH = 0"
| "call_type_value BRIDGE_ETH = 1"
| "call_type_value BRIDGE_ERC20 = 2"
| "call_type_value BRIDGE_ERC721 = 3"
| "call_type_value NORMAL_CROSS_CHAIN_CALL = 7"

record BridgeRemoteFunctionCallInfo =
  ci_bridge_from_address :: string
  ci_bridge_to_address :: "string option"
  ci_local_token_address :: "string option"
  ci_remote_token_address :: "string option"
  ci_amount :: int
  ci_extra_info :: "(string \<times> pval) list"
  ci_remote_function_call_type :: int

record RemoteFunctionCallDecoder =
  rd_4byte_selector :: string
  rd_decode :: "byte list \<Rightarrow> BridgeRemoteFunctionCallInfo res"

definition FINALIZE_BRIDGE_ETH_INPUTS :: "abi_input list" where
  "FINALIZE_BRIDGE_ETH_INPUTS =
     [data_input ''_from'' ''address'', data_input ''_to'' ''address'', data_input ''_amount'' ''uint256'',
      data_input ''_extraData'' ''bytes'']"

definition FINALIZE_BRIDGE_ERC20_INPUTS :: "abi_input list" where
  "FINALIZE_BRIDGE_ERC20_INPUTS =
     [data_input ''_localToken'' ''address'', data_input ''_remoteToken'' ''address'',
      data_input ''_from'' ''address'', data_input ''_to'' ''address'', data_input ''_amount'' ''uint256'',
      data_input ''_extraData'' ''bytes'']"

definition FINALIZE_BRIDGE_ERC721_INPUTS :: "abi_input list" where
  "FINALIZE_BRIDGE_ERC721_INPUTS =
     [data_input ''_localToken'' ''address'', data_input ''_remoteToken'' ''address'',
      data_input ''_from'' ''address'', data_input ''_to'' ''address'', data_input ''_tokenId'' ''uint256'',
      data_input ''_extraData'' ''bytes'']"

text \<open>The checks at the start of each decoder, and the decoded input.\<close>

definition selector_hex :: "byte list \<Rightarrow> string" where
  "selector_hex input_data = ''0x'' @ bytes_hex (take 4 input_data)"

definition decode_call :: "ext \<Rightarrow> bridge_ext \<Rightarrow> string \<Rightarrow> abi_input list \<Rightarrow> byte list \<Rightarrow> decoded res" where
  "decode_call x bx n ins input_data =
     (if length input_data < 4 \<or> selector_of x n ins \<noteq> selector_hex input_data then Inl AssertionError
      else decode_transaction_data bx ins (bytes_hex input_data))"

definition decode_finalize_bridge_eth :: "ext \<Rightarrow> bridge_ext \<Rightarrow> byte list \<Rightarrow> BridgeRemoteFunctionCallInfo res" where
  "decode_finalize_bridge_eth x bx input_data =
     rbind (decode_call x bx ''finalizeBridgeETH'' FINALIZE_BRIDGE_ETH_INPUTS input_data) (\<lambda>info.
     rbind (ev_addr info ''_from'') (\<lambda>from_address.
     rbind (ev_addr info ''_to'') (\<lambda>to_address.
     rbind (ev_uint info ''_amount'') (\<lambda>amount.
     Inr \<lparr>ci_bridge_from_address = from_address, ci_bridge_to_address = Some to_address,
        ci_local_token_address = None, ci_remote_token_address = None, ci_amount = amount,
        ci_extra_info = [], ci_remote_function_call_type = call_type_value BRIDGE_ETH\<rparr>))))"

definition token_info :: "(string \<times> pval) list \<Rightarrow> (string \<times> pval) list" where
  "token_info d = [(''token'', PDict d)]"

definition decode_finalize_bridge_erc20 :: "ext \<Rightarrow> bridge_ext \<Rightarrow> byte list \<Rightarrow> BridgeRemoteFunctionCallInfo res" where
  "decode_finalize_bridge_erc20 x bx input_data =
     rbind (decode_call x bx ''finalizeBridgeERC20'' FINALIZE_BRIDGE_ERC20_INPUTS input_data) (\<lambda>info.
     rbind (ev_addr info ''_from'') (\<lambda>from_address.
     rbind (ev_addr info ''_to'') (\<lambda>to_address.
     rbind (ev_addr info ''_localToken'') (\<lambda>local_token.
     rbind (ev_addr info ''_remoteToken'') (\<lambda>remote_token.
     rbind (ev_uint info ''_amount'') (\<lambda>amount.
     Inr \<lparr>ci_bridge_from_address = from_address, ci_bridge_to_address = Some to_address,
        ci_local_token_address = Some local_token, ci_remote_token_address = Some remote_token, ci_amount = amount,
        ci_extra_info = token_info [(''type'', PAtom (JStr ''ERC20'')), (''amount'', PAtom (JInt amount))],
        ci_remote_function_call_type = call_type_value BRIDGE_ERC20\<rparr>))))))"

definition decode_finalize_bridge_erc721 :: "ext \<Rightarrow> bridge_ext \<Rightarrow> byte list \<Rightarrow> BridgeRemoteFunctionCallInfo res" where
  "decode_finalize_bridge_erc721 x bx input_data =
     rbind (decode_call x bx ''finalizeBridgeERC721'' FINALIZE_BRIDGE_ERC721_INPUTS input_data) (\<lambda>info.
     rbind (ev_addr info ''_from'') (\<lambda>from_address.
     rbind (ev_addr info ''_to'') (\<lambda>to_address.
     rbind (ev_addr info ''_localToken'') (\<lambda>local_token.
     rbind (ev_addr info ''_remoteToken'') (\<lambda>remote_token.
     rbind (ev_uint info ''_tokenId'') (\<lambda>token_id.
     Inr \<lparr>ci_bridge_from_address = from_address, ci_bridge_to_address = Some to_address,
        ci_local_token_address = Some local_token, ci_remote_token_address = Some remote_token, ci_amount = 1,
        ci_extra_info = token_info [(''type'', PAtom (JStr ''ERC721'')),
          (''token_ids'', PList [PAtom (JInt token_id)]), (''amounts'', PList [PAtom (JInt 1)])],
        ci_remote_function_call_type = call_type_value BRIDGE_ERC721\<rparr>))))))"

definition bedrock_decoders :: "ext \<Rightarrow> bridge_ext \<Rightarrow> RemoteFunctionCallDecoder list" where
  "bedrock_decoders x bx =
     [\<lparr>rd_4byte_selector = selector_of x ''finalizeBridgeETH'' FINALIZE_BRIDGE_ETH_INPUTS,
       rd_decode = decode_finalize_bridge_eth x bx\<rparr>,
      \<lparr>rd_4byte_selector = selector_of x ''finalizeBridgeERC20'' FINALIZE_BRIDGE_ERC20_INPUTS,
       rd_decode = decode_finalize_bridge_erc20 x bx\<rparr>,
      \<lparr>rd_4byte_selector = selector_of x ''finalizeBridgeERC721'' FINALIZE_BRIDGE_ERC721_INPUTS,
       rd_decode = decode_finalize_bridge_erc721 x bx\<rparr>]"

definition get_remote_function_call_info :: "RemoteFunctionCallDecoder list \<Rightarrow> byte list
    \<Rightarrow> BridgeRemoteFunctionCallInfo res" where
  "get_remote_function_call_info decoders transaction_input =
     (if length transaction_input < 4
      then Inl (ValueError ''Input is too short to contain a function selector'')
      else case List.find (\<lambda>d. rd_4byte_selector d = selector_hex transaction_input) decoders of
             Some d \<Rightarrow> rd_decode d transaction_input
           | None \<Rightarrow> Inl (ValueError ''Unknown function selector''))"

section \<open>Events\<close>

definition MESSAGE_PASSED_EVENT :: event_abi where
  "MESSAGE_PASSED_EVENT = \<lparr>ev_name = ''MessagePassed'', ev_inputs =
     [indexed_input ''nonce'' ''uint256'', indexed_input ''sender'' ''address'', indexed_input ''target'' ''address'',
      data_input ''value'' ''uint256'', data_input ''gasLimit'' ''uint256'', data_input ''data'' ''bytes'',
      data_input ''withdrawalHash'' ''bytes32'']\<rparr>"

definition TRANSACTION_DEPOSITED_EVENT :: event_abi where
  "TRANSACTION_DEPOSITED_EVENT = \<lparr>ev_name = ''TransactionDeposited'', ev_inputs =
     [indexed_input ''from'' ''address'', indexed_input ''to'' ''address'', indexed_input ''version'' ''uint256'',
      data_input ''opaqueData'' ''bytes'']\<rparr>"

definition RELAYED_MESSAGE_EVENT :: event_abi where
  "RELAYED_MESSAGE_EVENT = \<lparr>ev_name = ''RelayedMessage'', ev_inputs = [indexed_input ''msgHash'' ''bytes32'']\<rparr>"

definition WITHDRAWAL_FINALIZED_EVENT :: event_abi where
  "WITHDRAWAL_FINALIZED_EVENT = \<lparr>ev_name = ''WithdrawalFinalized'', ev_inputs =
     [indexed_input ''withdrawalHash'' ''bytes32'', data_input ''success'' ''bool'']\<rparr>"

definition WITHDRAWAL_PROVEN_EVENT :: event_abi where
  "WITHDRAWAL_PROVEN_EVENT = \<lparr>ev_name = ''WithdrawalProven'', ev_inputs =
     [indexed_input ''withdrawalHash'' ''bytes32'', indexed_input ''from'' ''address'', indexed_input ''to'' ''address'']\<rparr>"

definition OUTPUT_PROPOSED_EVENT :: event_abi where
  "OUTPUT_PROPOSED_EVENT = \<lparr>ev_name = ''OutputProposed'', ev_inputs =
     [indexed_input ''outputRoot'' ''bytes32'', indexed_input ''l2OutputIndex'' ''uint256'',
      indexed_input ''l2BlockNumber'' ''uint256'', data_input ''l1Timestamp'' ''uint256'']\<rparr>"

definition RELAY_MESSAGE_INPUTS :: "abi_input list" where
  "RELAY_MESSAGE_INPUTS =
     [data_input ''_nonce'' ''uint256'', data_input ''_sender'' ''address'', data_input ''_target'' ''address'',
      data_input ''_value'' ''uint256'', data_input ''_minGasLimit'' ''uint256'', data_input ''_message'' ''bytes'']"

section \<open>Records\<close>

record DepositedTransaction =
  de_msg_hash :: string
  de_version :: "int option"
  de_index :: "int option"
  de_block_number :: "int option"
  de_block_timestamp :: "int option"
  de_block_hash :: "string option"
  de_transaction_hash :: string
  de_from_address :: string
  de_to_address :: "string option"
  de_local_token_address :: "string option"
  de_remote_token_address :: "string option"
  de_bridge_from_address :: string
  de_bridge_to_address :: "string option"
  de_amount :: int
  de_sender :: string
  de_target :: string
  de_gas_limit :: int
  de_value :: int
  de_l2_transaction_hash :: string
  de_bridge_transaction_type :: int
  de_message :: "string option"
  de_extra_info :: "(string \<times> pval) list"

record WithdrawnTransaction =
  wi_withdrawal_hash :: string
  wi_version :: "int option"
  wi_index :: "int option"
  wi_block_number :: "int option"
  wi_block_timestamp :: "int option"
  wi_block_hash :: "string option"
  wi_transaction_hash :: string
  wi_from_address :: string
  wi_to_address :: "string option"
  wi_local_token_address :: "string option"
  wi_remote_token_address :: "string option"
  wi_bridge_from_address :: string
  wi_bridge_to_address :: "string option"
  wi_amount :: int
  wi_sender :: string
  wi_target :: string
  wi_gas_limit :: int
  wi_value :: int
  wi_bridge_transaction_type :: int
  wi_message :: "string option"
  wi_extra_info :: "(string \<times> pval) list"

record RelayedMessageTransaction =
  rm_msg_hash :: string
  rm_block_number :: "int option"
  rm_block_timestamp :: "int option"
  rm_block_hash :: "string option"
  rm_transaction_hash :: string
  rm_from_address :: string
  rm_to_address :: "string option"

record OpL1ToL2DepositedTransaction =
  o1_msg_hash :: string
  o1_version :: "int option"
  o1_index :: "int option"
  o1_l1_block_number :: "int option"
  o1_l1_block_timestamp :: "int option"
  o1_l1_block_hash :: "string option"
  o1_l1_transaction_hash :: string
  o1_l1_from_address :: string
  o1_l1_to_address :: "string option"
  o1_amount :: int
  o1_from_address :: string
  o1_to_address :: "string option"
  o1_l1_token_address :: "string option"
  o1_l2_token_address :: "string option"
  o1_extra_info :: "(string \<times> pval) list"
  o1_type :: int
  o1_sender :: string
  o1_target :: string
  o1_data :: "string option"

record OpL1ToL2DepositedTransactionOnL2 =
  o2_msg_hash :: string
  o2_l2_block_number :: "int option"
  o2_l2_block_timestamp :: "int option"
  o2_l2_block_hash :: "string option"
  o2_l2_transaction_hash :: string
  o2_l2_from_address :: string
  o2_l2_to_address :: "string option"

record OpL2ToL1WithdrawnTransactionFinalized =
  o3_msg_hash :: string
  o3_l1_block_number :: "int option"
  o3_l1_block_timestamp :: "int option"
  o3_l1_block_hash :: "string option"
  o3_l1_transaction_hash :: string
  o3_l1_from_address :: string
  o3_l1_to_address :: "string option"

record OpL2ToL1WithdrawnTransactionOnL2 =
  o4_msg_hash :: string
  o4_version :: "int option"
  o4_index :: "int option"
  o4_l2_block_number :: "int option"
  o4_l2_block_timestamp :: "int option"
  o4_l2_block_hash :: "string option"
  o4_l2_transaction_hash :: string
  o4_l2_from_address :: string
  o4_l2_to_address :: "string option"
  o4_amount :: int
  o4_from_address :: string
  o4_to_address :: "string option"
  o4_l1_token_address :: "string option"
  o4_l2_token_address :: "string option"
  o4_extra_info :: "(string \<times> pval) list"
  o4_type :: int
  o4_sender :: string
  o4_target :: string
  o4_data :: "string option"

record OpL2ToL1WithdrawnTransactionProven =
  o5_msg_hash :: string
  o5_l1_proven_block_number :: "int option"
  o5_l1_proven_block_timestamp :: "int option"
  o5_l1_proven_block_hash :: "string option"
  o5_l1_proven_transaction_hash :: string
  o5_l1_proven_from_address :: string
  o5_l1_proven_to_address :: "string option"

record OpStateBatch =
  ob_batch_index :: int
  ob_l1_block_number :: "int option"
  ob_l1_block_timestamp :: "int option"
  ob_l1_block_hash :: "string option"
  ob_l1_transaction_hash :: string
  ob_batch_root :: string
  ob_end_block_number :: int
  ob_start_block_number :: "int option"
  ob_transaction_count :: "int option"

datatype op_item =
    Deposited OpL1ToL2DepositedTransaction
  | Relayed OpL1ToL2DepositedTransactionOnL2
  | Finalized OpL2ToL1WithdrawnTransactionFinalized
  | Withdrawn OpL2ToL1WithdrawnTransactionOnL2
  | Proven OpL2ToL1WithdrawnTransactionProven
  | StateBatch OpStateBatch

fun op_item_type :: "op_item \<Rightarrow> string" where
  "op_item_type (Deposited _) = to_snake_case ''OpL1ToL2DepositedTransaction''"
| "op_item_type (Relayed _) = to_snake_case ''OpL1ToL2DepositedTransactionOnL2''"
| "op_item_type (Finalized _) = to_snake_case ''OpL2ToL1WithdrawnTransactionFinalized''"
| "op_item_type (Withdrawn _) = to_snake_case ''OpL2ToL1WithdrawnTransactionOnL2''"
| "op_item_type (Proven _) = to_snake_case ''OpL2ToL1WithdrawnTransactionProven''"
| "op_item_type (StateBatch _) = to_snake_case ''OpStateBatch''"

section \<open>Parsing\<close>

text \<open>The call a message makes on the other chain; a message that is no such call (\<open>ValueError\<close>) is a
  normal cross-chain call by the sender of the transaction.\<close>

definition bridge_info_of :: "ext \<Rightarrow> bridge_ext \<Rightarrow> transaction \<Rightarrow> byte list \<Rightarrow> int
    \<Rightarrow> BridgeRemoteFunctionCallInfo res" where
  "bridge_info_of x bx t message v =
     (case get_remote_function_call_info (bedrock_decoders x bx) message of
        Inl (ValueError _) \<Rightarrow>
          Inr \<lparr>ci_bridge_from_address = tx_from_address t, ci_bridge_to_address = tx_to_address t,
             ci_local_token_address = None, ci_remote_token_address = None, ci_amount = v, ci_extra_info = [],
             ci_remote_function_call_type = call_type_value NORMAL_CROSS_CHAIN_CALL\<rparr>
      | r \<Rightarrow> r)"

record relay_message =
  ry_nonce :: int
  ry_sender :: string
  ry_target :: string
  ry_value :: int
  ry_gas_limit :: int
  ry_message :: "byte list"

definition decode_relay_message :: "bridge_ext \<Rightarrow> byte list \<Rightarrow> relay_message res" where
  "decode_relay_message bx data =
     rbind (decode_transaction_data bx RELAY_MESSAGE_INPUTS (bytes_hex data)) (\<lambda>d.
     rbind (ev_uint d ''_nonce'') (\<lambda>nonce.
     rbind (ev_addr d ''_sender'') (\<lambda>sender.
     rbind (ev_addr d ''_target'') (\<lambda>target.
     rbind (ev_uint d ''_value'') (\<lambda>v.
     rbind (ev_uint d ''_minGasLimit'') (\<lambda>gas_limit.
     rbind (ev_bytes d ''_message'') (\<lambda>message.
     Inr \<lparr>ry_nonce = nonce, ry_sender = sender, ry_target = target, ry_value = v, ry_gas_limit = gas_limit,
        ry_message = message\<rparr>)))))))"

text \<open>The value, the gas and the call data of a deposit, by its version.\<close>

definition unmarshal_deposit :: "int \<Rightarrow> byte list \<Rightarrow> (int \<times> int \<times> byte list) res" where
  "unmarshal_deposit version opaque_data =
     (if version = 1
      then rbind (unmarshal_deposit_version1 opaque_data)
        (\<lambda>(mint, v, eth_value, eth_tx_value, gas, is_creation, data). Inr (v, gas, data))
      else rbind (unmarshal_deposit_version0 opaque_data)
        (\<lambda>(mint, v, gas, is_creation, data). Inr (v, gas, data)))"

definition deposit_without_call :: "transaction \<Rightarrow> string \<Rightarrow> int \<Rightarrow> int \<Rightarrow> string \<Rightarrow> DepositedTransaction" where
  "deposit_without_call t l2_transaction_hash v gas tx_origin =
     \<lparr>de_msg_hash = l2_transaction_hash, de_version = None, de_index = None,
      de_block_number = tx_block_number t, de_block_timestamp = tx_block_timestamp t, de_block_hash = tx_block_hash t,
      de_transaction_hash = tx_hash t, de_from_address = tx_from_address t, de_to_address = tx_to_address t,
      de_local_token_address = None, de_remote_token_address = None,
      de_bridge_from_address = tx_from_address t, de_bridge_to_address = Some (tx_from_address t),
      de_amount = v, de_sender = tx_from_address t, de_target = tx_from_address t, de_gas_limit = gas,
      de_value = v, de_l2_transaction_hash = l2_transaction_hash,
      de_bridge_transaction_type = call_type_value NATIVE_BRIDGE_ETH, de_message = None,
      de_extra_info = [(''gas_limit'', PAtom (JInt gas)), (''tx_origin'', PAtom (JStr tx_origin))]\<rparr>"

definition deposit_with_call :: "ext \<Rightarrow> bridge_ext \<Rightarrow> transaction \<Rightarrow> string \<Rightarrow> byte list \<Rightarrow> string
    \<Rightarrow> DepositedTransaction res" where
  "deposit_with_call x bx t l2_transaction_hash data tx_origin =
     rbind (decode_relay_message bx data) (\<lambda>m.
     case get_version_and_index_from_nonce (ry_nonce m) of (version, index) \<Rightarrow>
     rbind (bridge_info_of x bx t (ry_message m) (ry_value m)) (\<lambda>info.
     rbind (keccak_hexstr x (bytes_to_hex_str data)) (\<lambda>h.
     Inr \<lparr>de_msg_hash = to_hex h, de_version = Some version, de_index = Some index,
        de_block_number = tx_block_number t, de_block_timestamp = tx_block_timestamp t, de_block_hash = tx_block_hash t,
      de_transaction_hash = tx_hash t, de_from_address = tx_from_address t, de_to_address = tx_to_address t,
        de_local_token_address = ci_local_token_address info,
        de_remote_token_address = ci_remote_token_address info,
        de_bridge_from_address = ci_bridge_from_address info, de_bridge_to_address = ci_bridge_to_address info,
        de_amount = ci_amount info, de_sender = ry_sender m, de_target = ry_target m,
        de_gas_limit = ry_gas_limit m, de_value = ry_value m, de_l2_transaction_hash = l2_transaction_hash,
        de_bridge_transaction_type = ci_remote_function_call_type info,
        de_message = Some (bytes_to_hex_str (ry_message m)),
        de_extra_info = AList.update ''tx_origin'' (PAtom (JStr tx_origin)) (ci_extra_info info)\<rparr>)))"

definition transaction_deposited :: "ext \<Rightarrow> bridge_ext \<Rightarrow> transaction \<Rightarrow> log \<Rightarrow> DepositedTransaction res" where
  "transaction_deposited x bx t l =
     rbind (sig_decode_log x TRANSACTION_DEPOSITED_EVENT l) (\<lambda>event.
     rbind (ev_uint event ''version'') (\<lambda>version.
     rbind (ev_addr event ''from'') (\<lambda>tx_origin.
     rbind (ev_bytes event ''opaqueData'') (\<lambda>tx_data.
     rbind (unmarshal_deposit version tx_data) (\<lambda>(v, gas, data).
     rbind (deposit_event_to_op_bedrock_transaction x l) (\<lambda>deposit_tx.
     rbind (deposit_tx_hash x bx deposit_tx) (\<lambda>l2_transaction_hash.
       if data = [] then Inr (deposit_without_call t l2_transaction_hash v gas tx_origin)
       else deposit_with_call x bx t l2_transaction_hash data tx_origin)))))))"

definition parse_transaction_deposited_event :: "ext \<Rightarrow> bridge_ext \<Rightarrow> transaction \<Rightarrow> string
    \<Rightarrow> DepositedTransaction list res" where
  "parse_transaction_deposited_event x bx t contract_address =
     parse_logs (event_log_abi_to_topic x TRANSACTION_DEPOSITED_EVENT) (transaction_deposited x bx) t
       [contract_address]"

definition message_passed :: "ext \<Rightarrow> bridge_ext \<Rightarrow> transaction \<Rightarrow> log \<Rightarrow> WithdrawnTransaction res" where
  "message_passed x bx t l =
     rbind (sig_decode_log x MESSAGE_PASSED_EVENT l) (\<lambda>event.
     rbind (ev_bytes event ''withdrawalHash'') (\<lambda>withdrawal_hash.
     rbind (ev_bytes event ''data'') (\<lambda>data.
     rbind (ev_uint event ''nonce'') (\<lambda>nonce.
     rbind (decode_relay_message bx data) (\<lambda>m.
     case get_version_and_index_from_nonce nonce of (version, index) \<Rightarrow>
     rbind (bridge_info_of x bx t (ry_message m) (ry_value m)) (\<lambda>info.
     Inr \<lparr>wi_withdrawal_hash = bytes_to_hex_str withdrawal_hash, wi_version = Some version, wi_index = Some index,
        wi_block_number = tx_block_number t, wi_block_timestamp = tx_block_timestamp t, wi_block_hash = tx_block_hash t,
      wi_transaction_hash = tx_hash t, wi_from_address = tx_from_address t, wi_to_address = tx_to_address t,
        wi_local_token_address = ci_local_token_address info,
        wi_remote_token_address = ci_remote_token_address info,
        wi_bridge_from_address = ci_bridge_from_address info, wi_bridge_to_address = ci_bridge_to_address info,
        wi_amount = ci_amount info, wi_sender = ry_sender m, wi_target = ry_target m,
        wi_gas_limit = ry_gas_limit m, wi_value = ry_value m,
        wi_bridge_transaction_type = ci_remote_function_call_type info,
        wi_message = Some (bytes_to_hex_str (ry_message m)), wi_extra_info = ci_extra_info info\<rparr>))))))"

definition parse_message_passed_event :: "ext \<Rightarrow> bridge_ext \<Rightarrow> transaction \<Rightarrow> string
    \<Rightarrow> WithdrawnTransaction list res" where
  "parse_message_passed_event x bx t contract_address =
     parse_logs (event_log_abi_to_topic x MESSAGE_PASSED_EVENT) (message_passed x bx) t [contract_address]"

definition relayed_message :: "ext \<Rightarrow> event_abi \<Rightarrow> string \<Rightarrow> transaction \<Rightarrow> log
    \<Rightarrow> RelayedMessageTransaction res" where
  "relayed_message x event_abi msg_field t l =
     rbind (sig_decode_log x event_abi l) (\<lambda>d.
     rbind (ev_bytes d msg_field) (\<lambda>msg_hash.
     Inr \<lparr>rm_msg_hash = bytes_to_hex_str msg_hash, rm_block_number = tx_block_number t, rm_block_timestamp = tx_block_timestamp t, rm_block_hash = tx_block_hash t,
      rm_transaction_hash = tx_hash t, rm_from_address = tx_from_address t, rm_to_address = tx_to_address t\<rparr>))"

definition parse_relayed_message :: "ext \<Rightarrow> event_abi \<Rightarrow> transaction \<Rightarrow> string \<Rightarrow> string
    \<Rightarrow> RelayedMessageTransaction list res" where
  "parse_relayed_message x event_abi t contract_address msg_field =
     parse_logs (event_log_abi_to_topic x event_abi) (relayed_message x event_abi msg_field) t [contract_address]"

definition output_proposed :: "ext \<Rightarrow> transaction \<Rightarrow> log \<Rightarrow> OpStateBatch res" where
  "output_proposed x t l =
     rbind (sig_decode_log x OUTPUT_PROPOSED_EVENT l) (\<lambda>event.
     rbind (ev_uint event ''l2OutputIndex'') (\<lambda>batch_index.
     rbind (ev_uint event ''l2BlockNumber'') (\<lambda>end_block_number.
     rbind (ev_bytes event ''outputRoot'') (\<lambda>batch_root.
     Inr \<lparr>ob_batch_index = batch_index, ob_l1_block_number = tx_block_number t,
        ob_l1_block_timestamp = tx_block_timestamp t, ob_l1_block_hash = tx_block_hash t,
        ob_l1_transaction_hash = tx_hash t, ob_batch_root = bytes_to_hex_str batch_root,
        ob_end_block_number = end_block_number, ob_start_block_number = None, ob_transaction_count = None\<rparr>))))"

definition parse_propose_l2_output :: "ext \<Rightarrow> transaction \<Rightarrow> string \<Rightarrow> OpStateBatch list res" where
  "parse_propose_l2_output x t contract_address =
     parse_logs (event_log_abi_to_topic x OUTPUT_PROPOSED_EVENT) (output_proposed x) t [contract_address]"

section \<open>The jobs\<close>

text \<open>The addresses as configured; the lower-case copies that \<open>__init__\<close> makes are not used.\<close>

record bedrock_l1_config =
  bo_optimism_portal_proxy :: "string option"
  bo_l2_output_oracle_proxy :: "string option"

text \<open>An address that is configured and not empty.\<close>

definition configured :: "string option \<Rightarrow> string option" where
  "configured a = (case a of Some s \<Rightarrow> if s = [] then None else Some s | None \<Rightarrow> None)"

definition bedrock_l1_filter :: "ext \<Rightarrow> bedrock_l1_config \<Rightarrow> tx_filter" where
  "bedrock_l1_filter x c = TransactionFilterByLogs
     ((case configured (bo_optimism_portal_proxy c) of None \<Rightarrow> []
       | Some a \<Rightarrow> [([event_log_abi_to_topic x TRANSACTION_DEPOSITED_EVENT,
            event_log_abi_to_topic x WITHDRAWAL_FINALIZED_EVENT,
            event_log_abi_to_topic x WITHDRAWAL_PROVEN_EVENT], [a])]) @
      (case configured (bo_l2_output_oracle_proxy c) of None \<Rightarrow> []
       | Some a \<Rightarrow> [([event_log_abi_to_topic x OUTPUT_PROPOSED_EVENT], [a])]))"

definition deposited_record :: "DepositedTransaction \<Rightarrow> OpL1ToL2DepositedTransaction" where
  "deposited_record d =
     \<lparr>o1_msg_hash = de_msg_hash d, o1_version = de_version d, o1_index = de_index d,
      o1_l1_block_number = de_block_number d, o1_l1_block_timestamp = de_block_timestamp d, o1_l1_block_hash = de_block_hash d,
      o1_l1_transaction_hash = de_transaction_hash d, o1_l1_from_address = de_from_address d, o1_l1_to_address = de_to_address d,
      o1_amount = de_amount d, o1_from_address = de_bridge_from_address d, o1_to_address = de_bridge_to_address d,
      o1_l1_token_address = de_remote_token_address d, o1_l2_token_address = de_local_token_address d,
      o1_extra_info = de_extra_info d, o1_type = de_bridge_transaction_type d, o1_sender = de_sender d,
      o1_target = de_target d, o1_data = de_message d\<rparr>"

definition proven_record :: "RelayedMessageTransaction \<Rightarrow> OpL2ToL1WithdrawnTransactionProven" where
  "proven_record d =
     \<lparr>o5_msg_hash = rm_msg_hash d, o5_l1_proven_block_number = rm_block_number d, o5_l1_proven_block_timestamp = rm_block_timestamp d, o5_l1_proven_block_hash = rm_block_hash d,
      o5_l1_proven_transaction_hash = rm_transaction_hash d, o5_l1_proven_from_address = rm_from_address d, o5_l1_proven_to_address = rm_to_address d\<rparr>"

definition finalized_record :: "RelayedMessageTransaction \<Rightarrow> OpL2ToL1WithdrawnTransactionFinalized" where
  "finalized_record d =
     \<lparr>o3_msg_hash = rm_msg_hash d, o3_l1_block_number = rm_block_number d, o3_l1_block_timestamp = rm_block_timestamp d, o3_l1_block_hash = rm_block_hash d,
      o3_l1_transaction_hash = rm_transaction_hash d, o3_l1_from_address = rm_from_address d, o3_l1_to_address = rm_to_address d\<rparr>"

definition relayed_record :: "RelayedMessageTransaction \<Rightarrow> OpL1ToL2DepositedTransactionOnL2" where
  "relayed_record d =
     \<lparr>o2_msg_hash = rm_msg_hash d, o2_l2_block_number = rm_block_number d, o2_l2_block_timestamp = rm_block_timestamp d, o2_l2_block_hash = rm_block_hash d,
      o2_l2_transaction_hash = rm_transaction_hash d, o2_l2_from_address = rm_from_address d, o2_l2_to_address = rm_to_address d\<rparr>"

definition withdrawn_record :: "WithdrawnTransaction \<Rightarrow> OpL2ToL1WithdrawnTransactionOnL2" where
  "withdrawn_record d =
     \<lparr>o4_msg_hash = wi_withdrawal_hash d, o4_version = wi_version d, o4_index = wi_index d,
      o4_l2_block_number = wi_block_number d, o4_l2_block_timestamp = wi_block_timestamp d, o4_l2_block_hash = wi_block_hash d,
      o4_l2_transaction_hash = wi_transaction_hash d, o4_l2_from_address = wi_from_address d, o4_l2_to_address = wi_to_address d,
      o4_amount = wi_amount d, o4_from_address = wi_bridge_from_address d, o4_to_address = wi_bridge_to_address d,
      o4_l1_token_address = wi_local_token_address d, o4_l2_token_address = wi_remote_token_address d,
      o4_extra_info = wi_extra_info d, o4_type = wi_bridge_transaction_type d, o4_sender = wi_sender d,
      o4_target = wi_target d, o4_data = wi_message d\<rparr>"

definition portal_items :: "ext \<Rightarrow> bridge_ext \<Rightarrow> string \<Rightarrow> transaction list \<Rightarrow> op_item list res" where
  "portal_items x bx a transactions =
     rbind (parse_all (\<lambda>t. parse_transaction_deposited_event x bx t a) transactions) (\<lambda>deposited.
     rbind (parse_all (\<lambda>t. parse_relayed_message x WITHDRAWAL_PROVEN_EVENT t a ''withdrawalHash'') transactions)
       (\<lambda>proven.
     rbind (parse_all (\<lambda>t. parse_relayed_message x WITHDRAWAL_FINALIZED_EVENT t a ''withdrawalHash'') transactions)
       (\<lambda>finalized.
     Inr (map (Deposited \<circ> deposited_record) deposited @ map (Proven \<circ> proven_record) proven @
          map (Finalized \<circ> finalized_record) finalized))))"

definition oracle_items :: "ext \<Rightarrow> string \<Rightarrow> transaction list \<Rightarrow> op_item list res" where
  "oracle_items x a transactions =
     rbind (parse_all (\<lambda>t. parse_propose_l2_output x t a) transactions) (\<lambda>batches.
     Inr (map StateBatch batches))"

definition bedrock_l1_result :: "ext \<Rightarrow> bridge_ext \<Rightarrow> bedrock_l1_config \<Rightarrow> transaction list \<Rightarrow> op_item list res" where
  "bedrock_l1_result x bx c buffer =
     (let transactions = filter (filter_is_satisfied_by (bedrock_l1_filter x c)) buffer
      in rbind (case configured (bo_optimism_portal_proxy c) of
                  None \<Rightarrow> Inr [] | Some a \<Rightarrow> portal_items x bx a transactions) (\<lambda>portal.
         rbind (case configured (bo_l2_output_oracle_proxy c) of
                  None \<Rightarrow> Inr [] | Some a \<Rightarrow> oracle_items x a transactions) (\<lambda>batches.
         Inr (portal @ batches))))"

definition bedrock_l1_process :: "ext \<Rightarrow> bridge_ext \<Rightarrow> bedrock_l1_config \<Rightarrow> transaction list
    \<Rightarrow> ((op_item, 'x) world, unit) act" where
  "bedrock_l1_process x bx c buffer = collect_all op_item_type (bedrock_l1_result x bx c buffer)"

record bedrock_l2_config =
  bt_l2_to_l1_message_passer :: string
  bt_l2_cross_domain_messenger :: string

definition new_bedrock_l2_config :: "string option \<Rightarrow> string option \<Rightarrow> bedrock_l2_config res" where
  "new_bedrock_l2_config passer messenger =
     (case (configured passer, configured messenger) of
        (Some p, Some m) \<Rightarrow> Inr \<lparr>bt_l2_to_l1_message_passer = p, bt_l2_cross_domain_messenger = m\<rparr>
      | _ \<Rightarrow> Inl AssertionError)"

definition bedrock_l2_filter :: "ext \<Rightarrow> bedrock_l2_config \<Rightarrow> tx_filter" where
  "bedrock_l2_filter x c = TransactionFilterByLogs
     [([event_log_abi_to_topic x RELAYED_MESSAGE_EVENT, event_log_abi_to_topic x MESSAGE_PASSED_EVENT],
       [bt_l2_to_l1_message_passer c, bt_l2_cross_domain_messenger c])]"

definition bedrock_l2_result :: "ext \<Rightarrow> bridge_ext \<Rightarrow> bedrock_l2_config \<Rightarrow> transaction list \<Rightarrow> op_item list res" where
  "bedrock_l2_result x bx c buffer =
     (let transactions = filter (filter_is_satisfied_by (bedrock_l2_filter x c)) buffer
      in rbind (parse_all (\<lambda>t. parse_relayed_message x RELAYED_MESSAGE_EVENT t (bt_l2_cross_domain_messenger c)
                 ''msgHash'') transactions) (\<lambda>relayed.
         rbind (parse_all (\<lambda>t. parse_message_passed_event x bx t (bt_l2_to_l1_message_passer c)) transactions)
           (\<lambda>withdrawn.
         Inr (map (Relayed \<circ> relayed_record) relayed @ map (Withdrawn \<circ> withdrawn_record) withdrawn))))"

definition bedrock_l2_process :: "ext \<Rightarrow> bridge_ext \<Rightarrow> bedrock_l2_config \<Rightarrow> transaction list
    \<Rightarrow> ((op_item, 'x) world, unit) act" where
  "bedrock_l2_process x bx c buffer = collect_all op_item_type (bedrock_l2_result x bx c buffer)"

section \<open>Slices of hexadecimal text\<close>

lemma bytes_hex_simps: "bytes_hex [] = []" "bytes_hex (b # bs) = byte_hex b @ bytes_hex bs"
  by (simp_all add: bytes_hex_def)

lemma take_bytes_hex: "take (2 * n) (bytes_hex bs) = bytes_hex (take n bs)"
proof (induction n arbitrary: bs)
  case (Suc n)
  then show ?case by (cases bs) (simp_all add: bytes_hex_simps byte_hex_def)
qed (simp add: bytes_hex_simps)

lemma drop_bytes_hex: "drop (2 * n) (bytes_hex bs) = bytes_hex (drop n bs)"
proof (induction n arbitrary: bs)
  case (Suc n)
  then show ?case by (cases bs) (simp_all add: bytes_hex_simps byte_hex_def)
qed simp

lemma slice_bytes_hex: "Prelude.slice (2 * i) (2 * j) (bytes_hex bs) = bytes_hex (Prelude.slice i j bs)"
  using take_bytes_hex [of "j - i" "drop i bs"] by (simp add: Prelude.slice_def drop_bytes_hex right_diff_distrib')

text \<open>The same at the offsets the parser uses, in the text after its \<open>0x\<close>.\<close>

lemma hex_slices:
  "Prelude.slice 2 66 (to_hex bs) = bytes_hex (Prelude.slice 0 32 bs)"
  "Prelude.slice 66 130 (to_hex bs) = bytes_hex (Prelude.slice 32 64 bs)"
  "Prelude.slice 130 (130 + 2 * n) (to_hex bs) = bytes_hex (Prelude.slice 64 (64 + n) bs)"
  "take 64 (bytes_hex bs) = bytes_hex (Prelude.slice 0 32 bs)"
  "Prelude.slice 64 128 (bytes_hex bs) = bytes_hex (Prelude.slice 32 64 bs)"
  "Prelude.slice 128 144 (bytes_hex bs) = bytes_hex (Prelude.slice 64 72 bs)"
  "Prelude.slice 144 146 (bytes_hex bs) = bytes_hex (Prelude.slice 72 73 bs)"
  "drop 146 (bytes_hex bs) = bytes_hex (drop 73 bs)"
  using take_bytes_hex [of 32 bs] drop_bytes_hex [of 73 bs] slice_bytes_hex [of 0 32 bs]
    slice_bytes_hex [of 32 64 bs] slice_bytes_hex [of 64 "64 + n" bs] slice_bytes_hex [of 64 72 bs]
    slice_bytes_hex [of 72 73 bs]
  by (simp_all add: bytes_to_hex_str_def Prelude.slice_def numeral_eq_Suc)

lemma hex_number_bytes: "hex_number (bytes_hex bs) n = Inr (fold (\<lambda>b n. 256 * n + uint b) bs n)"
proof (induction bs arbitrary: n)
  case (Cons b bs)
  have d: "unat b div 16 < 16" "unat b mod 16 < 16" using unat_byte [of b] by simp_all
  have "unat b = 16 * (unat b div 16) + unat b mod 16" by simp
  then have "int (unat b) = 16 * int (unat b div 16) + int (unat b mod 16)"
    by (metis of_nat_add of_nat_mult of_nat_numeral)
  then have "16 * (16 * n + int (unat b div 16)) + int (unat b mod 16) = 256 * n + uint b"
    unfolding uint_nat by simp
  moreover have "hex_number (bytes_hex (b # bs)) n =
      hex_number (bytes_hex bs) (16 * (16 * n + int (unat b div 16)) + int (unat b mod 16))"
    using d by (simp add: bytes_hex_simps byte_hex_def)
  ultimately show ?case by (simp only: Cons fold_simps)
qed (simp add: bytes_hex_simps)

lemma strip_0x_bytes_hex: "strip_0x (bytes_hex bs) = bytes_hex bs"
proof (cases bs)
  case (Cons b bs')
  have "hex_digit (unat b mod 16) \<noteq> CHR ''x''"
    using hex_value_digit [of "unat b mod 16"] unat_byte [of b] by (auto simp: hex_value_def)
  with Cons show ?thesis by (simp add: strip_0x_def startswith_def bytes_hex_simps byte_hex_def)
qed (simp add: strip_0x_def startswith_def bytes_hex_simps)

lemma int_base16_bytes: "bs \<noteq> [] \<Longrightarrow> int_base16 (Some (bytes_hex bs)) = Inr (int_from_bytes bs)"
  using length_bytes_hex [of bs] by (auto simp: int_base16_def strip_0x_bytes_hex hex_number_bytes int_from_bytes_def)

lemma hex_int_bytes: "hex_int (bytes_hex bs) = Inr (int_from_bytes bs)"
  by (simp add: hex_int_def bytes_fromhex_hex)

section \<open>Deposits\<close>

text \<open>The data of a \<open>TransactionDeposited\<close> event: the offset and the length of the opaque data as words,
  the opaque data, and its padding.\<close>

definition deposit_log_data :: "byte list \<Rightarrow> byte list \<Rightarrow> string" where
  "deposit_log_data opaque padding =
     to_hex (word_bytes 32 @ word_bytes (int (length opaque)) @ opaque @ padding)"

lemma deposit_log_slices:
  assumes "word_range (int (length opaque))"
  shows "int_base16 (Some (Prelude.slice 2 66 (deposit_log_data opaque padding))) = Inr 32"
    and "int_base16 (Some (Prelude.slice 66 130 (deposit_log_data opaque padding))) = Inr (int (length opaque))"
    and "Prelude.slice 130 (130 + 2 * length opaque) (deposit_log_data opaque padding) = bytes_hex opaque"
proof -
  let ?b = "word_bytes 32 @ word_bytes (int (length opaque)) @ opaque @ padding"
  have ne: "word_bytes n \<noteq> []" for n using length_word_bytes [of n] by (metis list.size(3) zero_neq_numeral)
  have s: "Prelude.slice 0 32 ?b = word_bytes 32" "Prelude.slice 32 64 ?b = word_bytes (int (length opaque))"
    "Prelude.slice 64 (64 + length opaque) ?b = opaque"
    by (simp_all add: slice_append_left)
  show "int_base16 (Some (Prelude.slice 2 66 (deposit_log_data opaque padding))) = Inr 32"
    by (simp add: deposit_log_data_def hex_slices s int_base16_bytes ne int_from_word_bytes word_range_small)
  show "int_base16 (Some (Prelude.slice 66 130 (deposit_log_data opaque padding))) = Inr (int (length opaque))"
    by (simp add: deposit_log_data_def hex_slices s int_base16_bytes ne int_from_word_bytes assms)
  show "Prelude.slice 130 (130 + 2 * length opaque) (deposit_log_data opaque padding) = bytes_hex opaque"
    by (simp add: deposit_log_data_def hex_slices s)
qed

text \<open>C18: the two readers of a deposit agree. The transaction that is hashed, read from the hexadecimal text
  of the event, has the mint, the value, the gas and the data that the reader of version 0 finds in the
  bytes, and is marked whenever that one sees a contract creation.\<close>

theorem deposit_readers_agree:
  assumes "lg_data event = deposit_log_data opaque padding" and "word_range (int (length opaque))"
    and "deposit_event_to_op_bedrock_transaction x event = Inr tx"
    and "unmarshal_deposit_version0 opaque = Inr (mint, v, gas, is_creation, data)"
  shows "dt_mint tx = (case mint of None \<Rightarrow> 0 | Some m \<Rightarrow> m) \<and> dt_value tx = v \<and> dt_gas tx = gas \<and>
    dt_data tx = data \<and> (is_creation \<longrightarrow> dt_is_system_transaction tx)"
proof -
  note s = deposit_log_slices [OF assms(2), of padding]
  have nat_eq: "nat (130 + int (length opaque) * 2) = 130 + 2 * length opaque" by simp
  from assms(3) have tx: "dt_mint tx = int_from_bytes (Prelude.slice 0 32 opaque)"
    "dt_value tx = int_from_bytes (Prelude.slice 32 64 opaque)"
    "dt_gas tx = int_from_bytes (Prelude.slice 64 72 opaque)"
    "dt_is_system_transaction tx \<longleftrightarrow> int_from_bytes (Prelude.slice 72 73 opaque) \<noteq> 0"
    "dt_data tx = drop 73 opaque"
    by (auto simp: deposit_event_to_op_bedrock_transaction_def assms(1) s nat_eq Let_def rbind_Inr_iff
        hex_slices hex_int_bytes bytes_fromhex_hex simp del: nat_add_distrib)
  from assms(4) have un: "73 \<le> length opaque" "mint = optional_mint (int_from_bytes (Prelude.slice 0 32 opaque))"
    "v = int_from_bytes (Prelude.slice 32 64 opaque)" "gas = int_from_bytes (Prelude.slice 64 72 opaque)"
    "is_creation \<longleftrightarrow> opaque ! 72 = 1" "data = drop 73 opaque"
    by (auto simp: unmarshal_deposit_version0_def split: if_splits)
  have "Prelude.slice 72 73 opaque = [opaque ! 72]"
    using un(1) by (simp add: Prelude.slice_def take_Suc_conv_app_nth hd_drop_conv_nth take_Suc)
  then have "int_from_bytes (Prelude.slice 72 73 opaque) = uint (opaque ! 72)" by (simp add: int_from_bytes_def)
  with tx un show ?thesis by (auto simp: optional_mint_def)
qed

text \<open>A deposit without a call, for examples.\<close>

definition op_sample_ext :: ext where
  "op_sample_ext = sample_ext\<lparr>event_topic := (\<lambda>n ts. [of_nat (length ts)]), abi_decode := (\<lambda>ts b.
     if ts = [''bytes''] then Inr [ABytes (replicate 73 1)]
     else Inr [AAddress ''0x0c'', AAddress ''0x0d'', AUint 0])\<rparr>"

definition op_sample_log :: log where
  "op_sample_log = sample_log\<lparr>lg_topic0 := Some ''0x04'', lg_data := deposit_log_data (replicate 73 1) [],
     lg_topic1 := Some ''0x000000000000000000000000aa'', lg_topic2 := Some ''0x000000000000000000000000bb''\<rparr>"

lemma op_sample_fields:
  "lg_data op_sample_log = deposit_log_data (replicate 73 1) []"
  "need_str (lg_block_hash op_sample_log) = Inr ''0xb''"
  "need_str (lg_topic1 op_sample_log) = Inr ''0x000000000000000000000000aa''"
  "need_str (lg_topic2 op_sample_log) = Inr ''0x000000000000000000000000bb''"
  "lg_log_index op_sample_log = 0" "lg_topic0 op_sample_log = Some ''0x04''" "lg_address op_sample_log = ''0xa''"
  by (simp_all add: need_str_def op_sample_log_def sample_log_def)

lemma op_sample_deposit: "\<exists>tx. deposit_event_to_op_bedrock_transaction op_sample_ext op_sample_log = Inr tx"
proof -
  let ?o = "replicate 73 1 :: byte list"
  have "word_range (int (length ?o))" by (simp add: word_range_small)
  note s = deposit_log_slices [OF this, of "[]"]
  have "case deposit_source_hash op_sample_ext ''0xb'' 0 of Inr _ \<Rightarrow> True | Inl _ \<Rightarrow> False" by code_simp
  then obtain sh where sh: "deposit_source_hash op_sample_ext ''0xb'' 0 = Inr sh" by (auto split: sum.splits)
  have t: "bytes_fromhex ''aa'' = Inr [0xaa]" "bytes_fromhex ''bb'' = Inr [0xbb]" by code_simp+
  have nat_eq: "nat (130 + int (length ?o) * 2) = 130 + 2 * length ?o" by simp
  show ?thesis
    by (simp add: deposit_event_to_op_bedrock_transaction_def op_sample_fields sh s nat_eq hex_slices hex_int_bytes
        bytes_fromhex_hex t del: length_replicate bytes_fromhex.simps)
qed

theorem deposit_readers_agree_witness:
  "\<exists>tx. deposit_event_to_op_bedrock_transaction op_sample_ext op_sample_log = Inr tx \<and> dt_data tx = []"
proof -
  let ?o = "replicate 73 1 :: byte list"
  have r: "word_range (int (length ?o))" by (simp add: word_range_small)
  from op_sample_deposit obtain tx where tx: "deposit_event_to_op_bedrock_transaction op_sample_ext op_sample_log = Inr tx" ..
  have "\<exists>mint v gas c. unmarshal_deposit_version0 ?o = Inr (mint, v, gas, c, [])"
    unfolding unmarshal_deposit_version0_def by simp (rule exI [of _ True], rule TrueI)
  then obtain mint v gas c where "unmarshal_deposit_version0 ?o = Inr (mint, v, gas, c, [])" by blast
  from deposit_readers_agree [OF op_sample_fields(1) r tx this] tx show ?thesis by blast
qed

text \<open>The nonce of a message is its version, in the upper 16 bits, and its index, in the lower 240.\<close>

lemma nonce_version_index:
  assumes "0 \<le> nonce" and "nonce < 2 ^ 256" and "get_version_and_index_from_nonce nonce = (version, index)"
  shows "nonce = version * 2 ^ 240 + index \<and> 0 \<le> index \<and> index < 2 ^ 240 \<and> 0 \<le> version \<and> version < 2 ^ 16"
proof -
  have v: "version = nonce div 2 ^ 240" and i: "index = nonce mod 2 ^ 240"
    using assms(3) by (simp_all add: get_version_and_index_from_nonce_def drop_bit_eq_div take_bit_eq_mod
        flip: take_bit_eq_mask)
  have "nonce < 2 ^ 16 * 2 ^ 240" using assms(2) by (simp flip: power_add)
  then have "version < 2 ^ 16" unfolding v by (simp add: div_less_iff_less_mult)
  moreover have "0 \<le> version" unfolding v using assms(1) by (simp add: pos_imp_zdiv_nonneg_iff)
  ultimately show ?thesis unfolding v i by simp
qed

theorem nonce_version_index_witness:
  "2 ^ 240 + (5 :: int) = fst (get_version_and_index_from_nonce (2 ^ 240 + 5)) * 2 ^ 240
     + snd (get_version_and_index_from_nonce (2 ^ 240 + 5))"
  using nonce_version_index [of "2 ^ 240 + 5"] by simp

section \<open>The records of a job\<close>

text \<open>One result for each log of a parser's contract, whose context is that of the log's transaction.\<close>

lemma parse_logs_context:
  assumes "parse_logs sig f t cs = Inr ys" and "\<And>l y. f t l = Inr y \<Longrightarrow> h y = g t"
  shows "map h ys = map (\<lambda>_. g t) (filter (log_from sig cs) (tx_logs t))"
proof -
  from assms(1) have "rmap (f t) (filter (log_from sig cs) (tx_logs t)) = Inr ys"
    by (auto simp: parse_logs_def receipt_logs_def tx_logs_def rbind_Inr_iff split: option.splits)
  then have "list_all2 (\<lambda>l y. f t l = Inr y) (filter (log_from sig cs) (tx_logs t)) ys" by (simp add: rmap_Inr_iff)
  then show ?thesis by (induction rule: list_all2_induct) (simp_all add: assms(2))
qed

lemma parse_all_context:
  assumes "parse_all f ts = Inr ys" and "\<And>t zs. f t = Inr zs \<Longrightarrow> map h zs = k t"
  shows "map h ys = concat (map k ts)"
proof -
  from assms(1) obtain yss where yss: "list_all2 (\<lambda>t zs. f t = Inr zs) ts yss" and ys: "ys = concat yss"
    by (auto simp: parse_all_def rbind_Inr_iff rmap_Inr_iff)
  from yss have "map (map h) yss = map k ts"
    by (induction rule: list_all2_induct) (simp_all add: assms(2))
  then show ?thesis by (simp add: ys map_concat)
qed

lemma concat_map_filter_empty: "(\<And>t. \<not> P t \<Longrightarrow> k t = []) \<Longrightarrow> concat (map k (filter P ts)) = concat (map k ts)"
  by (induction ts) auto

text \<open>A filter by logs keeps every transaction with a log of its contracts and topics.\<close>

lemma filter_keeps_logs:
  assumes "(ts, as) \<in> set tas" and "sig \<in> set ts" and "set cs \<subseteq> set as"
    and "\<not> filter_is_satisfied_by (TransactionFilterByLogs tas) t"
  shows "filter (log_from sig cs) (tx_logs t) = []"
proof -
  from assms(1,4) have "\<not> topics_satisfied ts as t"
    by (auto simp: filter_is_satisfied_by_def list_ex_iff)
  with assms(2,3) show ?thesis
    by (auto simp: topics_satisfied_def log_matches_def log_from_def tx_logs_def list_ex_iff filter_empty_conv
        split: option.splits)
qed

fun deposited_of :: "op_item \<Rightarrow> OpL1ToL2DepositedTransaction list" where
  "deposited_of (Deposited d) = [d]"
| "deposited_of _ = []"

lemma deposited_of_deposited: "concat (map deposited_of (map (Deposited \<circ> f) xs)) = map f xs"
  by (induction xs) simp_all

lemma deposited_of_others:
  "(\<And>y. deposited_of (f y) = []) \<Longrightarrow> concat (map deposited_of (map f xs)) = []"
  by (induction xs) simp_all

lemma transaction_deposited_context:
  "transaction_deposited x bx t l = Inr d \<Longrightarrow> (de_transaction_hash d, de_block_number d) = (tx_hash t, tx_block_number t)"
  by (auto simp: transaction_deposited_def deposit_without_call_def deposit_with_call_def rbind_Inr_iff
      get_version_and_index_from_nonce_def split: if_splits)

text \<open>C16: whenever the job on the first chain succeeds, it has exactly one deposit for every
  \<open>TransactionDeposited\<close> log of the portal among the buffered transactions, in their order, with the
  hash and the block of the log's transaction: neither the filter nor the parsers lose one.\<close>

theorem deposits_complete:
  assumes "bedrock_l1_result x bx c buffer = Inr items" and "configured (bo_optimism_portal_proxy c) = Some a"
  shows "map (\<lambda>d. (o1_l1_transaction_hash d, o1_l1_block_number d)) (concat (map deposited_of items)) =
    concat (map (\<lambda>t. map (\<lambda>_. (tx_hash t, tx_block_number t))
      (filter (log_from (event_log_abi_to_topic x TRANSACTION_DEPOSITED_EVENT) [a]) (tx_logs t))) buffer)"
proof -
  let ?ts = "filter (filter_is_satisfied_by (bedrock_l1_filter x c)) buffer"
  let ?sig = "event_log_abi_to_topic x TRANSACTION_DEPOSITED_EVENT"
  let ?k = "\<lambda>t. map (\<lambda>_. (tx_hash t, tx_block_number t)) (filter (log_from ?sig [a]) (tx_logs t))"
  from assms obtain portal batches where items: "items = portal @ batches"
    and portal: "portal_items x bx a ?ts = Inr portal"
    and batches: "batches = [] \<or> (\<exists>b. oracle_items x b ?ts = Inr batches)"
    by (auto simp: bedrock_l1_result_def Let_def rbind_Inr_iff split: option.splits)
  from portal obtain deposited proven finalized
    where d: "parse_all (\<lambda>t. parse_transaction_deposited_event x bx t a) ?ts = Inr deposited"
      and p: "portal = map (Deposited \<circ> deposited_record) deposited @ map (Proven \<circ> proven_record) proven @
        map (Finalized \<circ> finalized_record) finalized"
    by (auto simp: portal_items_def rbind_Inr_iff)
  from batches have "concat (map deposited_of batches) = []"
    by (elim disjE exE) (auto simp: oracle_items_def rbind_Inr_iff deposited_of_others simp del: map_map)
  then have dep: "concat (map deposited_of items) = map deposited_record deposited"
    by (simp add: items p deposited_of_deposited deposited_of_others del: map_map concat_eq_Nil_conv)
  have ctx: "map (\<lambda>e. (de_transaction_hash e, de_block_number e)) zs = ?k t"
    if "parse_transaction_deposited_event x bx t a = Inr zs" for t zs
    using that unfolding parse_transaction_deposited_event_def
    by (rule parse_logs_context) (rule transaction_deposited_context)
  have "map (\<lambda>d. (o1_l1_transaction_hash d, o1_l1_block_number d)) (concat (map deposited_of items)) =
      map (\<lambda>e. (de_transaction_hash e, de_block_number e)) deposited"
    unfolding dep by (simp add: deposited_record_def)
  also have "\<dots> = concat (map ?k ?ts)" by (rule parse_all_context [OF d ctx])
  also have "\<dots> = concat (map ?k buffer)"
  proof (rule concat_map_filter_empty)
    fix t
    assume "\<not> filter_is_satisfied_by (bedrock_l1_filter x c) t"
    then have "filter (log_from ?sig [a]) (tx_logs t) = []"
      unfolding bedrock_l1_filter_def
      by (rule filter_keeps_logs [rotated 3, where ts = "[?sig, event_log_abi_to_topic x WITHDRAWAL_FINALIZED_EVENT,
            event_log_abi_to_topic x WITHDRAWAL_PROVEN_EVENT]" and as = "[a]"]) (simp_all add: assms(2))
    then show "?k t = []" by simp
  qed
  finally show ?thesis .
qed

text \<open>The addresses of logs are in lower case, so an address configured with capitals matches none: the
  job succeeds and has no record at all, whatever the chain holds.\<close>

lemma mixed_case_proxy_finds_nothing:
  assumes "\<And>t l. t \<in> set buffer \<Longrightarrow> l \<in> set (tx_logs t) \<Longrightarrow> str_lower (lg_address l) = lg_address l"
    and "\<And>a. configured (bo_optimism_portal_proxy c) = Some a \<Longrightarrow> str_lower a \<noteq> a"
    and "\<And>a. configured (bo_l2_output_oracle_proxy c) = Some a \<Longrightarrow> str_lower a \<noteq> a"
  shows "bedrock_l1_result x bx c buffer = Inr []"
proof -
  have "\<not> topics_satisfied topics [a] t" if "t \<in> set buffer" and "str_lower a \<noteq> a" for topics a t
    using assms(1) [OF that(1)] that(2)
    by (fastforce simp: topics_satisfied_def log_matches_def tx_logs_def list_ex_iff split: option.splits)
  then have "\<not> filter_is_satisfied_by (bedrock_l1_filter x c) t" if "t \<in> set buffer" for t
    using that assms(2,3)
    by (auto simp: filter_is_satisfied_by_def bedrock_l1_filter_def list_ex_iff split: option.splits)
  then have none: "filter (filter_is_satisfied_by (bedrock_l1_filter x c)) buffer = []"
    by (simp add: filter_empty_conv)
  show ?thesis
    by (simp add: bedrock_l1_result_def none portal_items_def oracle_items_def parse_all_def split: option.splits)
qed

definition op_sample_config :: bedrock_l1_config where
  "op_sample_config = \<lparr>bo_optimism_portal_proxy = Some ''0xa'', bo_l2_output_oracle_proxy = None\<rparr>"

lemma op_sample_topics:
  "event_log_abi_to_topic op_sample_ext TRANSACTION_DEPOSITED_EVENT = ''0x04''"
  "event_log_abi_to_topic op_sample_ext WITHDRAWAL_PROVEN_EVENT = ''0x03''"
  "event_log_abi_to_topic op_sample_ext WITHDRAWAL_FINALIZED_EVENT = ''0x02''"
  by code_simp+

lemma op_sample_transaction_deposited:
  "\<exists>d. transaction_deposited op_sample_ext sample_bridge_ext t op_sample_log = Inr d"
proof -
  have "case get_bytes_topics (op_sample_log\<lparr>lg_data := []\<rparr>) of Inr _ \<Rightarrow> True | Inl _ \<Rightarrow> False" by code_simp
  then obtain b where b: "get_bytes_topics op_sample_log = Inr b"
    by (auto simp: get_bytes_topics_def split: sum.splits)
  have "get_bytes_data op_sample_log = Inr (word_bytes 32 @ word_bytes 73 @ replicate 73 1)"
    by (simp add: get_bytes_data_def op_sample_fields deposit_log_data_def strip_0x_bytes bytes_fromhex_hex)
  then have e: "sig_decode_log op_sample_ext TRANSACTION_DEPOSITED_EVENT op_sample_log =
      Inr [(''from'', AAddress ''0x0c''), (''to'', AAddress ''0x0d''), (''version'', AUint 0),
        (''opaqueData'', ABytes (replicate 73 1))]"
    by (simp add: sig_decode_log_def TRANSACTION_DEPOSITED_EVENT_def b op_sample_ext_def indexed_type_def named_tree_def)
  from op_sample_deposit obtain tx where tx: "deposit_event_to_op_bedrock_transaction op_sample_ext op_sample_log = Inr tx" ..
  show ?thesis
    by (simp add: transaction_deposited_def e ev_uint_def ev_addr_def ev_bytes_def dec_uint_def unmarshal_deposit_def
        unmarshal_deposit_version0_def tx deposit_tx_hash_def hash_fields_def sample_bridge_ext_def)
qed

theorem deposits_complete_witness:
  "\<exists>items. bedrock_l1_result op_sample_ext sample_bridge_ext op_sample_config [sample_transaction 7 [op_sample_log]] = Inr items
     \<and> length (concat (map deposited_of items)) = 1"
proof -
  let ?t = "sample_transaction 7 [op_sample_log]"
  let ?r = "bedrock_l1_result op_sample_ext sample_bridge_ext op_sample_config [?t]"
  have a: "configured (bo_optimism_portal_proxy op_sample_config) = Some ''0xa''"
    "configured (bo_l2_output_oracle_proxy op_sample_config) = None"
    by (simp_all add: configured_def op_sample_config_def)
  have tx: "tx_receipt ?t = Some (sample_receipt [op_sample_log])" "rc_logs (sample_receipt [op_sample_log]) = [op_sample_log]"
    by (simp_all add: sample_transaction_def sample_receipt_def)
  have f: "filter_is_satisfied_by (bedrock_l1_filter op_sample_ext op_sample_config) ?t"
    by (simp add: bedrock_l1_filter_def a filter_is_satisfied_by_def topics_satisfied_def tx log_matches_def
        op_sample_topics op_sample_fields)
  obtain d where d: "transaction_deposited op_sample_ext sample_bridge_ext ?t op_sample_log = Inr d"
    using op_sample_transaction_deposited by blast
  have "\<exists>items. ?r = Inr items"
    by (simp add: bedrock_l1_result_def f a portal_items_def parse_all_def parse_transaction_deposited_event_def
        parse_relayed_message_def parse_logs_def receipt_logs_def tx log_from_def op_sample_topics op_sample_fields d)
  then obtain items where r: "?r = Inr items" ..
  have "length (concat (map deposited_of items)) = 1"
    using arg_cong [OF deposits_complete [OF r a(1)], of length]
    by (simp add: tx_logs_def tx log_from_def op_sample_topics op_sample_fields)
  with r show ?thesis by blast
qed

theorem mixed_case_proxy_finds_nothing_witness:
  "bedrock_l1_result sample_ext sample_bridge_ext \<lparr>bo_optimism_portal_proxy = Some ''0xA'', bo_l2_output_oracle_proxy = None\<rparr>
     [sample_transaction 7 [sample_log]] = Inr []"
proof (rule mixed_case_proxy_finds_nothing)
  fix t l
  assume "t \<in> set [sample_transaction 7 [sample_log]]" and "l \<in> set (tx_logs t)"
  then have "l = sample_log" by (simp add: tx_logs_def sample_transaction_def sample_receipt_def)
  then show "str_lower (lg_address l) = lg_address l" by (simp add: sample_log_def str_lower_def lower_char_def)
next
  fix a
  assume "configured (bo_optimism_portal_proxy \<lparr>bo_optimism_portal_proxy = Some ''0xA'', bo_l2_output_oracle_proxy = None\<rparr>) = Some a"
  then have "a = ''0xA''" by (simp add: configured_def)
  moreover have "str_lower ''0xA'' \<noteq> ''0xA''" by code_simp
  ultimately show "str_lower a \<noteq> a" by simp
qed (simp add: configured_def)

end
