(* ===== verification/UserOps.thy ===== *)
theory UserOps
  imports Arbitrum
begin

text \<open>
  \<open>indexer/modules/user_ops/export_user_ops_job.py\<close>: the operations of an account-abstraction
  bundle, read from the call of the entry point and from the logs of the transaction. Decoding the
  call is web3's \<open>decode_transaction_data\<close>, here a function from the input to the operations.
\<close>

section \<open>Operations and results\<close>

record user_operation =
  uo_sender :: string
  uo_nonce :: int
  uo_initCode :: "byte list"
  uo_callData :: "byte list"
  uo_callGasLimit :: int
  uo_verificationGasLimit :: int
  uo_preVerificationGas :: int
  uo_maxFeePerGas :: int
  uo_maxPriorityFeePerGas :: int
  uo_paymasterAndData :: "byte list"
  uo_signature :: "byte list"

record UserOperationsResult =
  ur_user_op_hash :: "byte list"
  ur_sender :: string
  ur_paymaster :: string
  ur_nonce :: int
  ur_status :: bool
  ur_actual_gas_cost :: int
  ur_actual_gas_used :: int
  ur_init_code :: "byte list"
  ur_call_data :: "byte list"
  ur_call_gas_limit :: int
  ur_verification_gas_limit :: int
  ur_pre_verification_gas :: int
  ur_max_fee_per_gas :: int
  ur_max_priority_fee_per_gas :: int
  ur_paymaster_and_data :: "byte list"
  ur_signature :: "byte list"
  ur_transactions_hash :: string
  ur_transactions_index :: int
  ur_block_number :: "int option"
  ur_block_timestamp :: "int option"
  ur_bundler :: string
  ur_start_log_index :: int
  ur_end_log_index :: int

definition CONTRACT_ADDRESS :: string where
  "CONTRACT_ADDRESS = ''0x5ff137d4b0fdcd49dca30c7cf57e578a026d2789''"

definition BEFOREEXECUTION_FUNCTION_SIGN :: string where
  "BEFOREEXECUTION_FUNCTION_SIGN = ''0xbb47ee3e183a558b1a2ff0874b079f3fc5478b7454eacf2bfc5af2ff5878f972''"

definition USEROPERATIONEVENT_FUNCTION_SIGN :: string where
  "USEROPERATIONEVENT_FUNCTION_SIGN = ''0x49628fd1471006c1482da88028e9ce4dbb080b815c9b0344d39e5a8e6ec1419f''"

definition USEROPERATIONEVENT_EVENT :: event_abi where
  "USEROPERATIONEVENT_EVENT = \<lparr>ev_name = ''UserOperationEvent'', ev_inputs =
     [indexed_input ''userOpHash'' ''bytes32'', indexed_input ''sender'' ''address'',
      indexed_input ''paymaster'' ''address'', data_input ''nonce'' ''uint256'', data_input ''success'' ''bool'',
      data_input ''actualGasCost'' ''uint256'', data_input ''actualGasUsed'' ''uint256'']\<rparr>"

definition user_ops_filter :: tx_filter where
  "user_ops_filter = TransactionFilterByLogs [([USEROPERATIONEVENT_FUNCTION_SIGN], [CONTRACT_ADDRESS])]"

section \<open>The logs of a bundle\<close>

definition is_op_event :: "log \<Rightarrow> bool" where
  "is_op_event l \<longleftrightarrow> lg_address l = CONTRACT_ADDRESS \<and> lg_topic0 l = Some USEROPERATIONEVENT_FUNCTION_SIGN"

definition is_before_execution :: "log \<Rightarrow> bool" where
  "is_before_execution l \<longleftrightarrow> lg_topic0 l = Some BEFOREEXECUTION_FUNCTION_SIGN"

text \<open>The loop over the logs: the indices that bound the operations, and the events; \<open>None\<close> is the
  early return of no result.\<close>

fun scan_logs :: "log list \<Rightarrow> int list \<Rightarrow> log list \<Rightarrow> (int list \<times> log list) option" where
  "scan_logs [] logs_index_list events = Some (logs_index_list, events)"
| "scan_logs (l # ls) logs_index_list events =
     (if is_before_execution l
      then if logs_index_list \<noteq> [] then None else scan_logs ls [lg_log_index l] events
      else if is_op_event l then scan_logs ls (logs_index_list @ [lg_log_index l]) (events @ [l])
      else scan_logs ls logs_index_list events)"

definition ev_bool :: "decoded \<Rightarrow> string \<Rightarrow> bool res" where
  "ev_bool d k = (case map_of d k of Some (ABool b) \<Rightarrow> Inr b | _ \<Rightarrow> Inl TypeError)"

text \<open>One operation with its event and the indices around it; \<open>None\<close> when they do not belong together.\<close>

definition op_result :: "ext \<Rightarrow> transaction \<Rightarrow> user_operation \<times> log \<times> int \<times> int \<Rightarrow> UserOperationsResult option res" where
  "op_result x t e =
     (case e of (u, l, logs_index) \<Rightarrow>
      case decode_log x USEROPERATIONEVENT_EVENT l of
        None \<Rightarrow> Inl TypeError
      | Some d \<Rightarrow>
          rbind (ev_addr d ''sender'') (\<lambda>sender.
          if str_lower (uo_sender u) \<noteq> sender then Inr None
          else
          rbind (ev_uint d ''nonce'') (\<lambda>nonce.
          if uo_nonce u \<noteq> nonce then Inr None
          else
          rbind (ev_bytes d ''userOpHash'') (\<lambda>user_op_hash.
          rbind (ev_addr d ''paymaster'') (\<lambda>paymaster.
          rbind (ev_bool d ''success'') (\<lambda>success.
          rbind (ev_uint d ''actualGasCost'') (\<lambda>actual_gas_cost.
          rbind (ev_uint d ''actualGasUsed'') (\<lambda>actual_gas_used.
          Inr (Some \<lparr>ur_user_op_hash = user_op_hash, ur_sender = sender, ur_paymaster = paymaster,
             ur_nonce = nonce, ur_status = success, ur_actual_gas_cost = actual_gas_cost,
             ur_actual_gas_used = actual_gas_used, ur_init_code = uo_initCode u, ur_call_data = uo_callData u,
             ur_call_gas_limit = uo_callGasLimit u, ur_verification_gas_limit = uo_verificationGasLimit u,
             ur_pre_verification_gas = uo_preVerificationGas u, ur_max_fee_per_gas = uo_maxFeePerGas u,
             ur_max_priority_fee_per_gas = uo_maxPriorityFeePerGas u,
             ur_paymaster_and_data = uo_paymasterAndData u, ur_signature = uo_signature u,
             ur_transactions_hash = tx_hash t, ur_transactions_index = tx_transaction_index t,
             ur_block_number = tx_block_number t, ur_block_timestamp = tx_block_timestamp t,
             ur_bundler = tx_from_address t, ur_start_log_index = fst logs_index,
             ur_end_log_index = snd logs_index\<rparr>)))))))))"

text \<open>The loop over the operations: one that does not match its event gives up all of them.\<close>

fun op_results :: "ext \<Rightarrow> transaction \<Rightarrow> (user_operation \<times> log \<times> int \<times> int) list
    \<Rightarrow> UserOperationsResult list option res" where
  "op_results x t [] = Inr (Some [])"
| "op_results x t (e # es) =
     rbind (op_result x t e) (\<lambda>r.
       case r of
         None \<Rightarrow> Inr None
       | Some u \<Rightarrow> rbind (op_results x t es) (\<lambda>us. Inr (map_option ((#) u) us)))"

definition consecutive :: "int list \<Rightarrow> (int \<times> int) list" where
  "consecutive xs = zip xs (drop 1 xs)"

definition export_results_from_transaction :: "ext \<Rightarrow> (string \<Rightarrow> user_operation list res) \<Rightarrow> transaction
    \<Rightarrow> log list \<Rightarrow> UserOperationsResult list res" where
  "export_results_from_transaction x decode_ops t logs =
     rbind (decode_ops (tx_input t)) (\<lambda>user_operations.
       case scan_logs logs [] [] of
         None \<Rightarrow> Inr []
       | Some (logs_index_list, events) \<Rightarrow>
           if length user_operations \<noteq> length events then Inr []
           else rbind (op_results x t (zip user_operations (zip events (consecutive logs_index_list))))
                  (\<lambda>r. Inr (case r of None \<Rightarrow> [] | Some us \<Rightarrow> us)))"

section \<open>The job\<close>

text \<open>The transactions and logs of the buffer; the key of the logs may be missing. Results are
  collected transaction by transaction.\<close>

definition collect_user_ops :: "ext \<Rightarrow> (string \<Rightarrow> user_operation list res) \<Rightarrow> log list \<Rightarrow> transaction
    \<Rightarrow> ((UserOperationsResult, 'x) world, unit) act" where
  "collect_user_ops x decode_ops logs t =
     collect_all (\<lambda>_. to_snake_case ''UserOperationsResult'')
       (export_results_from_transaction x decode_ops t (filter (\<lambda>l. lg_transaction_hash l = tx_hash t) logs))"

definition user_ops_process :: "ext \<Rightarrow> (string \<Rightarrow> user_operation list res) \<Rightarrow> transaction list \<Rightarrow> log list option
    \<Rightarrow> ((UserOperationsResult, 'x) world, unit) act" where
  "user_ops_process x decode_ops buffer logs =
     (let transactions = filter (filter_is_satisfied_by user_ops_filter) buffer
      in if transactions = [] then sret ()
         else case logs of
                None \<Rightarrow> sraise TypeError
              | Some ls \<Rightarrow> sfor (collect_user_ops x decode_ops ls) transactions)"

section \<open>Results and the log indices around them\<close>

lemma scan_logs_plain:
  "\<forall>l \<in> set ls. \<not> is_before_execution l \<Longrightarrow>
   scan_logs ls js fs = Some (js @ map lg_log_index (filter is_op_event ls), fs @ filter is_op_event ls)"
  by (induction ls arbitrary: js fs) auto

lemma scan_logs_append:
  "scan_logs (ls @ ms) js fs =
     (case scan_logs ls js fs of None \<Rightarrow> None | Some (js', fs') \<Rightarrow> scan_logs ms js' fs')"
  by (induction ls arbitrary: js fs) auto

lemma op_result_indices:
  "op_result x t (u, l, i) = Inr (Some r) \<Longrightarrow>
   ur_start_log_index r = fst i \<and> ur_end_log_index r = snd i \<and> ur_call_data r = uo_callData u \<and>
   ur_sender r = str_lower (uo_sender u) \<and> ur_nonce r = uo_nonce u"
  by (auto simp: op_result_def rbind_Inr_iff split: option.splits if_splits)

lemma op_results_all:
  assumes "op_results x t es = Inr (Some us)"
  shows "list_all2 (\<lambda>e u. op_result x t e = Inr (Some u)) es us"
  using assms
proof (induction es arbitrary: us)
  case (Cons e es)
  from Cons.prems obtain u us' where "op_result x t e = Inr (Some u)" "op_results x t es = Inr (Some us')" "us = u # us'"
    by (auto simp: rbind_Inr_iff split: option.splits)
  with Cons.IH show ?case by simp
qed simp

text \<open>The fields of the results that come from the operations and from the indices.\<close>

lemma op_results_fields:
  assumes "op_results x t (zip ops (zip events js)) = Inr (Some us)"
  shows "map (\<lambda>u. (ur_sender u, ur_nonce u, ur_call_data u)) us =
      map (\<lambda>u. (str_lower (uo_sender u), uo_nonce u, uo_callData u)) (take (min (length events) (length js)) ops) \<and>
    map (\<lambda>u. (ur_start_log_index u, ur_end_log_index u)) us = take (min (length ops) (length events)) js"
proof -
  have "list_all2 (\<lambda>e u. op_result x t e = Inr (Some u)) (zip ops (zip events js)) us"
    by (rule op_results_all [OF assms])
  then show ?thesis
  proof (induction ops arbitrary: events js us)
    case (Cons p ps)
    show ?case
    proof (cases "events = [] \<or> js = []")
      case True
      with Cons.prems show ?thesis by (auto simp: zip_Cons1 split: list.splits)
    next
      case False
      then obtain l ls i ks where e: "events = l # ls" "js = i # ks" by (cases events; cases js) auto
      with Cons.prems obtain u vs where us: "us = u # vs" and u: "op_result x t (p, l, i) = Inr (Some u)"
        and vs: "list_all2 (\<lambda>e u. op_result x t e = Inr (Some u)) (zip ps (zip ls ks)) vs"
        by (auto simp: list_all2_Cons1)
      from Cons.IH [OF vs] op_result_indices [OF u] show ?thesis by (simp add: e us)
    qed
  qed simp
qed

lemma length_consecutive: "length (consecutive xs) = length xs - 1"
  by (simp add: consecutive_def)

lemma consecutive_Cons: "map fst (consecutive (i # js)) = butlast (i # js) \<and> map snd (consecutive (i # js)) = js"
  by (simp add: consecutive_def map_fst_zip_take map_snd_zip_take butlast_conv_take)

text \<open>C23: a bundle whose execution is announced before its operations, by one log, is complete or
  empty: if there are results at all, there is one for every operation of the call, in order, with the
  data of the operation; the first starts at the announcement, each ends at the event of its
  operation, and the next one starts there.\<close>

theorem bundle_complete:
  assumes "export_results_from_transaction x decode_ops t (as @ b # cs) = Inr rs" and "rs \<noteq> []"
    and "decode_ops (tx_input t) = Inr ops"
    and "is_before_execution b" and "\<forall>l \<in> set as \<union> set cs. \<not> is_before_execution l"
    and "\<forall>l \<in> set as. \<not> is_op_event l"
  shows "map (\<lambda>r. (ur_sender r, ur_nonce r, ur_call_data r)) rs =
      map (\<lambda>u. (str_lower (uo_sender u), uo_nonce u, uo_callData u)) ops \<and>
    map ur_end_log_index rs = map lg_log_index (filter is_op_event cs) \<and>
    map ur_start_log_index rs = butlast (lg_log_index b # map ur_end_log_index rs)"
proof -
  let ?ev = "filter is_op_event cs"
  let ?is = "lg_log_index b # map lg_log_index ?ev"
  have "scan_logs (as @ b # cs) [] [] = Some (?is, ?ev)"
    using assms(4-6) by (simp add: scan_logs_append scan_logs_plain filter_empty_conv)
  with assms(1-3) have len: "length ops = length ?ev"
    and res: "op_results x t (zip ops (zip ?ev (consecutive ?is))) = Inr (Some rs)"
    by (auto simp: export_results_from_transaction_def rbind_Inr_iff split: if_splits option.splits)
  note f = op_results_fields [OF res]
  have il: "length (consecutive ?is) = length ?ev" by (simp add: length_consecutive)
  from f have data: "map (\<lambda>r. (ur_sender r, ur_nonce r, ur_call_data r)) rs =
      map (\<lambda>u. (str_lower (uo_sender u), uo_nonce u, uo_callData u)) ops"
    by (simp add: il flip: len)
  from f have idx: "map (\<lambda>u. (ur_start_log_index u, ur_end_log_index u)) rs = consecutive ?is"
    by (simp add: il len)
  have "map ur_start_log_index rs = map fst (consecutive ?is)" "map ur_end_log_index rs = map snd (consecutive ?is)"
    unfolding idx [symmetric] by (simp_all add: comp_def)
  with data consecutive_Cons [of "lg_log_index b" "map lg_log_index ?ev"] show ?thesis by simp
qed

text \<open>Without the announcement, the last operation of a bundle never has a result: there are fewer
  index ranges than operations.\<close>

lemma unannounced_bundle_loses_last:
  assumes "export_results_from_transaction x decode_ops t logs = Inr rs"
    and "decode_ops (tx_input t) = Inr ops" and "\<forall>l \<in> set logs. \<not> is_before_execution l"
  shows "rs = [] \<or> length rs = length ops - 1"
proof -
  let ?ev = "filter is_op_event logs"
  have "scan_logs logs [] [] = Some (map lg_log_index ?ev, ?ev)"
    using assms(3) by (simp add: scan_logs_plain)
  with assms(1,2) consider "rs = []" | "length ops = length ?ev"
      "op_results x t (zip ops (zip ?ev (consecutive (map lg_log_index ?ev)))) = Inr (Some rs)"
    by (auto simp: export_results_from_transaction_def rbind_Inr_iff split: if_splits option.splits)
  then show ?thesis
  proof cases
    case 2
    from op_results_fields [OF 2(2)] have "map (\<lambda>u. (ur_start_log_index u, ur_end_log_index u)) rs =
        consecutive (map lg_log_index ?ev)" by (simp add: 2(1) length_consecutive)
    then have "length rs = length (consecutive (map lg_log_index ?ev))" by (metis length_map)
    with 2(1) show ?thesis by (simp add: length_consecutive)
  qed simp
qed

text \<open>One operation of a bundle, for examples.\<close>

definition uo_sample_ext :: ext where
  "uo_sample_ext = sample_ext\<lparr>abi_decode := (\<lambda>ts b.
     if ts = [''bytes32'', ''address'', ''address''] then Inr [ABytes [1], AAddress ''0xc'', AAddress ''0xd'']
     else Inr [AUint 3, ABool True, AUint 4, AUint 5])\<rparr>"

definition sample_op :: user_operation where
  "sample_op = \<lparr>uo_sender = ''0xC'', uo_nonce = 3, uo_initCode = [], uo_callData = [7], uo_callGasLimit = 0,
     uo_verificationGasLimit = 0, uo_preVerificationGas = 0, uo_maxFeePerGas = 0, uo_maxPriorityFeePerGas = 0,
     uo_paymasterAndData = [], uo_signature = []\<rparr>"

definition sample_announcement :: log where
  "sample_announcement = sample_log\<lparr>lg_topic0 := Some BEFOREEXECUTION_FUNCTION_SIGN, lg_log_index := 4\<rparr>"

definition sample_op_event :: log where
  "sample_op_event = sample_log\<lparr>lg_topic0 := Some USEROPERATIONEVENT_FUNCTION_SIGN, lg_address := CONTRACT_ADDRESS,
     lg_log_index := 6\<rparr>"

theorem bundle_complete_witness:
  "\<exists>rs. export_results_from_transaction uo_sample_ext (\<lambda>_. Inr [sample_op]) (sample_transaction 7 [])
      [sample_announcement, sample_op_event] = Inr rs \<and> map ur_start_log_index rs = [4]"
proof -
  let ?e = "export_results_from_transaction uo_sample_ext (\<lambda>_. Inr [sample_op]) (sample_transaction 7 [])
      ([] @ sample_announcement # [sample_op_event])"
  have "case ?e of Inr rs \<Rightarrow> rs \<noteq> [] | Inl _ \<Rightarrow> False" by code_simp
  then obtain rs where rs: "?e = Inr rs" "rs \<noteq> []" by (auto split: sum.splits)
  have k: "is_before_execution sample_announcement" "\<not> is_before_execution sample_op_event" "is_op_event sample_op_event"
    by code_simp+
  have "map ur_start_log_index rs = [4]"
    using bundle_complete [OF rs, of "[sample_op]"] k
    by (auto simp: sample_announcement_def)
  with rs show ?thesis by auto
qed

theorem unannounced_bundle_loses_last_witness:
  "\<exists>rs. export_results_from_transaction uo_sample_ext (\<lambda>_. Inr [sample_op, sample_op]) (sample_transaction 7 [])
      [sample_op_event, sample_op_event] = Inr rs \<and> length rs < 2"
proof -
  let ?e = "export_results_from_transaction uo_sample_ext (\<lambda>_. Inr [sample_op, sample_op]) (sample_transaction 7 [])
      [sample_op_event, sample_op_event]"
  have "case ?e of Inr _ \<Rightarrow> True | Inl _ \<Rightarrow> False" by code_simp
  then obtain rs where rs: "?e = Inr rs" by (auto split: sum.splits)
  have "\<not> is_before_execution sample_op_event" by code_simp
  with unannounced_bundle_loses_last [OF rs, of "[sample_op, sample_op]"] rs show ?thesis by auto
qed

end
