(* ===== verification/Activeness.thy ===== *)
theory Activeness
  imports Blocks
begin

text \<open>
  \<open>indexer/modules/custom/day_mining/export_activeness.py\<close>: the transactions and the gas of each
  address by block, accumulated over all blocks. The batches of the executor are the addresses, one
  after another. The receiver of a transaction may be missing, so an address is a \<open>string option\<close>.
\<close>

section \<open>Statistics\<close>

record stats =
  as_is_contract :: int
  as_txn_count :: int
  as_gas_consumed :: int
  as_deployed_count_count :: int
  as_interacted_addresses :: "string option list"

definition new_stats :: stats where
  "new_stats = \<lparr>as_is_contract = -1, as_txn_count = 0, as_gas_consumed = 0, as_deployed_count_count = 0,
     as_interacted_addresses = []\<rparr>"

type_synonym address = "string option"
type_synonym latest_stats = "(address \<times> stats) list"
type_synonym block_stats = "(int option \<times> stats) list"

text \<open>A lookup in a \<open>defaultdict\<close>, and an update of what is found.\<close>

definition stats_at :: "('k \<times> stats) list \<Rightarrow> 'k \<Rightarrow> stats" where
  "stats_at d k = (case map_of d k of None \<Rightarrow> new_stats | Some s \<Rightarrow> s)"

definition change_stats :: "(stats \<Rightarrow> stats) \<Rightarrow> 'k \<Rightarrow> ('k \<times> stats) list \<Rightarrow> ('k \<times> stats) list" where
  "change_stats f k d = AList.update k (f (stats_at d k)) d"

definition blocks_at :: "(address \<times> block_stats) list \<Rightarrow> address \<Rightarrow> block_stats" where
  "blocks_at c a = (case map_of c a of None \<Rightarrow> [] | Some d \<Rightarrow> d)"

definition change_block :: "(stats \<Rightarrow> stats) \<Rightarrow> address \<Rightarrow> int option \<Rightarrow> (address \<times> block_stats) list
    \<Rightarrow> (address \<times> block_stats) list" where
  "change_block f a n c = AList.update a (change_stats f n (blocks_at c a)) c"

definition add_transaction :: "stats \<Rightarrow> stats" where
  "add_transaction s = s\<lparr>as_txn_count := as_txn_count s + 1\<rparr>"

definition add_gas :: "int \<Rightarrow> stats \<Rightarrow> stats" where
  "add_gas g s = s\<lparr>as_gas_consumed := as_gas_consumed s + g\<rparr>"

section \<open>One transaction\<close>

definition count_transaction :: "transaction \<Rightarrow> (address \<times> block_stats) list \<Rightarrow> (address \<times> block_stats) list" where
  "count_transaction t c =
     (let n = tx_block_number t;
          c = (if Some (tx_from_address t) \<noteq> tx_to_address t then change_block add_transaction (tx_to_address t) n c else c);
          c = change_block add_transaction (Some (tx_from_address t)) n c
      in change_block (add_gas (tx_gas t * tx_gas_price t)) (Some (tx_from_address t)) n c)"

definition classify :: "ext \<Rightarrow> address \<Rightarrow> stats \<Rightarrow> stats" where
  "classify x a s =
     (if as_is_contract s = -1
      then s\<lparr>as_is_contract := (case a of Some h \<Rightarrow> if is_address x h then 1 else 0 | None \<Rightarrow> 0)\<rparr>
      else s)"

definition note_interaction :: "ext \<Rightarrow> transaction \<Rightarrow> latest_stats \<Rightarrow> latest_stats" where
  "note_interaction x t latest =
     (let a = tx_to_address t;
          latest = change_stats (classify x a) a latest
      in if as_is_contract (stats_at latest a) \<noteq> 0
         then change_stats (\<lambda>s. s\<lparr>as_interacted_addresses := List.insert a (as_interacted_addresses s)\<rparr>)
                (Some (tx_from_address t)) latest
         else latest)"

section \<open>The job\<close>

record activeness_record =
  ar_feature_id :: int
  ar_block_number :: "int option"
  ar_address :: address
  ar_value :: stats

record current_activeness =
  ca_block_number :: "int option"
  ca_address :: address
  ca_value :: stats

record activeness =
  act_latest :: latest_stats
  act_values :: "activeness_record list"
  act_currents :: "current_activeness list"

text \<open>One address: its blocks are added to what it has, each giving a record, the last one the current
  value.\<close>

definition add_block :: "address \<Rightarrow> int option \<times> stats \<Rightarrow> activeness \<Rightarrow> activeness" where
  "add_block a e w =
     (let latest = change_stats (\<lambda>s. s\<lparr>as_txn_count := as_txn_count s + as_txn_count (snd e),
             as_gas_consumed := as_gas_consumed s + as_gas_consumed (snd e)\<rparr>) a (act_latest w)
      in w\<lparr>act_latest := latest,
           act_values := act_values w @ [\<lparr>ar_feature_id = 3, ar_block_number = fst e, ar_address = a,
             ar_value = stats_at latest a\<rparr>]\<rparr>)"

definition calculate_latest_address_stats :: "address \<times> block_stats \<Rightarrow> activeness \<Rightarrow> activeness" where
  "calculate_latest_address_stats e w =
     (let w = fold (add_block (fst e)) (snd e) w
      in if snd e = [] then w
         else w\<lparr>act_currents := act_currents w @ [\<lparr>ca_block_number = fst (last (snd e)), ca_address = fst e,
                ca_value = stats_at (act_latest w) (fst e)\<rparr>]\<rparr>)"

text \<open>\<open>_process\<close> on the transactions and the senders of the contracts in the buffer. The count of
  deployments is added to a dictionary of dictionaries: the first contract raises \<open>TypeError\<close>.\<close>

definition activeness_process :: "ext \<Rightarrow> transaction list \<Rightarrow> address list \<Rightarrow> (activeness, unit) act" where
  "activeness_process x txs contract_senders w =
     (if contract_senders \<noteq> [] then (w, Inl TypeError)
      else
        let ts = sort_key (\<lambda>t. (int_or_0 (tx_block_number t), tx_transaction_index t)) txs;
            current = fold count_transaction ts [];
            w = w\<lparr>act_latest := fold (note_interaction x) ts (act_latest w)\<rparr>;
            w = fold calculate_latest_address_stats current w
        in (w\<lparr>act_values := sort_key (\<lambda>r. int_or_0 (ar_block_number r)) (act_values w)\<rparr>, Inr ()))"

section \<open>Totals\<close>

lemma stats_at_change:
  "stats_at (change_stats f k d) j = (if j = k then f (stats_at d k) else stats_at d j)"
  by (simp add: stats_at_def change_stats_def map_of_upd)

text \<open>What the blocks of an address add up to.\<close>

definition sum_blocks :: "(stats \<Rightarrow> int) \<Rightarrow> block_stats \<Rightarrow> int" where
  "sum_blocks f d = sum_list (map (f \<circ> snd) d)"

definition sum_at :: "(stats \<Rightarrow> int) \<Rightarrow> (address \<times> block_stats) list \<Rightarrow> address \<Rightarrow> int" where
  "sum_at f c a = sum_blocks f (blocks_at c a)"

lemma sum_blocks_change:
  assumes "f new_stats = 0" and "\<And>s. f (g s) = f s + k"
  shows "sum_blocks f (change_stats g n d) = sum_blocks f d + k"
  using assms by (induction d) (auto simp: sum_blocks_def change_stats_def stats_at_def)

lemma sum_at_change:
  assumes "f new_stats = 0" and "\<And>s. f (g s) = f s + k"
  shows "sum_at f (change_block g b n c) a = sum_at f c a + (if a = b then k else 0)"
  using sum_blocks_change [OF assms, of n "blocks_at c b"]
  by (simp add: sum_at_def change_block_def blocks_at_def map_of_upd)

lemma distinct_change_block: "distinct (map fst c) \<Longrightarrow> distinct (map fst (change_block f a n c))"
  unfolding change_block_def by (rule distinct_upd)

definition involves :: "address \<Rightarrow> transaction \<Rightarrow> bool" where
  "involves a t \<longleftrightarrow> a = Some (tx_from_address t) \<or> a = tx_to_address t"

lemma count_transaction_sums:
  "sum_at as_txn_count (count_transaction t c) a = sum_at as_txn_count c a + (if involves a t then 1 else 0)"
  "sum_at as_gas_consumed (count_transaction t c) a =
     sum_at as_gas_consumed c a + (if a = Some (tx_from_address t) then tx_gas t * tx_gas_price t else 0)"
proof -
  note tr = sum_at_change [of as_txn_count add_transaction 1] sum_at_change [of as_gas_consumed add_transaction 0]
    and ga = sum_at_change [of as_txn_count "add_gas g" 0 for g] sum_at_change [of as_gas_consumed "add_gas g" g for g]
  show "sum_at as_txn_count (count_transaction t c) a = sum_at as_txn_count c a + (if involves a t then 1 else 0)"
    by (auto simp: count_transaction_def Let_def tr ga new_stats_def add_transaction_def add_gas_def involves_def)
  show "sum_at as_gas_consumed (count_transaction t c) a =
     sum_at as_gas_consumed c a + (if a = Some (tx_from_address t) then tx_gas t * tx_gas_price t else 0)"
    by (auto simp: count_transaction_def Let_def tr ga new_stats_def add_transaction_def add_gas_def)
qed

lemma count_transaction_distinct: "distinct (map fst c) \<Longrightarrow> distinct (map fst (count_transaction t c))"
  by (simp add: count_transaction_def Let_def distinct_change_block)

lemma fold_count_distinct: "distinct (map fst c) \<Longrightarrow> distinct (map fst (fold count_transaction ts c))"
  by (induction ts arbitrary: c) (simp_all add: count_transaction_distinct)

lemma fold_count_sums:
  "sum_at as_txn_count (fold count_transaction ts c) a =
     sum_at as_txn_count c a + int (length (filter (involves a) ts))"
  "sum_at as_gas_consumed (fold count_transaction ts c) a = sum_at as_gas_consumed c a +
     sum_list (map (\<lambda>t. tx_gas t * tx_gas_price t) (filter (\<lambda>t. a = Some (tx_from_address t)) ts))"
  by (induction ts arbitrary: c) (simp_all add: count_transaction_sums)

section \<open>What is recorded\<close>

lemma fold_add_block:
  "as_txn_count (stats_at (act_latest (fold (add_block a) d w)) b) =
     as_txn_count (stats_at (act_latest w) b) + (if b = a then sum_blocks as_txn_count d else 0)"
  "as_gas_consumed (stats_at (act_latest (fold (add_block a) d w)) b) =
     as_gas_consumed (stats_at (act_latest w) b) + (if b = a then sum_blocks as_gas_consumed d else 0)"
  by (induction d arbitrary: w) (simp_all add: add_block_def Let_def stats_at_change sum_blocks_def)

lemma latest_after_address:
  "act_latest (calculate_latest_address_stats e w) = act_latest (fold (add_block (fst e)) (snd e) w)"
  by (simp add: calculate_latest_address_stats_def Let_def)

lemma fold_addresses:
  assumes "distinct (map fst c)"
  shows "as_txn_count (stats_at (act_latest (fold calculate_latest_address_stats c w)) a) =
      as_txn_count (stats_at (act_latest w) a) + sum_at as_txn_count c a"
    and "as_gas_consumed (stats_at (act_latest (fold calculate_latest_address_stats c w)) a) =
      as_gas_consumed (stats_at (act_latest w) a) + sum_at as_gas_consumed c a"
proof -
  have "as_txn_count (stats_at (act_latest (fold calculate_latest_address_stats c w)) a) =
      as_txn_count (stats_at (act_latest w) a) + sum_at as_txn_count c a \<and>
    as_gas_consumed (stats_at (act_latest (fold calculate_latest_address_stats c w)) a) =
      as_gas_consumed (stats_at (act_latest w) a) + sum_at as_gas_consumed c a"
    using assms
  proof (induction c arbitrary: w)
    case Nil
    then show ?case by (simp add: sum_at_def blocks_at_def sum_blocks_def)
  next
    case (Cons e es)
    obtain b d where e: "e = (b, d)" by (cases e)
    have "b \<notin> fst ` set es" using Cons.prems e by simp
    then have none: "map_of es b = None" by (simp add: map_of_eq_None_iff)
    have "distinct (map fst es)" using Cons.prems by simp
    from Cons.IH [OF this, of "calculate_latest_address_stats e w"] none show ?case
      by (auto simp: e latest_after_address fold_add_block sum_at_def blocks_at_def sum_blocks_def)
  qed
  then show "as_txn_count (stats_at (act_latest (fold calculate_latest_address_stats c w)) a) =
      as_txn_count (stats_at (act_latest w) a) + sum_at as_txn_count c a"
    and "as_gas_consumed (stats_at (act_latest (fold calculate_latest_address_stats c w)) a) =
      as_gas_consumed (stats_at (act_latest w) a) + sum_at as_gas_consumed c a" by simp_all
qed

lemma note_interaction_keeps:
  "as_txn_count (stats_at (note_interaction x t l) a) = as_txn_count (stats_at l a)"
  "as_gas_consumed (stats_at (note_interaction x t l) a) = as_gas_consumed (stats_at l a)"
  by (simp_all add: note_interaction_def Let_def stats_at_change classify_def)

lemma fold_interactions_keep:
  "as_txn_count (stats_at (fold (note_interaction x) ts l) a) = as_txn_count (stats_at l a)"
  "as_gas_consumed (stats_at (fold (note_interaction x) ts l) a) = as_gas_consumed (stats_at l a)"
  by (induction ts arbitrary: l) (simp_all add: note_interaction_keeps)

lemma sum_list_sort_filter:
  "sum_list (map f (filter P (sort_key g xs))) = (sum_list (map f (filter P xs)) :: int)"
  by (metis mset_filter mset_map mset_sort_key sum_mset_sum_list)

text \<open>Without contracts in the range, every address ends with the transactions it had and those of
  the range it sent or received, one it sent to itself counting once, and with the gas limits times
  prices of those it sent; the order of the buffer does not matter.\<close>

lemma activeness_totals:
  "\<exists>w'. activeness_process x txs [] w = (w', Inr ()) \<and>
     (\<forall>a. as_txn_count (stats_at (act_latest w') a) =
            as_txn_count (stats_at (act_latest w) a) + int (length (filter (involves a) txs)) \<and>
          as_gas_consumed (stats_at (act_latest w') a) = as_gas_consumed (stats_at (act_latest w) a) +
            sum_list (map (\<lambda>t. tx_gas t * tx_gas_price t) (filter (\<lambda>t. a = Some (tx_from_address t)) txs)))"
proof -
  let ?ts = "sort_key (\<lambda>t. (int_or_0 (tx_block_number t), tx_transaction_index t)) txs"
  have d: "distinct (map fst (fold count_transaction ?ts []))" by (rule fold_count_distinct) simp
  have l: "length (filter P ?ts) = length (filter P txs)" for P
    by (metis mset_filter mset_sort_key size_mset)
  have e: "sum_at f [] a = 0" for f a by (simp add: sum_at_def blocks_at_def sum_blocks_def)
  show ?thesis
    by (simp add: activeness_process_def Let_def fold_addresses [OF d] fold_interactions_keep fold_count_sums e l
        sum_list_sort_filter)
qed

text \<open>A single contract in the range makes the job fail, with nothing counted.\<close>

lemma contract_breaks_activeness:
  assumes "contract_senders \<noteq> []"
  shows "activeness_process x txs contract_senders w = (w, Inl TypeError)"
  using assms by (simp add: activeness_process_def)

end
