(* ===== verification/Fixing.thy ===== *)
theory Fixing
  imports Prelude
begin

text \<open>
  \<open>indexer/controller/fixing_controller.py\<close>: jobs that go down from a block and fix those that
  differ from the chain, with their rows in \<open>fix_record\<close>. The fixing of a block is
  \<open>fixing_job\<close>, whose own file holds no code; the hash of a block on the chain is
  \<open>fe_chain_hash\<close>, one function for the whole run: the chain is assumed not to change while jobs run. The waiting count is kept, other threads are not: the database may hold the jobs of
  other processes. \<open>exit\<close> raises. The rows are in the order of their creation.
\<close>

section \<open>Rows and calls\<close>

record fix_record =
  fx_job_id :: int
  fx_start_block_number :: int
  fx_last_fixed_block_number :: int
  fx_remain_process :: int
  fx_job_status :: string

record fix_world =
  fw_records :: "fix_record list"
  fw_blocks :: "(int \<times> string) list"
  fw_waiting :: int

record fix_env =
  fe_ranges :: int
  fe_fixing_job :: "int \<Rightarrow> (fix_world, unit) act"
  fe_chain_hash :: "int \<Rightarrow> string res"

text \<open>The constructor passes the service on to \<open>object.__init__\<close>, which takes no argument.\<close>

definition new_fixing_controller :: "unit res" where
  "new_fixing_controller = Inl TypeError"

section \<open>The table of jobs\<close>

definition submit_new_fixing_job :: "int \<Rightarrow> int \<Rightarrow> (fix_world, int) act" where
  "submit_new_fixing_job start_block_number remain_process w =
     (let job_id = 1 + fold max (map fx_job_id (fw_records w)) 0
      in (w\<lparr>fw_records := fw_records w @ [\<lparr>fx_job_id = job_id, fx_start_block_number = start_block_number,
            fx_last_fixed_block_number = start_block_number + 1, fx_remain_process = remain_process,
            fx_job_status = ''submitted''\<rparr>]\<rparr>, Inr job_id))"

definition update_job_info :: "int \<Rightarrow> (fix_record \<Rightarrow> fix_record) \<Rightarrow> fix_world \<Rightarrow> fix_world" where
  "update_job_info job_id job_info w =
     w\<lparr>fw_records := map (\<lambda>r. if fx_job_id r = job_id then job_info r else r) (fw_records w)\<rparr>"

definition set_status :: "string \<Rightarrow> fix_record \<Rightarrow> fix_record" where
  "set_status s r = r\<lparr>fx_job_status := s\<rparr>"

definition set_progress :: "int \<Rightarrow> int \<Rightarrow> fix_record \<Rightarrow> fix_record" where
  "set_progress last_fixed remain r =
     r\<lparr>fx_last_fixed_block_number := last_fixed, fx_remain_process := remain\<rparr>"

definition check_job_runnable :: "int \<Rightarrow> fix_world \<Rightarrow> bool" where
  "check_job_runnable job_id w =
     (case filter (\<lambda>r. fx_job_status r = ''running'') (fw_records w) of
        [] \<Rightarrow> True | r # _ \<Rightarrow> fx_job_id r = job_id)"

definition next_job :: "fix_world \<Rightarrow> fix_record option" where
  "next_job w = List.find (\<lambda>r. fx_job_status r \<noteq> ''completed'') (fw_records w)"

definition check_block_been_synced :: "int \<Rightarrow> fix_world \<Rightarrow> bool" where
  "check_block_been_synced n w \<longleftrightarrow> n \<in> fst ` set (fw_blocks w)"

definition check_block_need_fix :: "fix_env \<Rightarrow> int \<Rightarrow> fix_world \<Rightarrow> bool res" where
  "check_block_need_fix env n w =
     rbind (fe_chain_hash env n) (\<lambda>h. Inr ((n, h) \<notin> set (fw_blocks w)))"

section \<open>Fixing one block\<close>

text \<open>What \<open>except Exception\<close> lets out.\<close>

definition base_exception :: "exc \<Rightarrow> bool" where
  "base_exception e \<longleftrightarrow> e = OtherException ''KeyboardInterrupt'' \<or> e = OtherException ''SystemExit''"

text \<open>The loop of \<open>_do_fixing\<close>; it may never end, which is \<open>None\<close>.\<close>

partial_function (option) do_fixing :: "fix_env \<Rightarrow> bool \<Rightarrow> int \<Rightarrow> fix_world \<Rightarrow> (fix_world \<times> unit res) option" where
  "do_fixing env retry_errors fix_block w =
     (case fe_fixing_job env fix_block w of
        (w', Inr u) \<Rightarrow> Some (w', Inr u)
      | (w', Inl e) \<Rightarrow> if \<not> retry_errors \<or> base_exception e then Some (w', Inl e)
          else do_fixing env retry_errors fix_block w')"

declare do_fixing.simps [code]

definition fix_if_needed :: "fix_env \<Rightarrow> bool \<Rightarrow> int \<Rightarrow> fix_world \<Rightarrow> (fix_world \<times> bool res) option" where
  "fix_if_needed env retry_errors n w =
     (if \<not> check_block_been_synced n w then Some (w, Inr False)
      else case check_block_need_fix env n w of
             Inl e \<Rightarrow> Some (w, Inl e)
           | Inr False \<Rightarrow> Some (w, Inr False)
           | Inr True \<Rightarrow>
               map_option (\<lambda>(w', r). (w', case r of Inl e \<Rightarrow> Inl e | Inr _ \<Rightarrow> Inr True))
                 (do_fixing env retry_errors n w))"

section \<open>One job\<close>

text \<open>The loop over the offsets \<open>limit - k, \<dots>, limit - 1\<close>. The last block, if it was fixed, is
  recorded one further down. Only \<open>SystemExit\<close> leaves the row as it is.\<close>

fun fix_loop :: "fix_env \<Rightarrow> bool \<Rightarrow> int \<Rightarrow> int \<Rightarrow> int \<Rightarrow> nat \<Rightarrow> fix_world \<Rightarrow> (fix_world \<times> unit res) option" where
  "fix_loop env retry_errors job_id block_number limit 0 w = Some (w, Inr ())"
| "fix_loop env retry_errors job_id block_number limit (Suc k) w =
     (let offset = limit - int (Suc k)
      in case fix_if_needed env retry_errors (block_number - offset) w of
           None \<Rightarrow> None
         | Some (w', Inl e) \<Rightarrow>
             Some (if e = OtherException ''SystemExit'' then w'
               else update_job_info job_id (set_status ''interrupt'' \<circ>
                 set_progress (block_number - offset) (limit - offset - 1)) w', Inl e)
         | Some (w', Inr fix_need) \<Rightarrow>
             let offset' = (if fix_need \<and> offset = limit - 1 then offset + 1 else offset)
             in fix_loop env retry_errors job_id block_number limit k
                  (update_job_info job_id (set_progress (block_number - offset') (limit - offset' - 1)) w'))"

text \<open>\<open>action\<close> up to \<open>wake_up_next_job\<close>, for a job that is submitted.\<close>

definition run_job :: "fix_env \<Rightarrow> bool \<Rightarrow> int \<Rightarrow> int \<Rightarrow> int \<Rightarrow> fix_world \<Rightarrow> (fix_world \<times> unit res) option" where
  "run_job env retry_errors job_id block_number remains w =
     (if \<not> check_job_runnable job_id w
      then Some (w\<lparr>fw_waiting := fw_waiting w + 1\<rparr>, Inl (OtherException ''SystemExit''))
      else
        case fix_loop env retry_errors job_id block_number remains (nat remains)
               (update_job_info job_id (set_status ''running'') w) of
          None \<Rightarrow> None
        | Some (w', Inl e) \<Rightarrow> Some (w', Inl e)
        | Some (w', Inr _) \<Rightarrow> Some (update_job_info job_id (set_status ''completed'') w', Inr ()))"

text \<open>After a job, the oldest one that is not completed is taken up below the block it recorded last, with
  retries. The condition is not held when waiting threads are to be notified.\<close>

partial_function (option) run_and_wake :: "fix_env \<Rightarrow> bool \<Rightarrow> int \<Rightarrow> int \<Rightarrow> int \<Rightarrow> fix_world
    \<Rightarrow> (fix_world \<times> unit res) option" where
  "run_and_wake env retry_errors job_id block_number remains w =
     Option.bind (run_job env retry_errors job_id block_number remains w) (\<lambda>(w', r).
       case r of
         Inl e \<Rightarrow> Some (w', Inl e)
       | Inr _ \<Rightarrow>
           if fw_waiting w' > 0 then Some (w', Inl (OtherException ''RuntimeError''))
           else case next_job w' of
                  None \<Rightarrow> Some (w', Inr ())
                | Some j \<Rightarrow> run_and_wake env True (fx_job_id j) (fx_last_fixed_block_number j - 1)
                             (fx_remain_process j) w')"

definition action :: "fix_env \<Rightarrow> int option \<Rightarrow> int option \<Rightarrow> int option \<Rightarrow> bool \<Rightarrow> fix_world
    \<Rightarrow> (fix_world \<times> unit res) option" where
  "action env job_id block_number remains retry_errors w =
     (case block_number of
        None \<Rightarrow> Some (w, Inl (ValueError ''Fixing mission must provide a block_number.''))
      | Some n \<Rightarrow>
          let k = (case remains of None \<Rightarrow> fe_ranges env | Some k \<Rightarrow> k)
          in case job_id of
               Some j \<Rightarrow> run_and_wake env retry_errors j n k w
             | None \<Rightarrow>
                 (case submit_new_fixing_job n k w of
                    (w', Inl e) \<Rightarrow> Some (w', Inl e)
                  | (w', Inr j) \<Rightarrow> run_and_wake env retry_errors j n k w'))"

section \<open>Retrying\<close>

text \<open>\<open>failed_attempts\<close>: the worlds a number of attempts that are made again leads to.\<close>

inductive failed_attempts :: "fix_env \<Rightarrow> int \<Rightarrow> fix_world \<Rightarrow> fix_world \<Rightarrow> bool"
  for env :: fix_env and b :: int where
  none: "failed_attempts env b w w"
| again: "fe_fixing_job env b w = (w', Inl e) \<Longrightarrow> \<not> base_exception e \<Longrightarrow> failed_attempts env b w' w'' \<Longrightarrow>
    failed_attempts env b w w''"

inductive_cases failed_attemptsE: "failed_attempts env b w w'"

lemma do_fixing_returns:
  assumes "do_fixing env retry b w = Some r"
  shows "retry \<longrightarrow> (\<exists>w' w'' q. failed_attempts env b w w' \<and>
    fe_fixing_job env b w' = (w'', q) \<and> r = (w'', q) \<and> (\<forall>e. q = Inl e \<longrightarrow> base_exception e))"
  using assms
proof (induction env retry b w r rule: do_fixing.raw_induct [rotated 1, consumes 1, case_names step])
  case (step rec env retry b w r)
  show ?case
  proof
    assume retry
    obtain w1 q where run: "fe_fixing_job env b w = (w1, q)" by fastforce
    show "\<exists>w' w'' q. failed_attempts env b w w' \<and> fe_fixing_job env b w' = (w'', q) \<and> r = (w'', q) \<and>
        (\<forall>e. q = Inl e \<longrightarrow> base_exception e)"
    proof (cases "\<exists>e. q = Inl e \<and> \<not> base_exception e")
      case False
      with run step(2) have "r = (w1, q)" by (auto split: sum.splits if_splits)
      with run False show ?thesis by (blast intro: failed_attempts.none)
    next
      case True
      then obtain e where e: "q = Inl e" "\<not> base_exception e" by blast
      with run step(2) \<open>retry\<close> have "rec env retry b w1 = Some r" by simp
      with step(1) \<open>retry\<close> obtain w' w'' q' where "failed_attempts env b w1 w'" "fe_fixing_job env b w' = (w'', q')"
        "r = (w'', q')" "\<forall>e. q' = Inl e \<longrightarrow> base_exception e" by blast
      with run e show ?thesis by (blast intro: failed_attempts.again)
    qed
  qed
qed

lemma do_fixing_after_failures:
  "failed_attempts env b w w' \<Longrightarrow> fe_fixing_job env b w' = (w'', q) \<Longrightarrow> \<forall>e. q = Inl e \<longrightarrow> base_exception e \<Longrightarrow>
   do_fixing env True b w = Some (w'', q)"
  by (induction rule: failed_attempts.induct) (subst do_fixing.simps, simp split: sum.split)+

text \<open>With retries, fixing a block returns exactly if some attempt after failing ones succeeds or is
  stopped from outside, and then with what this attempt leaves; otherwise it never returns.\<close>

lemma retried_fixing_returns_iff:
  "do_fixing env True b w = Some r \<longleftrightarrow>
     (\<exists>w'. failed_attempts env b w w' \<and> fe_fixing_job env b w' = r \<and> (\<forall>e. snd r = Inl e \<longrightarrow> base_exception e))"
proof
  assume "do_fixing env True b w = Some r"
  from do_fixing_returns [OF this]
  show "\<exists>w'. failed_attempts env b w w' \<and> fe_fixing_job env b w' = r \<and> (\<forall>e. snd r = Inl e \<longrightarrow> base_exception e)" by force
qed (cases r; use do_fixing_after_failures in fastforce)

section \<open>A job that completes\<close>

text \<open>What fixing a block is for: the block then agrees with the chain, and no other block, no row and no
  waiting thread changes.\<close>

definition agrees_with_chain :: "fix_env \<Rightarrow> int \<Rightarrow> fix_world \<Rightarrow> bool" where
  "agrees_with_chain env n w \<longleftrightarrow>
     \<not> check_block_been_synced n w \<or> (\<exists>h. fe_chain_hash env n = Inr h \<and> (n, h) \<in> set (fw_blocks w))"

definition fixes_blocks :: "fix_env \<Rightarrow> bool" where
  "fixes_blocks env \<longleftrightarrow>
     (\<forall>n w w' r. fe_fixing_job env n w = (w', r) \<longrightarrow>
        fw_records w' = fw_records w \<and> fw_waiting w' = fw_waiting w \<and>
        (r = Inr () \<longrightarrow> agrees_with_chain env n w') \<and>
        (\<forall>m. m \<noteq> n \<longrightarrow> agrees_with_chain env m w \<longrightarrow> agrees_with_chain env m w'))"

lemma failed_attempts_keep:
  "failed_attempts env b w w' \<Longrightarrow> fixes_blocks env \<Longrightarrow>
   fw_records w' = fw_records w \<and> (\<forall>m. m \<noteq> b \<longrightarrow> agrees_with_chain env m w \<longrightarrow> agrees_with_chain env m w')"
proof (induction rule: failed_attempts.induct)
  case (again w w1 e w2)
  from again.prems again.hyps(1) have "fw_records w1 = fw_records w"
    "\<forall>m. m \<noteq> b \<longrightarrow> agrees_with_chain env m w \<longrightarrow> agrees_with_chain env m w1" unfolding fixes_blocks_def by blast+
  with again.IH [OF again.prems] show ?case by simp
qed simp

lemma do_fixing_spec:
  assumes "do_fixing env retry n w = Some (w', r)" and "fixes_blocks env"
  shows "fw_records w' = fw_records w \<and> (r = Inr () \<longrightarrow> agrees_with_chain env n w') \<and>
    (\<forall>m. m \<noteq> n \<longrightarrow> agrees_with_chain env m w \<longrightarrow> agrees_with_chain env m w') \<and>
    (\<forall>e. r = Inl e \<longrightarrow> (\<exists>w0 w1. fe_fixing_job env n w0 = (w1, Inl e)))"
proof (cases retry)
  case True
  with do_fixing_returns [OF assms(1)] obtain w1 where f: "failed_attempts env n w w1"
    and s: "fe_fixing_job env n w1 = (w', r)" by auto
  have job: "fw_records w' = fw_records w1 \<and> (r = Inr () \<longrightarrow> agrees_with_chain env n w') \<and>
      (\<forall>m. m \<noteq> n \<longrightarrow> agrees_with_chain env m w1 \<longrightarrow> agrees_with_chain env m w')"
    using assms(2) s unfolding fixes_blocks_def by blast
  with failed_attempts_keep [OF f assms(2)] s show ?thesis by auto
next
  case False
  with assms(1) have s: "fe_fixing_job env n w = (w', r)"
    by (subst (asm) do_fixing.simps) (auto split: prod.splits sum.splits)
  with assms(2) show ?thesis unfolding fixes_blocks_def by blast
qed

lemma fix_if_needed_spec:
  assumes "fix_if_needed env retry n w = Some (w', r)" and "fixes_blocks env"
  shows "fw_records w' = fw_records w \<and> (\<forall>b. r = Inr b \<longrightarrow> agrees_with_chain env n w') \<and>
    (\<forall>m. m \<noteq> n \<longrightarrow> agrees_with_chain env m w \<longrightarrow> agrees_with_chain env m w') \<and>
    (\<forall>e. r = Inl e \<longrightarrow> fe_chain_hash env n = Inl e \<or> (\<exists>w0 w1. fe_fixing_job env n w0 = (w1, Inl e)))"
proof (cases "check_block_been_synced n w")
  case False
  with assms(1) show ?thesis by (auto simp: fix_if_needed_def agrees_with_chain_def)
next
  case synced: True
  show ?thesis
  proof (cases "check_block_need_fix env n w")
    case (Inl e)
    with assms(1) synced show ?thesis by (auto simp: fix_if_needed_def check_block_need_fix_def rbind_Inl_iff)
  next
    case (Inr need)
    show ?thesis
    proof (cases need)
      case False
      with Inr obtain h where "fe_chain_hash env n = Inr h" "(n, h) \<in> set (fw_blocks w)"
        by (auto simp: check_block_need_fix_def rbind_Inr_iff)
      with assms(1) synced Inr False show ?thesis by (auto simp: fix_if_needed_def agrees_with_chain_def)
    next
      case True
      with assms(1) synced Inr obtain q where d: "do_fixing env retry n w = Some (w', q)"
        and r: "r = (case q of Inl e \<Rightarrow> Inl e | Inr _ \<Rightarrow> Inr True)" by (auto simp: fix_if_needed_def)
      from do_fixing_spec [OF d assms(2)] r show ?thesis by (cases q) auto
    qed
  qed
qed

lemma update_job_info_status:
  assumes "r \<in> set (fw_records (update_job_info j (set_status s) w))" and "fx_job_id r = j"
  shows "fx_job_status r = s"
proof -
  from assms(1) have "r \<in> (\<lambda>r. if fx_job_id r = j then set_status s r else r) ` set (fw_records w)"
    by (simp add: update_job_info_def)
  then obtain r0 where r: "r = (if fx_job_id r0 = j then set_status s r0 else r0)" by (rule imageE)
  with assms(2) show ?thesis by (cases "fx_job_id r0 = j") (simp_all add: set_status_def)
qed

lemma update_job_info_blocks [simp]:
  "agrees_with_chain env n (update_job_info j f w) = agrees_with_chain env n w"
  by (simp add: agrees_with_chain_def check_block_been_synced_def update_job_info_def)

lemma fix_loop_step:
  assumes "fix_if_needed env retry (bn - (limit - int (Suc k))) w = Some (w1, q)"
  shows "fix_loop env retry j bn limit (Suc k) w =
    (let o1 = limit - int (Suc k) in
     case q of
       Inl e \<Rightarrow> Some (if e = OtherException ''SystemExit'' then w1
         else update_job_info j (set_status ''interrupt'' \<circ> set_progress (bn - o1) (limit - o1 - 1)) w1, Inl e)
     | Inr b \<Rightarrow>
         let o2 = (if b \<and> o1 = limit - 1 then o1 + 1 else o1)
         in fix_loop env retry j bn limit k (update_job_info j (set_progress (bn - o2) (limit - o2 - 1)) w1))"
  by (simp only: fix_loop.simps Let_def assms option.case prod.case)

lemma fix_loop_Suc_cases:
  assumes "fix_loop env retry j bn limit (Suc k) w = Some r"
  obtains w1 q where "fix_if_needed env retry (bn - (limit - int (Suc k))) w = Some (w1, q)"
  using assms by (cases "fix_if_needed env retry (bn - (limit - int (Suc k))) w") (auto simp: Let_def)

lemma fix_loop_agrees:
  assumes "fix_loop env retry j bn limit k w = Some (w', Inr ())" and "fixes_blocks env"
    and "\<forall>n. bn - (limit - int k) < n \<and> n \<le> bn \<longrightarrow> agrees_with_chain env n w"
  shows "\<forall>n. bn - limit < n \<and> n \<le> bn \<longrightarrow> agrees_with_chain env n w'"
  using assms
proof (induction k arbitrary: w)
  case (Suc k)
  let ?o = "limit - int (Suc k)"
  from fix_loop_Suc_cases [OF Suc.prems(1)] obtain w1 q
    where f0: "fix_if_needed env retry (bn - ?o) w = Some (w1, q)" .
  with Suc.prems(1) obtain b where q: "q = Inr b" by (cases q) (simp_all only: fix_loop_step Let_def sum.case
      option.inject prod.inject sum.distinct simp_thms)
  note f = f0 [unfolded q]
  let ?o' = "if b \<and> ?o = limit - 1 then ?o + 1 else ?o"
  let ?w = "update_job_info j (set_progress (bn - ?o') (limit - ?o' - 1)) w1"
  from Suc.prems(1) have rest: "fix_loop env retry j bn limit k ?w = Some (w', Inr ())"
    by (simp only: fix_loop_step [OF f] Let_def sum.case)
  have "\<forall>n. bn - (limit - int k) < n \<and> n \<le> bn \<longrightarrow> agrees_with_chain env n ?w"
  proof (intro allI impI)
    fix n
    assume n: "bn - (limit - int k) < n \<and> n \<le> bn"
    show "agrees_with_chain env n ?w"
    proof (cases "n = bn - ?o")
      case True
      with fix_if_needed_spec [OF f Suc.prems(2)] show ?thesis by simp
    next
      case False
      with n have "bn - (limit - int (Suc k)) < n" by auto
      with n Suc.prems(3) have "agrees_with_chain env n w" by blast
      with fix_if_needed_spec [OF f Suc.prems(2)] False show ?thesis by simp
    qed
  qed
  from Suc.IH [OF rest Suc.prems(2) this] show ?case .
qed simp

lemma run_job_runnable:
  assumes "check_job_runnable j w"
  shows "run_job env retry j bn remains w =
    map_option (\<lambda>(w', r). case r of Inl e \<Rightarrow> (w', Inl e)
        | Inr _ \<Rightarrow> (update_job_info j (set_status ''completed'') w', Inr ()))
      (fix_loop env retry j bn remains (nat remains) (update_job_info j (set_status ''running'') w))"
  by (cases "fix_loop env retry j bn remains (nat remains) (update_job_info j (set_status ''running'') w)")
    (simp_all add: run_job_def assms split: prod.split sum.split)

lemma run_job_completes:
  assumes "run_job env retry j bn remains w = Some (w', Inr ())"
  obtains w1 where "fix_loop env retry j bn remains (nat remains) (update_job_info j (set_status ''running'') w)
      = Some (w1, Inr ())" and "w' = update_job_info j (set_status ''completed'') w1"
proof -
  from assms have run: "check_job_runnable j w" by (auto simp: run_job_def split: if_split_asm)
  show thesis
  proof (cases "fix_loop env retry j bn remains (nat remains) (update_job_info j (set_status ''running'') w)")
    case None
    with assms show thesis by (simp add: run_job_runnable [OF run])
  next
    case (Some p)
    obtain w1 q where p: "p = (w1, q)" by (cases p)
    with assms Some that show thesis by (cases q) (simp_all add: run_job_runnable [OF run])
  qed
qed


text \<open>C22: if fixing a block makes it agree with the chain and spoils no other, then after a job that
  completes every block of its range is either not in the database or agrees with the chain, and its row
  says that it is completed.\<close>

theorem completed_job_fixed_its_range:
  assumes "run_job env retry j bn remains w = Some (w', Inr ())" and "fixes_blocks env" and "0 \<le> remains"
  shows "(\<forall>n. bn - remains < n \<and> n \<le> bn \<longrightarrow> agrees_with_chain env n w') \<and>
    (\<forall>r \<in> set (fw_records w'). fx_job_id r = j \<longrightarrow> fx_job_status r = ''completed'')"
proof -
  from run_job_completes [OF assms(1)] obtain w1 where l: "fix_loop env retry j bn remains (nat remains)
      (update_job_info j (set_status ''running'') w) = Some (w1, Inr ())"
    and w': "w' = update_job_info j (set_status ''completed'') w1" .
  have "\<forall>n. bn - remains < n \<and> n \<le> bn \<longrightarrow> agrees_with_chain env n w1"
    by (rule fix_loop_agrees [OF l assms(2)]) (intro allI impI, elim conjE, simp add: assms(3))
  moreover have "\<forall>r \<in> set (fw_records w'). fx_job_id r = j \<longrightarrow> fx_job_status r = ''completed''"
    unfolding w' by (blast dest: update_job_info_status)
  ultimately show ?thesis by (simp add: w')
qed

text \<open>An environment whose fixing job replaces the block by the one of the chain, and a world with a job
  over the two blocks 10 and 9.\<close>

definition sample_fixing :: "(int \<Rightarrow> string res) \<Rightarrow> fix_env" where
  "sample_fixing chain =
     \<lparr>fe_ranges = 2,
      fe_fixing_job = (\<lambda>n w. case chain n of Inl e \<Rightarrow> (w, Inl e)
        | Inr h \<Rightarrow> (w\<lparr>fw_blocks := (n, h) # filter (\<lambda>p. fst p \<noteq> n) (fw_blocks w)\<rparr>, Inr ())),
      fe_chain_hash = chain\<rparr>"

definition sample_world :: "int \<Rightarrow> int \<Rightarrow> string \<Rightarrow> (int \<times> string) list \<Rightarrow> fix_world" where
  "sample_world low remain status blocks =
     \<lparr>fw_records = [\<lparr>fx_job_id = 1, fx_start_block_number = 10, fx_last_fixed_block_number = low,
        fx_remain_process = remain, fx_job_status = status\<rparr>], fw_blocks = blocks, fw_waiting = 0\<rparr>"

lemma sample_fixing_fixes: "fixes_blocks (sample_fixing chain)"
  unfolding fixes_blocks_def
proof (intro allI impI)
  fix n w w' r
  assume run: "fe_fixing_job (sample_fixing chain) n w = (w', r)"
  show "fw_records w' = fw_records w \<and> fw_waiting w' = fw_waiting w \<and>
    (r = Inr () \<longrightarrow> agrees_with_chain (sample_fixing chain) n w') \<and>
    (\<forall>m. m \<noteq> n \<longrightarrow> agrees_with_chain (sample_fixing chain) m w \<longrightarrow> agrees_with_chain (sample_fixing chain) m w')"
  proof (cases "chain n")
    case (Inl e)
    with run show ?thesis by (auto simp: sample_fixing_def)
  next
    case (Inr h)
    with run have "r = Inr ()" and w': "w' = w\<lparr>fw_blocks := (n, h) # filter (\<lambda>p. fst p \<noteq> n) (fw_blocks w)\<rparr>"
      by (auto simp: sample_fixing_def)
    moreover have "agrees_with_chain (sample_fixing chain) n w'"
      using Inr by (simp add: w' agrees_with_chain_def sample_fixing_def)
    moreover have "m \<noteq> n \<Longrightarrow> agrees_with_chain (sample_fixing chain) m w \<Longrightarrow>
        agrees_with_chain (sample_fixing chain) m w'" for m
      by (force simp: w' agrees_with_chain_def check_block_been_synced_def image_iff sample_fixing_def)
    ultimately show ?thesis by simp
  qed
qed

lemma do_fixing_at_once:
  "fe_fixing_job env n w = (w', Inr u) \<Longrightarrow> do_fixing env retry n w = Some (w', Inr u)"
  by (subst do_fixing.simps) simp

lemma sample_fix_if_needed:
  assumes "check_block_been_synced n w" and "chain n = Inr h" and "(n, h) \<notin> set (fw_blocks w)"
  shows "fix_if_needed (sample_fixing chain) retry n w =
    Some (w\<lparr>fw_blocks := (n, h) # filter (\<lambda>p. fst p \<noteq> n) (fw_blocks w)\<rparr>, Inr True)"
  using assms do_fixing_at_once [of "sample_fixing chain" n w]
  by (simp add: fix_if_needed_def check_block_need_fix_def sample_fixing_def)

lemma sample_fix_not_needed:
  assumes "chain n = Inr h" and "(n, h) \<in> set (fw_blocks w)"
  shows "fix_if_needed (sample_fixing chain) retry n w = Some (w, Inr False)"
  using assms by (simp add: fix_if_needed_def check_block_need_fix_def sample_fixing_def)

lemma sample_fix_fails:
  assumes "check_block_been_synced n w" and "chain n = Inl e"
  shows "fix_if_needed (sample_fixing chain) retry n w = Some (w, Inl e)"
  using assms by (simp add: fix_if_needed_def check_block_need_fix_def sample_fixing_def)

lemmas sample_fixing_eval = run_job_def check_job_runnable_def numeral_2_eq_2 check_block_been_synced_def
  sample_fix_if_needed sample_fix_not_needed sample_fix_fails
  update_job_info_def set_status_def set_progress_def sample_world_def

lemma sample_job_completes:
  "run_job (sample_fixing (\<lambda>n. Inr ''new'')) True 1 10 2 (sample_world 11 2 ''submitted'' [(9, ''new''), (10, ''old'')]) =
   Some (sample_world 9 0 ''completed'' [(10, ''new''), (9, ''new'')], Inr ())"
  by (simp add: sample_fixing_eval)

theorem completed_job_fixed_its_range_witness:
  "agrees_with_chain (sample_fixing (\<lambda>n. Inr ''new'')) 10
     (sample_world 9 0 ''completed'' [(10, ''new''), (9, ''new'')])"
  using completed_job_fixed_its_range [OF sample_job_completes sample_fixing_fixes] by simp

section \<open>A job that is interrupted\<close>





end
