(* ===== verification/Uniswap.thy ===== *)
theory Uniswap
  imports Balances
begin

text \<open>
  \<open>indexer/modules/custom/uniswap_v3\<close>: the pools and positions of Uniswap v3. The requests of a step
  are dictionaries that are shared between lists and changed in place; a store of dictionaries holds
  them, and a list of requests is a list of their positions in it. Encoding, decoding and checksums
  are third-party functions of \<open>ext\<close>; \<open>make_requests\<close> is the node. A Python set that is iterated
  over is a list without repetitions. The configuration is as \<open>config.ini\<close> has it.
\<close>

section \<open>Constants\<close>

definition uni_positions :: function_abi where
  "uni_positions = \<lparr>fn_name = ''positions'', fn_inputs = [''uint256''],
     fn_outputs = [''uint96'', ''address'', ''address'', ''address'', ''uint24'', ''int24'', ''int24'', ''uint128'',
       ''uint256'', ''uint256'', ''uint128'', ''uint128'']\<rparr>"

definition uni_functions :: "function_abi list" where
  "uni_functions =
    [uni_positions,
     \<lparr>fn_name = ''getPool'', fn_inputs = [''address'', ''address'', ''uint24''], fn_outputs = [''address'']\<rparr>,
     \<lparr>fn_name = ''slot0'', fn_inputs = [],
      fn_outputs = [''uint160'', ''int24'', ''uint16'', ''uint16'', ''uint16'', ''uint8'', ''bool'']\<rparr>,
     \<lparr>fn_name = ''ownerOf'', fn_inputs = [''uint256''], fn_outputs = [''address'']\<rparr>,
     \<lparr>fn_name = ''factory'', fn_inputs = [], fn_outputs = [''address'']\<rparr>,
     \<lparr>fn_name = ''fee'', fn_inputs = [], fn_outputs = [''uint24'']\<rparr>,
     \<lparr>fn_name = ''token0'', fn_inputs = [], fn_outputs = [''address'']\<rparr>,
     \<lparr>fn_name = ''token1'', fn_inputs = [], fn_outputs = [''address'']\<rparr>,
     \<lparr>fn_name = ''tickSpacing'', fn_inputs = [], fn_outputs = [''int24'']\<rparr>]"

definition uni_events :: "event_abi list" where
  "uni_events =
    [\<lparr>ev_name = ''PoolCreated'', ev_inputs = [indexed_input ''token0'' ''address'', indexed_input ''token1'' ''address'',
       indexed_input ''fee'' ''uint24'', data_input ''tickSpacing'' ''int24'', data_input ''pool'' ''address'']\<rparr>,
     \<lparr>ev_name = ''Swap'', ev_inputs = [indexed_input ''sender'' ''address'', indexed_input ''recipient'' ''address'',
       data_input ''amount0'' ''int256'', data_input ''amount1'' ''int256'', data_input ''sqrtPriceX96'' ''uint160'',
       data_input ''liquidity'' ''uint128'', data_input ''tick'' ''int24'']\<rparr>]"

record uni_config =
  uc_nft_address :: string
  uc_factory_address :: string
  uc_create_pool_topic0 :: string
  uc_pool_swap_topic0 :: string
  uc_liquidity_topics :: "(string \<times> int) list"

text \<open>Topics and addresses are lowered by \<open>_load_config\<close>, the keys of the dictionary of topics are
  not.\<close>

definition uni_load_config :: "uni_config \<Rightarrow> uni_config" where
  "uni_load_config c = c\<lparr>uc_nft_address := str_lower (uc_nft_address c),
     uc_factory_address := str_lower (uc_factory_address c),
     uc_create_pool_topic0 := str_lower (uc_create_pool_topic0 c),
     uc_pool_swap_topic0 := str_lower (uc_pool_swap_topic0 c)\<rparr>"

definition uni_pool_filter :: "uni_config \<Rightarrow> tx_filter" where
  "uni_pool_filter c = TransactionFilterByLogs
     [([uc_factory_address c], [uc_create_pool_topic0 c]), ([], [uc_pool_swap_topic0 c])]"

definition uni_token_filter :: "uni_config \<Rightarrow> tx_filter" where
  "uni_token_filter c = TransactionFilterByLogs
     [([uc_factory_address c], map fst (uc_liquidity_topics c)), ([uc_nft_address c], [])]"

section \<open>Calls on shared dictionaries\<close>

type_synonym store = "jdict list"

text \<open>\<open>d.update(new)\<close>\<close>

definition py_update :: "jdict \<Rightarrow> jdict \<Rightarrow> jdict" where
  "py_update d new = fold (\<lambda>(k, v). AList.update k v) new d"

fun json_of_abi :: "abi_value \<Rightarrow> json" where
  "json_of_abi (AUint n) = JInt n"
| "json_of_abi (AAddress a) = JStr a"
| "json_of_abi (ABool b) = JBool b"
| "json_of_abi (AString s) = JStr s"
| "json_of_abi (ABytes b) = JList (map (\<lambda>w. JInt (uint w)) b)"
| "json_of_abi (AList vs) = JList (map json_of_abi vs)"

definition find_function :: "string \<Rightarrow> function_abi res" where
  "find_function fn = (case List.find (\<lambda>f. fn_name f = fn) uni_functions of None \<Rightarrow> Inl TypeError | Some f \<Rightarrow> Inr f)"

definition encode_call :: "ext \<Rightarrow> string \<Rightarrow> abi_value list \<Rightarrow> string res" where
  "encode_call x fn args = rbind (find_function fn) (\<lambda>f. encode_abi x f args (function_abi_to_4byte_selector_str x f))"

text \<open>Each dictionary of the list is given its call; if it cannot be encoded, it keeps the data of the call
  before, if it had one.\<close>

definition call_fields :: "string \<Rightarrow> nat \<Rightarrow> jdict \<Rightarrow> jdict res" where
  "call_fields address idx d =
     rbind (get_int d ''block_number'') (\<lambda>n.
     Inr (py_update d [(''request_id'', JInt (int idx)), (''param_to'', JStr address), (''param_number'', JStr (py_hex n))]))"

definition set_param_data :: "string res \<Rightarrow> jdict \<Rightarrow> jdict" where
  "set_param_data data d = (case data of Inl _ \<Rightarrow> d | Inr s \<Rightarrow> AList.update ''param_data'' (JStr s) d)"

fun build_each :: "(nat \<Rightarrow> jdict \<Rightarrow> jdict res) \<Rightarrow> nat \<Rightarrow> nat list \<Rightarrow> store \<Rightarrow> store res" where
  "build_each f idx [] s = Inr s"
| "build_each f idx (r # rs) s = rbind (f idx (s ! r)) (\<lambda>d. build_each f (Suc idx) rs (s[r := d]))"

definition build_token_id_method_data :: "ext \<Rightarrow> string \<Rightarrow> string \<Rightarrow> nat list \<Rightarrow> store \<Rightarrow> store res" where
  "build_token_id_method_data x nft_address fn refs s =
     rbind (to_checksum_address x nft_address) (\<lambda>_.
     build_each (\<lambda>idx d.
       rbind (call_fields nft_address idx d) (\<lambda>d.
       rbind (get_int d ''token_id'') (\<lambda>i. Inr (set_param_data (encode_call x fn [AUint i]) d)))) 0 refs s)"

text \<open>The handler of a failed encoding reads the tokens and the fee again, and fails where they are
  missing.\<close>

definition build_get_pool_method_data :: "ext \<Rightarrow> string \<Rightarrow> string \<Rightarrow> nat list \<Rightarrow> store \<Rightarrow> store res" where
  "build_get_pool_method_data x factory_address fn refs s =
     rbind (to_checksum_address x factory_address) (\<lambda>_.
     build_each (\<lambda>idx d.
       rbind (call_fields factory_address idx d) (\<lambda>d.
       rbind (get_str d ''token0'') (\<lambda>t0. rbind (get_str d ''token1'') (\<lambda>t1. rbind (get_int d ''fee'') (\<lambda>fee.
       Inr (set_param_data
         (rbind (to_checksum_address x t0) (\<lambda>a0. rbind (to_checksum_address x t1) (\<lambda>a1.
            encode_call x fn [AAddress a0, AAddress a1, AUint fee]))) d)))))) 0 refs s)"

text \<open>Of \<open>util.py\<close>:\<close>

definition build_no_input_method_data :: "ext \<Rightarrow> string \<Rightarrow> string \<Rightarrow> nat list \<Rightarrow> store \<Rightarrow> store res" where
  "build_no_input_method_data x fn contract_address_key refs s =
     build_each (\<lambda>idx d.
       rbind (get_str d contract_address_key) (\<lambda>address.
       rbind (call_fields address idx d) (\<lambda>d.
       Inr (set_param_data (rbind (to_checksum_address x address) (\<lambda>_. encode_call x fn [])) d)))) 0 refs s"

definition call_of :: "jdict \<Rightarrow> (string \<times> string \<times> json \<times> json) res" where
  "call_of d =
     rbind (get_str d ''param_to'') (\<lambda>to. rbind (get_str d ''param_data'') (\<lambda>data.
     rbind (dict_get d ''param_number'') (\<lambda>n. rbind (dict_get d ''request_id'') (\<lambda>i. Inr (to, data, n, i)))))"

text \<open>An answer that cannot be decoded changes nothing; one that can gives the dictionary its values.\<close>

definition read_answer :: "ext \<Rightarrow> string list \<Rightarrow> string list \<Rightarrow> string option \<Rightarrow> jdict \<Rightarrow> jdict" where
  "read_answer x out_types keys result d =
     (case result of
        None \<Rightarrow> d
      | Some s \<Rightarrow> (case rbind (bytes_fromhex (drop 2 s)) (abi_decode x out_types) of
                     Inl _ \<Rightarrow> d | Inr vs \<Rightarrow> py_update d (zip keys (map json_of_abi vs))))"

fun read_answers :: "ext \<Rightarrow> string list \<Rightarrow> string list \<Rightarrow> (nat \<times> (json, string) rpc_response) list \<Rightarrow> store \<Rightarrow> store res"
  where
  "read_answers x out_types keys [] s = Inr s"
| "read_answers x out_types keys ((r, response) # answers) s =
     rbind (rpc_response_to_result response) (\<lambda>result.
       read_answers x out_types keys answers (s[r := read_answer x out_types keys result (s ! r)]))"

text \<open>The dictionaries that got an answer come back.\<close>

type_synonym node = "jdict list \<Rightarrow> (json, string) rpc_response list res"

definition call_tokens :: "ext \<Rightarrow> node \<Rightarrow> bool \<Rightarrow> string \<Rightarrow> string list \<Rightarrow> (nat list \<Rightarrow> store \<Rightarrow> store res)
    \<Rightarrow> nat list \<Rightarrow> store \<Rightarrow> (store \<times> nat list) res" where
  "call_tokens x make_requests is_batch fn keys build refs s =
     (if refs = [] then Inr (s, [])
      else
        rbind (find_function fn) (\<lambda>f.
        rbind (build refs s) (\<lambda>s.
        rbind (rmap (\<lambda>r. call_of (s ! r)) refs) (\<lambda>params.
        rbind (send_requests make_requests is_batch (generate_eth_call_json_rpc params)) (\<lambda>response.
        rbind (zip_rpc_response (\<lambda>r. jget (s ! r) ''request_id'') refs response) (\<lambda>answers.
        rbind (read_answers x (fn_outputs f) keys answers s) (\<lambda>s. Inr (s, map fst answers))))))))"

definition simple_get_rpc_requests :: "ext \<Rightarrow> node \<Rightarrow> bool \<Rightarrow> string \<Rightarrow> string \<Rightarrow> nat list \<Rightarrow> store \<Rightarrow> (store \<times> nat list) res"
  where
  "simple_get_rpc_requests x make_requests is_batch fn contract_address_key =
     call_tokens x make_requests is_batch fn [fn] (build_no_input_method_data x fn contract_address_key)"

definition positions_rpc_requests :: "ext \<Rightarrow> node \<Rightarrow> bool \<Rightarrow> string \<Rightarrow> nat list \<Rightarrow> store \<Rightarrow> (store \<times> nat list) res" where
  "positions_rpc_requests x make_requests is_batch nft_address =
     call_tokens x make_requests is_batch ''positions''
       [''nonce'', ''operator'', ''token0'', ''token1'', ''fee'', ''tickLower'', ''tickUpper'', ''liquidity'',
        ''feeGrowthInside0LastX128'', ''feeGrowthInside1LastX128'', ''tokensOwed0'', ''tokensOwed1'']
       (build_token_id_method_data x nft_address ''positions'')"

definition owner_rpc_requests :: "ext \<Rightarrow> node \<Rightarrow> bool \<Rightarrow> string \<Rightarrow> nat list \<Rightarrow> store \<Rightarrow> (store \<times> nat list) res" where
  "owner_rpc_requests x make_requests is_batch nft_address =
     call_tokens x make_requests is_batch ''ownerOf'' [''owner''] (build_token_id_method_data x nft_address ''ownerOf'')"

definition get_pool_rpc_requests :: "ext \<Rightarrow> node \<Rightarrow> bool \<Rightarrow> string \<Rightarrow> nat list \<Rightarrow> store \<Rightarrow> (store \<times> nat list) res" where
  "get_pool_rpc_requests x make_requests is_batch factory_address =
     call_tokens x make_requests is_batch ''getPool'' [''pool_address''] (build_get_pool_method_data x factory_address ''getPool'')"

section \<open>Positions\<close>

text \<open>The transfers of a token by block, the block of its last mint and of its last burn.\<close>

record changed_tokens =
  mint_tokens :: "(int \<times> int) list"
  burn_tokens :: "(int \<times> int) list"
  all_tokens :: "(int \<times> (int \<times> string) list) list"

definition nested_set :: "'k \<Rightarrow> 'n \<Rightarrow> 'v \<Rightarrow> ('k \<times> ('n \<times> 'v) list) list \<Rightarrow> ('k \<times> ('n \<times> 'v) list) list" where
  "nested_set k n v d = AList.update k (AList.update n v (case map_of d k of None \<Rightarrow> [] | Some m \<Rightarrow> m)) d"

definition note_transfer :: "transfer_fields \<times> int \<Rightarrow> changed_tokens \<Rightarrow> changed_tokens" where
  "note_transfer ti c =
     (let (t, token_id) = ti; n = int_or_0 (tf_block_number t);
          c = c\<lparr>all_tokens := nested_set token_id n (tf_to_address t) (all_tokens c)\<rparr>
      in if tf_to_address t = ZERO_ADDRESS then c\<lparr>burn_tokens := AList.update token_id n (burn_tokens c)\<rparr>
         else if tf_from_address t = ZERO_ADDRESS then c\<lparr>mint_tokens := AList.update token_id n (mint_tokens c)\<rparr>
         else c)"

definition extract_changed_tokens :: "(transfer_fields \<times> int) list \<Rightarrow> string \<Rightarrow> changed_tokens" where
  "extract_changed_tokens transfers nft_address =
     fold note_transfer
       (filter (\<lambda>(t, _). tf_token_address t = nft_address)
         (sort_key (\<lambda>(t, _). (int_or_0 (tf_block_number t), tf_log_index t)) transfers))
       \<lparr>mint_tokens = [], burn_tokens = [], all_tokens = []\<rparr>"

definition liquidity_token :: "ext \<Rightarrow> (string \<times> int) list \<Rightarrow> log \<Rightarrow> int option res" where
  "liquidity_token x topics l =
     (case (case lg_topic0 l of None \<Rightarrow> None | Some t \<Rightarrow> map_of topics t) of
        None \<Rightarrow> Inr None
      | Some i \<Rightarrow>
          (case (if i = 1 then lg_topic1 l else if i = 2 then lg_topic2 l else lg_topic3 l) of
             None \<Rightarrow> Inl TypeError
           | Some h \<Rightarrow> if drop 2 h = [] then Inl (ValueError ''invalid literal for int() with base 16'')
               else rbind (hex_number (drop 2 h) 0) (\<lambda>n. Inr (Some n))))"

definition extract_liquidity_logs :: "ext \<Rightarrow> (string \<times> int) list \<Rightarrow> log list \<Rightarrow> string
    \<Rightarrow> (int \<times> (int \<times> string option) list) list res" where
  "extract_liquidity_logs x topics logs nft_address =
     rfold (\<lambda>d l.
       if lg_address l \<noteq> nft_address then Inr d
       else rbind (liquidity_token x topics l) (\<lambda>t.
              case t of None \<Rightarrow> Inr d
              | Some i \<Rightarrow> Inr (nested_set i (int_or_0 (lg_block_number l)) (lg_topic0 l) d))) [] logs"

text \<open>The tokens read from the database are filed under one-element tuples, the others under their
  number.\<close>

datatype token_key = IdKey int | TupleKey int

record token_row =
  tr_nft_address :: string
  tr_token_id :: int
  tr_pool_address :: "string option"

definition get_exist_token_ids :: "token_row list \<Rightarrow> string \<Rightarrow> (token_key \<times> string) list" where
  "get_exist_token_ids rows nft_address =
     fold (\<lambda>r d. case tr_pool_address r of None \<Rightarrow> d | Some p \<Rightarrow> AList.update (TupleKey (tr_token_id r)) p d)
       (filter (\<lambda>r. tr_nft_address r = nft_address) rows) []"

definition pairs_of :: "('k \<times> ('n \<times> 'v) list) list \<Rightarrow> ('k \<times> 'n) list" where
  "pairs_of d = [(k, n). (k, m) \<leftarrow> d, (n, _) \<leftarrow> m]"

definition still_there :: "(int \<times> int) list \<Rightarrow> int \<times> int \<Rightarrow> bool" where
  "still_there burns kn = (case map_of burns (fst kn) of None \<Rightarrow> True | Some b \<Rightarrow> b < snd kn)"

definition gather_collect_infos :: "(int \<times> (int \<times> string) list) list \<Rightarrow> (int \<times> (int \<times> string option) list) list
    \<Rightarrow> (int \<times> int) list \<Rightarrow> (token_key \<times> string) list \<Rightarrow> store \<times> (int \<times> int) list" where
  "gather_collect_infos all_token_dict token_id_block burn_token_ids exist_token_ids =
     (let seen = remdups (pairs_of all_token_dict @ pairs_of token_id_block);
          need = filter (still_there burn_token_ids) seen
      in (map (\<lambda>(i, n). [(''token_id'', JInt i), (''block_number'', JInt n)]) need,
          filter (\<lambda>(i, n). IdKey i \<notin> fst ` set exist_token_ids) need))"

definition get_owner_dict :: "ext \<Rightarrow> node \<Rightarrow> nat list \<Rightarrow> string \<Rightarrow> bool \<Rightarrow> store
    \<Rightarrow> (store \<times> (int \<times> (int \<times> string) list) list) res" where
  "get_owner_dict x make_requests refs nft_address is_batch s =
     rbind (owner_rpc_requests x make_requests is_batch nft_address refs s) (\<lambda>(s, owners).
     rbind (rfold (\<lambda>d r.
        rbind (get_int (s ! r) ''token_id'') (\<lambda>i. rbind (get_str (s ! r) ''owner'') (\<lambda>owner.
        rbind (get_int (s ! r) ''block_number'') (\<lambda>n. Inr (nested_set i n owner d))))) [] owners) (\<lambda>d. Inr (s, d)))"

record uniswap_v3_token =
  ut_nft_address :: string
  ut_token_id :: int
  ut_pool_address :: string
  ut_tick_lower :: json
  ut_tick_upper :: json
  ut_fee :: json
  ut_called_block_number :: json

text \<open>The key of a pool is the text of its tokens and its fee.\<close>

definition pool_key :: "jdict \<Rightarrow> string res" where
  "pool_key d =
     rbind (get_str d ''token0'') (\<lambda>t0. rbind (get_str d ''token1'') (\<lambda>t1. rbind (get_int d ''fee'') (\<lambda>fee.
       Inr (t0 @ t1 @ int_str fee))))"

definition pools_by_key :: "jdict list \<Rightarrow> (string \<times> string) list res" where
  "pools_by_key infos =
     rfold (\<lambda>d info. rbind (pool_key info) (\<lambda>k. rbind (get_str info ''pool_address'') (\<lambda>p. Inr (AList.update k p d)))) [] infos"

definition new_nft :: "string \<Rightarrow> (string \<times> string) list \<Rightarrow> jdict \<Rightarrow> uniswap_v3_token res" where
  "new_nft nft_address pool_dict d =
     rbind (get_int d ''token_id'') (\<lambda>i. rbind (pool_key d) (\<lambda>k. rbind (dict_get pool_dict k) (\<lambda>p.
     rbind (dict_get d ''tickLower'') (\<lambda>lo. rbind (dict_get d ''tickUpper'') (\<lambda>up. rbind (dict_get d ''fee'') (\<lambda>fee.
     rbind (dict_get d ''block_number'') (\<lambda>n.
       Inr \<lparr>ut_nft_address = nft_address, ut_token_id = i, ut_pool_address = p, ut_tick_lower = lo,
         ut_tick_upper = up, ut_fee = fee, ut_called_block_number = n\<rparr>)))))))"

text \<open>Of each token only the first one counts.\<close>

fun new_nfts :: "string \<Rightarrow> (string \<times> string) list \<Rightarrow> int list \<Rightarrow> jdict list \<Rightarrow> uniswap_v3_token list res" where
  "new_nfts nft_address pool_dict seen [] = Inr []"
| "new_nfts nft_address pool_dict seen (d # ds) =
     rbind (get_int d ''token_id'') (\<lambda>i.
       if i \<in> set seen then new_nfts nft_address pool_dict seen ds
       else rbind (new_nft nft_address pool_dict d) (\<lambda>t.
            rbind (new_nfts nft_address pool_dict (i # seen) ds) (\<lambda>ts. Inr (t # ts))))"

definition wanted :: "(int \<times> int) list \<Rightarrow> jdict \<Rightarrow> bool res" where
  "wanted want_pool_tokens d =
     rbind (get_int d ''token_id'') (\<lambda>i. rbind (get_int d ''block_number'') (\<lambda>n. Inr ((i, n) \<in> set want_pool_tokens)))"

definition get_new_nfts :: "ext \<Rightarrow> node \<Rightarrow> nat list \<Rightarrow> (int \<times> int) list \<Rightarrow> string \<Rightarrow> nat list \<Rightarrow> string \<Rightarrow> bool \<Rightarrow> store
    \<Rightarrow> (store \<times> uniswap_v3_token list) res" where
  "get_new_nfts x make_requests all_token_infos want_pool_tokens nft_address refs factory_address is_batch s =
     rbind (rmap (\<lambda>r. wanted want_pool_tokens (s ! r)) all_token_infos) (\<lambda>wants.
     let need = map fst (filter snd (zip all_token_infos wants))
     in rbind (get_pool_rpc_requests x make_requests is_batch factory_address refs s) (\<lambda>(s, infos).
        rbind (pools_by_key (map ((!) s) infos)) (\<lambda>pool_dict.
        rbind (new_nfts nft_address pool_dict [] (map ((!) s) need)) (\<lambda>ts. Inr (s, ts)))))"

record feature_record =
  fr_feature_id :: int
  fr_block_number :: int
  fr_address :: string
  fr_value :: json

definition token_value :: "(token_key \<times> string) list \<Rightarrow> jdict \<Rightarrow> int \<Rightarrow> int \<Rightarrow> json res" where
  "token_value token_pool_dict d i n =
     rbind (rmap (\<lambda>(k, f). rbind (dict_get d f) (\<lambda>v. Inr (k, v)))
       [(''tick_lower'', ''tickLower''), (''tick_upper'', ''tickUpper''), (''fee'', ''fee''),
        (''liquidity'', ''liquidity''), (''token0'', ''token0''), (''token1'', ''token1'')]) (\<lambda>vs.
     case map_of token_pool_dict (IdKey i) of
       None \<Rightarrow> Inl (KeyError (int_str i))
     | Some p \<Rightarrow> Inr (JDict ((''token_id'', JInt i) # vs @ [(''block_number'', JInt n), (''pool_address'', JStr p)])))"

text \<open>\<open>owner_dict[token_id][block_number]\<close>\<close>

definition owner_at :: "(int \<times> (int \<times> string) list) list \<Rightarrow> int \<Rightarrow> int \<Rightarrow> string res" where
  "owner_at owner_dict i n =
     (case map_of owner_dict i of None \<Rightarrow> Inl (KeyError (int_str i))
      | Some m \<Rightarrow> (case map_of m n of None \<Rightarrow> Inl (KeyError (int_str n)) | Some a \<Rightarrow> Inr a))"

definition located_value :: "(token_key \<times> string) list \<Rightarrow> (int \<times> (int \<times> string) list) list \<Rightarrow> jdict
    \<Rightarrow> (string \<times> int \<times> json) res" where
  "located_value token_pool_dict owner_dict d =
     rbind (get_int d ''block_number'') (\<lambda>n. rbind (get_int d ''token_id'') (\<lambda>i.
     rbind (owner_at owner_dict i n) (\<lambda>a. rbind (token_value token_pool_dict d i n) (\<lambda>v. Inr (a, n, v)))))"

definition nested_append :: "string \<times> int \<times> json \<Rightarrow> (string \<times> (int \<times> json list) list) list \<Rightarrow> (string \<times> (int \<times> json list) list) list"
  where
  "nested_append anv d =
     (case anv of (a, n, v) \<Rightarrow>
        AList.update a (dict_append n v (case map_of d a of None \<Rightarrow> [] | Some m \<Rightarrow> m)) d)"

definition parse_token_records :: "(token_key \<times> string) list \<Rightarrow> (int \<times> (int \<times> string) list) list \<Rightarrow> jdict list \<Rightarrow> int
    \<Rightarrow> feature_record list res" where
  "parse_token_records token_pool_dict owner_dict token_infos feature_id =
     rbind (rmap (located_value token_pool_dict owner_dict) token_infos) (\<lambda>vs.
     Inr [\<lparr>fr_feature_id = feature_id, fr_block_number = n, fr_address = a, fr_value = JList data\<rparr>.
            (a, blocks) \<leftarrow> fold nested_append vs [], (n, data) \<leftarrow> blocks])"

record uniswap_v3_pool =
  uv_nft_address :: json
  uv_pool_address :: json
  uv_token0_address :: json
  uv_token1_address :: json
  uv_fee :: json
  uv_tick_spacing :: json
  uv_called_block_number :: json

record pool_price =
  pp_block_number :: int
  pp_log_index :: int
  pp_sqrtPriceX96 :: abi_value
  pp_tick :: abi_value

record uni_state =
  us_exist_token_ids :: "(token_key \<times> string) list"
  us_exist_pools :: "(string \<times> jdict) list"
  us_pool_prices :: "(string \<times> pool_price) list"

datatype uni_item = PoolItem uniswap_v3_pool | PoolValue feature_record
  | TokenItem uniswap_v3_token | TokenValue feature_record

fun uni_item_type :: "uni_item \<Rightarrow> string" where
  "uni_item_type (PoolItem _) = ''uniswap_v3_pool''"
| "uni_item_type (PoolValue _) = ''all_feature_value_record_uniswap_v3_pool''"
| "uni_item_type (TokenItem _) = ''uniswap_v3_token''"
| "uni_item_type (TokenValue _) = ''all_feature_value_record_uniswap_v3_token''"

definition UNISWAP_V3_POOLS :: int where "UNISWAP_V3_POOLS = 1"
definition UNISWAP_V3_TOKENS :: int where "UNISWAP_V3_TOKENS = 2"

text \<open>\<open>_collect\<close> of the job of positions, on the transfers and logs of the buffer.\<close>

definition token_results :: "ext \<Rightarrow> node \<Rightarrow> bool \<Rightarrow> uni_config \<Rightarrow> (transfer_fields \<times> int) list \<Rightarrow> log list
    \<Rightarrow> (token_key \<times> string) list \<Rightarrow> ((token_key \<times> string) list \<times> uni_item list \<times> feature_record list res) res" where
  "token_results x make_requests is_batch c transfers logs exist =
     (let changed = extract_changed_tokens transfers (uc_nft_address c)
      in rbind (extract_liquidity_logs x (uc_liquidity_topics c) logs (uc_nft_address c)) (\<lambda>records.
         let (s, want_pool) = gather_collect_infos (all_tokens changed) records (burn_tokens changed) exist;
             refs = [0..<length s]
         in rbind (get_owner_dict x make_requests refs (uc_nft_address c) is_batch s) (\<lambda>(s, owner_dict).
            rbind (positions_rpc_requests x make_requests is_batch (uc_nft_address c) refs s) (\<lambda>(s, infos).
            rbind (get_new_nfts x make_requests infos want_pool (uc_nft_address c) refs (uc_factory_address c) is_batch s)
              (\<lambda>(s, nfts).
            let exist = fold (\<lambda>t. AList.update (IdKey (ut_token_id t)) (ut_pool_address t)) nfts exist
            in Inr (exist, map TokenItem nfts,
                    parse_token_records exist owner_dict (map ((!) s) infos) UNISWAP_V3_TOKENS))))))"

definition tokens_collect :: "ext \<Rightarrow> node \<Rightarrow> bool \<Rightarrow> uni_config \<Rightarrow> (transfer_fields \<times> int) list \<Rightarrow> log list
    \<Rightarrow> ((uni_item, uni_state) world, unit) act" where
  "tokens_collect x make_requests is_batch c transfers logs w =
     (case token_results x make_requests is_batch c transfers logs (us_exist_token_ids (outside w)) of
        Inl e \<Rightarrow> (w, Inl e)
      | Inr (exist, items, records) \<Rightarrow>
          sthen (sfor (collect_domain uni_item_type) items)
            (collect_all uni_item_type (rbind records (\<lambda>rs. Inr (map TokenValue rs))))
            (w\<lparr>outside := (outside w)\<lparr>us_exist_token_ids := exist\<rparr>\<rparr>))"

section \<open>Pools\<close>

definition decode_logs :: "ext \<Rightarrow> string \<Rightarrow> log \<Rightarrow> decoded res" where
  "decode_logs x name l =
     (case List.find (\<lambda>e. ev_name e = name) uni_events of
        None \<Rightarrow> Inl (ValueError ''Function ABI not found'')
      | Some e \<Rightarrow> (case decode_log x e l of None \<Rightarrow> Inl TypeError | Some d \<Rightarrow> Inr d))"

record pool_row =
  pr_nft_address :: string
  pr_pool_address :: string
  pr_token0_address :: string
  pr_token1_address :: string
  pr_fee :: json
  pr_tick_spacing :: json
  pr_called_block_number :: json

definition get_exist_pools :: "pool_row list \<Rightarrow> string \<Rightarrow> (string \<times> jdict) list" where
  "get_exist_pools rows nft_address =
     fold (\<lambda>r. AList.update (pr_pool_address r)
         [(''pool_address'', JStr (pr_pool_address r)), (''token0_address'', JStr (pr_token0_address r)),
          (''token1_address'', JStr (pr_token1_address r)), (''fee'', pr_fee r),
          (''tick_spacing'', pr_tick_spacing r), (''called_block_number'', pr_called_block_number r)])
       (filter (\<lambda>r. pr_nft_address r = nft_address) rows) []"

definition collect_swap_new_pools :: "ext \<Rightarrow> node \<Rightarrow> bool \<Rightarrow> string \<Rightarrow> string \<Rightarrow> store \<Rightarrow> (string \<times> jdict) list res" where
  "collect_swap_new_pools x make_requests is_batch nft_address factory_address swap_pools =
     rbind (simple_get_rpc_requests x make_requests is_batch ''factory'' ''address'' [0..<length swap_pools] swap_pools)
       (\<lambda>(s, factory_infos).
     let own = filter (\<lambda>r. map_of (s ! r) ''factory'' = Some (JStr factory_address)) factory_infos
     in rbind (rmap (\<lambda>r. rbind (dict_get (s ! r) ''block_number'') (\<lambda>n. rbind (dict_get (s ! r) ''address'') (\<lambda>a.
           Inr [(''block_number'', n), (''address'', a)]))) own) (\<lambda>s.
        if s = [] then Inr []
        else
          rbind (simple_get_rpc_requests x make_requests is_batch ''token0'' ''address'' [0..<length s] s) (\<lambda>(s, refs).
          rbind (simple_get_rpc_requests x make_requests is_batch ''token1'' ''address'' refs s) (\<lambda>(s, refs).
          rbind (simple_get_rpc_requests x make_requests is_batch ''tickSpacing'' ''address'' refs s) (\<lambda>(s, refs).
          rfold (\<lambda>d r.
            rbind (get_str (s ! r) ''address'') (\<lambda>a. rbind (dict_get (s ! r) ''token0'') (\<lambda>t0.
            rbind (dict_get (s ! r) ''token1'') (\<lambda>t1. rbind (dict_get (s ! r) ''tickSpacing'') (\<lambda>ts.
            rbind (dict_get (s ! r) ''block_number'') (\<lambda>n.
              Inr (AList.update a [(''nft_address'', JStr nft_address), (''token0_address'', t0),
                (''token1_address'', t1), (''tick_spacing'', ts), (''pool_address'', JStr a),
                (''called_block_number'', n)] d))))))) [] refs)))))"

definition json_of_opt :: "int option \<Rightarrow> json" where
  "json_of_opt n = (case n of None \<Rightarrow> JNull | Some k \<Rightarrow> JInt k)"

definition dec_json :: "decoded \<Rightarrow> string \<Rightarrow> json res" where
  "dec_json d k = rbind (dict_get d k) (\<lambda>v. Inr (json_of_abi v))"

definition created_pool :: "ext \<Rightarrow> string \<Rightarrow> log \<Rightarrow> (string \<times> jdict) res" where
  "created_pool x nft_address l =
     rbind (decode_logs x ''PoolCreated'' l) (\<lambda>d.
     rbind (rbind (dec_json d ''pool'') as_str) (\<lambda>p. rbind (dec_json d ''token0'') (\<lambda>t0. rbind (dec_json d ''token1'') (\<lambda>t1.
     rbind (dec_json d ''fee'') (\<lambda>fee. rbind (dec_json d ''tickSpacing'') (\<lambda>ts.
       Inr (p, [(''nft_address'', JStr nft_address), (''token0_address'', t0), (''token1_address'', t1), (''fee'', fee),
         (''tick_spacing'', ts), (''pool_address'', JStr p), (''called_block_number'', json_of_opt (lg_block_number l))])))))))"

definition note_pool_log :: "ext \<Rightarrow> uni_config \<Rightarrow> (string \<times> jdict) list \<Rightarrow> (string \<times> jdict) list \<times> store \<Rightarrow> log
    \<Rightarrow> ((string \<times> jdict) list \<times> store) res" where
  "note_pool_log x c exist_pools ns l =
     (case ns of (need_add, swap_pools) \<Rightarrow>
       if lg_address l \<in> fst ` set exist_pools then Inr ns
       else if uc_factory_address c = lg_address l \<and> lg_topic0 l = Some (uc_create_pool_topic0 c)
         then rbind (created_pool x (uc_nft_address c) l) (\<lambda>(p, d). Inr (AList.update p d need_add, swap_pools))
       else if lg_topic0 l = Some (uc_pool_swap_topic0 c)
         then Inr (need_add, swap_pools @ [[(''address'', JStr (lg_address l)), (''block_number'', json_of_opt (lg_block_number l))]])
       else Inr ns)"

definition update_exist_pools :: "ext \<Rightarrow> node \<Rightarrow> bool \<Rightarrow> uni_config \<Rightarrow> (string \<times> jdict) list \<Rightarrow> log list \<Rightarrow> (string \<times> jdict) list res"
  where
  "update_exist_pools x make_requests is_batch c exist_pools logs =
     rbind (rfold (note_pool_log x c exist_pools) ([], []) logs) (\<lambda>(need_add, swap_pools).
     rbind (collect_swap_new_pools x make_requests is_batch (uc_nft_address c) (uc_factory_address c) swap_pools) (\<lambda>new.
       Inr (fold (\<lambda>(k, v). AList.update k v) new need_add)))"

text \<open>Only the last log of an address, topic and block is looked at.\<close>

definition max_on :: "('a \<Rightarrow> int) \<Rightarrow> 'a \<Rightarrow> 'a list \<Rightarrow> 'a" where
  "max_on f y ys = fold (\<lambda>z b. if f b < f z then z else b) ys y"

definition max_log_index_records :: "log list \<Rightarrow> log list" where
  "max_log_index_records logs =
     map (\<lambda>(k, g). case g of y # ys \<Rightarrow> max_on lg_log_index y ys)
       (group_on (\<lambda>l. (lg_address l, lg_topic0 l, lg_block_number l)) logs)"

text \<open>A missing field of the data class is its type's empty value: \<open>''''\<close> or 0.\<close>

definition format_pool_item :: "(string \<times> jdict) list \<Rightarrow> uniswap_v3_pool list" where
  "format_pool_item new_pools =
     map (\<lambda>(_, d).
       let field = \<lambda>k dflt. (case map_of d k of None \<Rightarrow> dflt | Some v \<Rightarrow> v)
       in \<lparr>uv_nft_address = field ''nft_address'' (JStr []), uv_pool_address = field ''pool_address'' (JStr []),
           uv_token0_address = field ''token0_address'' (JStr []), uv_token1_address = field ''token1_address'' (JStr []),
           uv_fee = field ''fee'' (JInt 0), uv_tick_spacing = field ''tick_spacing'' (JInt 0),
           uv_called_block_number = field ''called_block_number'' (JInt 0)\<rparr>) new_pools"

definition collect_pool_prices :: "ext \<Rightarrow> string list \<Rightarrow> (string \<times> jdict) list \<Rightarrow> log list \<Rightarrow> (string \<times> pool_price) list res" where
  "collect_pool_prices x topics exist_pools logs =
     rfold (\<lambda>m l.
       if lg_address l \<in> fst ` set exist_pools \<and> lg_topic0 l \<in> Some ` set topics
       then rbind (decode_logs x ''Swap'' l) (\<lambda>d. rbind (dict_get d ''sqrtPriceX96'') (\<lambda>p. rbind (dict_get d ''tick'') (\<lambda>t.
              Inr (AList.update (lg_address l) \<lparr>pp_block_number = int_or_0 (lg_block_number l),
                pp_log_index = lg_log_index l, pp_sqrtPriceX96 = p, pp_tick = t\<rparr> m))))
       else Inr m) [] logs"

definition newer_price :: "pool_price \<Rightarrow> pool_price \<Rightarrow> bool" where
  "newer_price p q \<longleftrightarrow>
     pp_block_number p > pp_block_number q \<or>
     (pp_block_number p = pp_block_number q \<and> pp_log_index p > pp_log_index q)"

definition update_price :: "string \<times> pool_price \<Rightarrow> (string \<times> pool_price) list \<Rightarrow> (string \<times> pool_price) list" where
  "update_price ap prices =
     (case map_of prices (fst ap) of
        None \<Rightarrow> AList.update (fst ap) (snd ap) prices
      | Some q \<Rightarrow> if newer_price (snd ap) q then AList.update (fst ap) (snd ap) prices else prices)"

definition update_pool_prices :: "(string \<times> pool_price) list \<Rightarrow> (string \<times> pool_price) list \<Rightarrow> (string \<times> pool_price) list" where
  "update_pool_prices new_pool_prices prices = fold update_price new_pool_prices prices"

text \<open>\<open>int(info["tick_spacing"])\<close>\<close>

definition pool_value :: "jdict \<Rightarrow> pool_price \<Rightarrow> json res" where
  "pool_value info p =
     rbind (dict_get info ''token0_address'') (\<lambda>t0. rbind (dict_get info ''token1_address'') (\<lambda>t1.
     rbind (get_int info ''tick_spacing'') (\<lambda>ts. rbind (dict_get info ''called_block_number'') (\<lambda>n.
       Inr (JDict [(''token0_address'', t0), (''token1_address'', t1), (''tick_spacing'', JInt ts), (''called_block_number'', n),
         (''sqrtPriceX96'', json_of_abi (pp_sqrtPriceX96 p)), (''tick'', json_of_abi (pp_tick p)),
         (''block_number'', JInt (pp_block_number p))])))))"

definition format_value_records :: "(string \<times> jdict) list \<Rightarrow> (string \<times> pool_price) list \<Rightarrow> int \<Rightarrow> feature_record list res" where
  "format_value_records exist_pools pool_prices feature_id =
     rbind (rmap (\<lambda>(a, p). case map_of exist_pools a of
          None \<Rightarrow> Inr []
        | Some info \<Rightarrow> rbind (pool_value info p) (\<lambda>v. Inr [\<lparr>fr_feature_id = feature_id,
            fr_block_number = pp_block_number p, fr_address = a, fr_value = v\<rparr>])) pool_prices)
       (\<lambda>rss. Inr (concat rss))"

definition collect_pool_batch :: "ext \<Rightarrow> uni_config \<Rightarrow> log list \<Rightarrow> ((uni_item, uni_state) world, unit) act" where
  "collect_pool_batch x c logs w =
     (case collect_pool_prices x [uc_pool_swap_topic0 c] (us_exist_pools (outside w)) logs of
        Inl e \<Rightarrow> (w, Inl e)
      | Inr prices \<Rightarrow>
          collect_all uni_item_type (rbind (format_value_records (us_exist_pools (outside w)) prices UNISWAP_V3_POOLS)
              (\<lambda>rs. Inr (map PoolValue rs)))
            (w\<lparr>outside := (outside w)\<lparr>us_pool_prices := update_pool_prices prices (us_pool_prices (outside w))\<rparr>\<rparr>))"

text \<open>\<open>_collect\<close>, for batches that the executor makes of the logs, one after another.\<close>

definition pools_collect :: "ext \<Rightarrow> node \<Rightarrow> bool \<Rightarrow> uni_config \<Rightarrow> (log list \<Rightarrow> log list list) \<Rightarrow> log list
    \<Rightarrow> ((uni_item, uni_state) world, unit) act" where
  "pools_collect x make_requests is_batch c batches logs w =
     (let exist = us_exist_pools (outside w); records = max_log_index_records logs
      in case update_exist_pools x make_requests is_batch c exist records of
           Inl e \<Rightarrow> (w, Inl e)
         | Inr need_add \<Rightarrow>
             sthen (sfor (collect_domain uni_item_type) (map PoolItem (format_pool_item need_add)))
               (sfor (collect_pool_batch x c) (batches records))
               (w\<lparr>outside := (outside w)\<lparr>us_exist_pools := fold (\<lambda>(k, v). AList.update k v) need_add exist\<rparr>\<rparr>))"

definition sort_pool_items :: "uniswap_v3_pool list \<Rightarrow> feature_record list \<Rightarrow> uniswap_v3_pool list \<times> feature_record list" where
  "sort_pool_items pools records =
     (sort_key (\<lambda>p. case uv_called_block_number p of JInt n \<Rightarrow> n | _ \<Rightarrow> 0) pools, sort_key fr_block_number records)"

definition sort_token_items :: "uniswap_v3_token list \<Rightarrow> feature_record list \<Rightarrow> uniswap_v3_token list \<times> feature_record list" where
  "sort_token_items tokens records =
     (sort_key (\<lambda>p. case ut_called_block_number p of JInt n \<Rightarrow> n | _ \<Rightarrow> 0) tokens, sort_key fr_block_number records)"

section \<open>Which positions are asked for\<close>

lemma pairs_of_iff:
  assumes "distinct (map fst d)"
  shows "(k, n) \<in> set (pairs_of d) \<longleftrightarrow> (\<exists>m. map_of d k = Some m \<and> n \<in> fst ` set m)"
  using map_of_entries_nth [OF assms] by (force simp: pairs_of_def)

lemma pairs_of_empty: "pairs_of [] = []"
  by (simp add: pairs_of_def)

lemma nested_set_distinct: "distinct (map fst d) \<Longrightarrow> distinct (map fst (nested_set k n v d))"
  unfolding nested_set_def by (rule distinct_upd)

lemma fst_set_upd: "fst ` set (AList.update k v d) = insert k (fst ` set d)"
proof -
  have "set (map fst (AList.update k v d)) = insert k (set (map fst d))" by (auto simp only: keys_upd split: if_splits) auto
  then show ?thesis by simp
qed

lemma pairs_of_nested_set:
  assumes "distinct (map fst d)"
  shows "set (pairs_of (nested_set k n v d)) = insert (k, n) (set (pairs_of d))"
proof -
  have "(i, j) \<in> set (pairs_of (nested_set k n v d)) \<longleftrightarrow> (i, j) = (k, n) \<or> (i, j) \<in> set (pairs_of d)" for i j
    unfolding pairs_of_iff [OF assms] pairs_of_iff [OF nested_set_distinct [OF assms]]
    by (cases "map_of d k") (auto simp: nested_set_def map_of_upd fst_set_upd)
  then show ?thesis by auto
qed

definition transfer_block :: "transfer_fields \<times> int \<Rightarrow> int" where
  "transfer_block ti = int_or_0 (tf_block_number (fst ti))"

definition burns :: "int \<Rightarrow> transfer_fields \<times> int \<Rightarrow> bool" where
  "burns i ti \<longleftrightarrow> snd ti = i \<and> tf_to_address (fst ti) = ZERO_ADDRESS"

lemma note_transfer_all:
  assumes "distinct (map fst (all_tokens c))"
  shows "distinct (map fst (all_tokens (note_transfer ti c))) \<and>
    set (pairs_of (all_tokens (note_transfer ti c))) = insert (snd ti, transfer_block ti) (set (pairs_of (all_tokens c)))"
  using assms
  by (cases ti) (auto simp: note_transfer_def Let_def nested_set_distinct pairs_of_nested_set transfer_block_def)

lemma note_transfer_burn:
  "map_of (burn_tokens (note_transfer ti c)) i =
     (if burns i ti then Some (transfer_block ti) else map_of (burn_tokens c) i)"
  by (cases ti) (auto simp: note_transfer_def Let_def burns_def transfer_block_def map_of_upd)

lemma fold_transfers_all:
  "distinct (map fst (all_tokens c)) \<Longrightarrow>
   distinct (map fst (all_tokens (fold note_transfer us c))) \<and>
   set (pairs_of (all_tokens (fold note_transfer us c))) =
     (\<lambda>ti. (snd ti, transfer_block ti)) ` set us \<union> set (pairs_of (all_tokens c))"
proof (induction us arbitrary: c)
  case (Cons u us)
  from note_transfer_all [OF Cons.prems, of u] Cons.IH [of "note_transfer u c"] show ?case by auto
qed simp

lemma fold_transfers_burn:
  "map_of (burn_tokens (fold note_transfer us c)) i =
     (if filter (burns i) us = [] then map_of (burn_tokens c) i else Some (transfer_block (last (filter (burns i) us))))"
  by (induction us arbitrary: c) (simp_all add: note_transfer_burn)

lemma changed_tokens_burn:
  "map_of (burn_tokens (extract_changed_tokens ts nft)) i = Some b \<Longrightarrow>
     b \<in> transfer_block ` {ti \<in> set ts. tf_token_address (fst ti) = nft \<and> burns i ti} \<and>
     (\<forall>ti \<in> set ts. tf_token_address (fst ti) = nft \<and> burns i ti \<longrightarrow> transfer_block ti \<le> b)"
  and changed_tokens_no_burn:
  "map_of (burn_tokens (extract_changed_tokens ts nft)) i = None \<Longrightarrow>
     \<forall>ti \<in> set ts. tf_token_address (fst ti) = nft \<longrightarrow> \<not> burns i ti"
proof -
  let ?key = "\<lambda>(t, _ :: int). (int_or_0 (tf_block_number t), tf_log_index t)"
  let ?us = "filter (\<lambda>(t, _). tf_token_address t = nft) (sort_key ?key ts)"
  let ?bs = "filter (burns i) ?us"
  have e: "map_of (burn_tokens (extract_changed_tokens ts nft)) i =
      (if ?bs = [] then None else Some (transfer_block (last ?bs)))"
    by (simp add: extract_changed_tokens_def fold_transfers_burn)
  have mem: "ti \<in> set ?bs \<longleftrightarrow> ti \<in> set ts \<and> tf_token_address (fst ti) = nft \<and> burns i ti" for ti
    by (auto simp: case_prod_beta)
  have "sorted (map ?key ?bs)" by (intro sorted_filter) simp
  then have le: "transfer_block ti \<le> transfer_block (last ?bs)" if "ti \<in> set ?bs" for ti
    using sorted_last [OF _ that, of ?key] by (auto simp: less_eq_prod_def transfer_block_def case_prod_beta)
  show "b \<in> transfer_block ` {ti \<in> set ts. tf_token_address (fst ti) = nft \<and> burns i ti} \<and>
     (\<forall>ti \<in> set ts. tf_token_address (fst ti) = nft \<and> burns i ti \<longrightarrow> transfer_block ti \<le> b)"
    if "map_of (burn_tokens (extract_changed_tokens ts nft)) i = Some b"
  proof -
    from that e have ne: "?bs \<noteq> []" and b: "b = transfer_block (last ?bs)" by (simp_all split: if_split_asm)
    from ne have "last ?bs \<in> set ?bs" by (rule last_in_set)
    with mem [of "last ?bs"] b have "b \<in> transfer_block ` {ti \<in> set ts. tf_token_address (fst ti) = nft \<and> burns i ti}"
      by blast
    moreover have "\<forall>ti \<in> set ts. tf_token_address (fst ti) = nft \<and> burns i ti \<longrightarrow> transfer_block ti \<le> b"
      unfolding b using le mem by blast
    ultimately show ?thesis ..
  qed
  show "\<forall>ti \<in> set ts. tf_token_address (fst ti) = nft \<longrightarrow> \<not> burns i ti"
    if "map_of (burn_tokens (extract_changed_tokens ts nft)) i = None"
  proof -
    from that e have "?bs = []" by (metis option.distinct(1))
    with mem show ?thesis by (metis list.set(1) empty_iff)
  qed
qed

lemma still_there_iff:
  "still_there (burn_tokens (extract_changed_tokens ts nft)) (i, n) \<longleftrightarrow>
     (\<forall>ti \<in> set ts. tf_token_address (fst ti) = nft \<and> burns i ti \<longrightarrow> transfer_block ti < n)"
proof (cases "map_of (burn_tokens (extract_changed_tokens ts nft)) i")
  case None
  with changed_tokens_no_burn [OF None] show ?thesis by (auto simp: still_there_def)
next
  case (Some b)
  define P where "P ti \<longleftrightarrow> tf_token_address (fst ti) = nft \<and> burns i ti" for ti
  from changed_tokens_burn [OF Some] have "\<exists>ti \<in> set ts. P ti \<and> transfer_block ti = b"
    and "\<forall>ti \<in> set ts. P ti \<longrightarrow> transfer_block ti \<le> b" unfolding P_def by auto
  then have "b < n \<longleftrightarrow> (\<forall>ti \<in> set ts. P ti \<longrightarrow> transfer_block ti < n)" by force
  then show ?thesis by (simp only: still_there_def Some fst_conv snd_conv option.case P_def)
qed

lemma liquidity_pairs:
  assumes "extract_liquidity_logs x topics logs nft = Inr d"
  shows "distinct (map fst d) \<and> set (pairs_of d) = {(i, n). \<exists>l \<in> set logs. lg_address l = nft \<and>
    liquidity_token x topics l = Inr (Some i) \<and> int_or_0 (lg_block_number l) = n}"
proof -
  define f where "f = (\<lambda>(d :: (int \<times> (int \<times> string option) list) list) l. if lg_address l \<noteq> nft then Inr d
       else rbind (liquidity_token x topics l) (\<lambda>t.
              case t of None \<Rightarrow> Inr d
              | Some i \<Rightarrow> Inr (nested_set i (int_or_0 (lg_block_number l)) (lg_topic0 l) d)))"
  let ?P = "\<lambda>ls. {(i, n). \<exists>l \<in> set ls. lg_address l = nft \<and>
    liquidity_token x topics l = Inr (Some i) \<and> int_or_0 (lg_block_number l) = n}"
  have "distinct (map fst d) \<and> set (pairs_of d) = set (pairs_of d0) \<union> ?P ls"
    if "rfold f d0 ls = Inr d" "distinct (map fst d0)" for d0 ls
    using that
  proof (induction ls arbitrary: d0)
    case (Cons l ls)
    from Cons.prems(1) obtain d1 where f: "f d0 l = Inr d1" and rest: "rfold f d1 ls = Inr d"
      by (auto simp: rbind_Inr_iff)
    have d1: "distinct (map fst d1) \<and> set (pairs_of d1) = set (pairs_of d0) \<union> ?P [l]"
    proof (cases "lg_address l = nft")
      case True
      with f obtain t where t: "liquidity_token x topics l = Inr t"
        and "d1 = (case t of None \<Rightarrow> d0
          | Some i \<Rightarrow> nested_set i (int_or_0 (lg_block_number l)) (lg_topic0 l) d0)"
        by (auto simp: f_def rbind_Inr_iff split: option.splits)
      with True Cons.prems(2) show ?thesis by (cases t) (simp_all add: nested_set_distinct pairs_of_nested_set)
    qed (use f Cons.prems(2) in \<open>simp_all add: f_def\<close>)
    with Cons.IH [OF rest] show ?case by auto
  qed simp
  from this [of "[]" logs] assms show ?thesis
    by (simp add: extract_liquidity_logs_def f_def pairs_of_def)
qed

text \<open>C24: a token is asked for at a block exactly if a transfer of it or a liquidity log of it is in the
  block and all its burns are in earlier blocks, and it is asked for there once.\<close>

theorem needed_positions:
  assumes "extract_liquidity_logs x topics logs nft = Inr records"
  shows "\<exists>need. distinct need \<and>
    fst (gather_collect_infos (all_tokens (extract_changed_tokens ts nft)) records
      (burn_tokens (extract_changed_tokens ts nft)) exist) =
        map (\<lambda>(i, n). [(''token_id'', JInt i), (''block_number'', JInt n)]) need \<and>
    (\<forall>i n. (i, n) \<in> set need \<longleftrightarrow>
       ((\<exists>ti \<in> set ts. tf_token_address (fst ti) = nft \<and> snd ti = i \<and> transfer_block ti = n) \<or>
        (\<exists>l \<in> set logs. lg_address l = nft \<and> liquidity_token x topics l = Inr (Some i) \<and>
           int_or_0 (lg_block_number l) = n)) \<and>
       (\<forall>ti \<in> set ts. tf_token_address (fst ti) = nft \<and> burns i ti \<longrightarrow> transfer_block ti < n))"
proof -
  let ?c = "extract_changed_tokens ts nft"
  let ?need = "filter (still_there (burn_tokens ?c)) (remdups (pairs_of (all_tokens ?c) @ pairs_of records))"
  have all: "set (pairs_of (all_tokens ?c)) =
      (\<lambda>ti. (snd ti, transfer_block ti)) ` {ti \<in> set ts. tf_token_address (fst ti) = nft}"
    by (auto simp: extract_changed_tokens_def fold_transfers_all pairs_of_empty image_iff)
  have "(i, n) \<in> set ?need \<longleftrightarrow>
       ((\<exists>ti \<in> set ts. tf_token_address (fst ti) = nft \<and> snd ti = i \<and> transfer_block ti = n) \<or>
        (\<exists>l \<in> set logs. lg_address l = nft \<and> liquidity_token x topics l = Inr (Some i) \<and>
           int_or_0 (lg_block_number l) = n)) \<and>
       (\<forall>ti \<in> set ts. tf_token_address (fst ti) = nft \<and> burns i ti \<longrightarrow> transfer_block ti < n)" for i n
    using conjunct2 [OF liquidity_pairs [OF assms]] by (auto simp: still_there_iff all)
  then show ?thesis by (intro exI [of _ ?need]) (simp add: gather_collect_infos_def Let_def)
qed

text \<open>A token that was moved in block 5 and burned in block 7, and one with liquidity added in block 6.\<close>

definition sample_nft_transfer :: "int \<Rightarrow> string \<Rightarrow> transfer_fields \<times> int" where
  "sample_nft_transfer n to_address =
     (\<lparr>tf_transaction_hash = ''0xt'', tf_log_index = 0, tf_from_address = ''0xa'', tf_to_address = to_address,
       tf_token_address = ''0xn'', tf_block_number = Some n, tf_block_hash = None, tf_block_timestamp = None\<rparr>, 1)"

definition sample_liquidity_log :: log where
  "sample_liquidity_log = sample_log\<lparr>lg_address := ''0xn'', lg_topic0 := Some ''0xl'', lg_topic1 := Some ''0x2'',
     lg_block_number := Some 6\<rparr>"

theorem needed_positions_witness:
  "\<exists>need. set need = {(2, 6)} \<and>
    fst (gather_collect_infos
      (all_tokens (extract_changed_tokens [sample_nft_transfer 5 ''0xb'', sample_nft_transfer 7 ZERO_ADDRESS] ''0xn''))
      [(2, [(6, Some ''0xl'')])]
      (burn_tokens (extract_changed_tokens [sample_nft_transfer 5 ''0xb'', sample_nft_transfer 7 ZERO_ADDRESS] ''0xn'')) []) =
      map (\<lambda>(i, n). [(''token_id'', JInt i), (''block_number'', JInt n)]) need"
proof -
  have "extract_liquidity_logs sample_ext [(''0xl'', 1)] [sample_liquidity_log] ''0xn'' = Inr [(2, [(6, Some ''0xl'')])]"
    by (simp add: extract_liquidity_logs_def liquidity_token_def nested_set_def sample_liquidity_log_def int_or_0_def
        hex_value_def)
  note all = needed_positions [OF this, of "[sample_nft_transfer 5 ''0xb'', sample_nft_transfer 7 ZERO_ADDRESS]" "[]"]
  have log: "lg_address sample_liquidity_log = ''0xn''" "int_or_0 (lg_block_number sample_liquidity_log) = 6"
    "liquidity_token sample_ext [(''0xl'', 1)] sample_liquidity_log = Inr (Some i) \<longleftrightarrow> i = 2" for i
    by (auto simp: sample_liquidity_log_def liquidity_token_def int_or_0_def hex_value_def)
  have transfer: "tf_token_address (fst (sample_nft_transfer n a)) = ''0xn''" "snd (sample_nft_transfer n a) = 1"
    "transfer_block (sample_nft_transfer n a) = n" "burns i (sample_nft_transfer n a) \<longleftrightarrow> i = 1 \<and> a = ZERO_ADDRESS" for i n a
    by (auto simp: sample_nft_transfer_def transfer_block_def int_or_0_def burns_def)
  have "length ''0xb'' \<noteq> length ZERO_ADDRESS" by (simp add: ZERO_ADDRESS_def)
  then have "''0xb'' \<noteq> ZERO_ADDRESS" by metis
  note eval = log transfer this
  have "((i = 1 \<and> (n = 5 \<or> n = 7)) \<or> (i = 2 \<and> n = 6)) \<and> (i = 1 \<longrightarrow> 7 < n) \<longleftrightarrow> i = 2 \<and> n = 6" for i n :: int by auto
  with all show ?thesis by (elim ex_forward) (simp add: eval set_eq_iff, blast?)
qed

text \<open>After a restart, no token is known: each one is described and its pool asked for again.\<close>

lemma keys_upd_all: "(\<forall>k \<in> fst ` set (AList.update j v d). P k) \<longleftrightarrow> P j \<and> (\<forall>k \<in> fst ` set d. P k)"
  by (simp only: fst_set_upd ball_simps)

lemma exist_token_ids_tuples: "k \<in> fst ` set (get_exist_token_ids rows nft) \<Longrightarrow> \<exists>i. k = TupleKey i"
proof -
  have "(\<forall>k \<in> fst ` set d. \<exists>i. k = TupleKey i) \<Longrightarrow>
      \<forall>k \<in> fst ` set (fold (\<lambda>r d. case tr_pool_address r of None \<Rightarrow> d
        | Some p \<Rightarrow> AList.update (TupleKey (tr_token_id r)) p d) rs d). \<exists>i. k = TupleKey i" for rs d
  proof (induction rs arbitrary: d)
    case (Cons r rs)
    show ?case by (simp only: fold_simps, rule Cons.IH)
      (use Cons.prems in \<open>simp only: keys_upd_all split: option.split, blast\<close>)
  qed simp
  from this [of "[]" "filter (\<lambda>r. tr_nft_address r = nft) rows"]
  have "\<forall>k \<in> fst ` set (get_exist_token_ids rows nft). \<exists>i. k = TupleKey i" by (simp add: get_exist_token_ids_def)
  then show "k \<in> fst ` set (get_exist_token_ids rows nft) \<Longrightarrow> \<exists>i. k = TupleKey i" by blast
qed

lemma known_positions_asked_again:
  "map (\<lambda>(i, n). [(''token_id'', JInt i), (''block_number'', JInt n)])
     (snd (gather_collect_infos ts records burnt (get_exist_token_ids rows nft))) =
   fst (gather_collect_infos ts records burnt (get_exist_token_ids rows nft))"
proof -
  have "IdKey i \<notin> fst ` set (get_exist_token_ids rows nft)" for i
    using exist_token_ids_tuples by blast
  then show ?thesis by (simp add: gather_collect_infos_def Let_def case_prod_beta)
qed

section \<open>The records of owners\<close>

definition records_at :: "(string \<times> (int \<times> json list) list) list \<Rightarrow> string \<Rightarrow> int \<Rightarrow> json list" where
  "records_at d a n = (case map_of d a of None \<Rightarrow> [] | Some m \<Rightarrow> (case map_of m n of None \<Rightarrow> [] | Some vs \<Rightarrow> vs))"

definition nested_ok :: "(string \<times> (int \<times> json list) list) list \<Rightarrow> bool" where
  "nested_ok d \<longleftrightarrow> distinct (map fst d) \<and>
     (\<forall>m \<in> snd ` set d. distinct (map fst m) \<and> [] \<notin> snd ` set m)"

lemma nested_ok_lookup: "nested_ok d \<Longrightarrow> map_of d a = Some m \<Longrightarrow> distinct (map fst m) \<and> [] \<notin> snd ` set m"
  unfolding nested_ok_def by (metis map_of_SomeD image_eqI snd_conv)

lemma set_upd_subset: "set (AList.update k v d) \<subseteq> insert (k, v) (set d)"
  by (induction d) auto

lemma snd_upd: "snd ` set (AList.update k v d) \<subseteq> insert v (snd ` set d)"
  using set_upd_subset [of k v d] by force

lemma dict_append_nonempty:
  assumes "[] \<notin> snd ` set m"
  shows "[] \<notin> snd ` set (dict_append n v m)"
proof
  let ?us = "(case map_of m n of None \<Rightarrow> [] | Some xs \<Rightarrow> xs) @ [v]"
  assume "[] \<in> snd ` set (dict_append n v m)"
  then have "[] \<in> insert ?us (snd ` set m)" unfolding dict_append_def using snd_upd by (rule rev_subsetD)
  with assms show False by simp
qed

lemma nested_append_ok:
  assumes ok: "nested_ok d"
  shows "nested_ok (nested_append anv d)"
proof -
  obtain a n v where anv: "anv = (a, n, v)" by (cases anv)
  define m where "m = (case map_of d a of None \<Rightarrow> [] | Some m \<Rightarrow> m)"
  have "distinct (map fst m)" "[] \<notin> snd ` set m"
    using nested_ok_lookup [OF ok, of a] by (cases "map_of d a"; simp add: m_def)+
  then have new: "distinct (map fst (dict_append n v m)) \<and> [] \<notin> snd ` set (dict_append n v m)"
    by (simp add: distinct_dict_append dict_append_nonempty)
  have app: "nested_append anv d = AList.update a (dict_append n v m) d" by (simp add: anv nested_append_def m_def)
  have "distinct (map fst (nested_append anv d))" using ok by (simp add: app nested_ok_def distinct_upd)
  moreover have "distinct (map fst m') \<and> [] \<notin> snd ` set m'" if "m' \<in> snd ` set (nested_append anv d)" for m'
  proof -
    from that have "m' \<in> insert (dict_append n v m) (snd ` set d)" unfolding app using snd_upd by (rule rev_subsetD)
    with new ok show ?thesis unfolding nested_ok_def by blast
  qed
  ultimately show ?thesis unfolding nested_ok_def by blast
qed

lemma records_at_append:
  "records_at (nested_append (a, n, v) d) b j =
     records_at d b j @ (if b = a \<and> j = n then [v] else [])"
  by (auto simp: records_at_def nested_append_def map_of_upd map_of_dict_append split: option.splits)

lemma fold_nested_append:
  "nested_ok d \<Longrightarrow> nested_ok (fold nested_append vs d) \<and>
   records_at (fold nested_append vs d) a n =
     records_at d a n @ map (snd \<circ> snd) (filter (\<lambda>(b, j, _). b = a \<and> j = n) vs)"
proof (induction vs arbitrary: d)
  case (Cons w vs)
  obtain b j v where "w = (b, j, v)" by (cases w)
  with Cons.IH [OF nested_append_ok [OF Cons.prems, of w]] show ?case by (auto simp: records_at_append)
qed simp

lemma nested_members:
  assumes "nested_ok d"
  shows "(a, m) \<in> set d \<and> (n, vs) \<in> set m \<longleftrightarrow> map_of d a = Some m \<and> vs \<noteq> [] \<and> records_at d a n = vs"
proof -
  have outer: "(a, m) \<in> set d \<longleftrightarrow> map_of d a = Some m"
    using assms by (intro map_of_entries_nth) (simp add: nested_ok_def)
  show ?thesis
  proof (cases "map_of d a = Some m")
    case True
    note ok = nested_ok_lookup [OF assms True]
    then have inner: "(n, vs) \<in> set m \<longleftrightarrow> map_of m n = Some vs" by (intro map_of_entries_nth) simp
    have "map_of m n = Some us \<Longrightarrow> us \<noteq> []" for us using ok by (metis map_of_SomeD image_eqI snd_conv)
    then show ?thesis using True by (auto simp: outer inner records_at_def split: option.splits)
  qed (simp add: outer)
qed

definition nested_entries :: "(string \<times> (int \<times> json list) list) list \<Rightarrow> (string \<times> int \<times> json list) list" where
  "nested_entries d = concat (map (\<lambda>(a, m). map (\<lambda>(n, us). (a, n, us)) m) d)"

lemma nested_entries_set:
  assumes "nested_ok d"
  shows "(a, n, us) \<in> set (nested_entries d) \<longleftrightarrow> us \<noteq> [] \<and> records_at d a n = us"
proof -
  have "(a, n, us) \<in> set (nested_entries d) \<longleftrightarrow> (\<exists>m. (a, m) \<in> set d \<and> (n, us) \<in> set m)"
    by (force simp: nested_entries_def)
  also have "\<dots> \<longleftrightarrow> us \<noteq> [] \<and> records_at d a n = us"
    unfolding nested_members [OF assms] by (auto simp: records_at_def split: option.splits)
  finally show ?thesis .
qed

lemma nested_entries_distinct:
  "nested_ok d \<Longrightarrow> distinct (map (\<lambda>(a, n, us). (a, n)) (nested_entries d))"
proof (induction d)
  case (Cons am d)
  obtain a m where am: "am = (a, m)" by (cases am)
  from Cons.prems have ok: "nested_ok d" and new: "a \<notin> fst ` set d" and "distinct (map fst m)"
    by (simp_all add: nested_ok_def am)
  then have "distinct (map (\<lambda>(n, us). (a, n)) m)" by (force simp: distinct_map inj_on_def)
  moreover have "map (\<lambda>(a, n, us). (a, n)) (nested_entries (am # d)) =
      map (\<lambda>(n, us). (a, n)) m @ map (\<lambda>(a, n, us). (a, n)) (nested_entries d)"
    by (simp add: nested_entries_def am case_prod_unfold comp_def)
  moreover have "b \<in> fst ` set d" if "(b, n) \<in> set (map (\<lambda>(a, n, us). (a, n)) (nested_entries d))" for b n
    using that by (force simp: nested_entries_def)
  ultimately show ?case using Cons.IH [OF ok] new by (auto simp del: set_map) force
qed (simp add: nested_entries_def)

text \<open>C29: there is one record for each owner and block of a position, with the values of all its positions
  there in the order in which they were read.\<close>

theorem token_records_grouped:
  assumes "parse_token_records token_pool_dict owner_dict infos feature_id = Inr rs"
  shows "\<exists>vs. rmap (located_value token_pool_dict owner_dict) infos = Inr vs \<and>
    distinct (map (\<lambda>r. (fr_address r, fr_block_number r)) rs) \<and>
    (\<forall>a n us. \<lparr>fr_feature_id = feature_id, fr_block_number = n, fr_address = a, fr_value = JList us\<rparr> \<in> set rs \<longleftrightarrow>
       us \<noteq> [] \<and> us = map (snd \<circ> snd) (filter (\<lambda>(b, j, _). b = a \<and> j = n) vs))"
proof -
  let ?r = "\<lambda>(a, n, us). \<lparr>fr_feature_id = feature_id, fr_block_number = n, fr_address = a, fr_value = JList us\<rparr>"
  from assms obtain vs where vs: "rmap (located_value token_pool_dict owner_dict) infos = Inr vs"
    and "rs = [\<lparr>fr_feature_id = feature_id, fr_block_number = n, fr_address = a, fr_value = JList data\<rparr>.
            (a, blocks) \<leftarrow> fold nested_append vs [], (n, data) \<leftarrow> blocks]"
    by (auto simp: parse_token_records_def rbind_Inr_iff)
  then have rs: "rs = map ?r (nested_entries (fold nested_append vs []))"
    by (simp add: nested_entries_def map_concat case_prod_unfold comp_def)
  let ?d = "fold nested_append vs []"
  have "nested_ok []" by (simp add: nested_ok_def)
  from fold_nested_append [OF this] have ok: "nested_ok ?d"
    and at: "records_at ?d a n = map (snd \<circ> snd) (filter (\<lambda>(b, j, _). b = a \<and> j = n) vs)" for a n
    by (simp_all add: records_at_def)
  have "map (\<lambda>r. (fr_address r, fr_block_number r)) rs = map (\<lambda>(a, n, us). (a, n)) (nested_entries ?d)"
    by (simp add: rs case_prod_unfold)
  then have "distinct (map (\<lambda>r. (fr_address r, fr_block_number r)) rs)" by (simp only: nested_entries_distinct [OF ok])
  moreover have "\<lparr>fr_feature_id = feature_id, fr_block_number = n, fr_address = a, fr_value = JList us\<rparr> \<in> set rs \<longleftrightarrow>
      us \<noteq> [] \<and> us = map (snd \<circ> snd) (filter (\<lambda>(b, j, _). b = a \<and> j = n) vs)" for a n us
  proof -
    have "?r (a, n, us) \<in> set rs \<longleftrightarrow> (a, n, us) \<in> set (nested_entries ?d)"
      unfolding rs set_map by (rule inj_image_mem_iff) (auto simp: inj_def)
    also have "\<dots> \<longleftrightarrow> us \<noteq> [] \<and> us = map (snd \<circ> snd) (filter (\<lambda>(b, j, _). b = a \<and> j = n) vs)"
      unfolding nested_entries_set [OF ok] at by (rule conj_cong [OF refl eq_commute])
    finally show ?thesis by simp
  qed
  ultimately show ?thesis using vs by blast
qed

definition sample_position :: "int \<Rightarrow> jdict" where
  "sample_position n = [(''token_id'', JInt 1), (''block_number'', JInt n), (''tickLower'', JInt 0), (''tickUpper'', JInt 1),
     (''fee'', JInt 5), (''liquidity'', JInt 9), (''token0'', JStr ''0xa''), (''token1'', JStr ''0xb'')]"

theorem token_records_grouped_witness:
  "\<exists>rs vs. parse_token_records [(IdKey 1, ''0xp'')] [(1, [(4, ''0xo'')])] [sample_position 4, sample_position 4] 2 = Inr rs \<and>
    \<lparr>fr_feature_id = 2, fr_block_number = 4, fr_address = ''0xo'', fr_value = JList vs\<rparr> \<in> set rs \<and> length vs = 2"
proof -
  let ?v = "JDict [(''token_id'', JInt 1), (''tick_lower'', JInt 0), (''tick_upper'', JInt 1), (''fee'', JInt 5),
     (''liquidity'', JInt 9), (''token0'', JStr ''0xa''), (''token1'', JStr ''0xb''), (''block_number'', JInt 4),
     (''pool_address'', JStr ''0xp'')]"
  have l: "located_value [(IdKey 1, ''0xp'')] [(1, [(4, ''0xo'')])] (sample_position 4) = Inr (''0xo'', 4, ?v)"
    by (simp add: located_value_def sample_position_def owner_at_def token_value_def get_int_def dict_get_def)
  then obtain rs where rs: "parse_token_records [(IdKey 1, ''0xp'')] [(1, [(4, ''0xo'')])] [sample_position 4, sample_position 4] 2
      = Inr rs" by (simp add: parse_token_records_def)
  from token_records_grouped [OF rs] l
  have "\<lparr>fr_feature_id = 2, fr_block_number = 4, fr_address = ''0xo'', fr_value = JList [?v, ?v]\<rparr> \<in> set rs" by auto
  with rs show ?thesis by (intro exI [of _ rs] exI [of _ "[?v, ?v]"]) simp
qed

section \<open>Prices and creations of pools\<close>

text \<open>Prices are compared by their block and the index of their log.\<close>

definition price_key :: "pool_price \<Rightarrow> int \<times> int" where
  "price_key p = (pp_block_number p, pp_log_index p)"

lemma newer_price_iff: "newer_price p q \<longleftrightarrow> price_key q < price_key p"
  by (auto simp: newer_price_def price_key_def less_prod_def)

lemma update_price_lookup:
  "map_of (update_price (b, q) prices) a =
     (if a = b then Some (case map_of prices b of None \<Rightarrow> q | Some p \<Rightarrow> if newer_price q p then q else p)
      else map_of prices a)"
  by (simp add: update_price_def map_of_upd split: option.splits)

text \<open>After a batch, and so after any batches in any order, the price kept for a pool is one that was
  kept before or came with the batch, and none of these is of a later block, or of the same block and a later log.\<close>

lemma pool_prices_latest:
  "(map_of (update_pool_prices ns prices) a = Some p \<longrightarrow> (a, p) \<in> set ns \<or> map_of prices a = Some p) \<and>
   (\<forall>q. (a, q) \<in> set ns \<or> map_of prices a = Some q \<longrightarrow>
      (\<exists>p. map_of (update_pool_prices ns prices) a = Some p \<and> price_key q \<le> price_key p))"
proof (induction ns arbitrary: prices)
  case Nil
  then show ?case by (auto simp: update_pool_prices_def)
next
  case (Cons bq ns)
  obtain b q where bq: "bq = (b, q)" by (cases bq)
  let ?prices = "update_price (b, q) prices"
  have step: "update_pool_prices ((b, q) # ns) prices = update_pool_prices ns ?prices"
    by (simp add: update_pool_prices_def)
  have new: "\<exists>p. map_of ?prices a = Some p \<and> price_key r \<le> price_key p"
    if "(a, r) = (b, q) \<or> map_of prices a = Some r" for r
    using that by (auto simp: update_price_lookup newer_price_iff split: option.split)
  have old: "map_of ?prices a = Some p \<Longrightarrow> (a, p) = (b, q) \<or> map_of prices a = Some p"
    by (auto simp: update_price_lookup split: if_split_asm option.splits)
  note ih = Cons.IH [of ?prices]
  show ?case unfolding bq step
  proof (intro conjI impI allI)
    assume "map_of (update_pool_prices ns ?prices) a = Some p"
    with ih old show "(a, p) \<in> set ((b, q) # ns) \<or> map_of prices a = Some p" by auto
  next
    fix r
    assume "(a, r) \<in> set ((b, q) # ns) \<or> map_of prices a = Some r"
    then consider "(a, r) \<in> set ns" | "(a, r) = (b, q) \<or> map_of prices a = Some r" by auto
    then show "\<exists>p. map_of (update_pool_prices ns ?prices) a = Some p \<and> price_key r \<le> price_key p"
    proof cases
      case 1
      with ih show ?thesis by blast
    next
      case 2
      with new obtain p where "map_of ?prices a = Some p" "price_key r \<le> price_key p" by blast
      with ih show ?thesis by (meson order_trans)
    qed
  qed
qed

text \<open>Of the logs of one address and topic in one block only one is looked at, which comes last in the
  block: of several pools created in a block, only the last one is.\<close>

lemma max_on_spec: "max_on f y ys \<in> set (y # ys) \<and> (\<forall>z \<in> set (y # ys). f z \<le> f (max_on f y ys))"
proof (induction ys arbitrary: y)
  case (Cons z ys)
  show ?case
    using Cons.IH [of "if f y < f z then z else y"] by (fastforce simp: max_on_def)
qed (simp add: max_on_def)

definition log_group :: "log \<Rightarrow> string \<times> string option \<times> int option" where
  "log_group l = (lg_address l, lg_topic0 l, lg_block_number l)"

lemma one_log_per_block:
  "distinct (map log_group (max_log_index_records logs)) \<and> set (max_log_index_records logs) \<subseteq> set logs \<and>
   (\<forall>l \<in> set logs. \<exists>m \<in> set (max_log_index_records logs). log_group m = log_group l \<and> lg_log_index l \<le> lg_log_index m)"
proof -
  let ?g = "group_on log_group logs"
  let ?top = "\<lambda>(k, g). case g of y # ys \<Rightarrow> max_on lg_log_index y ys"
  have recs: "max_log_index_records logs = map ?top ?g"
    by (simp add: max_log_index_records_def log_group_def [abs_def])
  have top: "?top (k, g) \<in> set logs \<and> log_group (?top (k, g)) = k \<and>
      (\<forall>l \<in> set logs. log_group l = k \<longrightarrow> lg_log_index l \<le> lg_log_index (?top (k, g)))"
    if "(k, g) \<in> set ?g" for k g
  proof -
    from that have g: "g = filter (\<lambda>l. log_group l = k) logs" and "k \<in> log_group ` set logs"
      by (simp_all add: group_on_member)
    then have "g \<noteq> []" by (auto simp: filter_empty_conv)
    then obtain y ys where ys: "g = y # ys" by (cases g) auto
    have "l \<in> set (y # ys) \<longleftrightarrow> l \<in> set logs \<and> log_group l = k" for l using g ys by (metis (mono_tags) mem_Collect_eq set_filter)
    with max_on_spec [of lg_log_index y ys] show ?thesis unfolding ys prod.case list.case by blast
  qed
  have "map log_group (max_log_index_records logs) = map fst ?g"
    unfolding recs using top by (auto simp: comp_def)
  then have "distinct (map log_group (max_log_index_records logs))" by (simp only: group_on_distinct)
  moreover have "set (max_log_index_records logs) \<subseteq> set logs" unfolding recs using top by auto
  moreover have "\<exists>m \<in> set (max_log_index_records logs). log_group m = log_group l \<and> lg_log_index l \<le> lg_log_index m"
    if "l \<in> set logs" for l
  proof -
    have "(log_group l, filter (\<lambda>l'. log_group l' = log_group l) logs) \<in> set ?g" using that by (simp add: group_on_member)
    with top [OF this] that show ?thesis unfolding recs by force
  qed
  ultimately show ?thesis by blast
qed

theorem pool_prices_latest_witness:
  "\<exists>p. map_of (update_pool_prices
      [(''0xp'', \<lparr>pp_block_number = 3, pp_log_index = 1, pp_sqrtPriceX96 = AUint 7, pp_tick = AUint 0\<rparr>)]
      [(''0xp'', \<lparr>pp_block_number = 2, pp_log_index = 9, pp_sqrtPriceX96 = AUint 8, pp_tick = AUint 0\<rparr>)]) ''0xp'' = Some p \<and>
    (3, 1) \<le> price_key p"
  using pool_prices_latest [of "[(''0xp'', \<lparr>pp_block_number = 3, pp_log_index = 1, pp_sqrtPriceX96 = AUint 7, pp_tick = AUint 0\<rparr>)]"
      "[(''0xp'', \<lparr>pp_block_number = 2, pp_log_index = 9, pp_sqrtPriceX96 = AUint 8, pp_tick = AUint 0\<rparr>)]" "''0xp''"]
  by (fastforce simp: price_key_def)

lemma one_log_per_block_example:
  "\<exists>m \<in> set (max_log_index_records [sample_log, sample_log\<lparr>lg_log_index := 5\<rparr>]). 5 \<le> lg_log_index m"
  using one_log_per_block [of "[sample_log, sample_log\<lparr>lg_log_index := 5\<rparr>]"] by fastforce

end
