(* ===== verification/WebUtils.thy ===== *)
theory WebUtils
  imports Abi
begin

text \<open>
  \<open>common/utils/web3_utils.py\<close>: the tree of calls of a transaction, rebuilt from its traces; the text of
  the types of an ABI (also \<open>solve_nested_components\<close> of \<open>api/app/utils/utils.py\<close>); decoded data as it is
  shown. The tree is made of dictionaries that are changed in place, and extending a list by
  \<open>[{}] * n\<close> puts the same dictionary at \<open>n\<close> places: the dictionaries are in a heap, a list
  of nodes, and an entry of \<open>calls\<close> is a position in it. A trace has no field \<open>calls\<close>.
\<close>

section \<open>Addresses of traces\<close>

definition strip_braces :: "string \<Rightarrow> string" where
  "strip_braces s =
     (let brace = \<lambda>c. c = CHR ''{'' \<or> c = CHR ''}'' in rev (dropWhile brace (rev (dropWhile brace s))))"

text \<open>The steps of an address are not negative.\<close>

definition parse_trace_address :: "string \<Rightarrow> nat list res" where
  "parse_trace_address trace_address =
     (if trace_address = ''{}'' then Inr []
      else rmap (\<lambda>s. rbind (parse_int s) (\<lambda>n. Inr (nat n))) (str_split CHR '','' (strip_braces trace_address)))"

section \<open>The tree of calls\<close>

record node =
  nd_fields :: jdict
  nd_calls :: "nat list option"

type_synonym heap = "node list"

definition new_node :: node where
  "new_node = \<lparr>nd_fields = [], nd_calls = None\<rparr>"

definition calls_of :: "heap \<Rightarrow> nat \<Rightarrow> nat list" where
  "calls_of h a = (case nd_calls (h ! a) of None \<Rightarrow> [] | Some cs \<Rightarrow> cs)"

text \<open>One step down, making room for the step: the new places all hold one new dictionary.\<close>

definition extend_calls :: "nat \<Rightarrow> nat \<Rightarrow> heap \<Rightarrow> heap" where
  "extend_calls step a h =
     (let cs = calls_of h a
      in if length cs \<le> step
         then h[a := (h ! a)\<lparr>nd_calls := Some (cs @ replicate (step + 1 - length cs) (length h))\<rparr>] @ [new_node]
         else h[a := (h ! a)\<lparr>nd_calls := Some cs\<rparr>])"

fun walk :: "heap \<Rightarrow> nat \<Rightarrow> nat list \<Rightarrow> heap \<times> nat" where
  "walk h a [] = (h, a)"
| "walk h a (step # path) = (let h' = extend_calls step a h in walk h' (calls_of h' a ! step) path)"

definition trace_fields :: "jdict \<Rightarrow> nat list \<Rightarrow> jdict \<Rightarrow> jdict" where
  "trace_fields trace path d =
     AList.update ''trace_address'' (JList (map (\<lambda>i. JInt (int i)) path))
       (fold (\<lambda>(k, v). AList.update k v) trace d)"

definition add_trace_to_tree :: "jdict \<Rightarrow> nat list \<Rightarrow> heap \<Rightarrow> heap" where
  "add_trace_to_tree trace path h =
     (case walk h 0 path of (h', a) \<Rightarrow> h'[a := (h' ! a)\<lparr>nd_fields := trace_fields trace path (nd_fields (h' ! a))\<rparr>])"

definition trace_tree :: "jdict list \<Rightarrow> heap res" where
  "trace_tree traces =
     rfold (\<lambda>h trace. rbind (get_str trace ''trace_address'') (\<lambda>s. rbind (parse_trace_address s) (\<lambda>path.
       Inr (add_trace_to_tree trace path h)))) [new_node] traces"

text \<open>Pruning, on a tree without shared nodes: a node whose only call is a delegate call gives way to it.\<close>

datatype call_tree = Call (call_fields: jdict) (sub_calls: "call_tree list")

fun unfold_heap :: "nat \<Rightarrow> heap \<Rightarrow> nat \<Rightarrow> call_tree" where
  "unfold_heap 0 h a = Call (nd_fields (h ! a)) []"
| "unfold_heap (Suc depth) h a = Call (nd_fields (h ! a)) (map (unfold_heap depth h) (calls_of h a))"

fun delegate_chain :: "call_tree \<Rightarrow> call_tree res" where
  "delegate_chain (Call f [c]) =
     rbind (dict_get (call_fields c) ''call_type'') (\<lambda>t.
       if t = JStr ''delegatecall'' then delegate_chain c else Inr (Call f [c]))"
| "delegate_chain t = Inr t"

lemma delegate_chain_size: "delegate_chain t = Inr u \<Longrightarrow> size u \<le> size t"
proof (induction t arbitrary: u rule: delegate_chain.induct)
  case (1 f c)
  then obtain t where "dict_get (call_fields c) ''call_type'' = Inr t"
    and "(if t = JStr ''delegatecall'' then delegate_chain c else Inr (Call f [c])) = Inr u" by (auto simp: rbind_Inr_iff)
  with 1 show ?case by (cases "t = JStr ''delegatecall''") fastforce+
qed simp_all

function prune_delegates :: "call_tree \<Rightarrow> call_tree res" where
  "prune_delegates t =
     rbind (delegate_chain t) (\<lambda>u. rbind (rmap prune_delegates (sub_calls u)) (\<lambda>cs. Inr (Call (call_fields u) cs)))"
  by auto
termination
proof (relation "measure size")
  fix t u c
  assume "delegate_chain t = Inr u" and "c \<in> set (sub_calls u)"
  then have "size c < size u" by (cases u) (simp add: less_Suc_eq_le size_list_estimation')
  with delegate_chain_size [OF \<open>delegate_chain t = Inr u\<close>] show "(c, t) \<in> measure size" by simp
qed simp

declare prune_delegates.simps [simp del]

definition get_debug_trace_transaction :: "jdict list \<Rightarrow> call_tree res" where
  "get_debug_trace_transaction traces =
     rbind (trace_tree traces) (\<lambda>h. prune_delegates (unfold_heap (length h) h 0))"

section \<open>Types of an ABI\<close>

datatype component = Component (comp_type: string) (comp_components: "component list option")

fun comma_join :: "string list \<Rightarrow> string" where
  "comma_join [] = ''''"
| "comma_join [s] = s"
| "comma_join (s # ss) = s @ '','' @ comma_join ss"

fun generate_type_str :: "component \<Rightarrow> string res" where
  "generate_type_str (Component ty cs) =
     (if ty = ''tuple[]'' \<or> ty = ''tuple''
      then case cs of
             None \<Rightarrow> Inl (KeyError ''components'')
           | Some cs \<Rightarrow> rbind (rmap generate_type_str cs) (\<lambda>ts.
               Inr (''('' @ comma_join ts @ (if ty = ''tuple[]'' then '')[]'' else '')'')))
      else Inr ty)"

text \<open>The pieces that \<open>solve_nested_components\<close> appends, put together.\<close>

fun array_suffix :: "string \<Rightarrow> string" where
  "array_suffix (CHR '']'' # CHR ''['' # s) = ''[]'' @ array_suffix s"
| "array_suffix s = ''''"

fun solve_nested_components :: "component \<Rightarrow> string" where
  "solve_nested_components (Component ty cs) =
     (case cs of
        Some (c # cs) \<Rightarrow> ''('' @ comma_join (map solve_nested_components (c # cs)) @ '')'' @ array_suffix (rev ty)
      | _ \<Rightarrow> ty)"

section \<open>Decoded data\<close>

datatype pyval = PyDict "(string \<times> pyval) list" | PySeq "pyval list" | PyBytes "byte list" | PyStr string
  | PyInt int | PyOther string

fun convert_bytes_to_hex :: "pyval \<Rightarrow> pyval" where
  "convert_bytes_to_hex (PyDict d) = PyDict (map (\<lambda>(k, v). (k, convert_bytes_to_hex v)) d)"
| "convert_bytes_to_hex (PySeq vs) = PySeq (map convert_bytes_to_hex vs)"
| "convert_bytes_to_hex (PyBytes b) = PyStr (bytes_hex b)"
| "convert_bytes_to_hex v = v"

definition entry_of :: "string \<Rightarrow> pyval \<Rightarrow> string \<Rightarrow> pyval" where
  "entry_of name v ty = PyDict [(''name'', PyStr name), (''value'', v), (''type'', PyStr ty)]"

fun entry_type :: "pyval \<Rightarrow> string" where
  "entry_type (PySeq _) = ''list''"
| "entry_type (PyDict _) = ''list''"
| "entry_type (PyStr _) = ''string''"
| "entry_type (PyInt _) = ''int''"
| "entry_type _ = ''unknown''"

text \<open>A value that is neither a dictionary nor a sequence stays as it is, also as the value of an entry.\<close>

fun convert_dict :: "pyval \<Rightarrow> pyval" where
  "convert_dict (PyDict d) = PySeq (map (\<lambda>(k, v). entry_of k (convert_dict v) (entry_type v)) d)"
| "convert_dict (PySeq vs) = PySeq (map convert_dict vs)"
| "convert_dict v = v"

text \<open>Decoding is web3's: \<open>decode_input\<close> and \<open>decode_output\<close> read the data of a call and of its result.\<close>

definition decode_function :: "(string \<Rightarrow> pyval res) \<Rightarrow> (byte list \<Rightarrow> pyval res) \<Rightarrow> string option \<Rightarrow> string option
    \<Rightarrow> (pyval \<times> pyval) res" where
  "decode_function decode_input decode_output data_str output_str =
     rbind (case data_str of None \<Rightarrow> Inr (PySeq [])
            | Some s \<Rightarrow> if s = [] then Inr (PySeq [])
                else rbind (decode_input s) (\<lambda>v. Inr (convert_dict (convert_bytes_to_hex v)))) (\<lambda>input.
     rbind (case output_str of None \<Rightarrow> Inr (PySeq [])
            | Some s \<Rightarrow> if s = [] then Inr (PySeq [])
                else rbind (bytes_fromhex s) (\<lambda>b. rbind (decode_output b) (\<lambda>v.
                  Inr (convert_dict (convert_bytes_to_hex v))))) (\<lambda>output.
     Inr (input, output)))"

text \<open>The second component of \<open>decode_log_data\<close>: each value encoded on its own.\<close>

definition encoded_values :: "ext \<Rightarrow> string list \<Rightarrow> abi_value list \<Rightarrow> string list res" where
  "encoded_values x types vs = rmap (\<lambda>(t, v). rbind (abi_encode x [t] [v]) (\<lambda>b. Inr (''0x'' @ bytes_hex b))) (zip types vs)"

datatype shown = ShownText string | ShownList "string list"

fun hex_of_bytes :: "abi_value \<Rightarrow> string res" where
  "hex_of_bytes (ABytes b) = Inr (''0x'' @ bytes_hex b)"
| "hex_of_bytes _ = Inl AttributeError"

definition shown_value :: "(abi_value \<Rightarrow> string) \<Rightarrow> string \<Rightarrow> abi_value \<Rightarrow> shown res" where
  "shown_value py_str t v =
     (if startswith t ''byte''
      then case v of
             AList vs \<Rightarrow> rbind (rmap hex_of_bytes vs) (\<lambda>hs. Inr (ShownList hs))
           | v \<Rightarrow> rbind (hex_of_bytes v) (\<lambda>h. Inr (ShownText h))
      else Inr (ShownText (py_str v)))"

definition decode_log_data :: "ext \<Rightarrow> (abi_value \<Rightarrow> string) \<Rightarrow> string list \<Rightarrow> string \<Rightarrow> (shown list \<times> string list) res" where
  "decode_log_data x py_str types data_str =
     rbind (bytes_fromhex data_str) (\<lambda>b.
     rbind (abi_decode x types b) (\<lambda>vs.
     rbind (encoded_values x types vs) (\<lambda>encoded_abi.
     rbind (rmap (\<lambda>(t, v). shown_value py_str t v) (zip types vs)) (\<lambda>decoded_abi_real.
       Inr (decoded_abi_real, encoded_abi)))))"

section \<open>Text\<close>

definition verify_0_address :: "string \<Rightarrow> bool" where
  "verify_0_address address \<longleftrightarrow> set (drop 2 address) = {CHR ''0''}"

definition is_hex_char :: "char \<Rightarrow> bool" where
  "is_hex_char c \<longleftrightarrow> (CHR ''a'' \<le> c \<and> c \<le> CHR ''f'') \<or> (CHR ''A'' \<le> c \<and> c \<le> CHR ''F'') \<or> (CHR ''0'' \<le> c \<and> c \<le> CHR ''9'')"

definition is_eth_transaction_hash :: "string \<Rightarrow> bool" where
  "is_eth_transaction_hash h \<longleftrightarrow> startswith h ''0x'' \<and> length h = 66 \<and> list_all is_hex_char (drop 2 h)"

definition http_transfer_uri :: "string \<Rightarrow> string option" where
  "http_transfer_uri uri =
     (if startswith uri ''ipfs'' then Some (''https://ipfs.io/ipfs/'' @ drop 7 uri)
      else if startswith uri ''http'' then Some uri else None)"

section \<open>Walking the tree\<close>

text \<open>The node an address leads to from a node.\<close>

fun node_at :: "heap \<Rightarrow> nat \<Rightarrow> nat list \<Rightarrow> nat option" where
  "node_at h a [] = Some a"
| "node_at h a (step # path) =
     (if step < length (calls_of h a) then node_at h (calls_of h a ! step) path else None)"

definition heap_ok :: "heap \<Rightarrow> bool" where
  "heap_ok h \<longleftrightarrow> h \<noteq> [] \<and> (\<forall>a < length h. \<forall>c \<in> set (calls_of h a). c < length h)"

definition unshared :: "heap \<Rightarrow> bool" where
  "unshared h \<longleftrightarrow> (\<forall>p q a. node_at h 0 p = Some a \<longrightarrow> node_at h 0 q = Some a \<longrightarrow> p = q)"

lemma node_at_append:
  "node_at h a (p @ q) = (case node_at h a p of None \<Rightarrow> None | Some b \<Rightarrow> node_at h b q)"
  by (induction p arbitrary: a) simp_all

lemma node_at_bound: "heap_ok h \<Longrightarrow> a < length h \<Longrightarrow> node_at h a p = Some b \<Longrightarrow> b < length h"
proof (induction p arbitrary: a)
  case (Cons s p)
  then have "s < length (calls_of h a)" and n: "node_at h (calls_of h a ! s) p = Some b" by (simp_all split: if_split_asm)
  then have "calls_of h a ! s < length h" using Cons.prems(1,2) unfolding heap_ok_def by (metis nth_mem)
  from Cons.IH [OF Cons.prems(1) this n] show ?case .
qed simp

lemma extend_existing: "step < length (calls_of h a) \<Longrightarrow> extend_calls step a h = h"
proof -
  assume s: "step < length (calls_of h a)"
  then have "nd_calls (h ! a) = Some (calls_of h a)" by (auto simp: calls_of_def split: option.splits)
  then have "(h ! a)\<lparr>nd_calls := Some (calls_of h a)\<rparr> = h ! a" by simp
  with s show ?thesis by (simp add: extend_calls_def Let_def)
qed

lemma walk_existing: "node_at h a p = Some b \<Longrightarrow> walk h a p = (h, b)"
  by (induction p arbitrary: a) (simp_all add: extend_existing Let_def split: if_split_asm)

lemma walk_snoc:
  "walk h a (p @ [s]) = (case walk h a p of (h', b) \<Rightarrow> (extend_calls s b h', calls_of (extend_calls s b h') b ! s))"
  by (induction p arbitrary: h a) (simp_all add: Let_def)

text \<open>Room for exactly one more call of a node: a new node, not shared.\<close>

definition append_call :: "nat \<Rightarrow> heap \<Rightarrow> heap" where
  "append_call b h = h[b := (h ! b)\<lparr>nd_calls := Some (calls_of h b @ [length h])\<rparr>] @ [new_node]"

lemma extend_next: "step = length (calls_of h b) \<Longrightarrow> extend_calls step b h = append_call b h"
  by (simp add: extend_calls_def append_call_def Let_def)

lemma calls_of_append_call:
  assumes "b < length h"
  shows "a < length h \<Longrightarrow> calls_of (append_call b h) a = (if a = b then calls_of h b @ [length h] else calls_of h a)"
    and "calls_of (append_call b h) (length h) = []"
  using assms by (auto simp: calls_of_def append_call_def nth_append nth_list_update new_node_def)

lemma length_append_call [simp]: "length (append_call b h) = Suc (length h)"
  by (simp add: append_call_def)

lemma append_call_ok: "heap_ok h \<Longrightarrow> b < length h \<Longrightarrow> heap_ok (append_call b h)"
proof -
  assume ok: "heap_ok h" and b: "b < length h"
  have "c < length (append_call b h)" if "a < length (append_call b h)" "c \<in> set (calls_of (append_call b h) a)" for a c
  proof (cases "a < length h")
    case True
    with that(2) ok b show ?thesis
      by (auto simp: calls_of_append_call(1) [OF b] heap_ok_def less_Suc_eq split: if_split_asm)
  next
    case False
    with that(1) have "a = length h" by simp
    with that(2) show ?thesis by (simp add: calls_of_append_call(2) [OF b])
  qed
  then show ?thesis unfolding heap_ok_def by (metis append_call_def snoc_eq_iff_butlast)
qed

lemma node_at_append_call:
  assumes "heap_ok h" and b: "b < length h"
  shows "a < length h \<Longrightarrow> node_at (append_call b h) a q =
    (case node_at h a q of
       Some c \<Rightarrow> Some c
     | None \<Rightarrow> if \<exists>r. q = r @ [length (calls_of h b)] \<and> node_at h a r = Some b then Some (length h) else None)"
proof (induction q arbitrary: a)
  case (Cons s q)
  let ?h = "append_call b h"
  note new = calls_of_append_call [OF b]
  show ?case
  proof (cases "s < length (calls_of h a)")
    case True
    then have c: "calls_of h a ! s < length h" using assms(1) Cons.prems unfolding heap_ok_def by (metis nth_mem)
    have "calls_of ?h a ! s = calls_of h a ! s" "s < length (calls_of ?h a)"
      using True Cons.prems by (auto simp: new(1) nth_append)
    then have "node_at ?h a (s # q) = node_at ?h (calls_of h a ! s) q" by simp
    moreover have "node_at h a (s # q) = node_at h (calls_of h a ! s) q" using True by simp
    moreover have "(\<exists>r. s # q = r @ [length (calls_of h b)] \<and> node_at h a r = Some b) \<longleftrightarrow>
        (\<exists>r. q = r @ [length (calls_of h b)] \<and> node_at h (calls_of h a ! s) r = Some b)"
      using True by (auto simp: Cons_eq_append_conv)
    ultimately show ?thesis by (simp only: Cons.IH [OF c])
  next
    case False
    show ?thesis
    proof (cases "a = b \<and> s = length (calls_of h b)")
      case True
      then have "node_at ?h a (s # q) = node_at ?h (length h) q" using b by (simp add: new(1))
      also have "\<dots> = (if q = [] then Some (length h) else None)" by (cases q) (simp_all add: new(2))
      finally show ?thesis using True by (auto simp: Cons_eq_append_conv)
    next
      case neq: False
      with False have "\<not> s < length (calls_of ?h a)" using Cons.prems by (auto simp: new(1))
      then have "node_at ?h a (s # q) = None" by simp
      moreover have "\<not> (\<exists>r. s # q = r @ [length (calls_of h b)] \<and> node_at h a r = Some b)"
        using neq False by (auto simp: Cons_eq_append_conv)
      ultimately show ?thesis using False by simp
    qed
  qed
qed simp

lemma calls_of_update_fields [simp]: "calls_of (h[a := (h ! a)\<lparr>nd_fields := f\<rparr>]) c = calls_of h c"
  by (cases "a < length h"; cases "c = a") (simp_all add: calls_of_def list_update_beyond)

lemma node_at_update_fields [simp]: "node_at (h[a := (h ! a)\<lparr>nd_fields := f\<rparr>]) b q = node_at h b q"
  by (induction q arbitrary: b) simp_all

section \<open>The tree of traces in their order\<close>

text \<open>Traces come after the one they are called from and, but for the first, after the call before them.\<close>

fun in_order :: "nat list list \<Rightarrow> nat list list \<Rightarrow> bool" where
  "in_order seen [] \<longleftrightarrow> True"
| "in_order seen (p # ps) \<longleftrightarrow>
     p \<notin> set seen \<and>
     (if seen = [] then p = []
      else p \<noteq> [] \<and> butlast p \<in> set seen \<and> (last p = 0 \<or> butlast p @ [last p - 1] \<in> set seen)) \<and>
     in_order (seen @ [p]) ps"

definition tree_inv :: "nat list list \<Rightarrow> heap \<Rightarrow> bool" where
  "tree_inv seen h \<longleftrightarrow> heap_ok h \<and> unshared h \<and> (\<forall>q. node_at h 0 q \<noteq> None \<longleftrightarrow> q = [] \<or> q \<in> set seen)"

text \<open>One more trace changes nothing but its own node.\<close>

lemma heap_ok_update_fields:
  "heap_ok h \<Longrightarrow> heap_ok (h[a := (h ! a)\<lparr>nd_fields := f\<rparr>])"
  by (simp add: heap_ok_def)

lemma add_trace_root:
  assumes "tree_inv [] h"
  shows "tree_inv [[]] (add_trace_to_tree t [] h) \<and> node_at (add_trace_to_tree t [] h) 0 [] = Some 0 \<and>
    nd_fields (add_trace_to_tree t [] h ! 0) = trace_fields t [] (nd_fields (h ! 0))"
  using assms by (auto simp: tree_inv_def unshared_def add_trace_to_tree_def node_at_update_fields
      heap_ok_update_fields) (simp add: heap_ok_def)

lemma next_call_walk:
  assumes inv: "tree_inv seen h" and "p \<noteq> []" and "p \<notin> set seen" and "butlast p \<in> set seen"
    and "last p = 0 \<or> butlast p @ [last p - 1] \<in> set seen"
  obtains b where "node_at h 0 (butlast p) = Some b" and "b < length h" and "last p = length (calls_of h b)"
    and "walk h 0 p = (append_call b h, length h)"
proof -
  have ok: "heap_ok h" and dom: "\<And>q. node_at h 0 q \<noteq> None \<longleftrightarrow> q = [] \<or> q \<in> set seen"
    using inv by (simp_all add: tree_inv_def)
  let ?r = "butlast p" and ?s = "last p"
  have p: "p = ?r @ [?s]" using assms(2) by simp
  from dom [of ?r] assms(4) obtain b where b: "node_at h 0 ?r = Some b" by blast
  have step: "node_at h 0 (?r @ [k]) \<noteq> None \<longleftrightarrow> k < length (calls_of h b)" for k
    by (simp add: node_at_append b)
  have "\<not> ?s < length (calls_of h b)" using step [of ?s] dom [of p] assms(2,3) p by simp
  moreover have "?s = 0 \<or> ?s - 1 < length (calls_of h b)" using step [of "?s - 1"] dom [of "?r @ [?s - 1]"] assms(5) by blast
  ultimately have len: "?s = length (calls_of h b)" by linarith
  have bound: "b < length h" using node_at_bound [OF ok _ b] ok by (simp add: heap_ok_def)
  have "walk h 0 (?r @ [?s]) = (append_call b h, length h)"
    unfolding walk_snoc walk_existing [OF b] prod.case extend_next [OF len]
    by (simp add: calls_of_append_call(1) [OF bound bound] len)
  then have "walk h 0 p = (append_call b h, length h)" using p by simp
  from that [OF b bound len this] show thesis .
qed

lemma add_next_trace:
  assumes inv: "tree_inv seen h" and p: "p \<noteq> []" "p \<notin> set seen" "butlast p \<in> set seen"
    "last p = 0 \<or> butlast p @ [last p - 1] \<in> set seen"
  shows "tree_inv (seen @ [p]) (add_trace_to_tree t p h)"
    and "node_at (add_trace_to_tree t p h) 0 p = Some (length h)"
    and "nd_fields (add_trace_to_tree t p h ! length h) = trace_fields t p []"
    and "\<And>q a. node_at h 0 q = Some a \<Longrightarrow> node_at (add_trace_to_tree t p h) 0 q = Some a \<and>
      nd_fields (add_trace_to_tree t p h ! a) = nd_fields (h ! a)"
proof -
  obtain b where b: "node_at h 0 (butlast p) = Some b" "b < length h" "last p = length (calls_of h b)"
    and w: "walk h 0 p = (append_call b h, length h)" by (rule next_call_walk [OF assms])
  let ?h = "append_call b h" and ?h' = "add_trace_to_tree t p h"
  have ok: "heap_ok h" "unshared h" and dom: "\<And>q. node_at h 0 q \<noteq> None \<longleftrightarrow> q = [] \<or> q \<in> set seen"
    using inv by (simp_all add: tree_inv_def)
  have h': "?h' = ?h[length h := (?h ! length h)\<lparr>nd_fields := trace_fields t p (nd_fields (?h ! length h))\<rparr>]"
    by (simp add: add_trace_to_tree_def w)
  have pos: "0 < length h" using ok by (simp add: heap_ok_def)
  have at: "node_at ?h' 0 q = (case node_at h 0 q of Some c \<Rightarrow> Some c | None \<Rightarrow> if q = p then Some (length h) else None)" for q
  proof -
    have "(\<exists>r. q = r @ [length (calls_of h b)] \<and> node_at h 0 r = Some b) \<longleftrightarrow> q = p"
    proof
      assume "\<exists>r. q = r @ [length (calls_of h b)] \<and> node_at h 0 r = Some b"
      then obtain r where r: "q = r @ [last p]" "node_at h 0 r = Some b" by (auto simp: b(3))
      with ok(2) b(1) have "r = butlast p" unfolding unshared_def by blast
      with r p(1) show "q = p" by simp
    next
      assume "q = p"
      with b(1,3) p(1) show "\<exists>r. q = r @ [length (calls_of h b)] \<and> node_at h 0 r = Some b"
        by (intro exI [of _ "butlast p"]) (simp flip: b(3))
    qed
    then show ?thesis unfolding h' node_at_update_fields node_at_append_call [OF ok(1) b(2) pos] by simp
  qed
  have none: "node_at h 0 p = None" using dom [of p] p(1,2) by blast
  show at_p: "node_at ?h' 0 p = Some (length h)" by (simp add: at none)
  show "nd_fields (?h' ! length h) = trace_fields t p []"
    by (simp add: h' append_call_def nth_append new_node_def)
  have bounded: "a < length h" if "node_at h 0 q = Some a" for q a by (rule node_at_bound [OF ok(1) pos that])
  show "node_at ?h' 0 q = Some a \<and> nd_fields (?h' ! a) = nd_fields (h ! a)" if "node_at h 0 q = Some a" for q a
  proof
    show "node_at ?h' 0 q = Some a" by (simp add: at that)
    show "nd_fields (?h' ! a) = nd_fields (h ! a)" using bounded [OF that]
      by (cases "a = b") (simp_all add: h' append_call_def nth_append)
  qed
  have "heap_ok ?h'" unfolding h' by (rule heap_ok_update_fields) (rule append_call_ok [OF ok(1) b(2)])
  moreover have "unshared ?h'" unfolding unshared_def
  proof (intro allI impI)
    fix q r a
    assume q: "node_at ?h' 0 q = Some a" and r: "node_at ?h' 0 r = Some a"
    show "q = r"
    proof (cases "a = length h")
      case True
      with q r bounded show ?thesis by (auto simp: at split: option.splits if_split_asm)
    next
      case False
      with q r have "node_at h 0 q = Some a" "node_at h 0 r = Some a" by (auto simp: at split: option.splits if_split_asm)
      with ok(2) show ?thesis unfolding unshared_def by blast
    qed
  qed
  moreover have "node_at ?h' 0 q \<noteq> None \<longleftrightarrow> q = [] \<or> q \<in> set (seen @ [p])" for q
    using dom [of q] by (auto simp: at split: option.splits)
  ultimately show "tree_inv (seen @ [p]) ?h'" unfolding tree_inv_def by blast
qed

lemma add_traces:
  assumes "tree_inv seen h" and "seen \<noteq> []" and "in_order seen (map fst pts)"
  shows "tree_inv (seen @ map fst pts) (fold (\<lambda>(p, t). add_trace_to_tree t p) pts h) \<and>
    (\<forall>q a. node_at h 0 q = Some a \<longrightarrow> node_at (fold (\<lambda>(p, t). add_trace_to_tree t p) pts h) 0 q = Some a \<and>
       nd_fields (fold (\<lambda>(p, t). add_trace_to_tree t p) pts h ! a) = nd_fields (h ! a)) \<and>
    (\<forall>(p, t) \<in> set pts. \<exists>a. node_at (fold (\<lambda>(p, t). add_trace_to_tree t p) pts h) 0 p = Some a \<and>
       nd_fields (fold (\<lambda>(p, t). add_trace_to_tree t p) pts h ! a) = trace_fields t p [])"
  using assms
proof (induction pts arbitrary: seen h)
  case (Cons pt pts)
  obtain p t where pt: "pt = (p, t)" by (cases pt)
  let ?h = "add_trace_to_tree t p h"
  let ?final = "fold (\<lambda>(p, t). add_trace_to_tree t p) pts ?h"
  from Cons.prems(2,3) have p: "p \<noteq> []" "p \<notin> set seen" "butlast p \<in> set seen"
      "last p = 0 \<or> butlast p @ [last p - 1] \<in> set seen" and rest: "in_order (seen @ [p]) (map fst pts)"
    by (simp_all add: pt)
  note new = add_next_trace [where t = t, OF Cons.prems(1) p]
  from Cons.IH [OF new(1) _ rest] have inv: "tree_inv (seen @ p # map fst pts) ?final"
    and keep: "\<And>q a. node_at ?h 0 q = Some a \<Longrightarrow> node_at ?final 0 q = Some a \<and> nd_fields (?final ! a) = nd_fields (?h ! a)"
    and later: "\<forall>(p, t) \<in> set pts. \<exists>a. node_at ?final 0 p = Some a \<and> nd_fields (?final ! a) = trace_fields t p []"
    by simp_all
  from keep [OF new(2)] new(3) have "node_at ?final 0 p = Some (length h) \<and> nd_fields (?final ! length h) = trace_fields t p []"
    by simp
  with later have "\<forall>(p, t) \<in> set (pt # pts). \<exists>a. node_at ?final 0 p = Some a \<and> nd_fields (?final ! a) = trace_fields t p []"
    by (auto simp: pt)
  moreover have "\<forall>q a. node_at h 0 q = Some a \<longrightarrow> node_at ?final 0 q = Some a \<and> nd_fields (?final ! a) = nd_fields (h ! a)"
    using keep new(4) by metis
  ultimately show ?case using inv by (simp only: pt fold_simps prod.case list.map fst_conv)
qed simp

lemma trace_tree_fold:
  assumes "list_all2 (\<lambda>t p. rbind (get_str t ''trace_address'') parse_trace_address = Inr p) traces paths"
  shows "rfold (\<lambda>h trace. rbind (get_str trace ''trace_address'') (\<lambda>s. rbind (parse_trace_address s) (\<lambda>path.
       Inr (add_trace_to_tree trace path h)))) h traces = Inr (fold (\<lambda>(p, t). add_trace_to_tree t p) (zip paths traces) h)"
  using assms
proof (induction traces paths arbitrary: h rule: list_all2_induct)
  case (Cons t ts p ps)
  from Cons.hyps(1) obtain s where "get_str t ''trace_address'' = Inr s" "parse_trace_address s = Inr p"
    by (auto simp: rbind_Inr_iff)
  with Cons.IH show ?case by simp
qed simp

text \<open>C26: from traces in their order the tree is rebuilt: each trace is at its address, nothing else is in the
  tree, and no two addresses lead to one node.\<close>

theorem trace_tree_rebuilt:
  assumes "list_all2 (\<lambda>t p. rbind (get_str t ''trace_address'') parse_trace_address = Inr p) traces paths"
    and "in_order [] paths" and "traces \<noteq> []"
  shows "\<exists>h. trace_tree traces = Inr h \<and> unshared h \<and>
    (\<forall>q. node_at h 0 q \<noteq> None \<longleftrightarrow> q \<in> set paths) \<and>
    (\<forall>(p, t) \<in> set (zip paths traces). \<exists>a. node_at h 0 p = Some a \<and> nd_fields (h ! a) = trace_fields t p [])"
proof -
  let ?h = "\<lambda>pts. fold (\<lambda>(p, t). add_trace_to_tree t p) pts"
  from assms(1,3) obtain t ts p ps where e: "traces = t # ts" "paths = p # ps"
    by (cases traces; cases paths) auto
  with assms(2) have c: "p = [] \<and> in_order [p] ps" by auto
  then have p: "p = []" ..
  from c have "in_order [p] ps" ..
  with p have order: "in_order [[]] ps" by simp
  have new: "node_at [new_node] 0 q \<noteq> None \<longleftrightarrow> q = []" for q by (cases q) (simp_all add: calls_of_def new_node_def)
  then have "unshared [new_node]" unfolding unshared_def by (metis option.distinct(1))
  with new have "tree_inv [] [new_node]"
    by (simp add: tree_inv_def heap_ok_def calls_of_def new_node_def)
  from add_trace_root [OF this, of t] have root: "tree_inv [[]] (add_trace_to_tree t [] [new_node])"
    "node_at (add_trace_to_tree t [] [new_node]) 0 [] = Some 0"
    "nd_fields (add_trace_to_tree t [] [new_node] ! 0) = trace_fields t [] []" by (simp_all add: new_node_def)
  have len: "length ps = length ts" using list_all2_lengthD [OF assms(1)] e by simp
  then have fsts: "map fst (zip ps ts) = ps" by simp
  let ?final = "?h (zip ps ts) (add_trace_to_tree t [] [new_node])"
  have "trace_tree traces = Inr ?final"
    using trace_tree_fold [OF assms(1)] by (simp add: trace_tree_def e p)
  moreover note all = add_traces [OF root(1), of "zip ps ts", unfolded fsts, OF _ order]
  from all have inv: "tree_inv ([[]] @ ps) ?final"
    and later: "\<forall>(p, t) \<in> set (zip ps ts). \<exists>a. node_at ?final 0 p = Some a \<and> nd_fields (?final ! a) = trace_fields t p []"
    by blast+
  from all root(2) have "node_at ?final 0 [] = Some 0 \<and> nd_fields (?final ! 0) = nd_fields (add_trace_to_tree t [] [new_node] ! 0)"
    by blast
  with root(3) have "node_at ?final 0 [] = Some 0 \<and> nd_fields (?final ! 0) = trace_fields t [] []" by (simp only:)
  ultimately show ?thesis using inv later by (intro exI [of _ ?final]) (simp add: tree_inv_def e p)
qed

definition sample_traces :: "jdict list" where
  "sample_traces = map (\<lambda>(a, n). [(''trace_address'', JStr a), (''value'', JInt n)])
     [(''{}'', 5), (''{0}'', 3), (''{0,0}'', 1), (''{1}'', 2)]"

lemma sample_addresses: "rmap (\<lambda>t. rbind (get_str t ''trace_address'') parse_trace_address) sample_traces = Inr [[], [0], [0, 0], [1]]"
  by code_simp

theorem trace_tree_rebuilt_witness:
  "\<exists>h a. trace_tree sample_traces = Inr h \<and> node_at h 0 [0, 0] = Some a \<and> map_of (nd_fields (h ! a)) ''value'' = Some (JInt 1)"
proof -
  have "list_all2 (\<lambda>t p. rbind (get_str t ''trace_address'') parse_trace_address = Inr p) sample_traces [[], [0], [0, 0], [1]]"
    using sample_addresses by (simp add: rmap_Inr_iff)
  moreover have "in_order [] [[], [0], [0, 0], [1]]" and "sample_traces \<noteq> []" by (simp_all add: sample_traces_def)
  ultimately obtain h where h: "trace_tree sample_traces = Inr h"
    and at: "\<forall>(p, t) \<in> set (zip [[], [0], [0, 0], [1]] sample_traces). \<exists>a. node_at h 0 p = Some a \<and> nd_fields (h ! a) = trace_fields t p []"
    using trace_tree_rebuilt by meson
  have "([0, 0], [(''trace_address'', JStr ''{0,0}''), (''value'', JInt 1)]) \<in> set (zip [[], [0], [0, 0], [1]] sample_traces)"
    by (simp add: sample_traces_def)
  from bspec [OF at this] obtain a where "node_at h 0 [0, 0] = Some a"
    and "nd_fields (h ! a) = trace_fields [(''trace_address'', JStr ''{0,0}''), (''value'', JInt 1)] [0, 0] []" by auto
  with h show ?thesis by (intro exI [of _ h] exI [of _ a]) (simp add: trace_fields_def)
qed

text \<open>A trace that comes before the one its caller called first is at both addresses: filling in the one
  changes the other.\<close>

lemma missing_sibling_shared:
  assumes "h \<noteq> []" and "length (calls_of h 0) \<le> j" and "j \<le> k"
  shows "node_at (add_trace_to_tree t [k] h) 0 [j] = Some (length h)"
proof -
  let ?h = "extend_calls k 0 h"
  have calls: "calls_of ?h 0 = calls_of h 0 @ replicate (k + 1 - length (calls_of h 0)) (length h)"
    using assms by (simp add: extend_calls_def Let_def calls_of_def [of "_ @ _"] nth_append)
  then have "walk h 0 [k] = (?h, length h)" using assms by (simp add: Let_def nth_append)
  then show ?thesis using assms by (simp add: add_trace_to_tree_def calls nth_append)
qed

section \<open>The texts of types agree\<close>

fun well_typed :: "component \<Rightarrow> bool" where
  "well_typed (Component ty cs) \<longleftrightarrow>
     (case cs of None \<Rightarrow> ty \<notin> {''tuple'', ''tuple[]''}
      | Some cs \<Rightarrow> ty \<in> {''tuple'', ''tuple[]''} \<and> cs \<noteq> [] \<and> (\<forall>c \<in> set cs. well_typed c))"

text \<open>On types whose tuples are single or in one array, the text of the indexer and the text of the
  service are the same.\<close>

lemma type_texts_agree:
  "well_typed c \<Longrightarrow> generate_type_str c = Inr (solve_nested_components c)"
proof (induction c)
  case (Component ty cs)
  show ?case
  proof (cases cs)
    case None
    with Component.prems show ?thesis by simp
  next
    case (Some ds)
    with Component.prems have ds: "ds \<noteq> []" "\<forall>c \<in> set ds. well_typed c" and ty: "ty = ''tuple'' \<or> ty = ''tuple[]''" by auto
    have "generate_type_str c = Inr (solve_nested_components c)" if "c \<in> set ds" for c
      using Component.IH [of ds c] Some that ds(2) by simp
    then have "rmap generate_type_str ds = Inr (map solve_nested_components ds)" by (rule rmap_Inr_map)
    moreover have "array_suffix (rev ty) = (if ty = ''tuple[]'' then ''[]'' else [])" using ty by auto
    ultimately show ?thesis using Some ds(1) ty by (auto split: list.split)
  qed
qed

theorem type_texts_agree_witness:
  "generate_type_str (Component ''tuple[]'' (Some [Component ''uint256'' None, Component ''address'' None])) =
     Inr ''(uint256,address)[]''"
  using type_texts_agree [of "Component ''tuple[]'' (Some [Component ''uint256'' None, Component ''address'' None])"]
  by simp

text \<open>They differ on arrays of arrays of tuples, which the indexer does not spell out.\<close>

lemma nested_arrays_differ:
  "generate_type_str (Component ''tuple[][]'' (Some [Component ''bool'' None])) = Inr ''tuple[][]'' \<and>
   solve_nested_components (Component ''tuple[][]'' (Some [Component ''bool'' None])) = ''(bool)[][]''"
  by simp

section \<open>Nothing but text\<close>

text \<open>No bytes are left in what is shown.\<close>

fun no_bytes :: "pyval \<Rightarrow> bool" where
  "no_bytes (PyDict d) = (\<forall>(k, v) \<in> set d. no_bytes v)"
| "no_bytes (PySeq vs) = (\<forall>v \<in> set vs. no_bytes v)"
| "no_bytes (PyBytes b) = False"
| "no_bytes v = True"

lemma convert_bytes_no_bytes: "no_bytes (convert_bytes_to_hex v)"
  by (induction v rule: convert_bytes_to_hex.induct) auto

lemma convert_dict_no_bytes: "no_bytes v \<Longrightarrow> no_bytes (convert_dict v)"
  by (induction v rule: convert_dict.induct) (auto simp: entry_of_def)

lemma decode_function_no_bytes:
  assumes "decode_function decode_input decode_output data_str output_str = Inr (i, r)"
  shows "no_bytes i \<and> no_bytes r"
  using assms by (auto simp: decode_function_def rbind_Inr_iff convert_dict_no_bytes convert_bytes_no_bytes
      split: option.splits if_split_asm)

end
