(* ===== verification/BridgeView.thy ===== *)
theory BridgeView
  imports Domain
begin

text \<open>
  \<open>common/utils/bridge_utils.py\<close>: how a row of a bridge is shown by the service. A transaction and a token
  are dictionaries; the parsers of most chains change the dictionary of the transaction in place and return
  it, so the result contains what was there. \<open>fixed6 n d\<close> is the text of \<open>n / 10 ** d\<close> with six decimals,
  \<open>from_iso\<close> reads a time, in seconds.
\<close>

section \<open>Values and tokens\<close>

record view_env =
  fixed6 :: "int \<Rightarrow> int \<Rightarrow> string"
  from_iso :: "string \<Rightarrow> int res"

definition rstrip_char :: "char \<Rightarrow> string \<Rightarrow> string" where
  "rstrip_char c s = rev (dropWhile (\<lambda>d. d = c) (rev s))"

definition format_value :: "view_env \<Rightarrow> int \<Rightarrow> int \<Rightarrow> string" where
  "format_value v amount decimals =
     (let formatted_value = rstrip_char CHR ''.'' (rstrip_char CHR ''0'' (fixed6 v amount decimals))
      in if formatted_value \<noteq> [] then formatted_value else ''0'')"

definition amount_value :: "view_env \<Rightarrow> jdict \<Rightarrow> int \<Rightarrow> json res" where
  "amount_value v transaction decimals =
     rbind (get_int transaction ''amount'') (\<lambda>n. Inr (JStr (format_value v n decimals)))"

text \<open>\<open>token_info.get("decimals", 18)\<close>\<close>

definition decimals_or_18 :: "jdict \<Rightarrow> int res" where
  "decimals_or_18 d = (case map_of d ''decimals'' of None \<Rightarrow> Inr 18 | Some v \<Rightarrow> as_int v)"

definition coin_entry :: "string \<Rightarrow> json \<Rightarrow> json" where
  "coin_entry name value = JDict [(''token_name'', JStr name), (''token_symbol'', JStr name),
     (''token_type'', JStr ''COIN''), (''value'', value)]"

text \<open>A token that is missing is \<open>None\<close> or an empty dictionary.\<close>

type_synonym token_info = "jdict option"

definition given :: "token_info \<Rightarrow> jdict option" where
  "given t = (case t of Some d \<Rightarrow> if d \<noteq> [] then Some d else None | None \<Rightarrow> None)"

definition SYSTEM_ETH :: string where
  "SYSTEM_ETH = ''0xdeaddeaddeaddeaddeaddeaddeaddeaddead1111''"

definition format_bedrock_token_info :: "view_env \<Rightarrow> jdict \<Rightarrow> token_info \<Rightarrow> string \<Rightarrow> json list res" where
  "format_bedrock_token_info v transaction token_info native_token =
     (case given token_info of
        Some d \<Rightarrow>
          rbind (dict_get d ''address'') (\<lambda>address.
          rbind (if address = JStr SYSTEM_ETH then Inr (JStr ''ETH'') else dict_get d ''name'') (\<lambda>token_name.
          rbind (if token_name = JStr ''ETH'' then Inr (JStr ''COIN'') else dict_get d ''type'') (\<lambda>token_type.
          rbind (dict_get d ''symbol'') (\<lambda>symbol.
          rbind (decimals_or_18 d) (\<lambda>decimals. rbind (amount_value v transaction decimals) (\<lambda>value.
            Inr [JDict [(''token_name'', token_name), (''token_symbol'', symbol), (''token_type'', token_type),
              (''token_logo_url'', case map_of d ''icon_url'' of None \<Rightarrow> JStr [] | Some u \<Rightarrow> u), (''token_address'', address),
              (''value'', value)]]))))))
      | None \<Rightarrow> rbind (amount_value v transaction 18) (\<lambda>value. Inr [coin_entry native_token value]))"

definition format_linea_token_info :: "view_env \<Rightarrow> jdict \<Rightarrow> token_info \<Rightarrow> json list res" where
  "format_linea_token_info v transaction token_info =
     (case given token_info of
        Some d \<Rightarrow>
          rbind (rmap (dict_get d) [''name'', ''symbol'', ''type'', ''icon_url'', ''address'']) (\<lambda>fs.
          rbind (decimals_or_18 d) (\<lambda>decimals. rbind (amount_value v transaction decimals) (\<lambda>value.
            Inr [JDict (zip [''token_name'', ''token_symbol'', ''token_type'', ''token_logo_url'', ''token_address''] fs
              @ [(''value'', value)])])))
      | None \<Rightarrow> rbind (amount_value v transaction 18) (\<lambda>value. Inr [coin_entry ''ETH'' value]))"

datatype layer = L1 | L2

definition mantle_default :: "json \<Rightarrow> (string \<times> string) option" where
  "mantle_default address =
     (if address = JStr ''0xdeaddeaddeaddeaddeaddeaddeaddeaddead0000'' then Some (''Mantle'', ''MNT'')
      else if address = JStr SYSTEM_ETH then Some (''ETH'', ''ETH'') else None)"

definition format_mantle_token_info :: "view_env \<Rightarrow> jdict \<Rightarrow> token_info \<Rightarrow> layer \<Rightarrow> json list res" where
  "format_mantle_token_info v transaction token_info bridge_type =
     (case given token_info of
        Some d \<Rightarrow>
          (case mantle_default (jget d ''address'') of
             Some (name, symbol) \<Rightarrow>
               rbind (amount_value v transaction 18) (\<lambda>value.
                 Inr [JDict [(''token_name'', JStr name), (''token_symbol'', JStr symbol),
                   (''token_type'', JStr ''COIN''), (''value'', value)]])
           | None \<Rightarrow>
               rbind (rmap (dict_get d) [''name'', ''symbol'', ''type'', ''icon_url'', ''address'']) (\<lambda>fs.
               rbind (dict_get d ''decimals'') (\<lambda>j. rbind (if truthy j then as_int j else Inr 0) (\<lambda>decimals.
               rbind (amount_value v transaction decimals) (\<lambda>value.
                 Inr [JDict (zip [''token_name'', ''token_symbol'', ''token_type'', ''token_logo_url'', ''token_address''] fs
                   @ [(''value'', value)])])))))
      | None \<Rightarrow>
          (case bridge_type of
             L1 \<Rightarrow> Inr [JDict [(''token_name'', JStr []), (''token_symbol'', JStr []), (''token_type'', JNull),
                     (''value'', JStr ''Tss Reward'')]]
           | L2 \<Rightarrow> rbind (amount_value v transaction 18) (\<lambda>value. Inr [coin_entry ''ETH'' value])))"

fun int_text :: "json \<Rightarrow> int res" where
  "int_text (JInt n) = Inr n"
| "int_text (JStr s) = parse_int s"
| "int_text (JBool b) = Inr (if b then 1 else 0)"
| "int_text _ = Inl TypeError"

definition sub_dict :: "jdict \<Rightarrow> string \<Rightarrow> jdict res" where
  "sub_dict d k = rbind (dict_get d k) as_dict"

definition need_info :: "token_info \<Rightarrow> jdict res" where
  "need_info t = (case t of None \<Rightarrow> Inl TypeError | Some d \<Rightarrow> Inr d)"

text \<open>The fields that depend on the kind of the token.\<close>

definition taiko_kind_fields :: "jdict \<Rightarrow> json \<Rightarrow> jdict \<Rightarrow> jdict res" where
  "taiko_kind_fields token ty entry =
     (if ty = JStr ''ERC721''
      then rbind (rbind (dict_get token ''tokenIds'') as_list) (\<lambda>ids.
        Inr (AList.update ''value'' (JStr (int_str (int (length ids)))) (entry @ [(''token_ids'', JList ids)])))
      else if ty = JStr ''ERC1155''
      then rbind (rbind (dict_get token ''amounts'') as_list) (\<lambda>amounts. rbind (dict_get token ''tokenIds'') (\<lambda>ids.
        rbind (rmap int_text amounts) (\<lambda>ns.
        Inr (AList.update ''value'' (JStr (int_str (sum_list ns)))
          (entry @ [(''amounts'', JList amounts), (''token_ids'', ids)])))))
      else Inr entry)"

definition taiko_token_entry :: "view_env \<Rightarrow> jdict \<Rightarrow> token_info \<Rightarrow> json res" where
  "taiko_token_entry v token token_info =
     rbind (sub_dict token ''ctoken'') (\<lambda>ctoken.
     rbind (dict_get ctoken ''name'') (\<lambda>name. rbind (dict_get ctoken ''symbol'') (\<lambda>symbol.
     rbind (need_info token_info) (\<lambda>info. rbind (dict_get info ''icon_url'') (\<lambda>logo.
     rbind (dict_get token ''type'') (\<lambda>ty. rbind (dict_get info ''address'') (\<lambda>address.
     rbind (if ty = JStr ''ERC20''
            then rbind (rbind (dict_get token ''amount'') int_text) (\<lambda>n.
                 rbind (rbind (dict_get ctoken ''decimals'') int_text) (\<lambda>dec. Inr (format_value v n dec)))
            else Inr []) (\<lambda>value.
     rbind (taiko_kind_fields token ty [(''token_name'', name), (''token_symbol'', symbol), (''token_logo_url'', logo),
       (''token_type'', ty), (''token_address'', address), (''value'', JStr value)]) (\<lambda>entry. Inr (JDict entry))))))))))"

definition format_taiko_token_info :: "view_env \<Rightarrow> jdict \<Rightarrow> token_info \<Rightarrow> json list res" where
  "format_taiko_token_info v transaction token_info =
     rbind (sub_dict transaction ''extra_info'') (\<lambda>extra.
     rbind (if truthy (jget extra ''token'')
            then rbind (as_dict (jget extra ''token'')) (\<lambda>token.
                 rbind (taiko_token_entry v token token_info) (\<lambda>e. Inr [e]))
            else Inr []) (\<lambda>token_list.
     rbind (get_int transaction ''amount'') (\<lambda>n.
       Inr (token_list @ (if n > 0 then [coin_entry ''ETH'' (JStr (format_value v n 18))] else [])))))"

section \<open>Transactions\<close>

definition with_tokens :: "jdict \<Rightarrow> json list res \<Rightarrow> jdict res" where
  "with_tokens d tokens = rbind tokens (\<lambda>ts. Inr (AList.update ''token_list'' (JList ts) d))"

definition parse_taiko_bridge_l2_to_l1_transaction :: "view_env \<Rightarrow> jdict \<Rightarrow> token_info \<Rightarrow> jdict res" where
  "parse_taiko_bridge_l2_to_l1_transaction v transaction token_info =
     rbind (rmap (\<lambda>k. rbind (dict_get transaction k) (\<lambda>x. Inr (k, x)))
       [''l2_transaction_hash'', ''from_address'', ''to_address'', ''l2_block_number'', ''l2_block_timestamp'',
        ''l1_block_number'', ''l1_block_timestamp'', ''l1_transaction_hash'']) (\<lambda>d.
     with_tokens d (format_taiko_token_info v transaction token_info))"

definition parse_taiko_bridge_l1_to_l2_transaction :: "view_env \<Rightarrow> jdict \<Rightarrow> token_info \<Rightarrow> jdict res" where
  "parse_taiko_bridge_l1_to_l2_transaction v transaction token_info =
     with_tokens transaction (format_taiko_token_info v transaction token_info)"

definition parse_zk_bridge_l1_to_l2_transaction :: "view_env \<Rightarrow> jdict \<Rightarrow> token_info \<Rightarrow> jdict res" where
  "parse_zk_bridge_l1_to_l2_transaction v transaction token_info =
     with_tokens transaction (format_linea_token_info v transaction token_info)"

definition parse_zk_bridge_l2_to_l1_transaction :: "view_env \<Rightarrow> jdict \<Rightarrow> token_info \<Rightarrow> jdict res" where
  "parse_zk_bridge_l2_to_l1_transaction v transaction token_info =
     with_tokens transaction (format_linea_token_info v transaction token_info)"

definition parse_mantle_bridge_l1_to_l2_transaction :: "view_env \<Rightarrow> jdict \<Rightarrow> token_info \<Rightarrow> jdict res" where
  "parse_mantle_bridge_l1_to_l2_transaction v transaction token_info =
     with_tokens transaction (format_mantle_token_info v transaction token_info L1)"

text \<open>The fields of the layers are given the names of the stages of a withdrawal.\<close>

definition with_stages :: "jdict \<Rightarrow> jdict res" where
  "with_stages transaction =
     rbind (rmap (\<lambda>(k, src). rbind (dict_get transaction src) (\<lambda>x. Inr (k, x)))
       [(''l1_proven_txn_hash'', ''l1_proven_transaction_hash''),
        (''l1_finalized_block_number'', ''l1_block_number''),
        (''l1_finalized_block_timestamp'', ''l1_block_timestamp''),
        (''l1_finalized_transaction_hash'', ''l1_transaction_hash''),
        (''l1_finalized_txn_hash'', ''l1_transaction_hash'')]) (\<lambda>new.
     Inr (fold (\<lambda>(k, x). AList.update k x) new transaction))"

definition parse_mantle_bridge_l2_to_l1_transaction :: "view_env \<Rightarrow> jdict \<Rightarrow> token_info \<Rightarrow> jdict res" where
  "parse_mantle_bridge_l2_to_l1_transaction v transaction token_info =
     rbind (with_stages transaction) (\<lambda>d. with_tokens d (format_mantle_token_info v d token_info L2))"

definition parse_bedrock_bridge_l1_to_l2_transaction :: "view_env \<Rightarrow> jdict \<Rightarrow> token_info \<Rightarrow> string \<Rightarrow> jdict res" where
  "parse_bedrock_bridge_l1_to_l2_transaction v transaction token_info native_token =
     with_tokens transaction (format_bedrock_token_info v transaction token_info native_token)"

definition parse_bedrock_bridge_l2_to_l1_transaction :: "view_env \<Rightarrow> jdict \<Rightarrow> token_info \<Rightarrow> string \<Rightarrow> jdict res" where
  "parse_bedrock_bridge_l2_to_l1_transaction v transaction token_info native_token =
     rbind (with_stages transaction) (\<lambda>d. with_tokens d (format_bedrock_token_info v d token_info native_token))"

text \<open>The state of a withdrawal: 1 its block is not finalized, 2 it can be proven, 3 its proof can be
  challenged, 4 it can be relayed, 5 it is relayed.\<close>

definition determine_op_bedrock_withdrawal_state :: "view_env \<Rightarrow> int \<Rightarrow> jdict \<Rightarrow> int option \<Rightarrow> int \<Rightarrow> int res" where
  "determine_op_bedrock_withdrawal_state v current_time transaction finalized_block_number expired_day =
     rbind (dict_get transaction ''l1_proven_block_timestamp'') (\<lambda>ts.
     rbind (if truthy ts then rbind (as_str ts) (\<lambda>s. rbind (from_iso v s) (\<lambda>t. Inr (Some t))) else Inr None) (\<lambda>proven.
     case finalized_block_number of
       None \<Rightarrow> Inr 1
     | Some fin \<Rightarrow>
         rbind (get_int transaction ''l2_block_number'') (\<lambda>n.
         if fin < n then Inr 1
         else rbind (dict_get transaction ''l1_finalized_block_number'') (\<lambda>done_at.
           if done_at \<noteq> JNull then Inr 5
           else rbind (dict_get transaction ''l1_proven_block_number'') (\<lambda>proven_at.
             if proven_at = JNull then Inr 2
             else case proven of
                    Some t \<Rightarrow> Inr (if current_time < t + expired_day * 86400 then 3 else 4)
                  | None \<Rightarrow> Inr 4)))))"

definition v1_token_fields :: "jdict \<Rightarrow> json \<Rightarrow> jdict \<Rightarrow> jdict res" where
  "v1_token_fields transaction entry info =
     rbind (as_dict entry) (\<lambda>t.
     rbind (dict_get t ''token_type'') (\<lambda>ty.
     rbind (if ty = JStr ''COIN''
            then Inr [(''token_name'', JStr ''ETH''), (''l2_token_address'', JStr SYSTEM_ETH),
              (''l1_token_address'', JStr ''0x0000000000000000000000000000000000000000'')]
            else rbind (dict_get t ''token_name'') (\<lambda>name. rbind (dict_get transaction ''l2_token_address'') (\<lambda>l2.
                 rbind (dict_get transaction ''l1_token_address'') (\<lambda>l1.
                   Inr [(''token_name'', name), (''l2_token_address'', l2), (''l1_token_address'', l1)])))) (\<lambda>names.
     rbind (dict_get t ''token_symbol'') (\<lambda>symbol. rbind (dict_get t ''value'') (\<lambda>value.
     Inr (fold (\<lambda>(k, x). AList.update k x)
       (names @ [(''token_symbol'', symbol), (''value'', value), (''token_logo_url'', jget t ''token_logo_url''),
         (''token_address'', jget t ''token_address''), (''is_erc20'', JBool (jget t ''token_type'' = JStr ''ERC20''))]) info))))))"

definition handle_transaction_info_for_v1 :: "jdict \<Rightarrow> jdict \<Rightarrow> jdict res" where
  "handle_transaction_info_for_v1 transaction transaction_info =
     rbind (dict_get transaction ''index'') (\<lambda>i.
     let info = AList.update ''index'' i transaction_info
     in rbind (dict_get info ''token_list'') (\<lambda>tokens.
        rbind (case tokens of
                 JNull \<Rightarrow> Inr info
               | JList [] \<Rightarrow> Inr info
               | JList (t # _) \<Rightarrow> v1_token_fields transaction t info
               | _ \<Rightarrow> Inl TypeError) (\<lambda>info.
        rbind (dict_get transaction ''amount'') (\<lambda>amount. rbind (if truthy amount then int_text amount else Inr 0) (\<lambda>n.
        rbind (rmap (\<lambda>k. rbind (dict_get transaction k) (\<lambda>x. Inr (k, x)))
          [''l2_from_address'', ''l1_from_address'', ''l1_block_hash'', ''l2_block_hash'']) (\<lambda>fs.
        Inr (fold (\<lambda>(k, x). AList.update k x) ((''amount'', JInt n) # fs) info)))))))"

section \<open>The parser\<close>

record bridge_parser =
  bp_chain :: string
  bp_rollup_type :: string
  bp_withdrawal_expired_day :: int
  bp_bridge_compatible :: "bool option"
  bp_native_token :: string

definition parse_bridge_l1_to_l2_transaction :: "view_env \<Rightarrow> bridge_parser \<Rightarrow> jdict \<Rightarrow> token_info \<Rightarrow> jdict res" where
  "parse_bridge_l1_to_l2_transaction v p transaction token_info =
     (if bp_rollup_type p = ''op'' \<and> bp_chain p = ''mantle''
      then parse_mantle_bridge_l1_to_l2_transaction v transaction token_info
      else
        rbind (if bp_rollup_type p = ''op'' \<or> bp_rollup_type p = ''arbitrum''
               then parse_bedrock_bridge_l1_to_l2_transaction v transaction token_info (bp_native_token p)
               else if bp_rollup_type p = ''zk''
               then if bp_chain p = ''taiko'' then parse_taiko_bridge_l1_to_l2_transaction v transaction token_info
                    else parse_zk_bridge_l1_to_l2_transaction v transaction token_info
               else Inl ErrorRollupError) (\<lambda>d.
        if bp_bridge_compatible p = Some True then handle_transaction_info_for_v1 d d else Inr d))"

text \<open>The dictionary that is passed on to the old version is the transaction itself, except for Taiko.\<close>

definition parse_bridge_l2_to_l1_transaction :: "view_env \<Rightarrow> int \<Rightarrow> bridge_parser \<Rightarrow> jdict \<Rightarrow> token_info \<Rightarrow> int option
    \<Rightarrow> jdict res" where
  "parse_bridge_l2_to_l1_transaction v current_time p transaction token_info finalized_block_number =
     rbind (if bp_rollup_type p = ''op''
            then rbind (if bp_chain p = ''mantle'' then parse_mantle_bridge_l2_to_l1_transaction v transaction token_info
                        else parse_bedrock_bridge_l2_to_l1_transaction v transaction token_info (bp_native_token p)) (\<lambda>d.
                 rbind (determine_op_bedrock_withdrawal_state v current_time d finalized_block_number
                   (bp_withdrawal_expired_day p)) (\<lambda>s.
                 let d = AList.update ''status'' (JInt s) d in Inr (d, d)))
            else if bp_rollup_type p = ''zk''
            then if bp_chain p = ''taiko''
                 then rbind (parse_taiko_bridge_l2_to_l1_transaction v transaction token_info) (\<lambda>d. Inr (transaction, d))
                 else rbind (parse_zk_bridge_l2_to_l1_transaction v transaction token_info) (\<lambda>d. Inr (d, d))
            else if bp_rollup_type p = ''arbitrum''
            then rbind (parse_bedrock_bridge_l2_to_l1_transaction v transaction token_info (bp_native_token p)) (\<lambda>d. Inr (d, d))
            else Inl ErrorRollupError) (\<lambda>(transaction, d).
     if bp_bridge_compatible p \<noteq> None then handle_transaction_info_for_v1 transaction d else Inr d)"

section \<open>The states of a withdrawal\<close>

text \<open>What the state depends on: the time of the proof, the block on the second layer, and whether the
  withdrawal is proven and finalized.\<close>

definition stage :: "int \<Rightarrow> int option \<Rightarrow> int \<Rightarrow> int \<Rightarrow> bool \<Rightarrow> bool \<Rightarrow> int option \<Rightarrow> int" where
  "stage current_time fin expired_day n final proven proven_time =
     (case fin of
        None \<Rightarrow> 1
      | Some f \<Rightarrow>
          if f < n then 1 else if final then 5 else if \<not> proven then 2
          else (case proven_time of Some t \<Rightarrow> if current_time < t + expired_day * 86400 then 3 else 4 | None \<Rightarrow> 4))"

definition proof_time :: "view_env \<Rightarrow> jdict \<Rightarrow> int option" where
  "proof_time v d =
     (case jget d ''l1_proven_block_timestamp'' of
        JStr s \<Rightarrow> if s = [] then None else (case from_iso v s of Inr t \<Rightarrow> Some t | Inl _ \<Rightarrow> None)
      | _ \<Rightarrow> None)"

lemma truthy_as_str: "truthy ts \<Longrightarrow> as_str ts = Inr s \<Longrightarrow> ts = JStr s \<and> s \<noteq> []"
  by (cases ts) auto

lemma state_stage:
  assumes "determine_op_bedrock_withdrawal_state v now d fin e = Inr s"
  shows "s = stage now fin e (case jget d ''l2_block_number'' of JInt n \<Rightarrow> n | _ \<Rightarrow> 0)
    (jget d ''l1_finalized_block_number'' \<noteq> JNull) (jget d ''l1_proven_block_number'' \<noteq> JNull) (proof_time v d)"
proof -
  from assms obtain ts proven where ts: "map_of d ''l1_proven_block_timestamp'' = Some ts"
    and proven: "(if truthy ts then rbind (as_str ts) (\<lambda>s. rbind (from_iso v s) (\<lambda>t. Inr (Some t))) else Inr None) = Inr proven"
    and rest: "(case fin of
       None \<Rightarrow> Inr 1
     | Some fin \<Rightarrow>
         rbind (get_int d ''l2_block_number'') (\<lambda>n.
         if fin < n then Inr 1
         else rbind (dict_get d ''l1_finalized_block_number'') (\<lambda>done_at.
           if done_at \<noteq> JNull then Inr 5
           else rbind (dict_get d ''l1_proven_block_number'') (\<lambda>proven_at.
             if proven_at = JNull then Inr 2
             else case proven of
                    Some t \<Rightarrow> Inr (if now < t + e * 86400 then 3 else 4)
                  | None \<Rightarrow> Inr 4)))) = Inr s"
    unfolding determine_op_bedrock_withdrawal_state_def rbind_Inr_iff dict_get_Inr by blast
  have time: "proof_time v d = proven"
  proof (cases "truthy ts")
    case True
    with proven obtain u t where "as_str ts = Inr u" "from_iso v u = Inr t" "proven = Some t" by (auto simp: rbind_Inr_iff)
    with truthy_as_str [OF True] ts show ?thesis by (auto simp: proof_time_def jget_def)
  next
    case False
    with proven ts show ?thesis by (cases ts) (auto simp: proof_time_def jget_def)
  qed
  show ?thesis
  proof (cases fin)
    case None
    with rest show ?thesis by (simp add: stage_def)
  next
    case (Some f)
    with rest obtain n where "map_of d ''l2_block_number'' = Some (JInt n)"
      by (auto simp: rbind_Inr_iff get_int_def elim: as_int.elims)
    with rest Some time show ?thesis
      by (auto simp: rbind_Inr_iff get_int_def jget_def stage_def split: if_split_asm option.split)
  qed
qed

text \<open>A withdrawal goes on when more blocks are finalized, time passes and it is proven and finalized; what
  happened is not undone.\<close>

definition goes_on :: "jdict \<Rightarrow> jdict \<Rightarrow> bool" where
  "goes_on d d' \<longleftrightarrow>
     jget d' ''l2_block_number'' = jget d ''l2_block_number'' \<and>
     (jget d ''l1_finalized_block_number'' \<noteq> JNull \<longrightarrow> jget d' ''l1_finalized_block_number'' \<noteq> JNull) \<and>
     (jget d ''l1_proven_block_number'' \<noteq> JNull \<longrightarrow>
        jget d' ''l1_proven_block_number'' \<noteq> JNull \<and>
        jget d' ''l1_proven_block_timestamp'' = jget d ''l1_proven_block_timestamp'')"

text \<open>C35: the state of a withdrawal never goes back.\<close>

theorem withdrawal_state_monotone:
  assumes "determine_op_bedrock_withdrawal_state v now d fin e = Inr s"
    and "determine_op_bedrock_withdrawal_state v now' d' fin' e = Inr s'"
    and "now \<le> now'" and "\<And>f. fin = Some f \<Longrightarrow> \<exists>f'. fin' = Some f' \<and> f \<le> f'" and "goes_on d d'"
  shows "s \<le> s'"
proof (cases fin)
  case None
  with state_stage [OF assms(1)] have "s = 1" by (simp add: stage_def)
  then show ?thesis using state_stage [OF assms(2)] by (auto simp: stage_def split: option.split)
next
  case (Some f)
  from assms(4) [OF Some] obtain f' where f': "fin' = Some f'" "f \<le> f'" by blast
  show ?thesis
  proof (cases "jget d ''l1_proven_block_number'' = JNull")
    case True
    with assms(5) f' Some show ?thesis
      by (auto simp: state_stage [OF assms(1)] state_stage [OF assms(2)] stage_def goes_on_def split: option.split)
  next
    case False
    with assms(5) have "proof_time v d' = proof_time v d" by (simp add: proof_time_def goes_on_def)
    with False assms(3,5) f' Some show ?thesis
      by (auto simp: state_stage [OF assms(1)] state_stage [OF assms(2)] stage_def goes_on_def split: option.split)
  qed
qed

definition sample_view :: view_env where
  "sample_view = \<lparr>fixed6 = (\<lambda>n d. int_str n @ ''.000000''), from_iso = (\<lambda>s. Inr 1000)\<rparr>"

definition sample_withdrawal :: "json \<Rightarrow> json \<Rightarrow> jdict" where
  "sample_withdrawal proven final = [(''l2_block_number'', JInt 7), (''l1_proven_block_number'', proven),
     (''l1_proven_block_timestamp'', JStr ''t''), (''l1_finalized_block_number'', final)]"

theorem withdrawal_state_monotone_witness:
  "\<exists>s s'. determine_op_bedrock_withdrawal_state sample_view 1000 (sample_withdrawal (JInt 9) JNull) (Some 7) 1 = Inr s \<and>
     determine_op_bedrock_withdrawal_state sample_view 87400 (sample_withdrawal (JInt 9) JNull) (Some 8) 1 = Inr s' \<and>
     s \<le> s' \<and> s = 3"
proof -
  let ?d = "sample_withdrawal (JInt 9) JNull"
  have "determine_op_bedrock_withdrawal_state sample_view 1000 ?d (Some 7) 1 = Inr 3"
    and "determine_op_bedrock_withdrawal_state sample_view 87400 ?d (Some 8) 1 = Inr 4"
    by (simp_all add: determine_op_bedrock_withdrawal_state_def sample_withdrawal_def sample_view_def get_int_def dict_get_def)
  with withdrawal_state_monotone [OF this] show ?thesis by (simp add: goes_on_def)
qed

text \<open>Switching the compatibility off has no effect on withdrawals.\<close>

lemma l2_to_l1_ignores_compatibility:
  "parse_bridge_l2_to_l1_transaction v now (p\<lparr>bp_bridge_compatible := Some False\<rparr>) =
   parse_bridge_l2_to_l1_transaction v now (p\<lparr>bp_bridge_compatible := Some True\<rparr>)"
  by (simp add: parse_bridge_l2_to_l1_transaction_def fun_eq_iff)

text \<open>Deposits of Mantle are never given the fields of the old version.\<close>

lemma mantle_deposits_ignore_compatibility:
  "bp_rollup_type p = ''op'' \<Longrightarrow> bp_chain p = ''mantle'' \<Longrightarrow>
   parse_bridge_l1_to_l2_transaction v (p\<lparr>bp_bridge_compatible := Some True\<rparr>) t i =
   with_tokens t (format_mantle_token_info v t i L1)"
  by (simp add: parse_bridge_l1_to_l2_transaction_def parse_mantle_bridge_l1_to_l2_transaction_def)

section \<open>Formatting\<close>

text \<open>Only zeros after the point and the point itself are stripped: the integer part is kept as it is.\<close>

lemma rstrip_append:
  "rstrip_char c (s @ t) = (if \<forall>d \<in> set t. d = c then rstrip_char c s else s @ rstrip_char c t)"
  by (auto simp: rstrip_char_def dropWhile_append dropWhile_eq_Nil_conv)

lemma format_value_keeps_integer:
  assumes shown: "fixed6 v amount decimals = i @ ''.'' @ f"
    and "i \<noteq> []" and "CHR ''.'' \<notin> set i" and "CHR ''.'' \<notin> set f"
  shows "format_value v amount decimals =
    (if \<forall>d \<in> set f. d = CHR ''0'' then i else i @ ''.'' @ rstrip_char CHR ''0'' f)"
proof (cases "\<forall>d \<in> set f. d = CHR ''0''")
  case True
  have "rstrip_char CHR ''0'' (i @ ''.'' @ f) = i @ ''.''"
    using True rstrip_append [of "CHR ''0''" "i @ ''.''" f] by (simp add: rstrip_char_def)
  moreover have "rstrip_char CHR ''.'' (i @ ''.'') = i"
    using assms(2,3) by (cases i rule: rev_cases) (auto simp: rstrip_char_def)
  ultimately show ?thesis using True assms(2) by (simp add: format_value_def shown Let_def)
next
  case False
  let ?f = "rstrip_char CHR ''0'' f"
  have strip: "rstrip_char CHR ''0'' (i @ ''.'' @ f) = i @ ''.'' @ ?f"
    using rstrip_append [of "CHR ''0''" "i @ ''.''" f] unfolding if_not_P [OF False] by simp
  have "set ?f \<subseteq> set f" unfolding rstrip_char_def by (auto dest: set_dropWhileD)
  moreover from False have "?f \<noteq> []" by (auto simp: rstrip_char_def dropWhile_eq_Nil_conv)
  then obtain ys c where f: "?f = ys @ [c]" by (cases ?f rule: rev_cases) auto
  ultimately have "c \<noteq> CHR ''.''" using assms(4) by auto
  then have "rstrip_char CHR ''.'' (i @ ''.'' @ ?f) = i @ ''.'' @ ?f"
    unfolding f by (simp add: rstrip_char_def)
  with strip False show ?thesis by (simp add: format_value_def shown Let_def)
qed

end
