(* ===== verification/FileExporters.thy ===== *)
theory FileExporters
  imports Exporters
begin

text \<open>
  \<open>indexer/exporters/json_file_item_exporter.py\<close>, \<open>csv_file_item_exporter.py\<close>
  and the parts of \<open>common/utils/file_utils.py\<close> they use. A file system is a list
  of files, each with its directory, its name and its lines; a line is the dictionary it is the text of, and
  the header of a CSV file is left out. Operations of the file system do not fail. \<open>hour_text\<close> is the hour of
  a timestamp, as in \<open>2024-01-31_13:00:00\<close>.
\<close>

section \<open>Files\<close>

type_synonym file_name = "string \<times> string"
type_synonym files = "(file_name \<times> jdict list) list"

definition endswith :: "string \<Rightarrow> string \<Rightarrow> bool" where
  "endswith s e \<longleftrightarrow> startswith (rev s) (rev e)"

text \<open>\<open>glob\<close> with \<open>*.tmp\<close> in a directory finds no hidden files.\<close>

definition smart_delete_tmp :: "string \<Rightarrow> files \<Rightarrow> files" where
  "smart_delete_tmp dir fs =
     filter (\<lambda>((d, n), _). \<not> (d = dir \<and> endswith n ''.tmp'' \<and> \<not> startswith n ''.'')) fs"

definition smart_delete :: "file_name \<Rightarrow> files \<Rightarrow> files" where
  "smart_delete f fs = filter (\<lambda>(g, _). g \<noteq> f) fs"

definition write_lines :: "file_name \<Rightarrow> jdict list \<Rightarrow> files \<Rightarrow> files" where
  "write_lines f ls fs = AList.update f ls fs"

definition append_lines :: "file_name \<Rightarrow> jdict list \<Rightarrow> files \<Rightarrow> files" where
  "append_lines f ls fs = AList.update f ((case map_of fs f of None \<Rightarrow> [] | Some old \<Rightarrow> old) @ ls) fs"

definition scan_tmp_files :: "files \<Rightarrow> file_name list" where
  "scan_tmp_files fs = filter (\<lambda>(d, n). endswith (d @ ''/'' @ n) ''tmp'') (map fst fs)"

section \<open>Writing a batch\<close>

datatype format = JSON_FILE | CSV_FILE

definition extension :: "format \<Rightarrow> string" where
  "extension f = (case f of JSON_FILE \<Rightarrow> ''.json'' | CSV_FILE \<Rightarrow> ''.csv'')"

record file_exporter =
  fe_format :: format
  fe_dir :: string
  fe_partition_size :: nat

text \<open>\<open>direction.replace("jsonfile://", "")\<close> for an output that begins so, and nowhere else holds it.\<close>

definition new_file_exporter :: "format \<Rightarrow> string \<Rightarrow> nat option \<Rightarrow> file_exporter" where
  "new_file_exporter f direction partition_size =
     \<lparr>fe_format = f,
      fe_dir = drop (length (case f of JSON_FILE \<Rightarrow> ''jsonfile://'' | CSV_FILE \<Rightarrow> ''csvfile://'')) direction,
      fe_partition_size = (case partition_size of
          Some n \<Rightarrow> if n \<noteq> 0 then n else (case f of JSON_FILE \<Rightarrow> 50000 | CSV_FILE \<Rightarrow> 10000)
        | None \<Rightarrow> (case f of JSON_FILE \<Rightarrow> 50000 | CSV_FILE \<Rightarrow> 10000))\<rparr>"

fun value_text :: "json \<Rightarrow> string" where
  "value_text (JInt n) = int_str n"
| "value_text (JStr s) = s"
| "value_text (JBool b) = (if b then ''True'' else ''False'')"
| "value_text _ = ''None''"

definition type_dir :: "file_exporter \<Rightarrow> string \<Rightarrow> string" where
  "type_dir e item_type = fe_dir e @ ''/'' @ item_type"

definition tmp_file_name :: "file_exporter \<Rightarrow> string \<Rightarrow> domain_item \<Rightarrow> domain_item \<Rightarrow> string" where
  "tmp_file_name e item_type first final =
     item_type @
     (case map_of (di_data first) ''timestamp'' of
        Some t \<Rightarrow> ''-'' @ value_text t @ ''_'' @ value_text (jget (di_data final) ''timestamp'')
      | None \<Rightarrow>
          (case map_of (di_data first) ''block_timestamp'' of
             Some t \<Rightarrow> ''-'' @ value_text t @ ''_'' @ value_text (jget (di_data final) ''block_timestamp'')
           | None \<Rightarrow> []))
     @ extension (fe_format e) @ ''.tmp''"

text \<open>The type is a class, whose text (\<open><class 'indexer.domain.block.Block'>\<close>) names the directory and the file.
  All temporary files of the type are deleted first.\<close>

definition write_items_to_tmp_file ::
    "file_exporter \<Rightarrow> (string \<Rightarrow> string) \<Rightarrow> string \<Rightarrow> domain_item list \<Rightarrow> files \<Rightarrow> files" where
  "write_items_to_tmp_file e class_text item_type items fs =
     (let c = class_text item_type
      in write_lines (type_dir e c, tmp_file_name e c (hd items) (last items)) (map di_data items)
           (smart_delete_tmp (type_dir e c) fs))"

definition file_export_items ::
    "file_exporter \<Rightarrow> (string \<Rightarrow> string) \<Rightarrow> domain_item list \<Rightarrow> files \<Rightarrow> files" where
  "file_export_items e class_text items fs =
     fold (\<lambda>(item_type, g). if g = [] then id else write_items_to_tmp_file e class_text item_type g)
       (group_by_item_type items) fs"

section \<open>Merging the temporary JSON files\<close>

text \<open>Only for JSON: the CSV exporter reads its files back with pandas, which is not part of the program.\<close>

definition line_timestamp :: "jdict \<Rightarrow> json option" where
  "line_timestamp d =
     (let t = (case map_of d ''timestamp'' of Some t \<Rightarrow> t
               | None \<Rightarrow> (case map_of d ''block_timestamp'' of Some t \<Rightarrow> t | None \<Rightarrow> JNull))
      in if t = JNull then None else Some t)"

definition in_dir :: "string \<Rightarrow> files \<Rightarrow> string list" where
  "in_dir dir fs = map (snd \<circ> fst) (filter (\<lambda>((d, _), _). d = dir) fs)"

text \<open>The name of the model is the last part of the directory of the file.\<close>

definition model_of :: "string \<Rightarrow> string" where
  "model_of dir = last (str_split CHR ''/'' dir)"

definition numbered :: "string \<Rightarrow> nat \<Rightarrow> string \<Rightarrow> string" where
  "numbered base k ext = (if k > 1 then base @ ''_'' @ nat_str (k - 1) @ ext else base @ ext)"

definition to_file :: "file_exporter \<Rightarrow> (json \<Rightarrow> string) \<Rightarrow> file_name \<Rightarrow> files \<Rightarrow> jdict \<Rightarrow> file_name" where
  "to_file e hour_text tmp_file fs d =
     (let model = model_of (fst tmp_file); dir = type_dir e model
      in (dir,
          case line_timestamp d of
            Some t \<Rightarrow>
              (let base = model @ ''-'' @ hour_text t
               in numbered base (length (filter (\<lambda>n. startswith n base) (in_dir dir fs))) ''.json'')
          | None \<Rightarrow> numbered model (length (in_dir (fst tmp_file) fs)) ''.json''))"

definition merge_tmp_file :: "file_exporter \<Rightarrow> (json \<Rightarrow> string) \<Rightarrow> file_name \<Rightarrow> files \<Rightarrow> files" where
  "merge_tmp_file e hour_text tmp_file fs =
     (case map_of fs tmp_file of
        None \<Rightarrow> fs
      | Some data \<Rightarrow>
          smart_delete tmp_file
            (fold (\<lambda>(f, ls). append_lines f ls) (group_on (to_file e hour_text tmp_file fs) data) fs))"

definition merge_tmp_files :: "file_exporter \<Rightarrow> (json \<Rightarrow> string) \<Rightarrow> files \<Rightarrow> files" where
  "merge_tmp_files e hour_text fs = fold (merge_tmp_file e hour_text) (scan_tmp_files fs) fs"

text \<open>A file that is too long is split, line by line for JSON, by slices for CSV; both calls are commented out.\<close>

definition check_file_lines :: "format \<Rightarrow> nat \<Rightarrow> nat \<Rightarrow> bool" where
  "check_file_lines f psize wc = (case f of JSON_FILE \<Rightarrow> wc > psize | CSV_FILE \<Rightarrow> int wc - 1 > int psize)"

definition split_json :: "nat \<Rightarrow> 'a list \<Rightarrow> 'a list list" where
  "split_json psize ls =
     map (\<lambda>k. map snd (filter (\<lambda>(i, _). i div psize = k) (enumerate 0 ls))) [0..<length ls div psize + 1]"

definition split_csv :: "nat \<Rightarrow> 'a list \<Rightarrow> 'a list list" where
  "split_csv psize ls =
     map (\<lambda>k. Prelude.slice (k * psize) ((k + 1) * psize) ls) [0..<length ls div psize + 1]"

section \<open>Nothing is lost by merging\<close>

definition file_lines :: "(file_name \<Rightarrow> bool) \<Rightarrow> files \<Rightarrow> jdict multiset" where
  "file_lines P fs = sum_list (map (\<lambda>(f, ls). if P f then mset ls else {#}) fs)"

lemma file_lines_update:
  assumes "distinct (map fst fs)"
  shows "file_lines P (AList.update f ls fs) + (if P f then mset (case map_of fs f of None \<Rightarrow> [] | Some old \<Rightarrow> old) else {#}) =
    file_lines P fs + (if P f then mset ls else {#})"
  using assms by (induction fs) (auto simp: file_lines_def)

lemma append_lines_lines:
  assumes "distinct (map fst fs)"
  shows "file_lines P (append_lines f ls fs) = file_lines P fs + (if P f then mset ls else {#})"
proof -
  let ?old = "case map_of fs f of None \<Rightarrow> [] | Some old \<Rightarrow> old"
  from file_lines_update [OF assms, of P f "?old @ ls"] show ?thesis
    by (auto simp: append_lines_def split: if_splits)
qed

lemma append_lines_distinct: "distinct (map fst fs) \<Longrightarrow> distinct (map fst (append_lines f ls fs))"
  unfolding append_lines_def by (rule distinct_upd)

lemma fold_append_lines:
  assumes "distinct (map fst fs)"
  shows "distinct (map fst (fold (\<lambda>(f, ls). append_lines f ls) groups fs)) \<and>
    file_lines P (fold (\<lambda>(f, ls). append_lines f ls) groups fs) =
      file_lines P fs + sum_list (map (\<lambda>(f, ls). if P f then mset ls else {#}) groups)"
  using assms
proof (induction groups arbitrary: fs)
  case (Cons g groups)
  obtain f ls where g: "g = (f, ls)" by (cases g)
  from Cons.IH [OF append_lines_distinct [OF Cons.prems, of f ls]] show ?case
    by (simp add: g append_lines_lines [OF Cons.prems])
qed simp

lemma group_on_all: "sum_list (map (\<lambda>(k, g). mset g) (group_on f xs)) = mset xs"
proof -
  have step: "sum_list (map (\<lambda>(k, g). mset g) (dict_append k x d)) = sum_list (map (\<lambda>(k, g). mset g) d) + {#x#}"
    if "distinct (map fst d)" for k x and d :: "('b \<times> 'a list) list"
    using that unfolding dict_append_def by (induction d) auto
  have "distinct (map fst d) \<Longrightarrow> sum_list (map (\<lambda>(k, g). mset g) (fold (\<lambda>x. dict_append (f x) x) ys d)) =
      sum_list (map (\<lambda>(k, g). mset g) d) + mset ys" for ys and d :: "('b \<times> 'a list) list"
    by (induction ys arbitrary: d) (simp_all add: step distinct_dict_append)
  from this [of "[]" xs] show ?thesis by (simp add: group_on_def)
qed

lemma file_lines_delete: "\<not> P f \<Longrightarrow> file_lines P (smart_delete f fs) = file_lines P fs"
  by (induction fs) (auto simp: file_lines_def smart_delete_def)

definition is_tmp :: "file_name \<Rightarrow> bool" where
  "is_tmp f \<longleftrightarrow> endswith (fst f @ ''/'' @ snd f) ''tmp''"

lemma endswith_append: "length e \<le> length t \<Longrightarrow> endswith (s @ t) e = endswith t e"
  by (simp add: endswith_def startswith_def)

lemma to_file_not_tmp: "\<not> is_tmp (to_file e hour_text tmp_file fs d)"
proof -
  have num: "\<exists>b. numbered base k ext = b @ ext" for base k ext by (auto simp: numbered_def)
  have "\<exists>b. snd (to_file e hour_text tmp_file fs d) = b @ ''.json''"
    by (simp add: to_file_def Let_def num split: option.split)
  then obtain b where b: "snd (to_file e hour_text tmp_file fs d) = b @ ''.json''" ..
  have "endswith (x @ b @ ''.json'') ''tmp'' = endswith ''.json'' ''tmp''" for x
    using endswith_append [of "''tmp''" "''.json''" "x @ b"] by simp
  moreover have "\<not> endswith ''.json'' ''tmp''" by (simp add: endswith_def startswith_def)
  ultimately show ?thesis unfolding is_tmp_def b by (metis append_assoc)
qed

lemma merge_tmp_file_lines:
  assumes "distinct (map fst fs)" and "is_tmp t"
  shows "distinct (map fst (merge_tmp_file e hour_text t fs)) \<and>
    file_lines (\<lambda>f. \<not> is_tmp f) (merge_tmp_file e hour_text t fs) =
      file_lines (\<lambda>f. \<not> is_tmp f) fs + mset (case map_of fs t of None \<Rightarrow> [] | Some ls \<Rightarrow> ls)"
proof (cases "map_of fs t")
  case None
  with assms(1) show ?thesis by (simp add: merge_tmp_file_def)
next
  case (Some data)
  let ?groups = "group_on (to_file e hour_text t fs) data"
  let ?fs = "fold (\<lambda>(f, ls). append_lines f ls) ?groups fs"
  have "\<not> is_tmp f" if "(f, ls) \<in> set ?groups" for f ls
    using that by (auto simp: group_on_member simp del: split_paired_All dest: notE [OF to_file_not_tmp])
  then have groups: "map (\<lambda>(f, ls). if \<not> is_tmp f then mset ls else {#}) ?groups = map (\<lambda>(f, ls). mset ls) ?groups"
    by (intro map_cong) auto
  note all = fold_append_lines [OF assms(1), of "?groups" "\<lambda>f. \<not> is_tmp f"]
  have "distinct (map fst (smart_delete t ?fs))"
    using conjunct1 [OF all] by (simp add: smart_delete_def distinct_map_filter)
  moreover have "file_lines (\<lambda>f. \<not> is_tmp f) (smart_delete t ?fs) = file_lines (\<lambda>f. \<not> is_tmp f) fs + mset data"
    using conjunct2 [OF all] assms(2) by (simp add: file_lines_delete groups group_on_all)
  ultimately show ?thesis by (simp add: merge_tmp_file_def Some)
qed

lemma merge_tmp_file_other: "is_tmp g \<Longrightarrow> g \<noteq> t \<Longrightarrow> map_of (merge_tmp_file e hour_text t fs) g = map_of fs g"
proof -
  assume g: "is_tmp g" "g \<noteq> t"
  have del: "map_of (smart_delete t fs') g = map_of fs' g" for fs' :: files
    using g(2) by (induction fs') (auto simp: smart_delete_def)
  have app: "(\<forall>(f, ls) \<in> set groups. f \<noteq> g) \<Longrightarrow> map_of (fold (\<lambda>(f, ls). append_lines f ls) groups fs') g = map_of fs' g"
    for groups and fs' :: files
    by (induction groups arbitrary: fs') (auto simp: append_lines_def map_of_upd)
  have "f \<noteq> g" if "(f, ls) \<in> set (group_on (to_file e hour_text t fs) data)" for f ls data
    using that to_file_not_tmp [of e hour_text t fs] g(1) by (auto simp: group_on_member)
  then have "map_of (fold (\<lambda>(f, ls). append_lines f ls) (group_on (to_file e hour_text t fs) data) fs) g = map_of fs g"
    for data by (intro app) blast
  then show ?thesis by (simp add: merge_tmp_file_def del split: option.split)
qed

text \<open>Merging the temporary files loses no line and makes none up: what is in the other files afterwards is
  what was in them and in the temporary files.\<close>

lemma merging_keeps_lines:
  assumes "distinct (map fst fs)"
  shows "file_lines (\<lambda>f. \<not> is_tmp f) (merge_tmp_files e hour_text fs) = file_lines (\<lambda>f. True) fs"
proof -
  have "file_lines (\<lambda>f. \<not> is_tmp f) (fold (merge_tmp_file e hour_text) ts fs) =
      file_lines (\<lambda>f. \<not> is_tmp f) fs + sum_list (map (\<lambda>t. mset (case map_of fs t of None \<Rightarrow> [] | Some ls \<Rightarrow> ls)) ts)"
    if "distinct (map fst fs)" "distinct ts" "\<forall>t \<in> set ts. is_tmp t" for ts and fs :: files
    using that
  proof (induction ts arbitrary: fs)
    case (Cons t ts)
    then have t: "is_tmp t" by simp
    note one = merge_tmp_file_lines [OF Cons.prems(1) t, of e hour_text]
    have "map_of (merge_tmp_file e hour_text t fs) u = map_of fs u" if "u \<in> set ts" for u
      using that Cons.prems by (intro merge_tmp_file_other) auto
    then have same: "map (\<lambda>u. mset (case map_of (merge_tmp_file e hour_text t fs) u of None \<Rightarrow> [] | Some ls \<Rightarrow> ls)) ts =
        map (\<lambda>u. mset (case map_of fs u of None \<Rightarrow> [] | Some ls \<Rightarrow> ls)) ts" by simp
    from Cons.IH [OF conjunct1 [OF one]] Cons.prems(2,3) one show ?case by (simp add: same)
  qed simp
  from this [OF assms, of "scan_tmp_files fs"] assms
  have "file_lines (\<lambda>f. \<not> is_tmp f) (merge_tmp_files e hour_text fs) = file_lines (\<lambda>f. \<not> is_tmp f) fs +
      sum_list (map (\<lambda>t. mset (case map_of fs t of None \<Rightarrow> [] | Some ls \<Rightarrow> ls)) (scan_tmp_files fs))"
    by (simp add: merge_tmp_files_def scan_tmp_files_def is_tmp_def case_prod_beta distinct_filter)
  also have "sum_list (map (\<lambda>t. mset (case map_of fs t of None \<Rightarrow> [] | Some ls \<Rightarrow> ls)) (scan_tmp_files fs)) =
      sum_list (map (\<lambda>(f, ls). if is_tmp f then mset ls else {#}) fs)"
  proof -
    have "sum_list (map (\<lambda>t. mset (case map_of gs t of None \<Rightarrow> [] | Some ls \<Rightarrow> ls)) (filter is_tmp (map fst fs))) =
        sum_list (map (\<lambda>(f, ls). if is_tmp f then mset ls else {#}) fs)"
      if "\<forall>(f, ls) \<in> set fs. map_of gs f = Some ls" for fs gs :: files
      using that by (induction fs) auto
    moreover have "\<forall>(f, ls) \<in> set fs. map_of fs f = Some ls" using assms by auto
    moreover have "scan_tmp_files fs = filter is_tmp (map fst fs)"
      by (simp add: scan_tmp_files_def is_tmp_def [abs_def] case_prod_beta')
    ultimately show ?thesis by simp
  qed
  also have "file_lines (\<lambda>f. \<not> is_tmp f) fs + \<dots> = file_lines (\<lambda>f. True) fs"
    by (induction fs) (auto simp: file_lines_def ac_simps)
  finally show ?thesis .
qed

section \<open>Only the last batch survives\<close>

lemma keys_write: "fst ` set (write_lines f ls fs) = insert f (fst ` set fs)"
  by (simp add: write_lines_def dom_update [symmetric] dom_map_of_conv_image_fst [symmetric] update_conv')

text \<open>The temporary files \<open>glob\<close> finds in a directory.\<close>

definition tmp_names :: "string \<Rightarrow> files \<Rightarrow> string set" where
  "tmp_names dir fs = {n. (dir, n) \<in> fst ` set fs \<and> endswith n ''.tmp'' \<and> \<not> startswith n ''.''}"

lemma tmp_names_write:
  "tmp_names dir (write_items_to_tmp_file e class_text c items fs) \<subseteq>
    (if dir = type_dir e (class_text c)
     then {tmp_file_name e (class_text c) (hd items) (last items)} else tmp_names dir fs)"
  by (auto simp: tmp_names_def write_items_to_tmp_file_def Let_def keys_write smart_delete_tmp_def)

lemma type_dir_inj [simp]: "type_dir e c = type_dir e d \<longleftrightarrow> c = d"
  by (simp add: type_dir_def)

lemma fold_write_other:
  assumes "\<forall>(d, g) \<in> set groups. class_text d \<noteq> class_text c"
  shows "tmp_names (type_dir e (class_text c))
      (fold (\<lambda>(d, g). if g = [] then id else write_items_to_tmp_file e class_text d g) groups fs) \<subseteq>
    tmp_names (type_dir e (class_text c)) fs"
  using assms
proof (induction groups arbitrary: fs)
  case (Cons p groups)
  obtain d g where p: "p = (d, g)" by (cases p)
  from Cons.prems have "class_text d \<noteq> class_text c" by (simp add: p)
  then have "tmp_names (type_dir e (class_text c)) (write_items_to_tmp_file e class_text d g fs) \<subseteq>
      tmp_names (type_dir e (class_text c)) fs"
    using tmp_names_write [of "type_dir e (class_text c)" e class_text d g fs] by (auto split: if_splits)
  with Cons.IH [of fs] Cons.IH [of "write_items_to_tmp_file e class_text d g fs"] Cons.prems show ?case
    by (auto simp: p)
qed simp

text \<open>After a batch with items of a class has been exported, the only temporary file of the class is the one
  of this batch, whatever earlier batches left: without \<open>merge_tmp_files\<close>, which nothing calls, only
  the last batch survives.\<close>

lemma only_last_batch_survives:
  assumes "inj_on class_text (di_type ` set items)" and "c \<in> di_type ` set items"
  defines "g \<equiv> filter (\<lambda>x. di_type x = c) items"
  shows "tmp_names (type_dir e (class_text c)) (file_export_items e class_text items fs) \<subseteq>
    {tmp_file_name e (class_text c) (hd g) (last g)}"
proof -
  let ?groups = "group_on di_type items"
  have "g \<noteq> []" using assms(2) by (auto simp: g_def filter_empty_conv)
  have "(c, g) \<in> set ?groups" using assms(2) by (simp add: g_def group_on_member)
  then obtain as bs where split: "?groups = as @ (c, g) # bs" by (meson split_list)
  have "c \<notin> fst ` set bs"
    using group_on_distinct [of di_type items] by (simp add: split)
  have others: "\<forall>(d, h) \<in> set bs. class_text d \<noteq> class_text c"
  proof (clarify)
    fix d h
    assume d: "(d, h) \<in> set bs" and eq: "class_text d = class_text c"
    have "d \<in> di_type ` set items"
      using d group_on_member [of d h di_type items] unfolding split by auto
    with assms(1,2) eq have "d = c" by (auto dest: inj_onD)
    with d \<open>c \<notin> fst ` set bs\<close> show False by force
  qed
  let ?step = "\<lambda>(d, g). if g = [] then id else write_items_to_tmp_file e class_text d g"
  have "file_export_items e class_text items fs =
      fold ?step bs (write_items_to_tmp_file e class_text c g (fold ?step as fs))"
    using \<open>g \<noteq> []\<close> by (simp add: file_export_items_def group_by_item_type_def split)
  then show ?thesis
    using fold_write_other [OF others, of e "write_items_to_tmp_file e class_text c g (fold ?step as fs)"]
      tmp_names_write [of "type_dir e (class_text c)" e class_text c g "fold ?step as fs"] by simp
qed

section \<open>The two ways of splitting agree\<close>

lemma slice_snoc:
  "Prelude.slice lo hi (xs @ [x]) = Prelude.slice lo hi xs @ (if lo \<le> length xs \<and> length xs < hi then [x] else [])"
  by (auto simp: Prelude.slice_def)

lemma filter_enumerate:
  "map snd (filter (\<lambda>(i, _). lo \<le> i \<and> i < hi) (enumerate 0 xs)) = Prelude.slice lo hi xs"
  by (induction xs rule: rev_induct) (simp_all add: enumerate_append_eq slice_snoc)

lemma split_json_csv:
  assumes "psize > 0"
  shows "split_json psize ls = split_csv psize ls"
proof -
  have "i div psize = k \<longleftrightarrow> k * psize \<le> i \<and> i < (k + 1) * psize" for i k
    using assms by (metis div_less_iff_less_mult less_Suc_eq_le le_less less_eq_div_iff_mult_less_eq Suc_eq_plus1 linorder_not_less)
  then show ?thesis by (simp add: split_json_def split_csv_def filter_enumerate [symmetric])
qed

section \<open>Instances\<close>

definition sample_files :: files where
  "sample_files =
     [((''out/block'', ''block-1_2.json.tmp''), [[(''timestamp'', JInt 1)], [(''timestamp'', JInt 2)]]),
      ((''out/block'', ''block-7.json''), [[(''timestamp'', JInt 0)]])]"

theorem merging_keeps_lines_witness:
  "file_lines (\<lambda>f. \<not> is_tmp f) (merge_tmp_files (new_file_exporter JSON_FILE ''jsonfile://out'' None) (\<lambda>_. ''7'') sample_files) =
   file_lines (\<lambda>f. True) sample_files"
  by (rule merging_keeps_lines) (simp add: sample_files_def)

definition sample_batch :: "int \<Rightarrow> domain_item list" where
  "sample_batch n = [\<lparr>di_type = ''block'', di_data = [(''timestamp'', JInt n)], di_receipt = None\<rparr>]"

lemma digit_two: "nat_str 2 = ''2''"
  by code_simp

theorem only_last_batch_survives_witness:
  "tmp_names ''out/block''
     (file_export_items (new_file_exporter JSON_FILE ''jsonfile://out'' None) id (sample_batch 2)
       (file_export_items (new_file_exporter JSON_FILE ''jsonfile://out'' None) id (sample_batch 1) [])) \<subseteq>
   {''block-2_2.json.tmp''}"
  using only_last_batch_survives [of id "sample_batch 2" "''block''" "new_file_exporter JSON_FILE ''jsonfile://out'' None"
      "file_export_items (new_file_exporter JSON_FILE ''jsonfile://out'' None) id (sample_batch 1) []"]
  by (simp add: sample_batch_def type_dir_def tmp_file_name_def new_file_exporter_def extension_def jget_def int_str_def digit_two)

end
