(* ===== verification/Entities.thy ===== *)
theory Entities
  imports Scheduler Wire
begin

unbundle bit_operations_syntax

text \<open>
  What a run of the stream is asked for: \<open>enumeration/entity_type.py\<close>, the choice of the output types in
  \<open>cli/stream.py\<close>, the names of the types (\<open>common/utils/format_utils.py\<close>), the job classes of the program
  with what they depend on and output, and the token cache the scheduler sets up. A class is its name. A value
  of the flags is a natural number. \<open>BaseJob.__subclasses__\<close> is collected in a set, so the theorem about the
  jobs of the program holds for every order of them.
\<close>

section \<open>Names of types\<close>

definition is_upper :: "char \<Rightarrow> bool" where
  "is_upper c \<longleftrightarrow> 65 \<le> (of_char c :: int) \<and> (of_char c :: int) \<le> 90"

definition is_lower :: "char \<Rightarrow> bool" where
  "is_lower c \<longleftrightarrow> 97 \<le> (of_char c :: int) \<and> (of_char c :: int) \<le> 122"

definition upper_char :: "char \<Rightarrow> char" where
  "upper_char c = (if is_lower c then char_of ((of_char c :: int) - 32) else c)"

definition str_upper :: "string \<Rightarrow> string" where
  "str_upper s = map upper_char s"

text \<open>\<open>re.sub("(.)([A-Z][a-z]+)", r"\1_\2", name)\<close>\<close>

function break_words :: "string \<Rightarrow> string" where
  "break_words (c # u # l # r) =
     (if c \<noteq> CHR 0x0A \<and> is_upper u \<and> is_lower l
      then c # CHR ''_'' # u # l # takeWhile is_lower r @ break_words (dropWhile is_lower r)
      else c # break_words (u # l # r))"
| "break_words [] = []"
| "break_words [c] = [c]"
| "break_words [c, d] = [c, d]"
  by pat_completeness auto
termination
  by (relation "measure length") (auto simp: less_Suc_eq_le le_SucI length_dropWhile_le)

text \<open>\<open>re.sub("([a-z0-9])([A-Z])", r"\1_\2", s)\<close>\<close>

fun break_humps :: "string \<Rightarrow> string" where
  "break_humps (a # b # r) =
     (if (is_lower a \<or> is_digit a) \<and> is_upper b then a # CHR ''_'' # b # break_humps r
      else a # break_humps (b # r))"
| "break_humps s = s"

definition to_snake_case :: "string \<Rightarrow> string" where
  "to_snake_case name = str_lower (break_humps (break_words name))"

section \<open>Entity types\<close>

datatype entity_type = EXPLORER_BASE | EXPLORER_TOKEN | EXPLORER_TRACE | BRIDGE | UNISWAP_V3 | USER_OPS | EXPLORER

fun flag :: "entity_type \<Rightarrow> nat" where
  "flag EXPLORER_BASE = push_bit 0 1"
| "flag EXPLORER_TOKEN = push_bit 1 1"
| "flag EXPLORER_TRACE = push_bit 2 1"
| "flag BRIDGE = push_bit 3 1"
| "flag UNISWAP_V3 = push_bit 4 1"
| "flag USER_OPS = push_bit 5 1"
| "flag EXPLORER = push_bit 0 1 OR push_bit 1 1 OR push_bit 2 1"

text \<open>\<open>EntityType.__members__\<close>\<close>

definition entity_members :: "(string \<times> entity_type) list" where
  "entity_members = [(''EXPLORER_BASE'', EXPLORER_BASE), (''EXPLORER_TOKEN'', EXPLORER_TOKEN),
     (''EXPLORER_TRACE'', EXPLORER_TRACE), (''BRIDGE'', BRIDGE), (''UNISWAP_V3'', UNISWAP_V3),
     (''USER_OPS'', USER_OPS), (''EXPLORER'', EXPLORER)]"

definition combine_all_entity_types :: nat where
  "combine_all_entity_types = foldl (\<lambda>x (_, y). x OR flag y) 0 entity_members"

definition entity_filter_mode :: "nat \<Rightarrow> bool" where
  "entity_filter_mode entity_types \<longleftrightarrow> entity_types XOR flag BRIDGE = 0"

definition DEFAULT_COLLECTION :: "string list" where
  "DEFAULT_COLLECTION = [''EXPLORER_BASE'', ''EXPLORER_TOKEN'']"

fun join_with :: "char \<Rightarrow> string list \<Rightarrow> string" where
  "join_with c [] = []"
| "join_with c [s] = s"
| "join_with c (s # t # ss) = s @ [c] @ join_with c (t # ss)"

definition entity_names :: "string \<Rightarrow> string list" where
  "entity_names entity_types = map (\<lambda>entity. str_upper (str_strip entity)) (str_split CHR '','' entity_types)"

definition add_entity :: "nat \<Rightarrow> string \<Rightarrow> nat res" where
  "add_entity entities entity_type =
     (case map_of entity_members entity_type of
        Some e \<Rightarrow> Inr (entities OR flag e)
      | None \<Rightarrow> Inl (ValueError
          (entity_type @ '' is not an available entity type. Supply a comma-separated list of types from '' @
           join_with CHR '','' (map fst entity_members))))"

definition calculate_entity_value :: "string \<Rightarrow> nat res" where
  "calculate_entity_value entity_types = rfold add_entity 0 (entity_names entity_types)"

definition generate_output_types :: "nat \<Rightarrow> string list" where
  "generate_output_types entity_types =
     (if entity_types AND flag EXPLORER_BASE \<noteq> 0 then [''Block'', ''Transaction'', ''Log''] else [])
   @ (if entity_types AND flag EXPLORER_TOKEN \<noteq> 0
      then [''Token'', ''UpdateToken'', ''ERC20TokenTransfer'', ''ERC721TokenTransfer'', ''ERC1155TokenTransfer'',
            ''TokenBalance'', ''CurrentTokenBalance'',
            ''UpdateERC1155TokenIdDetail'', ''ERC1155TokenIdDetail'', ''UpdateERC721TokenIdDetail'',
            ''ERC721TokenIdDetail'', ''ERC721TokenIdChange''] else [])
   @ (if entity_types AND flag EXPLORER_TRACE \<noteq> 0
      then [''Trace'', ''Contract'', ''CoinBalance'', ''ContractInternalTransaction'', ''UpdateBlockInternalCount'']
      else [])
   @ (if entity_types AND flag UNISWAP_V3 \<noteq> 0
      then [''UniswapV3Pool'', ''UniswapV3Token'', ''AllFeatureValueRecordUniswapV3Pool'',
            ''AllFeatureValueRecordUniswapV3Token''] else [])
   @ (if entity_types AND flag USER_OPS \<noteq> 0 then [''UserOperationsResult''] else [])"

section \<open>What the command asks for\<close>

text \<open>\<open>Domain.get_all_domain_dict\<close>: the classes by the names of their types.\<close>

definition get_all_domain_dict :: "string list \<Rightarrow> (string \<times> string) list" where
  "get_all_domain_dict classes = fold (\<lambda>c. AList.update (to_snake_case c) c) classes []"

definition find_output_type :: "(string \<times> string) list \<Rightarrow> string \<Rightarrow> string res" where
  "find_output_type domain_dict output_type =
     (case map_of domain_dict output_type of
        None \<Rightarrow> Inl (OtherException (''Output type '' @ output_type @ '' is not supported''))
      | Some c \<Rightarrow> Inr c)"

text \<open>The classes of an explicit selection are a set; here they keep the order of the text.\<close>

definition stream_output_types :: "string list \<Rightarrow> string \<Rightarrow> string option \<Rightarrow> string list res" where
  "stream_output_types domains entity_types selected =
     (case selected of
        None \<Rightarrow> rbind (calculate_entity_value entity_types) (\<lambda>v. Inr (generate_output_types v))
      | Some names \<Rightarrow>
          rbind (rmap (find_output_type (get_all_domain_dict domains)) (str_split CHR '','' names)) (\<lambda>cs.
            if names = [] then Inl (OtherException ''No output types provided'') else Inr (remdups cs)))"

lemma selection_text_wrong:
  "calculate_entity_value ''EXPLORER_BASE | EXPLORER_TOKEN'' =
     Inl (ValueError (''EXPLORER_BASE | EXPLORER_TOKEN is not an available entity type. Supply a comma-separated list'' @
       '' of types from EXPLORER_BASE,EXPLORER_TOKEN,EXPLORER_TRACE,BRIDGE,UNISWAP_V3,USER_OPS,EXPLORER''))"
  by code_simp

section \<open>The token cache\<close>

record token_row =
  tr_address :: "byte list"
  tr_token_type :: "string option"
  tr_name :: "string option"
  tr_symbol :: "string option"
  tr_decimals :: "int option"
  tr_block_number :: "int option"
  tr_total_supply :: "int option"

definition opt_str :: "string option \<Rightarrow> json" where
  "opt_str v = (case v of None \<Rightarrow> JNull | Some s \<Rightarrow> JStr s)"

definition opt_int :: "int option \<Rightarrow> json" where
  "opt_int v = (case v of None \<Rightarrow> JNull | Some n \<Rightarrow> JInt n)"

definition token_entry :: "token_row \<Rightarrow> jdict" where
  "token_entry r =
     [(''address'', JStr (bytes_to_hex_str (tr_address r))), (''token_type'', opt_str (tr_token_type r)),
      (''name'', opt_str (tr_name r)), (''symbol'', opt_str (tr_symbol r)), (''decimals'', opt_int (tr_decimals r)),
      (''block_number'', opt_int (tr_block_number r)), (''total_supply'', opt_int (tr_total_supply r))]"

type_synonym token_cache = "(string \<times> jdict) list"

definition get_tokens_from_db :: "token_row list \<Rightarrow> token_cache" where
  "get_tokens_from_db rows =
     fold (\<lambda>r. AList.update (bytes_to_hex_str (tr_address r)) (token_entry r)) rows []"

text \<open>\<open>connect\<close> stands for the dictionary kept in Redis, which starts with the tokens of the database; \<open>tokens\<close> is
  what the class held before, \<open>None\<close> at the start of the program.\<close>

definition set_up_token_cache ::
    "(string \<Rightarrow> token_cache \<Rightarrow> token_cache res) \<Rightarrow> token_row list option \<Rightarrow> string option \<Rightarrow> token_cache option
     \<Rightarrow> token_cache option" where
  "set_up_token_cache connect service cache tokens =
     (let token_dict_from_db = (case service of None \<Rightarrow> [] | Some rows \<Rightarrow> get_tokens_from_db rows)
      in case cache of
           None \<Rightarrow> Some token_dict_from_db
         | Some uri \<Rightarrow>
             if uri = ''memory'' then Some token_dict_from_db
             else if take 5 uri = ''redis''
             then (case connect uri token_dict_from_db of Inr d \<Rightarrow> Some d | Inl _ \<Rightarrow> Some token_dict_from_db)
             else tokens)"

text \<open>Every token of the table is found under its address.\<close>

lemma get_tokens_lookup:
  assumes "distinct (map (bytes_to_hex_str \<circ> tr_address) rows)" and "r \<in> set rows"
  shows "map_of (get_tokens_from_db rows) (bytes_to_hex_str (tr_address r)) = Some (token_entry r)"
  using assms by (induction rows rule: rev_induct) (auto simp: get_tokens_from_db_def map_of_upd rev_image_eqI)

text \<open>With any other name of a cache no dictionary is made, and the jobs find \<open>None\<close>.\<close>

lemma other_cache_left_out:
  "cache \<noteq> ''memory'' \<Longrightarrow> take 5 cache \<noteq> ''redis'' \<Longrightarrow> set_up_token_cache connect service (Some cache) None = None"
  by (simp add: set_up_token_cache_def)

section \<open>Job classes\<close>

definition job_of :: "string \<Rightarrow> string list \<Rightarrow> string list \<Rightarrow> job_class" where
  "job_of name dependencies outputs =
     \<lparr>jc_name = name, dependency_types = map to_snake_case dependencies, output_types = map to_snake_case outputs\<rparr>"

definition ExportBlocksJob :: job_class where
  "ExportBlocksJob =
     job_of ''ExportBlocksJob'' [] [''Block'']"

definition ExportTransactionsAndLogsJob :: job_class where
  "ExportTransactionsAndLogsJob =
     job_of ''ExportTransactionsAndLogsJob'' [''Block''] [''Transaction'', ''Log'']"

definition ExportTokensAndTransfersJob :: job_class where
  "ExportTokensAndTransfersJob =
     job_of ''ExportTokensAndTransfersJob'' [''Log''] [''ERC20TokenTransfer'', ''ERC721TokenTransfer'',
     ''ERC1155TokenTransfer'', ''Token'', ''UpdateToken'']"

definition ExportTokenBalancesJob :: job_class where
  "ExportTokenBalancesJob =
     job_of ''ExportTokenBalancesJob'' [''ERC20TokenTransfer'', ''ERC721TokenTransfer'',
     ''ERC1155TokenTransfer''] [''TokenBalance'', ''CurrentTokenBalance'']"

definition ExportTokenIdInfosJob :: job_class where
  "ExportTokenIdInfosJob =
     job_of ''ExportTokenIdInfosJob'' [''ERC721TokenTransfer'', ''ERC1155TokenTransfer'']
     [''ERC721TokenIdChange'', ''ERC721TokenIdDetail'', ''UpdateERC721TokenIdDetail'',
     ''ERC1155TokenIdDetail'', ''UpdateERC1155TokenIdDetail'']"

definition ExportTracesJob :: job_class where
  "ExportTracesJob =
     job_of ''ExportTracesJob'' [''Block''] [''Trace'', ''ContractInternalTransaction'',
     ''UpdateBlockInternalCount'']"

definition ExportContractsJob :: job_class where
  "ExportContractsJob =
     job_of ''ExportContractsJob'' [''Block'', ''Trace''] [''Contract'']"

definition ExportCoinBalancesJob :: job_class where
  "ExportCoinBalancesJob =
     job_of ''ExportCoinBalancesJob'' [''Block'', ''ContractInternalTransaction''] [''CoinBalance'']"

definition FilterTransactionDataJob :: job_class where
  "FilterTransactionDataJob =
     job_of ''FilterTransactionDataJob'' [''Transaction''] []"

definition ExportUniSwapV3PoolJob :: job_class where
  "ExportUniSwapV3PoolJob =
     job_of ''ExportUniSwapV3PoolJob'' [''Log''] [''AllFeatureValueRecordUniswapV3Pool'', ''UniswapV3Pool'']"

definition ExportUniSwapV3TokensJob :: job_class where
  "ExportUniSwapV3TokensJob =
     job_of ''ExportUniSwapV3TokensJob'' [''Log'', ''ERC721TokenTransfer'']
     [''AllFeatureValueRecordUniswapV3Token'', ''UniswapV3Token'']"

definition ExportAllFeatureDayMiningActivenessJob :: job_class where
  "ExportAllFeatureDayMiningActivenessJob =
     job_of ''ExportAllFeatureDayMiningActivenessJob'' [''Transaction'', ''Contract'']
     [''AllFeatureValueRecordTraitsActiveness'', ''CurrentTraitsActiveness'']"

definition ExportUserOpsJob :: job_class where
  "ExportUserOpsJob =
     job_of ''ExportUserOpsJob'' [''Transaction'', ''Log''] [''UserOperationsResult'']"

definition ArbitrumBridgeOnL1Job :: job_class where
  "ArbitrumBridgeOnL1Job =
     job_of ''ArbitrumBridgeOnL1Job'' [''Transaction''] [''ArbitrumL1ToL2TransactionOnL1'',
     ''ArbitrumL2ToL1TransactionOnL1'', ''ArbitrumStateBatchConfirmed'', ''ArbitrumStateBatchCreated'',
     ''ArbitrumTransactionBatch'']"

definition ArbitrumBridgeOnL2Job :: job_class where
  "ArbitrumBridgeOnL2Job =
     job_of ''ArbitrumBridgeOnL2Job'' [''Transaction''] [''ArbitrumL1ToL2TransactionOnL2'',
     ''ArbitrumL2ToL1TransactionOnL2'']"

definition BedrockBridgeOnL1Job :: job_class where
  "BedrockBridgeOnL1Job =
     job_of ''BedrockBridgeOnL1Job'' [''Transaction''] [''OpL1ToL2DepositedTransaction'',
     ''OpL2ToL1WithdrawnTransactionProven'', ''OpL2ToL1WithdrawnTransactionFinalized'', ''OpStateBatch'']"

definition BedrockBridgeOnL2Job :: job_class where
  "BedrockBridgeOnL2Job =
     job_of ''BedrockBridgeOnL2Job'' [''Transaction''] [''OpL2ToL1WithdrawnTransactionOnL2'',
     ''OpL1ToL2DepositedTransactionOnL2'']"

text \<open>\<open>FixingBlockConsensusJob\<close> is not among them: the command that would import it is commented out.\<close>

definition program_jobs :: "job_class list" where
  "program_jobs = [ExportBlocksJob, ExportTransactionsAndLogsJob, ExportTokensAndTransfersJob,
     ExportTokenBalancesJob, ExportTokenIdInfosJob, ExportTracesJob,
     ExportContractsJob, ExportCoinBalancesJob, FilterTransactionDataJob,
     ExportUniSwapV3PoolJob, ExportUniSwapV3TokensJob,
     ExportAllFeatureDayMiningActivenessJob, ExportUserOpsJob, ArbitrumBridgeOnL1Job,
     ArbitrumBridgeOnL2Job, BedrockBridgeOnL1Job, BedrockBridgeOnL2Job]"

section \<open>The types of a selection\<close>

lemma disjoint_flags: "(v OR w) AND f \<noteq> 0 \<longleftrightarrow> v AND f \<noteq> 0 \<or> w AND f \<noteq> (0 :: nat)"
  by (auto simp: bit_eq_iff bit_simps)

lemma set_if_or: "set (if P \<or> Q then xs else []) = set (if P then xs else []) \<union> set (if Q then xs else [])"
  by (cases P; cases Q) simp_all

lemma generate_output_types_or:
  "set (generate_output_types (v OR w)) = set (generate_output_types v) \<union> set (generate_output_types w)"
  by (simp only: generate_output_types_def set_append disjoint_flags set_if_or Un_ac)

lemma generate_output_types_0: "generate_output_types 0 = []"
  by (simp add: generate_output_types_def)

text \<open>The flag \<open>BRIDGE\<close> asks for no type at all.\<close>

lemma bridge_selects_nothing: "set (generate_output_types (v OR flag BRIDGE)) = set (generate_output_types v)"
proof -
  have "generate_output_types (flag BRIDGE) = []" by code_simp
  then show ?thesis by (simp only: generate_output_types_or) simp
qed

lemma bridge_alone: "stream_output_types ds ''bridge'' None = Inr []"
  by (simp add: stream_output_types_def) code_simp

definition types_of_name :: "string \<Rightarrow> string list" where
  "types_of_name n = (case map_of entity_members n of None \<Rightarrow> [] | Some e \<Rightarrow> generate_output_types (flag e))"

lemma add_entity_Inr:
  "add_entity v n = Inr w \<longleftrightarrow> (\<exists>e. map_of entity_members n = Some e \<and> w = v OR flag e)"
  by (auto simp: add_entity_def split: option.split)

lemma fold_entities:
  "rfold add_entity v0 names = Inr v \<Longrightarrow>
   set (generate_output_types v) = set (generate_output_types v0) \<union> (\<Union>n \<in> set names. set (types_of_name n)) \<and>
   set names \<subseteq> fst ` set entity_members"
proof (induction names arbitrary: v0)
  case (Cons n names)
  then obtain e where e: "map_of entity_members n = Some e" "rfold add_entity (v0 OR flag e) names = Inr v"
    by (auto simp: add_entity_Inr rbind_Inr_iff)
  have "n \<in> fst ` set entity_members" using map_of_SomeD [OF e(1)] by (rule image_eqI [rotated]) simp
  with Cons.IH [OF e(2)] show ?case
    by (simp add: generate_output_types_or types_of_name_def e(1) Un_assoc del: flag.simps)
qed simp

lemma entity_value_types:
  "calculate_entity_value txt = Inr v \<Longrightarrow>
   set (generate_output_types v) = (\<Union>n \<in> set (entity_names txt). set (types_of_name n))"
  using fold_entities [of 0 "entity_names txt" v] by (simp add: calculate_entity_value_def generate_output_types_0)

lemma entity_value_raises:
  "(\<exists>e. calculate_entity_value txt = Inl e) \<longleftrightarrow> \<not> set (entity_names txt) \<subseteq> fst ` set entity_members"
proof -
  have "(\<exists>e. rfold add_entity v names = Inl e) \<longleftrightarrow> \<not> set names \<subseteq> fst ` set entity_members" for v names
  proof (induction names arbitrary: v)
    case (Cons n names)
    show ?case
    proof (cases "map_of entity_members n")
      case None
      then have "n \<notin> fst ` set entity_members" by (simp add: map_of_eq_None_iff)
      with None show ?thesis by (simp add: add_entity_def)
    next
      case (Some e)
      then have "n \<in> fst ` set entity_members" by (force dest: map_of_SomeD)
      with Cons.IH Some show ?thesis by (simp add: add_entity_def)
    qed
  qed simp
  then show ?thesis by (simp add: calculate_entity_value_def)
qed

section \<open>Every selection can run\<close>

lemma letters:
  "char_of (97 :: nat) = CHR ''a''"
  "char_of (98 :: nat) = CHR ''b''"
  "char_of (99 :: nat) = CHR ''c''"
  "char_of (100 :: nat) = CHR ''d''"
  "char_of (101 :: nat) = CHR ''e''"
  "char_of (102 :: nat) = CHR ''f''"
  "char_of (103 :: nat) = CHR ''g''"
  "char_of (104 :: nat) = CHR ''h''"
  "char_of (105 :: nat) = CHR ''i''"
  "char_of (106 :: nat) = CHR ''j''"
  "char_of (107 :: nat) = CHR ''k''"
  "char_of (108 :: nat) = CHR ''l''"
  "char_of (109 :: nat) = CHR ''m''"
  "char_of (110 :: nat) = CHR ''n''"
  "char_of (111 :: nat) = CHR ''o''"
  "char_of (112 :: nat) = CHR ''p''"
  "char_of (113 :: nat) = CHR ''q''"
  "char_of (114 :: nat) = CHR ''r''"
  "char_of (115 :: nat) = CHR ''s''"
  "char_of (116 :: nat) = CHR ''t''"
  "char_of (117 :: nat) = CHR ''u''"
  "char_of (118 :: nat) = CHR ''v''"
  "char_of (119 :: nat) = CHR ''w''"
  "char_of (120 :: nat) = CHR ''x''"
  "char_of (121 :: nat) = CHR ''y''"
  "char_of (122 :: nat) = CHR ''z''"
  by (code_simp+)

lemmas snake_simps = to_snake_case_def is_upper_def is_lower_def is_digit_def str_lower_def lower_char_def letters

lemma type_names:
  "to_snake_case ''AllFeatureValueRecordTraitsActiveness'' = ''all_feature_value_record_traits_activeness''"
  "to_snake_case ''AllFeatureValueRecordUniswapV3Pool'' = ''all_feature_value_record_uniswap_v3_pool''"
  "to_snake_case ''AllFeatureValueRecordUniswapV3Token'' = ''all_feature_value_record_uniswap_v3_token''"
  "to_snake_case ''ArbitrumL1ToL2TransactionOnL1'' = ''arbitrum_l1_to_l2_transaction_on_l1''"
  "to_snake_case ''ArbitrumL1ToL2TransactionOnL2'' = ''arbitrum_l1_to_l2_transaction_on_l2''"
  "to_snake_case ''ArbitrumL2ToL1TransactionOnL1'' = ''arbitrum_l2_to_l1_transaction_on_l1''"
  "to_snake_case ''ArbitrumL2ToL1TransactionOnL2'' = ''arbitrum_l2_to_l1_transaction_on_l2''"
  "to_snake_case ''ArbitrumStateBatchConfirmed'' = ''arbitrum_state_batch_confirmed''"
  "to_snake_case ''ArbitrumStateBatchCreated'' = ''arbitrum_state_batch_created''"
  "to_snake_case ''ArbitrumTransactionBatch'' = ''arbitrum_transaction_batch''"
  "to_snake_case ''Block'' = ''block''"
  "to_snake_case ''CoinBalance'' = ''coin_balance''"
  "to_snake_case ''Contract'' = ''contract''"
  "to_snake_case ''ContractInternalTransaction'' = ''contract_internal_transaction''"
  "to_snake_case ''CurrentTokenBalance'' = ''current_token_balance''"
  "to_snake_case ''CurrentTraitsActiveness'' = ''current_traits_activeness''"
  "to_snake_case ''ERC1155TokenIdDetail'' = ''erc1155_token_id_detail''"
  "to_snake_case ''ERC1155TokenTransfer'' = ''erc1155_token_transfer''"
  "to_snake_case ''ERC20TokenTransfer'' = ''erc20_token_transfer''"
  "to_snake_case ''ERC721TokenIdChange'' = ''erc721_token_id_change''"
  "to_snake_case ''ERC721TokenIdDetail'' = ''erc721_token_id_detail''"
  "to_snake_case ''ERC721TokenTransfer'' = ''erc721_token_transfer''"
  "to_snake_case ''Log'' = ''log''"
  "to_snake_case ''OpL1ToL2DepositedTransaction'' = ''op_l1_to_l2_deposited_transaction''"
  "to_snake_case ''OpL1ToL2DepositedTransactionOnL2'' = ''op_l1_to_l2_deposited_transaction_on_l2''"
  "to_snake_case ''OpL2ToL1WithdrawnTransactionFinalized'' = ''op_l2_to_l1_withdrawn_transaction_finalized''"
  "to_snake_case ''OpL2ToL1WithdrawnTransactionOnL2'' = ''op_l2_to_l1_withdrawn_transaction_on_l2''"
  "to_snake_case ''OpL2ToL1WithdrawnTransactionProven'' = ''op_l2_to_l1_withdrawn_transaction_proven''"
  "to_snake_case ''OpStateBatch'' = ''op_state_batch''"
  "to_snake_case ''Token'' = ''token''"
  "to_snake_case ''TokenBalance'' = ''token_balance''"
  "to_snake_case ''Trace'' = ''trace''"
  "to_snake_case ''Transaction'' = ''transaction''"
  "to_snake_case ''UniswapV3Pool'' = ''uniswap_v3_pool''"
  "to_snake_case ''UniswapV3Token'' = ''uniswap_v3_token''"
  "to_snake_case ''UpdateBlockInternalCount'' = ''update_block_internal_count''"
  "to_snake_case ''UpdateERC1155TokenIdDetail'' = ''update_erc1155_token_id_detail''"
  "to_snake_case ''UpdateERC721TokenIdDetail'' = ''update_erc721_token_id_detail''"
  "to_snake_case ''UpdateToken'' = ''update_token''"
  "to_snake_case ''UserOperationsResult'' = ''user_operations_result''"
  by (simp_all add: snake_simps)

lemmas job_defs =
  ExportBlocksJob_def ExportTransactionsAndLogsJob_def ExportTokensAndTransfersJob_def ExportTokenBalancesJob_def
  ExportTokenIdInfosJob_def ExportTracesJob_def ExportContractsJob_def ExportCoinBalancesJob_def
  FilterTransactionDataJob_def ExportUniSwapV3PoolJob_def ExportUniSwapV3TokensJob_def ExportAllFeatureDayMiningActivenessJob_def
  ExportUserOpsJob_def ArbitrumBridgeOnL1Job_def ArbitrumBridgeOnL2Job_def BedrockBridgeOnL1Job_def
  BedrockBridgeOnL2Job_def

definition level :: "job_class \<Rightarrow> nat" where
  "level j = length (takeWhile (\<lambda>c. jc_name c \<noteq> jc_name j) program_jobs)"

lemma program_jobs_texts:
  "program_jobs =
    [\<lparr>jc_name = ''ExportBlocksJob'', dependency_types = [], output_types = [''block'']\<rparr>,
     \<lparr>jc_name = ''ExportTransactionsAndLogsJob'', dependency_types = [''block''], output_types =
        [''transaction'', ''log'']\<rparr>,
     \<lparr>jc_name = ''ExportTokensAndTransfersJob'', dependency_types = [''log''], output_types =
        [''erc20_token_transfer'', ''erc721_token_transfer'', ''erc1155_token_transfer'', ''token'',
        ''update_token'']\<rparr>,
     \<lparr>jc_name = ''ExportTokenBalancesJob'', dependency_types = [''erc20_token_transfer'',
        ''erc721_token_transfer'', ''erc1155_token_transfer''], output_types = [''token_balance'',
        ''current_token_balance'']\<rparr>,
     \<lparr>jc_name = ''ExportTokenIdInfosJob'', dependency_types = [''erc721_token_transfer'',
        ''erc1155_token_transfer''], output_types = [''erc721_token_id_change'', ''erc721_token_id_detail'',
        ''update_erc721_token_id_detail'', ''erc1155_token_id_detail'',
        ''update_erc1155_token_id_detail'']\<rparr>,
     \<lparr>jc_name = ''ExportTracesJob'', dependency_types = [''block''], output_types = [''trace'',
        ''contract_internal_transaction'', ''update_block_internal_count'']\<rparr>,
     \<lparr>jc_name = ''ExportContractsJob'', dependency_types = [''block'', ''trace''], output_types =
        [''contract'']\<rparr>,
     \<lparr>jc_name = ''ExportCoinBalancesJob'', dependency_types = [''block'',
        ''contract_internal_transaction''], output_types = [''coin_balance'']\<rparr>,
     \<lparr>jc_name = ''FilterTransactionDataJob'', dependency_types = [''transaction''], output_types =
        []\<rparr>,
     \<lparr>jc_name = ''ExportUniSwapV3PoolJob'', dependency_types = [''log''], output_types =
        [''all_feature_value_record_uniswap_v3_pool'', ''uniswap_v3_pool'']\<rparr>,
     \<lparr>jc_name = ''ExportUniSwapV3TokensJob'', dependency_types = [''log'', ''erc721_token_transfer''],
        output_types = [''all_feature_value_record_uniswap_v3_token'', ''uniswap_v3_token'']\<rparr>,
     \<lparr>jc_name = ''ExportAllFeatureDayMiningActivenessJob'', dependency_types = [''transaction'',
        ''contract''], output_types = [''all_feature_value_record_traits_activeness'',
        ''current_traits_activeness'']\<rparr>,
     \<lparr>jc_name = ''ExportUserOpsJob'', dependency_types = [''transaction'', ''log''], output_types =
        [''user_operations_result'']\<rparr>,
     \<lparr>jc_name = ''ArbitrumBridgeOnL1Job'', dependency_types = [''transaction''], output_types =
        [''arbitrum_l1_to_l2_transaction_on_l1'', ''arbitrum_l2_to_l1_transaction_on_l1'',
        ''arbitrum_state_batch_confirmed'', ''arbitrum_state_batch_created'',
        ''arbitrum_transaction_batch'']\<rparr>,
     \<lparr>jc_name = ''ArbitrumBridgeOnL2Job'', dependency_types = [''transaction''], output_types =
        [''arbitrum_l1_to_l2_transaction_on_l2'', ''arbitrum_l2_to_l1_transaction_on_l2'']\<rparr>,
     \<lparr>jc_name = ''BedrockBridgeOnL1Job'', dependency_types = [''transaction''], output_types =
        [''op_l1_to_l2_deposited_transaction'', ''op_l2_to_l1_withdrawn_transaction_proven'',
        ''op_l2_to_l1_withdrawn_transaction_finalized'', ''op_state_batch'']\<rparr>,
     \<lparr>jc_name = ''BedrockBridgeOnL2Job'', dependency_types = [''transaction''], output_types =
        [''op_l2_to_l1_withdrawn_transaction_on_l2'', ''op_l1_to_l2_deposited_transaction_on_l2'']\<rparr>]"
  by (simp add: program_jobs_def job_of_def job_defs type_names)

text \<open>The list of the jobs is in an order of dependency.\<close>

lemma levels: "map level program_jobs = [0..<17]"
  unfolding level_def program_jobs_texts by code_simp

lemma program_jobs_ordered:
  "list_all (\<lambda>(c, n). list_all (\<lambda>(p, m). m < n \<or> list_all (\<lambda>t. t \<notin> set (output_types p)) (dependency_types c))
     (zip program_jobs [0..<17])) (zip program_jobs [0..<17])"
  unfolding program_jobs_texts by code_simp

lemma program_jobs_levels:
  assumes "c \<in> set program_jobs" and "p \<in> set program_jobs" and "t \<in> set (dependency_types c)" "t \<in> set (output_types p)"
  shows "level p < level c"
proof -
  have "(j, level j) \<in> set (zip program_jobs [0..<17])" if "j \<in> set program_jobs" for j
    using that by (simp flip: levels add: zip_map2 zip_same_conv_map image_iff)
  from this [OF assms(1)] this [OF assms(2)] program_jobs_ordered assms(3,4) show ?thesis
    by (fastforce simp: list_all_iff)
qed

lemma program_outputs_distinct: "distinct (concat (map output_types program_jobs))"
  by (simp add: program_jobs_texts)

lemma all_types:
  "generate_output_types combine_all_entity_types =
     [''Block'', ''Transaction'', ''Log'', ''Token'', ''UpdateToken'', ''ERC20TokenTransfer'',
     ''ERC721TokenTransfer'', ''ERC1155TokenTransfer'', ''TokenBalance'', ''CurrentTokenBalance'',
     ''UpdateERC1155TokenIdDetail'', ''ERC1155TokenIdDetail'', ''UpdateERC721TokenIdDetail'',
     ''ERC721TokenIdDetail'', ''ERC721TokenIdChange'', ''Trace'', ''Contract'', ''CoinBalance'',
     ''ContractInternalTransaction'', ''UpdateBlockInternalCount'', ''UniswapV3Pool'', ''UniswapV3Token'',
     ''AllFeatureValueRecordUniswapV3Pool'', ''AllFeatureValueRecordUniswapV3Token'',
     ''UserOperationsResult'']"
  by code_simp

lemma all_types_output:
  "list_all (\<lambda>c. c \<in> set (concat (map output_types program_jobs)))
     (map to_snake_case (generate_output_types combine_all_entity_types))"
  unfolding all_types list.map type_names program_jobs_texts by code_simp

lemma flag_types_output:
  assumes "c \<in> set (types_of_name n)"
  shows "\<exists>j \<in> set program_jobs. to_snake_case c \<in> set (output_types j)"
proof -
  obtain e where e: "map_of entity_members n = Some e" "c \<in> set (generate_output_types (flag e))"
    using assms by (cases "map_of entity_members n") (auto simp: types_of_name_def)
  have all: "combine_all_entity_types = 63" by code_simp
  have same: "combine_all_entity_types OR flag e = combine_all_entity_types" unfolding all by (cases e) simp_all
  have "c \<in> set (generate_output_types (combine_all_entity_types OR flag e))"
    unfolding generate_output_types_or using e(2) by (rule UnI2)
  then have "c \<in> set (generate_output_types combine_all_entity_types)" unfolding same .
  with all_types_output show ?thesis by (auto simp: list_all_iff)
qed

text \<open>The scheduler's order for a list of types, and that it always exists for the jobs of the program.\<close>

definition scheduler_order :: "job_class list \<Rightarrow> string list \<Rightarrow> job_class list res" where
  "scheduler_order classes ts =
     (let jm = discover_and_register_job_classes classes
      in resolve_dependencies jm (get_required_job_classes jm ts))"

lemma program_order:
  assumes "set classes = set program_jobs"
  defines "jm \<equiv> discover_and_register_job_classes classes"
  shows "\<exists>order. scheduler_order classes ts = Inr order \<and> set order = needed jm ts \<and>
    runs_after_producers jm (get_required_job_classes jm ts) order"
proof -
  let ?req = "get_required_job_classes jm ts"
  note req = get_required_needed [of jm ts]
  have "j \<in> set classes" if "j \<in> needed jm ts" for j
    using that by (induction rule: needed.induct) (simp_all add: jm_def jobs_of_discover)
  then have program: "set ?req \<subseteq> set program_jobs" using req assms(1) by blast
  have "level p < level c" if "depends jm ?req p c" for p c
  proof -
    from that program obtain t where "t \<in> set (dependency_types c)" "t \<in> set (output_types p)"
        "p \<in> set program_jobs" "c \<in> set program_jobs"
      by (auto simp: depends_def jm_def jobs_of_discover)
    then show ?thesis by (intro program_jobs_levels)
  qed
  then have "acyclic (dependency_relation jm ?req)"
    by (intro acyclicI_order [of _ "\<lambda>j. - int (level j)"]) (auto simp: dependency_relation_def)
  then have "scheduler_order classes ts = Inr (kahn_order jm ?req)" "set (kahn_order jm ?req) = set ?req"
      "runs_after_producers jm ?req (kahn_order jm ?req)"
    using kahn_order_length [of ?req jm] kahn_order_complete [of ?req jm] kahn_order_runs_after_producers [of ?req jm] req
    by (simp_all add: scheduler_order_def resolve_dependencies_kahn_order flip: jm_def)
  with req show ?thesis by blast
qed

text \<open>C4: in whatever order the jobs of the program are found, every selection of entity types that is accepted
  can be run: the scheduler finds no cycle, puts each job after the jobs whose records it reads, and for each
  type of each entity that was named a job that outputs it is in the order.\<close>

theorem entity_selection_runs:
  assumes "calculate_entity_value txt = Inr v" and "set classes = set program_jobs"
  shows "\<exists>order. scheduler_order classes (map to_snake_case (generate_output_types v)) = Inr order \<and>
    runs_after_producers (discover_and_register_job_classes classes)
      (get_required_job_classes (discover_and_register_job_classes classes)
        (map to_snake_case (generate_output_types v))) order \<and>
    (\<forall>n \<in> set (entity_names txt). \<forall>c \<in> set (types_of_name n). \<exists>j \<in> set order. to_snake_case c \<in> set (output_types j))"
proof -
  let ?jm = "discover_and_register_job_classes classes"
  let ?ts = "map to_snake_case (generate_output_types v)"
  have "\<exists>j \<in> needed ?jm ?ts. to_snake_case c \<in> set (output_types j)"
    if "n \<in> set (entity_names txt)" "c \<in> set (types_of_name n)" for n c
  proof -
    from flag_types_output [OF that(2)] obtain j
      where j: "j \<in> set program_jobs" "to_snake_case c \<in> set (output_types j)" by blast
    have "to_snake_case c \<in> set ?ts" using that entity_value_types [OF assms(1)] by auto
    with j assms(2) have "j \<in> needed ?jm ?ts" by (intro needed.requested) (auto simp: jobs_of_discover)
    with j show ?thesis by blast
  qed
  with program_order [OF assms(2), of ?ts] show ?thesis by (metis (no_types, lifting))
qed

theorem entity_selection_runs_witness:
  "\<exists>order. scheduler_order (rev program_jobs) (map to_snake_case (generate_output_types 5)) = Inr order"
proof -
  have "calculate_entity_value ''explorer_base, Explorer_Trace'' = Inr 5" by code_simp
  from entity_selection_runs [OF this, of "rev program_jobs"] show ?thesis by auto
qed

end
