(* ===== verification/Views.thy ===== *)
theory Views
  imports BridgeView WebUtils Entities
begin

text \<open>
  What the service makes of database rows: \<open>common/utils/format_utils.py\<close>, \<open>api/app/utils/utils.py\<close> and the
  names of addresses in \<open>api/app/db_service/wallet_addresses.py\<close>. A row is a dictionary of its columns; a
  \<open>NUMERIC\<close> column is a \<open>CDecimal\<close>, and \<open>format_to_dict\<close> makes a float of it. Floats are values of a type
  \<open>'f\<close> with the operations of the record \<open>floats\<close>; \<open>f_text n x\<close> is \<open>x\<close> with \<open>n\<close> decimals. Tables are lists of
  rows with distinct addresses. The answers of the verification and ENS services are fields of \<open>services\<close>,
  with a text for every name; memoizing is left out.
\<close>

section \<open>Values\<close>

datatype 'f cell = CNone | CBool bool | CInt int | CText string | CBytes "byte list" | CDecimal int | CTime int
  | CFloat 'f | CList "'f cell list" | CDict "(string \<times> 'f cell) list"

type_synonym 'f row = "(string \<times> 'f cell) list"

record 'f floats =
  f_of_int :: "int \<Rightarrow> 'f"
  f_mul :: "'f \<Rightarrow> 'f \<Rightarrow> 'f"
  f_add :: "'f \<Rightarrow> 'f \<Rightarrow> 'f"
  f_div :: "'f \<Rightarrow> int \<Rightarrow> 'f"
  f_quotient :: "int \<Rightarrow> int \<Rightarrow> 'f"
  f_is_zero :: "'f \<Rightarrow> bool"
  f_trunc :: "'f \<Rightarrow> int"
  f_text :: "nat \<Rightarrow> 'f \<Rightarrow> string"
  time_text :: "int \<Rightarrow> string"

fun format_value_for_json :: "'f floats \<Rightarrow> 'f cell \<Rightarrow> 'f cell" where
  "format_value_for_json fl (CTime t) = CText (time_text fl t)"
| "format_value_for_json fl (CDecimal n) = CFloat (f_of_int fl n)"
| "format_value_for_json fl (CBytes b) = CText (bytes_to_hex_str b)"
| "format_value_for_json fl v = v"

definition row_to_dict :: "'f floats \<Rightarrow> 'f row \<Rightarrow> 'f row" where
  "row_to_dict fl row = map (\<lambda>(k, v). (k, format_value_for_json fl v)) row"

text \<open>The columns of a model, with the entries of \<open>meta_data\<close> beside the others.\<close>

definition as_dict_column :: "'f floats \<Rightarrow> string \<times> 'f cell \<Rightarrow> 'f row \<Rightarrow> 'f row" where
  "as_dict_column fl kv json_data =
     (case kv of (k, v) \<Rightarrow>
        if k = ''meta_data''
        then (case v of CDict d \<Rightarrow> fold (\<lambda>(key, x). AList.update key x) d json_data | _ \<Rightarrow> json_data)
        else AList.update k (format_value_for_json fl v) json_data)"

definition model_as_dict :: "'f floats \<Rightarrow> 'f row \<Rightarrow> 'f row" where
  "model_as_dict fl row = fold (as_dict_column fl) row []"

definition strip_zeros :: "string \<Rightarrow> string" where
  "strip_zeros s = rstrip_char CHR ''.'' (rstrip_char CHR ''0'' s)"

definition format_coin_value :: "'f floats \<Rightarrow> int \<Rightarrow> string" where
  "format_coin_value fl v = (if v < 1000 then int_str v else strip_zeros (f_text fl 15 (f_quotient fl v (10 ^ 18))))"

definition format_coin_value_with_unit :: "'f floats \<Rightarrow> int \<Rightarrow> string \<Rightarrow> string" where
  "format_coin_value_with_unit fl v native_token =
     (if v < 1000 then int_str v @ '' WEI''
      else strip_zeros (f_text fl 15 (f_quotient fl v (10 ^ 18))) @ '' '' @ native_token)"

section \<open>Names of addresses\<close>

record contract_row =
  cr_address :: "byte list"
  cr_implementation :: "byte list option"

record services =
  contracts_table :: "contract_row list"
  tokens_table :: "(byte list \<times> string option \<times> string option) list"
  tags_table :: "(byte list \<times> string option) list"
  contract_names :: "string list \<Rightarrow> (string \<times> string) list"
  ens_names :: "(string list \<Rightarrow> (string \<times> string) list) option"

definition get_contracts_by_addresses :: "services \<Rightarrow> byte list option list \<Rightarrow> contract_row list" where
  "get_contracts_by_addresses s address_list = filter (\<lambda>c. Some (cr_address c) \<in> set address_list) (contracts_table s)"

definition none_text :: "string option \<Rightarrow> string" where
  "none_text v = (case v of None \<Rightarrow> ''None'' | Some t \<Rightarrow> t)"

definition valid_addresses :: "byte list option list \<Rightarrow> byte list list" where
  "valid_addresses addresses = filter (\<lambda>a. a \<noteq> []) (map the (filter (\<lambda>a. a \<noteq> None) addresses))"

definition proxies :: "services \<Rightarrow> byte list list \<Rightarrow> (byte list \<times> byte list) list" where
  "proxies s addresses =
     map (\<lambda>c. (cr_address c, the (cr_implementation c)))
       (filter (\<lambda>c. cr_address c \<in> set addresses \<and> cr_implementation c \<noteq> None) (contracts_table s))"

definition use_implementation_name ::
    "byte list \<times> byte list \<Rightarrow> (string \<times> string) list \<Rightarrow> (string \<times> string) list" where
  "use_implementation_name = (\<lambda>(proxy, implementation) m.
     case map_of m (bytes_to_hex_str implementation) of
       Some n \<Rightarrow> AList.update (bytes_to_hex_str proxy) n m
     | None \<Rightarrow> m)"

definition update_all :: "(string \<times> 'v) list \<Rightarrow> (string \<times> 'v) list \<Rightarrow> (string \<times> 'v) list" where
  "update_all new m = fold (\<lambda>(k, v). AList.update k v) new m"

definition token_names :: "services \<Rightarrow> byte list list \<Rightarrow> (string \<times> string) list" where
  "token_names s addresses =
     map (\<lambda>(a, n, sym). (bytes_to_hex_str a, none_text n @ '': '' @ none_text sym @ '' Token''))
       (filter (\<lambda>(a, _). a \<in> set addresses) (tokens_table s))"

definition tag_names :: "services \<Rightarrow> byte list list \<Rightarrow> (string \<times> string) list" where
  "tag_names s addresses =
     map (\<lambda>(a, t). (bytes_to_hex_str a, the t))
       (filter (\<lambda>(a, t). a \<in> set addresses \<and> t \<noteq> None) (tags_table s))"

definition get_address_display_mapping :: "services \<Rightarrow> byte list option list \<Rightarrow> (string \<times> string) list" where
  "get_address_display_mapping s bytea_address_list =
     (if bytea_address_list = [] then []
      else let addresses = valid_addresses bytea_address_list;
               str_address_list = map bytes_to_hex_str addresses;
               proxy_mapping = proxies s addresses;
               str_contract_list = str_address_list @ map (bytes_to_hex_str \<circ> snd) proxy_mapping;
               m1 = update_all (contract_names s str_contract_list) [];
               m2 = fold use_implementation_name proxy_mapping m1;
               m3 = update_all (token_names s addresses) m2;
               m4 = (case ens_names s of None \<Rightarrow> m3 | Some ens \<Rightarrow> update_all (ens str_address_list) m3)
           in update_all (tag_names s addresses) m4)"

section \<open>Lists of transactions\<close>

definition cell_of :: "'f row \<Rightarrow> string \<Rightarrow> 'f cell" where
  "cell_of d k = (case map_of d k of None \<Rightarrow> CNone | Some v \<Rightarrow> v)"

fun cell_from_hex :: "'f cell \<Rightarrow> byte list res" where
  "cell_from_hex (CText t) = bytes_fromhex (drop 2 t)"
| "cell_from_hex _ = Inl TypeError"

definition address_bytes :: "'f row list \<Rightarrow> byte list option list res" where
  "address_bytes transactions =
     rbind (rmap (\<lambda>t.
         rbind (rbind (dict_get t ''from_address'') cell_from_hex) (\<lambda>f.
         rbind (rbind (dict_get t ''to_address'') cell_from_hex) (\<lambda>r. Inr [Some f, Some r]))) transactions)
       (\<lambda>xss. Inr (concat xss))"

definition given_addresses :: "'f row list \<Rightarrow> byte list option list \<Rightarrow> byte list option list res" where
  "given_addresses transactions addresses = (if addresses = [] then address_bytes transactions else Inr addresses)"

text \<open>\<open>x.address\<close> of the rows found are bytes.\<close>

definition contract_cells :: "services \<Rightarrow> byte list option list \<Rightarrow> 'f cell set" where
  "contract_cells s addresses = CBytes ` cr_address ` set (get_contracts_by_addresses s addresses)"

definition mark_contract :: "'f cell set \<Rightarrow> string \<Rightarrow> 'f row \<Rightarrow> 'f row res" where
  "mark_contract contract_list side t =
     rbind (dict_get t (side @ ''_address'')) (\<lambda>a.
       Inr (if a \<in> contract_list then AList.update (side @ ''_address_is_contract'') (CBool True) t else t))"

definition fill_is_contract_to_transactions ::
    "services \<Rightarrow> 'f row list \<Rightarrow> byte list option list \<Rightarrow> 'f row list res" where
  "fill_is_contract_to_transactions s transaction_list bytea_address_list =
     rbind (given_addresses transaction_list bytea_address_list) (\<lambda>addresses.
       rmap (\<lambda>t. rbind (mark_contract (contract_cells s addresses) ''to'' t) (mark_contract (contract_cells s addresses) ''from''))
         transaction_list)"

definition display_name :: "(string \<times> string) list \<Rightarrow> 'f cell \<Rightarrow> 'f cell" where
  "display_name address_map a =
     (case a of CText t \<Rightarrow> (case map_of address_map t of Some n \<Rightarrow> CText n | None \<Rightarrow> a) | _ \<Rightarrow> a)"

definition set_display_name :: "(string \<times> string) list \<Rightarrow> string \<Rightarrow> 'f row \<Rightarrow> 'f row res" where
  "set_display_name address_map side t =
     rbind (dict_get t (side @ ''_address'')) (\<lambda>a.
       Inr (AList.update (side @ ''_address_display_name'') (display_name address_map a) t))"

definition fill_address_display_to_transactions ::
    "services \<Rightarrow> 'f row list \<Rightarrow> byte list option list \<Rightarrow> 'f row list res" where
  "fill_address_display_to_transactions s transaction_list bytea_address_list =
     rbind (given_addresses transaction_list bytea_address_list) (\<lambda>addresses.
     let address_map = get_address_display_mapping s addresses
     in rmap (\<lambda>t. rbind (set_display_name address_map ''from'' t) (set_display_name address_map ''to'')) transaction_list)"

text \<open>The numbers of a transaction are \<open>NUMERIC\<close> columns, floats by now.\<close>

fun as_float :: "'f cell \<Rightarrow> 'f res" where
  "as_float (CFloat x) = Inr x"
| "as_float _ = Inl TypeError"

definition get_float :: "'f row \<Rightarrow> string \<Rightarrow> 'f res" where
  "get_float d k = rbind (dict_get d k) as_float"

definition scaled :: "'f floats \<Rightarrow> nat \<Rightarrow> 'f \<Rightarrow> nat \<Rightarrow> 'f cell" where
  "scaled fl digits x e = CText (strip_zeros (f_text fl digits (f_div fl x (10 ^ e))))"

definition dollars :: "'f floats \<Rightarrow> 'f \<Rightarrow> 'f cell" where
  "dollars fl x = CText (f_text fl 2 (f_div fl x (10 ^ 18)))"

text \<open>The fields of the fee on the first layer and the total fee.\<close>

definition l1_fee_fields :: "'f floats \<Rightarrow> 'f row \<Rightarrow> 'f \<Rightarrow> ('f row \<times> 'f) res" where
  "l1_fee_fields fl t transaction_fee =
     (case cell_of t ''receipt_l1_fee'' of
        CNone \<Rightarrow> Inr ([], transaction_fee)
      | v \<Rightarrow>
          rbind (as_float v) (\<lambda>l1_fee.
            if f_is_zero fl l1_fee then Inr ([], transaction_fee)
            else rbind (get_float t ''receipt_l1_gas_price'') (\<lambda>l1_gas_price.
              Inr ([(''receipt_l1_fee'', scaled fl 15 l1_fee 18), (''receipt_l1_gas_price'', scaled fl 15 l1_gas_price 18),
                    (''receipt_l1_gas_price_gwei'', scaled fl 6 l1_gas_price 9)],
                   f_add fl transaction_fee l1_fee))))"

definition transaction_fields :: "'f floats \<Rightarrow> 'f \<Rightarrow> 'f \<Rightarrow> 'f \<Rightarrow> 'f \<Rightarrow> 'f row \<Rightarrow> 'f \<Rightarrow> 'f row" where
  "transaction_fields fl price value gas_price gas_used l1_fields total_transaction_fee =
     [(''gas_fee_token_price'', CText (f_text fl 2 price)),
      (''value'', CText (format_coin_value fl (f_trunc fl value))),
      (''value_dollar'', dollars fl (f_mul fl value price)),
      (''gas_price_gwei'', scaled fl 6 gas_price 9),
      (''gas_price'', scaled fl 15 gas_price 18)]
     @ l1_fields @
     [(''transaction_fee'', scaled fl 15 (f_mul fl gas_price gas_used) 18),
      (''transaction_fee_dollar'', dollars fl (f_mul fl (f_mul fl gas_price price) gas_used)),
      (''total_transaction_fee'', scaled fl 15 total_transaction_fee 18),
      (''total_transaction_fee_dollar'', dollars fl (f_mul fl total_transaction_fee price))]"

definition format_transaction :: "'f floats \<Rightarrow> 'f \<Rightarrow> 'f row \<Rightarrow> 'f row res" where
  "format_transaction fl price t =
     rbind (get_float t ''value'') (\<lambda>value.
     rbind (get_float t ''gas_price'') (\<lambda>gas_price.
     rbind (get_float t ''receipt_gas_used'') (\<lambda>gas_used.
     rbind (l1_fee_fields fl t (f_mul fl gas_price gas_used)) (\<lambda>(l1_fields, total_transaction_fee).
       Inr (update_all (transaction_fields fl price value gas_price gas_used l1_fields total_transaction_fee) t)))))"

subsection \<open>Names of methods\<close>

text \<open>\<open>re.sub("([A-Z]+)", r" \1", s)\<close>, \<open>re.sub("([A-Z][a-z]+)", r" \1", s)\<close>, \<open>s.split()\<close> and \<open>s.title()\<close>\<close>

fun space_upper :: "bool \<Rightarrow> string \<Rightarrow> string" where
  "space_upper inside [] = []"
| "space_upper inside (c # s) =
     (if is_upper c \<and> \<not> inside then CHR '' '' # c # space_upper True s else c # space_upper (is_upper c) s)"

function space_words :: "string \<Rightarrow> string" where
  "space_words (c # d # r) =
     (if is_upper c \<and> is_lower d
      then CHR '' '' # c # d # takeWhile is_lower r @ space_words (dropWhile is_lower r)
      else c # space_words (d # r))"
| "space_words [] = []"
| "space_words [c] = [c]"
  by pat_completeness auto
termination
  by (relation "measure length") (auto simp: less_Suc_eq_le le_SucI length_dropWhile_le)

definition py_split :: "string \<Rightarrow> string list" where
  "py_split s = filter (\<lambda>w. w \<noteq> []) (str_split CHR '' '' (map (\<lambda>c. if is_space c then CHR '' '' else c) s))"

fun title_from :: "bool \<Rightarrow> string \<Rightarrow> string" where
  "title_from inside [] = []"
| "title_from inside (c # s) =
     (if is_upper c \<or> is_lower c then (if inside then lower_char c else upper_char c) # title_from True s
      else c # title_from False s)"

definition function_title :: "string \<Rightarrow> string" where
  "function_title function_name =
     title_from False (join_with CHR '' '' (py_split (space_words (space_upper False function_name))))"

text \<open>What is before the first \<open>sep\<close>, and what is after it.\<close>

fun cut_at :: "string \<Rightarrow> string \<Rightarrow> string \<times> string option" where
  "cut_at sep [] = ([], None)"
| "cut_at sep (c # s) =
     (if startswith (c # s) sep then ([], Some (drop (length sep) (c # s)))
      else case cut_at sep s of (a, b) \<Rightarrow> (c # a, b))"

record 'f decoders =
  json_loads :: "string \<Rightarrow> 'f cell res"
  to_text :: "string \<Rightarrow> string res"
  method_names :: "'f cell list \<Rightarrow> 'f row list"

definition INSCRIPTION :: string where
  "INSCRIPTION = ''0x64617461''"

text \<open>The text after \<open>data:,\<close> is JSON with the operation; an exception leaves the method.\<close>

definition inscription_method :: "'f decoders \<Rightarrow> string \<Rightarrow> 'f cell \<Rightarrow> 'f cell" where
  "inscription_method dec decode_input method =
     (case snd (cut_at ''data:,'' decode_input) of
        None \<Rightarrow> method
      | Some rest \<Rightarrow>
          (case json_loads dec (fst (cut_at ''data:,'' rest)) of
             Inr (CDict d) \<Rightarrow> (case map_of d ''op'' of Some (CText op) \<Rightarrow> CText (''Inscription: '' @ op) | _ \<Rightarrow> method)
           | _ \<Rightarrow> method))"

definition cell_text :: "'f cell \<Rightarrow> string res" where
  "cell_text v = (case v of CText t \<Rightarrow> Inr t | _ \<Rightarrow> Inl TypeError)"

text \<open>One turn of the second loop: the transaction and the methods to look up.\<close>

definition choose_method :: "'f decoders \<Rightarrow> 'f cell set \<Rightarrow> 'f row \<Rightarrow> ('f row \<times> 'f cell list) res" where
  "choose_method dec contract_list t =
     rbind (dict_get t ''receipt_contract_address'') (\<lambda>created.
     if created \<noteq> CNone then Inr (AList.update ''method'' (CText ''Contract Creation'') t, [])
     else rbind (dict_get t ''method'') (\<lambda>method.
       if method = CText INSCRIPTION
       then rbind (rbind (dict_get t ''input'') cell_text) (\<lambda>i. rbind (to_text dec i) (\<lambda>decode_input.
              Inr (AList.update ''method'' (inscription_method dec decode_input method) t, [])))
       else rbind (dict_get t ''to_address'') (\<lambda>receiver.
         if receiver \<in> contract_list then Inr (AList.update ''is_contract'' (CBool True) t, [method])
         else Inr (AList.update ''method'' (CText ''Transfer'') t, []))))"

definition rename_method :: "'f row \<Rightarrow> 'f row \<Rightarrow> 'f row res" where
  "rename_method function_abi t =
     (if cell_of t ''method'' = cell_of function_abi ''signed_prefix''
      then rbind (cell_text (cell_of function_abi ''function_name'')) (\<lambda>n.
             Inr (AList.update ''method'' (CText (function_title n)) t))
      else Inr t)"

subsection \<open>The list\<close>

definition attribute :: "'f row \<Rightarrow> string \<Rightarrow> 'f cell res" where
  "attribute row k = (case map_of row k of None \<Rightarrow> Inl AttributeError | Some v \<Rightarrow> Inr v)"

definition column_bytes :: "'f cell \<Rightarrow> byte list option" where
  "column_bytes v = (case v of CBytes b \<Rightarrow> Some b | _ \<Rightarrow> None)"

definition is_given :: "'f cell \<Rightarrow> bool" where
  "is_given v \<longleftrightarrow> v \<noteq> CNone \<and> v \<noteq> CText []"

text \<open>\<open>get_token_price\<close> is zero for every token and date.\<close>

definition get_token_price :: "'f floats \<Rightarrow> 'f" where
  "get_token_price fl = f_of_int fl 0"

definition list_entry :: "'f floats \<Rightarrow> 'f row \<Rightarrow> (byte list option list \<times> 'f row) res" where
  "list_entry fl row =
     rbind (attribute row ''to_address'') (\<lambda>receiver.
     rbind (attribute row ''from_address'') (\<lambda>sender.
     let t = row_to_dict fl row
     in rbind (dict_get t ''method_id'') (\<lambda>method_id.
        let t1 = update_all [(''method'', method_id), (''is_contract'', CBool False), (''contract_name'', CNone)] t
        in rbind (if is_given (cell_of t1 ''to_address'') then Inr t1
                  else rbind (dict_get t1 ''receipt_contract_address'') (\<lambda>c. Inr (AList.update ''to_address'' c t1))) (\<lambda>t2.
           rbind (format_transaction fl (get_token_price fl) t2) (\<lambda>t3.
             Inr ([column_bytes sender, column_bytes receiver], t3))))))"

definition parse_transactions :: "'f floats \<Rightarrow> services \<Rightarrow> 'f decoders \<Rightarrow> 'f row list \<Rightarrow> 'f row list res" where
  "parse_transactions fl s dec transactions =
     (if transactions = [] then Inr []
      else rbind (attribute (hd transactions) ''block_timestamp'') (\<lambda>_.
           rbind (rmap (list_entry fl) transactions) (\<lambda>entries.
           rbind (fill_address_display_to_transactions s (map snd entries) (concat (map fst entries))) (\<lambda>transaction_list.
           let contract_list = contract_cells s (map (\<lambda>e. fst e ! 1) entries)
           in rbind (rmap (choose_method dec contract_list) transaction_list) (\<lambda>chosen.
              let contract_function_abis = method_names dec (concat (map snd chosen))
              in rmap (\<lambda>t. rfold (\<lambda>t a. rename_method a t) t contract_function_abis) (map fst chosen))))))"

section \<open>Contracts are never recognized\<close>

lemma map_of_update_all: "map_of (update_all new m) = map_of m ++ map_of (rev new)"
  by (induction new rule: rev_induct) (auto simp: update_all_def map_of_upd map_add_def fun_eq_iff split: option.split)

lemma update_all_other: "k \<notin> fst ` set new \<Longrightarrow> map_of (update_all new m) k = map_of m k"
proof -
  assume "k \<notin> fst ` set new"
  then have "map_of (rev new) k = None" by (simp add: map_of_eq_None_iff)
  then show ?thesis by (simp add: map_of_update_all map_add_def)
qed

text \<open>A dictionary that is shown holds no bytes.\<close>

definition plain :: "'f row \<Rightarrow> bool" where
  "plain t \<longleftrightarrow> (\<forall>k b. map_of t k \<noteq> Some (CBytes b))"

lemma plain_update: "plain t \<Longrightarrow> (\<And>b. v \<noteq> CBytes b) \<Longrightarrow> plain (AList.update k v t)"
  by (simp add: plain_def map_of_upd)

lemma plain_update_all:
  assumes "plain t" and "\<And>k b. (k, CBytes b) \<notin> set new"
  shows "plain (update_all new t)"
proof -
  have "map_of (rev new) k \<noteq> Some (CBytes b)" for k b
    using assms(2) [of k b] by (metis map_of_SomeD set_rev)
  with assms(1) show ?thesis by (auto simp: plain_def map_of_update_all map_add_def split: option.splits)
qed

lemma format_value_no_bytes: "format_value_for_json fl v \<noteq> CBytes b"
  by (cases v) simp_all

lemma map_of_row_to_dict: "map_of (row_to_dict fl row) k = map_option (format_value_for_json fl) (map_of row k)"
  by (induction row) (auto simp: row_to_dict_def)

lemma plain_row: "plain (row_to_dict fl row)"
  by (auto simp: plain_def map_of_row_to_dict format_value_no_bytes)

lemma plain_not_contract: "plain t \<Longrightarrow> map_of t k = Some a \<Longrightarrow> a \<notin> contract_cells s addresses"
  by (auto simp: plain_def contract_cells_def)

lemma mark_contract_plain:
  assumes "plain t" and "mark_contract (contract_cells s addresses) side t = Inr u"
  shows "u = t"
proof -
  from assms(2) obtain a where a: "map_of t (side @ ''_address'') = Some a"
    and u: "u = (if a \<in> contract_cells s addresses then AList.update (side @ ''_address_is_contract'') (CBool True) t else t)"
    by (auto simp: mark_contract_def rbind_Inr_iff)
  from plain_not_contract [OF assms(1) a] u show ?thesis by simp
qed

text \<open>Rows in the shape the routes pass on are left as they are: no contract is marked.\<close>

lemma no_contract_marked:
  assumes "\<forall>t \<in> set ts. plain t" and "fill_is_contract_to_transactions s ts addresses = Inr us"
  shows "us = ts"
proof -
  from assms(2) obtain as where "list_all2 (\<lambda>t u.
      rbind (mark_contract (contract_cells s as) ''to'' t) (mark_contract (contract_cells s as) ''from'') = Inr u) ts us"
    by (auto simp: fill_is_contract_to_transactions_def rbind_Inr_iff rmap_Inr_iff)
  then show ?thesis
    using assms(1) by (induction rule: list_all2_induct) (auto simp: rbind_Inr_iff dest: mark_contract_plain)
qed

lemma format_transaction_keeps:
  assumes "format_transaction fl price t = Inr u" and "plain t"
  shows "plain u \<and> (\<forall>k \<in> {''method'', ''is_contract'', ''receipt_contract_address'', ''method_id''}. map_of u k = map_of t k)"
proof -
  from assms(1) obtain v g w l1 total where l1: "l1_fee_fields fl t (f_mul fl g w) = Inr (l1, total)"
    and u: "u = update_all (transaction_fields fl price v g w l1 total) t"
    by (auto simp: format_transaction_def rbind_Inr_iff)
  have keys: "fst ` set l1 \<subseteq> {''receipt_l1_fee'', ''receipt_l1_gas_price'', ''receipt_l1_gas_price_gwei''}"
    and bytes: "\<forall>k b. (k, CBytes b) \<notin> set l1"
    using l1 by (auto simp: l1_fee_fields_def rbind_Inr_iff scaled_def split: cell.splits if_splits)
  have "plain u" unfolding u
    by (rule plain_update_all [OF assms(2)]) (use bytes in \<open>auto simp: transaction_fields_def scaled_def dollars_def\<close>)
  moreover have "k \<notin> fst ` set (transaction_fields fl price v g w l1 total)"
    if k: "k \<in> {''method'', ''is_contract'', ''receipt_contract_address'', ''method_id''}" for k
  proof -
    have "k \<notin> {''receipt_l1_fee'', ''receipt_l1_gas_price'', ''receipt_l1_gas_price_gwei''}"
      using k by (elim insertE emptyE) simp_all
    with keys have "k \<notin> fst ` set l1" by blast
    with k show ?thesis unfolding transaction_fields_def by (elim insertE emptyE) simp_all
  qed
  then have "map_of u k = map_of t k" if "k \<in> {''method'', ''is_contract'', ''receipt_contract_address'', ''method_id''}" for k
    unfolding u using that by (intro update_all_other)
  ultimately show ?thesis by blast
qed

lemma list_entry_facts:
  assumes "list_entry fl row = Inr (as, t)"
  shows "plain t \<and> map_of t ''method'' = map_option (format_value_for_json fl) (map_of row ''method_id'') \<and>
    map_of t ''is_contract'' = Some (CBool False) \<and>
    map_of t ''receipt_contract_address'' = map_option (format_value_for_json fl) (map_of row ''receipt_contract_address'')"
proof -
  let ?r = "row_to_dict fl row"
  from assms obtain m t1 t2 where m: "map_of ?r ''method_id'' = Some m"
    and t1: "t1 = update_all [(''method'', m), (''is_contract'', CBool False), (''contract_name'', CNone)] ?r"
    and t2: "t2 = t1 \<or> (\<exists>c. map_of t1 ''receipt_contract_address'' = Some c \<and> t2 = AList.update ''to_address'' c t1)"
    and t: "format_transaction fl (get_token_price fl) t2 = Inr t"
    by (auto simp: list_entry_def rbind_Inr_iff Let_def split: if_splits)
  have m_plain: "m \<noteq> CBytes b" for b using m by (auto simp: map_of_row_to_dict format_value_no_bytes)
  have "plain t1" unfolding t1 by (rule plain_update_all [OF plain_row]) (use m_plain in auto)
  with t2 have p2: "plain t2" by (auto simp: plain_def map_of_upd split: if_splits)
  have "map_of t1 ''method'' = Some m" "map_of t1 ''is_contract'' = Some (CBool False)"
      "map_of t1 ''receipt_contract_address'' = map_of ?r ''receipt_contract_address''"
    by (simp_all add: t1 update_all_def map_of_upd)
  moreover have "map_of t2 k = map_of t1 k" if "k \<noteq> ''to_address''" for k
    using t2 that by (auto simp: map_of_upd)
  ultimately show ?thesis
    using format_transaction_keeps [OF t p2] m by (auto simp: map_of_row_to_dict)
qed

lemma set_display_name_facts:
  assumes "set_display_name m side t = Inr u" and "plain t"
  shows "plain u \<and> (\<forall>k. k \<noteq> side @ ''_address_display_name'' \<longrightarrow> map_of u k = map_of t k)"
proof -
  from assms(1) obtain a where a: "map_of t (side @ ''_address'') = Some a"
    and u: "u = AList.update (side @ ''_address_display_name'') (display_name m a) t"
    by (auto simp: set_display_name_def rbind_Inr_iff)
  have "display_name m a \<noteq> CBytes b" for b
    using a assms(2) by (auto simp: display_name_def plain_def split: cell.splits option.splits)
  with assms(2) u show ?thesis by (auto intro!: plain_update simp: map_of_upd)
qed

lemma choose_method_transfer:
  assumes "choose_method dec (contract_cells s addresses) t = Inr (u, ms)" and "plain t"
    and "map_of t ''receipt_contract_address'' = Some CNone" and "map_of t ''method'' = Some m" "m \<noteq> CText INSCRIPTION"
  shows "u = AList.update ''method'' (CText ''Transfer'') t"
  using assms plain_not_contract [OF assms(2), of "''to_address''" _ s addresses]
  by (auto simp: choose_method_def rbind_Inr_iff split: if_splits)

lemma parse_transactions_length: "parse_transactions fl s dec rows = Inr out \<Longrightarrow> length out = length rows"
  by (auto simp: parse_transactions_def fill_address_display_to_transactions_def rbind_Inr_iff Let_def
      dest!: rmap_length split: if_splits)

lemma renamed_never:
  assumes "\<forall>a \<in> set abis. cell_of a ''signed_prefix'' \<noteq> CText ''Transfer''" and "cell_of t ''method'' = CText ''Transfer''"
  shows "rfold (\<lambda>t a. rename_method a t) t abis = Inr t"
  using assms by (induction abis) (auto simp: rename_method_def)

text \<open>Each transaction of the list that neither creates a contract nor has the method of inscriptions is shown
  as a transfer to an address that is not a contract, also when it calls a contract of the table: the addresses of
  the table are bytes, those of the list are text.\<close>

lemma calls_shown_as_transfers:
  assumes "parse_transactions fl s dec rows = Inr out"
    and "\<forall>ms. \<forall>a \<in> set (method_names dec ms). cell_of a ''signed_prefix'' \<noteq> CText ''Transfer''"
  shows "list_all2 (\<lambda>row t. map_of row ''receipt_contract_address'' = Some CNone \<longrightarrow>
      format_value_for_json fl (cell_of row ''method_id'') \<noteq> CText INSCRIPTION \<longrightarrow>
      cell_of t ''method'' = CText ''Transfer'' \<and> cell_of t ''is_contract'' = CBool False) rows out"
    (is "list_all2 ?P rows out")
proof (cases "rows = []")
  case False
  with assms(1) obtain entries as named chosen where
    entries: "list_all2 (\<lambda>r e. list_entry fl r = Inr e) rows entries"
    and named: "list_all2 (\<lambda>e t. rbind (set_display_name (get_address_display_mapping s as) ''from'' (snd e))
        (set_display_name (get_address_display_mapping s as) ''to'') = Inr t) entries named"
    and chosen: "list_all2 (\<lambda>t c. choose_method dec (contract_cells s (map (\<lambda>e. fst e ! 1) entries)) t = Inr c) named chosen"
    and out: "list_all2 (\<lambda>c t. rfold (\<lambda>t a. rename_method a t) (fst c) (method_names dec (concat (map snd chosen))) = Inr t) chosen out"
    by (auto simp: parse_transactions_def fill_address_display_to_transactions_def rbind_Inr_iff rmap_Inr_iff
        list_all2_map1 Let_def)
  have "?P (rows ! i) (out ! i)" if i: "i < length rows" for i
  proof (intro impI)
    assume created: "map_of (rows ! i) ''receipt_contract_address'' = Some CNone"
      and id_differs: "format_value_for_json fl (cell_of (rows ! i) ''method_id'') \<noteq> CText INSCRIPTION"
    let ?e = "entries ! i" and ?t = "named ! i" and ?c = "chosen ! i"
    have ids: "list_entry fl (rows ! i) = Inr ?e"
      using entries i by (auto simp: list_all2_conv_all_nth)
    have shown: "rbind (set_display_name (get_address_display_mapping s as) ''from'' (snd ?e))
        (set_display_name (get_address_display_mapping s as) ''to'') = Inr ?t"
      using entries named i by (auto simp: list_all2_conv_all_nth)
    have chose: "choose_method dec (contract_cells s (map (\<lambda>e. fst e ! 1) entries)) ?t = Inr (fst ?c, snd ?c)"
      using entries named chosen i by (auto simp: list_all2_conv_all_nth)
    have renamed: "rfold (\<lambda>t a. rename_method a t) (fst ?c) (method_names dec (concat (map snd chosen))) = Inr (out ! i)"
      using entries named chosen out i by (auto simp: list_all2_conv_all_nth)
    from ids have "list_entry fl (rows ! i) = Inr (fst ?e, snd ?e)" by simp
    note entry = list_entry_facts [OF this]
    then obtain m where m: "map_of (snd ?e) ''method'' = Some m" "m \<noteq> CText INSCRIPTION"
      using ids id_differs
      by (cases "map_of (rows ! i) ''method_id''")
        (auto simp: cell_of_def list_entry_def rbind_Inr_iff Let_def map_of_row_to_dict)
    from shown obtain u where "set_display_name (get_address_display_mapping s as) ''from'' (snd ?e) = Inr u"
      "set_display_name (get_address_display_mapping s as) ''to'' u = Inr ?t" by (auto simp: rbind_Inr_iff)
    from set_display_name_facts [OF this(1)] set_display_name_facts [OF this(2)] entry
    have t: "plain ?t" "map_of ?t ''method'' = Some m" "map_of ?t ''is_contract'' = Some (CBool False)"
        "map_of ?t ''receipt_contract_address'' = Some CNone"
      using m created by auto
    have "fst ?c = AList.update ''method'' (CText ''Transfer'') ?t"
      by (rule choose_method_transfer [OF chose t(1,4,2) m(2)])
    then have c: "cell_of (fst ?c) ''method'' = CText ''Transfer''" "cell_of (fst ?c) ''is_contract'' = CBool False"
      using t(3) by (simp_all add: cell_of_def map_of_upd)
    have "rfold (\<lambda>t a. rename_method a t) (fst ?c) (method_names dec (concat (map snd chosen))) = Inr (fst ?c)"
      using assms(2) c(1) by (intro renamed_never) auto
    with renamed have "out ! i = fst ?c" by simp
    with c show "cell_of (out ! i) ''method'' = CText ''Transfer'' \<and> cell_of (out ! i) ''is_contract'' = CBool False" by simp
  qed
  then show ?thesis
    using entries named chosen out by (simp add: list_all2_conv_all_nth)
qed (use assms in \<open>simp add: parse_transactions_def\<close>)

definition sample_floats :: "int floats" where
  "sample_floats = \<lparr>f_of_int = id, f_mul = (*), f_add = (+), f_div = (div), f_quotient = (div), f_is_zero = (\<lambda>x. x = 0),
     f_trunc = id, f_text = (\<lambda>_. int_str), time_text = int_str\<rparr>"

definition sample_services :: services where
  "sample_services = \<lparr>contracts_table = [\<lparr>cr_address = [2], cr_implementation = None\<rparr>], tokens_table = [],
     tags_table = [], contract_names = (\<lambda>_. []), ens_names = None\<rparr>"

definition sample_decoders :: "int decoders" where
  "sample_decoders = \<lparr>json_loads = (\<lambda>_. Inl TypeError), to_text = (\<lambda>_. Inl TypeError), method_names = (\<lambda>_. [])\<rparr>"

definition contract_call :: "int row" where
  "contract_call = [(''from_address'', CBytes [1]), (''to_address'', CBytes [2]), (''value'', CDecimal 0),
     (''method_id'', CText ''0xa9059cbb''), (''block_timestamp'', CTime 7), (''gas_price'', CDecimal 1),
     (''receipt_gas_used'', CDecimal 21000), (''receipt_contract_address'', CNone)]"

theorem calls_shown_as_transfers_witness:
  "\<exists>t. parse_transactions sample_floats sample_services sample_decoders [contract_call] = Inr [t] \<and>
     cell_of t ''method'' = CText ''Transfer'' \<and> cell_of t ''is_contract'' = CBool False"
proof -
  have "\<not> isl (parse_transactions sample_floats sample_services sample_decoders [contract_call])" by code_simp
  then obtain ts where ts: "parse_transactions sample_floats sample_services sample_decoders [contract_call] = Inr ts"
    by (cases "parse_transactions sample_floats sample_services sample_decoders [contract_call]") auto
  from calls_shown_as_transfers [OF ts] obtain t where "ts = [t]" and
    "cell_of t ''method'' = CText ''Transfer'' \<and> cell_of t ''is_contract'' = CBool False"
    by (auto simp: list_all2_Cons1 sample_decoders_def contract_call_def cell_of_def INSCRIPTION_def)
  with ts show ?thesis by blast
qed

section \<open>Which name an address gets\<close>

definition or_else :: "'a option \<Rightarrow> 'a option \<Rightarrow> 'a option" where
  "or_else a b = (case a of None \<Rightarrow> b | Some x \<Rightarrow> Some x)"

lemma or_else_None [simp]: "or_else None b = b" "or_else a None = a"
  by (simp_all add: or_else_def split: option.split)

lemma bytes_to_hex_inj [simp]: "bytes_to_hex_str a = bytes_to_hex_str b \<longleftrightarrow> a = b"
proof
  assume "bytes_to_hex_str a = bytes_to_hex_str b"
  then have "bytes_fromhex (bytes_hex a) = bytes_fromhex (bytes_hex b)" by (simp add: bytes_to_hex_str_def)
  then show "a = b" by (simp add: bytes_fromhex_hex)
qed simp

lemma lookup_rows:
  assumes "distinct (map fst rows)"
  shows "map_of (rev (map (\<lambda>(a, x). (bytes_to_hex_str a, f x)) (filter (\<lambda>(a, x). Q a x) rows))) (bytes_to_hex_str b) =
    (case map_of rows b of None \<Rightarrow> None | Some x \<Rightarrow> if Q b x then Some (f x) else None)"
  using assms
proof (induction rows)
  case (Cons r rows)
  obtain a x where r: "r = (a, x)" by (cases r)
  with Cons.prems have "map_of rows a = None" by (simp add: map_of_eq_None_iff)
  with Cons show ?case by (auto simp: r map_add_def split: option.split)
qed simp

lemma map_of_update_lookup: "map_of (update_all new m) k = or_else (map_of (rev new) k) (map_of m k)"
  by (simp add: map_of_update_all map_add_def or_else_def split: option.split)

lemma implementation_names:
  assumes "distinct (map fst ps)" and "\<forall>(p, i) \<in> set ps. i \<notin> fst ` set ps"
  shows "map_of (fold use_implementation_name ps m) (bytes_to_hex_str a) =
    or_else (case map_of ps a of None \<Rightarrow> None | Some i \<Rightarrow> map_of m (bytes_to_hex_str i)) (map_of m (bytes_to_hex_str a))"
  using assms
proof (induction ps arbitrary: m)
  case (Cons r ps)
  obtain p i where r: "r = (p, i)" by (cases r)
  let ?m = "use_implementation_name (p, i) m"
  have at: "map_of ?m (bytes_to_hex_str b) =
      (if b = p then or_else (map_of m (bytes_to_hex_str i)) (map_of m (bytes_to_hex_str p)) else map_of m (bytes_to_hex_str b))" for b
    by (auto simp: use_implementation_name_def or_else_def map_of_upd split: option.split)
  have new: "map_of ps p = None" using Cons.prems(1) by (simp add: r map_of_eq_None_iff)
  have "j \<noteq> p" if "map_of ps b = Some j" for b j
    using Cons.prems(2) map_of_SomeD [OF that] by (auto simp: r)
  moreover have "\<forall>(q, j) \<in> set ps. j \<notin> fst ` set ps" using Cons.prems(2) by (auto simp: r)
  ultimately show ?case
    using Cons.IH [of ?m] Cons.prems(1) new by (auto simp: r at or_else_def split: option.split)
qed (simp add: or_else_def)

text \<open>The name shown for an address of the list is its tag, else its ENS name, else the name of the token at the
  address, else the name of the contract it is a proxy of, else its own name as a contract; it has none if all of
  them are missing.\<close>

lemma display_name_priority:
  assumes "Some a \<in> set addresses" and "a \<noteq> []"
    and "distinct (map cr_address (contracts_table s))" and "distinct (map fst (tokens_table s))"
    and "distinct (map fst (tags_table s))"
    and "\<forall>(p, i) \<in> set (proxies s (valid_addresses addresses)). i \<notin> fst ` set (proxies s (valid_addresses addresses))"
  defines "asked \<equiv> map bytes_to_hex_str (valid_addresses addresses)"
    and "ps \<equiv> proxies s (valid_addresses addresses)"
  defines "names \<equiv> map_of (rev (contract_names s (asked @ map (bytes_to_hex_str \<circ> snd) ps)))"
  shows "map_of (get_address_display_mapping s addresses) (bytes_to_hex_str a) =
    or_else (case map_of (tags_table s) a of None \<Rightarrow> None | Some t \<Rightarrow> t)
   (or_else (case ens_names s of None \<Rightarrow> None | Some ens \<Rightarrow> map_of (rev (ens asked)) (bytes_to_hex_str a))
   (or_else (map_option (\<lambda>(n, sym). none_text n @ '': '' @ none_text sym @ '' Token'') (map_of (tokens_table s) a))
   (or_else (case map_of ps a of None \<Rightarrow> None | Some i \<Rightarrow> names (bytes_to_hex_str i))
            (names (bytes_to_hex_str a)))))"
proof -
  have valid: "a \<in> set (valid_addresses addresses)" using assms(1,2) by (force simp: valid_addresses_def)
  have d: "distinct (map fst ps)"
    using assms(3) by (simp add: ps_def proxies_def comp_def distinct_map_filter)
  have tag: "map_of (rev (tag_names s (valid_addresses addresses))) (bytes_to_hex_str a) =
      (case map_of (tags_table s) a of None \<Rightarrow> None | Some t \<Rightarrow> t)"
    using lookup_rows [OF assms(5), of the "\<lambda>a t. a \<in> set (valid_addresses addresses) \<and> t \<noteq> None" a] valid
    by (auto simp: tag_names_def split: option.split)
  have token: "map_of (rev (token_names s (valid_addresses addresses))) (bytes_to_hex_str a) =
      map_option (\<lambda>(n, sym). none_text n @ '': '' @ none_text sym @ '' Token'') (map_of (tokens_table s) a)"
    using lookup_rows [OF assms(4), of "\<lambda>(n, sym). none_text n @ '': '' @ none_text sym @ '' Token''"
        "\<lambda>a _. a \<in> set (valid_addresses addresses)" a] valid
    by (auto simp: token_names_def case_prod_unfold split: option.split)
  have "addresses \<noteq> []" using assms(1) by auto
  show ?thesis
    using \<open>addresses \<noteq> []\<close> implementation_names [OF d] assms(6)
    by (simp add: get_address_display_mapping_def Let_def map_of_update_lookup tag token names_def
        flip: asked_def ps_def split: option.split)
qed

definition proxy_services :: services where
  "proxy_services = \<lparr>contracts_table = [\<lparr>cr_address = [1], cr_implementation = Some [2]\<rparr>], tokens_table = [],
     tags_table = [([1], None)], contract_names = (\<lambda>_. [(''0x02'', ''Vault'')]), ens_names = None\<rparr>"

theorem display_name_priority_witness:
  "map_of (get_address_display_mapping proxy_services [Some [1], None]) (bytes_to_hex_str [1]) = Some ''Vault''"
proof -
  have ps: "proxies proxy_services (valid_addresses [Some [1], None]) = [([1], [2])]" by code_simp
  have "bytes_to_hex_str [2] = ''0x02''" by code_simp
  with display_name_priority [of "[1]" "[Some [1], None]" proxy_services] show ?thesis
    unfolding ps by (simp add: proxy_services_def or_else_def)
qed

section \<open>Logs\<close>

text \<open>\<open>get_abis_for_logs\<close> and \<open>get_names_from_method_or_topic_list\<close> ask the verification service.\<close>

record 'f log_env =
  log_floats :: "'f floats"
  log_decoders :: "'f decoders"
  log_ext :: ext
  log_services :: services
  py_str :: "abi_value \<Rightarrow> string"
  abis_for_logs :: "('f cell \<times> 'f cell \<times> nat) list \<Rightarrow> (('f cell \<times> 'f cell) \<times> 'f row) list"

fun truthy_cell :: "'f floats \<Rightarrow> 'f cell \<Rightarrow> bool" where
  "truthy_cell fl CNone = False"
| "truthy_cell fl (CBool b) = b"
| "truthy_cell fl (CInt n) = (n \<noteq> 0)"
| "truthy_cell fl (CText t) = (t \<noteq> [])"
| "truthy_cell fl (CBytes b) = (b \<noteq> [])"
| "truthy_cell fl (CDecimal n) = (n \<noteq> 0)"
| "truthy_cell fl (CTime t) = True"
| "truthy_cell fl (CFloat x) = (\<not> f_is_zero fl x)"
| "truthy_cell fl (CList vs) = (vs \<noteq> [])"
| "truthy_cell fl (CDict d) = (d \<noteq> [])"

fun cell_dict :: "'f cell \<Rightarrow> 'f row res" where
  "cell_dict (CDict d) = Inr d"
| "cell_dict _ = Inl TypeError"

fun cell_list :: "'f cell \<Rightarrow> 'f cell list res" where
  "cell_list (CList vs) = Inr vs"
| "cell_list _ = Inl TypeError"

definition nth_res :: "'a list \<Rightarrow> nat \<Rightarrow> 'a res" where
  "nth_res xs i = (if i < length xs then Inr (xs ! i) else Inl IndexError)"

text \<open>A parameter of an event: its field \<open>indexed\<close>, its type and its name.\<close>

type_synonym 'f event_param = "'f cell \<times> string \<times> string"

definition event_param :: "'f cell \<Rightarrow> 'f event_param res" where
  "event_param v =
     rbind (cell_dict v) (\<lambda>d. rbind (dict_get d ''indexed'') (\<lambda>indexed.
     rbind (rbind (dict_get d ''type'') cell_text) (\<lambda>ty. rbind (rbind (dict_get d ''name'') cell_text) (\<lambda>n.
       Inr (indexed, ty, n)))))"

definition event_params :: "'f log_env \<Rightarrow> 'f row \<Rightarrow> 'f event_param list res" where
  "event_params env event_abi =
     rbind (cell_text (cell_of event_abi ''function_abi'')) (\<lambda>j. rbind (json_loads (log_decoders env) j) (\<lambda>v.
     rbind (cell_dict v) (\<lambda>d. rbind (rbind (dict_get d ''inputs'') cell_list) (rmap event_param))))"

definition is_indexed :: "'f log_env \<Rightarrow> 'f event_param \<Rightarrow> bool" where
  "is_indexed env p = truthy_cell (log_floats env) (fst p)"

definition topic_data :: "'f row \<Rightarrow> nat \<Rightarrow> string res" where
  "topic_data log_json k =
     rbind (rbind (dict_get log_json (''topic'' @ nat_str k)) cell_text) (\<lambda>t. Inr (drop 2 t))"

fun shown_cell :: "shown \<Rightarrow> 'f cell" where
  "shown_cell (ShownText t) = CText t"
| "shown_cell (ShownList ts) = CList (map CText ts)"

definition input_entry :: "'f event_param \<Rightarrow> shown \<Rightarrow> string \<Rightarrow> 'f cell" where
  "input_entry = (\<lambda>(indexed, ty, n) hex_data dec_data.
     CDict [(''indexed'', indexed), (''name'', CText n), (''data_type'', CText ty), (''hex_data'', shown_cell hex_data),
       (''dec_data'', CText dec_data)])"

definition param_text :: "'f log_env \<Rightarrow> nat \<times> 'f event_param \<Rightarrow> string" where
  "param_text env = (\<lambda>(i, (indexed, ty, n)).
     (if truthy_cell (log_floats env) indexed then ''index_topic_'' @ nat_str (i + 1) @ '' '' else []) @ ty @ '' '' @ n @ '', '')"

definition drop_last2 :: "string \<Rightarrow> string" where
  "drop_last2 t = take (length t - 2) t"

definition format_name :: "'f cell \<Rightarrow> string" where
  "format_name v = (case v of CText t \<Rightarrow> t | _ \<Rightarrow> ''None'')"

text \<open>The first loop: the types of the indexed parameters, the text of their topics (each read under its number as
  it comes up), and the types of the others.\<close>

fun split_params :: "'f log_env \<Rightarrow> 'f row \<Rightarrow> 'f event_param list \<Rightarrow> string list \<times> string \<times> string list
    \<Rightarrow> (string list \<times> string \<times> string list) res" where
  "split_params env log_json [] acc = Inr acc"
| "split_params env log_json ((indexed, ty, n) # ps) (index_types, index_str, types) =
     (if truthy_cell (log_floats env) indexed
      then rbind (topic_data log_json (length index_types + 1)) (\<lambda>t.
             split_params env log_json ps (index_types @ [ty], index_str @ t, types))
      else split_params env log_json ps (index_types, index_str, types @ [ty]))"

text \<open>The second loop: each parameter takes the next value of its group.\<close>

fun input_loop :: "'f log_env \<Rightarrow> shown list \<times> string list \<Rightarrow> shown list \<times> string list \<Rightarrow> 'f event_param list
    \<Rightarrow> 'f cell list \<times> 'f cell list \<Rightarrow> ('f cell list \<times> 'f cell list) res" where
  "input_loop env index_decoded decoded [] acc = Inr acc"
| "input_loop env index_decoded decoded (p # ps) (index_input_data, input_data) =
     (if is_indexed env p
      then rbind (nth_res (fst index_decoded) (length index_input_data)) (\<lambda>h.
           rbind (nth_res (snd index_decoded) (length index_input_data)) (\<lambda>d.
             input_loop env index_decoded decoded ps (index_input_data @ [input_entry p h d], input_data)))
      else rbind (nth_res (fst decoded) (length input_data)) (\<lambda>h.
           rbind (nth_res (snd decoded) (length input_data)) (\<lambda>d.
             input_loop env index_decoded decoded ps (index_input_data, input_data @ [input_entry p h d]))))"

text \<open>The part of the loop over the logs inside \<open>try\<close>: the fields are set at its end, so an exception leaves the log as it
  was.\<close>

definition decoded_fields :: "'f log_env \<Rightarrow> 'f row \<Rightarrow> 'f row \<Rightarrow> 'f row res" where
  "decoded_fields env event_abi log_json =
     rbind (event_params env event_abi) (\<lambda>ps.
     rbind (rbind (dict_get log_json ''data'') cell_text) (\<lambda>log_data.
     rbind (split_params env log_json ps ([], [], [])) (\<lambda>(index_data_types, index_data_str, data_types).
     rbind (decode_log_data (log_ext env) (py_str env) index_data_types index_data_str) (\<lambda>index_decoded.
     rbind (decode_log_data (log_ext env) (py_str env) data_types (drop 2 log_data)) (\<lambda>decoded.
     rbind (input_loop env index_decoded decoded ps ([], [])) (\<lambda>(index_input_data, input_data).
       Inr [(''input_data'', CList (index_input_data @ input_data)),
            (''function_name'', cell_of event_abi ''function_name''),
            (''function_unsigned'', cell_of event_abi ''function_unsigned''),
            (''full_function_name'', CText (format_name (cell_of event_abi ''function_name'') @ ''('' @
               drop_last2 (concat (map (param_text env) (enumerate 0 ps))) @ '')''))]))))))"

definition log_json_of :: "'f log_env \<Rightarrow> 'f row \<times> 'f cell \<Rightarrow> ('f row \<times> ('f cell \<times> 'f cell \<times> nat) \<times> 'f cell list) res" where
  "log_json_of env = (\<lambda>(row, log_input).
     let log_json = model_as_dict (log_floats env) row
     in rbind (rmap (dict_get log_json) [''topic1'', ''topic2'', ''topic3'']) (\<lambda>topics.
        rbind (dict_get log_json ''address'') (\<lambda>address. rbind (dict_get log_json ''topic0'') (\<lambda>topic0.
        let indexed_true_count = length (filter (\<lambda>t. t \<noteq> CNone) topics)
        in case log_input of
             CBytes b \<Rightarrow>
               (let text_of = bytes_to_hex_str b; method = CText (take 10 text_of)
                in Inr (if length text_of \<ge> 10
                        then (AList.update ''transaction_method_id'' method log_json, (address, topic0, indexed_true_count), [method])
                        else (log_json, (address, topic0, indexed_true_count), [])))
           | _ \<Rightarrow> Inl AttributeError))))"

definition set_method :: "('f cell \<times> 'f row) list \<Rightarrow> 'f row \<Rightarrow> 'f row" where
  "set_method method_map log_json =
     (case map_of log_json ''transaction_method_id'' of
        None \<Rightarrow> log_json
      | Some m \<Rightarrow>
          (case map_of method_map m of
             None \<Rightarrow> log_json
           | Some f \<Rightarrow> update_all [(''transaction_method'', cell_of f ''function_name''),
               (''transaction_function_unsigned'', cell_of f ''function_unsigned'')] log_json))"

definition decode_log :: "'f log_env \<Rightarrow> ('f cell \<times> 'f row) list \<Rightarrow> (('f cell \<times> 'f cell) \<times> 'f row) list \<Rightarrow> 'f row \<Rightarrow> 'f row res" where
  "decode_log env method_map abis log_json =
     (let topic0 = cell_of log_json ''topic0''
      in if \<not> truthy_cell (log_floats env) topic0 then Inr log_json
         else rbind (cell_text topic0) (\<lambda>t.
           let l1 = set_method method_map (AList.update ''method_id'' (CText (take 10 t)) log_json)
           in rbind (dict_get l1 ''address'') (\<lambda>address.
                case map_of abis (address, topic0) of
                  None \<Rightarrow> Inr l1
                | Some event_abi \<Rightarrow>
                    if event_abi = [] then Inr l1
                    else case decoded_fields env event_abi l1 of
                           Inl _ \<Rightarrow> Inr l1
                         | Inr new \<Rightarrow> Inr (update_all new l1))))"

definition fill_address_display_to_logs :: "services \<Rightarrow> 'f row list \<Rightarrow> 'f row list res" where
  "fill_address_display_to_logs s log_list =
     rbind (rmap (\<lambda>l. rbind (dict_get l ''address'') cell_from_hex) log_list) (\<lambda>as.
     let address_map = get_address_display_mapping s (map Some as)
     in rmap (\<lambda>l. rbind (rbind (dict_get l ''address'') cell_text) (\<lambda>a.
          Inr (case map_of address_map a of
                 None \<Rightarrow> l
               | Some n \<Rightarrow> AList.update ''address_display_name'' (CText n) l))) log_list)"

definition parse_logs :: "'f log_env \<Rightarrow> ('f row \<times> 'f cell) list \<Rightarrow> 'f row list res" where
  "parse_logs env logs =
     rbind (rmap (log_json_of env) logs) (\<lambda>parsed.
     let method_list = method_names (log_decoders env) (concat (map (snd \<circ> snd) parsed));
         method_map = rev (map (\<lambda>m. (cell_of m ''signed_prefix'', m)) method_list);
         abis = abis_for_logs env (map (fst \<circ> snd) parsed)
     in rbind (rmap (decode_log env method_map abis) (map fst parsed)) (fill_address_display_to_logs (log_services env)))"

subsection \<open>Every parameter is shown with its value\<close>

text \<open>What a log with the values \<open>vs\<close> holds of the group of parameters \<open>P\<close> of an event: bytes that the ABI decodes
  to the values of these parameters, in the order of the event.\<close>

definition holds_values :: "'f log_env \<Rightarrow> ('f event_param \<Rightarrow> bool) \<Rightarrow> ('f event_param \<times> abi_value) list \<Rightarrow> string \<Rightarrow> bool" where
  "holds_values env P pvs text_of \<longleftrightarrow> (\<exists>b. bytes_fromhex text_of = Inr b \<and>
     abi_decode (log_ext env) (map (\<lambda>pv. fst (snd (fst pv))) (filter (\<lambda>pv. P (fst pv)) pvs)) b = Inr (map snd (filter (\<lambda>pv. P (fst pv)) pvs)))"

text \<open>The entry of a parameter with its value: the value as it is shown, and encoded on its own.\<close>

definition has_shown :: "'f log_env \<Rightarrow> 'f event_param \<times> abi_value \<Rightarrow> shown \<times> string \<Rightarrow> bool" where
  "has_shown env = (\<lambda>(p, v) (h, d). shown_value (py_str env) (fst (snd p)) v = Inr h \<and>
     (\<exists>b. abi_encode (log_ext env) [fst (snd p)] [v] = Inr b \<and> d = ''0x'' @ bytes_hex b))"

definition shows_value :: "'f log_env \<Rightarrow> 'f event_param \<times> abi_value \<Rightarrow> 'f cell \<Rightarrow> bool" where
  "shows_value env pv entry \<longleftrightarrow> (\<exists>h d. has_shown env pv (h, d) \<and> entry = input_entry (fst pv) h d)"

lemma split_params_groups:
  assumes "rmap (topic_data log_json) [length its + 1..<length its + 1 + length (filter (is_indexed env) ps)] = Inr ts"
  shows "split_params env log_json ps (its, istr, dts) =
    Inr (its @ map (fst \<circ> snd) (filter (is_indexed env) ps), istr @ concat ts,
         dts @ map (fst \<circ> snd) (filter (\<lambda>p. \<not> is_indexed env p) ps))"
  using assms
proof (induction ps arbitrary: its istr dts ts)
  case (Cons p ps)
  obtain x ty n where p: "p = (x, ty, n)" by (cases p)
  show ?case
  proof (cases "is_indexed env p")
    case True
    have "[length its + 1..<length its + 1 + length (filter (is_indexed env) (p # ps))] =
        (length its + 1) # [length (its @ [ty]) + 1..<length (its @ [ty]) + 1 + length (filter (is_indexed env) ps)]"
      by (subst upt_conv_Cons) (simp_all add: True)
    with Cons.prems obtain t ts' where t: "topic_data log_json (length its + 1) = Inr t" "ts = t # ts'"
      "rmap (topic_data log_json) [length (its @ [ty]) + 1..<length (its @ [ty]) + 1 + length (filter (is_indexed env) ps)] = Inr ts'"
      by (auto simp: rbind_Inr_iff simp del: upt_Suc)
    from Cons.IH [OF t(3), of "istr @ t" dts] True t(1,2) show ?thesis by (simp add: p is_indexed_def)
  next
    case False
    then have "split_params env log_json (p # ps) (its, istr, dts) = split_params env log_json ps (its, istr, dts @ [ty])"
      by (simp add: p is_indexed_def)
    also have "\<dots> = Inr (its @ map (fst \<circ> snd) (filter (is_indexed env) ps), istr @ concat ts,
         (dts @ [ty]) @ map (fst \<circ> snd) (filter (\<lambda>p. \<not> is_indexed env p) ps))"
      by (rule Cons.IH) (use Cons.prems False in simp)
    finally show ?thesis using False by (simp add: p)
  qed
qed simp

text \<open>Decoded data are values shown one by one.\<close>

lemma decode_log_data_shows:
  assumes "bytes_fromhex t = Inr b" and "abi_decode x (map fst tvs) b = Inr (map snd tvs)"
    and "decode_log_data x str (map fst tvs) t = Inr (hs, es)"
  shows "list_all2 (\<lambda>(ty, v) h. shown_value str ty v = Inr h) tvs hs"
    and "list_all2 (\<lambda>(ty, v) e. \<exists>b. abi_encode x [ty] [v] = Inr b \<and> e = ''0x'' @ bytes_hex b) tvs es"
proof -
  have z: "zip (map fst tvs) (map snd tvs) = tvs" by (rule zip_map_fst_snd)
  from assms have es: "encoded_values x (map fst tvs) (map snd tvs) = Inr es"
    and hs: "rmap (\<lambda>(t, v). shown_value str t v) tvs = Inr hs"
    by (auto simp: decode_log_data_def rbind_Inr_iff z)
  from hs show "list_all2 (\<lambda>(ty, v) h. shown_value str ty v = Inr h) tvs hs"
    by (simp add: rmap_Inr_iff case_prod_unfold)
  from es show "list_all2 (\<lambda>(ty, v) e. \<exists>b. abi_encode x [ty] [v] = Inr b \<and> e = ''0x'' @ bytes_hex b) tvs es"
    by (auto simp: encoded_values_def z rmap_Inr_iff rbind_Inr_iff case_prod_unfold elim!: list_all2_mono)
qed

lemma nth_res_append: "nth_res (xs @ ys) (length xs) = (case ys of [] \<Rightarrow> Inl IndexError | y # _ \<Rightarrow> Inr y)"
  by (auto simp: nth_res_def nth_append split: list.split)

text \<open>The loop runs through both groups of values at once: what is left of each belongs to what is left of the parameters.\<close>

lemma input_loop_shows:
  assumes "list_all2 (has_shown env)
      (filter (\<lambda>pv. is_indexed env (fst pv)) pvs) (zip ihs ids)" and "length ihs = length ids"
    and "list_all2 (has_shown env)
      (filter (\<lambda>pv. \<not> is_indexed env (fst pv)) pvs) (zip hs ds)" and "length hs = length ds"
    and "length ih0 = length xs" "length id0 = length xs" "length h0 = length ys" "length d0 = length ys"
  shows "\<exists>xs' ys'. input_loop env (ih0 @ ihs, id0 @ ids) (h0 @ hs, d0 @ ds) (map fst pvs) (xs, ys) = Inr (xs @ xs', ys @ ys') \<and>
    list_all2 (shows_value env) (filter (\<lambda>pv. is_indexed env (fst pv)) pvs) xs' \<and>
    list_all2 (shows_value env) (filter (\<lambda>pv. \<not> is_indexed env (fst pv)) pvs) ys'"
  using assms
proof (induction pvs arbitrary: ihs ids hs ds ih0 id0 h0 d0 xs ys)
  case (Cons pv pvs)
  obtain p v where pv: "pv = (p, v)" by (cases pv)
  show ?case
  proof (cases "is_indexed env p")
    case True
    with Cons.prems(1,2) obtain h ihs' d ids' where hd: "ihs = h # ihs'" "ids = d # ids'"
      by (cases ihs; cases ids) (auto simp: pv)
    let ?e = "input_entry p h d"
    have e: "shows_value env (p, v) ?e" using Cons.prems(1) True by (auto simp: pv hd shows_value_def)
    have at: "nth_res (ih0 @ ihs) (length xs) = Inr h" "nth_res (id0 @ ids) (length xs) = Inr d"
      using nth_res_append [of ih0 ihs] nth_res_append [of id0 ids] Cons.prems(5,6) by (simp_all add: hd)
    have IH: "\<exists>xs' ys'. input_loop env ((ih0 @ [h]) @ ihs', (id0 @ [d]) @ ids') (h0 @ hs, d0 @ ds) (map fst pvs) (xs @ [?e], ys) =
        Inr ((xs @ [?e]) @ xs', ys @ ys') \<and> list_all2 (shows_value env) (filter (\<lambda>pv. is_indexed env (fst pv)) pvs) xs' \<and>
      list_all2 (shows_value env) (filter (\<lambda>pv. \<not> is_indexed env (fst pv)) pvs) ys'"
      by (rule Cons.IH) (use Cons.prems True in \<open>simp_all add: pv hd\<close>)
    then obtain xs' ys' where "input_loop env ((ih0 @ [h]) @ ihs', (id0 @ [d]) @ ids') (h0 @ hs, d0 @ ds) (map fst pvs) (xs @ [?e], ys) =
        Inr ((xs @ [?e]) @ xs', ys @ ys')" "list_all2 (shows_value env) (filter (\<lambda>pv. is_indexed env (fst pv)) pvs) xs'"
      "list_all2 (shows_value env) (filter (\<lambda>pv. \<not> is_indexed env (fst pv)) pvs) ys'" by blast
    with True e at show ?thesis by (intro exI [of _ "?e # xs'"] exI [of _ ys']) (simp add: pv hd)
  next
    case False
    with Cons.prems(3,4) obtain h hs' d ds' where hd: "hs = h # hs'" "ds = d # ds'"
      by (cases hs; cases ds) (auto simp: pv)
    let ?e = "input_entry p h d"
    have e: "shows_value env (p, v) ?e" using Cons.prems(3) False by (auto simp: pv hd shows_value_def)
    have at: "nth_res (h0 @ hs) (length ys) = Inr h" "nth_res (d0 @ ds) (length ys) = Inr d"
      using nth_res_append [of h0 hs] nth_res_append [of d0 ds] Cons.prems(7,8) by (simp_all add: hd)
    have IH: "\<exists>xs' ys'. input_loop env (ih0 @ ihs, id0 @ ids) ((h0 @ [h]) @ hs', (d0 @ [d]) @ ds') (map fst pvs) (xs, ys @ [?e]) =
        Inr (xs @ xs', (ys @ [?e]) @ ys') \<and> list_all2 (shows_value env) (filter (\<lambda>pv. is_indexed env (fst pv)) pvs) xs' \<and>
      list_all2 (shows_value env) (filter (\<lambda>pv. \<not> is_indexed env (fst pv)) pvs) ys'"
      by (rule Cons.IH) (use Cons.prems False in \<open>simp_all add: pv hd\<close>)
    then obtain xs' ys' where "input_loop env (ih0 @ ihs, id0 @ ids) ((h0 @ [h]) @ hs', (d0 @ [d]) @ ds') (map fst pvs) (xs, ys @ [?e]) =
        Inr (xs @ xs', (ys @ [?e]) @ ys')" "list_all2 (shows_value env) (filter (\<lambda>pv. is_indexed env (fst pv)) pvs) xs'"
      "list_all2 (shows_value env) (filter (\<lambda>pv. \<not> is_indexed env (fst pv)) pvs) ys'" by blast
    with False e at show ?thesis by (intro exI [of _ xs'] exI [of _ "?e # ys'"]) (simp add: pv hd)
  qed
qed simp

lemma decoded_group:
  assumes "holds_values env P pvs t"
    and "decode_log_data (log_ext env) (py_str env) (map (\<lambda>pv. fst (snd (fst pv))) (filter (\<lambda>pv. P (fst pv)) pvs)) t = Inr (hs, ds)"
  shows "list_all2 (has_shown env) (filter (\<lambda>pv. P (fst pv)) pvs) (zip hs ds)" and "length hs = length ds"
proof -
  let ?g = "filter (\<lambda>pv. P (fst pv)) pvs"
  let ?tvs = "map (\<lambda>pv. (fst (snd (fst pv)), snd pv)) ?g"
  have m: "map fst ?tvs = map (\<lambda>pv. fst (snd (fst pv))) ?g" "map snd ?tvs = map snd ?g" by simp_all
  from assms(1) obtain b where b: "bytes_fromhex t = Inr b" "abi_decode (log_ext env) (map fst ?tvs) b = Inr (map snd ?tvs)"
    unfolding holds_values_def m by blast
  note seen = decode_log_data_shows [OF b, unfolded m(1), OF assms(2)]
  from list_all2_lengthD [OF seen(1)] list_all2_lengthD [OF seen(2)] show l: "length hs = length ds" by simp
  show "list_all2 (has_shown env) ?g (zip hs ds)"
    unfolding list_all2_conv_all_nth
  proof (intro conjI allI impI)
    show "length ?g = length (zip hs ds)" using list_all2_lengthD [OF seen(1)] l by simp
    fix i
    assume i: "i < length ?g"
    with list_all2_nthD [OF seen(1), of i] list_all2_nthD [OF seen(2), of i] list_all2_lengthD [OF seen(1)] l
    show "has_shown env (?g ! i) (zip hs ds ! i)" by (simp add: has_shown_def case_prod_unfold)
  qed
qed

text \<open>C27: when a log holds the values \<open>vs\<close> of the parameters of its event - its topics those of the indexed ones, its
  data those of the others, as the ABI decodes them - and is decoded, it shows every parameter exactly once with its own
  value, as text and encoded, first the indexed parameters and then the others, each group in the order of the event.\<close>

theorem decoded_log_shows_values:
  assumes "decoded_fields env event_abi log_json = Inr new" and "event_params env event_abi = Inr (map fst pvs)"
    and "rmap (topic_data log_json) [1..<1 + length (filter (\<lambda>pv. is_indexed env (fst pv)) pvs)] = Inr ts"
    and "holds_values env (is_indexed env) pvs (concat ts)"
    and "dict_get log_json ''data'' = Inr (CText (x # y # data_text))"
    and "holds_values env (\<lambda>p. \<not> is_indexed env p) pvs data_text"
  shows "\<exists>es. map_of new ''input_data'' = Some (CList es) \<and>
    list_all2 (shows_value env)
      (filter (\<lambda>pv. is_indexed env (fst pv)) pvs @ filter (\<lambda>pv. \<not> is_indexed env (fst pv)) pvs) es"
proof -
  let ?ip = "filter (\<lambda>pv. is_indexed env (fst pv)) pvs" and ?dp = "filter (\<lambda>pv. \<not> is_indexed env (fst pv)) pvs"
  have f: "filter (is_indexed env) (map fst pvs) = map fst ?ip" "filter (\<lambda>p. \<not> is_indexed env p) (map fst pvs) = map fst ?dp"
    by (simp_all add: filter_map comp_def)
  have s: "split_params env log_json (map fst pvs) ([], [], []) =
      Inr (map (\<lambda>pv. fst (snd (fst pv))) ?ip, concat ts, map (\<lambda>pv. fst (snd (fst pv))) ?dp)"
    using split_params_groups [of log_json "[]" env "map fst pvs" ts "[]" "[]"] assms(3) by (simp add: f comp_assoc)
  from assms(1,2,5) obtain ihs ids hs ds xs ys where
    i: "decode_log_data (log_ext env) (py_str env) (map (\<lambda>pv. fst (snd (fst pv))) ?ip) (concat ts) = Inr (ihs, ids)" and
    d: "decode_log_data (log_ext env) (py_str env) (map (\<lambda>pv. fst (snd (fst pv))) ?dp) data_text = Inr (hs, ds)" and
    loop: "input_loop env (ihs, ids) (hs, ds) (map fst pvs) ([], []) = Inr (xs, ys)" and
    new: "map_of new ''input_data'' = Some (CList (xs @ ys))"
    by (auto simp: decoded_fields_def rbind_Inr_iff s cell_text_def split: prod.splits)
  note shown = decoded_group [OF assms(4) i] decoded_group [OF assms(6) d]
  from input_loop_shows [OF shown, of "[]" "[]" "[]" "[]" "[]" "[]"] loop
  have "list_all2 (shows_value env) ?ip xs" "list_all2 (shows_value env) ?dp ys" by auto
  then show ?thesis using new by (intro exI [of _ "xs @ ys"]) (simp add: list_all2_appendI)
qed

definition sample_params :: "int cell" where
  "sample_params = CDict [(''inputs'', CList
     [CDict [(''indexed'', CBool False), (''type'', CText ''uint256''), (''name'', CText ''amount'')],
      CDict [(''indexed'', CBool True), (''type'', CText ''address''), (''name'', CText ''owner'')]])]"

text \<open>An ABI with a number in each byte.\<close>

definition sample_log_env :: "int log_env" where
  "sample_log_env = \<lparr>log_floats = sample_floats, log_decoders = sample_decoders\<lparr>json_loads := \<lambda>_. Inr sample_params\<rparr>,
     log_ext = sample_ext\<lparr>abi_decode := \<lambda>ts b. Inr (map (\<lambda>i. AUint (uint (b ! i))) [0..<length ts]),
       abi_encode := \<lambda>_ vs. Inr (map (\<lambda>v. case v of AUint n \<Rightarrow> word_of_int n | _ \<Rightarrow> 0) vs)\<rparr>,
     log_services = sample_services, py_str = (\<lambda>v. case v of AUint n \<Rightarrow> int_str n | _ \<Rightarrow> []), abis_for_logs = (\<lambda>_. [])\<rparr>"

definition sample_log :: "int row" where
  "sample_log = [(''topic1'', CText ''0x05''), (''data'', CText ''0x02'')]"

theorem decoded_log_shows_values_witness:
  "\<exists>new. decoded_fields sample_log_env [(''function_abi'', CText ''{}'')] sample_log = Inr new \<and>
     map_of new ''input_data'' = Some (CList
       [input_entry (CBool True, ''address'', ''owner'') (ShownText ''5'') ''0x05'',
        input_entry (CBool False, ''uint256'', ''amount'') (ShownText ''2'') ''0x02''])"
proof -
  let ?pvs = "[((CBool False, ''uint256'', ''amount''), AUint 2), ((CBool True, ''address'', ''owner''), AUint 5)]"
  have "\<not> isl (decoded_fields sample_log_env [(''function_abi'', CText ''{}'')] sample_log)" by code_simp
  then obtain new where new: "decoded_fields sample_log_env [(''function_abi'', CText ''{}'')] sample_log = Inr new"
    by (cases "decoded_fields sample_log_env [(''function_abi'', CText ''{}'')] sample_log") auto
  have ps: "event_params sample_log_env [(''function_abi'', CText ''{}'')] = Inr (map fst ?pvs)" by code_simp
  have topics: "rmap (topic_data sample_log) [1..<1 + length (filter (\<lambda>pv. is_indexed sample_log_env (fst pv)) ?pvs)] = Inr [''05'']"
    by code_simp
  have index: "bytes_fromhex ''05'' = Inr [5]" and data: "bytes_fromhex ''02'' = Inr [2]" by code_simp+
  have ix: "is_indexed sample_log_env (CBool b, p) = b" for b p by (simp add: is_indexed_def)
  have dec: "abi_decode (log_ext sample_log_env) ts b = Inr (map (\<lambda>i. AUint (uint (b ! i))) [0..<length ts])" for ts b
    by (simp add: sample_log_env_def)
  have "bytes_fromhex (concat [''05'']) = Inr [5]" using index by (simp only: concat.simps append_Nil2)
  then have held1: "holds_values sample_log_env (is_indexed sample_log_env) ?pvs (concat [''05''])"
    unfolding holds_values_def by (intro exI [of _ "[5]"] conjI) (assumption, simp add: ix dec)
  have held2: "holds_values sample_log_env (\<lambda>p. \<not> is_indexed sample_log_env p) ?pvs ''02''"
    unfolding holds_values_def by (intro exI [of _ "[2]"] conjI, rule data) (simp add: ix dec)
  from decoded_log_shows_values [OF new ps topics held1 _ held2, of "CHR ''0''" "CHR ''x''"] obtain es where
    es: "map_of new ''input_data'' = Some (CList es)"
    "list_all2 (shows_value sample_log_env) [((CBool True, ''address'', ''owner''), AUint 5), ((CBool False, ''uint256'', ''amount''), AUint 2)] es"
    by (auto simp: ix sample_log_def)
  have texts: "int_str 5 = ''5''" "int_str 2 = ''2''" "bytes_hex [5] = ''05''" "bytes_hex [2] = ''02''"
    "startswith ''address'' ''byte'' = False" "startswith ''uint256'' ''byte'' = False" by code_simp+
  from es(2) have "es = [input_entry (CBool True, ''address'', ''owner'') (ShownText ''5'') ''0x05'',
      input_entry (CBool False, ''uint256'', ''amount'') (ShownText ''2'') ''0x02'']"
    by (auto simp: list_all2_Cons1 shows_value_def has_shown_def shown_value_def sample_log_env_def texts)
  with new es(1) show ?thesis by blast
qed

text \<open>The number after \<open>index_topic_\<close> is the position of the parameter, not that of the topic: here the only indexed
  parameter, in \<open>topic1\<close>, is called \<open>index_topic_2\<close>.\<close>

lemma position_shown_as_topic:
  "rbind (event_params sample_log_env [(''function_abi'', CText ''{}'')])
     (\<lambda>ps. Inr (drop_last2 (concat (map (param_text sample_log_env) (enumerate 0 ps))))) =
   Inr ''uint256 amount, index_topic_2 address owner''"
  by code_simp

section \<open>Token transfers\<close>

record token_view =
  tv_address :: "byte list"
  tv_token_type :: string
  tv_symbol :: "string option"
  tv_name :: "string option"
  tv_icon_url :: "string option"
  tv_decimals :: "int option"

definition or_text :: "string option \<Rightarrow> string \<Rightarrow> string" where
  "or_text v d = (case v of None \<Rightarrow> d | Some t \<Rightarrow> if t = [] then d else t)"

definition opt_cell :: "string option \<Rightarrow> 'f cell" where
  "opt_cell v = (case v of None \<Rightarrow> CNone | Some t \<Rightarrow> CText t)"

definition empty_logo :: "string \<Rightarrow> string" where
  "empty_logo chain = ''/images/empty-token-'' @ chain @ ''.png''"

definition as_decimal :: "'f cell \<Rightarrow> int res" where
  "as_decimal v = (case v of CDecimal n \<Rightarrow> Inr n | _ \<Rightarrow> Inl TypeError)"

text \<open>\<open>decimal_text k n e\<close> is \<open>n / 10 ** e\<close> with \<open>k\<close> decimals. The rows of \<open>process_token_transfer\<close> are transfers joined
  with the columns of their tokens.\<close>

definition process_one ::
    "'f floats \<Rightarrow> (nat \<Rightarrow> int \<Rightarrow> int \<Rightarrow> string) \<Rightarrow> string \<Rightarrow> string \<Rightarrow> 'f row \<times> token_view \<Rightarrow> 'f row res" where
  "process_one fl decimal_text chain token_type = (\<lambda>(row, tok).
     let common = [(''type'', CText token_type), (''token_symbol'', CText (or_text (tv_symbol tok) ''UNKNOWN'')),
                   (''token_name'', CText (or_text (tv_name tok) ''Unknown Token''))]
     in rbind
          (if token_type = ''tokentxns''
           then rbind (rbind (attribute row ''value'') as_decimal) (\<lambda>v.
             let e = (case tv_decimals tok of None \<Rightarrow> 18 | Some d \<Rightarrow> if d = 0 then 18 else d)
             in Inr [(''value'', CText (strip_zeros (decimal_text 18 v e))),
                     (''token_logo_url'', CText (or_text (tv_icon_url tok) (empty_logo chain)))])
           else rbind (rbind (attribute row ''token_id'') as_decimal) (\<lambda>t.
             let nft = [(''token_id'', CText (int_str t)), (''token_logo_url'', CText (empty_logo chain))]
             in if token_type = ''tokentxns-nft1155''
                then rbind (rbind (attribute row ''value'') as_decimal) (\<lambda>v. Inr (nft @ [(''value'', CText (int_str v))]))
                else Inr nft))
          (\<lambda>own. Inr (update_all (common @ own) (row_to_dict fl row))))"

definition process_token_transfer ::
    "'f floats \<Rightarrow> (nat \<Rightarrow> int \<Rightarrow> int \<Rightarrow> string) \<Rightarrow> string \<Rightarrow> ('f row \<times> token_view) list \<Rightarrow> string \<Rightarrow> 'f row list res" where
  "process_token_transfer fl decimal_text chain transfers token_type =
     rmap (process_one fl decimal_text chain token_type) transfers"

text \<open>A token without decimals is divided as if it had 18.\<close>

lemma zero_decimals_as_18:
  "process_one fl dt chain ''tokentxns'' (row, tok\<lparr>tv_decimals := Some 0\<rparr>) =
   process_one fl dt chain ''tokentxns'' (row, tok\<lparr>tv_decimals := Some 18\<rparr>)"
  by (simp add: process_one_def)

definition token_kind :: "string option \<Rightarrow> string option" where
  "token_kind type =
     (case type of None \<Rightarrow> None
      | Some t \<Rightarrow> if t \<in> set [''tokentxns'', ''erc20'', ''ERC20''] then Some ''ERC20''
                  else if t \<in> set [''tokentxns-nft'', ''erc721'', ''ERC721''] then Some ''ERC721''
                  else if t \<in> set [''tokentxns-nft1155'', ''erc1155'', ''ERC1155''] then Some ''ERC1155'' else None)"

definition find_tokens :: "token_view list \<Rightarrow> string option \<Rightarrow> byte list set \<Rightarrow> (byte list \<times> token_view) list" where
  "find_tokens table kind addresses =
     map (\<lambda>t. (tv_address t, t))
       (filter (\<lambda>t. tv_address t \<in> addresses \<and> (case kind of None \<Rightarrow> True | Some k \<Rightarrow> tv_token_type t = k)) table)"

definition amount_fields ::
    "(nat \<Rightarrow> int \<Rightarrow> int \<Rightarrow> string) \<Rightarrow> string option \<Rightarrow> 'f row \<Rightarrow> token_view option \<Rightarrow> 'f row res" where
  "amount_fields decimal_text kind row tok =
     (if kind = Some ''ERC20''
      then rbind (case tok of None \<Rightarrow> Inr 18
                  | Some t \<Rightarrow> (case tv_decimals t of None \<Rightarrow> Inl TypeError | Some d \<Rightarrow> Inr d)) (\<lambda>e.
           rbind (rbind (attribute row ''value'') as_decimal) (\<lambda>v. Inr [(''value'', CText (strip_zeros (decimal_text 15 v e)))]))
      else if kind = Some ''ERC721''
      then rbind (rbind (attribute row ''token_id'') as_decimal) (\<lambda>t. Inr [(''token_id'', CText (int_str t))])
      else if kind = Some ''ERC1155''
      then rbind (rbind (attribute row ''value'') as_decimal) (\<lambda>v. rbind (rbind (attribute row ''token_id'') as_decimal) (\<lambda>t.
             Inr [(''value'', CText (int_str v)), (''token_id'', CText (int_str t))]))
      else Inr [])"

definition token_fields :: "string \<Rightarrow> token_view option \<Rightarrow> 'f row" where
  "token_fields chain tok =
     (case tok of
        Some t \<Rightarrow> [(''token_symbol'', CText (or_text (tv_symbol t) ''UNKNOWN'')),
                   (''token_name'', CText (or_text (tv_name t) ''Unknown Token'')), (''token_logo_url'', opt_cell (tv_icon_url t))]
      | None \<Rightarrow> [(''token_symbol'', CText ''UNKNOWN''), (''token_name'', CText ''Unknown Token''),
                 (''token_logo_url'', CText (empty_logo chain))])"

definition parse_token_transfers ::
    "'f floats \<Rightarrow> services \<Rightarrow> (nat \<Rightarrow> int \<Rightarrow> int \<Rightarrow> string) \<Rightarrow> string \<Rightarrow> token_view list \<Rightarrow> 'f row list \<Rightarrow> string option
     \<Rightarrow> 'f row list res" where
  "parse_token_transfers fl s decimal_text chain table transfers type =
     rbind (rmap (\<lambda>r. rmap (attribute r) [''token_address'', ''from_address'', ''to_address'']) transfers) (\<lambda>columns.
     let token_addresses = set (List.map_filter (\<lambda>c. column_bytes (c ! 0)) columns);
         addresses = remdups (concat (map (\<lambda>c. map column_bytes (tl c)) columns));
         kind = token_kind type;
         token_map = rev (find_tokens table kind token_addresses)
     in rbind (rmap (\<lambda>r.
            let tok = Option.bind (column_bytes (cell_of r ''token_address'')) (map_of token_map)
            in rbind (amount_fields decimal_text kind r tok) (\<lambda>fs.
                 Inr (update_all (fs @ token_fields chain tok) (model_as_dict fl r)))) transfers) (\<lambda>token_transfer_list.
        rbind (fill_is_contract_to_transactions s token_transfer_list addresses) (\<lambda>l.
          fill_address_display_to_transactions s l addresses)))"

end
