(* ===== verification/Routes.thy ===== *)
theory Routes
  imports Views
begin

text \<open>
  Routes of the explorer service (\<open>api/app/explorer/routes.py\<close>) with the queries they make
  (\<open>api/app/db_service/transactions.py\<close>, \<open>blocks.py\<close>, \<open>contract_internal_transactions.py\<close>): lists of transactions and
  internal transactions by pages, the search, and the calls of a transaction. A table is a list of rows; a query
  filters, sorts and cuts it. Arguments of a request are texts that may be missing; a response is its data, an
  \<open>APIError\<close> an exception. Caching is left out.
\<close>

section \<open>Pages of a table\<close>

text \<open>What a route by pages expects of its query and its count.\<close>

locale paged_table =
  fixes matching :: "'q \<Rightarrow> 'r list" and page_of :: "'q \<Rightarrow> nat \<Rightarrow> nat \<Rightarrow> 'r list" and count_of :: "'q \<Rightarrow> nat"
  assumes page_slice: "page_of q limit offset = take limit (drop offset (matching q))"
    and count_matching: "count_of q = length (matching q)"
begin

lemma short_page_total:
  assumes "length (page_of q psize (p * psize)) < psize" and "page_of q psize (p * psize) \<noteq> [] \<or> p = 0"
  shows "p * psize + length (page_of q psize (p * psize)) = count_of q"
  using assms by (auto simp: page_slice count_matching min_def split: if_splits)

lemma pages_in_order: "concat (map (\<lambda>p. page_of q psize (p * psize)) [0..<n]) = take (n * psize) (matching q)"
proof (induction n)
  case (Suc n)
  have "Suc n * psize = n * psize + psize" by simp
  with Suc show ?case by (simp only: take_add upt_Suc) (simp add: page_slice)
qed simp

lemma page_member: "x \<in> set (page_of q psize (p * psize)) \<Longrightarrow> x \<in> set (matching q)"
  by (auto simp: page_slice dest: in_set_takeD in_set_dropD)

end

section \<open>Queries\<close>

datatype condition = Everything | OfBlockNumber int | OfBlockHash "byte list" | FromOrTo "byte list" | Between int int

fun cell_int :: "'f cell \<Rightarrow> int" where
  "cell_int (CInt n) = n"
| "cell_int (CDecimal n) = n"
| "cell_int (CTime t) = t"
| "cell_int _ = 0"

fun holds :: "condition \<Rightarrow> 'f row \<Rightarrow> bool" where
  "holds Everything r = True"
| "holds (OfBlockNumber n) r = (cell_of r ''block_number'' = CInt n)"
| "holds (OfBlockHash h) r = (cell_of r ''block_hash'' = CBytes h)"
| "holds (FromOrTo a) r = (cell_of r ''from_address'' = CBytes a \<or> cell_of r ''to_address'' = CBytes a)"
| "holds (Between a b) r = (a \<le> cell_int (cell_of r ''block_timestamp'') \<and> cell_int (cell_of r ''block_timestamp'') < b)"

definition project :: "string list \<Rightarrow> 'f row \<Rightarrow> 'f row" where
  "project columns r = map (\<lambda>c. (c, cell_of r c)) columns"

text \<open>Newest block first, and in a block the last transaction first.\<close>

definition newest_first :: "'f row list \<Rightarrow> 'f row list" where
  "newest_first = sort_key (\<lambda>r. (- cell_int (cell_of r ''block_number''), - cell_int (cell_of r ''transaction_index'')))"

definition rows_matching :: "'f row list \<Rightarrow> string list \<Rightarrow> condition \<Rightarrow> 'f row list" where
  "rows_matching table columns c = map (project columns) (newest_first (filter (holds c) table))"

definition get_rows_by_condition :: "'f row list \<Rightarrow> string list \<Rightarrow> condition \<Rightarrow> nat \<Rightarrow> nat \<Rightarrow> 'f row list" where
  "get_rows_by_condition table columns c limit offset = take limit (drop offset (rows_matching table columns c))"

definition get_rows_cnt_by_condition :: "'f row list \<Rightarrow> condition \<Rightarrow> nat" where
  "get_rows_cnt_by_condition table c = length (filter (holds c) table)"

interpretation pages: paged_table "rows_matching table columns" "get_rows_by_condition table columns"
    "get_rows_cnt_by_condition table" for table columns
  by unfold_locales
    (simp_all add: get_rows_by_condition_def get_rows_cnt_by_condition_def rows_matching_def newest_first_def)

record block_row =
  br_number :: int
  br_hash :: "byte list"
  br_transactions_count :: int

record 'f api =
  api_floats :: "'f floats"
  api_services :: services
  api_decoders :: "'f decoders"
  transactions_table :: "'f row list"
  internal_table :: "'f row list"
  blocks_table :: "block_row list"
  wallet_txn_cnt :: "byte list \<Rightarrow> int option"
  counted_until :: "int option"
  daily_total :: "(int \<times> int) option"
  strptime_day :: "string \<Rightarrow> int res"
  native_token :: string

definition get_block_by_number :: "'f api \<Rightarrow> int \<Rightarrow> block_row option" where
  "get_block_by_number api n = List.find (\<lambda>b. br_number b = n) (blocks_table api)"

definition get_block_by_hash :: "'f api \<Rightarrow> string \<Rightarrow> block_row option res" where
  "get_block_by_hash api h =
     rbind (bytes_fromhex (drop 2 h)) (\<lambda>b. Inr (List.find (\<lambda>r. br_hash r = b) (blocks_table api)))"

text \<open>The counts of the past come from a table that is filled once a day; \<open>counted_until\<close> is the start of the day
  of its last entry.\<close>

definition get_address_transaction_cnt :: "'f api \<Rightarrow> string \<Rightarrow> int res" where
  "get_address_transaction_cnt api address =
     rbind (bytes_fromhex (drop 2 address)) (\<lambda>a.
       Inr ((case wallet_txn_cnt api a of None \<Rightarrow> 0 | Some n \<Rightarrow> n) +
         int (length (filter (\<lambda>r. (case counted_until api of None \<Rightarrow> True
                                   | Some d \<Rightarrow> d \<le> cell_int (cell_of r ''block_timestamp'')) \<and> holds (FromOrTo a) r)
           (transactions_table api)))))"

definition get_total_txn_count :: "'f api \<Rightarrow> int" where
  "get_total_txn_count api =
     (case daily_total api of
        None \<Rightarrow> int (length (transactions_table api))
      | Some (day, cumulate_count) \<Rightarrow>
          int (length (filter (\<lambda>r. day + 86400 \<le> cell_int (cell_of r ''block_timestamp'')) (transactions_table api)))
            + cumulate_count)"

section \<open>Lists of transactions\<close>

definition api_error :: "string \<Rightarrow> exc" where
  "api_error message = OtherException (''APIError: '' @ message)"

definition PAGE_SIZE :: nat where "PAGE_SIZE = 25"
definition MAX_TRANSACTION :: int where "MAX_TRANSACTION = 500000"
definition MAX_TRANSACTION_WITH_CONDITION :: int where "MAX_TRANSACTION_WITH_CONDITION = 10000"
definition MAX_INTERNAL_TRANSACTION :: int where "MAX_INTERNAL_TRANSACTION = 10000"

definition TRANSACTION_LIST_COLUMNS :: "string list" where
  "TRANSACTION_LIST_COLUMNS = [''hash'', ''from_address'', ''to_address'', ''value'', ''method_id'', ''block_number'',
     ''block_timestamp'', ''gas_price'', ''receipt_gas_used'', ''receipt_l1_fee'', ''receipt_l1_gas_used'',
     ''receipt_l1_gas_price'', ''receipt_contract_address'']"

definition int_arg :: "string option \<Rightarrow> int \<Rightarrow> int res" where
  "int_arg a d = (case a of None \<Rightarrow> Inr d | Some t \<Rightarrow> parse_int t)"

definition arg_given :: "string option \<Rightarrow> bool" where
  "arg_given a \<longleftrightarrow> a \<noteq> None \<and> a \<noteq> Some []"

record list_args =
  arg_page :: "string option"
  arg_size :: "string option"
  arg_batch :: "string option"
  arg_state_batch :: "string option"
  arg_da_batch :: "string option"
  arg_block :: "string option"
  arg_address :: "string option"
  arg_date :: "string option"

record 'f page_result =
  pr_data :: "'f row list"
  pr_total :: int
  pr_max_display :: int
  pr_page :: int
  pr_size :: int

definition shown_number :: "int \<Rightarrow> string" where
  "shown_number limit = ''Showing the last '' @ int_str limit @ '' records only''"

definition page_args :: "string option \<Rightarrow> string option \<Rightarrow> (int \<times> int) res" where
  "page_args page psize =
     rbind (int_arg page 1) (\<lambda>p. rbind (int_arg psize 25) (\<lambda>s.
       if p \<le> 0 \<or> s \<le> 0 then Inl (api_error ''Invalid page or size'') else Inr (p, s)))"

definition has_filter :: "list_args \<Rightarrow> bool" where
  "has_filter a \<longleftrightarrow> arg_given (arg_batch a) \<or> arg_given (arg_block a) \<or> arg_given (arg_state_batch a) \<or>
     arg_given (arg_da_batch a) \<or> arg_given (arg_address a) \<or> arg_given (arg_date a)"

definition block_or_error :: "block_row option \<Rightarrow> block_row res" where
  "block_or_error b = (case b of None \<Rightarrow> Inl (api_error ''Block not exist'') | Some b \<Rightarrow> Inr b)"

text \<open>The condition of the list and the total that is known with it, 0 if none is.\<close>

definition list_condition :: "'f api \<Rightarrow> list_args \<Rightarrow> (condition \<times> int) res" where
  "list_condition api a =
     (if arg_given (arg_block a)
      then let block = the (arg_block a)
           in if block \<noteq> [] \<and> list_all is_digit block
              then rbind (parse_int block) (\<lambda>n. rbind (block_or_error (get_block_by_number api n)) (\<lambda>b.
                     Inr (OfBlockNumber n, br_transactions_count b)))
              else rbind (bytes_fromhex (drop 2 block)) (\<lambda>h. rbind (get_block_by_hash api block) (\<lambda>found.
                     rbind (block_or_error found) (\<lambda>b. Inr (OfBlockHash h, br_transactions_count b))))
      else if arg_given (arg_address a)
      then let address = str_lower (the (arg_address a))
           in rbind (bytes_fromhex (drop 2 address)) (\<lambda>b. rbind (get_address_transaction_cnt api address) (\<lambda>n.
                Inr (FromOrTo b, n)))
      else if arg_given (arg_date a)
      then rbind (strptime_day api (the (arg_date a))) (\<lambda>start. Inr (Between start (start + 86400), 0))
      else Inr (Everything, 0))"

definition list_total :: "'f api \<Rightarrow> bool \<Rightarrow> condition \<Rightarrow> int \<Rightarrow> int \<Rightarrow> int \<Rightarrow> nat \<Rightarrow> int" where
  "list_total api filtered c known page psize n =
     (if (n > 0 \<or> page = 1) \<and> int n < psize then (page - 1) * psize + int n
      else if filtered \<and> n > 0 \<and> known = 0 then int (get_rows_cnt_by_condition (transactions_table api) c)
      else if known = 0 then get_total_txn_count api
      else known)"

definition explorer_transactions :: "'f api \<Rightarrow> list_args \<Rightarrow> 'f page_result res" where
  "explorer_transactions api a =
     rbind (page_args (arg_page a) (arg_size a)) (\<lambda>(page, psize).
     if page * psize > MAX_TRANSACTION then Inl (api_error (shown_number MAX_TRANSACTION))
     else if has_filter a \<and> page * psize > MAX_TRANSACTION_WITH_CONDITION
     then Inl (api_error (shown_number MAX_TRANSACTION_WITH_CONDITION))
     else rbind (list_condition api a) (\<lambda>(c, known).
       let rows = get_rows_by_condition (transactions_table api) TRANSACTION_LIST_COLUMNS c (nat psize) (nat ((page - 1) * psize));
           n = list_total api (has_filter a) c known page psize (length rows)
       in rbind (parse_transactions (api_floats api) (api_services api) (api_decoders api) rows) (\<lambda>data.
            Inr \<lparr>pr_data = data, pr_total = n,
                 pr_max_display = min (if has_filter a then MAX_TRANSACTION_WITH_CONDITION else MAX_TRANSACTION) n,
                 pr_page = page, pr_size = psize\<rparr>)))"

definition explorer_address_transactions :: "'f api \<Rightarrow> string \<Rightarrow> ('f row list \<times> int) res" where
  "explorer_address_transactions api address =
     (let address = str_lower address
      in rbind (bytes_fromhex (drop 2 address)) (\<lambda>b.
         let rows = get_rows_by_condition (transactions_table api) TRANSACTION_LIST_COLUMNS (FromOrTo b) PAGE_SIZE 0
         in rbind (if length rows < PAGE_SIZE then Inr (int (length rows)) else get_address_transaction_cnt api address) (\<lambda>n.
            rbind (parse_transactions (api_floats api) (api_services api) (api_decoders api) rows) (\<lambda>data. Inr (data, n)))))"

section \<open>Internal transactions\<close>

definition INTERNAL_COLUMNS :: "string list" where
  "INTERNAL_COLUMNS = [''trace_id'', ''from_address'', ''to_address'', ''value'', ''trace_type'', ''call_type'', ''error'',
     ''status'', ''block_number'', ''block_timestamp'', ''transaction_hash'']"

definition internal_condition :: "string option \<Rightarrow> string option \<Rightarrow> condition res" where
  "internal_condition address block =
     (if arg_given address
      then rbind (bytes_fromhex (drop 2 (str_lower (the address)))) (\<lambda>b. Inr (FromOrTo b))
      else if arg_given block then rbind (parse_int (the block)) (\<lambda>n. Inr (OfBlockNumber n))
      else Inr Everything)"

text \<open>\<open>get_total_row_count\<close> is an estimate of the database, \<open>estimate\<close>.\<close>

definition internal_total :: "'f api \<Rightarrow> int \<Rightarrow> condition \<Rightarrow> int \<Rightarrow> int \<Rightarrow> nat \<Rightarrow> int" where
  "internal_total api estimate c page psize n =
     (if (n > 0 \<or> page = 1) \<and> int n < psize then (page - 1) * psize + int n
      else if c = Everything then estimate
      else int (get_rows_cnt_by_condition (internal_table api) c))"

definition internal_entry :: "'f api \<Rightarrow> 'f row \<Rightarrow> 'f row res" where
  "internal_entry api row =
     rbind (rbind (attribute row ''value'') as_decimal) (\<lambda>v.
       Inr (update_all [(''from_address_is_contract'', CBool False), (''to_address_is_contract'', CBool False),
            (''value'', CText (format_coin_value_with_unit (api_floats api) v (native_token api)))]
         (row_to_dict (api_floats api) row)))"

definition internal_list :: "'f api \<Rightarrow> 'f row list \<Rightarrow> 'f row list res" where
  "internal_list api rows =
     rbind (rmap (internal_entry api) rows) (\<lambda>transaction_list.
     let addresses = concat (map (\<lambda>r. [column_bytes (cell_of r ''from_address''), column_bytes (cell_of r ''to_address'')]) rows)
     in rbind (fill_is_contract_to_transactions (api_services api) transaction_list addresses) (\<lambda>l.
          fill_address_display_to_transactions (api_services api) l addresses))"

definition explorer_internal_transactions ::
    "'f api \<Rightarrow> int \<Rightarrow> string option \<Rightarrow> string option \<Rightarrow> string option \<Rightarrow> string option \<Rightarrow> 'f page_result res" where
  "explorer_internal_transactions api estimate page psize address block =
     rbind (page_args page psize) (\<lambda>(p, s).
     if p * s > MAX_INTERNAL_TRANSACTION then Inl (api_error (shown_number MAX_INTERNAL_TRANSACTION))
     else rbind (internal_condition address block) (\<lambda>c.
       let rows = get_rows_by_condition (internal_table api) INTERNAL_COLUMNS c (nat s) (nat ((p - 1) * s));
           n = internal_total api estimate c p s (length rows)
       in rbind (internal_list api rows) (\<lambda>data.
            Inr \<lparr>pr_data = data, pr_total = n, pr_max_display = min n MAX_INTERNAL_TRANSACTION, pr_page = p, pr_size = s\<rparr>)))"

definition explorer_address_internal_transactions :: "'f api \<Rightarrow> string \<Rightarrow> ('f row list \<times> int) res" where
  "explorer_address_internal_transactions api address =
     rbind (bytes_fromhex (drop 2 (str_lower address))) (\<lambda>b.
     let c = FromOrTo b; rows = take PAGE_SIZE (newest_first (filter (holds c) (internal_table api)))
     in rbind (internal_list api rows) (\<lambda>data.
          Inr (data, if length rows < PAGE_SIZE then int (length rows) else int (get_rows_cnt_by_condition (internal_table api) c))))"

section \<open>Search\<close>

datatype found =
    FoundBlock "byte list" int | FoundAddress "byte list" | FoundTransaction "byte list"
  | FoundToken "string option" "string option" "byte list" "string option"

record search_db =
  sd_contracts :: "byte list list"
  sd_senders :: "byte list list"
  sd_receivers :: "byte list list"
  sd_hashes :: "byte list list"
  sd_tokens :: "(string option \<times> string option \<times> byte list \<times> string option) list"

definition member_of :: "byte list list \<Rightarrow> byte list \<Rightarrow> byte list option" where
  "member_of xs b = List.find (\<lambda>x. x = b) xs"

text \<open>\<open>ILIKE\<close> with a percent sign before and after the text, which has been lower-cased; the wildcards in the text
  itself are those of \<open>matches\<close>.\<close>

definition token_matches :: "(string \<Rightarrow> string \<Rightarrow> bool) \<Rightarrow> string \<Rightarrow> string option \<times> string option \<times> 'c \<Rightarrow> bool" where
  "token_matches matches q = (\<lambda>(n, sym, _).
     (case n of None \<Rightarrow> False | Some t \<Rightarrow> matches q t) \<or> (case sym of None \<Rightarrow> False | Some t \<Rightarrow> matches q t))"

definition search_address :: "search_db \<Rightarrow> byte list \<Rightarrow> byte list option" where
  "search_address d b =
     (case member_of (sd_contracts d) b of
        Some x \<Rightarrow> Some x
      | None \<Rightarrow> (case member_of (sd_senders d) b of Some x \<Rightarrow> Some x | None \<Rightarrow> member_of (sd_receivers d) b))"

definition explorer_search ::
    "'f api \<Rightarrow> search_db \<Rightarrow> ext \<Rightarrow> (string \<Rightarrow> string \<Rightarrow> bool) \<Rightarrow> string option \<Rightarrow> found list res" where
  "explorer_search api d x matches q =
     (if \<not> arg_given q then Inl (api_error ''Missing query string'')
      else let query_string = str_lower (the q)
      in rbind (if list_all is_digit query_string
                then rbind (parse_int query_string) (\<lambda>n.
                  Inr (case get_block_by_number api n of None \<Rightarrow> [] | Some b \<Rightarrow> [FoundBlock (br_hash b) (br_number b)]))
                else Inr []) (\<lambda>block.
         rbind (if is_address x query_string
                then rbind (bytes_fromhex (drop 2 query_string)) (\<lambda>b. Inr (search_address d b)) else Inr None) (\<lambda>wallet.
         case wallet of
           Some a \<Rightarrow> Inr (block @ [FoundAddress a])
         | None \<Rightarrow>
             rbind (if is_eth_transaction_hash query_string
                    then rbind (bytes_fromhex (drop 2 query_string)) (\<lambda>h.
                      case member_of (sd_hashes d) h of
                        Some t \<Rightarrow> Inr (Some (FoundTransaction t))
                      | None \<Rightarrow> rbind (get_block_by_hash api query_string) (\<lambda>b.
                          Inr (map_option (\<lambda>r. FoundBlock (br_hash r) (br_number r)) b)))
                    else Inr None) (\<lambda>by_hash.
             case by_hash of
               Some f \<Rightarrow> Inr (block @ [f])
             | None \<Rightarrow>
                 Inr (block @ (if length query_string > 1
                      then map (\<lambda>(n, sym, a, u). FoundToken n sym a u) (take 5 (filter (token_matches matches query_string) (sd_tokens d)))
                      else []))))))"

subsection \<open>Pages and totals\<close>

text \<open>The arguments for batches only lower the limit of what is shown: they select nothing.\<close>

lemma batches_not_selected:
  "list_condition api (a\<lparr>arg_batch := b, arg_state_batch := sb, arg_da_batch := db\<rparr>) = list_condition api a"
  by (simp add: list_condition_def)

text \<open>The rows of the pages of a list, one after the other, are the newest rows that satisfy its condition.\<close>

lemma transaction_pages_in_order:
  "concat (map (\<lambda>p. get_rows_by_condition table columns c n (p * n)) [0..<k]) =
   take (k * n) (rows_matching table columns c)"
  by (rule pages.pages_in_order)

text \<open>C36: a list of transactions that is given without error, whose page is not full, and which is the first page or
  not empty, has the exact number of transactions that satisfy its condition as its total; and no more than the page size
  is listed. (An empty page past the end shows the stored or estimated count.)\<close>

theorem short_list_total_exact:
  assumes "explorer_transactions api a = Inr r" and "list_condition api a = Inr (c, known)"
    and "int (length (pr_data r)) < pr_size r" and "pr_data r \<noteq> [] \<or> pr_page r = 1"
  shows "pr_total r = int (length (filter (holds c) (transactions_table api))) \<and> 0 < pr_page r \<and>
    pr_max_display r \<le> pr_total r"
proof -
  from assms(1,2) obtain page psize where args: "page_args (arg_page a) (arg_size a) = Inr (page, psize)"
    and r: "pr_page r = page" "pr_size r = psize"
    and rows: "parse_transactions (api_floats api) (api_services api) (api_decoders api)
        (get_rows_by_condition (transactions_table api) TRANSACTION_LIST_COLUMNS c (nat psize) (nat ((page - 1) * psize))) =
      Inr (pr_data r)"
    and total: "pr_total r = list_total api (has_filter a) c known page psize
        (length (get_rows_by_condition (transactions_table api) TRANSACTION_LIST_COLUMNS c (nat psize) (nat ((page - 1) * psize))))"
    and disp: "pr_max_display r \<le> pr_total r"
    by (auto simp: explorer_transactions_def rbind_Inr_iff Let_def split: if_splits)
  from args have pos: "page > 0" "psize > 0" by (auto simp: page_args_def rbind_Inr_iff split: if_splits)
  let ?rows = "get_rows_by_condition (transactions_table api) TRANSACTION_LIST_COLUMNS c (nat psize) (nat (page - 1) * nat psize)"
  have offset: "nat ((page - 1) * psize) = nat (page - 1) * nat psize" using pos by (simp add: nat_mult_distrib)
  have len: "length ?rows = length (pr_data r)" using parse_transactions_length [OF rows] by (simp add: offset)
  have "nat (page - 1) * nat psize + length ?rows = get_rows_cnt_by_condition (transactions_table api) c"
    using assms(3,4) pos len r by (intro pages.short_page_total) auto
  moreover have "(page - 1) * psize + int (length ?rows) = int (nat (page - 1) * nat psize + length ?rows)"
    using pos by simp
  moreover have "pr_total r = (page - 1) * psize + int (length ?rows)"
    using assms(3,4) len r unfolding total offset list_total_def by auto
  ultimately show ?thesis using pos r disp by (simp add: get_rows_cnt_by_condition_def)
qed

section \<open>The calls of a transaction\<close>

text \<open>The tree of \<open>WebUtils\<close> with what is set in each of its dictionaries. \<open>loads\<close> reads the ABI of a function,
  \<open>decode\<close> is \<open>decode_function\<close> on it.\<close>

datatype call_data = Decoded pyval | Raw "(string \<times> string) list"

datatype shown_call = ShownCall (sc_fields: jdict) (sc_function: "(string \<times> call_data \<times> call_data) option")
  (sc_calls: "shown_call list")

record trace_env =
  te_services :: services
  te_abis :: "(string \<times> string) list \<Rightarrow> ((string \<times> string) \<times> jdict) list"
  te_loads :: "string \<Rightarrow> json res"
  te_decode :: "json \<Rightarrow> string \<Rightarrow> string \<Rightarrow> (pyval \<times> pyval) res"

definition field_bytes :: "json \<Rightarrow> byte list list res" where
  "field_bytes v = (if truthy v then rbind (as_str v) (\<lambda>t. rbind (bytes_fromhex (drop 2 t)) (\<lambda>b. Inr [b])) else Inr [])"

definition signature_of :: "jdict \<Rightarrow> (string \<times> string) list res" where
  "signature_of f =
     (if truthy (jget f ''to_address'') \<and> truthy (jget f ''input'')
      then rbind (as_str (jget f ''to_address'')) (\<lambda>to. rbind (as_str (jget f ''input'')) (\<lambda>input.
             Inr (if length input > 10 then [(to, take 10 input)] else [])))
      else Inr [])"

text \<open>The two sets, as lists in the order of the walk.\<close>

fun collect_calls :: "call_tree \<Rightarrow> (byte list list \<times> (string \<times> string) list) res" where
  "collect_calls (Call f cs) =
     rbind (field_bytes (jget f ''to_address'')) (\<lambda>t. rbind (field_bytes (jget f ''from_address'')) (\<lambda>fr.
     rbind (signature_of f) (\<lambda>sig. rbind (rmap collect_calls cs) (\<lambda>rest.
       Inr (t @ fr @ concat (map fst rest), sig @ concat (map snd rest))))))"

definition name_or_address :: "(string \<times> string) list \<Rightarrow> json \<Rightarrow> json" where
  "name_or_address names a =
     (case a of JStr t \<Rightarrow> (case map_of names t of Some n \<Rightarrow> JStr n | None \<Rightarrow> a) | _ \<Rightarrow> a)"

definition text_or_0x :: "json \<Rightarrow> string res" where
  "text_or_0x v = (if truthy v then as_str v else Inr ''0x'')"

text \<open>Decoding with the ABI of the function, if one is known: the result, or nothing if there is none or it fails.\<close>

definition try_decode :: "trace_env \<Rightarrow> jdict option \<Rightarrow> string \<Rightarrow> string \<Rightarrow> (pyval \<times> pyval) option res" where
  "try_decode env abi input output =
     (case abi of
        None \<Rightarrow> Inr None
      | Some a \<Rightarrow>
          if a = [] then Inr None
          else rbind (rbind (as_str (jget a ''function_abi'')) (te_loads env)) (\<lambda>j.
            Inr (case te_decode env j (drop 2 input) (drop 2 output) of Inr r \<Rightarrow> Some r | Inl _ \<Rightarrow> None)))"

definition abi_of_call :: "((string \<times> string) \<times> jdict) list \<Rightarrow> json \<Rightarrow> string \<Rightarrow> jdict option" where
  "abi_of_call abis to input = (case to of JStr t \<Rightarrow> map_of abis (t, take 10 input) | _ \<Rightarrow> None)"

definition function_view ::
    "trace_env \<Rightarrow> ((string \<times> string) \<times> jdict) list \<Rightarrow> jdict \<Rightarrow> (string \<times> call_data \<times> call_data) option res" where
  "function_view env abis f =
     (if jget f ''call_type'' \<in> {JStr ''selfdestruct'', JStr ''create2'', JStr ''create''} then Inr None
      else rbind (text_or_0x (jget f ''input'')) (\<lambda>input. rbind (text_or_0x (jget f ''output'')) (\<lambda>output.
        rbind (try_decode env (abi_of_call abis (jget f ''to_address'') input) input output) (\<lambda>decoded.
          if decoded = None \<and> truthy (jget f ''to_address'') \<and> length input \<ge> 10
          then Inr (Some (take 10 input, Raw [(''call_data'', drop 10 input)],
                  Raw (if length output > 2 then [(''return_data'', drop 2 output)] else [])))
          else Inr (Some (''fallback'', Raw (if length input > 2 then [(''call_data'', drop 2 input)] else []), Raw []))))))"

fun show_calls :: "trace_env \<Rightarrow> (string \<times> string) list \<Rightarrow> ((string \<times> string) \<times> jdict) list \<Rightarrow> call_tree \<Rightarrow> shown_call res" where
  "show_calls env names abis (Call f cs) =
     rbind (function_view env abis f) (\<lambda>view. rbind (rmap (show_calls env names abis) cs) (\<lambda>calls.
       Inr (ShownCall (update_all [(''from_address_display_name'', name_or_address names (jget f ''from_address'')),
             (''to_address_display_name'', name_or_address names (jget f ''to_address''))] f) view calls)))"

definition process_data :: "trace_env \<Rightarrow> call_tree \<Rightarrow> shown_call res" where
  "process_data env data =
     rbind (collect_calls data) (\<lambda>(addresses, signatures).
       show_calls env (get_address_display_mapping (te_services env) (map Some (remdups addresses)))
         (te_abis env (remdups signatures)) data)"

definition transaction_traces :: "trace_env \<Rightarrow> (string \<Rightarrow> jdict list res) \<Rightarrow> string \<Rightarrow> shown_call res" where
  "transaction_traces env traces_of hash_text =
     (let hash = str_lower hash_text
      in if length hash \<noteq> 66 \<or> \<not> list_all is_hex_char (drop 2 hash) then Inl (api_error ''Invalid transaction hash'')
         else case rbind (traces_of hash) get_debug_trace_transaction of
                Inl e \<Rightarrow> Inl (api_error [])
              | Inr t \<Rightarrow> process_data env t)"

fun shown_nodes :: "shown_call \<Rightarrow> shown_call list" where
  "shown_nodes (ShownCall f v cs) = ShownCall f v cs # concat (map shown_nodes cs)"

lemma function_view_raw:
  assumes "function_view env abis f = Inr (Some (n, i, out))"
  shows "(\<exists>xs. i = Raw xs) \<and> (\<exists>ys. out = Raw ys)"
  using assms by (auto simp: function_view_def rbind_Inr_iff split: if_splits)

text \<open>A function that is found and decoded is shown as the fallback function, with all its data unread.\<close>

lemma decoded_call_is_fallback:
  assumes "jget f ''call_type'' = JStr ''call''" and "jget f ''to_address'' = JStr t" and "jget f ''input'' = JStr i"
    and "i \<noteq> []" and "text_or_0x (jget f ''output'') = Inr out"
    and "map_of abis (t, take 10 i) = Some a" and "a \<noteq> []" and "jget a ''function_abi'' = JStr j" and "te_loads env j = Inr abi"
    and "te_decode env abi (drop 2 i) (drop 2 out) = Inr r"
  shows "function_view env abis f =
    Inr (Some (''fallback'', Raw (if length i > 2 then [(''call_data'', drop 2 i)] else []), Raw []))"
  using assms by (simp add: function_view_def text_or_0x_def try_decode_def abi_of_call_def)

text \<open>No node of the tree that is shown has a decoded argument or result, whatever ABIs are known: what was
  decoded is overwritten.\<close>

lemma no_call_shown_decoded:
  assumes "process_data env data = Inr shown" and "node \<in> set (shown_nodes shown)"
    and "sc_function node = Some (n, input, output)"
  shows "\<exists>xs ys. input = Raw xs \<and> output = Raw ys"
proof -
  from assms(1) obtain names abis where "show_calls env names abis data = Inr shown"
    by (auto simp: process_data_def rbind_Inr_iff)
  then have "\<exists>f. sc_function node = None \<or> function_view env abis f = Inr (sc_function node)"
    using assms(2)
  proof (induction data arbitrary: shown)
    case (Call f cs)
    then obtain calls view g where view: "function_view env abis f = Inr view"
      and calls: "list_all2 (\<lambda>c u. show_calls env names abis c = Inr u) cs calls"
      and shown: "shown = ShownCall g view calls"
      by (auto simp: rbind_Inr_iff rmap_Inr_iff)
    from Call.prems(2) consider "node = shown" | u where "u \<in> set calls" "node \<in> set (shown_nodes u)"
      unfolding shown by auto
    then show ?case
    proof cases
      case 1
      then have "sc_function node = view" by (simp add: shown)
      with view show ?thesis by blast
    next
      case 2
      from calls 2(1) obtain c where "c \<in> set cs" "show_calls env names abis c = Inr u"
        by (metis (mono_tags, lifting) in_set_conv_nth list_all2_conv_all_nth)
      with Call.IH 2 show ?thesis by blast
    qed
  qed
  with assms(3) function_view_raw show ?thesis by fastforce
qed

section \<open>Instances\<close>

definition sample_api :: "int api" where
  "sample_api = \<lparr>api_floats = sample_floats, api_services = sample_services, api_decoders = sample_decoders,
     transactions_table = [contract_call], internal_table = [], blocks_table = [], wallet_txn_cnt = (\<lambda>_. None),
     counted_until = None, daily_total = None, strptime_day = (\<lambda>_. Inr 0), native_token = ''ETH''\<rparr>"

definition no_args :: list_args where
  "no_args = \<lparr>arg_page = None, arg_size = None, arg_batch = None, arg_state_batch = None, arg_da_batch = None,
     arg_block = None, arg_address = None, arg_date = None\<rparr>"

theorem short_list_total_exact_witness:
  "\<exists>r. explorer_transactions sample_api no_args = Inr r \<and> pr_total r = 1"
proof -
  have "\<not> isl (explorer_transactions sample_api no_args)" by code_simp
  then obtain r where r: "explorer_transactions sample_api no_args = Inr r"
    by (cases "explorer_transactions sample_api no_args") auto
  have c: "list_condition sample_api no_args = Inr (Everything, 0)" by code_simp
  have "(case explorer_transactions sample_api no_args of
      Inl e \<Rightarrow> False | Inr r \<Rightarrow> length (pr_data r) = 1 \<and> pr_size r = 25)" by code_simp
  with r have "length (pr_data r) = 1" "pr_size r = 25" by simp_all
  with short_list_total_exact [OF r c] have "pr_total r = 1" by (fastforce simp: sample_api_def)
  with r show ?thesis by blast
qed

definition sample_trace_env :: trace_env where
  "sample_trace_env = \<lparr>te_services = sample_services, te_abis = (\<lambda>sigs. map (\<lambda>s. (s, [(''function_abi'', JStr ''{}'')])) sigs),
     te_loads = (\<lambda>_. Inr JNull), te_decode = (\<lambda>_ _ _. Inr (PySeq [], PySeq []))\<rparr>"

definition sample_call :: call_tree where
  "sample_call = Call [(''call_type'', JStr ''call''), (''from_address'', JStr ''0x01''), (''to_address'', JStr ''0x02''),
     (''input'', JStr ''0xa9059cbb00'')] []"

theorem no_call_shown_decoded_witness:
  "\<exists>shown. process_data sample_trace_env sample_call = Inr shown \<and>
     (\<exists>n xs ys. sc_function shown = Some (n, Raw xs, Raw ys))"
proof -
  have "\<not> isl (process_data sample_trace_env sample_call)" by code_simp
  then obtain u where u: "process_data sample_trace_env sample_call = Inr u"
    by (cases "process_data sample_trace_env sample_call") auto
  have "(case process_data sample_trace_env sample_call of Inl e \<Rightarrow> False | Inr u \<Rightarrow> sc_function u \<noteq> None)" by code_simp
  with u obtain n i out where f: "sc_function u = Some (n, i, out)" by auto
  have "u \<in> set (shown_nodes u)" by (cases u) simp
  from no_call_shown_decoded [OF u this f] u f show ?thesis by blast
qed

end
