(* ===== verification/TokensJob.thy ===== *)
theory TokensJob
  imports TokenTransfers
begin

text \<open>
  \<open>ExportTokensAndTransfersJob._collect\<close> as a whole: four runs of the batch executor one after
  the other over the shared data buffer, with the token table built between the first and the second
  and the token cache of the process filled between the second and the third. The steps themselves
  are in \<open>TokenTransfers\<close>; here they are shown to be batch handlers, and the job to turn every
  transfer of every log into one specific transfer.
\<close>

section \<open>A run of the executor\<close>

text \<open>\<open>execute\<close> and \<open>wait\<close> on a list: a run from \<open>exec_start\<close> that is over, with the executor and the
  world it leaves, and what it raises.\<close>

definition executed :: "('w \<Rightarrow> 'a list \<Rightarrow> 'w \<times> unit res) \<Rightarrow> nat \<Rightarrow> nat \<Rightarrow> 'a list
    \<Rightarrow> executor \<times> 'w \<Rightarrow> executor \<times> 'w \<Rightarrow> unit res \<Rightarrow> bool" where
  "executed h max_retries limit items p q r \<longleftrightarrow>
     (\<exists>s. exec_reach h max_retries limit
            (exec_start (fst p) (snd p) (Dynamic items) (Some (int (length items)))) s \<and>
          q = (run_ex s, run_world s) \<and>
          (case r of Inr _ \<Rightarrow> run_phase s = Finished | Inl e \<Rightarrow> run_phase s = Crashed e))"

text \<open>A part of the world that the handler never changes is not changed by a run that finishes: the
  executor's contract, for a measure that never grows.\<close>

lemma executed_keeps:
  assumes "\<And>w b. f (fst (h w b)) = f w" and "0 < n"
    and "executed h n limit items (ex, w) (ex', w') (Inr ())"
  shows "f w' = f w"
proof -
  have none: "sum_list (map (\<lambda>_. {#}) b) = {#}" for b :: "'a list" by (induction b) simp_all
  have b: "batch_handler h (\<lambda>w. {#f w#}) (\<lambda>_. {#})"
  proof
    fix w b w' u
    assume "h w b = (w', Inr u)"
    with assms(1) [of w b] show "{#f w'#} = {#f w#} + sum_list (map (\<lambda>_. {#}) b)"
      by (simp add: none)
  next
    fix w b w' e
    assume "h w b = (w', Inl e)"
    with assms(1) [of w b] show "{#f w'#} = {#f w#}" by simp
  qed
  obtain s where s: "exec_reach h n limit (exec_start ex w (Dynamic items) (Some (int (length items)))) s"
    "run_phase s = Finished" "w' = run_world s"
    using assms(3) by (auto simp: executed_def)
  from batch_handler.finished_processed [OF b s(1,2) assms(2)] show ?thesis
    by (simp add: batch_handler.work_def [OF b] s(3) none)
qed

text \<open>With a handler that raises nothing on these items, some run finishes, whatever the executor did
  before.\<close>

lemma executed_finishes:
  assumes "never_raises (set items) h" and "0 < limit"
  shows "\<exists>q. executed h n limit items p q (Inr ())"
proof -
  let ?s = "exec_start (fst p) (snd p) (Dynamic items) (Some (int (length items)))"
  obtain k t where t: "exec_steps h n limit k ?s t" "run_over t"
    using exec_run_completes [OF assms(2)] by blast
  have r: "exec_reach h n limit ?s t" by (rule exec_steps_reach [OF t(1) exec_reach.reach_refl])
  have s: "smooth (set items) ?s"
    by (simp add: smooth_def exec_start_def progress_start_def)
  have "smooth (set items) t"
    using r s by (rule exec_reach_invariant) (rule exec_step_smooth [OF assms(1)])
  with t(2) have "run_phase t = Finished" by (cases "run_phase t") (auto simp: run_over_def smooth_def)
  with r show ?thesis by (auto simp: executed_def)
qed

section \<open>The job\<close>

text \<open>What the buffer holds, read back as the type of its key.\<close>

definition buffered_logs :: "(tok_item, 'x) world \<Rightarrow> log list" where
  "buffered_logs w = concat (map (\<lambda>d. case d of LogItem l \<Rightarrow> [l] | _ \<Rightarrow> []) (buffered (data_buff w) ''log''))"

definition buffered_transfers :: "(tok_item, 'x) world \<Rightarrow> token_transfer list" where
  "buffered_transfers w =
     concat (map (\<lambda>d. case d of TransferItem t \<Rightarrow> [t] | _ \<Rightarrow> []) (buffered (data_buff w) ''token_transfer''))"

definition buffered_tokens :: "(tok_item, 'x) world \<Rightarrow> token_info list" where
  "buffered_tokens w =
     concat (map (\<lambda>d. case d of TokenItem t \<Rightarrow> [t] | _ \<Rightarrow> []) (buffered (data_buff w) ''token''))"

text \<open>The dictionary of a token before its calls, and a token in the cache. A transfer has the block
  number of its log, which is set.\<close>

definition token_request :: "token \<Rightarrow> token_info" where
  "token_request k =
     \<lparr>ti_address = tk_address k, ti_token_type = tk_token_type k, ti_block_number = block_of (tk_block_number k),
      ti_name = tk_name k, ti_symbol = tk_symbol k, ti_decimals = tk_decimals k,
      ti_total_supply = tk_total_supply k, ti_owner_of = None, ti_token_uri = None\<rparr>"

definition cached_token :: "token_info \<Rightarrow> token" where
  "cached_token t =
     \<lparr>tk_address = ti_address t, tk_token_type = ti_token_type t, tk_name = ti_name t,
      tk_symbol = ti_symbol t, tk_decimals = ti_decimals t, tk_block_number = Some (ti_block_number t),
      tk_total_supply = ti_total_supply t\<rparr>"

definition cache_tokens :: "token_info list \<Rightarrow> (string \<times> token) list \<Rightarrow> (string \<times> token) list" where
  "cache_tokens = fold (\<lambda>t. AList.update (ti_address t) (cached_token t))"

definition cached_types :: "(string \<times> token) list \<Rightarrow> (string \<times> string) list" where
  "cached_types = map (\<lambda>(a, k). (a, tk_token_type k))"

definition touch :: "string \<Rightarrow> ('d, 'x) world \<Rightarrow> ('d, 'x) world" where
  "touch key w = w\<lparr>data_buff := buff_touch key (data_buff w)\<rparr>"

text \<open>\<open>_collect\<close>: the cache \<open>self.tokens\<close> beside the executor and the world, from start to end. The
  first run that raises ends it. The transfers of the last run are the objects of the buffer, so their
  token type is written there too; no later step reads it.\<close>

inductive tokens_collect :: "ext \<Rightarrow> (jdict list \<Rightarrow> (json, string) rpc_response list res) \<Rightarrow> bool \<Rightarrow> nat \<Rightarrow> nat
    \<Rightarrow> (string \<times> token) list \<Rightarrow> executor \<times> (tok_item, 'x) world
    \<Rightarrow> (string \<times> token) list \<Rightarrow> executor \<times> (tok_item, 'x) world \<Rightarrow> unit res \<Rightarrow> bool"
  for x :: ext and make_requests is_batch and max_retries limit :: nat and tokens and p where
  extraction_raises:
    "executed (extract_batch x) max_retries limit (buffered_logs (snd p)) (fst p, touch ''log'' (snd p)) q (Inl e) \<Longrightarrow>
     tokens_collect x make_requests is_batch max_retries limit tokens p tokens q (Inl e)"
| info_raises:
    "executed (extract_batch x) max_retries limit (buffered_logs (snd p)) (fst p, touch ''log'' (snd p))
       (ex1, w1) (Inr ()) \<Longrightarrow>
     token_dict = build_token_dict (buffered_transfers w1) \<Longrightarrow>
     executed (export_token_info_batch x make_requests is_batch) max_retries limit
       (map (token_request \<circ> snd) (new_tokens tokens token_dict)) (ex1, touch ''token_transfer'' w1) q (Inl e) \<Longrightarrow>
     tokens_collect x make_requests is_batch max_retries limit tokens p tokens q (Inl e)"
| supply_raises:
    "executed (extract_batch x) max_retries limit (buffered_logs (snd p)) (fst p, touch ''log'' (snd p))
       (ex1, w1) (Inr ()) \<Longrightarrow>
     token_dict = build_token_dict (buffered_transfers w1) \<Longrightarrow>
     executed (export_token_info_batch x make_requests is_batch) max_retries limit
       (map (token_request \<circ> snd) (new_tokens tokens token_dict)) (ex1, touch ''token_transfer'' w1)
       (ex2, w2) (Inr ()) \<Longrightarrow>
     executed (export_token_total_supply_batch x make_requests is_batch) max_retries limit
       (map token_request (total_supply_tokens token_dict)) (ex2, touch ''token'' w2) q (Inl e) \<Longrightarrow>
     tokens_collect x make_requests is_batch max_retries limit tokens p
       (cache_tokens (buffered_tokens w2) tokens) q (Inl e)"
| to_the_end:
    "executed (extract_batch x) max_retries limit (buffered_logs (snd p)) (fst p, touch ''log'' (snd p))
       (ex1, w1) (Inr ()) \<Longrightarrow>
     token_dict = build_token_dict (buffered_transfers w1) \<Longrightarrow>
     executed (export_token_info_batch x make_requests is_batch) max_retries limit
       (map (token_request \<circ> snd) (new_tokens tokens token_dict)) (ex1, touch ''token_transfer'' w1)
       (ex2, w2) (Inr ()) \<Longrightarrow>
     tokens' = cache_tokens (buffered_tokens w2) tokens \<Longrightarrow>
     executed (export_token_total_supply_batch x make_requests is_batch) max_retries limit
       (map token_request (total_supply_tokens token_dict)) (ex2, touch ''token'' w2) (ex3, w3) (Inr ()) \<Longrightarrow>
     executed (generate_token_transfers (cached_types tokens')) max_retries limit
       (buffered_transfers w1) (ex3, w3) q r \<Longrightarrow>
     tokens_collect x make_requests is_batch max_retries limit tokens p tokens' q r"

inductive_cases tokens_collect_returnsE:
  "tokens_collect x make_requests is_batch max_retries limit tokens p tokens' q (Inr ())"

section \<open>The steps as batch handlers\<close>

text \<open>What a log or a transfer adds, \<open>None\<close> when its computation raises: no item of a buffer is
  \<open>None\<close>, so a run that finishes has met no failure.\<close>

definition log_adds :: "ext \<Rightarrow> log \<Rightarrow> tok_item option multiset" where
  "log_adds x l =
     (case extract_transfer_from_log x l of Inl _ \<Rightarrow> {#None#} | Inr ts \<Rightarrow> mset (map (Some \<circ> TransferItem) ts))"

definition transfer_adds :: "(string \<times> string) list \<Rightarrow> token_transfer \<Rightarrow> tok_item option multiset" where
  "transfer_adds types t =
     {#case specific_of types t of Inl _ \<Rightarrow> None | Inr s \<Rightarrow> Some (SpecificItem s)#}"

text \<open>The specific transfers are spread over three keys of the buffer.\<close>

definition specific_items :: "('d, 'x) world \<Rightarrow> 'd multiset" where
  "specific_items w = sum_list (map (\<lambda>key. buffered_items key w) output_transfer_types)"

lemma specific_type_cases:
  "specific_type s \<in> set output_transfer_types" "distinct output_transfer_types"
  by (simp_all add: specific_type_def output_transfer_types_def split: specific_transfer.splits)

lemma specific_items_collect:
  "specific_items (fst (collect_item (specific_type s) d w)) = add_mset d (specific_items w)"
  by (cases s) (simp_all add: specific_items_def output_transfer_types_def collect_item_def
      buffered_items_def buffered_append specific_type_def)

lemma generate_token_transfers_adds:
  assumes "generate_token_transfers types w ts = (w', Inr u)"
  shows "\<exists>ss. rmap (specific_of types) ts = Inr ss \<and>
    specific_items w' = specific_items w + mset (map SpecificItem ss)"
  using assms
proof (induction ts arbitrary: w)
  case (Cons t ts)
  then obtain s where s: "specific_of types t = Inr s" by (cases "specific_of types t") auto
  let ?w = "fst (collect_item (specific_type s) (SpecificItem s) w)"
  have "generate_token_transfers types ?w ts = (w', Inr u)"
    using Cons.prems s by (auto split: prod.splits)
  from Cons.IH [OF this] obtain ss where "rmap (specific_of types) ts = Inr ss"
    and "specific_items w' = specific_items ?w + mset (map SpecificItem ss)" by blast
  with s show ?case by (auto simp: specific_items_collect)
qed auto

lemma generate_token_transfers_error:
  assumes "generate_token_transfers types w ts = (w', Inl e)"
  shows "\<not> RETRY_EXCEPTIONS e"
  using assms
proof (induction ts arbitrary: w)
  case (Cons t ts)
  show ?case
  proof (cases "specific_of types t")
    case (Inl e')
    then have "(\<exists>k. e' = KeyError k) \<or> (\<exists>m. e' = ValueError m)"
      by (auto simp: specific_of_def dict_get_def to_specific_transfer_def rbind_def
          split: if_splits option.splits sum.splits)
    with Inl Cons.prems show ?thesis by (auto simp: RETRY_EXCEPTIONS_def)
  next
    case (Inr s)
    with Cons.prems Cons.IH show ?thesis by (auto split: prod.splits)
  qed
qed simp

lemma sum_transfer_adds:
  assumes "rmap (specific_of types) ts = Inr ss"
  shows "sum_list (map (transfer_adds types) ts) = image_mset Some (mset (map SpecificItem ss))"
  using assms
  by (induction ts arbitrary: ss) (auto simp: transfer_adds_def rbind_Inr_iff)

lemma sum_log_adds:
  assumes "rmap (extract_transfer_from_log x) ls = Inr tss"
  shows "sum_list (map (log_adds x) ls) = image_mset Some (mset (map TransferItem (concat tss)))"
  using assms
  by (induction ls arbitrary: tss) (auto simp: log_adds_def rbind_Inr_iff simp flip: mset_map)

interpretation specific_step: batch_handler "generate_token_transfers types"
  "\<lambda>w. image_mset Some (specific_items w)" "transfer_adds types" for types
proof
  fix w :: "(tok_item, 'x) world" and b w' u
  assume "generate_token_transfers types w b = (w', Inr u)"
  from generate_token_transfers_adds [OF this]
  show "image_mset Some (specific_items w') = image_mset Some (specific_items w) +
      sum_list (map (transfer_adds types) b)"
    by (auto simp: sum_transfer_adds)
next
  fix w :: "(tok_item, 'x) world" and b w' e
  assume "generate_token_transfers types w b = (w', Inl e)" "RETRY_EXCEPTIONS e"
  with generate_token_transfers_error
  show "image_mset Some (specific_items w') = image_mset Some (specific_items w)" by blast
qed

interpretation extraction_step: batch_handler "extract_batch x"
  "\<lambda>w. image_mset Some (buffered_items ''token_transfer'' w)" "log_adds x" for x
proof
  fix w :: "(tok_item, 'x) world" and b w' u
  assume "extract_batch x w b = (w', Inr u)"
  then obtain tss where t: "rmap (extract_transfer_from_log x) b = Inr tss"
    and "(w', Inr u) = sfor (\<lambda>t. collect_item ''token_transfer'' (TransferItem t)) (concat tss) w"
    by (auto simp: extract_batch_def extract_tokens_and_token_transfers_def rbind_Inr_iff split: sum.splits)
  then show "image_mset Some (buffered_items ''token_transfer'' w') =
      image_mset Some (buffered_items ''token_transfer'' w) + sum_list (map (log_adds x) b)"
    by (simp add: sfor_collect_item buffered_items_def buffered_fold_append sum_log_adds)
next
  fix w :: "(tok_item, 'x) world" and b w' e
  assume "extract_batch x w b = (w', Inl e)"
  with extraction.raises
  show "image_mset Some (buffered_items ''token_transfer'' w') =
      image_mset Some (buffered_items ''token_transfer'' w)"
    by (auto simp: extract_batch_def sfor_collect_item split: sum.splits)
qed

text \<open>From the equation of a finished run to the computations that returned.\<close>

lemma no_log_failed:
  "None \<notin># sum_list (map (log_adds x) ls) \<Longrightarrow> \<exists>tss. rmap (extract_transfer_from_log x) ls = Inr tss"
  by (induction ls) (auto simp: log_adds_def split: sum.splits)

lemma no_transfer_failed:
  "None \<notin># sum_list (map (transfer_adds types) ts) \<Longrightarrow> \<exists>ss. rmap (specific_of types) ts = Inr ss"
  by (induction ts) (auto simp: transfer_adds_def split: sum.splits)

lemma Some_items_cancel:
  assumes "image_mset Some B = image_mset Some A + S"
  shows "None \<notin># S" and "S = image_mset Some C \<Longrightarrow> B = A + C"
proof -
  have "None \<notin># image_mset Some B" by auto
  then show "None \<notin># S" unfolding assms by auto
  assume "S = image_mset Some C"
  with assms have "image_mset Some B = image_mset Some (A + C)" by simp
  then show "B = A + C" by (simp only: inj_eq [OF multiset.inj_map [OF inj_Some]])
qed

section \<open>What each run leaves alone\<close>

text \<open>The part of the buffer outside of one key.\<close>

definition others :: "string \<Rightarrow> ('d, 'x) world \<Rightarrow> string \<Rightarrow> 'd list" where
  "others key w = (buffered (data_buff w))(key := [])"

lemma others_collected: "others key (fst (sfor (\<lambda>t. collect_item key (f t)) ts w)) = others key w"
proof -
  have "others key (w\<lparr>data_buff := fold (\<lambda>t. dict_append key (f t)) ts b\<rparr>) = (buffered b)(key := [])" for b
  proof (induction ts arbitrary: b)
    case (Cons t ts)
    have "(buffered (dict_append key (f t) b))(key := []) = (buffered b)(key := [])"
      by (auto simp: buffered_append)
    with Cons.IH [of "dict_append key (f t) b"] show ?case by (simp add: fun_upd_def)
  qed (simp add: others_def)
  then show ?thesis by (simp add: sfor_collect_item others_def)
qed

lemma others_kept:
  "others ''token_transfer'' (fst (extract_batch x w b)) = others ''token_transfer'' w"
  "others ''token'' (fst (export_token_info_batch x mr is_batch w c)) = others ''token'' w"
  "others ''update_token'' (fst (export_token_total_supply_batch x mr is_batch w c)) = others ''update_token'' w"
  by (auto simp: extract_batch_def export_token_info_batch_def export_token_total_supply_batch_def
      others_collected split: sum.splits)

lemma others_eqD: "others key w' = others key w \<Longrightarrow> k \<noteq> key \<Longrightarrow>
    buffered (data_buff w') k = buffered (data_buff w) k"
  by (auto simp: others_def fun_eq_iff split: if_splits)

lemma buffered_of_touch [simp]: "buffered (data_buff (touch key w)) = buffered (data_buff w)"
  by (simp add: touch_def)

lemma extraction_executed:
  assumes "executed (extract_batch x) n limit logs (ex, w) (ex', w') (Inr ())" and "0 < n"
  shows "\<exists>tss. rmap (extract_transfer_from_log x) logs = Inr tss \<and>
    buffered_items ''token_transfer'' w' = buffered_items ''token_transfer'' w + mset (map TransferItem (concat tss))"
proof -
  obtain s where s: "exec_reach (extract_batch x) n limit (exec_start ex w (Dynamic logs) (Some (int (length logs)))) s"
    "run_phase s = Finished" "w' = run_world s"
    using assms(1) by (auto simp: executed_def)
  note e = extraction_step.finished_processed [OF s(1,2) assms(2), folded s(3),
      simplified extraction_step.work_def source_items.simps]
  obtain tss where tss: "rmap (extract_transfer_from_log x) logs = Inr tss"
    using no_log_failed [OF Some_items_cancel(1) [OF e]] by blast
  with Some_items_cancel(2) [OF e] sum_log_adds show ?thesis by blast
qed

lemma specific_executed:
  assumes "executed (generate_token_transfers types) n limit ts (ex, w) (ex', w') (Inr ())" and "0 < n"
  shows "\<exists>ss. rmap (specific_of types) ts = Inr ss \<and>
    specific_items w' = specific_items w + mset (map SpecificItem ss)"
proof -
  obtain s where s: "exec_reach (generate_token_transfers types) n limit
      (exec_start ex w (Dynamic ts) (Some (int (length ts)))) s"
    "run_phase s = Finished" "w' = run_world s"
    using assms(1) by (auto simp: executed_def)
  note e = specific_step.finished_processed [OF s(1,2) assms(2), folded s(3),
      simplified specific_step.work_def source_items.simps]
  obtain ss where ss: "rmap (specific_of types) ts = Inr ss"
    using no_transfer_failed [OF Some_items_cancel(1) [OF e]] by blast
  with Some_items_cancel(2) [OF e] sum_transfer_adds show ?thesis by blast
qed

text \<open>A permutation of the items permutes the results.\<close>

lemma rmap_mset:
  assumes "rmap f xs = Inr ys" and "mset xs = mset zs"
  shows "rmap f zs = Inr (map (projr \<circ> f) zs) \<and> mset (map (projr \<circ> f) zs) = mset ys"
proof -
  have l: "list_all2 (\<lambda>x y. f x = Inr y) xs ys" using assms(1) by (simp add: rmap_Inr_iff)
  then have "\<forall>x \<in> set xs. \<exists>y. f x = Inr y" by (induction rule: list_all2_induct) auto
  then have "\<forall>x \<in> set zs. f x = Inr (projr (f x))" using mset_eq_setD [OF assms(2)] by auto
  then have "rmap f zs = Inr (map (projr \<circ> f) zs)" by (intro rmap_Inr_map) auto
  moreover have "ys = map (projr \<circ> f) xs" using l by (induction rule: list_all2_induct) auto
  ultimately show ?thesis using assms(2) by (metis mset_map)
qed

text \<open>The keys of the specific transfers and of the extracted ones.\<close>

definition transfer_state :: "(tok_item, 'x) world \<Rightarrow> tok_item multiset \<times> tok_item list" where
  "transfer_state w = (specific_items w, buffered (data_buff w) ''token_transfer'')"

lemma specific_items_others:
  assumes "others key w' = others key w" and "key \<notin> set output_transfer_types"
  shows "specific_items w' = specific_items w"
proof -
  have "buffered (data_buff w') k = buffered (data_buff w) k" if "k \<in> set output_transfer_types" for k
    by (rule others_eqD [OF assms(1)]) (use that assms(2) in auto)
  then show ?thesis by (simp add: specific_items_def output_transfer_types_def buffered_items_def)
qed

lemma transfer_state_others:
  assumes "others key w' = others key w" and "key \<notin> set output_transfer_types" and "''token_transfer'' \<noteq> key"
  shows "transfer_state w' = transfer_state w"
  using specific_items_others [OF assms(1,2)] others_eqD [OF assms(1,3)] by (simp add: transfer_state_def)

lemma token_steps_keep:
  "transfer_state (fst (export_token_info_batch x mr is_batch w b)) = transfer_state w"
  "transfer_state (fst (export_token_total_supply_batch x mr is_batch w b)) = transfer_state w"
  by (rule transfer_state_others [OF others_kept(2)] transfer_state_others [OF others_kept(3)];
      simp add: output_transfer_types_def)+

lemma extraction_keeps: "specific_items (fst (extract_batch x w b)) = specific_items w"
  by (rule specific_items_others [OF others_kept(1)]) (simp add: output_transfer_types_def)

lemma transfer_state_touch [simp]:
  "transfer_state (touch key w) = transfer_state w" "specific_items (touch key w) = specific_items w"
  "buffered_items k (touch key w) = buffered_items k w"
  by (simp_all add: transfer_state_def specific_items_def buffered_items_def)

lemma transfers_of_buffer:
  assumes "mset (buffered (data_buff w) ''token_transfer'') = mset (map TransferItem ts)"
  shows "mset (buffered_transfers w) = mset ts"
proof -
  let ?f = "\<lambda>d. case d of TransferItem t \<Rightarrow> [t] | _ \<Rightarrow> []"
  have c: "mset (concat (map ?f ds)) = \<Sum>\<^sub># (image_mset (mset \<circ> ?f) (mset ds))" for ds by (induction ds) simp_all
  have m: "concat (map ?f (map TransferItem ts)) = ts" by (induction ts) simp_all
  show ?thesis unfolding buffered_transfers_def c assms unfolding c [symmetric] m ..
qed

section \<open>Properties\<close>

text \<open>C6: if the job returns from a buffer without transfers, every log was decoded, every transfer of
  every log became a specific transfer with the token types the cache has at the end, and the buffer holds
  exactly these beside what it held before, whatever the batches, retries and interleavings of the four runs
  were. In particular the job does not return if one transfer without a token id is of a token that is
  neither in the cache nor could be read.\<close>

theorem tokens_job_transfers_complete:
  assumes "0 < max_retries"
    and "tokens_collect x make_requests is_batch max_retries limit tokens p tokens' q (Inr ())"
    and "buffered (data_buff (snd p)) ''token_transfer'' = []"
  shows "\<exists>tss ss. rmap (extract_transfer_from_log x) (buffered_logs (snd p)) = Inr tss \<and>
    rmap (specific_of (cached_types tokens')) (concat tss) = Inr ss \<and>
    specific_items (snd q) = specific_items (snd p) + mset (map SpecificItem ss)"
proof -
  obtain ex1 w1 ex2 w2 ex3 w3 known supplied where
    run: "executed (extract_batch x) max_retries limit (buffered_logs (snd p)) (fst p, touch ''log'' (snd p))
      (ex1, w1) (Inr ())"
    "executed (export_token_info_batch x make_requests is_batch) max_retries limit known
      (ex1, touch ''token_transfer'' w1) (ex2, w2) (Inr ())"
    "executed (export_token_total_supply_batch x make_requests is_batch) max_retries limit supplied
      (ex2, touch ''token'' w2) (ex3, w3) (Inr ())"
    "executed (generate_token_transfers (cached_types tokens')) max_retries limit (buffered_transfers w1)
      (ex3, w3) q (Inr ())"
    using assms(2) by (elim tokens_collect_returnsE) (rule that, assumption, assumption, assumption, simp)
  obtain tss where t: "rmap (extract_transfer_from_log x) (buffered_logs (snd p)) = Inr tss"
    and b1: "buffered_items ''token_transfer'' w1 = mset (map TransferItem (concat tss))"
    using extraction_executed [OF run(1) assms(1)] assms(3) by (auto simp: buffered_items_def)
  have s1: "specific_items w1 = specific_items (snd p)"
    using executed_keeps [of specific_items, OF extraction_keeps assms(1) run(1)] by simp
  have k2: "transfer_state w2 = transfer_state w1"
    using executed_keeps [of transfer_state, OF token_steps_keep(1) assms(1) run(2)] by simp
  have k3: "transfer_state w3 = transfer_state w2"
    using executed_keeps [of transfer_state, OF token_steps_keep(2) assms(1) run(3)] by simp
  from k2 k3 s1 have s3: "specific_items w3 = specific_items (snd p)" by (simp add: transfer_state_def)
  have m: "mset (buffered_transfers w1) = mset (concat tss)"
    using b1 by (intro transfers_of_buffer) (simp add: buffered_items_def)
  obtain ex4 w4 where q: "q = (ex4, w4)" by (cases q)
  obtain ss where ss: "rmap (specific_of (cached_types tokens')) (buffered_transfers w1) = Inr ss"
    and s4: "specific_items w4 = specific_items w3 + mset (map SpecificItem ss)"
    using specific_executed [OF run(4) [unfolded q] assms(1)] by blast
  note r = rmap_mset [OF ss m]
  have "mset (map SpecificItem (map (projr \<circ> specific_of (cached_types tokens')) (concat tss))) = mset (map SpecificItem ss)"
    using r by (metis mset_map)
  with t r s3 s4 q show ?thesis by (metis snd_conv)
qed

text \<open>A run over no item at all leaves the world as it is.\<close>

lemma executed_nothing:
  fixes h :: "'w \<Rightarrow> 'a list \<Rightarrow> 'w \<times> unit res"
  shows "\<exists>ex'. executed h n limit [] (ex, w) (ex', w) (Inr ())"
proof -
  define s :: "('a, 'w) run" where "s = exec_start ex w (Dynamic []) (Some 0)"
  define t where "t = s\<lparr>run_phase := Waiting\<rparr>"
  have s: "exec_step h n limit s t" unfolding t_def by (rule exec_step.next_end) (simp_all add: s_def exec_start_def)
  obtain p k where p: "progress_finish (progress_of (run_ex t)) = Inr (p, k)"
    using progress_finish_returns [of "progress_of (run_ex t)"]
    by (cases "progress_finish (progress_of (run_ex t))") (auto simp: s_def t_def exec_start_def progress_start_def)
  define u where "u = t\<lparr>run_ex := (run_ex t)\<lparr>progress_of := p\<rparr>, run_futures := [], run_phase := Finished\<rparr>"
  have "exec_step h n limit t u" unfolding u_def
    by (rule exec_step.wait_ok [OF _ _ _ p]) (simp_all add: s_def t_def exec_start_def unfinished_def)
  with s have "exec_reach h n limit s u" by (meson exec_reach.intros)
  then show ?thesis
    by (intro exI [of _ "run_ex u"]) (auto simp: executed_def s_def t_def u_def exec_start_def intro!: exI [of _ u])
qed

definition job_ext :: ext where
  "job_ext = decoding_ext\<lparr>abi_encode := (\<lambda>_ _. Inr [])\<rparr>"

lemma job_transfers:
  "\<exists>t. extract_transfer_from_log job_ext (sample_transfer_log) = Inr [t] \<and> tt_token_id t = None \<and>
    tt_token_address t = ''0xa'' \<and> tt_token_type t = ''ERC20''"
proof -
  have b: "get_topic_with_data sample_transfer_log = Inr ([1] @ [2, 3])"
    by (simp add: get_topic_with_data_def get_bytes_topics_def get_bytes_data_def topic_hex_def
        sample_transfer_log_def sample_log_def strip_0x_bytes bytes_fromhex_hex
        sample_hex [symmetric])
  have d: "decode_log_ignore_indexed job_ext transfer_event sample_transfer_log =
      Inr [(''from'', AAddress ZERO_ADDRESS), (''to'', AAddress ZERO_ADDRESS), (''value'', AUint 1)]"
    by (simp add: decode_log_ignore_indexed_def b transfer_event_def job_ext_def decoding_ext_def named_tree_def)
  have "lg_topic0 sample_transfer_log = Some (event_log_abi_to_topic job_ext transfer_event)"
    by (simp add: sample_transfer_log_def job_ext_def event_log_abi_to_topic_def)
  then have "extract_transfer_from_log job_ext sample_transfer_log = Inr [transfer_of_log sample_transfer_log
      (str_lower ZERO_ADDRESS) (str_lower ZERO_ADDRESS) None 1 (transfer_token_type sample_transfer_log)]"
    by (simp add: extract_transfer_from_log_def handle_transfer_event_def d dec_addr_def dec_uint_def)
  then show ?thesis
    by (simp add: transfer_of_log_def sample_transfer_log_def sample_log_def transfer_token_type_def topic_truthy_def)
qed

definition job_token :: token where
  "job_token = \<lparr>tk_address = ''0xa'', tk_token_type = ''ERC721'', tk_name = None, tk_symbol = None,
     tk_decimals = None, tk_block_number = Some 1, tk_total_supply = None\<rparr>"

definition job_world :: "(tok_item, unit) world" where
  "job_world = \<lparr>data_buff = [(''log'', [LogItem sample_transfer_log, LogItem sample_transfer_log])], outside = (),
     recorder_of = \<lparr>xr_has_service = False, xr_buffer = [], xr_table = [], xr_faults = []\<rparr>\<rparr>"

lemma job_logs: "buffered_logs job_world = replicate 2 sample_transfer_log" "buffered (data_buff job_world) ''token_transfer'' = []"
  "specific_items job_world = {#}" "buffered (data_buff job_world) ''token'' = []"
  by (simp_all add: buffered_logs_def job_world_def buffered_def specific_items_def output_transfer_types_def
      buffered_items_def numeral_2_eq_2)

lemma never_raises_supply:
  "never_raises A (export_token_total_supply_batch job_ext (\<lambda>_. Inr []) True)"
proof -
  have "abi_encode job_ext (fn_inputs TOTAL_SUPPLY_ABI_FUNCTION) [] = Inr []" by (simp add: job_ext_def)
  note e = encode_abi_selector [OF this]
  have build: "\<exists>ps. build_rpc_method_data job_ext TOTAL_SUPPLY_ABI_FUNCTION [] ts = Inr ps" for ts
  proof (cases "build_rpc_method_data job_ext TOTAL_SUPPLY_ABI_FUNCTION [] ts")
    case (Inl err)
    then show ?thesis using rmap_Inl_ex by (fastforce simp: build_rpc_method_data_def e)
  qed blast
  have "call_function job_ext (\<lambda>_. Inr []) True TOTAL_SUPPLY_ABI_FUNCTION [] ts = Inr []" for ts
    using build [of ts] by (auto simp: call_function_def send_requests_def zip_rpc_response_def)
  then show ?thesis
    by (simp add: never_raises_def export_token_total_supply_batch_def tokens_total_supply_rpc_requests_def
        fetch_field_def answer_tokens_def sfor_collect_item)
qed

text \<open>No token is requested when the cache has all of them.\<close>

lemma known_tokens_not_new:
  assumes "tt_token_address ` set ts \<subseteq> fst ` set known"
  shows "new_tokens known (build_token_dict ts) = []"
proof -
  have "map_of known a \<noteq> None" if "(a, k) \<in> set (build_token_dict ts)" for a k
  proof -
    have "tk_address k = a"
      using token_dict_keys [of "[]" ts] that by (auto simp: list_all_iff build_token_dict_def)
    moreover have "tk_address k \<in> tk_address ` set (map snd (build_token_dict ts))" using that by force
    ultimately have "a \<in> tt_token_address ` set ts"
      unfolding conjunct1 [OF conjunct2 [OF token_dict_latest [of ts]]] by simp
    with assms show ?thesis by (auto simp: map_of_eq_None_iff)
  qed
  then show ?thesis by (auto simp: new_tokens_def filter_empty_conv)
qed

theorem tokens_job_transfers_complete_witness:
  "\<exists>tokens' q. tokens_collect job_ext (\<lambda>_. Inr []) True 5 3 [(''0xa'', job_token)] (new_executor 2, job_world)
      tokens' q (Inr ()) \<and> size (specific_items (snd q)) = 2"
proof -
  let ?tok = "[(''0xa'', job_token)]"
  obtain t where t: "extract_transfer_from_log job_ext sample_transfer_log = Inr [t]" "tt_token_id t = None"
    "tt_token_address t = ''0xa''" using job_transfers by blast
  have logs: "set b \<subseteq> set (buffered_logs (job_world)) \<Longrightarrow>
      rmap (extract_transfer_from_log job_ext) b = Inr (map (\<lambda>_. [t]) b)" for b
    by (intro rmap_Inr_map) (use t(1) in \<open>auto simp: job_logs\<close>)
  have "never_raises (set (buffered_logs job_world)) (extract_batch job_ext)"
    by (simp add: never_raises_def extract_batch_def extract_tokens_and_token_transfers_def logs sfor_collect_item)
  from executed_finishes [OF this, of 3 5 "(new_executor 2, touch ''log'' job_world)"]
  obtain ex1 w1 where r1: "executed (extract_batch job_ext) 5 3 (buffered_logs job_world)
      (new_executor 2, touch ''log'' job_world) (ex1, w1) (Inr ())" by auto
  have two: "rmap (extract_transfer_from_log job_ext) (buffered_logs job_world) = Inr [[t], [t]]"
    using logs [of "buffered_logs job_world"] by (simp add: job_logs numeral_2_eq_2)
  have "mset (buffered (data_buff w1) ''token_transfer'') = mset (map TransferItem [t, t])"
    using extraction_executed [OF r1] job_logs(2) unfolding two by (simp add: buffered_items_def)
  from transfers_of_buffer [OF this] have ts: "set (buffered_transfers w1) = {t}" using mset_eq_setD by fastforce
  let ?d = "build_token_dict (buffered_transfers w1)"
  have "new_tokens ?tok ?d = []" using ts t(3) by (intro known_tokens_not_new) simp
  with executed_nothing obtain ex2 where r2: "executed (export_token_info_batch job_ext (\<lambda>_. Inr []) True) 5 3
      (map (token_request \<circ> snd) (new_tokens ?tok ?d)) (ex1, touch ''token_transfer'' w1)
      (ex2, touch ''token_transfer'' w1) (Inr ())" by (metis list.simps(8))
  obtain ex3 w3 where r3: "executed (export_token_total_supply_batch job_ext (\<lambda>_. Inr []) True) 5 3
      (map token_request (total_supply_tokens ?d)) (ex2, touch ''token'' (touch ''token_transfer'' w1)) (ex3, w3) (Inr ())"
    using executed_finishes [OF never_raises_supply, of 3 5 "map token_request (total_supply_tokens ?d)" "(ex2, touch ''token'' (touch ''token_transfer'' w1))"] by auto
  have "buffered (data_buff w1) ''token'' = []"
    using executed_keeps [of "\<lambda>w. buffered (data_buff w) ''token''", OF others_eqD [OF others_kept(1)] _ r1] job_logs(4) by simp
  then have c: "cache_tokens (buffered_tokens (touch ''token_transfer'' w1)) ?tok = ?tok"
    by (simp add: buffered_tokens_def cache_tokens_def)
  have sp: "specific_of (cached_types ?tok) t = Inr (ERC721TokenTransfer (common_fields (t\<lparr>tt_token_type := ''ERC721''\<rparr>)) (tt_value t))"
    using t by (simp add: specific_of_def cached_types_def job_token_def dict_get_def to_specific_transfer_def)
  have "snd (generate_token_transfers (cached_types ?tok) w b) = Inr ()" if "set b \<subseteq> {t}" for b and w :: "(tok_item, unit) world"
    using that by (induction b arbitrary: w) (auto simp: sp split: prod.splits)
  then have "never_raises (set (buffered_transfers w1)) (generate_token_transfers (cached_types ?tok)
      :: (tok_item, unit) world \<Rightarrow> _)"
    unfolding never_raises_def ts by blast
  from executed_finishes [OF this, of 3 5 "(ex3, w3)"] obtain q where r4: "executed (generate_token_transfers (cached_types ?tok)) 5 3
      (buffered_transfers w1) (ex3, w3) q (Inr ())" by auto
  have run: "tokens_collect job_ext (\<lambda>_. Inr []) True 5 3 ?tok (new_executor 2, job_world) ?tok q (Inr ())"
    using tokens_collect.to_the_end [where p = "(new_executor 2, job_world)", unfolded fst_conv snd_conv, OF r1 refl r2 c [symmetric] r3 r4] .
  from tokens_job_transfers_complete [OF _ run] job_logs(2) obtain ss where
    "rmap (specific_of (cached_types ?tok)) [t, t] = Inr ss" "specific_items (snd q) = mset (map SpecificItem ss)"
    by (auto simp: two job_logs(3))
  then have "size (specific_items (snd q)) = 2" by (auto simp: sp)
  with run show ?thesis by blast
qed

end
