(* ===== verification/Rollups.thy ===== *)
theory Rollups
  imports Routes
begin

text \<open>
  The routes for chains of the second layer (\<open>api/app/l2_explorer/routes.py\<close>): the batches a chain has put on the
  first layer, the conditions that select the blocks and transactions of a batch, and the transactions of the
  bridge with their tokens, over the tables of \<open>common/models/bridge.py\<close>. A name of the configuration that is not
  set is the empty text. Rows are dictionaries of columns, as in \<open>Views\<close>; where a query sorts by its key only,
  rows with the same key keep the order of the table.
\<close>

section \<open>Configuration and tables\<close>

record l2_config =
  l2_chain :: string
  l2_rollup_type :: string
  l2_da_type :: string
  plasma_api_endpoint :: string
  blob_scan_endpoint :: string

record 'f l2_tables =
  op_state_batches :: "'f row list"
  arbitrum_state_batches :: "'f row list"
  state_batches :: "'f row list"
  zkevm_batches :: "'f row list"
  linea_batches :: "'f row list"
  arbitrum_transaction_batches :: "'f row list"
  data_stores :: "'f row list"
  data_store_tx_mapping :: "'f row list"
  op_da_transactions :: "'f row list"
  l1_to_l2_table :: "'f row list"
  l2_to_l1_table :: "'f row list"
  bridge_tokens_table :: "'f row list"
  all_tokens :: "'f row list"

text \<open>A column of numbers: \<open>NULL\<close> is not comparable, and the query builder refuses it as a bound.\<close>

fun number_in :: "'f cell \<Rightarrow> int option" where
  "number_in (CInt n) = Some n"
| "number_in (CDecimal n) = Some n"
| "number_in (CTime t) = Some t"
| "number_in _ = None"

definition number_of :: "'f row \<Rightarrow> string \<Rightarrow> int option" where
  "number_of r k = number_in (cell_of r k)"

definition bound_of :: "'f row \<Rightarrow> string \<Rightarrow> int res" where
  "bound_of r k = (case number_of r k of Some n \<Rightarrow> Inr n | None \<Rightarrow> Inl (OtherException ''ArgumentError''))"

definition add_of :: "'f row \<Rightarrow> string \<Rightarrow> int res" where
  "add_of r k = (case number_of r k of Some n \<Rightarrow> Inr n | None \<Rightarrow> Inl TypeError)"

definition find_row :: "'f row list \<Rightarrow> string \<Rightarrow> int \<Rightarrow> 'f row option" where
  "find_row t k n = List.find (\<lambda>r. number_of r k = Some n) t"

definition find_text :: "'f row list \<Rightarrow> string \<Rightarrow> string \<Rightarrow> 'f row option" where
  "find_text t k s = List.find (\<lambda>r. cell_of r k = CText s) t"

definition descending :: "string \<Rightarrow> 'f row list \<Rightarrow> 'f row list" where
  "descending k = sort_key (\<lambda>r. - cell_int (cell_of r k))"

definition first_row :: "'f row list \<Rightarrow> 'f row option" where
  "first_row t = (case t of [] \<Rightarrow> None | r # _ \<Rightarrow> Some r)"

definition batch_or_error :: "string \<Rightarrow> 'a option \<Rightarrow> 'a res" where
  "batch_or_error message b = (case b of None \<Rightarrow> Inl (api_error message) | Some r \<Rightarrow> Inr r)"

definition UnboundLocalError :: exc where
  "UnboundLocalError = OtherException ''UnboundLocalError''"

section \<open>Conditions on blocks and transactions\<close>

datatype selection = AllRows | FromTo int int | AfterTo int int | OneOf "int list" | HashIn "string list"


definition batch_span :: "'f row \<Rightarrow> selection res" where
  "batch_span b = rbind (bound_of b ''start_block_number'') (\<lambda>s. rbind (bound_of b ''end_block_number'') (\<lambda>e. Inr (FromTo s e)))"

definition span_and :: "'f row \<Rightarrow> string \<Rightarrow> (selection \<times> 'f cell) res" where
  "span_and b k = rbind (batch_span b) (\<lambda>c. Inr (c, cell_of b k))"

text \<open>A batch of the first kind says how many elements came before it.\<close>

definition elements_span :: "'f row \<Rightarrow> (selection \<times> 'f cell) res" where
  "elements_span b =
     rbind (bound_of b ''previous_total_elements'') (\<lambda>p. rbind (add_of b ''batch_size'') (\<lambda>n.
       Inr (AfterTo p (p + n), cell_of b ''batch_size'')))"

text \<open>An index of the request is given if it is a number other than 0; the column \<open>k_count\<close> holds the total.\<close>

definition state_batch_condition :: "l2_config \<Rightarrow> 'f l2_tables \<Rightarrow> string \<Rightarrow> int \<Rightarrow> (selection \<times> 'f cell) res" where
  "state_batch_condition cfg db k_count state_batch =
     (if l2_rollup_type cfg = ''op''
      then rbind (batch_or_error ''Batch not exist'' (find_row (op_state_batches db) ''batch_index'' state_batch)) (\<lambda>b. span_and b k_count)
      else if l2_rollup_type cfg = ''arbitrum''
      then rbind (batch_or_error ''Batch not exist'' (find_row (arbitrum_state_batches db) ''node_num'' state_batch)) (\<lambda>b. span_and b k_count)
      else rbind (batch_or_error ''Batch not exist'' (find_row (state_batches db) ''batch_index'' state_batch)) elements_span)"

definition index_given :: "int option \<Rightarrow> bool" where
  "index_given i \<longleftrightarrow> i \<noteq> None \<and> i \<noteq> Some 0"

fun numbers_in :: "'f cell \<Rightarrow> int list" where
  "numbers_in (CList cs) = map (\<lambda>c. case number_in c of Some n \<Rightarrow> n | None \<Rightarrow> 0) cs"
| "numbers_in _ = []"

text \<open>Two local variables that no branch may have set.\<close>

definition get_filter_condition_and_total_block_count ::
    "l2_config \<Rightarrow> 'f l2_tables \<Rightarrow> int option \<Rightarrow> int option \<Rightarrow> (selection \<times> 'f cell) res" where
  "get_filter_condition_and_total_block_count cfg db state_batch batch =
     (if index_given state_batch then state_batch_condition cfg db ''block_count'' (the state_batch)
      else if index_given batch
      then if l2_chain cfg = ''zkevm''
           then rbind (batch_or_error ''Batch not exist'' (find_row (zkevm_batches db) ''batch_index'' (the batch))) (\<lambda>_.
             Inl UnboundLocalError)
           else if l2_chain cfg = ''linea''
           then rbind (batch_or_error ''Batch not exist'' (find_row (linea_batches db) ''number'' (the batch))) (\<lambda>b.
             Inr (OneOf (numbers_in (cell_of b ''blocks'')), cell_of b ''block_count''))
           else Inl UnboundLocalError
      else Inl UnboundLocalError)"




section \<open>Batches of a transaction\<close>

definition set_cells :: "(string \<times> 'f cell) list \<Rightarrow> 'f row \<Rightarrow> 'f row" where
  "set_cells = fold (\<lambda>(k, v). AList.update k v)"

definition covering :: "'f row list \<Rightarrow> int \<Rightarrow> 'f row option" where
  "covering t n = List.find (\<lambda>b.
     (case number_of b ''start_block_number'' of Some s \<Rightarrow> s \<le> n | None \<Rightarrow> False) \<and>
     (case number_of b ''end_block_number'' of Some e \<Rightarrow> n \<le> e | None \<Rightarrow> False)) t"

definition need_number :: "'f row \<Rightarrow> string \<Rightarrow> int res" where
  "need_number d k = rbind (dict_get d k) (\<lambda>_. bound_of d k)"

definition mantle_state_batch :: "'f l2_tables \<Rightarrow> int \<Rightarrow> 'f row option" where
  "mantle_state_batch db n =
     first_row (descending ''batch_index'' (filter (\<lambda>b. case number_of b ''previous_total_elements'' of
       Some p \<Rightarrow> p < n | None \<Rightarrow> False) (state_batches db)))"

definition state_batch_fields :: "'f row option \<Rightarrow> 'f row \<Rightarrow> 'f row" where
  "state_batch_fields b t =
     (case b of
        None \<Rightarrow> t
      | Some b \<Rightarrow> set_cells [(''state_batch_index'', cell_of b ''batch_index''),
          (''state_batch_transaction_hash'', cell_of b ''l1_transaction_hash'')] t)"

definition da_batch_fields :: "'f l2_tables \<Rightarrow> 'f cell \<Rightarrow> 'f row \<Rightarrow> 'f row" where
  "da_batch_fields db h t =
     (case List.find (\<lambda>r. cell_of r ''transaction_hash'' = h) (data_store_tx_mapping db) of
        None \<Rightarrow> t
      | Some m \<Rightarrow>
          (case List.find (\<lambda>r. cell_of r ''id'' = cell_of m ''data_store_id'') (data_stores db) of
             None \<Rightarrow> t
           | Some b \<Rightarrow> set_cells [(''da_batch_index'', cell_of b ''batch_index''), (''da_batch_msg_hash'', cell_of b ''msg_hash'')] t))"

definition set_l2_extra_info_by_transaction_hash :: "l2_config \<Rightarrow> 'f l2_tables \<Rightarrow> 'f row \<Rightarrow> 'f row res" where
  "set_l2_extra_info_by_transaction_hash cfg db t =
     (if l2_chain cfg = ''zkevm''
      then rbind (need_number t ''block_number'') (\<lambda>n.
        Inr (case covering (zkevm_batches db) n of
               None \<Rightarrow> t
             | Some b \<Rightarrow> set_cells [(''batch_number'', cell_of b ''number''),
                 (''send_sequences_tx_hash'', cell_of b ''sequence_batch_tx_hash''),
                 (''verify_batch_tx_hash'', cell_of b ''verify_batch_tx_hash'')] t))
      else if l2_chain cfg = ''linea'' then Inr t
      else if l2_rollup_type cfg = ''op''
      then rbind (need_number t ''block_number'') (\<lambda>n.
        Inr (state_batch_fields (covering (op_state_batches db) n) t))
      else if l2_chain cfg = ''mantle''
      then rbind (need_number t ''block_number'') (\<lambda>n.
        let t = state_batch_fields (mantle_state_batch db n) t
        in rbind (dict_get t ''hash'') (\<lambda>h. Inr (da_batch_fields db h t)))
      else Inr t)"

definition latest_of :: "'f row list \<Rightarrow> string \<Rightarrow> 'f cell" where
  "latest_of t k = (case first_row (descending k t) of None \<Rightarrow> CInt 0 | Some b \<Rightarrow> cell_of b k)"

text \<open>The return statement belongs to the last case.\<close>

definition get_latest_batch_index :: "l2_config \<Rightarrow> 'f l2_tables \<Rightarrow> 'f cell option" where
  "get_latest_batch_index cfg db =
     (if l2_chain cfg = ''zkevm'' then None
      else if l2_rollup_type cfg = ''op'' then None
      else if l2_chain cfg = ''linea'' then Some (latest_of (linea_batches db) ''number'')
      else None)"

section \<open>Lists and details of batches\<close>

record 'f batch_page =
  bt_data :: "'f row list"
  bt_total :: "'f cell"
  bt_page :: int
  bt_size :: int

text \<open>\<open>order_by(k.desc()).limit(n).offset(m)\<close>\<close>

definition page_rows :: "'f row list \<Rightarrow> string \<Rightarrow> int \<Rightarrow> int \<Rightarrow> 'f row list" where
  "page_rows t k page psize = take (nat psize) (drop (nat ((page - 1) * psize)) (descending k t))"

definition state_table :: "l2_config \<Rightarrow> 'f l2_tables \<Rightarrow> 'f row list \<times> string" where
  "state_table cfg db =
     (if l2_rollup_type cfg = ''op'' then (op_state_batches db, ''batch_index'')
      else if l2_rollup_type cfg = ''arbitrum'' then (arbitrum_state_batches db, ''node_num'')
      else (state_batches db, ''batch_index''))"

text \<open>A node of Arbitrum that is not confirmed shows where it was created. The list formats the time, the detail does not.\<close>

definition arbitrum_fields :: "('f cell \<Rightarrow> 'f cell) \<Rightarrow> 'f floats \<Rightarrow> 'f row \<Rightarrow> 'f row \<Rightarrow> 'f row" where
  "arbitrum_fields shown_time fl b t =
     (let confirmed = truthy_cell fl (cell_of b ''l1_transaction_hash'');
          t = set_cells [(''status'', CInt (if confirmed then 2 else 3)), (''batch_index'', cell_of b ''node_num''),
            (''batch_root'', cell_of b ''node_hash'')] t
      in if confirmed then t
         else set_cells [(''l1_transaction_hash'', cell_of b ''create_l1_transaction_hash''),
           (''l1_block_timestamp'', shown_time (cell_of b ''create_l1_block_timestamp'')),
           (''l1_block_hash'', cell_of b ''create_l1_block_hash''),
           (''l1_transaction_hash'', cell_of b ''create_l1_transaction_hash'')] t)"

definition state_batch_entry :: "l2_config \<Rightarrow> 'f floats \<Rightarrow> 'f row \<Rightarrow> 'f row" where
  "state_batch_entry cfg fl b =
     (let t = AList.update ''status'' (CInt 2) (model_as_dict fl b)
      in if l2_rollup_type cfg = ''arbitrum'' then arbitrum_fields (format_value_for_json fl) fl b t else t)"

definition explorer_state_batches :: "l2_config \<Rightarrow> 'f floats \<Rightarrow> 'f l2_tables \<Rightarrow> string option \<Rightarrow> string option \<Rightarrow> 'f batch_page res" where
  "explorer_state_batches cfg fl db page psize =
     rbind (page_args page psize) (\<lambda>(p, s).
     let (table, k) = state_table cfg db
     in Inr \<lparr>bt_data = map (state_batch_entry cfg fl) (page_rows table k p s), bt_total = latest_of table k,
             bt_page = p, bt_size = s\<rparr>)"

definition last_flag :: "'f row list \<Rightarrow> string \<Rightarrow> 'f row \<Rightarrow> 'f cell" where
  "last_flag table k b = CBool (latest_of table k = cell_of b k)"

text \<open>The database reads the number of the path.\<close>

definition path_number :: "string \<Rightarrow> int res" where
  "path_number s = (case parse_int s of Inr n \<Rightarrow> Inr n | Inl _ \<Rightarrow> Inl (OtherException ''DataError''))"

definition explorer_state_batch :: "l2_config \<Rightarrow> 'f floats \<Rightarrow> 'f l2_tables \<Rightarrow> string \<Rightarrow> 'f row res" where
  "explorer_state_batch cfg fl db batch_index =
     (let (table, k) = state_table cfg db
      in rbind (path_number batch_index) (\<lambda>n.
         rbind (batch_or_error ''Cannot find batch with batch number'' (find_row table k n)) (\<lambda>b.
         let t = AList.update ''status'' (CInt 2) (model_as_dict fl b)
         in rbind (if l2_rollup_type cfg \<noteq> ''op'' \<and> l2_rollup_type cfg \<noteq> ''arbitrum''
                   then rbind (dict_get t ''batch_size'') (\<lambda>n.
                     Inr (set_cells [(''transaction_count'', n), (''block_count'', n)] t))
                   else Inr t) (\<lambda>t.
            let t = AList.update ''is_last_batch'' (last_flag table k b) t
            in Inr (if l2_rollup_type cfg = ''arbitrum'' then arbitrum_fields id fl b t else t)))))"

definition is_l1_block_finalized :: "int \<Rightarrow> int \<Rightarrow> bool" where
  "is_l1_block_finalized utcnow timestamp \<longleftrightarrow> timestamp < utcnow - 15 * 60"

definition linea_entry :: "'f floats \<Rightarrow> int \<Rightarrow> 'f row \<Rightarrow> 'f row res" where
  "linea_entry fl utcnow b =
     rbind (add_of b ''timestamp'') (\<lambda>ts.
       Inr (set_cells [(''status'', CInt (if is_l1_block_finalized utcnow ts then 2 else 0)),
         (''transaction_count'', cell_of b ''tx_count''), (''block_count'', cell_of b ''block_count'')] (model_as_dict fl b)))"

definition explorer_linea_batches :: "'f floats \<Rightarrow> int \<Rightarrow> 'f l2_tables \<Rightarrow> string option \<Rightarrow> string option \<Rightarrow> 'f batch_page res" where
  "explorer_linea_batches fl utcnow db page psize =
     rbind (page_args page psize) (\<lambda>(p, s).
     rbind (rmap (linea_entry fl utcnow) (page_rows (linea_batches db) ''number'' p s)) (\<lambda>data.
       Inr \<lparr>bt_data = data, bt_total = latest_of (linea_batches db) ''number'', bt_page = p, bt_size = s\<rparr>))"

definition explorer_linea_batch :: "'f floats \<Rightarrow> int \<Rightarrow> 'f l2_tables \<Rightarrow> string \<Rightarrow> 'f row res" where
  "explorer_linea_batch fl utcnow db number =
     rbind (path_number number) (\<lambda>n.
     rbind (batch_or_error ''Cannot find batch with batch number'' (find_row (linea_batches db) ''number'' n)) (\<lambda>b.
     rbind (linea_entry fl utcnow b) (\<lambda>t. Inr (AList.update ''is_last_batch'' (last_flag (linea_batches db) ''number'' b) t))))"

text \<open>0 pending, 1 sequenced on the first layer, 2 verified.\<close>

definition zkevm_status :: "'f row \<Rightarrow> int" where
  "zkevm_status b =
     (if cell_of b ''sequence_batch_tx_hash'' = CNone then 0
      else if cell_of b ''verify_batch_tx_hash'' \<noteq> CNone then 2 else 1)"

definition status_filter :: "int option \<Rightarrow> 'f row \<Rightarrow> bool" where
  "status_filter status b =
     (if status = Some 0 then cell_of b ''sequence_batch_tx_hash'' = CNone
      else if status = Some 1 then cell_of b ''sequence_batch_tx_hash'' \<noteq> CNone
      else if status = Some 2 then cell_of b ''verify_batch_tx_hash'' \<noteq> CNone else True)"

definition zkevm_entry :: "'f floats \<Rightarrow> 'f row \<Rightarrow> 'f row" where
  "zkevm_entry fl b =
     set_cells [(''status'', CInt (zkevm_status b)), (''transaction_count'', cell_of b ''transaction_count'')] (model_as_dict fl b)"

definition status_arg :: "string option \<Rightarrow> int option res" where
  "status_arg status = (if arg_given status then rbind (parse_int (the status)) (\<lambda>n. Inr (Some n)) else Inr None)"

definition explorer_batches :: "'f floats \<Rightarrow> 'f l2_tables \<Rightarrow> string option \<Rightarrow> string option \<Rightarrow> string option \<Rightarrow> 'f batch_page res" where
  "explorer_batches fl db page psize status =
     rbind (page_args page psize) (\<lambda>(p, s). rbind (status_arg status) (\<lambda>st.
       Inr \<lparr>bt_data = map (zkevm_entry fl) (page_rows (filter (status_filter st) (zkevm_batches db)) ''batch_index'' p s),
            bt_total = latest_of (zkevm_batches db) ''batch_index'', bt_page = p, bt_size = s\<rparr>))"

definition explorer_batch :: "'f floats \<Rightarrow> 'f l2_tables \<Rightarrow> string \<Rightarrow> 'f row res" where
  "explorer_batch fl db batch_index =
     rbind (path_number batch_index) (\<lambda>n.
     rbind (batch_or_error ''Cannot find batch with batch number'' (find_row (zkevm_batches db) ''batch_index'' n)) (\<lambda>b.
       Inr (AList.update ''is_last_batch'' (last_flag (zkevm_batches db) ''batch_index'' b) (zkevm_entry fl b))))"

section \<open>Data availability\<close>

definition newest_by :: "string \<Rightarrow> string \<Rightarrow> 'f row list \<Rightarrow> 'f row list" where
  "newest_by k j = sort_key (\<lambda>r. (- cell_int (cell_of r k), - cell_int (cell_of r j)))"

definition plasma_commitment :: "string \<Rightarrow> string" where
  "plasma_commitment input = Prelude.slice 0 2 input @ drop 4 input"

definition first_hash :: "'f row \<Rightarrow> string res" where
  "first_hash b = rbind (cell_list (cell_of b ''blob_versioned_hashes'')) (\<lambda>hs.
     case hs of [] \<Rightarrow> Inl IndexError | h # _ \<Rightarrow> cell_text h)"

definition da_entry :: "l2_config \<Rightarrow> 'f floats \<Rightarrow> 'f row \<Rightarrow> 'f row res" where
  "da_entry cfg fl b =
     (let t = model_as_dict fl b
      in if l2_rollup_type cfg = ''op''
         then if l2_da_type cfg = ''plasma''
              then rbind (cell_text (cell_of b ''input'')) (\<lambda>input.
                   Inr (set_cells [(''da_commitment'', CText (plasma_commitment input)),
                     (''da_url'', CText (plasma_api_endpoint cfg @ plasma_commitment input))] t))
              else if l2_da_type cfg = ''blob''
              then rbind (first_hash b) (\<lambda>h. Inr (set_cells [(''da_commitment'', CText h),
                     (''da_url'', CText (blob_scan_endpoint cfg @ h))] t))
              else Inr t
         else if l2_rollup_type cfg = ''arbitrum''
         then rbind (rmap (\<lambda>(k, c). rbind (dict_get t c) (\<lambda>v. Inr (k, v)))
                [(''block_number'', ''l1_block_number''), (''hash'', ''l1_transaction_hash''),
                 (''block_timestamp'', ''l1_block_timestamp''), (''da_commitment'', ''batch_root'')]) (\<lambda>kvs.
              Inr (set_cells kvs t))
         else Inr t)"

definition da_table :: "l2_config \<Rightarrow> 'f l2_tables \<Rightarrow> 'f row list" where
  "da_table cfg db =
     (if l2_rollup_type cfg = ''arbitrum'' then newest_by ''l1_block_number'' ''batch_index'' (arbitrum_transaction_batches db)
      else newest_by ''block_number'' ''transaction_index'' (op_da_transactions db))"

definition explorer_da_batches :: "l2_config \<Rightarrow> 'f floats \<Rightarrow> 'f l2_tables \<Rightarrow> string option \<Rightarrow> string option \<Rightarrow> 'f batch_page res" where
  "explorer_da_batches cfg fl db page psize =
     rbind (page_args page psize) (\<lambda>(p, s).
     rbind (rmap (da_entry cfg fl) (take (nat s) (drop (nat ((p - 1) * s)) (da_table cfg db)))) (\<lambda>data.
       Inr \<lparr>bt_data = data, bt_total = CInt (int (length (da_table cfg db))), bt_page = p, bt_size = s\<rparr>))"

text \<open>For Arbitrum no batch is read, and the variable is used all the same.\<close>

definition explorer_da_batch :: "l2_config \<Rightarrow> 'f floats \<Rightarrow> 'f l2_tables \<Rightarrow> string \<Rightarrow> 'f row res" where
  "explorer_da_batch cfg fl db batch_index_or_hash =
     (if l2_rollup_type cfg = ''arbitrum'' then Inl UnboundLocalError
      else rbind (if batch_index_or_hash \<noteq> [] \<and> list_all is_digit batch_index_or_hash
                  then rbind (parse_int batch_index_or_hash) (\<lambda>n. Inr (find_row (data_stores db) ''batch_index'' n))
                  else Inr (find_text (data_stores db) ''msg_hash'' batch_index_or_hash)) (\<lambda>found.
           rbind (batch_or_error ''Cannot find batch with batch number'' found) (\<lambda>b. Inr (model_as_dict fl b))))"

section \<open>Transactions of the bridge\<close>

datatype direction = Deposit | Withdrawal

text \<open>A row as the service hands it to \<open>BridgeView\<close>: \<open>format_to_dict\<close> makes a float of an amount, which stands
  for the number it was made of.\<close>

record 'f bridge_env =
  be_view :: view_env
  be_parser :: bridge_parser
  be_time :: "int \<Rightarrow> string"
  be_float :: "'f \<Rightarrow> json"
  be_now :: int

fun json_of_cell :: "'f bridge_env \<Rightarrow> 'f cell \<Rightarrow> json" where
  "json_of_cell e CNone = JNull"
| "json_of_cell e (CBool b) = JBool b"
| "json_of_cell e (CInt n) = JInt n"
| "json_of_cell e (CText t) = JStr t"
| "json_of_cell e (CBytes b) = JStr (bytes_to_hex_str b)"
| "json_of_cell e (CDecimal n) = JInt n"
| "json_of_cell e (CTime t) = JStr (be_time e t)"
| "json_of_cell e (CFloat x) = be_float e x"
| "json_of_cell e (CList cs) = JList (map (json_of_cell e) cs)"
| "json_of_cell e (CDict kvs) = JDict (map (\<lambda>(k, c). (k, json_of_cell e c)) kvs)"

definition json_of_row :: "'f bridge_env \<Rightarrow> 'f row \<Rightarrow> jdict" where
  "json_of_row e r = map (\<lambda>(k, c). (k, json_of_cell e c)) r"

definition TOKEN_COLUMNS :: "string list" where
  "TOKEN_COLUMNS = [''address'', ''token_type'', ''name'', ''symbol'', ''decimals'', ''total_supply'', ''block_number'',
     ''holder_count'', ''transfer_count'', ''icon_url'', ''urls'', ''volume_24h'', ''price'', ''previous_price'',
     ''market_cap'', ''on_chain_market_cap'', ''is_verified'', ''cmc_id'', ''cmc_slug'', ''gecko_id'', ''description'',
     ''create_time'', ''update_time'']"

definition block_column :: "direction \<Rightarrow> string" where
  "block_column d = (case d of Deposit \<Rightarrow> ''l1_block_number'' | Withdrawal \<Rightarrow> ''l2_block_number'')"

definition BRIDGE_COLUMNS :: "direction \<Rightarrow> string list" where
  "BRIDGE_COLUMNS d =
     [''l1_block_number'', ''l1_block_timestamp'', ''l1_transaction_hash'', ''l2_block_number'', ''l2_block_timestamp'',
      ''l2_transaction_hash'', ''amount'', ''from_address'', ''to_address'', ''l1_token_address'', ''l2_token_address'',
      ''extra_info''] @
     (case d of Deposit \<Rightarrow> [] | Withdrawal \<Rightarrow>
        [''l1_proven_transaction_hash'', ''l1_proven_block_number'', ''l1_proven_block_timestamp'']) @
     [''_type'', ''index'', ''l1_block_hash'', ''l2_block_hash'', ''l1_from_address'', ''l2_from_address'']"

text \<open>A join with the tokens that share one of the two addresses, which then replace those of the row.\<close>

definition same_token :: "'f row \<Rightarrow> 'f row \<Rightarrow> bool" where
  "same_token r b \<longleftrightarrow> (\<exists>k \<in> {''l1_token_address'', ''l2_token_address''}. cell_of r k \<noteq> CNone \<and> cell_of r k = cell_of b k)"

definition joined_rows :: "'f row list \<Rightarrow> 'f row \<Rightarrow> 'f row list" where
  "joined_rows tokens r =
     (case filter (same_token r) tokens of
        [] \<Rightarrow> [r]
      | bs \<Rightarrow> map (\<lambda>b. set_cells [(''l1_token_address'', cell_of b ''l1_token_address''),
          (''l2_token_address'', cell_of b ''l2_token_address'')] r) bs)"

definition joins_tokens :: "l2_config \<Rightarrow> direction \<Rightarrow> bool" where
  "joins_tokens cfg d \<longleftrightarrow> l2_chain cfg = ''taiko'' \<or>
     (case d of Deposit \<Rightarrow> l2_rollup_type cfg = ''arbitrum'' | Withdrawal \<Rightarrow> l2_chain cfg = ''arbitrum'')"

text \<open>The conditions of a request: kind and receiver, and the token of the row before the join.\<close>

record bridge_query =
  q_kind :: "int option"
  q_address :: "byte list option"
  q_token :: "byte list option option"

definition bridge_holds :: "direction \<Rightarrow> bridge_query \<Rightarrow> 'f row \<Rightarrow> bool" where
  "bridge_holds d q r \<longleftrightarrow>
     cell_of r (block_column d) \<noteq> CNone \<and>
     (case q_kind q of None \<Rightarrow> True | Some n \<Rightarrow> number_of r ''_type'' = Some n) \<and>
     (case q_address q of None \<Rightarrow> True | Some a \<Rightarrow> cell_of r ''to_address'' = CBytes a) \<and>
     (case q_token q of None \<Rightarrow> True | Some None \<Rightarrow> cell_of r ''l2_token_address'' = CNone
      | Some (Some t) \<Rightarrow> cell_of r ''l2_token_address'' = CBytes t)"

definition bridge_table :: "'f l2_tables \<Rightarrow> direction \<Rightarrow> 'f row list" where
  "bridge_table db d = (case d of Deposit \<Rightarrow> l1_to_l2_table db | Withdrawal \<Rightarrow> l2_to_l1_table db)"

definition bridge_rows :: "l2_config \<Rightarrow> 'f l2_tables \<Rightarrow> direction \<Rightarrow> bridge_query \<Rightarrow> 'f row list" where
  "bridge_rows cfg db d q =
     map (project (BRIDGE_COLUMNS d)) (descending (block_column d)
       (concat (map (if joins_tokens cfg d then joined_rows (bridge_tokens_table db) else (\<lambda>r. [r]))
         (filter (bridge_holds d q) (bridge_table db d)))))"

definition bridge_page_rows :: "l2_config \<Rightarrow> 'f l2_tables \<Rightarrow> direction \<Rightarrow> bridge_query \<Rightarrow> nat \<Rightarrow> nat \<Rightarrow> 'f row list" where
  "bridge_page_rows cfg db d q limit offset = take limit (drop offset (bridge_rows cfg db d q))"

definition bridge_count :: "l2_config \<Rightarrow> 'f l2_tables \<Rightarrow> direction \<Rightarrow> bridge_query \<Rightarrow> nat" where
  "bridge_count cfg db d q = length (bridge_rows cfg db d q)"

interpretation bridge_pages: paged_table "bridge_rows cfg db d" "bridge_page_rows cfg db d" "bridge_count cfg db d" for cfg db d
  by unfold_locales (simp_all add: bridge_page_rows_def bridge_count_def)

text \<open>The regular expression of the route; a dollar also matches before a final line feed.\<close>

definition token_pattern :: "string \<Rightarrow> bool" where
  "token_pattern t \<longleftrightarrow> (let t = (if t \<noteq> [] \<and> last t = CHR 0x0A then butlast t else t)
     in length t = 42 \<and> startswith t ''0x'' \<and> list_all is_hex_char (drop 2 t))"

text \<open>\<open>binascii.unhexlify\<close> takes no blanks.\<close>

definition unhexlify :: "string \<Rightarrow> byte list res" where
  "unhexlify s = (if list_all is_hex_char s then bytes_fromhex s else Inl (ValueError ''Non-hexadecimal digit found''))"

definition token_condition :: "string option \<Rightarrow> byte list option option res" where
  "token_condition a =
     (if \<not> arg_given a then Inr None
      else if \<not> token_pattern (the a) then Inl (api_error ''Invalid wallet address'')
      else if str_lower (the a) = SYSTEM_ETH then Inr (Some None)
      else rbind (unhexlify (drop 2 (the a))) (\<lambda>b. Inr (Some (Some b))))"

record bridge_args =
  ba_page :: "string option"
  ba_size :: "string option"
  ba_address :: "string option"
  ba_kind :: "string option"
  ba_token :: "string option"

datatype response = BadRequest string | Page "jdict list" int int int int

text \<open>Only the list of deposits looks at the kind.\<close>

definition kind_condition :: "direction \<Rightarrow> string option \<Rightarrow> int option res" where
  "kind_condition d kind =
     (case (d, kind) of
        (Deposit, Some k) \<Rightarrow> if k \<noteq> [] \<and> list_all is_digit k then rbind (parse_int k) (\<lambda>n. Inr (Some n)) else Inr None
      | _ \<Rightarrow> Inr None)"

definition address_condition :: "string option \<Rightarrow> byte list option res" where
  "address_condition a = (if arg_given a then rbind (unhexlify (drop 2 (the a))) (\<lambda>b. Inr (Some b)) else Inr None)"

definition bridge_query_of :: "direction \<Rightarrow> bridge_args \<Rightarrow> bridge_query res" where
  "bridge_query_of d a =
     rbind (kind_condition d (ba_kind a)) (\<lambda>k. rbind (address_condition (ba_address a)) (\<lambda>b.
     rbind (token_condition (ba_token a)) (\<lambda>t. Inr \<lparr>q_kind = k, q_address = b, q_token = t\<rparr>)))"

text \<open>The tokens of the rows by address, and the dictionary of one of them.\<close>

definition token_info_of :: "'f bridge_env \<Rightarrow> 'f l2_tables \<Rightarrow> 'f cell \<Rightarrow> token_info" where
  "token_info_of e db a =
     (case a of
        CBytes b \<Rightarrow> map_option (\<lambda>t. json_of_row e (project TOKEN_COLUMNS t))
          (List.find (\<lambda>t. cell_of t ''address'' = CBytes b) (all_tokens db))
      | _ \<Rightarrow> None)"

definition finalized_block :: "'f l2_tables \<Rightarrow> int option" where
  "finalized_block db =
     (case first_row (descending ''batch_index'' (op_state_batches db)) of None \<Rightarrow> None | Some b \<Rightarrow> number_of b ''end_block_number'')"

definition parse_bridge_row :: "'f bridge_env \<Rightarrow> 'f l2_tables \<Rightarrow> direction \<Rightarrow> 'f row \<Rightarrow> jdict res" where
  "parse_bridge_row e db d r =
     (let t = json_of_row e r; info = token_info_of e db (cell_of r ''l2_token_address'')
      in case d of
           Deposit \<Rightarrow> parse_bridge_l1_to_l2_transaction (be_view e) (be_parser e) t info
         | Withdrawal \<Rightarrow> parse_bridge_l2_to_l1_transaction (be_view e) (be_now e) (be_parser e) t info (finalized_block db))"

text \<open>The total of a request. The name of the daily aggregates is not imported, and the package of the explorer has
  no module of models.\<close>

definition get_total_txn_count_of_bridge :: "int res" where
  "get_total_txn_count_of_bridge = Inl (OtherException ''NameError: DailyBridgeTransactionsAggregates'')"

definition get_count_by_address :: "string \<Rightarrow> int res" where
  "get_count_by_address address = rbind (unhexlify (drop 2 address)) (\<lambda>_. Inl AttributeError)"

definition bridge_total :: "l2_config \<Rightarrow> 'f l2_tables \<Rightarrow> direction \<Rightarrow> bridge_query \<Rightarrow> bridge_args \<Rightarrow> int res" where
  "bridge_total cfg db d q a =
     (if ba_token a = None \<and> ba_address a = None \<and> ba_kind a = None then get_total_txn_count_of_bridge
      else if ba_token a = None \<and> arg_given (ba_address a) \<and> ba_kind a \<noteq> None then get_count_by_address (the (ba_address a))
      else Inr (int (bridge_count cfg db d q)))"

definition explorer_bridge_transactions ::
    "ext \<Rightarrow> l2_config \<Rightarrow> 'f bridge_env \<Rightarrow> 'f l2_tables \<Rightarrow> direction \<Rightarrow> bridge_args \<Rightarrow> response res" where
  "explorer_bridge_transactions x cfg e db d a =
     rbind (int_arg (ba_page a) 1) (\<lambda>p. rbind (int_arg (ba_size a) 25) (\<lambda>s.
     if p \<le> 0 \<or> s \<le> 0 then Inr (BadRequest ''Invalid page or size'')
     else if d = Deposit \<and> arg_given (ba_address a) \<and> \<not> is_address x (the (ba_address a))
     then Inr (BadRequest ''Invalid wallet address'')
     else if p * s > MAX_INTERNAL_TRANSACTION then Inr (BadRequest (shown_number MAX_INTERNAL_TRANSACTION))
     else rbind (bridge_query_of d a) (\<lambda>q.
       rbind (rmap (parse_bridge_row e db d) (bridge_page_rows cfg db d q (nat s) (nat ((p - 1) * s)))) (\<lambda>data.
       rbind (bridge_total cfg db d q a) (\<lambda>n.
         Inr (Page data n (min n MAX_INTERNAL_TRANSACTION) p s))))))"

text \<open>The two routes.\<close>

definition explorer_l1_to_l2_transactions :: "ext \<Rightarrow> l2_config \<Rightarrow> 'f bridge_env \<Rightarrow> 'f l2_tables \<Rightarrow> bridge_args \<Rightarrow> response res" where
  "explorer_l1_to_l2_transactions x cfg e db a = explorer_bridge_transactions x cfg e db Deposit a"

definition explorer_l2_to_l1_transactions :: "ext \<Rightarrow> l2_config \<Rightarrow> 'f bridge_env \<Rightarrow> 'f l2_tables \<Rightarrow> bridge_args \<Rightarrow> response res" where
  "explorer_l2_to_l1_transactions x cfg e db a = explorer_bridge_transactions x cfg e db Withdrawal a"

section \<open>What the lists show\<close>

text \<open>The parts of a request that was answered with a page.\<close>

lemma bridge_pageE:
  assumes "explorer_bridge_transactions x cfg e db d a = Inr (Page data n m p s)"
  obtains q where "0 < p" "0 < s" "bridge_query_of d a = Inr q"
    "rmap (parse_bridge_row e db d) (bridge_page_rows cfg db d q (nat s) (nat ((p - 1) * s))) = Inr data"
    "bridge_total cfg db d q a = Inr n"
  using assms by (auto simp: explorer_bridge_transactions_def rbind_Inr_iff split: if_splits)

text \<open>A list of bridge transactions is only answered if the request has a token, or else has just one of
  address and kind; then the total is the number of all matching rows and the pages, put one after the other,
  are these rows. A list without any condition never is.\<close>

lemma bridge_list_needs_filter:
  assumes "explorer_bridge_transactions x cfg e db d a = Inr (Page data n m p s)"
  shows "(ba_token a \<noteq> None \<or> (arg_given (ba_address a) \<longleftrightarrow> ba_kind a = None) \<or> ba_address a = Some []) \<and>
    \<not> (ba_token a = None \<and> ba_address a = None \<and> ba_kind a = None) \<and>
    (\<exists>q. bridge_query_of d a = Inr q \<and> n = int (length (bridge_rows cfg db d q)) \<and>
      length data = length (bridge_page_rows cfg db d q (nat s) (nat ((p - 1) * s))) \<and>
      (int (length data) < s \<and> (data \<noteq> [] \<or> p = 1) \<longrightarrow> (p - 1) * s + int (length data) = n))"
proof -
  obtain q where q: "0 < p" "0 < s" "bridge_query_of d a = Inr q"
    and rows: "rmap (parse_bridge_row e db d) (bridge_page_rows cfg db d q (nat s) (nat ((p - 1) * s))) = Inr data"
    and t: "bridge_total cfg db d q a = Inr n" using assms by (rule bridge_pageE)
  have c: "\<not> (ba_token a = None \<and> ba_address a = None \<and> ba_kind a = None)"
    "\<not> (ba_token a = None \<and> arg_given (ba_address a) \<and> ba_kind a \<noteq> None)" and n: "n = int (bridge_count cfg db d q)"
    using t by (auto simp: bridge_total_def get_total_txn_count_of_bridge_def get_count_by_address_def rbind_Inr_iff
        split: if_splits)
  have l: "length data = length (bridge_page_rows cfg db d q (nat s) (nat ((p - 1) * s)))" by (rule rmap_length [OF rows])
  have o: "nat ((p - 1) * s) = nat (p - 1) * nat s" using q(1,2) by (simp add: nat_mult_distrib)
  have "(p - 1) * s + int (length data) = n" if "int (length data) < s" "data \<noteq> [] \<or> p = 1"
  proof -
    have "nat (p - 1) * nat s + length data = bridge_count cfg db d q"
      using bridge_pages.short_page_total [of cfg db d q "nat s" "nat (p - 1)"] that l unfolding o by fastforce
    then have "int (nat (p - 1)) * int (nat s) + int (length data) = n" unfolding n by (metis of_nat_add of_nat_mult)
    then show ?thesis using q(1,2) by simp
  qed
  with c q(3) n l show ?thesis by (auto simp: bridge_count_def arg_given_def)
qed





section \<open>Batches and their blocks\<close>






text \<open>With rollup type arbitrum the condition selects transactions, but the detail of a transaction never shows a batch.\<close>

lemma arbitrum_detail_without_batch:
  assumes "l2_rollup_type cfg = ''arbitrum''" and "l2_chain cfg \<notin> {''zkevm'', ''linea'', ''mantle''}"
  shows "set_l2_extra_info_by_transaction_hash cfg db t = Inr t"
  using assms by (simp add: set_l2_extra_info_by_transaction_hash_def)

section \<open>Examples\<close>

definition sample_bridge_env :: "int bridge_env" where
  "sample_bridge_env = \<lparr>be_view = sample_view, be_parser = \<lparr>bp_chain = ''optimism'', bp_rollup_type = ''op'',
     bp_withdrawal_expired_day = 7, bp_bridge_compatible = None, bp_native_token = ''ETH''\<rparr>,
     be_time = int_str, be_float = JInt, be_now = 0\<rparr>"

definition sample_l2_config :: l2_config where
  "sample_l2_config = \<lparr>l2_chain = ''optimism'', l2_rollup_type = ''op'', l2_da_type = [], plasma_api_endpoint = [],
     blob_scan_endpoint = []\<rparr>"

definition sample_deposit :: "int \<Rightarrow> int cell \<Rightarrow> int row" where
  "sample_deposit n token = [(''l1_block_number'', CInt n), (''amount'', CDecimal 7), (''_type'', CInt 1), (''l2_token_address'', token)]"

definition sample_state_batch :: "int \<Rightarrow> int \<Rightarrow> int \<Rightarrow> int row" where
  "sample_state_batch i a b = [(''batch_index'', CInt i), (''start_block_number'', CInt a), (''end_block_number'', CInt b),
     (''transaction_count'', CInt 3)]"

definition sample_l2_tables :: "int l2_tables" where
  "sample_l2_tables = \<lparr>op_state_batches = [sample_state_batch 1 1 5, sample_state_batch 2 6 9], arbitrum_state_batches = [],
     state_batches = [], zkevm_batches = [], linea_batches = [], arbitrum_transaction_batches = [], data_stores = [],
     data_store_tx_mapping = [], op_da_transactions = [], l1_to_l2_table = [sample_deposit 4 CNone, sample_deposit 5 (CBytes [1])],
     l2_to_l1_table = [], bridge_tokens_table = [],
     all_tokens = [[(''address'', CBytes [1]), (''name'', CText ''ETH''), (''symbol'', CText ''ETH''), (''decimals'', CDecimal 18)]]\<rparr>"

definition sample_bridge_args :: bridge_args where
  "sample_bridge_args = \<lparr>ba_page = None, ba_size = None, ba_address = None, ba_kind = Some ''1'', ba_token = None\<rparr>"

definition sample_query :: bridge_query where
  "sample_query = \<lparr>q_kind = Some 1, q_address = None, q_token = None\<rparr>"

lemma sample_request: "bridge_query_of Deposit sample_bridge_args = Inr sample_query"
  by code_simp

lemma sample_rows: "bridge_page_rows sample_l2_config sample_l2_tables Deposit sample_query 25 0 =
    map (project (BRIDGE_COLUMNS Deposit)) [sample_deposit 5 (CBytes [1]), sample_deposit 4 CNone]"
  by code_simp

lemma sample_parsed: "\<exists>j. parse_bridge_row sample_bridge_env sample_l2_tables Deposit (project (BRIDGE_COLUMNS Deposit) (sample_deposit n c)) = Inr j"
  if "c = CNone \<or> c = CBytes [1]"
  using that
  by (auto simp: parse_bridge_row_def sample_bridge_env_def parse_bridge_l1_to_l2_transaction_def parse_bedrock_bridge_l1_to_l2_transaction_def
      with_tokens_def format_bedrock_token_info_def given_def token_info_of_def sample_l2_tables_def project_def TOKEN_COLUMNS_def cell_of_def
      json_of_row_def dict_get_def decimals_or_18_def amount_value_def get_int_def sample_deposit_def BRIDGE_COLUMNS_def)

lemma sample_answer:
  "\<exists>data. explorer_bridge_transactions sample_ext sample_l2_config sample_bridge_env sample_l2_tables Deposit sample_bridge_args
     = Inr (Page data 2 2 1 25)"
proof -
  obtain j k where "parse_bridge_row sample_bridge_env sample_l2_tables Deposit (project (BRIDGE_COLUMNS Deposit) (sample_deposit 5 (CBytes [1]))) = Inr j"
    "parse_bridge_row sample_bridge_env sample_l2_tables Deposit (project (BRIDGE_COLUMNS Deposit) (sample_deposit 4 CNone)) = Inr k"
    using sample_parsed by metis
  moreover have "bridge_count sample_l2_config sample_l2_tables Deposit sample_query = 2" by code_simp
  ultimately show ?thesis
    using sample_request sample_rows
    by (simp add: explorer_bridge_transactions_def sample_bridge_args_def int_arg_def arg_given_def MAX_INTERNAL_TRANSACTION_def
        bridge_total_def)
qed

theorem bridge_list_needs_filter_witness:
  "\<exists>data. explorer_bridge_transactions sample_ext sample_l2_config sample_bridge_env sample_l2_tables Deposit sample_bridge_args
     = Inr (Page data 2 2 1 25) \<and> length data = 2"
proof -
  obtain data where d: "explorer_bridge_transactions sample_ext sample_l2_config sample_bridge_env sample_l2_tables Deposit
      sample_bridge_args = Inr (Page data 2 2 1 25)" using sample_answer by blast
  from bridge_list_needs_filter [OF d] d show ?thesis by (auto simp: sample_request sample_rows)
qed



text \<open>The status filter of a ZkEVM list is not the status that is shown: \<open>1\<close> also selects verified batches.\<close>

lemma status_filter_shows:
  "status_filter (Some 0) b \<longleftrightarrow> zkevm_status b = 0"
  "status_filter (Some 1) b \<longleftrightarrow> zkevm_status b \<in> {1, 2}"
  "zkevm_status b = 2 \<Longrightarrow> status_filter (Some 2) b"
  by (auto simp: status_filter_def zkevm_status_def split: if_splits)

text \<open>The latest batch is only known for Linea.\<close>

lemma latest_batch_lost:
  assumes "l2_chain cfg \<noteq> ''linea''"
  shows "get_latest_batch_index cfg db = None"
  using assms by (simp add: get_latest_batch_index_def)

end
