(* ===== verification/Verification.thy ===== *)
theory Verification
  imports Rollups
begin

text \<open>
  The client of the contract verification service (\<open>api/app/contract/contract_verify.py\<close>) and the reads of the
  node (\<open>api/app/web3_utils.py\<close>). HTTP, the node and the SHA-256 hash are parameters; the table of contracts is
  the answer of the database to a primary key, which may raise.
\<close>

section \<open>The node\<close>

record web3_node =
  wn_is_address :: "string \<Rightarrow> bool"
  wn_checksum :: "string \<Rightarrow> string res"
  wn_balance :: "string \<Rightarrow> int res"
  wn_code :: "string \<Rightarrow> string res"
  wn_gas_price :: "int res"
  wn_storage :: "string \<Rightarrow> string \<Rightarrow> byte list res"
  wn_chain_id :: "int res"

definition or_else :: "'a res \<Rightarrow> 'a \<Rightarrow> 'a" where
  "or_else m d = (case m of Inl _ \<Rightarrow> d | Inr x \<Rightarrow> x)"

definition get_balance :: "web3_node \<Rightarrow> string \<Rightarrow> int" where
  "get_balance n address =
     (if \<not> wn_is_address n address then 0 else or_else (rbind (wn_checksum n address) (wn_balance n)) 0)"

definition get_code :: "web3_node \<Rightarrow> string \<Rightarrow> string option" where
  "get_code n address =
     (if \<not> wn_is_address n address then None
      else or_else (rbind (wn_checksum n address) (\<lambda>a. rbind (wn_code n a) (\<lambda>c. Inr (Some c)))) None)"

definition get_gas_price :: "web3_node \<Rightarrow> int" where
  "get_gas_price n = or_else (wn_gas_price n) 0"

text \<open>The module does not import the name \<open>abi\<close>: the last step raises, and the exception is printed.\<close>

definition get_storage_at :: "web3_node \<Rightarrow> string \<Rightarrow> string \<Rightarrow> string option" where
  "get_storage_at n contract_address location =
     or_else (rbind (wn_checksum n contract_address) (\<lambda>a. rbind (wn_storage n a location) (\<lambda>_.
       Inl (OtherException ''NameError: abi'')))) None"

section \<open>The service\<close>

datatype http_request = HttpGet string | HttpJson string json | HttpForm string jdict "(string \<times> json) list"

record http_response =
  hr_status :: int
  hr_text :: string
  hr_json :: "json res"

record service =
  sv_host :: string
  sv_chain_id :: int
  sv_http :: "http_request \<Rightarrow> http_response res"
  sv_error_text :: "exc \<Rightarrow> string"

definition service_host :: "string option \<Rightarrow> string" where
  "service_host contract_service = (case contract_service of None \<Rightarrow> [] | Some h \<Rightarrow> h)"

definition initial_chain_id :: "int option \<Rightarrow> web3_node \<Rightarrow> int res" where
  "initial_chain_id config_chain_id n = (case config_chain_id of Some c \<Rightarrow> Inr c | None \<Rightarrow> wn_chain_id n)"

definition service_valid :: "service \<Rightarrow> bool" where
  "service_valid s \<longleftrightarrow> sv_host s \<noteq> []"

definition mock_response :: "string \<Rightarrow> int \<Rightarrow> http_response" where
  "mock_response t status = \<lparr>hr_status = status, hr_text = t, hr_json = Inl AttributeError\<rparr>"

definition get_sha256_hash :: "(string \<Rightarrow> string) \<Rightarrow> string option \<Rightarrow> string res" where
  "get_sha256_hash sha256 t = (case t of None \<Rightarrow> Inl AttributeError | Some t \<Rightarrow> Inr (sha256 t))"

text \<open>\<open>response.json()\<close> of a response with status 200, else the default.\<close>

definition json_or :: "json \<Rightarrow> http_response res \<Rightarrow> json" where
  "json_or d r = or_else (rbind r (\<lambda>r. if hr_status r = 200 then hr_json r else Inr d)) d"

definition get_json_response :: "service \<Rightarrow> string \<Rightarrow> json" where
  "get_json_response s endpoint =
     (if \<not> service_valid s then JList [] else json_or (JList []) (sv_http s (HttpGet (sv_host s @ endpoint))))"

definition verify_path :: "string \<Rightarrow> string" where
  "verify_path t = ''/v1/contract_verify/'' @ t"

definition get_solidity_version :: "service \<Rightarrow> json" where
  "get_solidity_version s = get_json_response s (verify_path ''solidity_versions'')"

definition get_vyper_version :: "service \<Rightarrow> json" where
  "get_vyper_version s = get_json_response s (verify_path ''vyper_versions'')"

definition get_evm_versions :: "service \<Rightarrow> json" where
  "get_evm_versions s = get_json_response s (verify_path ''evm_versions'')"

definition get_explorer_license_type :: "service \<Rightarrow> json" where
  "get_explorer_license_type s = get_json_response s (verify_path ''license_types'')"

definition of_chain :: "service \<Rightarrow> string \<Rightarrow> string" where
  "of_chain s t = int_str (sv_chain_id s) @ ''/'' @ t"

definition get_contract_code_by_address :: "service \<Rightarrow> string \<Rightarrow> json" where
  "get_contract_code_by_address s address = get_json_response s (verify_path (of_chain s address @ ''/code''))"

definition get_similar_addresses :: "service \<Rightarrow> string \<Rightarrow> json" where
  "get_similar_addresses s deployed_code_hash = get_json_response s (verify_path (''similar_address/'' @ of_chain s deployed_code_hash))"

definition get_abi_by_chain_id_address :: "service \<Rightarrow> string \<Rightarrow> json" where
  "get_abi_by_chain_id_address s address = get_json_response s (verify_path (''contract_abi/'' @ of_chain s address))"

definition get_contract_verification_abi_by_address :: "service \<Rightarrow> string \<Rightarrow> json" where
  "get_contract_verification_abi_by_address s address =
     get_json_response s (verify_path (''contract_verification_abi/'' @ of_chain s address))"

definition get_check_verified_status :: "service \<Rightarrow> string \<Rightarrow> json" where
  "get_check_verified_status s guid = get_json_response s (verify_path (''get_verified_status/'' @ of_chain s guid))"

definition get_contract_verification_history_by_address :: "service \<Rightarrow> string \<Rightarrow> json" where
  "get_contract_verification_history_by_address s address =
     get_json_response s (verify_path (''get_verification_history/'' @ of_chain s address))"

section \<open>Verification\<close>

definition validate_input :: "string option \<Rightarrow> string option \<Rightarrow> string option \<Rightarrow> unit res" where
  "validate_input address compiler_type compiler_version =
     (if \<not> arg_given address \<or> \<not> arg_given compiler_type \<or> \<not> arg_given compiler_version
      then Inl (api_error ''Missing base required data'') else Inr ())"

text \<open>\<open>contracts\<close> answers a key of the table of contracts.\<close>

type_synonym 'f contract_lookup = "'f cell \<Rightarrow> 'f row option res"

definition CONTRACT_COLUMNS :: "string list" where
  "CONTRACT_COLUMNS = [''address'', ''name'', ''contract_creator'', ''creation_code'', ''deployed_code'', ''block_number'',
     ''block_hash'', ''block_timestamp'', ''transaction_index'', ''transaction_hash'', ''transaction_from_address'',
     ''official_website'', ''description'', ''email'', ''social_list'', ''is_verified'', ''is_proxy'',
     ''implementation_contract'', ''verified_implementation_contract'', ''proxy_standard'', ''create_time'',
     ''update_time'', ''reorg'']"

definition contract_at :: "'f contract_lookup \<Rightarrow> 'f cell \<Rightarrow> 'f row res" where
  "contract_at contracts address = rbind (contracts address) (batch_or_error ''The address is not a contract'')"

definition check_contract_verification_status :: "'f floats \<Rightarrow> 'f row \<Rightarrow> unit res" where
  "check_contract_verification_status fl contract =
     rbind (attribute contract ''is_verified'') (\<lambda>v.
       if truthy_cell fl v then Inl (api_error ''This contract is already verified'') else Inr ())"

definition hex_if_given :: "'f cell \<Rightarrow> string option" where
  "hex_if_given c = (case c of CBytes b \<Rightarrow> if b = [] then None else Some (bytes_to_hex_str b) | _ \<Rightarrow> None)"

text \<open>A contract without creation code is asked for its \<open>bytecode\<close>, which is not a column.\<close>

definition get_creation_or_deployed_code ::
    "('f cell \<Rightarrow> string option) \<Rightarrow> 'f row \<Rightarrow> ('f cell \<times> string option) res" where
  "get_creation_or_deployed_code code_at contract =
     rbind (attribute contract ''creation_code'') (\<lambda>c. rbind (attribute contract ''deployed_code'') (\<lambda>d.
     rbind (case hex_if_given c of Some t \<Rightarrow> Inr (CText t) | None \<Rightarrow> attribute contract ''bytecode'') (\<lambda>creation_code.
     rbind (case hex_if_given d of
              Some t \<Rightarrow> Inr (Some t)
            | None \<Rightarrow> rbind (attribute contract ''address'') (\<lambda>a. Inr (code_at a))) (\<lambda>deployed_code.
       Inr (creation_code, deployed_code)))))"

definition no_service :: "http_response" where
  "no_service = mock_response ''No valid verify service is set'' 400"

definition response_or_mock :: "service \<Rightarrow> http_request \<Rightarrow> http_response" where
  "response_or_mock s r = (case sv_http s r of Inl e \<Rightarrow> mock_response (sv_error_text s e) 400 | Inr x \<Rightarrow> x)"

definition send_sync_verification_request ::
    "service \<Rightarrow> jdict \<Rightarrow> (string \<times> json) list \<Rightarrow> jdict \<times> http_response" where
  "send_sync_verification_request s payload file_list =
     (if \<not> service_valid s then (payload, no_service)
      else let payload = AList.update ''chain_id'' (JInt (sv_chain_id s)) payload
           in (payload, response_or_mock s (HttpForm (sv_host s @ verify_path ''sync_verify'') payload file_list)))"

definition send_async_verification_request :: "service \<Rightarrow> jdict \<Rightarrow> (jdict \<times> http_response) res" where
  "send_async_verification_request s payload =
     (if \<not> service_valid s then Inr (payload, no_service)
      else let payload = AList.update ''chain_id'' (JInt (sv_chain_id s)) payload;
               sent = (\<lambda>(payload, files).
                 (payload, response_or_mock s (HttpForm (sv_host s @ verify_path ''async_verify'') payload files)))
           in rbind (dict_get payload ''compiler_type'') (\<lambda>compiler_type.
              if compiler_type = JStr ''solidity-standard-json-input''
              then let payload = AList.update ''compiler_type'' (JStr ''Solidity (Standard-Json-Input)'') payload
                   in rbind (get_str payload ''address'') (\<lambda>a. rbind (dict_get payload ''input_str'') (\<lambda>i.
                      Inr (sent (payload, [(a @ ''.json'', i)]))))
              else if compiler_type = JStr ''solidity-single-file''
              then Inr (sent (AList.update ''compiler_type'' (JStr ''Solidity (Single file)'') payload, []))
              else Inr (sent (payload, []))))"

section \<open>The command interface\<close>

definition answer :: "string \<Rightarrow> string \<Rightarrow> jdict" where
  "answer message status = [(''message'', JStr message), (''status'', JStr status)]"

fun json_get :: "json \<Rightarrow> string \<Rightarrow> json res" where
  "json_get (JDict d) k = Inr (jget d k)"
| "json_get _ k = Inl AttributeError"

fun json_item :: "json \<Rightarrow> string \<Rightarrow> json res" where
  "json_item (JDict d) k = dict_get d k"
| "json_item _ k = Inl TypeError"

definition abi_command :: "service \<Rightarrow> string option \<Rightarrow> jdict res" where
  "abi_command s address =
     (if \<not> arg_given address then Inr (answer ''the address is must input'' ''0'')
      else let contracts = get_contract_verification_abi_by_address s (str_lower (the address))
           in if \<not> truthy contracts then Inr (answer ''Contract source code not verified'' ''0'')
              else rbind (json_get contracts ''abi'') (\<lambda>a. Inr (answer ''OK'' ''1'' @ [(''result'', a)])))"

definition status_command :: "service \<Rightarrow> string option \<Rightarrow> jdict res" where
  "status_command s guid =
     (if \<not> arg_given guid then Inr (answer ''the guid is must input'' ''0'')
      else let history = get_check_verified_status s (the guid)
           in if \<not> truthy history then Inr (answer ''the guid is error'' ''0'')
              else rbind (json_item history ''status'') (\<lambda>status.
                if status = JStr ''SUCCESS'' then Inr (answer ''OK'' ''1'' @ [(''result'', JStr ''Pass - Verified'')])
                else if status = JStr ''FAILED'' then Inr (answer ''NOK'' ''0'' @ [(''result'', JStr ''Fail - Unable to verify'')])
                else Inr (answer ''NOK'' ''0'' @ [(''result'', JStr ''Unknown UID'')])))"

definition command_normal_contract_data ::
    "service \<Rightarrow> string option \<Rightarrow> string option \<Rightarrow> string option \<Rightarrow> string option \<Rightarrow> jdict res" where
  "command_normal_contract_data s module_name action address guid =
     (if \<not> service_valid s then Inr (answer ''No valid verify service is set'' ''0'')
      else if module_name \<noteq> Some ''contract'' then Inr (answer ''The parameter is error'' ''0'')
      else if action = Some ''getabi'' then abi_command s address
      else if action = Some ''checkverifystatus'' then status_command s guid
      else Inr (answer ''the action is error'' ''0''))"

section \<open>Names and ABIs\<close>

definition get_contract_names :: "service \<Rightarrow> string list \<Rightarrow> json" where
  "get_contract_names s address_list =
     (if \<not> service_valid s then JList []
      else json_or (JList []) (sv_http s (HttpJson (sv_host s @ verify_path ''get_contract_name'')
        (JDict [(''chain_id'', JInt (sv_chain_id s)), (''address_list'', JList (map JStr address_list))]))))"

definition method_url :: "service \<Rightarrow> string" where
  "method_url s = sv_host s @ verify_path ''method''"

definition get_names_from_method_or_topic_list :: "service \<Rightarrow> string list \<Rightarrow> json" where
  "get_names_from_method_or_topic_list s method_list =
     (if \<not> service_valid s then JList []
      else json_or (JList []) (sv_http s (HttpJson (method_url s)
        (JDict [(''request_type'', JInt 0), (''method_list'', JList (map JStr method_list))]))))"

definition IMPLEMENTATION_SLOTS :: "string list" where
  "IMPLEMENTATION_SLOTS =
     [''0x360894a13ba1a3210667c828492db98dca3e2076cc3735a920a3ca505d382bbc'',
      ''0x7050c9e0f4ca769c69bd3a8ef740bc37934f8e2c036e5a723fd8ee048ed3f8c3'',
      ''0xc5f16f0fcc639fa48a6947836d9850f504798523bf8c9a3a87d5876cf622bcf7'',
      ''0x5f3b5dfeb7b28cdbd7faba78963ee202a494e2a2cc8c9978d5e30d2aebb8c197'']"

definition ZERO_ADDRESS_TEXT :: string where
  "ZERO_ADDRESS_TEXT = ''0x'' @ replicate 40 (CHR ''0'')"

definition get_implementation_contract :: "web3_node \<Rightarrow> string \<Rightarrow> string option" where
  "get_implementation_contract n address =
     fold (\<lambda>code implementation_address. let contract_address = get_storage_at n address code in
         if arg_given contract_address \<and> contract_address \<noteq> Some ZERO_ADDRESS_TEXT then contract_address else implementation_address)
       IMPLEMENTATION_SLOTS None"

text \<open>An entry of the request: whether the contract is a proxy, the number of indexed values, the address, one or two
  hashes of code and the selector.\<close>

type_synonym 'f abi_request = "bool \<times> nat \<times> 'f cell \<times> 'f cell list \<times> 'f cell"

text \<open>One address; the implementation that is found is stored with the contract.\<close>

definition abi_request_of :: "web3_node \<Rightarrow> 'f floats \<Rightarrow> 'f cell \<times> 'f cell \<times> nat \<Rightarrow> 'f contract_lookup
    \<Rightarrow> ('f abi_request list \<times> 'f contract_lookup) res" where
  "abi_request_of n fl = (\<lambda>(address, signed_prefix, indexed) contracts.
     rbind (contracts address) (\<lambda>found. case found of
       None \<Rightarrow> Inr ([], contracts)
     | Some contract \<Rightarrow>
         rbind (attribute contract ''deployed_code_hash'') (\<lambda>code_hash.
         rbind (attribute contract ''is_proxy'') (\<lambda>is_proxy.
         if \<not> truthy_cell fl is_proxy then Inr ([(False, indexed, address, [code_hash], signed_prefix)], contracts)
         else rbind (attribute contract ''implementation_contract'') (\<lambda>stored.
           rbind (if truthy_cell fl stored then Inr (stored, contracts)
                  else rbind (cell_text address) (\<lambda>a.
                    let i = (case get_implementation_contract n a of None \<Rightarrow> CNone | Some t \<Rightarrow> CText t)
                    in Inr (i, contracts(address := Inr (Some (AList.update ''implementation_contract'' i contract))))))
             (\<lambda>(implementation, contracts).
           rbind (contracts implementation) (\<lambda>found. case found of
             None \<Rightarrow> Inr ([(False, indexed, address, [code_hash], signed_prefix)], contracts)
           | Some target \<Rightarrow> rbind (attribute target ''deployed_code_hash'') (\<lambda>target_hash.
               Inr ([(True, indexed, address, [code_hash, target_hash], signed_prefix)], contracts)))))))))"

fun abi_requests :: "web3_node \<Rightarrow> 'f floats \<Rightarrow> ('f cell \<times> 'f cell \<times> nat) list \<Rightarrow> 'f contract_lookup
    \<Rightarrow> ('f abi_request list \<times> 'f contract_lookup) res" where
  "abi_requests n fl [] contracts = Inr ([], contracts)"
| "abi_requests n fl (a # as) contracts =
     rbind (abi_request_of n fl a contracts) (\<lambda>(rs, contracts).
     rbind (abi_requests n fl as contracts) (\<lambda>(rest, contracts). Inr (rs @ rest, contracts)))"

text \<open>\<open>send\<close> posts the request; its entries are triples of an address, a selector and an ABI.\<close>

fun abi_entry :: "json \<Rightarrow> ((json \<times> json) \<times> json) res" where
  "abi_entry (JList [a, t, m]) = (case (a, t) of
     (JList _, _) \<Rightarrow> Inl TypeError | (JDict _, _) \<Rightarrow> Inl TypeError | (_, JList _) \<Rightarrow> Inl TypeError | (_, JDict _) \<Rightarrow> Inl TypeError
   | _ \<Rightarrow> Inr ((a, t), m))"
| "abi_entry (JList _) = Inl (ValueError ''unpack'')"
| "abi_entry _ = Inl TypeError"

definition abi_answer :: "http_response res \<Rightarrow> ((json \<times> json) \<times> json) list" where
  "abi_answer r = or_else (rbind r (\<lambda>r. if hr_status r \<noteq> 200 then Inr []
       else rbind (rbind (hr_json r) as_list) (\<lambda>es. rbind (rmap abi_entry es) (\<lambda>kvs.
         Inr (fold (\<lambda>(k, v). AList.update k v) kvs []))))) []"

definition get_abis_by_address_signed_prefix ::
    "web3_node \<Rightarrow> 'f floats \<Rightarrow> ('f abi_request list \<Rightarrow> http_response res) \<Rightarrow> 'f contract_lookup
     \<Rightarrow> ('f cell \<times> 'f cell \<times> nat) list \<Rightarrow> ((json \<times> json) \<times> json) list res" where
  "get_abis_by_address_signed_prefix n fl send contracts prefixes =
     rbind (abi_requests n fl prefixes contracts) (\<lambda>(rs, _). Inr (abi_answer (send rs)))"

definition get_abis_for_logs ::
    "service \<Rightarrow> web3_node \<Rightarrow> 'f floats \<Rightarrow> ('f abi_request list \<Rightarrow> http_response res) \<Rightarrow> 'f contract_lookup
     \<Rightarrow> ('f cell \<times> 'f cell \<times> nat) list \<Rightarrow> ((json \<times> json) \<times> json) list res" where
  "get_abis_for_logs s n fl send contracts prefixes =
     (if \<not> service_valid s then Inr [] else get_abis_by_address_signed_prefix n fl send contracts prefixes)"

definition get_abis_for_method ::
    "service \<Rightarrow> web3_node \<Rightarrow> 'f floats \<Rightarrow> ('f abi_request list \<Rightarrow> http_response res) \<Rightarrow> 'f contract_lookup
     \<Rightarrow> ('f cell \<times> 'f cell) list \<Rightarrow> ((json \<times> json) \<times> json) list res" where
  "get_abis_for_method s n fl send contracts prefixes =
     (if \<not> service_valid s then Inr []
      else get_abis_by_address_signed_prefix n fl send contracts (map (\<lambda>(a, p). (a, p, 0)) prefixes))"

section \<open>What is never found\<close>

lemma storage_never_read: "get_storage_at n a l = None"
  by (cases "wn_checksum n a"; simp add: get_storage_at_def or_else_def rbind_def split: sum.split)

text \<open>The implementation of a proxy is only known where it is stored with the contract.\<close>

lemma implementation_never_found: "get_implementation_contract n a = None"
  by (simp add: get_implementation_contract_def IMPLEMENTATION_SLOTS_def storage_never_read arg_given_def)

definition contract_table :: "'f contract_lookup \<Rightarrow> bool" where
  "contract_table contracts \<longleftrightarrow> (\<forall>k r. contracts k = Inr (Some r) \<longrightarrow> map fst r = CONTRACT_COLUMNS)"

lemma no_such_column:
  assumes "contract_table contracts" and "contracts a = Inr (Some r)" and "k \<notin> set CONTRACT_COLUMNS"
  shows "attribute r k = Inl AttributeError"
proof -
  have "map_of r k = None"
    using assms by (metis contract_table_def map_of_eq_None_iff list.set_map)
  then show ?thesis by (simp add: attribute_def)
qed

lemma abi_request_of_known:
  assumes "contract_table contracts" and "contracts address = Inr (Some r)"
  shows "abi_request_of n fl (address, p, i) contracts = Inl AttributeError"
  using assms no_such_column [OF assms, of "''deployed_code_hash''"]
  by (simp add: abi_request_of_def CONTRACT_COLUMNS_def)

lemma abi_requests_unknown:
  assumes "contract_table contracts" and "abi_requests n fl ps contracts = Inr (rs, c')"
  shows "rs = [] \<and> c' = contracts \<and> (\<forall>(a, _) \<in> set ps. contracts a = Inr None)"
  using assms(2)
proof (induction ps arbitrary: rs c')
  case (Cons x ps)
  obtain a p i where x: "x = (a, p, i)" by (cases x)
  from Cons.prems obtain r1 c1 r2 where s: "abi_request_of n fl (a, p, i) contracts = Inr (r1, c1)"
    "abi_requests n fl ps c1 = Inr (r2, c')" "rs = r1 @ r2" by (auto simp: x rbind_Inr_iff)
  have u: "contracts a = Inr None"
  proof (cases "contracts a")
    case (Inl e)
    with s(1) show ?thesis by (simp add: abi_request_of_def)
  next
    case (Inr found)
    with s(1) abi_request_of_known [OF assms(1), of a] show ?thesis by (cases found) auto
  qed
  with s(1) have "r1 = []" "c1 = contracts" by (simp_all add: abi_request_of_def)
  with Cons.IH [of r2 c'] s u show ?case by (simp add: x)
qed simp

text \<open>C38: the table of contracts has no column for the hash of the deployed code, so with a verification service ABIs are
  only asked for where no address is a known contract, and the request is empty.\<close>

theorem abis_only_of_unknown:
  assumes "service_valid s" and "contract_table contracts"
    and "get_abis_for_method s n fl send contracts prefixes = Inr m"
  shows "m = abi_answer (send []) \<and> (\<forall>(a, _) \<in> set prefixes. contracts a = Inr None)"
proof -
  from assms obtain rs c' where r: "abi_requests n fl (map (\<lambda>(a, p). (a, p, 0)) prefixes) contracts = Inr (rs, c')"
    "m = abi_answer (send rs)"
    by (auto simp: get_abis_for_method_def get_abis_by_address_signed_prefix_def rbind_Inr_iff)
  from abi_requests_unknown [OF assms(2) r(1)] r(2) show ?thesis by force
qed

lemma creation_code_needed:
  assumes "contract_table contracts" and "contracts a = Inr (Some r)" and "hex_if_given (cell_of r ''creation_code'') = None"
  shows "get_creation_or_deployed_code f r = Inl AttributeError"
proof -
  have "attribute r ''bytecode'' = Inl AttributeError"
    by (rule no_such_column [OF assms(1,2)]) (simp add: CONTRACT_COLUMNS_def)
  moreover have "attribute r ''creation_code'' = Inl AttributeError \<or> attribute r ''creation_code'' = Inr (cell_of r ''creation_code'')"
    by (auto simp: attribute_def cell_of_def split: option.split)
  moreover have "attribute r ''deployed_code'' = Inl AttributeError \<or> attribute r ''deployed_code'' = Inr (cell_of r ''deployed_code'')"
    by (auto simp: attribute_def cell_of_def split: option.split)
  ultimately show ?thesis using assms(3) by (auto simp: get_creation_or_deployed_code_def)
qed

section \<open>The command interface answers success only for what the service confirms\<close>

text \<open>A command is answered with status 1 exactly if a service is set and either an ABI is asked for and the
  service has one for the lower-case address, or the state of a verification is asked for and it is a success.\<close>

lemma command_success:
  assumes "command_normal_contract_data s module_name action address guid = Inr r"
  shows "jget r ''status'' = JStr ''1'' \<longleftrightarrow> service_valid s \<and> module_name = Some ''contract'' \<and>
    (action = Some ''getabi'' \<and> arg_given address \<and>
       truthy (get_contract_verification_abi_by_address s (str_lower (the address))) \<or>
     action = Some ''checkverifystatus'' \<and> arg_given guid \<and>
       (\<exists>d. get_check_verified_status s (the guid) = JDict d \<and> jget d ''status'' = JStr ''SUCCESS''))"
proof -
  have a: "jget (answer t c @ xs) ''status'' = JStr c" for t c xs by (simp add: jget_def answer_def)
  have a0: "jget (answer t c) ''status'' = JStr c" for t c by (simp add: jget_def answer_def)
  have jg: "jget d k = v" if "map_of d k = Some v" for d k v using that by (simp add: jget_def)
  have j0: "jget [] k = JNull" for k by (simp add: jget_def)
  have abi: "jget r ''status'' = JStr ''1'' \<longleftrightarrow> arg_given address \<and>
      truthy (get_contract_verification_abi_by_address s (str_lower (the address)))" if "abi_command s address = Inr r"
    using that by (auto simp: abi_command_def Let_def rbind_Inr_iff a a0 split: if_splits)
  have status: "jget r ''status'' = JStr ''1'' \<longleftrightarrow> arg_given guid \<and>
      (\<exists>d. get_check_verified_status s (the guid) = JDict d \<and> jget d ''status'' = JStr ''SUCCESS'')"
    if "status_command s guid = Inr r"
    using that by (cases "get_check_verified_status s (the guid)")
      (auto simp: status_command_def Let_def rbind_Inr_iff a a0 jg j0 split: if_splits)
  show ?thesis
    using assms abi status by (auto simp: command_normal_contract_data_def a0 split: if_splits)
qed

section \<open>Samples\<close>

definition sample_service :: service where
  "sample_service = \<lparr>sv_host = ''http://v'', sv_chain_id = 1,
     sv_http = (\<lambda>_. Inr \<lparr>hr_status = 200, hr_text = [], hr_json = Inr (JDict [(''status'', JStr ''SUCCESS'')])\<rparr>),
     sv_error_text = (\<lambda>_. [])\<rparr>"

definition sample_node :: web3_node where
  "sample_node = \<lparr>wn_is_address = (\<lambda>_. True), wn_checksum = Inr, wn_balance = (\<lambda>_. Inr 5), wn_code = (\<lambda>_. Inr ''0x60''),
     wn_gas_price = Inr 1, wn_storage = (\<lambda>_ _. Inr (replicate 32 1)), wn_chain_id = Inr 1\<rparr>"

definition sample_contracts :: "int contract_lookup" where
  "sample_contracts c = Inr (if c = CBytes [2] then Some (map (\<lambda>k. (k, CNone)) CONTRACT_COLUMNS) else None)"

theorem abis_only_of_unknown_witness:
  "get_abis_for_method sample_service sample_node sample_floats (\<lambda>_. Inl TypeError) sample_contracts [(CBytes [3], CNone)] = Inr [] \<and>
   (\<nexists>m. get_abis_for_method sample_service sample_node sample_floats (\<lambda>_. Inl TypeError) sample_contracts [(CBytes [2], CNone)] = Inr m)"
proof -
  have v: "service_valid sample_service" by (simp add: service_valid_def sample_service_def)
  have t: "contract_table sample_contracts" by (auto simp: contract_table_def sample_contracts_def comp_def split: if_splits)
  have "\<nexists>m. get_abis_for_method sample_service sample_node sample_floats (\<lambda>_. Inl TypeError) sample_contracts [(CBytes [2], CNone)] = Inr m"
    using abis_only_of_unknown [OF v t] by (force simp: sample_contracts_def)
  moreover have "get_abis_for_method sample_service sample_node sample_floats (\<lambda>_. Inl TypeError) sample_contracts [(CBytes [3], CNone)] = Inr []"
    by code_simp
  ultimately show ?thesis by blast
qed

theorem command_success_witness:
  "\<exists>r. command_normal_contract_data sample_service (Some ''contract'') (Some ''checkverifystatus'') None (Some ''7'') = Inr r \<and>
     jget r ''status'' = JStr ''1''"
proof -
  have h: "get_check_verified_status sample_service (the (Some ''7'')) = JDict [(''status'', JStr ''SUCCESS'')]" by code_simp
  have "\<exists>r. command_normal_contract_data sample_service (Some ''contract'') (Some ''checkverifystatus'') None (Some ''7'') = Inr r"
    using h by (simp add: command_normal_contract_data_def status_command_def service_valid_def sample_service_def arg_given_def dict_get_def)
  then obtain r where r: "command_normal_contract_data sample_service (Some ''contract'') (Some ''checkverifystatus'') None (Some ''7'') = Inr r"
    by blast
  from command_success [OF r] h r show ?thesis
    by (auto simp: service_valid_def sample_service_def arg_given_def jget_def)
qed

end
