(* ===== verification/Explorer.thy ===== *)
theory Explorer
  imports Verification
begin

text \<open>
  More routes of the explorer service (\<open>api/app/explorer/routes.py\<close>) with their queries
  (\<open>api/app/db_service\<close>): blocks, the detail of a transaction, tokens, token transfers, the tokens of an address
  and the profiles of addresses and tokens. Numbers with decimals are texts made by \<open>decimal_text\<close>, a parameter;
  tables are lists of rows.
\<close>

section \<open>Tables\<close>

record 'f explorer_db =
  ed_blocks :: "'f row list"
  ed_transactions :: "'f row list"
  ed_traces :: "'f row list"
  ed_internal :: "'f row list"
  ed_tokens :: "'f row list"
  ed_erc20 :: "'f row list"
  ed_erc721 :: "'f row list"
  ed_erc1155 :: "'f row list"
  ed_contracts :: "'f row list"
  ed_balances :: "'f row list"
  ed_current_balances :: "'f row list"
  ed_wallet_stats :: "'f row list"
  ed_wallet_until :: "int option"
  ed_token_until :: "int option"
  ed_estimates :: "string \<Rightarrow> int"

record 'f explorer_env =
  ee_floats :: "'f floats"
  ee_services :: services
  ee_chain :: string
  ee_decimal_text :: "nat \<Rightarrow> int \<Rightarrow> int \<Rightarrow> string"
  ee_round :: "nat \<Rightarrow> 'f cell \<Rightarrow> 'f cell"
  ee_scaled :: "int \<Rightarrow> int \<Rightarrow> 'f cell"

definition hex_column :: "'f row \<Rightarrow> string \<Rightarrow> 'f cell res" where
  "hex_column r k = rbind (attribute r k) (\<lambda>c. case c of CBytes b \<Rightarrow> Inr (CText (bytes_to_hex_str b)) | _ \<Rightarrow> Inl AttributeError)"

definition find_bytes :: "'f row list \<Rightarrow> string \<Rightarrow> byte list \<Rightarrow> 'f row option" where
  "find_bytes t k b = List.find (\<lambda>r. cell_of r k = CBytes b) t"

definition find_row_cell :: "'f row list \<Rightarrow> string \<Rightarrow> 'f cell \<Rightarrow> 'f row option" where
  "find_row_cell t k c = (if c = CNone then None else List.find (\<lambda>r. cell_of r k = c) t)"

definition path_bytes :: "string \<Rightarrow> byte list res" where
  "path_bytes s = bytes_fromhex (drop 2 s)"

section \<open>Blocks\<close>

definition get_last_block :: "'f row list \<Rightarrow> 'f row option" where
  "get_last_block blocks = first_row (descending ''number'' blocks)"

definition BLOCK_LIST_COLUMNS :: "string list" where
  "BLOCK_LIST_COLUMNS = [''hash'', ''number'', ''timestamp'', ''parent_hash'', ''gas_limit'', ''gas_used'', ''base_fee_per_gas'',
     ''miner'', ''transactions_count'', ''internal_transactions_count'']"

definition latest_number :: "'f row list \<Rightarrow> int" where
  "latest_number blocks = (case get_last_block blocks of None \<Rightarrow> 0 | Some b \<Rightarrow> cell_int (cell_of b ''number''))"

text \<open>Without a batch the page is a range of block numbers, counted down from the latest block.\<close>

definition block_range :: "int \<Rightarrow> int \<Rightarrow> int \<Rightarrow> int \<times> int" where
  "block_range latest page psize =
     (let end_block = latest - (page - 1) * psize in (max 0 (end_block - psize + 1), end_block))"

definition numbered_between :: "int \<times> int \<Rightarrow> 'f row \<Rightarrow> bool" where
  "numbered_between = (\<lambda>(a, b) r. case number_of r ''number'' of Some n \<Rightarrow> a \<le> n \<and> n \<le> b | None \<Rightarrow> False)"

text \<open>With a batch, which is not looked at, the rows are given to \<open>as_dict\<close>, which needs a model.\<close>

definition explorer_blocks :: "'f floats \<Rightarrow> 'f row list \<Rightarrow> string option \<Rightarrow> string option \<Rightarrow> string option \<Rightarrow> string option
    \<Rightarrow> 'f batch_page res" where
  "explorer_blocks fl blocks page psize state_batch batch =
     rbind (page_args page psize) (\<lambda>(p, s).
     if state_batch = None \<and> batch = None
     then Inr \<lparr>bt_data = map (row_to_dict fl \<circ> project BLOCK_LIST_COLUMNS)
                  (descending ''number'' (filter (numbered_between (block_range (latest_number blocks) p s)) blocks)),
               bt_total = CInt (latest_number blocks), bt_page = p, bt_size = s\<rparr>
     else case page_rows blocks ''number'' p s of
            [] \<Rightarrow> Inr \<lparr>bt_data = [], bt_total = CInt 0, bt_page = p, bt_size = s\<rparr>
          | _ \<Rightarrow> Inl AttributeError)"

definition seconds_of :: "'f row option \<Rightarrow> int res" where
  "seconds_of b = (case b of None \<Rightarrow> Inl AttributeError | Some r \<Rightarrow> (case number_of r ''timestamp'' of
     Some t \<Rightarrow> Inr t | None \<Rightarrow> Inl AttributeError))"

definition block_detail :: "'f floats \<Rightarrow> 'f row list \<Rightarrow> 'f row \<Rightarrow> 'f row res" where
  "block_detail fl blocks b =
     rbind (attribute b ''internal_transactions_count'') (\<lambda>c.
     rbind (case number_of b ''number'' of Some n \<Rightarrow> Inr n | None \<Rightarrow> Inl TypeError) (\<lambda>n.
     let earlier_block = find_row blocks ''number'' (max (n - 1) 1)
     in rbind (seconds_of (Some b)) (\<lambda>t. rbind (seconds_of earlier_block) (\<lambda>t0.
        Inr (set_cells [(''internal_transaction_count'', c), (''gas_fee_token_price'', CText (f_text fl 2 (get_token_price fl))),
          (''seconds_since_last_block'', CInt (t - t0)), (''is_last_block'', CBool (latest_number blocks = n))]
          (row_to_dict fl b))))))"

definition explorer_block :: "'f floats \<Rightarrow> 'f row list \<Rightarrow> string \<Rightarrow> 'f row res" where
  "explorer_block fl blocks number_or_hash =
     rbind (if number_or_hash \<noteq> [] \<and> list_all is_digit number_or_hash
            then rbind (parse_int number_or_hash) (\<lambda>n. Inr (find_row blocks ''number'' n))
            else rbind (path_bytes number_or_hash) (\<lambda>h. Inr (find_bytes blocks ''hash'' h))) (\<lambda>found.
     rbind (batch_or_error ''Cannot find block with block number or block hash'' found) (block_detail fl blocks))"

section \<open>Tokens\<close>

text \<open>\<open>order_by(nullslast(...))\<close>: an integer key, missing values at the end.\<close>

definition nulls_last :: "bool \<Rightarrow> string \<Rightarrow> 'f row \<Rightarrow> bool \<times> int" where
  "nulls_last ascending k r =
     (case number_of r k of None \<Rightarrow> (True, 0) | Some n \<Rightarrow> (False, if ascending then n else - n))"

definition ERC20_SORTS :: "string list" where
  "ERC20_SORTS = [''market_cap'', ''volume_24h'', ''holder_count'', ''price'', ''on_chain_market_cap'']"

definition NFT_SORTS :: "string list" where
  "NFT_SORTS = [''holder_count'', ''transfer_count'']"

definition or_default :: "string option \<Rightarrow> string \<Rightarrow> string" where
  "or_default a d = (case a of None \<Rightarrow> d | Some t \<Rightarrow> t)"

definition sort_args :: "string list \<Rightarrow> string \<Rightarrow> string option \<Rightarrow> string option \<Rightarrow> (string \<times> bool) res" where
  "sort_args allowed d sort_by order =
     (let s = or_default sort_by d; o' = or_default order ''desc''
      in if s \<notin> set allowed then Inl (api_error ''Invalid sort'')
         else if o' \<notin> {''asc'', ''desc''} then Inl (api_error ''Invalid order'')
         else Inr (s, o' = ''asc''))"

definition tokens_of_kind :: "'f row list \<Rightarrow> string \<Rightarrow> bool \<Rightarrow> 'f row list" where
  "tokens_of_kind tokens kind verified_only =
     filter (\<lambda>t. cell_of t ''token_type'' = CText kind \<and> (verified_only \<longrightarrow> cell_of t ''is_verified'' = CBool True)) tokens"

definition sorted_tokens :: "'f row list \<Rightarrow> string \<times> bool \<times> string \<times> bool \<Rightarrow> 'f row list" where
  "sorted_tokens tokens = (\<lambda>(kind, verified_only, k, ascending).
     sort_key (nulls_last ascending k) (tokens_of_kind tokens kind verified_only))"

definition token_page :: "'f row list \<Rightarrow> string \<times> bool \<times> string \<times> bool \<Rightarrow> nat \<Rightarrow> nat \<Rightarrow> 'f row list" where
  "token_page tokens q limit offset = take limit (drop offset (sorted_tokens tokens q))"

definition get_tokens_cnt :: "'f row list \<Rightarrow> string \<times> bool \<times> string \<times> bool \<Rightarrow> nat" where
  "get_tokens_cnt tokens = (\<lambda>(kind, verified_only, _). length (tokens_of_kind tokens kind verified_only))"

interpretation token_pages: paged_table "sorted_tokens tokens" "token_page tokens" "get_tokens_cnt tokens" for tokens
  by unfold_locales (auto simp: token_page_def get_tokens_cnt_def sorted_tokens_def)

definition rounded :: "'f explorer_env \<Rightarrow> nat \<Rightarrow> 'f row \<Rightarrow> string \<Rightarrow> string \<times> 'f cell" where
  "rounded e n t k = (k, if cell_of t k = CNone then CNone else ee_round e n (cell_of t k))"

definition erc20_entry :: "'f explorer_env \<Rightarrow> 'f row \<Rightarrow> 'f row res" where
  "erc20_entry e t =
     rbind (hex_column t ''address'') (\<lambda>a.
     rbind (case number_of t ''total_supply'' of
              None \<Rightarrow> Inr CNone
            | Some n \<Rightarrow> rbind (add_of t ''decimals'') (\<lambda>d. Inr (ee_scaled e n d))) (\<lambda>supply.
       Inr [(''address'', a), (''name'', cell_of t ''name''), (''symbol'', cell_of t ''symbol''), (''logo'', cell_of t ''icon_url''),
         (''description'', cell_of t ''description''), (''total_supply'', supply), rounded e 2 t ''volume_24h'',
         rounded e 2 t ''market_cap'', rounded e 2 t ''on_chain_market_cap'', (''holder_count'', cell_of t ''holder_count''),
         rounded e 4 t ''price'']))"

definition nft_entry :: "'f row \<Rightarrow> 'f row res" where
  "nft_entry t =
     rbind (hex_column t ''address'') (\<lambda>a.
       Inr [(''address'', a), (''name'', cell_of t ''name''), (''symbol'', cell_of t ''symbol''),
         (''total_supply'', case number_of t ''total_supply'' of None \<Rightarrow> CNone | Some n \<Rightarrow> CInt n),
         (''holder_count'', cell_of t ''holder_count''), (''transfer_count'', cell_of t ''transfer_count'')])"

record token_args =
  ta_page :: "string option"
  ta_size :: "string option"
  ta_kind :: "string option"
  ta_sort :: "string option"
  ta_order :: "string option"
  ta_verified :: "string option"

text \<open>The query of a request: kind of token, whether only verified ones, column and direction.\<close>

definition token_query :: "token_args \<Rightarrow> (string \<times> bool \<times> string \<times> bool) res" where
  "token_query a =
     (let is_verified = ta_verified a \<in> {Some ''True'', Some ''true'', Some ''TRUE''}
      in if ta_kind a = Some ''erc20''
         then rbind (sort_args ERC20_SORTS ''market_cap'' (ta_sort a) (ta_order a)) (\<lambda>(k, asc). Inr (''ERC20'', is_verified, k, asc))
         else if ta_kind a = Some ''erc721''
         then rbind (sort_args NFT_SORTS ''holder_count'' (ta_sort a) (ta_order a)) (\<lambda>(k, asc). Inr (''ERC721'', False, k, asc))
         else if ta_kind a = Some ''erc1155''
         then rbind (sort_args NFT_SORTS ''holder_count'' (ta_sort a) (ta_order a)) (\<lambda>(k, asc). Inr (''ERC1155'', False, k, asc))
         else Inl (api_error ''Invalid type''))"

definition explorer_tokens :: "'f explorer_env \<Rightarrow> 'f row list \<Rightarrow> token_args \<Rightarrow> 'f batch_page res" where
  "explorer_tokens e tokens a =
     rbind (page_args (ta_page a) (ta_size a)) (\<lambda>(p, s). rbind (token_query a) (\<lambda>q.
     rbind (rmap (if fst q = ''ERC20'' then erc20_entry e else nft_entry) (token_page tokens q (nat s) (nat ((p - 1) * s)))) (\<lambda>data.
       Inr \<lparr>bt_data = data, bt_total = CInt (int (get_tokens_cnt tokens q)), bt_page = p, bt_size = s\<rparr>)))"

section \<open>Token transfers\<close>

text \<open>\<open>token_transfer_type_table_dict\<close>, \<open>token_address_transfers_type_column_dict\<close>\<close>

definition transfer_table :: "'f explorer_db \<Rightarrow> string \<Rightarrow> 'f row list res" where
  "transfer_table db type =
     (case token_kind (Some type) of
        Some k \<Rightarrow> Inr (if k = ''ERC20'' then ed_erc20 db else if k = ''ERC721'' then ed_erc721 db else ed_erc1155 db)
      | None \<Rightarrow> Inl (KeyError type))"

definition stats_column :: "string \<Rightarrow> string res" where
  "stats_column type =
     (if type \<in> {''tokentxns'', ''erc20''} then Inr ''erc20_transfer_cnt''
      else if type \<in> {''tokentxns-nft'', ''erc721''} then Inr ''erc721_transfer_cnt''
      else if type \<in> {''tokentxns-nft1155'', ''erc1155''} then Inr ''erc1155_transfer_cnt'' else Inl (KeyError type))"

datatype transfer_condition = AnyTransfer | Touching "byte list" | OfToken "byte list"

fun transfer_holds :: "transfer_condition \<Rightarrow> 'f row \<Rightarrow> bool" where
  "transfer_holds AnyTransfer r = True"
| "transfer_holds (Touching a) r = (cell_of r ''from_address'' = CBytes a \<or> cell_of r ''to_address'' = CBytes a)"
| "transfer_holds (OfToken t) r = (cell_of r ''token_address'' = CBytes t)"

definition since :: "int option \<Rightarrow> 'f row \<Rightarrow> bool" where
  "since day r = (case day of None \<Rightarrow> True | Some d \<Rightarrow> (case number_of r ''block_timestamp'' of Some t \<Rightarrow> d \<le> t | None \<Rightarrow> False))"

definition count_or_0 :: "'f row option \<Rightarrow> string \<Rightarrow> int" where
  "count_or_0 r k = (case r of None \<Rightarrow> 0 | Some r \<Rightarrow> cell_int (cell_of r k))"

definition get_address_token_transfer_cnt :: "'f explorer_db \<Rightarrow> string \<Rightarrow> transfer_condition \<Rightarrow> byte list \<Rightarrow> int res" where
  "get_address_token_transfer_cnt db type c address =
     rbind (stats_column type) (\<lambda>column. rbind (transfer_table db type) (\<lambda>table.
       Inr (int (length (filter (\<lambda>r. since (ed_wallet_until db) r \<and> transfer_holds c r) table)) +
            count_or_0 (find_bytes (ed_wallet_stats db) ''address'' address) column)))"

definition get_token_address_token_transfer_cnt :: "'f explorer_db \<Rightarrow> string \<Rightarrow> string \<Rightarrow> int res" where
  "get_token_address_token_transfer_cnt db type address =
     rbind (path_bytes address) (\<lambda>b. rbind (transfer_table db type) (\<lambda>table.
       Inr (int (length (filter (\<lambda>r. since (ed_token_until db) r \<and> transfer_holds (OfToken b) r) table)) +
            count_or_0 (find_bytes (ed_tokens db) ''address'' b) ''transfer_count'')))"

definition newest_transfers :: "bool \<Rightarrow> 'f row list \<Rightarrow> 'f row list" where
  "newest_transfers with_token_id = sort_key (\<lambda>r. (- cell_int (cell_of r ''block_number''), - cell_int (cell_of r ''log_index''),
     if with_token_id then - cell_int (cell_of r ''token_id'') else 0))"

definition matching_transfers :: "'f explorer_db \<Rightarrow> string \<Rightarrow> transfer_condition \<Rightarrow> 'f row list" where
  "matching_transfers db type c =
     (case transfer_table db type of
        Inl _ \<Rightarrow> []
      | Inr table \<Rightarrow> newest_transfers (token_kind (Some type) = Some ''ERC1155'') (filter (transfer_holds c) table))"

definition get_raw_token_transfers :: "'f explorer_db \<Rightarrow> string \<Rightarrow> transfer_condition \<Rightarrow> int \<Rightarrow> int \<Rightarrow> 'f row list res" where
  "get_raw_token_transfers db type c page psize =
     (if token_kind (Some type) = None then Inl (api_error ''Invalid type'')
      else Inr (take (nat psize) (drop (nat ((page - 1) * psize)) (matching_transfers db type c))))"

definition text_in :: "'f cell \<Rightarrow> string option" where
  "text_in c = (case c of CText t \<Rightarrow> Some t | _ \<Rightarrow> None)"

definition token_view_of :: "'f row \<Rightarrow> token_view list" where
  "token_view_of t =
     (case (cell_of t ''address'', cell_of t ''token_type'') of
        (CBytes a, CText k) \<Rightarrow> [\<lparr>tv_address = a, tv_token_type = k, tv_symbol = text_in (cell_of t ''symbol''),
           tv_name = text_in (cell_of t ''name''), tv_icon_url = text_in (cell_of t ''icon_url''),
           tv_decimals = number_of t ''decimals''\<rparr>]
      | _ \<Rightarrow> [])"

definition shown_transfers :: "'f explorer_env \<Rightarrow> 'f explorer_db \<Rightarrow> 'f row list \<Rightarrow> string \<Rightarrow> 'f row list res" where
  "shown_transfers e db transfers type =
     parse_token_transfers (ee_floats e) (ee_services e) (ee_decimal_text e) (ee_chain e)
       (concat (map token_view_of (ed_tokens db))) transfers (Some type)"

definition MAX_TOKEN_TRANSFER :: int where "MAX_TOKEN_TRANSFER = 10000"

definition table_name :: "string \<Rightarrow> string res" where
  "table_name type =
     (case token_kind (Some type) of
        Some k \<Rightarrow> Inr (if k = ''ERC20'' then ''erc20_token_transfers'' else if k = ''ERC721'' then ''erc721_token_transfers''
                       else ''erc1155_token_transfers'')
      | None \<Rightarrow> Inl (KeyError type))"

text \<open>The condition of a list of transfers with its total: by address, by token, or neither, when the total is an
  estimate. A kind that is not known makes no condition.\<close>

definition transfers_condition :: "'f explorer_db \<Rightarrow> string \<Rightarrow> string option \<Rightarrow> string option \<Rightarrow> (transfer_condition \<times> int) res" where
  "transfers_condition db type address token_address =
     (let known = (token_kind (Some type) \<noteq> None)
      in if arg_given address
         then rbind (path_bytes (str_lower (the address))) (\<lambda>b.
              let c = (if known then Touching b else AnyTransfer)
              in rbind (get_address_token_transfer_cnt db type c b) (\<lambda>n. Inr (c, n)))
         else if arg_given token_address
         then rbind (path_bytes (str_lower (the token_address))) (\<lambda>b.
              rbind (get_token_address_token_transfer_cnt db type (str_lower (the token_address))) (\<lambda>n.
                Inr (if known then OfToken b else AnyTransfer, n)))
         else rbind (table_name type) (\<lambda>t. Inr (AnyTransfer, ed_estimates db t)))"

definition explorer_token_transfers ::
    "'f explorer_env \<Rightarrow> 'f explorer_db \<Rightarrow> string option \<Rightarrow> string option \<Rightarrow> string option \<Rightarrow> string option \<Rightarrow> string option
     \<Rightarrow> 'f batch_page res" where
  "explorer_token_transfers e db page psize kind address token_address =
     rbind (page_args page psize) (\<lambda>(p, s).
     let type = str_lower (or_default kind [])
     in if p * s > MAX_TOKEN_TRANSFER then Inl (api_error (shown_number MAX_TOKEN_TRANSFER))
        else rbind (transfers_condition db type address token_address) (\<lambda>(c, n).
          rbind (get_raw_token_transfers db type c p s) (\<lambda>rows.
          rbind (shown_transfers e db rows type) (\<lambda>data.
            Inr \<lparr>bt_data = data, bt_total = CInt n, bt_page = p, bt_size = s\<rparr>))))"

definition explorer_address_token_transfers ::
    "'f explorer_env \<Rightarrow> 'f explorer_db \<Rightarrow> string \<Rightarrow> string option \<Rightarrow> ('f row list \<times> int) res" where
  "explorer_address_token_transfers e db address kind =
     (let type = str_lower (or_default kind [])
      in rbind (path_bytes (str_lower address)) (\<lambda>b.
         if token_kind (Some type) = None then Inl (api_error ''Invalid type'')
         else rbind (get_raw_token_transfers db type (Touching b) 1 (int PAGE_SIZE)) (\<lambda>rows.
              rbind (get_address_token_transfer_cnt db type (Touching b) b) (\<lambda>n.
              rbind (shown_transfers e db rows type) (\<lambda>data. Inr (data, n))))))"

definition get_token_by_address :: "'f explorer_db \<Rightarrow> string \<Rightarrow> 'f row option res" where
  "get_token_by_address db address = rbind (path_bytes address) (\<lambda>b. Inr (find_bytes (ed_tokens db) ''address'' b))"

definition explorer_token_token_transfers ::
    "'f explorer_env \<Rightarrow> 'f explorer_db \<Rightarrow> string \<Rightarrow> ('f row list \<times> int) res" where
  "explorer_token_token_transfers e db address =
     (let address = str_lower address
      in rbind (path_bytes address) (\<lambda>b.
         rbind (rbind (get_token_by_address db address) (batch_or_error ''Token not found'')) (\<lambda>t.
         case cell_of t ''token_type'' of
           CText k \<Rightarrow>
             if k \<notin> {''ERC20'', ''ERC721'', ''ERC1155''} then Inl (api_error ''Invalid type'')
             else rbind (get_raw_token_transfers db k (OfToken b) 1 (int PAGE_SIZE)) (\<lambda>rows.
                  rbind (get_token_address_token_transfer_cnt db k address) (\<lambda>n.
                  rbind (shown_transfers e db rows k) (\<lambda>data. Inr (data, n))))
         | _ \<Rightarrow> Inl (api_error ''Invalid type''))))"

text \<open>Transfers of one transaction, joined with their tokens.\<close>

definition transfers_with_token_by_hash :: "'f explorer_db \<Rightarrow> 'f row list \<Rightarrow> bool \<Rightarrow> byte list \<Rightarrow> ('f row \<times> token_view) list" where
  "transfers_with_token_by_hash db table with_decimals h =
     concat (map (\<lambda>r. map (\<lambda>t. (r, if with_decimals then t else t\<lparr>tv_icon_url := None, tv_decimals := None\<rparr>))
         (filter (\<lambda>t. cell_of r ''token_address'' = CBytes (tv_address t)) (concat (map token_view_of (ed_tokens db)))))
       (filter (\<lambda>r. cell_of r ''transaction_hash'' = CBytes h) table))"

definition explorer_transaction_token_transfers :: "'f explorer_env \<Rightarrow> 'f explorer_db \<Rightarrow> string \<Rightarrow> 'f row list res" where
  "explorer_transaction_token_transfers e db hash =
     rbind (path_bytes (str_lower hash)) (\<lambda>h.
     let process = process_token_transfer (ee_floats e) (ee_decimal_text e) (ee_chain e)
     in rbind (process (transfers_with_token_by_hash db (ed_erc20 db) True h) ''tokentxns'') (\<lambda>a.
        rbind (process (transfers_with_token_by_hash db (ed_erc721 db) False h) ''tokentxns-nft'') (\<lambda>b.
        rbind (process (transfers_with_token_by_hash db (ed_erc1155 db) False h) ''tokentxns-nft1155'') (\<lambda>c.
          fill_address_display_to_transactions (ee_services e) (a @ b @ c) []))))"

section \<open>Holdings and holders\<close>

text \<open>\<open>row_number()\<close> over the balances of a token and token id, newest first: the row with number 1.\<close>

definition balance_key :: "'f row \<Rightarrow> 'f cell \<times> 'f cell" where
  "balance_key r = (cell_of r ''token_address'', cell_of r ''token_id'')"

text \<open>What balances are sorted by: a time that is null counts as later than all others, as PostgreSQL sorts it.\<close>

definition balance_time :: "'f row \<Rightarrow> int \<times> int \<times> int" where
  "balance_time r =
     (let t = cell_of r ''block_timestamp''
      in (case t of CNone \<Rightarrow> 1 | _ \<Rightarrow> 0, cell_int t, cell_int (cell_of r ''block_number'')))"

definition later_first :: "int \<times> int \<times> int \<Rightarrow> int \<times> int \<times> int" where
  "later_first = (\<lambda>(n, t, b). (- n, - t, - b))"

lemma later_first_less [simp]: "later_first x < later_first y \<longleftrightarrow> y < x" "later_first x \<le> later_first y \<longleftrightarrow> y \<le> x"
  by (cases x; cases y; auto simp: later_first_def less_prod_def less_eq_prod_def)+

definition newest_balances :: "'f row list \<Rightarrow> 'f row list" where
  "newest_balances = sort_key (\<lambda>r. later_first (balance_time r))"

fun first_of_each :: "('a \<Rightarrow> 'k) \<Rightarrow> 'a list \<Rightarrow> 'a list" where
  "first_of_each key [] = []"
| "first_of_each key (x # xs) = x # filter (\<lambda>y. key y \<noteq> key x) (first_of_each key xs)"

definition current_holdings :: "'f row list \<Rightarrow> byte list \<Rightarrow> 'f row list" where
  "current_holdings balances address =
     sort_key (\<lambda>r. or_default (text_in (cell_of r ''token_type'')) [])
       (filter (\<lambda>r. case number_of r ''balance'' of Some n \<Rightarrow> 0 < n | None \<Rightarrow> False)
         (first_of_each balance_key (newest_balances (filter (\<lambda>r. cell_of r ''address'' = CBytes address) balances))))"

definition transfer_kind :: "'f cell \<Rightarrow> 'f cell" where
  "transfer_kind c =
     (if c = CText ''ERC20'' then CText ''tokentxns'' else if c = CText ''ERC721'' then CText ''tokentxns-nft''
      else if c = CText ''ERC1155'' then CText ''tokentxns-nft1155'' else CNone)"

definition text_or_none :: "'f cell \<Rightarrow> 'f cell" where
  "text_or_none c = (case c of CText t \<Rightarrow> if t = [] then CNone else c | _ \<Rightarrow> CNone)"

definition holding_entry :: "'f explorer_env \<Rightarrow> 'f explorer_db \<Rightarrow> 'f row \<Rightarrow> 'f row res" where
  "holding_entry e db r =
     rbind (hex_column r ''token_address'') (\<lambda>a. rbind (add_of r ''balance'') (\<lambda>n.
     let t = (case find_row_cell (ed_tokens db) ''address'' (cell_of r ''token_address'') of None \<Rightarrow> [] | Some t \<Rightarrow> t);
         decimals = (case number_of t ''decimals'' of None \<Rightarrow> 0 | Some d \<Rightarrow> d)
     in Inr [(''token_address'', a), (''balance'', CText (strip_zeros (ee_decimal_text e 6 n decimals))),
          (''token_id'', case number_of r ''token_id'' of None \<Rightarrow> CNone | Some i \<Rightarrow> if i = 0 then CNone else CInt i),
          (''token_name'', CText (or_text (text_in (cell_of t ''name'')) ''Unknown Token'')),
          (''token_symbol'', CText (or_text (text_in (cell_of t ''symbol'')) ''UNKNOWN'')),
          (''token_logo_url'', text_or_none (cell_of t ''icon_url'')), (''type'', transfer_kind (cell_of r ''token_type''))]))"

definition explorer_token_holdings :: "'f explorer_env \<Rightarrow> 'f explorer_db \<Rightarrow> string \<Rightarrow> 'f row list res" where
  "explorer_token_holdings e db address =
     rbind (path_bytes (str_lower address)) (\<lambda>b. rmap (holding_entry e db) (current_holdings (ed_balances db) b))"

text \<open>The balances of one token in the table of current balances.\<close>

definition holders_of :: "'f row list \<Rightarrow> byte list \<Rightarrow> 'f row list" where
  "holders_of balances token = filter (\<lambda>r. cell_of r ''token_address'' = CBytes token \<and>
     (case number_of r ''balance'' of Some n \<Rightarrow> 0 < n | None \<Rightarrow> False)) balances"

definition get_token_holders :: "'f row list \<Rightarrow> byte list \<Rightarrow> nat \<Rightarrow> nat \<Rightarrow> 'f row list" where
  "get_token_holders balances token limit offset = take limit (drop offset (descending ''balance'' (holders_of balances token)))"

definition get_token_holders_cnt :: "'f row list \<Rightarrow> byte list \<Rightarrow> nat" where
  "get_token_holders_cnt balances token = length (holders_of balances token)"

interpretation holder_pages: paged_table "\<lambda>token. descending ''balance'' (holders_of balances token)"
    "get_token_holders balances" "get_token_holders_cnt balances" for balances
  by unfold_locales (simp_all add: get_token_holders_def get_token_holders_cnt_def descending_def)

definition holder_entry :: "'f explorer_env \<Rightarrow> string \<Rightarrow> 'f row \<Rightarrow> 'f row \<Rightarrow> 'f row res" where
  "holder_entry e token_address t r =
     rbind (if cell_of t ''token_type'' = CText ''ERC20'' then add_of t ''decimals'' else Inr 0) (\<lambda>d.
     rbind (hex_column r ''address'') (\<lambda>w. rbind (add_of r ''balance'') (\<lambda>n.
       Inr [(''token_address'', CText token_address), (''wallet_address'', w), (''balance'', CText (ee_decimal_text e 6 n d))])))"

definition explorer_top_holders ::
    "'f explorer_env \<Rightarrow> 'f explorer_db \<Rightarrow> string \<Rightarrow> string option \<Rightarrow> string option \<Rightarrow> ('f row list \<times> int) res" where
  "explorer_top_holders e db token_address page psize =
     (let token_address = str_lower token_address
      in rbind (page_args page psize) (\<lambda>(p, s).
         rbind (path_bytes token_address) (\<lambda>b. rbind (rbind (get_token_by_address db token_address) (batch_or_error ''Token not found'')) (\<lambda>t.
         rbind (rmap (holder_entry e token_address t)
           (get_token_holders (ed_current_balances db) b (nat s) (nat ((p - 1) * s)))) (\<lambda>data.
           Inr (data, int (get_token_holders_cnt (ed_current_balances db) b)))))))"

section \<open>Profiles\<close>

text \<open>The extra fields of an ERC20 token; a supply or decimals that are missing raise.\<close>

definition erc20_profile :: "'f explorer_env \<Rightarrow> 'f row \<Rightarrow> 'f row res" where
  "erc20_profile e t =
     rbind (add_of t ''decimals'') (\<lambda>d. rbind (add_of t ''total_supply'') (\<lambda>n.
       Inr ([(''token_price'', cell_of t ''price''), (''token_previous_price'', cell_of t ''previous_price''),
          (''decimals'', CFloat (f_of_int (ee_floats e) d)), (''total_supply'', CText (strip_zeros (ee_decimal_text e 6 n d))),
          (''token_market_cap'', cell_of t ''market_cap''), (''token_on_chain_market_cap'', cell_of t ''on_chain_market_cap''),
          (''previous_price'', cell_of t ''previous_price'')] @
         (case text_or_none (cell_of t ''gecko_id'') of
            CText g \<Rightarrow> [(''gecko_url'', CText (''https://www.coingecko.com/en/coins/'' @ g))] | _ \<Rightarrow> []) @
         (case text_or_none (cell_of t ''cmc_slug'') of
            CText g \<Rightarrow> [(''cmc_url'', CText (''https://coinmarketcap.com/currencies/'' @ g @ ''/''))] | _ \<Rightarrow> []))))"

definition explorer_token_profile :: "'f explorer_env \<Rightarrow> ext \<Rightarrow> 'f explorer_db \<Rightarrow> string \<Rightarrow> 'f row res" where
  "explorer_token_profile e x db address =
     (let address = str_lower address
      in rbind (rbind (get_token_by_address db address) (batch_or_error ''Token not found'')) (\<lambda>t.
         rbind (if cell_of t ''token_type'' = CText ''ERC20'' then erc20_profile e t else Inr []) (\<lambda>extra.
         rbind (hex_column t ''address'') (\<lambda>a. rbind (rbind (cell_text a) (to_checksum_address x)) (\<lambda>checksum.
         rbind (rbind (cell_text (cell_of t ''token_type'')) (\<lambda>k. get_token_address_token_transfer_cnt db k address)) (\<lambda>n.
           Inr (update_all extra [(''token_name'', cell_of t ''name''), (''token_checksum_address'', CText checksum),
             (''token_address'', a), (''token_symbol'', cell_of t ''symbol''), (''token_logo_url'', cell_of t ''icon_url''),
             (''token_urls'', cell_of t ''urls''), (''social_medias'', cell_of t ''urls''),
             (''token_description'', cell_of t ''description''),
             (''total_supply'', CText (int_str (case number_of t ''total_supply'' of None \<Rightarrow> 0 | Some n \<Rightarrow> n))),
             (''total_holders'', cell_of t ''holder_count''), (''total_transfers'', CInt n),
             (''type'', cell_of t ''token_type'')])))))))"

definition optional_hex :: "'f row \<Rightarrow> string \<Rightarrow> 'f cell" where
  "optional_hex r k = (case cell_of r k of CBytes b \<Rightarrow> if b = [] then CNone else CText (bytes_to_hex_str b) | _ \<Rightarrow> CNone)"

text \<open>What the profile of an address uses: the node, the verification service, the SHA-256 hash and the text \<open>f"{b}"\<close> of
  bytes.\<close>

record profile_env =
  pe_node :: web3_node
  pe_service :: service
  pe_sha256 :: "string \<Rightarrow> string"
  pe_text :: "byte list \<Rightarrow> string"

text \<open>The stored code goes into the request as it is, the code of the node as its hash.\<close>

definition similar_key :: "profile_env \<Rightarrow> string \<Rightarrow> 'f cell \<Rightarrow> string res" where
  "similar_key pe address deployed_code =
     (case hex_if_given deployed_code of
        Some _ \<Rightarrow> (case deployed_code of CBytes b \<Rightarrow> Inr (pe_text pe b) | _ \<Rightarrow> Inl TypeError)
      | None \<Rightarrow> get_sha256_hash (pe_sha256 pe) (get_code (pe_node pe) address))"

fun iterated :: "json \<Rightarrow> json list res" where
  "iterated (JList xs) = Inr xs"
| "iterated (JDict d) = Inr (map (JStr \<circ> fst) d)"
| "iterated (JStr t) = Inr (map (\<lambda>c. JStr [c]) t)"
| "iterated _ = Inl TypeError"

fun cell_of_json :: "json \<Rightarrow> 'f cell" where
  "cell_of_json JNull = CNone"
| "cell_of_json (JBool b) = CBool b"
| "cell_of_json (JInt n) = CInt n"
| "cell_of_json (JStr t) = CText t"
| "cell_of_json (JList xs) = CList (map cell_of_json xs)"
| "cell_of_json (JDict d) = CDict (map (\<lambda>(k, v). (k, cell_of_json v)) d)"

text \<open>The rows of the token table have no attribute \<open>type\<close>.\<close>

definition contract_profile :: "profile_env \<Rightarrow> 'f explorer_db \<Rightarrow> string \<Rightarrow> 'f row \<Rightarrow> 'f row res" where
  "contract_profile pe db address c =
     rbind (hex_column c ''contract_creator'') (\<lambda>creator. rbind (hex_column c ''transaction_hash'') (\<lambda>h.
     rbind (attribute c ''is_verified'') (\<lambda>v. rbind (attribute c ''is_proxy'') (\<lambda>px.
     rbind (attribute c ''deployed_code'') (\<lambda>stored. rbind (similar_key pe address stored) (\<lambda>code.
     rbind (iterated (get_similar_addresses (pe_service pe) code)) (\<lambda>addresses.
     let fields = [(''is_contract'', CBool True), (''contract_creator'', creator), (''transaction_hash'', h), (''is_verified'', v),
           (''is_proxy'', px), (''implementation_contract'', optional_hex c ''implementation_contract''),
           (''verified_implementation_contract'', optional_hex c ''verified_implementation_contract''),
           (''similar_verified_addresses'', CList (map cell_of_json (filter (\<lambda>a. a \<noteq> JStr address) addresses)))]
     in rbind (get_token_by_address db address) (\<lambda>token.
        case token of
          None \<Rightarrow> Inr fields
        | Some t \<Rightarrow>
            rbind (attribute (project TOKEN_COLUMNS t) ''type'') (\<lambda>ty.
            Inr (fields @ [(''is_token'', CBool True), (''token_type'', ty),
              (''token_name'', CText (or_text (text_in (cell_of t ''name'')) ''Unknown Token'')),
              (''token_symbol'', CText (or_text (text_in (cell_of t ''symbol'')) ''UNKNOWN'')),
              (''token_logo_url'', text_or_none (cell_of t ''icon_url''))]))))))))))"

definition explorer_address_profile ::
    "'f explorer_env \<Rightarrow> profile_env \<Rightarrow> 'f explorer_db \<Rightarrow> string \<Rightarrow> 'f row res" where
  "explorer_address_profile e pe db address =
     (let address = str_lower address; fl = ee_floats e; n = get_balance (pe_node pe) address;
          profile_json = [(''balance'', CText (strip_zeros (ee_decimal_text e 18 n 18))),
            (''native_token_price'', CText (f_text fl 2 (get_token_price fl))), (''balance_dollar'', CText (ee_decimal_text e 2 0 18)),
            (''is_contract'', CBool False), (''is_token'', CBool False)]
      in rbind (path_bytes address) (\<lambda>b.
         case find_bytes (ed_contracts db) ''address'' b of
           None \<Rightarrow> Inr profile_json
         | Some c \<Rightarrow> rbind (contract_profile pe db address c) (\<lambda>fs. Inr (update_all fs profile_json))))"

text \<open>A row of a query with columns cannot be assigned to.\<close>

definition update_contract_info :: "'f explorer_db \<Rightarrow> string option \<Rightarrow> bool \<Rightarrow> unit res" where
  "update_contract_info db address any_given =
     (if \<not> arg_given address \<or> \<not> any_given then Inl (api_error ''Missing required data'')
      else rbind (path_bytes (the address)) (\<lambda>b.
           case find_bytes (ed_contracts db) ''address'' b of
             None \<Rightarrow> Inl (api_error ''Error address'') | Some _ \<Rightarrow> Inl AttributeError))"

section \<open>One transaction\<close>

text \<open>The text of a parameter type; a tuple is the list of the types of its components. The result for a list is the texts
  of its elements, for a dictionary its own.\<close>

fun type_texts :: "'f cell \<Rightarrow> string res list" where
  "type_texts (CList cs) = concat (map type_texts cs)"
| "type_texts (CDict kvs) =
     (let parts = map (\<lambda>(k, c). (k, type_texts c)) kvs;
          inner = (case map_of parts ''components'' of
                     None \<Rightarrow> Inl (KeyError ''components'')
                   | Some ts \<Rightarrow> rbind (rmap id ts) (\<lambda>ts. Inr (''('' @ comma_join ts @ '')'')))
      in [rbind (rbind (dict_get kvs ''type'') cell_text) (\<lambda>ty.
            if ty = ''tuple[]'' then rbind inner (\<lambda>t. Inr (t @ ''[]''))
            else if ty = ''tuple'' then inner else Inr ty)])"
| "type_texts _ = [Inl TypeError]"

definition parameter_of :: "'f cell \<Rightarrow> (string \<times> string) res" where
  "parameter_of v =
     rbind (cell_dict v) (\<lambda>d. rbind (rmap id (type_texts v)) (\<lambda>ts. rbind (rbind (dict_get d ''name'') cell_text) (\<lambda>n.
       case ts of [t] \<Rightarrow> Inr (t, n) | _ \<Rightarrow> Inl TypeError)))"

text \<open>\<open>transaction.input[10:]\<close> of a \<open>BYTEA\<close> column are bytes, which \<open>bytes.fromhex\<close> does not take.\<close>

definition drop_input :: "'f cell \<Rightarrow> 'f cell" where
  "drop_input c = (case c of CBytes b \<Rightarrow> CBytes (drop 10 b) | CText t \<Rightarrow> CText (drop 10 t) | _ \<Rightarrow> c)"

definition decode_cell :: "'f log_env \<Rightarrow> string list \<Rightarrow> 'f cell \<Rightarrow> (shown list \<times> string list) res" where
  "decode_cell env types c =
     (case c of CText t \<Rightarrow> WebUtils.decode_log_data (log_ext env) (py_str env) types t | _ \<Rightarrow> Inl TypeError)"

definition function_fields :: "'f log_env \<Rightarrow> 'f row \<Rightarrow> 'f row \<Rightarrow> 'f row res" where
  "function_fields env abi row =
     rbind (cell_text (cell_of abi ''function_abi'')) (\<lambda>j. rbind (json_loads (log_decoders env) j) (\<lambda>v.
     rbind (cell_dict v) (\<lambda>d. rbind (rbind (dict_get d ''inputs'') cell_list) (\<lambda>inputs.
     rbind (rmap parameter_of inputs) (\<lambda>ps.
     rbind (rbind (attribute row ''input'') (\<lambda>c. decode_cell env (map fst ps) (drop_input c))) (\<lambda>(decoded_data, encoded_data).
     rbind (rmap (\<lambda>(i, t, n). rbind (nth_res decoded_data i) (\<lambda>h. rbind (nth_res encoded_data i) (\<lambda>e.
         Inr (CDict [(''name'', CText n), (''data_type'', CText t), (''hex_data'', shown_cell h), (''dec_data'', CText e)]))))
       (enumerate 0 ps)) (\<lambda>input_data.
     rbind (cell_text (cell_of abi ''function_name'')) (\<lambda>function_name.
       Inr [(''input_data'', CList input_data), (''function_name'', CText function_name),
         (''function_unsigned'', cell_of abi ''function_unsigned''),
         (''full_function_name'', CText (function_name @ ''('' @
            drop_last2 (concat (map (\<lambda>(t, n). t @ '' '' @ n @ '', '') ps)) @ '')''))]))))))))"

text \<open>The last entry of the ABIs is taken; an exception of the decoding is printed and leaves the transaction.\<close>

definition with_function :: "'f log_env \<Rightarrow> ((json \<times> json) \<times> json) list \<Rightarrow> 'f row \<Rightarrow> 'f row \<Rightarrow> 'f row" where
  "with_function env abi_dict row t =
     (if abi_dict = [] then t
      else case rbind (cell_dict (cell_of_json (snd (last abi_dict)))) (\<lambda>abi. function_fields env abi row) of
             Inl _ \<Rightarrow> t | Inr fs \<Rightarrow> update_all fs t)"

definition root_trace :: "'f row list \<Rightarrow> byte list \<Rightarrow> 'f row option" where
  "root_trace traces h =
     List.find (\<lambda>r. cell_of r ''transaction_hash'' = CBytes h \<and> cell_of r ''trace_address'' = CText ''{}'') traces"

definition with_trace_error :: "'f floats \<Rightarrow> 'f row list \<Rightarrow> byte list \<Rightarrow> 'f row \<Rightarrow> 'f row" where
  "with_trace_error fl traces h t =
     (case root_trace traces h of
        None \<Rightarrow> t
      | Some r \<Rightarrow> if truthy_cell fl (cell_of r ''error'') then AList.update ''trace_error'' (cell_of r ''error'') t else t)"

text \<open>\<open>abis\<close> is \<open>get_abis_for_method\<close> for one receiver and method.\<close>

definition explorer_transaction ::
    "'f log_env \<Rightarrow> (('f cell \<times> 'f cell) list \<Rightarrow> ((json \<times> json) \<times> json) list res) \<Rightarrow> 'f explorer_db \<Rightarrow> string \<Rightarrow> 'f row res" where
  "explorer_transaction env abis db hash =
     rbind (path_bytes (str_lower hash)) (\<lambda>h.
     rbind (batch_or_error ''Cannot find transaction with hash'' (find_bytes (ed_transactions db) ''hash'' h)) (\<lambda>row.
     rbind (rbind (parse_transactions (log_floats env) (log_services env) (log_decoders env) [row]) (\<lambda>ts. nth_res ts 0)) (\<lambda>t.
     let t = with_trace_error (log_floats env) (ed_traces db) h t
     in rbind (dict_get t ''to_address'') (\<lambda>receiver. rbind (dict_get t ''method_id'') (\<lambda>method_id.
        rbind (abis [(receiver, method_id)]) (\<lambda>abi_dict. Inr (with_function env abi_dict row t)))))))"

definition logs_with_input :: "'f row list \<Rightarrow> 'f row list \<Rightarrow> ('f row \<Rightarrow> bool) \<Rightarrow> ('f row \<times> 'f cell) list" where
  "logs_with_input logs transactions c =
     concat (map (\<lambda>l. map (\<lambda>t. (l, cell_of t ''input''))
       (filter (\<lambda>t. cell_of l ''transaction_hash'' \<noteq> CNone \<and> cell_of t ''hash'' = cell_of l ''transaction_hash'') transactions))
       (filter c logs))"

definition explorer_transaction_logs :: "'f log_env \<Rightarrow> 'f row list \<Rightarrow> 'f explorer_db \<Rightarrow> string \<Rightarrow> 'f row list res" where
  "explorer_transaction_logs env logs db hash =
     rbind (path_bytes (str_lower hash)) (\<lambda>h.
       parse_logs env (logs_with_input logs (ed_transactions db) (\<lambda>l. cell_of l ''transaction_hash'' = CBytes h)))"

definition explorer_address_logs :: "'f log_env \<Rightarrow> 'f row list \<Rightarrow> 'f explorer_db \<Rightarrow> string \<Rightarrow> ('f row list \<times> nat) res" where
  "explorer_address_logs env logs db address =
     rbind (path_bytes (str_lower address)) (\<lambda>b.
     let found = take 25 (logs_with_input logs (ed_transactions db) (\<lambda>l. cell_of l ''address'' = CBytes b))
     in rbind (parse_logs env found) (\<lambda>data. Inr (data, length found)))"

definition explorer_transaction_internal :: "'f api \<Rightarrow> string \<Rightarrow> 'f row list res" where
  "explorer_transaction_internal a hash =
     rbind (path_bytes (str_lower hash)) (\<lambda>h.
       internal_list a (newest_first (filter (\<lambda>r. cell_of r ''transaction_hash'' = CBytes h) (internal_table a))))"

section \<open>Each block is on one page\<close>

lemma block_range_page:
  assumes "0 < psize" and "0 \<le> n" and "n \<le> latest"
  shows "fst (block_range latest p psize) \<le> n \<and> n \<le> snd (block_range latest p psize) \<longleftrightarrow> p = (latest - n) div psize + 1"
proof -
  let ?d = "latest - n"
  have "fst (block_range latest p psize) \<le> n \<and> n \<le> snd (block_range latest p psize) \<longleftrightarrow>
      (p - 1) * psize \<le> ?d \<and> ?d < (p - 1) * psize + psize"
    using assms(2) by (auto simp: block_range_def Let_def)
  also have "\<dots> \<longleftrightarrow> ?d div psize = p - 1"
  proof
    assume a: "(p - 1) * psize \<le> ?d \<and> ?d < (p - 1) * psize + psize"
    then show "?d div psize = p - 1"
      by (intro int_div_pos_eq [where r = "?d - (p - 1) * psize"]) (auto simp: mult.commute)
  next
    assume "?d div psize = p - 1"
    then have "?d = (p - 1) * psize + ?d mod psize" by (metis div_mult_mod_eq)
    then show "(p - 1) * psize \<le> ?d \<and> ?d < (p - 1) * psize + psize"
      using pos_mod_bound [OF assms(1), of ?d] pos_mod_sign [OF assms(1), of ?d] by linarith
  qed
  also have "\<dots> \<longleftrightarrow> p = ?d div psize + 1" by auto
  finally show ?thesis .
qed

text \<open>A table of blocks: the numbers are distinct and not negative.\<close>

definition blocks_ok :: "'f row list \<Rightarrow> bool" where
  "blocks_ok blocks \<longleftrightarrow> (\<forall>b \<in> set blocks. \<exists>n. cell_of b ''number'' = CInt n \<and> 0 \<le> n)"

lemma sort_key_hd_least: "x \<in> set xs \<Longrightarrow> sort_key k xs = y # ys \<Longrightarrow> k y \<le> k x"
  using sorted_sort_key [of k xs] by (metis list.simps(9) set_ConsD set_sort sorted_simps(2) list.set_map image_eqI order_refl)

lemma latest_number_ge:
  assumes "b \<in> set blocks" and "cell_of b ''number'' = CInt n"
  shows "n \<le> latest_number blocks"
proof -
  obtain y ys where y: "descending ''number'' blocks = y # ys"
    using assms(1) by (cases "descending ''number'' blocks") (auto simp: descending_def dest: arg_cong [where f = set])
  have "- cell_int (cell_of y ''number'') \<le> - cell_int (cell_of b ''number'')"
    by (rule sort_key_hd_least [OF assms(1) y [unfolded descending_def]])
  then show ?thesis using y assms(2) by (simp add: latest_number_def get_last_block_def first_row_def)
qed

text \<open>C31: the pages of the list of blocks are disjoint and cover the table: a block is on page \<open>p\<close> exactly if
  \<open>p\<close> is one more than the number of whole pages between it and the latest block.\<close>

theorem block_on_one_page:
  assumes "blocks_ok blocks" and "b \<in> set blocks" and "cell_of b ''number'' = CInt n"
    and "explorer_blocks fl blocks (Some (int_str p)) (Some (int_str s)) None None = Inr pg"
  shows "(\<exists>r \<in> set (bt_data pg). cell_of r ''number'' = CInt n) \<longleftrightarrow> p = (latest_number blocks - n) div s + 1"
proof -
  have i: "int_arg (Some (int_str k)) d = Inr k" for k d using parse_int_str [of "[]" k] by (simp add: int_arg_def)
  from assms(4) have s: "0 < s" and pg: "bt_data pg = map (row_to_dict fl \<circ> project BLOCK_LIST_COLUMNS)
      (descending ''number'' (filter (numbered_between (block_range (latest_number blocks) p s)) blocks))"
    by (auto simp: explorer_blocks_def page_args_def i split: if_splits)
  have num: "cell_of (row_to_dict fl (project BLOCK_LIST_COLUMNS r)) ''number'' = format_value_for_json fl (cell_of r ''number'')" for r
    by (simp add: row_to_dict_def project_def BLOCK_LIST_COLUMNS_def cell_of_def)
  have "(\<exists>r \<in> set (bt_data pg). cell_of r ''number'' = CInt n) \<longleftrightarrow>
      (\<exists>r \<in> set blocks. numbered_between (block_range (latest_number blocks) p s) r \<and> cell_of r ''number'' = CInt n)"
  proof -
    have "format_value_for_json fl (cell_of r ''number'') = CInt n \<longleftrightarrow> cell_of r ''number'' = CInt n" if "r \<in> set blocks" for r
      using assms(1) that by (force simp: blocks_ok_def)
    then show ?thesis unfolding pg by (auto simp: num descending_def)
  qed
  also have "\<dots> \<longleftrightarrow> fst (block_range (latest_number blocks) p s) \<le> n \<and> n \<le> snd (block_range (latest_number blocks) p s)"
    using assms(2,3) by (auto simp: numbered_between_def case_prod_beta number_of_def intro!: bexI [of _ b])
  also have "\<dots> \<longleftrightarrow> p = (latest_number blocks - n) div s + 1"
    by (rule block_range_page [OF s]) (use assms latest_number_ge in \<open>auto simp: blocks_ok_def\<close>)
  finally show ?thesis .
qed

section \<open>Holdings are the latest balances\<close>

lemma first_of_each_subset: "set (first_of_each key xs) \<subseteq> set xs"
  by (induction xs) auto

lemma first_of_each_distinct: "distinct (map key (first_of_each key xs))"
  by (induction xs) (auto simp: distinct_map_filter)

lemma first_of_each_covers: "y \<in> set xs \<Longrightarrow> \<exists>x \<in> set (first_of_each key xs). key x = key y"
proof (induction xs)
  case (Cons a xs)
  show ?case
  proof (cases "key y = key a")
    case False
    with Cons obtain x where "x \<in> set (first_of_each key xs)" "key x = key y" by auto
    with False show ?thesis by (intro bexI [of _ x]) simp_all
  qed simp
qed simp

lemma first_of_each_least:
  assumes "sorted (map f xs)" and "x \<in> set (first_of_each key xs)" and "y \<in> set xs" and "key y = key x"
  shows "f x \<le> f y"
  using assms by (induction xs) (auto dest: subsetD [OF first_of_each_subset])

lemma first_of_each_only:
  assumes "sorted (map f xs)" and "y \<in> set xs" and "\<And>z. z \<in> set xs \<Longrightarrow> key z = key y \<Longrightarrow> z \<noteq> y \<Longrightarrow> f y < f z"
  shows "y \<in> set (first_of_each key xs)"
proof -
  obtain x where x: "x \<in> set (first_of_each key xs)" "key x = key y"
    using first_of_each_covers [OF assms(2)] by blast
  have "f x \<le> f y" using first_of_each_least [OF assms(1) x(1) assms(2)] x(2) by simp
  then have "x = y" using assms(3) [of x] x first_of_each_subset by (metis leD subsetD)
  with x show ?thesis by simp
qed

abbreviation positive_balance :: "'f row \<Rightarrow> bool" where
  "positive_balance r \<equiv> (case number_of r ''balance'' of Some n \<Rightarrow> 0 < n | None \<Rightarrow> False)"

text \<open>C32: an address is shown at most one balance for each token and token id; it is a positive one that no other
  balance of that key is later than, and a positive balance that is later than all others of its key is shown. A balance
  without a time counts as later than all that have one.\<close>

theorem holdings_show_latest:
  assumes "explorer_token_holdings e db address = Inr data" and "path_bytes (str_lower address) = Inr a"
  shows "\<exists>H. list_all2 (\<lambda>r d. holding_entry e db r = Inr d) H data \<and> distinct (map balance_key H) \<and>
    (\<forall>r \<in> set H. r \<in> set (ed_balances db) \<and> cell_of r ''address'' = CBytes a \<and> positive_balance r \<and>
      (\<forall>r' \<in> set (ed_balances db). cell_of r' ''address'' = CBytes a \<and> balance_key r' = balance_key r \<longrightarrow>
         balance_time r' \<le> balance_time r)) \<and>
    (\<forall>r \<in> set (ed_balances db). cell_of r ''address'' = CBytes a \<and> positive_balance r \<and>
      (\<forall>r' \<in> set (ed_balances db). cell_of r' ''address'' = CBytes a \<and> balance_key r' = balance_key r \<and> r' \<noteq> r \<longrightarrow>
         balance_time r' < balance_time r) \<longrightarrow> r \<in> set H)"
proof -
  let ?own = "filter (\<lambda>r. cell_of r ''address'' = CBytes a) (ed_balances db)"
  let ?xs = "newest_balances ?own"
  let ?f = "\<lambda>r. later_first (balance_time r)"
  let ?H = "current_holdings (ed_balances db) a"
  have sorted: "sorted (map ?f ?xs)" unfolding newest_balances_def by (rule sorted_sort_key)
  have xs: "set ?xs = set ?own" by (simp add: newest_balances_def)
  have H: "set ?H = {r \<in> set (first_of_each balance_key ?xs). positive_balance r}" by (simp add: current_holdings_def)
  have own: "set ?H \<subseteq> set ?own"
    using first_of_each_subset [of balance_key ?xs] unfolding H xs by auto
  have d: "distinct (map balance_key ?H)"
    using distinct_map_filter [OF first_of_each_distinct] by (simp add: current_holdings_def distinct_map)
  have l: "list_all2 (\<lambda>r d. holding_entry e db r = Inr d) ?H data"
    using assms by (simp add: explorer_token_holdings_def rmap_Inr_iff)
  have later: "\<forall>r \<in> set ?H. r \<in> set (ed_balances db) \<and> cell_of r ''address'' = CBytes a \<and> positive_balance r \<and>
      (\<forall>r' \<in> set (ed_balances db). cell_of r' ''address'' = CBytes a \<and> balance_key r' = balance_key r \<longrightarrow>
         balance_time r' \<le> balance_time r)"
  proof
    fix r assume r: "r \<in> set ?H"
    have "balance_time r' \<le> balance_time r" if "r' \<in> set ?own" "balance_key r' = balance_key r" for r'
      using first_of_each_least [OF sorted, of r balance_key r'] r that xs H by simp
    moreover have "r \<in> set ?own" using own r by (rule subsetD)
    ultimately show "r \<in> set (ed_balances db) \<and> cell_of r ''address'' = CBytes a \<and> positive_balance r \<and>
      (\<forall>r' \<in> set (ed_balances db). cell_of r' ''address'' = CBytes a \<and> balance_key r' = balance_key r \<longrightarrow>
         balance_time r' \<le> balance_time r)" using r H by auto
  qed
  have only: "r \<in> set ?H" if "r \<in> set ?own" "positive_balance r"
    "\<forall>r' \<in> set ?own. balance_key r' = balance_key r \<and> r' \<noteq> r \<longrightarrow> balance_time r' < balance_time r" for r
  proof -
    have "?f r < ?f z" if "z \<in> set ?xs" "balance_key z = balance_key r" "z \<noteq> r" for z
    proof -
      have "balance_time z < balance_time r" using that \<open>\<forall>r' \<in> set ?own. _\<close> xs by blast
      then show ?thesis by simp
    qed
    then have "r \<in> set (first_of_each balance_key ?xs)"
      using first_of_each_only [OF sorted] that(1) xs by blast
    with that(2) show ?thesis using H by blast
  qed
  show ?thesis
    by (intro exI [of _ ?H] conjI l d later ballI impI only) auto
qed

section \<open>Inputs are never decoded, profiles of tokens never shown\<close>

lemma bytes_not_decoded: "\<lbrakk>\<And>t. cell_of row ''input'' \<noteq> CText t\<rbrakk> \<Longrightarrow> with_function env abi_dict row t = t"
proof -
  assume i: "\<And>t. cell_of row ''input'' \<noteq> CText t"
  have d: "decode_cell env types (drop_input c) \<noteq> Inr x" if "attribute row ''input'' = Inr c" for c types x
  proof -
    have "c = cell_of row ''input''" using that by (auto simp: attribute_def cell_of_def split: option.splits)
    then have "c \<noteq> CText t" for t using i by simp
    then show ?thesis by (cases c) (auto simp: decode_cell_def drop_input_def)
  qed
  have "function_fields env abi row \<noteq> Inr fs" for abi fs
    using d by (auto simp: function_fields_def rbind_Inr_iff)
  then have "\<exists>x. function_fields env abi row = Inl x" for abi by (cases "function_fields env abi row") auto
  then have "\<exists>x. rbind m (\<lambda>abi. function_fields env abi row) = Inl x" for m by (cases m) auto
  then show "with_function env abi_dict row t = t"
    unfolding with_function_def by (metis (no_types, lifting) sum.case(1))
qed

text \<open>Where the inputs of transactions are stored as bytes, a detail of a transaction that is shown does not depend on
  the ABIs that the service knows: no call is ever shown decoded.\<close>

lemma transaction_input_not_decoded:
  assumes "\<forall>r \<in> set (ed_transactions db). \<forall>t. cell_of r ''input'' \<noteq> CText t"
    and "explorer_transaction env abis db hash = Inr t"
  shows "explorer_transaction env (\<lambda>_. Inr []) db hash = Inr t"
proof -
  from assms(2) obtain h row ts t0 u v m where p: "path_bytes (str_lower hash) = Inr h"
    "find_bytes (ed_transactions db) ''hash'' h = Some row"
    "parse_transactions (log_floats env) (log_services env) (log_decoders env) [row] = Inr ts" "nth_res ts 0 = Inr t0"
    "map_of (with_trace_error (log_floats env) (ed_traces db) h t0) ''to_address'' = Some u"
    "map_of (with_trace_error (log_floats env) (ed_traces db) h t0) ''method_id'' = Some v"
    "t = with_function env m row (with_trace_error (log_floats env) (ed_traces db) h t0)"
    by (auto simp: explorer_transaction_def Let_def rbind_Inr_iff batch_or_error_def split: option.splits)
  have "row \<in> set (ed_transactions db)" using p(2) by (auto simp: find_bytes_def find_Some_iff)
  then have w: "with_function env abi_dict row t' = t'" for abi_dict t'
    using assms(1) by (intro bytes_not_decoded) simp
  show ?thesis
    using p(1-6) unfolding p(7) w by (simp add: explorer_transaction_def batch_or_error_def dict_get_def w)
qed

lemma token_profile_fails:
  assumes "path_bytes (str_lower address) = Inr b" and "find_bytes (ed_contracts db) ''address'' b = Some c"
    and "find_bytes (ed_tokens db) ''address'' b = Some t"
  shows "\<nexists>r. explorer_address_profile e pe db address = Inr r"
proof -
  have "attribute (project TOKEN_COLUMNS t) ''type'' = Inl AttributeError"
    by (simp add: attribute_def project_def TOKEN_COLUMNS_def)
  then show ?thesis
    using assms by (auto simp: explorer_address_profile_def Let_def contract_profile_def get_token_by_address_def rbind_Inr_iff)
qed

section \<open>Samples\<close>

definition sample_block :: "int \<Rightarrow> int row" where
  "sample_block n = [(''hash'', CBytes [of_int n]), (''number'', CInt n), (''timestamp'', CInt (12 * n))]"

definition sample_blocks :: "int row list" where
  "sample_blocks = map sample_block [0, 1, 2, 3, 4, 5, 6]"

theorem block_on_one_page_witness:
  "\<exists>pg. explorer_blocks sample_floats sample_blocks (Some ''2'') (Some ''3'') None None = Inr pg \<and>
     (\<exists>r \<in> set (bt_data pg). cell_of r ''number'' = CInt 2) \<and> \<not> (\<exists>r \<in> set (bt_data pg). cell_of r ''number'' = CInt 4)"
proof -
  have "\<not> isl (explorer_blocks sample_floats sample_blocks (Some ''2'') (Some ''3'') None None)" by code_simp
  then obtain pg where pg: "explorer_blocks sample_floats sample_blocks (Some ''2'') (Some ''3'') None None = Inr pg"
    by (cases "explorer_blocks sample_floats sample_blocks (Some ''2'') (Some ''3'') None None") auto
  have args: "int_str 2 = ''2''" "int_str 3 = ''3''" by code_simp+
  have latest: "latest_number sample_blocks = 6" by code_simp
  have ok: "blocks_ok sample_blocks" by (simp add: blocks_ok_def sample_blocks_def sample_block_def cell_of_def)
  have in_blocks: "sample_block 2 \<in> set sample_blocks" "sample_block 4 \<in> set sample_blocks" by (simp_all add: sample_blocks_def)
  have n: "cell_of (sample_block k) ''number'' = CInt k" for k by (simp add: sample_block_def cell_of_def)
  show ?thesis
    using block_on_one_page [OF ok in_blocks(1) n, of _ 2 3 pg] block_on_one_page [OF ok in_blocks(2) n, of _ 2 3 pg]
      pg args latest by auto
qed

definition sample_balance :: "nat \<Rightarrow> int \<Rightarrow> int \<Rightarrow> int row" where
  "sample_balance t time amount = [(''address'', CBytes [1]), (''token_address'', CBytes [of_nat t]), (''token_id'', CNone),
     (''token_type'', CText ''ERC20''), (''balance'', CDecimal amount), (''block_timestamp'', CTime time), (''block_number'', CInt time)]"

definition sample_explorer_db :: "int explorer_db" where
  "sample_explorer_db = \<lparr>ed_blocks = sample_blocks, ed_transactions = [[(''hash'', CBytes [7]), (''input'', CBytes [1, 2])]],
     ed_traces = [], ed_internal = [], ed_tokens = [], ed_erc20 = [], ed_erc721 = [], ed_erc1155 = [], ed_contracts = [],
     ed_balances = [sample_balance 5 1 100, sample_balance 5 2 40, sample_balance 6 1 9, sample_balance 6 3 0],
     ed_current_balances = [], ed_wallet_stats = [], ed_wallet_until = None, ed_token_until = None, ed_estimates = (\<lambda>_. 0)\<rparr>"

definition sample_explorer_env :: "int explorer_env" where
  "sample_explorer_env = \<lparr>ee_floats = sample_floats, ee_services = sample_services, ee_chain = ''demo'',
     ee_decimal_text = (\<lambda>_ n _. int_str n), ee_round = (\<lambda>_ c. c), ee_scaled = (\<lambda>n _. CDecimal n)\<rparr>"

theorem holdings_show_latest_witness:
  "\<exists>data. explorer_token_holdings sample_explorer_env sample_explorer_db ''0x01'' = Inr data \<and> length data = 1"
proof -
  have p: "path_bytes (str_lower ''0x01'') = Inr [1]" by code_simp
  have "\<not> isl (explorer_token_holdings sample_explorer_env sample_explorer_db ''0x01'')" by code_simp
  then obtain data where d: "explorer_token_holdings sample_explorer_env sample_explorer_db ''0x01'' = Inr data"
    by (cases "explorer_token_holdings sample_explorer_env sample_explorer_db ''0x01''") auto
  obtain H where H: "list_all2 (\<lambda>r d. holding_entry sample_explorer_env sample_explorer_db r = Inr d) H data"
    "distinct (map balance_key H)"
    and late: "\<forall>r \<in> set H. r \<in> set (ed_balances sample_explorer_db) \<and> cell_of r ''address'' = CBytes [1] \<and>
      positive_balance r \<and> (\<forall>r' \<in> set (ed_balances sample_explorer_db). cell_of r' ''address'' = CBytes [1] \<and>
        balance_key r' = balance_key r \<longrightarrow> balance_time r' \<le> balance_time r)"
    and all: "\<forall>r \<in> set (ed_balances sample_explorer_db). cell_of r ''address'' = CBytes [1] \<and> positive_balance r \<and>
      (\<forall>r' \<in> set (ed_balances sample_explorer_db). cell_of r' ''address'' = CBytes [1] \<and>
        balance_key r' = balance_key r \<and> r' \<noteq> r \<longrightarrow> balance_time r' < balance_time r) \<longrightarrow> r \<in> set H"
    using holdings_show_latest [OF d p] by blast
  let ?r = "sample_balance 5 2 40"
  have B: "set (ed_balances sample_explorer_db) = {sample_balance 5 1 100, ?r, sample_balance 6 1 9, sample_balance 6 3 0}"
    by (simp add: sample_explorer_db_def)
  have r: "cell_of (sample_balance t m n) ''address'' = CBytes [1]"
    "balance_key (sample_balance t m n) = (CBytes [of_nat t], CNone)" "balance_time (sample_balance t m n) = (0, m, m)"
    "number_of (sample_balance t m n) ''balance'' = Some n" for t m n
    by (simp_all add: sample_balance_def balance_key_def balance_time_def number_of_def cell_of_def)
  have "?r \<in> set H" by (rule all [rule_format]) (auto simp: B r less_prod_def)
  moreover have "r = ?r" if "r \<in> set H" for r
  proof -
    from late that have o: "positive_balance r" "r \<in> set (ed_balances sample_explorer_db)"
      and l: "\<And>r'. \<lbrakk>r' \<in> set (ed_balances sample_explorer_db); cell_of r' ''address'' = CBytes [1];
        balance_key r' = balance_key r\<rbrakk> \<Longrightarrow> balance_time r' \<le> balance_time r" by simp_all
    have "r \<noteq> sample_balance 5 1 100" using l [of ?r] by (auto simp: B r)
    moreover have "r \<noteq> sample_balance 6 1 9" using l [of "sample_balance 6 3 0"] by (auto simp: B r)
    moreover have "r \<noteq> sample_balance 6 3 0" using o(1) by (auto simp: r)
    ultimately show ?thesis using o(2) by (auto simp: B)
  qed
  ultimately have "set H = {?r}" by blast
  moreover have "distinct H" using H(2) by (simp add: distinct_map)
  ultimately have "length H = 1" using distinct_card [of H] by simp
  with d H(1) show ?thesis by (auto dest: list_all2_lengthD)
qed

definition called_db :: "int explorer_db" where
  "called_db = sample_explorer_db\<lparr>ed_transactions := [contract_call @ [(''hash'', CBytes [7]), (''input'', CBytes [1, 2])]]\<rparr>"

theorem transaction_input_not_decoded_witness:
  "\<exists>t. explorer_transaction sample_log_env (\<lambda>_. Inr [((JNull, JNull), JDict [(''function_abi'', JStr ''{}'')])]) called_db ''0x07'' = Inr t \<and>
     explorer_transaction sample_log_env (\<lambda>_. Inr []) called_db ''0x07'' = Inr t"
proof -
  let ?abis = "\<lambda>_. Inr [((JNull, JNull), JDict [(''function_abi'', JStr ''{}'')])]"
  have "\<not> isl (explorer_transaction sample_log_env ?abis called_db ''0x07'')" by code_simp
  then obtain t where t: "explorer_transaction sample_log_env ?abis called_db ''0x07'' = Inr t"
    by (cases "explorer_transaction sample_log_env ?abis called_db ''0x07''") auto
  have "\<forall>r \<in> set (ed_transactions called_db). \<forall>t. cell_of r ''input'' \<noteq> CText t"
    by (simp add: called_db_def sample_explorer_db_def contract_call_def cell_of_def)
  from transaction_input_not_decoded [OF this t] t show ?thesis by blast
qed

end
