(* ===== verification/Exports.thy ===== *)
theory Exports
  imports Explorer
begin

text \<open>
  The exports as CSV files and the statistics of the explorer service (\<open>api/app/explorer/routes.py\<close>). Days are
  numbers of days, times are seconds; how texts are read as days and times are written is a parameter, as are the
  values of \<open>str\<close>.
\<close>

section \<open>Arguments\<close>

record 'f export_env =
  xe_day :: "string \<Rightarrow> int res"
  xe_seconds_of_day :: "int \<Rightarrow> int \<times> int"
  xe_seconds :: "int \<Rightarrow> string"
  xe_str :: "'f cell \<Rightarrow> string"
  xe_list :: "string list \<Rightarrow> string"
  xe_iso :: "int \<Rightarrow> string"
  xe_today :: int
  xe_now :: string
  xe_is_address :: "string \<Rightarrow> bool"

definition is_hex_digit :: "char \<Rightarrow> bool" where
  "is_hex_digit c \<longleftrightarrow> c \<in> set ''0123456789abcdefABCDEF''"

definition limit_address :: "string \<Rightarrow> string res" where
  "limit_address v =
     (if length v \<noteq> 42 then Inl (ValueError ''length'')
      else if take 2 v \<noteq> ''0x'' then Inl (ValueError ''prefix'')
      else if \<not> list_all is_hex_digit (drop 2 v) then Inl (ValueError ''hexadecimal'') else Inr v)"

record export_args =
  xa_startblock :: "string option"
  xa_endblock :: "string option"
  xa_startdate :: "string option"
  xa_enddate :: "string option"
  xa_filtertype :: "string option"
  xa_address :: "string option"
  xa_contractaddress :: "string option"

record parsed_args =
  pa_startblock :: int
  pa_endblock :: int
  pa_startdate :: "int option"
  pa_enddate :: "int option"
  pa_filtertype :: "string option"
  pa_address :: "string option"
  pa_contractaddress :: "string option"

text \<open>An argument that its type does not accept ends the request with status 400.\<close>

definition typed_arg :: "string \<Rightarrow> (string \<Rightarrow> 'a res) \<Rightarrow> string option \<Rightarrow> 'a option res" where
  "typed_arg name f a = (case a of None \<Rightarrow> Inr None | Some t \<Rightarrow> (case f t of Inl _ \<Rightarrow> Inl (api_error name) | Inr v \<Rightarrow> Inr (Some v)))"

definition one_of :: "string list \<Rightarrow> string \<Rightarrow> string res" where
  "one_of choices t = (if t \<in> set choices then Inr t else Inl (ValueError ''choice''))"

definition or_value :: "'a option \<Rightarrow> 'a \<Rightarrow> 'a" where
  "or_value a d = (case a of None \<Rightarrow> d | Some v \<Rightarrow> v)"

definition parse_export_args :: "'f export_env \<Rightarrow> export_args \<Rightarrow> parsed_args res" where
  "parse_export_args e a =
     rbind (typed_arg ''startblock'' parse_int (xa_startblock a)) (\<lambda>sb. rbind (typed_arg ''endblock'' parse_int (xa_endblock a)) (\<lambda>eb.
     rbind (typed_arg ''startdate'' (xe_day e) (xa_startdate a)) (\<lambda>sd. rbind (typed_arg ''enddate'' (xe_day e) (xa_enddate a)) (\<lambda>ed.
     rbind (typed_arg ''filtertype'' (one_of [''date'', ''block'']) (xa_filtertype a)) (\<lambda>ft.
     rbind (typed_arg ''address'' limit_address (xa_address a)) (\<lambda>ad.
     rbind (typed_arg ''contractaddress'' limit_address (xa_contractaddress a)) (\<lambda>ca.
       Inr \<lparr>pa_startblock = or_value sb 0, pa_endblock = or_value eb 4999, pa_startdate = sd, pa_enddate = ed,
         pa_filtertype = ft, pa_address = ad, pa_contractaddress = ca\<rparr>)))))))"

definition time_of :: "'f row \<Rightarrow> int" where
  "time_of r = cell_int (cell_of r ''timestamp'')"

definition number_or_0 :: "'f row option \<Rightarrow> int" where
  "number_or_0 r = (case r of None \<Rightarrow> 0 | Some b \<Rightarrow> cell_int (cell_of b ''number''))"

definition first_since :: "'f row list \<Rightarrow> int \<Rightarrow> 'f row option" where
  "first_since blocks t = first_row (sort_key time_of (filter (\<lambda>b. t \<le> time_of b) blocks))"

definition last_until :: "'f row list \<Rightarrow> int \<Rightarrow> 'f row option" where
  "last_until blocks t = first_row (sort_key (\<lambda>b. - time_of b) (filter (\<lambda>b. time_of b \<le> t) blocks))"

definition get_block_number_range :: "'f export_env \<Rightarrow> 'f row list \<Rightarrow> export_args \<Rightarrow> (int \<times> int) res" where
  "get_block_number_range e blocks a =
     rbind (parse_export_args e a) (\<lambda>p.
       if pa_filtertype p = Some ''date''
       then (case (pa_startdate p, pa_enddate p) of
               (Some s, Some d) \<Rightarrow> Inr (number_or_0 (first_since blocks (fst (xe_seconds_of_day e s))),
                                      number_or_0 (last_until blocks (snd (xe_seconds_of_day e d))))
             | _ \<Rightarrow> Inl (api_error ''Error date''))
       else Inr (pa_startblock p, pa_endblock p))"

section \<open>CSV\<close>

definition needs_quotes :: "string \<Rightarrow> bool" where
  "needs_quotes t \<longleftrightarrow> (\<exists>c \<in> set t. c = CHR '','' \<or> c = CHR 0x22 \<or> c = CHR 0x0D \<or> c = CHR 0x0A)"

definition csv_field :: "string \<Rightarrow> string" where
  "csv_field t = (if needs_quotes t
     then [CHR 0x22] @ concat (map (\<lambda>c. if c = CHR 0x22 then [c, c] else [c]) t) @ [CHR 0x22] else t)"

fun comma_separated :: "string list \<Rightarrow> string" where
  "comma_separated [] = []"
| "comma_separated [t] = t"
| "comma_separated (t # ts) = t @ '','' @ comma_separated ts"

text \<open>A line with the one field that is empty is written with quotes.\<close>

definition csv_line :: "string list \<Rightarrow> string" where
  "csv_line ts = (if ts = [[]] then [CHR 0x22, CHR 0x22] else comma_separated (map csv_field ts)) @ [CHR 0x0D, CHR 0x0A]"

definition csv_value :: "'f export_env \<Rightarrow> 'f cell \<Rightarrow> string" where
  "csv_value e c = (case c of CNone \<Rightarrow> [] | CText t \<Rightarrow> t | _ \<Rightarrow> xe_str e c)"

text \<open>\<open>DictWriter.writerow\<close>: a key without a column raises, a column without a value is empty.\<close>

definition csv_row :: "'f export_env \<Rightarrow> string list \<Rightarrow> 'f row \<Rightarrow> string res" where
  "csv_row e header r =
     (if \<exists>k \<in> fst ` set r. k \<notin> set header then Inl (ValueError ''dict contains fields not in fieldnames'')
      else Inr (csv_line (map (\<lambda>k. case map_of r k of None \<Rightarrow> [] | Some c \<Rightarrow> csv_value e c) header)))"

definition response_csv :: "'f export_env \<Rightarrow> 'f row list \<Rightarrow> string \<Rightarrow> string list \<Rightarrow> (string \<times> string) res" where
  "response_csv e data filename header =
     rbind (rmap (csv_row e header) data) (\<lambda>lines.
       Inr (filename @ ''.csv'', (if header = [] then [] else csv_line header) @ concat lines))"

section \<open>Transactions of an address\<close>

definition str_cell :: "'f export_env \<Rightarrow> 'f row \<Rightarrow> string \<Rightarrow> 'f cell" where
  "str_cell e r k = CText (case cell_of r k of CNone \<Rightarrow> ''None'' | CInt n \<Rightarrow> int_str n | CDecimal n \<Rightarrow> int_str n
     | CText t \<Rightarrow> t | c \<Rightarrow> xe_str e c)"

definition seconds_cell :: "'f export_env \<Rightarrow> 'f row \<Rightarrow> 'f cell res" where
  "seconds_cell e r = (case cell_of r ''block_timestamp'' of CTime t \<Rightarrow> Inr (CText (xe_seconds e t)) | _ \<Rightarrow> Inl AttributeError)"

definition TRANSACTION_EXPORT :: "string list" where
  "TRANSACTION_EXPORT = [''blockNumber'', ''timeStamp'', ''hash'', ''nonce'', ''blockHash'', ''transactionIndex'', ''from'', ''to'',
     ''value'', ''gas'', ''gasPrice'', ''isError'', ''receiptStatus'', ''contractAddress'', ''cumulativeGasUsed'', ''gasUsed'', ''methodId'']"

definition transaction_export :: "'f export_env \<Rightarrow> 'f row \<Rightarrow> 'f row res" where
  "transaction_export e r =
     rbind (seconds_cell e r) (\<lambda>t. rbind (hex_column r ''hash'') (\<lambda>h. rbind (hex_column r ''block_hash'') (\<lambda>bh.
     rbind (hex_column r ''from_address'') (\<lambda>f. rbind (hex_column r ''to_address'') (\<lambda>to.
     rbind (attribute r ''input'') (\<lambda>i. rbind (case i of CBytes b \<Rightarrow> Inr (take 10 (bytes_hex b)) | _ \<Rightarrow> Inl AttributeError) (\<lambda>m.
       Inr [(''blockNumber'', str_cell e r ''block_number''), (''timeStamp'', t), (''hash'', h), (''nonce'', str_cell e r ''nonce''),
         (''blockHash'', bh), (''transactionIndex'', str_cell e r ''transaction_index''), (''from'', f), (''to'', to),
         (''value'', str_cell e r ''value''), (''gas'', str_cell e r ''gas''), (''gasPrice'', str_cell e r ''gas_price''),
         (''isError'', CText (if number_of r ''receipt_status'' = Some 1 then ''0'' else ''1'')),
         (''receiptStatus'', str_cell e r ''receipt_status''), (''contractAddress'', cell_of r ''receipt_contract_address''),
         (''cumulativeGasUsed'', str_cell e r ''receipt_cumulative_gas_used''), (''gasUsed'', str_cell e r ''receipt_gas_used''),
         (''methodId'', CText (''0x'' @ m))])))))))"

definition in_range :: "int \<times> int \<Rightarrow> 'f row \<Rightarrow> bool" where
  "in_range = (\<lambda>(a, b) r. case number_of r ''block_number'' of Some n \<Rightarrow> a \<le> n \<and> n \<le> b | None \<Rightarrow> False)"

definition EXPORT_LIMIT :: nat where "EXPORT_LIMIT = 5000"

definition exported_rows :: "'f row list \<Rightarrow> int \<times> int \<Rightarrow> byte list \<Rightarrow> 'f row list" where
  "exported_rows table blocks_of address =
     take EXPORT_LIMIT (newest_first (filter (\<lambda>r. in_range blocks_of r \<and> transfer_holds (Touching address) r) table))"

definition export_address :: "'f export_env \<Rightarrow> 'f row list \<Rightarrow> export_args \<Rightarrow> string \<Rightarrow> (byte list \<times> int \<times> int) res" where
  "export_address e blocks a address =
     (if address = [] \<or> \<not> xe_is_address e address then Inl (api_error ''Error Wallet Address'')
      else rbind (path_bytes (str_lower address)) (\<lambda>b. rbind (get_block_number_range e blocks a) (\<lambda>blocks_of. Inr (b, blocks_of))))"

definition explorer_export_transactions :: "'f export_env \<Rightarrow> 'f explorer_db \<Rightarrow> export_args \<Rightarrow> string \<Rightarrow> (string \<times> string) res" where
  "explorer_export_transactions e db a address =
     rbind (export_address e (ed_blocks db) a address) (\<lambda>(b, blocks_of).
     rbind (rmap (transaction_export e) (exported_rows (ed_transactions db) blocks_of b)) (\<lambda>result.
       response_csv e result (''transactions-'' @ str_lower address @ ''-'' @ xe_now e) TRANSACTION_EXPORT))"

definition INTERNAL_EXPORT :: "string list" where
  "INTERNAL_EXPORT = [''blockNumber'', ''timeStamp'', ''hash'', ''from'', ''to'', ''value'', ''contractAddress'', ''type'', ''gas'',
     ''traceId'', ''isError'', ''errCode'']"

text \<open>The error is a text, which never equals \<open>0\<close>.\<close>

definition internal_export :: "'f export_env \<Rightarrow> 'f row \<Rightarrow> 'f row res" where
  "internal_export e r =
     rbind (seconds_cell e r) (\<lambda>t. rbind (hex_column r ''transaction_hash'') (\<lambda>h.
     rbind (hex_column r ''from_address'') (\<lambda>f. rbind (hex_column r ''to_address'') (\<lambda>to.
       Inr [(''blockNumber'', str_cell e r ''block_number''), (''timeStamp'', t), (''hash'', h), (''from'', f), (''to'', to),
         (''value'', str_cell e r ''value''),
         (''contractAddress'', if cell_of r ''trace_type'' \<in> {CText ''create'', CText ''create2''} then to else CText []),
         (''type'', cell_of r ''trace_type''), (''gas'', str_cell e r ''gas''), (''traceId'', cell_of r ''trace_id''),
         (''isError'', CText (if number_of r ''error'' = Some 0 then ''1'' else ''0'')), (''errCode'', cell_of r ''error'')]))))"

definition explorer_export_internal :: "'f export_env \<Rightarrow> 'f explorer_db \<Rightarrow> export_args \<Rightarrow> string \<Rightarrow> (string \<times> string) res" where
  "explorer_export_internal e db a address =
     rbind (export_address e (ed_blocks db) a address) (\<lambda>(b, blocks_of).
     rbind (rmap (internal_export e) (exported_rows (ed_internal db) blocks_of b)) (\<lambda>result.
       response_csv e result (''transactions-'' @ str_lower address @ ''-'' @ xe_now e) INTERNAL_EXPORT))"

section \<open>Token transfers\<close>

definition export_condition :: "byte list option \<Rightarrow> byte list option \<Rightarrow> 'f row \<Rightarrow> bool" where
  "export_condition contract address r \<longleftrightarrow>
     (case contract of None \<Rightarrow> True | Some c \<Rightarrow> transfer_holds (OfToken c) r) \<and>
     (case address of None \<Rightarrow> True | Some a \<Rightarrow> transfer_holds (Touching a) r)"

definition given_bytes :: "string option \<Rightarrow> byte list option res" where
  "given_bytes a = (if arg_given a then rbind (path_bytes (str_lower (the a))) (\<lambda>b. Inr (Some b)) else Inr None)"

text \<open>Transfers with their transactions, oldest first.\<close>

definition transfers_with_transaction :: "'f explorer_db \<Rightarrow> 'f row list \<Rightarrow> ('f row \<Rightarrow> bool) \<Rightarrow> ('f row \<times> 'f row) list" where
  "transfers_with_transaction db table c =
     take EXPORT_LIMIT (sort_key (\<lambda>p. cell_int (cell_of (fst p) ''block_number''))
       (concat (map (\<lambda>r. map (Pair r) (filter (\<lambda>t. cell_of r ''transaction_hash'' \<noteq> CNone \<and>
            cell_of t ''hash'' = cell_of r ''transaction_hash'') (ed_transactions db))) (filter c table))))"

definition TRANSFER_EXPORT :: "string list" where
  "TRANSFER_EXPORT = [''blockNumber'', ''timeStamp'', ''hash'', ''nonce'', ''blockHash'', ''contractAddress'', ''from'', ''to'',
     ''tokenName'', ''tokenSymbol'', ''transactionIndex'', ''gas'', ''gasPrice'', ''gasUsed'', ''cumulativeGasUsed'']"

definition transfer_export :: "'f export_env \<Rightarrow> 'f explorer_db \<Rightarrow> string \<Rightarrow> 'f row \<times> 'f row \<Rightarrow> 'f row res" where
  "transfer_export e db token_type = (\<lambda>(r, t).
     rbind (seconds_cell e r) (\<lambda>ts. rbind (hex_column r ''transaction_hash'') (\<lambda>h. rbind (hex_column r ''block_hash'') (\<lambda>bh.
     rbind (hex_column r ''token_address'') (\<lambda>ta. rbind (hex_column r ''from_address'') (\<lambda>f. rbind (hex_column r ''to_address'') (\<lambda>to.
     case find_row_cell (ed_tokens db) ''address'' (cell_of r ''token_address'') of
       None \<Rightarrow> Inl AttributeError
     | Some token \<Rightarrow>
         Inr ([(''blockNumber'', str_cell e r ''block_number''), (''timeStamp'', ts), (''hash'', h), (''nonce'', str_cell e t ''nonce''),
            (''blockHash'', bh), (''contractAddress'', ta), (''from'', f), (''to'', to), (''tokenName'', cell_of token ''name''),
            (''tokenSymbol'', cell_of token ''symbol''), (''transactionIndex'', str_cell e t ''transaction_index''),
            (''gas'', str_cell e t ''gas''), (''gasPrice'', str_cell e t ''gas_price''), (''gasUsed'', str_cell e t ''receipt_gas_used''),
            (''cumulativeGasUsed'', str_cell e t ''receipt_cumulative_gas_used'')] @
          (if token_type = ''ERC20'' then [(''value'', str_cell e r ''value''), (''tokenDecimal'', str_cell e token ''decimals'')]
           else if token_type = ''ERC721'' then [(''tokenID'', str_cell e r ''token_id'')]
           else if token_type = ''ERC1155'' then [(''tokenValue'', str_cell e r ''value''), (''tokenID'', str_cell e r ''token_id'')]
           else [])))))))))"

definition export_token_transfers ::
    "'f export_env \<Rightarrow> 'f explorer_db \<Rightarrow> string option \<Rightarrow> string option \<Rightarrow> int \<times> int \<Rightarrow> string \<Rightarrow> 'f row list res" where
  "export_token_transfers e db contract_address address blocks_of token_type =
     rbind (transfer_table db token_type) (\<lambda>table. rbind (given_bytes contract_address) (\<lambda>c. rbind (given_bytes address) (\<lambda>a.
     if address = None \<and> contract_address = None then Inl (api_error ''Error address'')
     else rmap (transfer_export e db token_type)
            (transfers_with_transaction db table (\<lambda>r. export_condition c a r \<and> in_range blocks_of r)))))"

definition transfer_header :: "string \<Rightarrow> string list" where
  "transfer_header token_type = TRANSFER_EXPORT @
     (if token_type = ''ERC20'' then [''value'', ''tokenDecimal''] else if token_type = ''ERC721'' then [''tokenID'']
      else [''tokenValue'', ''tokenID''])"

definition explorer_export_token_transfers :: "'f export_env \<Rightarrow> 'f explorer_db \<Rightarrow> string \<Rightarrow> export_args \<Rightarrow> (string \<times> string) res" where
  "explorer_export_token_transfers e db token_type a =
     rbind (get_block_number_range e (ed_blocks db) a) (\<lambda>blocks_of. rbind (parse_export_args e a) (\<lambda>p.
     rbind (export_token_transfers e db (pa_contractaddress p) (pa_address p) blocks_of token_type) (\<lambda>result.
       response_csv e result (str_lower token_type @ ''_token_transfers-'' @ xe_now e) (transfer_header token_type))))"

section \<open>Token holders\<close>

definition BALANCE_COLUMNS :: "string list" where
  "BALANCE_COLUMNS = [''address'', ''token_id'', ''token_type'', ''token_address'', ''balance'', ''block_number'', ''block_timestamp'',
     ''create_time'', ''update_time'', ''reorg'']"

definition build_entities :: "string list \<Rightarrow> string list \<Rightarrow> string list res" where
  "build_entities model columns = rmap (\<lambda>c. if c \<in> set model then Inr c else Inl AttributeError) columns"

definition token_holder_list :: "'f export_env \<Rightarrow> 'f explorer_db \<Rightarrow> string \<Rightarrow> 'f row list res" where
  "token_holder_list e db contract_address =
     rbind (path_bytes (str_lower contract_address)) (\<lambda>b.
     rbind (get_token_by_address db (str_lower contract_address)) (\<lambda>token.
     if token = None then Inr []
     else rbind (build_entities BALANCE_COLUMNS [''wallet_address'', ''balance_of'']) (\<lambda>columns.
       Inr (map (\<lambda>r. [(''TokenHolderAddress'', cell_of r ''wallet_address''), (''TokenHolderQuantity'', str_cell e r ''balance_of'')])
         (map (project columns) (get_token_holders (ed_current_balances db) b 10000 0))))))"

definition explorer_export_token_holders :: "'f export_env \<Rightarrow> 'f explorer_db \<Rightarrow> string \<Rightarrow> string \<Rightarrow> (string \<times> string) res" where
  "explorer_export_token_holders e db token_type contract_address =
     (if length contract_address \<noteq> 42 then Inl (api_error ''Error Wallet Address'')
      else rbind (token_holder_list e db contract_address) (\<lambda>result.
        response_csv e result (str_lower token_type @ ''_token_holders-'' @ xe_now e) [''TokenHolderAddress'', ''TokenHolderQuantity'']))"

section \<open>Statistics\<close>

record 'f stats_env =
  se_floats :: "'f floats"
  se_sub :: "'f \<Rightarrow> 'f \<Rightarrow> 'f"
  se_quot :: "'f \<Rightarrow> 'f \<Rightarrow> 'f"
  se_above_one :: "'f \<Rightarrow> bool"
  se_general :: "'f \<Rightarrow> string"
  se_round :: "nat \<Rightarrow> 'f \<Rightarrow> 'f"
  se_node :: web3_node
  se_native :: string
  se_dashboard :: string

definition explorer_health :: "'f export_env \<Rightarrow> 'f row list \<Rightarrow> string \<Rightarrow> 'f row res" where
  "explorer_health e blocks pool =
     (case get_last_block blocks of
        None \<Rightarrow> Inl AttributeError
      | Some b \<Rightarrow> Inr [(''latest_block_number'', cell_of b ''number''), (''latest_block_timestamp'', CText (xe_iso e (time_of b))),
          (''engine_pool_status'', CText pool), (''status'', CText ''OK'')])"

definition format_dollar_value :: "'f stats_env \<Rightarrow> 'f \<Rightarrow> string" where
  "format_dollar_value s v = (if se_above_one s v then f_text (se_floats s) 2 v else se_general s v)"

definition or_one :: "'f stats_env \<Rightarrow> 'f \<Rightarrow> 'f" where
  "or_one s v = (if f_is_zero (se_floats s) v then f_of_int (se_floats s) 1 else v)"

text \<open>The relative change of a price; it is the number 0 where there is no earlier price.\<close>

definition price_diff :: "'f stats_env \<Rightarrow> 'f \<Rightarrow> 'f \<Rightarrow> 'f cell" where
  "price_diff s now old =
     (if f_is_zero (se_floats s) old then CInt 0
      else CText (f_text (se_floats s) 4 (se_quot s (se_sub s now old) (or_one s old))))"

definition get_tps_latest_10min :: "'f stats_env \<Rightarrow> 'f row list \<Rightarrow> int \<Rightarrow> 'f" where
  "get_tps_latest_10min s transactions t =
     f_quotient (se_floats s) (int (length (filter (\<lambda>r. since (Some (t - 600)) r) transactions))) 600"

definition avg_block_time :: "'f floats \<Rightarrow> 'f row list \<Rightarrow> 'f row \<Rightarrow> 'f" where
  "avg_block_time fl blocks latest =
     (let n = cell_int (cell_of latest ''number''); n0 = max (n - 5000) 1;
          earlier = (case find_row blocks ''number'' n0 of None \<Rightarrow> latest | Some b \<Rightarrow> b)
      in f_quotient fl (time_of latest - time_of earlier) (if n - n0 = 0 then 1 else n - n0))"

definition explorer_stats :: "'f stats_env \<Rightarrow> 'f api \<Rightarrow> 'f explorer_db \<Rightarrow> 'f row res" where
  "explorer_stats s a db =
     (case get_last_block (ed_blocks db) of
        None \<Rightarrow> Inl AttributeError
      | Some latest \<Rightarrow>
          let fl = se_floats s; eth = get_token_price fl; native = get_token_price fl; dashboard = get_token_price fl
          in Inr [(''total_transactions'', CInt (get_total_txn_count a)),
               (''transaction_tps'', CFloat (se_round s 2 (get_tps_latest_10min s (ed_transactions db) (time_of latest)))),
               (''latest_batch'', CInt 0), (''latest_block'', cell_of latest ''number''),
               (''avg_block_time'', CFloat (avg_block_time fl (ed_blocks db) latest)),
               (''eth_price'', CText (format_dollar_value s eth)),
               (''eth_price_btc'', CText (f_text fl 5 (se_quot s eth (or_one s (get_token_price fl))))),
               (''eth_price_diff'', CText (f_text fl 4 (se_quot s (se_sub s eth (get_token_price fl)) (or_one s (get_token_price fl))))),
               (''native_token_price'', CText (format_dollar_value s native)),
               (''native_token_price_eth'', CText (f_text fl 5 (se_quot s native (or_one s eth)))),
               (''native_token_price_diff'', price_diff s native (get_token_price fl)),
               (''dashboard_token_price_eth'', CText (f_text fl 5 (se_quot s dashboard (or_one s eth)))),
               (''dashboard_token_price'', CText (format_dollar_value s dashboard)),
               (''dashboard_token_price_diff'', price_diff s dashboard (get_token_price fl)),
               (''gas_fee'', CText (strip_zeros (f_text fl 6 (f_quotient fl (get_gas_price (se_node s)) (10 ^ 9))) @ '' Gwei''))])"

section \<open>Charts\<close>

text \<open>A table of daily values: rows with the number of their day, its columns and those that are decimals.\<close>

record 'f daily_table =
  dt_rows :: "(int \<times> 'f row) list"
  dt_fields :: "string list"
  dt_numeric :: "string list"

definition get_daily_transactions_cnt :: "'f daily_table \<Rightarrow> nat \<Rightarrow> (int \<times> 'f row) list" where
  "get_daily_transactions_cnt t limit = take limit (sort_key (\<lambda>r. - fst r) (dt_rows t))"

definition explorer_transactions_per_day :: "'f export_env \<Rightarrow> 'f daily_table \<Rightarrow> 'f row list" where
  "explorer_transactions_per_day e t =
     map (\<lambda>(d, r). [(''value'', CText (xe_iso e d)), (''count'', cell_of r ''cnt'')]) (get_daily_transactions_cnt t 14)"

text \<open>An answer of a chart: an error with status 400 or the data.\<close>

datatype 'f chart = ChartError string | ChartData "'f row list"

definition chart_metrics :: "string \<Rightarrow> string list" where
  "chart_metrics t = filter (\<lambda>m. m \<noteq> []) (map str_strip (str_split (CHR '','') t))"

definition chart_days :: "'f export_env \<Rightarrow> string option \<Rightarrow> string option \<Rightarrow> int \<Rightarrow> string + int \<times> int" where
  "chart_days e start_date end_date first_day =
     (case (case start_date of None \<Rightarrow> Inr first_day | Some t \<Rightarrow> xe_day e t) of
        Inl _ \<Rightarrow> Inl ''Invalid start_date format. Expected format: YYYY-MM-DD.''
      | Inr s \<Rightarrow> (case (case end_date of None \<Rightarrow> Inr (xe_today e - 1) | Some t \<Rightarrow> xe_day e t) of
          Inl _ \<Rightarrow> Inl ''Invalid end_date format. Expected format: YYYY-MM-DD.''
        | Inr d \<Rightarrow> if d < s then Inl ''end_date should not be earlier than start_date.'' else Inr (s, d)))"

text \<open>The fields that are asked of each table, in the order of the metrics.\<close>

fun tables_to_query :: "string list \<Rightarrow> (string \<times> string list) list \<Rightarrow> string + (string \<times> string list) list" where
  "tables_to_query [] m = Inr m"
| "tables_to_query (metric # ms) m =
     (case str_split (CHR ''.'') metric of
        [t, f] \<Rightarrow> tables_to_query ms (AList.update t (or_value (map_of m t) [] @ [f]) m)
      | _ \<Rightarrow> Inl (''Invalid metric: '' @ metric @ ''.''))"

definition chart_value :: "'f floats \<Rightarrow> 'f daily_table \<Rightarrow> string \<Rightarrow> 'f row \<Rightarrow> 'f cell" where
  "chart_value fl t field r =
     (let v = cell_of r field;
          v = (if field \<in> set (dt_numeric t)
               then (case v of CNone \<Rightarrow> CInt 0 | CDecimal n \<Rightarrow> CFloat (f_of_int fl n) | CInt n \<Rightarrow> CFloat (f_of_int fl n) | c \<Rightarrow> c) else v)
      in if truthy_cell fl v then v else CInt 0)"

definition chart_record :: "'f export_env \<Rightarrow> 'f floats \<Rightarrow> string \<Rightarrow> 'f daily_table \<Rightarrow> string list \<Rightarrow> int \<times> 'f row
    \<Rightarrow> (string \<times> 'f row) list \<Rightarrow> (string \<times> 'f row) list" where
  "chart_record e fl name t columns = (\<lambda>(d, r) data.
     let block_date = xe_iso e d; entry = or_value (map_of data block_date) [(''date'', CText block_date)]
     in AList.update block_date
          (fold (\<lambda>f. AList.update (name @ ''.'' @ f) (chart_value fl t f r)) columns entry) data)"

definition chart_records :: "'f daily_table \<Rightarrow> int \<times> int \<Rightarrow> (int \<times> 'f row) list" where
  "chart_records t = (\<lambda>(s, d). filter (\<lambda>r. s \<le> fst r \<and> fst r \<le> d) (dt_rows t))"

definition quoted :: "string \<Rightarrow> string" where
  "quoted t = [CHR 0x22] @ t @ [CHR 0x22]"

fun chart_tables :: "'f export_env \<Rightarrow> 'f floats \<Rightarrow> string list \<Rightarrow> (string \<Rightarrow> 'f daily_table option) \<Rightarrow> int \<times> int
    \<Rightarrow> (string \<times> string list) list \<Rightarrow> (string \<times> 'f row) list \<Rightarrow> string + (string \<times> 'f row) list" where
  "chart_tables e fl metrics tables days [] data = Inr data"
| "chart_tables e fl metrics tables days ((name, columns) # ms) data =
     (case tables name of
        None \<Rightarrow> Inl (''Unknown table name in metric: '' @ xe_list e metrics @ ''.'')
      | Some t \<Rightarrow> (case List.find (\<lambda>f. f \<notin> set (dt_fields t)) columns of
            Some f \<Rightarrow> Inl (''Unknown field '' @ quoted f @ '' in table '' @ quoted name @ ''.'')
          | None \<Rightarrow> chart_tables e fl metrics tables days ms (fold (chart_record e fl name t columns) (chart_records t days) data)))"

definition explorer_chart_daily ::
    "'f export_env \<Rightarrow> 'f floats \<Rightarrow> (string \<Rightarrow> 'f daily_table option) \<Rightarrow> int \<Rightarrow> string option \<Rightarrow> string option \<Rightarrow> string option
     \<Rightarrow> 'f chart" where
  "explorer_chart_daily e fl tables first_day metrics start_date end_date =
     (let metrics_list = chart_metrics (or_default metrics [])
      in if metrics_list = [] then ChartError ''No metrics provided.''
         else case rbind (chart_days e start_date end_date first_day) (\<lambda>days.
             rbind (tables_to_query metrics_list []) (\<lambda>m. chart_tables e fl metrics_list tables days m [])) of
           Inl t \<Rightarrow> ChartError t
         | Inr data \<Rightarrow> ChartData (map snd (sort_key fst data)))"

section \<open>Ranks\<close>

text \<open>\<open>rows\<close> is the query of a statistic with a limit.\<close>

definition rank_args :: "string list \<Rightarrow> string option \<Rightarrow> string option \<Rightarrow> (string \<times> int) res" where
  "rank_args known statistics limit =
     (let n = (case limit of None \<Rightarrow> 10 | Some t \<Rightarrow> or_else (parse_int t) 10)
      in if 100 < n then Inl (api_error ''Limit should not be greater than 100'')
         else case statistics of
                None \<Rightarrow> Inl (api_error ''Invalid or missing statistics type'')
              | Some t \<Rightarrow> if t \<in> set known then Inr (t, n) else Inl (api_error ''Invalid or missing statistics type''))"

definition explorer_contract_ranks :: "'f floats \<Rightarrow> (string \<Rightarrow> int \<Rightarrow> 'f row list) \<Rightarrow> string option \<Rightarrow> string option \<Rightarrow> 'f row list res" where
  "explorer_contract_ranks fl rows statistics limit =
     rbind (rank_args [''transactions_received''] statistics limit) (\<lambda>(t, n). Inr (map (row_to_dict fl) (rows t n)))"

text \<open>Without a client the result is a variable that was never set.\<close>

definition get_ens_mapping :: "(string list \<Rightarrow> (string \<times> string) list) option \<Rightarrow> string list \<Rightarrow> (string \<times> string) list res" where
  "get_ens_mapping ens addresses = (case ens of None \<Rightarrow> Inl UnboundLocalError | Some f \<Rightarrow> Inr (f addresses))"

definition explorer_address_ranks ::
    "'f floats \<Rightarrow> (string \<Rightarrow> int \<Rightarrow> 'f row list) \<Rightarrow> (string list \<Rightarrow> (string \<times> string) list) option \<Rightarrow> string option
     \<Rightarrow> string option \<Rightarrow> 'f row list res" where
  "explorer_address_ranks fl rows ens statistics limit =
     rbind (rank_args [''gas_used'', ''transactions_sent''] statistics limit) (\<lambda>(t, n).
     rbind (rmap (\<lambda>r. rbind (hex_column r ''address'') cell_text) (rows t n)) (\<lambda>addresses.
     rbind (get_ens_mapping ens addresses) (\<lambda>mapping.
       Inr (map (\<lambda>(a, r). AList.update ''ens_name'' (case map_of mapping a of None \<Rightarrow> CNone | Some x \<Rightarrow> CText x) (row_to_dict fl r))
          (zip addresses (rows t n))))))"

section \<open>Days are exported as ranges of blocks\<close>

text \<open>Blocks with their numbers and times, which grow together: no two blocks have the same time. Where blocks share a
  time, as on Arbitrum, which of them is the first of a day is up to the database.\<close>

definition blocks_timed :: "'f row list \<Rightarrow> bool" where
  "blocks_timed blocks \<longleftrightarrow> (\<forall>b \<in> set blocks. \<forall>c \<in> set blocks.
     cell_int (cell_of b ''number'') \<le> cell_int (cell_of c ''number'') \<longleftrightarrow> time_of b \<le> time_of c)"

lemma first_row_sort_key:
  assumes "b \<in> set xs"
  shows "\<exists>f \<in> set xs. first_row (sort_key k xs) = Some f \<and> (\<forall>x \<in> set xs. k f \<le> k x)"
proof (cases "sort_key k xs")
  case Nil
  with assms show ?thesis by (metis empty_iff empty_set set_sort)
next
  case (Cons f fs)
  then have "f \<in> set xs" by (metis list.set_intros(1) set_sort)
  moreover have "k f \<le> k x" if "x \<in> set xs" for x by (rule sort_key_hd_least [OF that Cons])
  ultimately show ?thesis using Cons by (auto simp: first_row_def)
qed

text \<open>C33: where block times grow strictly with block numbers, the range of block numbers of an export between two days
  holds exactly the blocks of these days, provided that there is a block since the first day and one until the last
  day. (Of the rows in this range an export then takes the first 5000.)\<close>

theorem export_dates_select:
  assumes "blocks_timed blocks" and "parse_export_args e a = Inr p"
    and "pa_filtertype p = Some ''date''" "pa_startdate p = Some s" "pa_enddate p = Some d"
    and "c1 \<in> set blocks" "fst (xe_seconds_of_day e s) \<le> time_of c1"
    and "c2 \<in> set blocks" "time_of c2 \<le> snd (xe_seconds_of_day e d)" and "b \<in> set blocks"
  shows "\<exists>lo hi. get_block_number_range e blocks a = Inr (lo, hi) \<and>
    (lo \<le> cell_int (cell_of b ''number'') \<and> cell_int (cell_of b ''number'') \<le> hi \<longleftrightarrow>
     fst (xe_seconds_of_day e s) \<le> time_of b \<and> time_of b \<le> snd (xe_seconds_of_day e d))"
proof -
  let ?t0 = "fst (xe_seconds_of_day e s)" and ?t1 = "snd (xe_seconds_of_day e d)"
  obtain f where f: "f \<in> set blocks" "?t0 \<le> time_of f" "first_since blocks ?t0 = Some f"
    "\<forall>x \<in> set blocks. ?t0 \<le> time_of x \<longrightarrow> time_of f \<le> time_of x"
    using first_row_sort_key [of c1 "filter (\<lambda>b. ?t0 \<le> time_of b) blocks" time_of] assms(6,7)
    by (auto simp: first_since_def)
  obtain l where l: "l \<in> set blocks" "time_of l \<le> ?t1" "last_until blocks ?t1 = Some l"
    "\<forall>x \<in> set blocks. time_of x \<le> ?t1 \<longrightarrow> time_of x \<le> time_of l"
    using first_row_sort_key [of c2 "filter (\<lambda>b. time_of b \<le> ?t1) blocks" "\<lambda>b. - time_of b"] assms(8,9)
    by (auto simp: last_until_def)
  have g: "get_block_number_range e blocks a = Inr (cell_int (cell_of f ''number''), cell_int (cell_of l ''number''))"
    using assms(2-5) f(3) l(3) by (simp add: get_block_number_range_def number_or_0_def)
  have t: "cell_int (cell_of x ''number'') \<le> cell_int (cell_of y ''number'') \<longleftrightarrow> time_of x \<le> time_of y"
    if "x \<in> set blocks" "y \<in> set blocks" for x y using assms(1) that unfolding blocks_timed_def by blast
  have "time_of f \<le> time_of b \<longleftrightarrow> ?t0 \<le> time_of b" using f(2,4) assms(10) order_trans by blast
  moreover have "time_of b \<le> time_of l \<longleftrightarrow> time_of b \<le> ?t1" using l(2,4) assms(10) order_trans by blast
  ultimately show ?thesis using g by (simp add: t f(1) l(1) assms(10))
qed

text \<open>With no block since the first day the export begins with block 0 instead of being empty.\<close>

lemma future_start_exports_all:
  assumes "parse_export_args e a = Inr p" and "pa_filtertype p = Some ''date''" "pa_startdate p = Some s" "pa_enddate p = Some d"
    and "\<forall>b \<in> set blocks. time_of b < fst (xe_seconds_of_day e s)"
  shows "\<exists>hi. get_block_number_range e blocks a = Inr (0, hi)"
proof -
  have "filter (\<lambda>b. fst (xe_seconds_of_day e s) \<le> time_of b) blocks = []" using assms(5) by (auto simp: filter_empty_conv)
  then show ?thesis using assms(1-4) by (simp add: get_block_number_range_def first_since_def number_or_0_def first_row_def)
qed

text \<open>Holders of a known token are never exported: the columns that are asked for do not exist.\<close>

lemma known_token_holders_fail:
  assumes "explorer_export_token_holders e db token_type a = Inr r"
  shows "get_token_by_address db (str_lower a) = Inr None"
  using assms by (auto simp: explorer_export_token_holders_def token_holder_list_def rbind_Inr_iff build_entities_def
    BALANCE_COLUMNS_def split: if_splits)

text \<open>A transaction without receiver, which creates a contract, breaks the export.\<close>

lemma creation_breaks_export:
  assumes "export_address e (ed_blocks db) a address = Inr (b, lo, hi)"
    and "r \<in> set (exported_rows (ed_transactions db) (lo, hi) b)" and "cell_of r ''to_address'' = CNone"
  shows "\<nexists>x. explorer_export_transactions e db a address = Inr x"
proof
  assume "\<exists>x. explorer_export_transactions e db a address = Inr x"
  then obtain rows where "rmap (transaction_export e) (exported_rows (ed_transactions db) (lo, hi) b) = Inr rows"
    using assms(1) by (auto simp: explorer_export_transactions_def rbind_Inr_iff)
  then obtain row where "transaction_export e r = Inr row"
    using assms(2) by (auto simp: rmap_Inr_iff list_all2_conv_all_nth in_set_conv_nth)
  then show False
    using assms(3) by (auto simp: transaction_export_def rbind_Inr_iff hex_column_def attribute_def cell_of_def split: option.splits)
qed

section \<open>A chart has one entry for each day\<close>

definition chart_ok :: "(string \<times> 'f row) list \<Rightarrow> bool" where
  "chart_ok data \<longleftrightarrow> distinct (map fst data) \<and> (\<forall>(k, r) \<in> set data. map_of r ''date'' = Some (CText k))"

lemma date_kept: "map_of (fold (\<lambda>f. AList.update (name @ ''.'' @ f) (v f)) fs r) ''date'' = map_of r ''date''"
proof (induction fs arbitrary: r)
  case (Cons f fs)
  have "''date'' \<noteq> name @ ''.'' @ f"
  proof
    assume "''date'' = name @ ''.'' @ f"
    then have "CHR ''.'' \<in> set ''date''" by simp
    then show False by simp
  qed
  with Cons show ?case by (simp add: update_conv')
qed simp

lemma chart_record_ok:
  assumes "chart_ok data"
  shows "chart_ok (chart_record e fl name t fs x data)"
    and "fst ` set (chart_record e fl name t fs x data) = insert (xe_iso e (fst x)) (fst ` set data)"
proof -
  obtain d r where x: "x = (d, r)" by (cases x)
  let ?k = "xe_iso e d"
  let ?entry = "or_value (map_of data ?k) [(''date'', CText ?k)]"
  have "map_of ?entry ''date'' = Some (CText ?k)"
    using assms by (auto simp: or_value_def chart_ok_def split: option.split dest: map_of_SomeD)
  then have e: "map_of (fold (\<lambda>f. AList.update (name @ ''.'' @ f) (chart_value fl t f r)) fs ?entry) ''date'' = Some (CText ?k)"
    by (simp only: date_kept)
  show "chart_ok (chart_record e fl name t fs x data)"
    unfolding chart_ok_def
  proof
    show "distinct (map fst (chart_record e fl name t fs x data))"
      using assms by (simp add: chart_record_def x Let_def distinct_update chart_ok_def)
    have "map_of u ''date'' = Some (CText k)"
      if "(k, u) \<in> set (AList.update ?k v data)" "map_of v ''date'' = Some (CText ?k)" for k u v
    proof -
      have "map_of (AList.update ?k v data) k = Some u"
        using that(1) assms by (intro map_of_is_SomeI distinct_update) (auto simp: chart_ok_def)
      then have "(if k = ?k then Some v else map_of data k) = Some u" by (simp add: update_conv' fun_upd_def split: if_splits)
      then show ?thesis using that(2) assms by (auto simp: chart_ok_def split: if_splits dest: map_of_SomeD)
    qed
    then show "\<forall>(k, u) \<in> set (chart_record e fl name t fs x data). map_of u ''date'' = Some (CText k)"
      using e by (auto simp: chart_record_def x Let_def)
  qed
  show "fst ` set (chart_record e fl name t fs x data) = insert (xe_iso e (fst x)) (fst ` set data)"
    by (simp add: chart_record_def x Let_def dom_update)
qed

lemma chart_records_ok:
  "chart_ok data \<Longrightarrow> chart_ok (fold (chart_record e fl name t fs) xs data) \<and>
     fst ` set (fold (chart_record e fl name t fs) xs data) = xe_iso e ` fst ` set xs \<union> fst ` set data"
  by (induction xs arbitrary: data) (auto simp: chart_record_ok)

lemma chart_tables_ok:
  "\<lbrakk>chart_tables e fl metrics tables days m data = Inr data'; chart_ok data\<rbrakk> \<Longrightarrow> chart_ok data' \<and>
     fst ` set data' = (\<Union>(name, _) \<in> set m. xe_iso e ` fst ` set (chart_records (the (tables name)) days)) \<union> fst ` set data"
proof (induction m arbitrary: data)
  case (Cons x m)
  obtain name fs where x: "x = (name, fs)" by (cases x)
  from Cons.prems(1) obtain t where t: "tables name = Some t"
    "chart_tables e fl metrics tables days m (fold (chart_record e fl name t fs) (chart_records t days) data) = Inr data'"
    by (auto simp: x split: option.splits)
  from chart_records_ok [OF Cons.prems(2)] Cons.IH [OF t(2)] t(1) show ?case by (auto simp: x)
qed simp

lemma chart_tables_known:
  "chart_tables e fl metrics tables days m data = Inr data' \<Longrightarrow> name \<in> fst ` set m \<Longrightarrow> \<exists>t. tables name = Some t"
proof (induction m arbitrary: data)
  case (Cons x m)
  obtain name' fs where x: "x = (name', fs)" by (cases x)
  from Cons.prems(1) obtain t data1 where "tables name' = Some t" "chart_tables e fl metrics tables days m data1 = Inr data'"
    by (auto simp: x split: option.splits)
  with Cons.IH Cons.prems(2) show ?case by (auto simp: x)
qed simp

lemma tables_to_query_names:
  "tables_to_query ms m0 = Inr m \<Longrightarrow>
     fst ` set m = fst ` set m0 \<union> {name. \<exists>metric \<in> set ms. \<exists>f. str_split (CHR ''.'') metric = [name, f]}"
proof (induction ms arbitrary: m0)
  case (Cons metric ms)
  from Cons.prems obtain t f where tf: "str_split (CHR ''.'') metric = [t, f]"
    "tables_to_query ms (AList.update t (or_value (map_of m0 t) [] @ [f]) m0) = Inr m"
    by (auto split: list.splits)
  have "fst ` set (AList.update t v m0) = insert t (fst ` set m0)" for v by (simp add: dom_update)
  with Cons.IH [OF tf(2)] tf(1) show ?case by auto
qed simp

lemma days_of_tables:
  fixes tables :: "string \<Rightarrow> 'f daily_table option"
  assumes "\<And>name. name \<in> N \<Longrightarrow> \<exists>t. tables name = Some t"
  shows "(\<Union>name \<in> N. day_text ` fst ` set (chart_records (the (tables name)) (lo, hi))) =
    {day_text d | d. lo \<le> d \<and> d \<le> hi \<and> (\<exists>name \<in> N. \<exists>t r. tables name = Some t \<and> (d, r) \<in> set (dt_rows t))}"
proof -
  have days: "fst ` set (chart_records t (lo, hi)) = {d. lo \<le> d \<and> d \<le> hi \<and> (\<exists>r. (d, r) \<in> set (dt_rows t))}" for t :: "'f daily_table"
    by (force simp: chart_records_def)
  have "(\<exists>t r. tables name = Some t \<and> (d, r) \<in> set (dt_rows t)) \<longleftrightarrow> (\<exists>r. (d, r) \<in> set (dt_rows (the (tables name))))"
    if "name \<in> N" for name d using assms [OF that] by auto
  then show ?thesis unfolding days by blast
qed

lemma days_of_metrics:
  fixes tables :: "string \<Rightarrow> 'f daily_table option"
  assumes "N = {name. \<exists>metric \<in> set (chart_metrics ms). \<exists>f. str_split (CHR ''.'') metric = [name, f]}"
    and "\<And>name. name \<in> N \<Longrightarrow> \<exists>t. tables name = Some t"
  shows "(\<Union>name \<in> N. day_text ` fst ` set (chart_records (the (tables name)) (lo, hi))) =
    {day_text d | d. lo \<le> d \<and> d \<le> hi \<and> (\<exists>piece \<in> set (str_split (CHR '','') ms). \<exists>name f t r.
       str_split (CHR ''.'') (str_strip piece) = [name, f] \<and> tables name = Some t \<and> (d, r) \<in> set (dt_rows t))}"
proof -
  have "str_split (CHR ''.'') [] \<noteq> [name, f]" for name f by simp
  then have "(name \<in> N) = (\<exists>piece \<in> set (str_split (CHR '','') ms). \<exists>f. str_split (CHR ''.'') (str_strip piece) = [name, f])" for name
    unfolding assms(1) chart_metrics_def by (auto simp: Bex_def)
  then have *: "(\<exists>name \<in> N. \<exists>t r. tables name = Some t \<and> (d, r) \<in> set (dt_rows t)) \<longleftrightarrow>
      (\<exists>piece \<in> set (str_split (CHR '','') ms). \<exists>name f t r.
        str_split (CHR ''.'') (str_strip piece) = [name, f] \<and> tables name = Some t \<and> (d, r) \<in> set (dt_rows t))" for d
    unfolding Bex_def by meson
  show ?thesis unfolding * [symmetric] by (rule days_of_tables) (rule assms(2))
qed

text \<open>C34: a chart that is answered has exactly one entry for each day from the first to the last one asked for (from the
  first day there is and to yesterday if none is given) on which a table of one of the metrics has a row, and the
  entries are sorted by their date.\<close>

theorem chart_one_entry_per_day:
  assumes "explorer_chart_daily e fl tables first_day metrics start_date end_date = ChartData data"
  shows "\<exists>lo hi dates. (case start_date of None \<Rightarrow> lo = first_day | Some t \<Rightarrow> xe_day e t = Inr lo) \<and>
    (case end_date of None \<Rightarrow> hi = xe_today e - 1 | Some t \<Rightarrow> xe_day e t = Inr hi) \<and> lo \<le> hi \<and>
    map (\<lambda>r. cell_of r ''date'') data = map CText dates \<and> sorted dates \<and> distinct dates \<and>
    set dates = {xe_iso e d | d. lo \<le> d \<and> d \<le> hi \<and>
      (\<exists>piece \<in> set (str_split (CHR '','') (or_default metrics [])). \<exists>name f t r.
         str_split (CHR ''.'') (str_strip piece) = [name, f] \<and> tables name = Some t \<and> (d, r) \<in> set (dt_rows t))}"
proof -
  let ?ms = "chart_metrics (or_default metrics [])"
  from assms obtain days m data' where d: "chart_days e start_date end_date first_day = Inr days"
    "tables_to_query ?ms [] = Inr m" "chart_tables e fl ?ms tables days m [] = Inr data'" "data = map snd (sort_key fst data')"
    by (auto simp: explorer_chart_daily_def Let_def rbind_def split: if_splits sum.splits)
  obtain lo hi where days: "days = (lo, hi)" by (cases days)
  from d(1) have range: "case start_date of None \<Rightarrow> lo = first_day | Some t \<Rightarrow> xe_day e t = Inr lo"
    "case end_date of None \<Rightarrow> hi = xe_today e - 1 | Some t \<Rightarrow> xe_day e t = Inr hi" "lo \<le> hi"
    by (auto simp: chart_days_def days split: option.splits sum.splits if_splits)
  have ok: "chart_ok data'" "fst ` set data' = (\<Union>(name, _) \<in> set m. xe_iso e ` fst ` set (chart_records (the (tables name)) days))"
    using chart_tables_ok [OF d(3)] by (auto simp: chart_ok_def)
  have asked: "fst ` set m = {name. \<exists>metric \<in> set ?ms. \<exists>f. str_split (CHR ''.'') metric = [name, f]}"
    using tables_to_query_names [OF d(2)] by simp
  have known: "\<exists>t. tables name = Some t" if "name \<in> fst ` set m" for name
    using chart_tables_known [OF d(3)] that by auto
  let ?dates = "map fst (sort_key fst data')"
  have "map (\<lambda>r. cell_of r ''date'') data = map CText ?dates"
    using ok(1) by (auto simp: d(4) chart_ok_def cell_of_def)
  moreover have "distinct ?dates"
    using ok(1) by (simp add: chart_ok_def distinct_map)
  moreover have dates: "set ?dates = (\<Union>name \<in> fst ` set m. xe_iso e ` fst ` set (chart_records (the (tables name)) (lo, hi)))"
    using ok(2) by (simp add: days case_prod_unfold)
  note trans [OF dates days_of_metrics [OF asked known]]
  ultimately show ?thesis
    using range sorted_sort_key [of fst data'] by (intro exI [of _ lo] exI [of _ hi] exI [of _ ?dates] conjI)
qed

section \<open>Samples\<close>

definition sample_export_env :: "int export_env" where
  "sample_export_env = \<lparr>xe_day = parse_int, xe_seconds_of_day = (\<lambda>d. (86400 * d, 86400 * d + 86399)), xe_seconds = int_str,
     xe_str = (\<lambda>_. []), xe_list = concat, xe_iso = int_str, xe_today = 9, xe_now = ''now'', xe_is_address = (\<lambda>_. True)\<rparr>"

definition sample_export_args :: export_args where
  "sample_export_args = \<lparr>xa_startblock = None, xa_endblock = None, xa_startdate = Some ''1'', xa_enddate = Some ''1'',
     xa_filtertype = Some ''date'', xa_address = None, xa_contractaddress = None\<rparr>"

definition timed_block :: "int \<Rightarrow> int row" where
  "timed_block n = [(''number'', CInt n), (''timestamp'', CTime (50000 * n))]"

lemma timed_block_simps: "cell_int (cell_of (timed_block n) ''number'') = n" "time_of (timed_block n) = 50000 * n"
  by (simp_all add: timed_block_def cell_of_def time_of_def)

theorem export_dates_select_witness:
  "\<exists>lo hi. get_block_number_range sample_export_env (map timed_block [0, 1, 2, 3, 4]) sample_export_args = Inr (lo, hi) \<and>
     lo \<le> 2 \<and> 2 \<le> hi \<and> \<not> (lo \<le> 1 \<and> 1 \<le> hi)"
proof -
  let ?bs = "map timed_block [0, 1, 2, 3, 4]"
  have ok: "blocks_timed ?bs" by (simp add: blocks_timed_def timed_block_simps)
  have "\<not> isl (parse_export_args sample_export_env sample_export_args)" by code_simp
  then obtain p where p: "parse_export_args sample_export_env sample_export_args = Inr p"
    by (cases "parse_export_args sample_export_env sample_export_args") auto
  have "pa_filtertype (or_else (parse_export_args sample_export_env sample_export_args) undefined) = Some ''date'' \<and>
    pa_startdate (or_else (parse_export_args sample_export_env sample_export_args) undefined) = Some 1 \<and>
    pa_enddate (or_else (parse_export_args sample_export_env sample_export_args) undefined) = Some 1" by code_simp
  then have q: "pa_filtertype p = Some ''date''" "pa_startdate p = Some 1" "pa_enddate p = Some 1" by (simp_all add: p or_else_def)
  have s: "xe_seconds_of_day sample_export_env 1 = (86400, 172799)" by (simp add: sample_export_env_def)
  from export_dates_select [OF ok p q, of "timed_block 2" "timed_block 2" "timed_block 2"]
    export_dates_select [OF ok p q, of "timed_block 2" "timed_block 2" "timed_block 1"]
  show ?thesis by (auto simp: s timed_block_simps)
qed

definition sample_daily :: "string \<Rightarrow> int daily_table option" where
  "sample_daily t = (if t = ''block'' then Some \<lparr>dt_rows = [(2, [(''cnt'', CInt 7)]), (1, [(''cnt'', CInt 5)])], dt_fields = [''cnt''], dt_numeric = []\<rparr>
     else None)"

theorem chart_one_entry_per_day_witness:
  "\<exists>data. explorer_chart_daily sample_export_env sample_floats sample_daily 0 (Some ''block.cnt'') None None = ChartData data \<and>
     length data = 2"
proof -
  let ?c = "explorer_chart_daily sample_export_env sample_floats sample_daily 0 (Some ''block.cnt'') None None"
  have "(case ?c of ChartData _ \<Rightarrow> True | _ \<Rightarrow> False)" by code_simp
  then obtain data where d: "?c = ChartData data" by (cases ?c) auto
  have pieces: "str_split (CHR '','') (or_default (Some ''block.cnt'') []) = [''block.cnt'']"
    "str_split (CHR ''.'') (str_strip ''block.cnt'') = [''block'', ''cnt'']" by code_simp+
  from chart_one_entry_per_day [OF d] obtain dates where
    e: "map (\<lambda>r. cell_of r ''date'') data = map CText dates" "distinct dates"
      "set dates = {xe_iso sample_export_env d | d. 0 \<le> d \<and> d \<le> 8 \<and>
         (\<exists>t r. sample_daily ''block'' = Some t \<and> (d, r) \<in> set (dt_rows t))}"
    unfolding pieces by (auto simp: pieces sample_export_env_def)
  have "{xe_iso sample_export_env d | d. 0 \<le> d \<and> d \<le> 8 \<and> (\<exists>t r. sample_daily ''block'' = Some t \<and> (d, r) \<in> set (dt_rows t))} =
      {int_str 1, int_str 2}"
    by (auto simp: sample_daily_def sample_export_env_def)
  with e(3) have "set dates = {int_str 1, int_str 2}" by simp
  moreover have "int_str 1 \<noteq> int_str 2" by code_simp
  ultimately have "card (set dates) = 2" by simp
  then have "length dates = 2" using distinct_card [OF e(2)] by simp
  then have "length data = 2" using arg_cong [OF e(1), of length] by simp
  with d show ?thesis by blast
qed

end
