(* ===== verification/Spec2Isabelle.thy ===== *)
theory Spec2Isabelle
  imports Utils Executor Stream Dataclass TokenIds Traces Enrich Exporters Migrations Bedrock UserOps Activeness Fixing Uniswap WebUtils BridgeView FileExporters Entities Views Routes TokensJob Rollups Verification Explorer Exports
begin

text \<open>
  Verification development of the Hemera indexer, a program that follows an EVM chain through the JSON-RPC
  interface of a node, turns its blocks into typed records and writes them to a database.

  \<^bold>\<open>The program.\<close> A stream controller asks the node for the latest block, takes a range of blocks below it and
  hands it to a dispatcher; the dispatcher runs a list of jobs over the range, in an order in which each job
  comes after those whose records it reads. The jobs share a buffer of records by type. The first job of a run
  reads the blocks, perhaps only the transactions a filter selects; others read receipts, traces, token
  transfers, balances and owners, or decode the logs of bridges, bundlers and exchanges. Each job splits its
  requests over a pool of workers with batches of changing size and retries, and hands its records to exporters.
  A recorder keeps the last block that was dispatched, another one the exceptions. A fixing controller goes down
  from a block and repairs what differs from the chain.

  \<^bold>\<open>The theories\<close>, with the code they model (under \<open>src/\<close>):
  \<^item> \<open>Prelude\<close>: exceptions as values, dictionaries in insertion order, sorting and grouping, actions that keep
    their state when they raise.
  \<^item> \<open>Utils\<close>: \<open>indexer/utils/utils.py\<close> and \<open>common/utils/exception_control.py\<close>. \<open>Wire\<close>: bytes, hexadecimal
    text, JSON, and the third-party functions as the record \<open>ext\<close>. \<open>Domain\<close>: the data classes of
    \<open>indexer/domain\<close> and the requests of \<open>json_rpc_requests.py\<close>. \<open>Dataclass\<close>: the generic conversion of
    \<open>indexer/domain/__init__.py\<close>. \<open>Abi\<close>: \<open>indexer/utils/abi.py\<close>.
  \<^item> \<open>Executor\<close>: \<open>indexer/executors/batch_work_executor.py\<close> with its progress logger, as a step relation over
    an executor, the source of the batches and the futures in flight; every interleaving is a run.
  \<^item> \<open>Scheduler\<close>: \<open>indexer/jobs/job_scheduler.py\<close>, the closure and order of the jobs.
    \<open>Entities\<close>: \<open>enumeration/entity_type.py\<close>, the selection of output types in \<open>cli/stream.py\<close>, the job classes
    of the program and the token cache. \<open>Recorders\<close>: the sync
    and exception recorders. \<open>Jobs\<close>: the buffer, \<open>BaseJob.run\<close> and the dispatcher. \<open>Stream\<close>: the controller.
  \<^item> \<open>Blocks\<close>, \<open>TokenTransfers\<close>, \<open>Balances\<close>, \<open>TokenIds\<close>, \<open>Traces\<close>: the jobs of \<open>indexer/jobs\<close>, each with
    its requests, what it makes of the answers and its final sorting; \<open>TokensJob\<close>: the token job as one run of its
    four executors. \<open>Enrich\<close>: the joins of
    \<open>indexer/utils/enrich.py\<close>.
  \<^item> \<open>Models\<close>, \<open>Exporters\<close>: the tables of \<open>common/models\<close> with their converters, and the PostgreSQL exporter
    with its updates on conflict. \<open>Migrations\<close>: the scripts of \<open>migrations/versions\<close>.
  \<^item> \<open>Arbitrum\<close>, \<open>Bedrock\<close>: \<open>indexer/modules/bridge\<close>, the messages between the layers. \<open>UserOps\<close>,
    \<open>Activeness\<close>, \<open>Uniswap\<close>: \<open>indexer/modules/user_ops\<close> and \<open>indexer/modules/custom\<close>.
  \<^item> \<open>Fixing\<close>: \<open>indexer/controller/fixing_controller.py\<close> and its table.
  \<^item> \<open>FileExporters\<close>: \<open>json_file_item_exporter.py\<close> and \<open>csv_file_item_exporter.py\<close> over a file system.
  \<^item> \<open>WebUtils\<close>, \<open>BridgeView\<close>: what the HTTP service computes: the call trees of \<open>common/utils/web3_utils.py\<close>,
    the type texts of \<open>api/app/utils/utils.py\<close> and the views of bridge transactions of
    \<open>common/utils/bridge_utils.py\<close>. \<open>Views\<close>: the lists of transactions, logs and transfers of \<open>api/app/utils/utils.py\<close>
    and \<open>db_service/tokens.py\<close>, and the names of addresses of \<open>db_service/wallet_addresses.py\<close>. \<open>Routes\<close>: pages of
    transactions, search and calls of a transaction in \<open>api/app/explorer/routes.py\<close>; \<open>Explorer\<close>: its blocks, tokens,
    transfers, holdings and profiles with their queries of \<open>db_service\<close>; \<open>Exports\<close>: its CSV exports, statistics and
    charts. \<open>Rollups\<close>: \<open>api/app/l2_explorer/routes.py\<close>,
    batches and bridge transactions. \<open>Verification\<close>: the client of the verification service,
    \<open>api/app/contract/contract_verify.py\<close>, and \<open>api/app/web3_utils.py\<close>.

  \<^bold>\<open>State.\<close> A world (\<open>Jobs.world\<close>) is the buffer of a job, what is outside of it and the recorder of exceptions; an
  operation that may raise is an action, a function from a state to the state it leaves with a value or an
  exception. Data that the code shares and changes in place are read through an explicit store: the request
  dictionaries of \<open>Uniswap\<close>, the transactions of \<open>Blocks\<close> that receipts fill in. Threads of one job are the
  interleavings of \<open>Executor\<close>; those of several jobs are not run together by the code.

  \<^bold>\<open>What the lemmas show.\<close> The scheduler starts a job after what it depends on and reports cycles; the stream
  dispatches each block of its range exactly once in ascending ranges, gives up exactly when a failure may not be
  retried or is the last one of as many in a row as configured, and else reaches
  its end; the executor ends, keeps its batch size in bounds and passes on every item exactly once, but after one
  exception raises it again whenever it is used. The jobs extract what the logs, receipts and traces hold: all transfers, all
  deposits paired with their messages, each position that changed. Parsers and encoders are inverse to each
  other, sorting keeps the last state of each key, joins agree with the nested loop. Exporting the same items again at a
  later time changes nothing but update times where updates have no condition; no export removes a row or, where updates
  compare the block number, goes back to an older block. The scripts of the migrations build the tables of the models. Some
  theorems state what goes wrong where the code does.

  \<^bold>\<open>Bounds and fuel.\<close> The stream loop takes as many turns as its fuel says: \<open>stream_reaches_end\<close> gives the
  number that is enough. The executor is a relation without fuel; \<open>executor_terminates\<close> bounds its steps. The
  retry loop of the fixing controller may never end: it is a partial function, and \<open>retried_fixing_returns_iff\<close>
  says when it returns. All other loops are structural or have a measure.

  \<^bold>\<open>Not modelled.\<close> Third-party code is a parameter: the ABI codec, keccak, checksums and RLP are fields of \<open>ext\<close>
  and of its extensions, the node is a function from requests to answers, databases are lists of rows. The
  set-up of the HTTP service, the command line (\<open>cli\<close>) and the provider that talks HTTP are
  input and output around this core and are left out, as are the merging of CSV files (done by pandas), logging,
  sleeping; a clock is an argument. Floating point numbers are read and printed but not computed with. The collecting step of a job is
  one step of \<open>Jobs\<close>: workers that an executor leaves behind when it raises, which the code neither cancels nor awaits,
  are states of \<open>Executor\<close> but do not write to the buffer of \<open>Jobs\<close>. The chain does not change while a fixing job runs. The job
  that fixes one block has no code.
\<close>

end
